(* ===== verification/Prelude.thy ===== *)
theory Prelude
  imports Main "HOL-Library.Word" "HOL-Library.AList"
begin

section \<open>Shared types, containers and arithmetic\<close>

text \<open>
  The vocabulary every component theory uses.
  \<^item> Machine integers are words of the width the Rust type has; \<open>+\<close>, \<open>-\<close> and \<open>*\<close> wrap, as
    they do in the release profile of Cargo.toml, which does not switch overflow checks on.
  \<^item> A fallible operation returns an \<open>outcome\<close>: \<open>Ok\<close>, \<open>Err\<close> or \<open>Panic\<close>.
  \<^item> A \<open>HashMap\<close> is an association list; the order of the list stands for the iteration order,
    which Rust leaves unspecified, so a theorem about every list covers every order.
  \<^item> A point in time is a number of nanoseconds since the epoch, of type \<open>int\<close>.
\<close>

type_synonym u8 = "8 word"
type_synonym u16 = "16 word"
type_synonym u32 = "32 word"
type_synonym u64 = "64 word"
type_synonym i64 = "64 word"
type_synonym timestamp = int

datatype ('a, 'e) outcome = Ok 'a | Err 'e | Panic

fun is_ok :: "('a, 'e) outcome \<Rightarrow> bool" where
  "is_ok (Ok _) = True"
| "is_ok _ = False"

lemma is_ok_iff: "is_ok r \<longleftrightarrow> (\<exists>x. r = Ok x)"
  by (cases r) auto

subsection \<open>Word arithmetic without wrap-around\<close>

named_theorems word_nat \<open>words read as natural numbers\<close>

lemma unat_add_nowrap [word_nat]:
  fixes a b :: "'a::len word"
  assumes "unat a + unat b < 2 ^ LENGTH('a)"
  shows "unat (a + b) = unat a + unat b"
  using assms by (simp add: unat_add_lem)

lemma unat_sub_le [word_nat]:
  fixes a b :: "'a::len word"
  assumes "b \<le> a"
  shows "unat (a - b) = unat a - unat b"
  using assms by (rule unat_sub)

lemma unat_less_64 [simp]: "unat (a :: u64) < 18446744073709551616"
  using unsigned_less [of a, where 'a = nat] by simp

text \<open>Rust's \<open>saturating_sub\<close> and \<open>saturating_add\<close> on unsigned integers.\<close>

definition sat_sub :: "'a::len word \<Rightarrow> 'a word \<Rightarrow> 'a word" where
  "sat_sub a b = (if b \<le> a then a - b else 0)"

definition sat_add :: "'a::len word \<Rightarrow> 'a word \<Rightarrow> 'a word" where
  "sat_add a b = (if unat a + unat b < 2 ^ LENGTH('a) then a + b else - 1)"

lemma unat_sat_sub [simp]: "unat (sat_sub a b) = unat a - unat b"
  by (auto simp: sat_sub_def word_nat word_le_nat_alt)

lemma sat_sub_le: "sat_sub a b \<le> a"
  by (simp add: word_le_nat_alt)

lemma unat_sat_add: "unat (sat_add a b) = min (unat a + unat b) (2 ^ LENGTH('a) - 1)"
  for a b :: "'a::len word"
proof -
  have m: "unat (- 1 :: 'a word) = 2 ^ LENGTH('a) - 1"
    by (simp add: unsigned_minus_1_eq_mask mask_eq_exp_minus_1)
  show ?thesis by (auto simp: sat_add_def m unat_add_nowrap min_def)
qed

subsection \<open>Hash maps as association lists\<close>

type_synonym ('k, 'v) hmap = "('k \<times> 'v) list"

abbreviation hm_get :: "('k, 'v) hmap \<Rightarrow> 'k \<Rightarrow> 'v option" where
  "hm_get m k \<equiv> map_of m k"

abbreviation hm_insert :: "'k \<Rightarrow> 'v \<Rightarrow> ('k, 'v) hmap \<Rightarrow> ('k, 'v) hmap" where
  "hm_insert k v m \<equiv> AList.update k v m"

abbreviation hm_remove :: "'k \<Rightarrow> ('k, 'v) hmap \<Rightarrow> ('k, 'v) hmap" where
  "hm_remove k m \<equiv> AList.delete k m"

definition hm_wf :: "('k, 'v) hmap \<Rightarrow> bool" where
  "hm_wf m \<longleftrightarrow> distinct (map fst m)"

definition hm_get_or :: "'v \<Rightarrow> ('k, 'v) hmap \<Rightarrow> 'k \<Rightarrow> 'v" where
  "hm_get_or d m k = (case hm_get m k of None \<Rightarrow> d | Some v \<Rightarrow> v)"

definition hm_retain :: "('k \<Rightarrow> 'v \<Rightarrow> bool) \<Rightarrow> ('k, 'v) hmap \<Rightarrow> ('k, 'v) hmap" where
  "hm_retain p m = filter (\<lambda>(k, v). p k v) m"

lemma hm_wf_Nil [simp]: "hm_wf []"
  by (simp add: hm_wf_def)

lemma hm_wf_insert [simp]: "hm_wf m \<Longrightarrow> hm_wf (hm_insert k v m)"
  by (simp add: hm_wf_def distinct_update)

lemma hm_wf_remove [simp]: "hm_wf m \<Longrightarrow> hm_wf (hm_remove k m)"
  by (simp add: hm_wf_def distinct_delete)

lemma hm_wf_retain [simp]: "hm_wf m \<Longrightarrow> hm_wf (hm_retain p m)"
  by (induction m) (auto simp: hm_wf_def hm_retain_def)

lemma hm_get_insert [simp]: "hm_get (hm_insert k v m) = (hm_get m)(k \<mapsto> v)"
  by (simp add: fun_eq_iff update_conv')

lemma hm_get_remove [simp]: "hm_get (hm_remove k m) = (hm_get m)(k := None)"
  by (simp add: fun_eq_iff delete_conv')

lemma hm_get_or_insert [simp]:
  "hm_get_or d (hm_insert k v m) k' = (if k' = k then v else hm_get_or d m k')"
  by (simp add: hm_get_or_def)

lemma hm_get_retain_key:
  "hm_get (hm_retain (\<lambda>k _. p k) m) k = (if p k then hm_get m k else None)"
  by (induction m) (auto simp: hm_retain_def)

lemma hm_get_or_retain_key:
  "hm_get_or d (hm_retain (\<lambda>k _. p k) m) k = (if p k then hm_get_or d m k else d)"
  by (simp add: hm_get_or_def hm_get_retain_key)

lemma hm_get_None_iff: "hm_get m k = None \<longleftrightarrow> k \<notin> fst ` set m"
  by (rule map_of_eq_None_iff)

lemma hm_get_mem: "hm_wf m \<Longrightarrow> (k, v) \<in> set m \<Longrightarrow> hm_get m k = Some v"
  by (simp add: hm_wf_def)

lemma hm_get_SomeD: "hm_get m k = Some v \<Longrightarrow> (k, v) \<in> set m"
  by (rule map_of_SomeD)

text \<open>Sums over the values of a map, and how the map operations change them.\<close>

definition hm_sum :: "('v \<Rightarrow> nat) \<Rightarrow> ('k, 'v) hmap \<Rightarrow> nat" where
  "hm_sum f m = sum_list (map (f \<circ> snd) m)"

lemma hm_sum_Nil [simp]: "hm_sum f [] = 0"
  by (simp add: hm_sum_def)

lemma hm_sum_Cons [simp]: "hm_sum f (kv # m) = f (snd kv) + hm_sum f m"
  by (simp add: hm_sum_def)

lemma hm_sum_insert_fresh:
  "hm_get m k = None \<Longrightarrow> hm_sum f (hm_insert k v m) = hm_sum f m + f v"
  by (induction m) (auto split: if_splits)

lemma hm_sum_insert_old:
  "hm_get m k = Some u \<Longrightarrow> hm_wf m \<Longrightarrow>
    hm_sum f (hm_insert k v m) + f u = hm_sum f m + f v"
  by (induction m) (auto simp: hm_wf_def split: if_splits)

lemma hm_sum_ge: "hm_get m k = Some u \<Longrightarrow> f u \<le> hm_sum f m"
  by (induction m) (auto split: if_splits)

lemma hm_sum_remove:
  "hm_get m k = Some u \<Longrightarrow> hm_wf m \<Longrightarrow> hm_sum f (hm_remove k m) + f u = hm_sum f m"
proof (induction m)
  case (Cons kv m)
  show ?case
  proof (cases "fst kv = k")
    case True
    with Cons.prems have "hm_get m k = None" by (auto simp: hm_wf_def hm_get_None_iff)
    then have "hm_remove k m = m" by (simp add: delete_id hm_get_None_iff)
    with True Cons.prems show ?thesis by (cases kv) auto
  next
    case False
    with Cons show ?thesis by (cases kv) (auto simp: hm_wf_def)
  qed
qed simp

subsection \<open>Keeping the newest entries of a log\<close>

definition keep_last :: "nat \<Rightarrow> 'a list \<Rightarrow> 'a list" where
  "keep_last n xs = (if n < length xs then drop (length xs - n) xs else xs)"

lemma length_keep_last: "length (keep_last n xs) = min n (length xs)"
  by (simp add: keep_last_def)

lemma keep_last_short [simp]: "length xs \<le> n \<Longrightarrow> keep_last n xs = xs"
  by (simp add: keep_last_def)

lemma keep_last_suffix: "\<exists>ys. xs = ys @ keep_last n xs"
proof (cases "n < length xs")
  case True
  have "xs = take (length xs - n) xs @ keep_last n xs" using True by (simp add: keep_last_def)
  then show ?thesis by blast
qed (simp add: keep_last_def)

lemma keep_last_snoc: "0 < n \<Longrightarrow> \<exists>ys. keep_last n (xs @ [x]) = ys @ [x]"
  by (cases "n < length (xs @ [x])") (auto simp: keep_last_def)

lemma last_keep_last [simp]: "0 < n \<Longrightarrow> last (keep_last n (xs @ [x])) = x"
  using keep_last_snoc [of n xs x] by auto

lemma set_keep_last: "set (keep_last n xs) \<subseteq> set xs"
  by (auto simp: keep_last_def dest: in_set_dropD)

subsection \<open>Lists\<close>

text \<open>A stable sort by an order that puts \<open>x\<close> before \<open>y\<close> when \<open>lt x y\<close>.\<close>

fun insert_by :: "('a \<Rightarrow> 'a \<Rightarrow> bool) \<Rightarrow> 'a \<Rightarrow> 'a list \<Rightarrow> 'a list" where
  "insert_by lt x [] = [x]"
| "insert_by lt x (y # ys) = (if lt y x then y # insert_by lt x ys else x # y # ys)"

definition stable_sort :: "('a \<Rightarrow> 'a \<Rightarrow> bool) \<Rightarrow> 'a list \<Rightarrow> 'a list" where
  "stable_sort lt xs = foldr (insert_by lt) xs []"

fun replace_first :: "('a \<Rightarrow> bool) \<Rightarrow> 'a \<Rightarrow> 'a list \<Rightarrow> 'a list" where
  "replace_first p x [] = []"
| "replace_first p x (y # ys) = (if p y then x # ys else y # replace_first p x ys)"

lemma set_insert_by [simp]: "set (insert_by lt x ys) = insert x (set ys)"
  by (induction ys) auto

lemma set_stable_sort [simp]: "set (stable_sort lt xs) = set xs"
proof -
  have "set (foldr (insert_by lt) xs []) = set xs" by (induction xs) auto
  then show ?thesis by (simp add: stable_sort_def)
qed

lemma length_insert_by [simp]: "length (insert_by lt x ys) = Suc (length ys)"
  by (induction ys) auto

lemma length_stable_sort [simp]: "length (stable_sort lt xs) = length xs"
proof -
  have "length (foldr (insert_by lt) xs []) = length xs" by (induction xs) auto
  then show ?thesis by (simp add: stable_sort_def)
qed

text \<open>The result is sorted when the order is a strict weak one.\<close>

lemma sorted_stable_sort_on:
  assumes trans: "\<And>x y z. x \<in> A \<Longrightarrow> y \<in> A \<Longrightarrow> z \<in> A \<Longrightarrow> \<not> lt y x \<Longrightarrow> \<not> lt z y \<Longrightarrow> \<not> lt z x"
    and asym: "\<And>x y. x \<in> A \<Longrightarrow> y \<in> A \<Longrightarrow> lt x y \<Longrightarrow> \<not> lt y x"
    and xs: "set xs \<subseteq> A"
  shows "sorted_wrt (\<lambda>x y. \<not> lt y x) (stable_sort lt xs)"
proof -
  have ins: "x \<in> A \<Longrightarrow> set ys \<subseteq> A \<Longrightarrow> sorted_wrt (\<lambda>x y. \<not> lt y x) ys \<Longrightarrow>
      sorted_wrt (\<lambda>x y. \<not> lt y x) (insert_by lt x ys)" for x ys
  proof (induction ys)
    case (Cons y ys)
    then have "\<not> lt z x" if "\<not> lt y x" "z \<in> set ys" for z using that trans [of x y z] by auto
    moreover have "\<not> lt x y" if "lt y x" using asym [of y x] Cons.prems that by auto
    ultimately show ?case using Cons by simp
  qed simp
  have "set (foldr (insert_by lt) xs []) = set xs \<and> sorted_wrt (\<lambda>x y. \<not> lt y x) (foldr (insert_by lt) xs [])"
    using xs by (induction xs) (auto intro: ins)
  then show ?thesis by (simp add: stable_sort_def)
qed

lemma sorted_stable_sort:
  assumes "\<And>x y z. \<not> lt y x \<Longrightarrow> \<not> lt z y \<Longrightarrow> \<not> lt z x" and "\<And>x y. lt x y \<Longrightarrow> \<not> lt y x"
  shows "sorted_wrt (\<lambda>x y. \<not> lt y x) (stable_sort lt xs)"
proof (rule sorted_stable_sort_on [where A = UNIV])
  fix x y z assume "\<not> lt y x" "\<not> lt z y"
  then show "\<not> lt z x" by (rule assms(1))
next
  fix x y assume "lt x y"
  then show "\<not> lt y x" by (rule assms(2))
qed simp

end
