(* ===== verification/Wallet.thy ===== *)
theory Wallet
  imports Prelude
begin

section \<open>The token wallet: balances, escrows, ledger, spending limits\<close>

text \<open>
  Models \<^verbatim>\<open>src/wallet/mod.rs\<close>, \<^verbatim>\<open>escrow.rs\<close>, \<^verbatim>\<open>transaction.rs\<close> and \<^verbatim>\<open>balance.rs\<close>. A wallet is
  its in-memory state, its configuration and the copy of the state the database holds. Every
  operation takes a \<open>call_env\<close>, the readings it makes of the outside world: the clock, the random
  identifiers, whether the database accepts the write, and chrono's addition of seconds to a
  time, which is \<open>None\<close> where chrono panics.
\<close>

subsection \<open>Data\<close>

type_synonym escrow_id = string
type_synonym transaction_id = string

datatype escrow_status = Active | Released | Refunded | Expired

fun display_escrow_status :: "escrow_status \<Rightarrow> string" where
  "display_escrow_status Active = ''Active''"
| "display_escrow_status Released = ''Released''"
| "display_escrow_status Refunded = ''Refunded''"
| "display_escrow_status Expired = ''Expired''"

record escrow =
  esc_id :: escrow_id
  esc_amount :: u64
  esc_recipient :: string
  esc_job_id :: string
  esc_created_at :: timestamp
  esc_expires_at :: timestamp
  esc_status :: escrow_status
  esc_resolved_at :: "timestamp option"

datatype transaction_type =
    Credit string
  | Debit string
  | EscrowCreated escrow_id
  | EscrowReleased escrow_id
  | EscrowRefunded escrow_id
  | Stake
  | Unstake
  | Slash string
  | TransferOut string
  | TransferIn string

fun display_transaction_type :: "transaction_type \<Rightarrow> string" where
  "display_transaction_type (Credit reason) = ''Credit ('' @ reason @ '')''"
| "display_transaction_type (Debit reason) = ''Debit ('' @ reason @ '')''"
| "display_transaction_type (EscrowCreated i) = ''Escrow Created ('' @ i @ '')''"
| "display_transaction_type (EscrowReleased i) = ''Escrow Released ('' @ i @ '')''"
| "display_transaction_type (EscrowRefunded i) = ''Escrow Refunded ('' @ i @ '')''"
| "display_transaction_type Stake = ''Stake''"
| "display_transaction_type Unstake = ''Unstake''"
| "display_transaction_type (Slash reason) = ''Slash ('' @ reason @ '')''"
| "display_transaction_type (TransferOut r) = ''Transfer to '' @ r"
| "display_transaction_type (TransferIn s) = ''Transfer from '' @ s"

datatype transaction_direction = In | Out | Internal

fun display_transaction_direction :: "transaction_direction \<Rightarrow> string" where
  "display_transaction_direction In = ''+''"
| "display_transaction_direction Out = ''-''"
| "display_transaction_direction Internal = ''~''"

record transaction =
  tx_id :: transaction_id
  tx_type :: transaction_type
  tx_amount :: u64
  tx_timestamp :: timestamp
  tx_direction :: transaction_direction

datatype wallet_error =
    InsufficientBalance u64 u64 \<comment> \<open>available, required\<close>
  | EscrowNotFound escrow_id
  | EscrowAlreadyResolved escrow_id
  | InvalidSignature
  | TransactionNotFound transaction_id
  | InvalidAmount string
  | Database string
  | Serialization string
  | SpendingLimitExceeded string u64 \<comment> \<open>limit type, limit\<close>

record wallet_config =
  max_spend_per_tx :: u64
  max_spend_per_hour :: u64
  max_spend_per_day :: u64
  reserve_balance :: u64

text \<open>The constants are \<open>to_micro\<close> of 100, 500, 2000 and 100 PCLAW, exact in \<open>f64\<close>.\<close>

definition MICRO_PCLAW :: u64 where
  "MICRO_PCLAW = 1000000"

definition default_wallet_config :: wallet_config where
  "default_wallet_config =
     \<lparr>max_spend_per_tx = 100 * MICRO_PCLAW, max_spend_per_hour = 500 * MICRO_PCLAW,
      max_spend_per_day = 2000 * MICRO_PCLAW, reserve_balance = 100 * MICRO_PCLAW\<rparr>"

record wallet_state =
  available :: u64
  in_escrow :: u64
  staked :: u64
  escrows :: "(escrow_id, escrow) hmap"
  transactions :: "transaction list"
  hourly_spend :: "(u64, u64) hmap"
  daily_spend :: "(u64, u64) hmap"

definition default_wallet_state :: wallet_state where
  "default_wallet_state =
     \<lparr>available = 0, in_escrow = 0, staked = 0, escrows = [], transactions = [],
      hourly_spend = [], daily_spend = []\<rparr>"

record wallet =
  w_state :: wallet_state
  w_config :: wallet_config
  w_stored :: "wallet_state option"

record balance_snapshot =
  bs_available :: u64
  bs_in_escrow :: u64
  bs_staked :: u64
  bs_total :: u64

record call_env =
  env_now :: timestamp
  env_tx_id :: transaction_id
  env_sweep_tx_id :: "escrow_id \<Rightarrow> transaction_id" \<comment> \<open>drawn anew for each refund of a sweep\<close>
  env_escrow_id :: escrow_id
  env_store_error :: "string option"
  env_add_secs :: "timestamp \<Rightarrow> i64 \<Rightarrow> timestamp option"

subsection \<open>Transactions and escrows\<close>

definition new_transaction ::
  "call_env \<Rightarrow> transaction_type \<Rightarrow> u64 \<Rightarrow> transaction_direction \<Rightarrow> transaction" where
  "new_transaction e ty amount dir =
     \<lparr>tx_id = env_tx_id e, tx_type = ty, tx_amount = amount, tx_timestamp = env_now e,
      tx_direction = dir\<rparr>"

definition new_credit :: "call_env \<Rightarrow> u64 \<Rightarrow> string \<Rightarrow> transaction" where
  "new_credit e amount reason = new_transaction e (Credit reason) amount In"

definition new_debit :: "call_env \<Rightarrow> u64 \<Rightarrow> string \<Rightarrow> transaction" where
  "new_debit e amount reason = new_transaction e (Debit reason) amount Out"

definition new_escrow_created :: "call_env \<Rightarrow> u64 \<Rightarrow> escrow_id \<Rightarrow> transaction" where
  "new_escrow_created e amount i = new_transaction e (EscrowCreated i) amount Out"

definition new_escrow_released :: "call_env \<Rightarrow> u64 \<Rightarrow> escrow_id \<Rightarrow> transaction" where
  "new_escrow_released e amount i = new_transaction e (EscrowReleased i) amount Internal"

definition new_escrow_refunded :: "call_env \<Rightarrow> u64 \<Rightarrow> escrow_id \<Rightarrow> transaction" where
  "new_escrow_refunded e amount i = new_transaction e (EscrowRefunded i) amount In"

definition new_stake :: "call_env \<Rightarrow> u64 \<Rightarrow> transaction" where
  "new_stake e amount = new_transaction e Stake amount Internal"

definition new_unstake :: "call_env \<Rightarrow> u64 \<Rightarrow> transaction" where
  "new_unstake e amount = new_transaction e Unstake amount Internal"

definition new_slash :: "call_env \<Rightarrow> u64 \<Rightarrow> string \<Rightarrow> transaction" where
  "new_slash e amount reason = new_transaction e (Slash reason) amount Out"

definition new_transfer_out :: "call_env \<Rightarrow> u64 \<Rightarrow> string \<Rightarrow> transaction" where
  "new_transfer_out e amount recipient = new_transaction e (TransferOut recipient) amount Out"

definition new_transfer_in :: "call_env \<Rightarrow> u64 \<Rightarrow> string \<Rightarrow> transaction" where
  "new_transfer_in e amount sender = new_transaction e (TransferIn sender) amount In"

text \<open>The cast \<open>timeout_secs as i64\<close> keeps the bits, so the word itself is passed on.\<close>

definition escrow_new ::
  "call_env \<Rightarrow> u64 \<Rightarrow> string \<Rightarrow> string \<Rightarrow> u64 \<Rightarrow> escrow option" where
  "escrow_new e amount recipient job_id timeout_secs =
     (case env_add_secs e (env_now e) timeout_secs of
        None \<Rightarrow> None
      | Some expires \<Rightarrow>
          Some \<lparr>esc_id = env_escrow_id e, esc_amount = amount, esc_recipient = recipient,
                esc_job_id = job_id, esc_created_at = env_now e, esc_expires_at = expires,
                esc_status = Active, esc_resolved_at = None\<rparr>)"

definition escrow_is_expired_at :: "escrow \<Rightarrow> timestamp \<Rightarrow> bool" where
  "escrow_is_expired_at x now \<longleftrightarrow> esc_expires_at x < now"

definition escrow_is_active :: "timestamp \<Rightarrow> escrow \<Rightarrow> bool" where
  "escrow_is_active now x \<longleftrightarrow> esc_status x = Active \<and> \<not> escrow_is_expired_at x now"

definition escrow_time_remaining :: "timestamp \<Rightarrow> escrow \<Rightarrow> int" where
  "escrow_time_remaining now x = esc_expires_at x - now"

subsection \<open>Opening, saving and reading\<close>

fun load_state :: "(wallet_state option, string) outcome \<Rightarrow> (wallet_state, wallet_error) outcome" where
  "load_state (Ok (Some s)) = Ok s"
| "load_state (Ok None) = Ok default_wallet_state"
| "load_state (Err m) = Err (Database m)"
| "load_state Panic = Panic"

definition wallet_new ::
  "wallet_config \<Rightarrow> (wallet_state option, string) outcome \<Rightarrow> (wallet, wallet_error) outcome" where
  "wallet_new cfg db =
     (case load_state db of
        Ok s \<Rightarrow> Ok \<lparr>w_state = s, w_config = cfg,
                    w_stored = (case db of Ok x \<Rightarrow> x | _ \<Rightarrow> None)\<rparr>
      | Err x \<Rightarrow> Err x
      | Panic \<Rightarrow> Panic)"

text \<open>
  \<open>save_state\<close> stores the state in memory. \<open>finish\<close> is the common tail of the operations: the
  new state is already in memory when the write is tried.
\<close>

definition save_state :: "call_env \<Rightarrow> wallet \<Rightarrow> (unit, wallet_error) outcome \<times> wallet" where
  "save_state e w =
     (case env_store_error e of
        None \<Rightarrow> (Ok (), w\<lparr>w_stored := Some (w_state w)\<rparr>)
      | Some m \<Rightarrow> (Err (Database m), w))"

definition finish ::
  "call_env \<Rightarrow> wallet \<Rightarrow> wallet_state \<Rightarrow> 'a \<Rightarrow> ('a, wallet_error) outcome \<times> wallet" where
  "finish e w s r =
     (case save_state e (w\<lparr>w_state := s\<rparr>) of
        (Ok _, w') \<Rightarrow> (Ok r, w')
      | (Err x, w') \<Rightarrow> (Err x, w')
      | (Panic, w') \<Rightarrow> (Panic, w'))"

definition wallet_balance :: "wallet \<Rightarrow> balance_snapshot" where
  "wallet_balance w =
     \<lparr>bs_available = available (w_state w), bs_in_escrow = in_escrow (w_state w),
      bs_staked = staked (w_state w),
      bs_total = available (w_state w) + in_escrow (w_state w) + staked (w_state w)\<rparr>"

definition recent_transactions :: "wallet \<Rightarrow> nat \<Rightarrow> transaction list" where
  "recent_transactions w limit =
     drop (length (transactions (w_state w)) - limit) (transactions (w_state w))"

definition active_escrows :: "wallet \<Rightarrow> escrow list" where
  "active_escrows w = filter (\<lambda>x. esc_status x = Active) (map snd (escrows (w_state w)))"

subsection \<open>Operations\<close>

definition credit ::
  "call_env \<Rightarrow> u64 \<Rightarrow> string \<Rightarrow> wallet \<Rightarrow> (transaction, wallet_error) outcome \<times> wallet" where
  "credit e amount reason w =
     (if amount = 0 then (Err (InvalidAmount ''Amount must be > 0''), w)
      else
        let s = w_state w; tx = new_credit e amount reason
        in finish e w
             (s\<lparr>available := available s + amount,
                transactions := keep_last 1000 (transactions s @ [tx])\<rparr>) tx)"

text \<open>The clock as the trackers read it: whole seconds as \<open>u64\<close>, then hours and days.\<close>

definition now_secs :: "timestamp \<Rightarrow> u64" where
  "now_secs t = word_of_int (t div 1000000000)"

definition hour_key :: "timestamp \<Rightarrow> u64" where
  "hour_key t = now_secs t div 3600"

definition day_key :: "timestamp \<Rightarrow> u64" where
  "day_key t = now_secs t div 86400"

definition check_spending_limits :: "call_env \<Rightarrow> u64 \<Rightarrow> wallet \<Rightarrow> (unit, wallet_error) outcome" where
  "check_spending_limits e amount w =
     (let c = w_config w; s = w_state w in
      if max_spend_per_tx c < amount
      then Err (SpendingLimitExceeded ''per-transaction'' (max_spend_per_tx c))
      else if max_spend_per_hour c < hm_get_or 0 (hourly_spend s) (hour_key (env_now e)) + amount
      then Err (SpendingLimitExceeded ''hourly'' (max_spend_per_hour c))
      else if max_spend_per_day c < hm_get_or 0 (daily_spend s) (day_key (env_now e)) + amount
      then Err (SpendingLimitExceeded ''daily'' (max_spend_per_day c))
      else Ok ())"

definition effective_available :: "wallet \<Rightarrow> u64" where
  "effective_available w = sat_sub (available (w_state w)) (reserve_balance (w_config w))"

definition record_spend :: "timestamp \<Rightarrow> u64 \<Rightarrow> wallet_state \<Rightarrow> wallet_state" where
  "record_spend now amount s =
     (let h = hour_key now; d = day_key now;
          hs = hm_insert h (hm_get_or 0 (hourly_spend s) h + amount) (hourly_spend s);
          ds = hm_insert d (hm_get_or 0 (daily_spend s) d + amount) (daily_spend s)
      in s\<lparr>hourly_spend := hm_retain (\<lambda>k _. sat_sub h 24 < k) hs,
           daily_spend := hm_retain (\<lambda>k _. sat_sub d 30 < k) ds\<rparr>)"

text \<open>
  \<open>debit\<close> checks the limits under the read lock, gives the lock up and then takes the write lock:
  \<open>debit_commit\<close> is what it does under the second lock. The source reads the clock for each of the two,
  \<open>debit\<close> here once: it is the operation whose two readings fall in the same hour. For others the two
  parts are there with an environment each.
\<close>

definition debit_commit ::
  "call_env \<Rightarrow> u64 \<Rightarrow> string \<Rightarrow> wallet \<Rightarrow> (transaction, wallet_error) outcome \<times> wallet" where
  "debit_commit e amount reason w =
     (if effective_available w < amount
      then (Err (InsufficientBalance (effective_available w) amount), w)
      else
        let s = w_state w;
            s = s\<lparr>available := available s - amount\<rparr>;
            s = record_spend (env_now e) amount s;
            tx = new_debit e amount reason
        in finish e w (s\<lparr>transactions := transactions s @ [tx]\<rparr>) tx)"

definition debit ::
  "call_env \<Rightarrow> u64 \<Rightarrow> string \<Rightarrow> wallet \<Rightarrow> (transaction, wallet_error) outcome \<times> wallet" where
  "debit e amount reason w =
     (case check_spending_limits e amount w of
        Ok _ \<Rightarrow> debit_commit e amount reason w
      | Err x \<Rightarrow> (Err x, w)
      | Panic \<Rightarrow> (Panic, w))"

text \<open>
  If chrono panics on the time-out, the balances have been changed already: the tokio lock is not
  poisoned by a panic, so the half-done state stays.
\<close>

definition create_escrow_commit ::
  "call_env \<Rightarrow> u64 \<Rightarrow> string \<Rightarrow> string \<Rightarrow> u64 \<Rightarrow> wallet \<Rightarrow> (escrow, wallet_error) outcome \<times> wallet"
where
  "create_escrow_commit e amount recipient job_id timeout_secs w =
     (if effective_available w < amount
      then (Err (InsufficientBalance (effective_available w) amount), w)
      else
        let s = w_state w;
            s = s\<lparr>available := available s - amount, in_escrow := in_escrow s + amount\<rparr>
        in (case escrow_new e amount recipient job_id timeout_secs of
              None \<Rightarrow> (Panic, w\<lparr>w_state := s\<rparr>)
            | Some x \<Rightarrow>
                finish e w
                  (s\<lparr>escrows := hm_insert (esc_id x) x (escrows s),
                     transactions := transactions s @ [new_escrow_created e amount (esc_id x)]\<rparr>) x))"

definition create_escrow ::
  "call_env \<Rightarrow> u64 \<Rightarrow> string \<Rightarrow> string \<Rightarrow> u64 \<Rightarrow> wallet \<Rightarrow> (escrow, wallet_error) outcome \<times> wallet"
where
  "create_escrow e amount recipient job_id timeout_secs w =
     (case check_spending_limits e amount w of
        Ok _ \<Rightarrow> create_escrow_commit e amount recipient job_id timeout_secs w
      | Err x \<Rightarrow> (Err x, w)
      | Panic \<Rightarrow> (Panic, w))"

definition set_escrow_status :: "escrow_id \<Rightarrow> escrow_status \<Rightarrow> wallet_state \<Rightarrow> wallet_state" where
  "set_escrow_status i st s =
     (case hm_get (escrows s) i of
        None \<Rightarrow> s
      | Some x \<Rightarrow> s\<lparr>escrows := hm_insert i (x\<lparr>esc_status := st\<rparr>) (escrows s)\<rparr>)"

definition release_escrow ::
  "call_env \<Rightarrow> escrow_id \<Rightarrow> wallet \<Rightarrow>
     (transaction \<times> u64 \<times> string, wallet_error) outcome \<times> wallet" where
  "release_escrow e i w =
     (let s = w_state w in
      case hm_get (escrows s) i of
        None \<Rightarrow> (Err (EscrowNotFound i), w)
      | Some x \<Rightarrow>
          if esc_status x \<noteq> Active then (Err (EscrowAlreadyResolved i), w)
          else
            let amount = esc_amount x;
                s = set_escrow_status i Released s;
                s = s\<lparr>in_escrow := in_escrow s - amount\<rparr>;
                tx = new_escrow_released e amount i
            in finish e w (s\<lparr>transactions := transactions s @ [tx]\<rparr>)
                 (tx, amount, esc_recipient x))"

definition refund_escrow ::
  "call_env \<Rightarrow> escrow_id \<Rightarrow> wallet \<Rightarrow> (transaction, wallet_error) outcome \<times> wallet" where
  "refund_escrow e i w =
     (let s = w_state w in
      case hm_get (escrows s) i of
        None \<Rightarrow> (Err (EscrowNotFound i), w)
      | Some x \<Rightarrow>
          if esc_status x \<noteq> Active then (Err (EscrowAlreadyResolved i), w)
          else
            let amount = esc_amount x;
                s = set_escrow_status i Refunded s;
                s = s\<lparr>in_escrow := in_escrow s - amount, available := available s + amount\<rparr>;
                tx = new_escrow_refunded e amount i
            in finish e w (s\<lparr>transactions := transactions s @ [tx]\<rparr>) tx)"

definition stake ::
  "call_env \<Rightarrow> u64 \<Rightarrow> wallet \<Rightarrow> (transaction, wallet_error) outcome \<times> wallet" where
  "stake e amount w =
     (let s = w_state w in
      if available s < amount then (Err (InsufficientBalance (available s) amount), w)
      else
        let s = s\<lparr>available := available s - amount, staked := staked s + amount\<rparr>;
            tx = new_stake e amount
        in finish e w (s\<lparr>transactions := transactions s @ [tx]\<rparr>) tx)"

definition unstake ::
  "call_env \<Rightarrow> u64 \<Rightarrow> wallet \<Rightarrow> (transaction, wallet_error) outcome \<times> wallet" where
  "unstake e amount w =
     (let s = w_state w in
      if staked s < amount then (Err (InsufficientBalance (staked s) amount), w)
      else
        let s = s\<lparr>staked := staked s - amount, available := available s + amount\<rparr>;
            tx = new_unstake e amount
        in finish e w (s\<lparr>transactions := transactions s @ [tx]\<rparr>) tx)"

text \<open>
  The sweep first collects the identifiers, then refunds them one by one. The result of the
  final write is dropped.
\<close>

definition expired_ids :: "timestamp \<Rightarrow> wallet_state \<Rightarrow> escrow_id list" where
  "expired_ids now s =
     map fst (filter (\<lambda>(i, x). esc_status x = Active \<and> escrow_is_expired_at x now) (escrows s))"

definition sweep_one :: "call_env \<Rightarrow> escrow_id \<Rightarrow> wallet_state \<Rightarrow> wallet_state" where
  "sweep_one e i s =
     (case hm_get (escrows s) i of
        None \<Rightarrow> s
      | Some x \<Rightarrow>
          let amount = esc_amount x;
              s = set_escrow_status i Expired s
          in s\<lparr>in_escrow := sat_sub (in_escrow s) amount, available := available s + amount,
               transactions := transactions s @
                 [new_escrow_refunded (e\<lparr>env_tx_id := env_sweep_tx_id e i\<rparr>) amount i]\<rparr>)"

definition sweep_expired_escrows :: "call_env \<Rightarrow> wallet \<Rightarrow> escrow_id list \<times> wallet" where
  "sweep_expired_escrows e w =
     (let ids = expired_ids (env_now e) (w_state w);
          swept = filter (\<lambda>i. hm_get (escrows (w_state w)) i \<noteq> None) ids;
          w' = w\<lparr>w_state := fold (sweep_one e) ids (w_state w)\<rparr>
      in if swept = [] then (swept, w') else (swept, snd (save_state e w')))"

end
