(* ===== verification/Escrow_Interface.thy ===== *)
theory Escrow_Interface
  imports Prelude
begin

section \<open>What a client of the wallet relies on\<close>

text \<open>
  The job manager and the channel manager use the wallet through three calls: create an escrow,
  release it, refund it. \<open>escrow_provider\<close> states what they rely on; Wallet\_Correct interprets it
  on the wallet's own definitions. \<open>held w i\<close> is the amount an unresolved escrow \<open>i\<close> holds,
  \<open>funds w\<close> the tokens that can be spent, \<open>ready e w\<close> says that the environment draws a fresh
  identifier, that chrono can represent the expiry and that the database accepts the write.
\<close>

locale escrow_provider =
  fixes inv :: "'w \<Rightarrow> bool"
    and ready :: "'e \<Rightarrow> u64 \<Rightarrow> 'w \<Rightarrow> bool"
    and funds :: "'w \<Rightarrow> nat"
    and held :: "'w \<Rightarrow> 'i \<Rightarrow> nat option"
    and esc_key :: "'x \<Rightarrow> 'i"
    and create :: "'e \<Rightarrow> u64 \<Rightarrow> string \<Rightarrow> string \<Rightarrow> u64 \<Rightarrow> 'w \<Rightarrow> ('x, 'err) outcome \<times> 'w"
    and release :: "'e \<Rightarrow> 'i \<Rightarrow> 'w \<Rightarrow> ('t \<times> u64 \<times> string, 'err) outcome \<times> 'w"
    and refund :: "'e \<Rightarrow> 'i \<Rightarrow> 'w \<Rightarrow> ('u, 'err) outcome \<times> 'w"
  assumes create_Ok: "inv w \<Longrightarrow> ready e t w \<Longrightarrow> create e a r j t w = (Ok x, w') \<Longrightarrow>
      inv w' \<and> held w (esc_key x) = None \<and> held w' = (held w)(esc_key x \<mapsto> unat a) \<and>
      funds w' + unat a = funds w"
    and create_Err: "ready e t w \<Longrightarrow> create e a r j t w = (Err er, w') \<Longrightarrow> w' = w"
    and create_no_panic: "ready e t w \<Longrightarrow> fst (create e a r j t w) \<noteq> Panic"
    and release_held: "inv w \<Longrightarrow> ready e t w \<Longrightarrow> held w i = Some n \<Longrightarrow>
      \<exists>tx r w'. release e i w = (Ok (tx, word_of_nat n, r), w') \<and>
        inv w' \<and> held w' = (held w)(i := None) \<and> funds w' = funds w"
    and release_not_held: "held w i = None \<Longrightarrow> \<exists>er. release e i w = (Err er, w)"
    and refund_held: "inv w \<Longrightarrow> ready e t w \<Longrightarrow> held w i = Some n \<Longrightarrow>
      \<exists>tx w'. refund e i w = (Ok tx, w') \<and>
        inv w' \<and> held w' = (held w)(i := None) \<and> funds w' = funds w + n"
    and refund_not_held: "held w i = None \<Longrightarrow> \<exists>er. refund e i w = (Err er, w)"
begin

text \<open>A refund undoes a creation; a release keeps the price out; neither can be done twice.\<close>

lemma refund_undoes_create:
  assumes "inv w" and "ready e t w" and "create e a r j t w = (Ok x, w1)" and "ready e' t' w1"
  shows "\<exists>tx w2. refund e' (esc_key x) w1 = (Ok tx, w2) \<and> inv w2 \<and>
           held w2 = held w \<and> funds w2 = funds w"
proof -
  from create_Ok [OF assms(1-3)]
  have c: "inv w1" "held w (esc_key x) = None" "held w1 = (held w)(esc_key x \<mapsto> unat a)"
    "funds w1 + unat a = funds w"
    by auto
  then have "held w1 (esc_key x) = Some (unat a)" by simp
  from refund_held [OF c(1) assms(4) this] c show ?thesis by (auto simp: fun_eq_iff)
qed

lemma release_pays_price:
  assumes "inv w" and "ready e t w" and "create e a r j t w = (Ok x, w1)" and "ready e' t' w1"
  shows "\<exists>tx rc w2. release e' (esc_key x) w1 = (Ok (tx, a, rc), w2) \<and> inv w2 \<and>
           held w2 = held w \<and> funds w2 + unat a = funds w"
proof -
  from create_Ok [OF assms(1-3)]
  have c: "inv w1" "held w (esc_key x) = None" "held w1 = (held w)(esc_key x \<mapsto> unat a)"
    "funds w1 + unat a = funds w"
    by auto
  then have "held w1 (esc_key x) = Some (unat a)" by simp
  from release_held [OF c(1) assms(4) this] c show ?thesis by (auto simp: fun_eq_iff)
qed

lemma release_once:
  assumes "inv w" and "ready e t w" and "held w i = Some n" and "release e i w = (Ok y, w1)"
  shows "(\<exists>er. release e' i w1 = (Err er, w1)) \<and> (\<exists>er. refund e'' i w1 = (Err er, w1))"
proof -
  from release_held [OF assms(1-3)] assms(4) have "held w1 i = None" by auto
  then show ?thesis using release_not_held refund_not_held by blast
qed

end

text \<open>
  A client that also pays: crediting adds to the funds as long as the total of all tokens stays
  below a limit, and a release takes the price out of that total.
\<close>

locale paying_provider = escrow_provider inv ready funds held esc_key create release refund
  for inv :: "'w \<Rightarrow> bool"
    and ready :: "'e \<Rightarrow> u64 \<Rightarrow> 'w \<Rightarrow> bool"
    and funds :: "'w \<Rightarrow> nat"
    and held :: "'w \<Rightarrow> 'i \<Rightarrow> nat option"
    and esc_key :: "'x \<Rightarrow> 'i"
    and create :: "'e \<Rightarrow> u64 \<Rightarrow> string \<Rightarrow> string \<Rightarrow> u64 \<Rightarrow> 'w \<Rightarrow> ('x, 'err) outcome \<times> 'w"
    and release :: "'e \<Rightarrow> 'i \<Rightarrow> 'w \<Rightarrow> ('t \<times> u64 \<times> string, 'err) outcome \<times> 'w"
    and refund :: "'e \<Rightarrow> 'i \<Rightarrow> 'w \<Rightarrow> ('u, 'err) outcome \<times> 'w" +
  fixes stores :: "'e \<Rightarrow> bool"
    and total :: "'w \<Rightarrow> nat"
    and pay_in :: "'e \<Rightarrow> u64 \<Rightarrow> string \<Rightarrow> 'w \<Rightarrow> ('t, 'err) outcome \<times> 'w"
  assumes pay_in_Ok: "inv w \<Longrightarrow> stores e \<Longrightarrow> a \<noteq> 0 \<Longrightarrow> total w + unat a < 2 ^ 64 \<Longrightarrow>
      \<exists>tx w'. pay_in e a r w = (Ok tx, w') \<and> inv w' \<and> held w' = held w \<and>
        funds w' = funds w + unat a"
    and release_supply: "inv w \<Longrightarrow> held w i = Some n \<Longrightarrow> release e i w = (Ok y, w') \<Longrightarrow>
      total w' + n = total w"
    and supply_bound: "inv w \<Longrightarrow> total w < 2 ^ 64"
begin

text \<open>Releasing an escrow and crediting its price to the same wallet amounts to a refund.\<close>

lemma release_then_pay_in:
  assumes "inv w" and "ready e t w" and "held w i = Some n" and "0 < n" and "stores e'"
  shows "\<exists>tx r w1 tx' w2. release e i w = (Ok (tx, word_of_nat n, r), w1) \<and>
    pay_in e' (word_of_nat n) s w1 = (Ok tx', w2) \<and> inv w2 \<and>
    held w2 = (held w)(i := None) \<and> funds w2 = funds w + n"
proof -
  from release_held [OF assms(1-3)] obtain tx r w1
    where r: "release e i w = (Ok (tx, word_of_nat n, r), w1)" "inv w1"
      "held w1 = (held w)(i := None)" "funds w1 = funds w"
    by blast
  have s: "total w1 + n < 2 ^ 64"
    using release_supply [OF assms(1,3) r(1)] supply_bound [OF assms(1)] by simp
  then have n: "unat (word_of_nat n :: u64) = n" by (simp add: unsigned_of_nat take_bit_nat_eq_self)
  then have "(word_of_nat n :: u64) \<noteq> 0" using assms(4) by auto
  from pay_in_Ok [OF r(2) assms(5) this, of s] s n r show ?thesis by auto
qed

end

end
