(* ===== verification/Wallet_Correct.thy ===== *)
theory Wallet_Correct
  imports Wallet Escrow_Interface
begin

section \<open>Correctness of the wallet\<close>

text \<open>
  The invariant of the wallet state and its preservation by every atomic step, the accounting of
  tokens and of the ledger, the life cycle of an escrow, the spending limits (which hold for
  operations one after the other and fail for concurrent ones), the sweep, and the
  interpretation of the escrow interface.
\<close>

subsection \<open>Running to the end\<close>

lemma finish_state [simp]: "w_state (snd (finish e w s r)) = s"
  by (auto simp: finish_def save_state_def split: option.splits)

lemma finish_config [simp]: "w_config (snd (finish e w s r)) = w_config w"
  by (auto simp: finish_def save_state_def split: option.splits)

lemma finish_eq:
  "finish e w s r =
     (case env_store_error e of
        None \<Rightarrow> (Ok r, w\<lparr>w_state := s, w_stored := Some s\<rparr>)
      | Some m \<Rightarrow> (Err (Database m), w\<lparr>w_state := s\<rparr>))"
  by (simp add: finish_def save_state_def split: option.splits)

lemma save_state_state [simp]: "w_state (snd (save_state e w)) = w_state w"
  by (simp add: save_state_def split: option.splits)

lemma save_state_config [simp]: "w_config (snd (save_state e w)) = w_config w"
  by (simp add: save_state_def split: option.splits)

subsection \<open>The invariant\<close>

definition active_amount :: "escrow \<Rightarrow> nat" where
  "active_amount x = (if esc_status x = Active then unat (esc_amount x) else 0)"

definition token_supply :: "wallet_state \<Rightarrow> nat" where
  "token_supply s = unat (available s) + unat (in_escrow s) + unat (staked s)"

definition wallet_inv :: "wallet_state \<Rightarrow> bool" where
  "wallet_inv s \<longleftrightarrow>
     hm_wf (escrows s) \<and>
     unat (in_escrow s) = hm_sum active_amount (escrows s) \<and>
     token_supply s < 2 ^ 64"

lemma wallet_invD:
  assumes "wallet_inv s"
  shows "hm_wf (escrows s)" and "unat (in_escrow s) = hm_sum active_amount (escrows s)"
    and "unat (available s) + unat (in_escrow s) + unat (staked s) < 18446744073709551616"
  using assms by (auto simp: wallet_inv_def token_supply_def)

lemma active_held:
  assumes "wallet_inv s" and "hm_get (escrows s) i = Some x" and "esc_status x = Active"
  shows "esc_amount x \<le> in_escrow s"
  using hm_sum_ge [OF assms(2), of active_amount] assms
  by (simp add: wallet_inv_def active_amount_def word_le_nat_alt)

lemma effective_available_le:
  "\<not> effective_available w < amount \<Longrightarrow> amount \<le> available (w_state w)"
  unfolding effective_available_def by (meson linorder_not_less order_trans sat_sub_le)

lemma set_escrow_status_simps [simp]:
  "available (set_escrow_status i st s) = available s"
  "in_escrow (set_escrow_status i st s) = in_escrow s"
  "staked (set_escrow_status i st s) = staked s"
  "transactions (set_escrow_status i st s) = transactions s"
  "hourly_spend (set_escrow_status i st s) = hourly_spend s"
  "daily_spend (set_escrow_status i st s) = daily_spend s"
  by (auto simp: set_escrow_status_def split: option.splits)

lemma escrows_set_status:
  "hm_get (escrows s) i = Some x \<Longrightarrow>
    escrows (set_escrow_status i st s) = hm_insert i (x\<lparr>esc_status := st\<rparr>) (escrows s)"
  by (simp add: set_escrow_status_def)

lemma resolve_sum:
  assumes "wallet_inv s" and "hm_get (escrows s) i = Some x" and "esc_status x = Active"
    and "st \<noteq> Active"
  shows "hm_sum active_amount (hm_insert i (x\<lparr>esc_status := st\<rparr>) (escrows s)) + unat (esc_amount x)
       = hm_sum active_amount (escrows s)"
  using hm_sum_insert_old [OF assms(2) wallet_invD(1) [OF assms(1)],
      of active_amount "x\<lparr>esc_status := st\<rparr>"] assms(3,4)
  by (simp add: active_amount_def)

lemma record_spend_simps [simp]:
  "available (record_spend t a s) = available s"
  "in_escrow (record_spend t a s) = in_escrow s"
  "staked (record_spend t a s) = staked s"
  "escrows (record_spend t a s) = escrows s"
  "transactions (record_spend t a s) = transactions s"
  by (simp_all add: record_spend_def Let_def)

subsection \<open>Atomic steps and reachable wallets\<close>

text \<open>
  One step is what an operation does under the write lock, so a sequence of steps is any
  interleaving of any number of concurrent callers: the limit checks, which only read, can be
  interleaved anywhere and are left out. These are the steps that go well: a drawn escrow identifier
  is new, chrono does not panic, and no more tokens are credited than \<open>u64\<close> can count. \<open>Wallet_Runs\<close>
  relates them to runs of all operations, where creations may panic.
\<close>

inductive wstep :: "wallet \<Rightarrow> wallet \<Rightarrow> bool" where
  ws_credit: "token_supply (w_state w) + unat amount < 2 ^ 64 \<Longrightarrow>
    wstep w (snd (credit e amount reason w))"
| ws_debit: "wstep w (snd (debit_commit e amount reason w))"
| ws_create: "hm_get (escrows (w_state w)) (env_escrow_id e) = None \<Longrightarrow>
    env_add_secs e (env_now e) t \<noteq> None \<Longrightarrow>
    wstep w (snd (create_escrow_commit e amount r j t w))"
| ws_release: "wstep w (snd (release_escrow e i w))"
| ws_refund: "wstep w (snd (refund_escrow e i w))"
| ws_stake: "wstep w (snd (stake e amount w))"
| ws_unstake: "wstep w (snd (unstake e amount w))"
| ws_sweep: "wstep w (snd (sweep_expired_escrows e w))"
| ws_save: "wstep w (snd (save_state e w))"

definition fresh_wallet :: "wallet_config \<Rightarrow> wallet" where
  "fresh_wallet cfg = \<lparr>w_state = default_wallet_state, w_config = cfg, w_stored = None\<rparr>"

text \<open>
  What each commit does to the balances, as natural numbers, when it is not refused. The
  invariant and the ledger both follow from these.
\<close>

lemma credit_effect:
  fixes e :: call_env and w :: wallet and amount :: u64 and reason :: string
  assumes "token_supply (w_state w) + unat amount < 2 ^ 64" and "amount \<noteq> 0"
  defines "s \<equiv> w_state w" and "s' \<equiv> w_state (snd (credit e amount reason w))"
  shows "unat (available s') = unat (available s) + unat amount"
    and "in_escrow s' = in_escrow s" and "staked s' = staked s" and "escrows s' = escrows s"
    and "transactions s' = keep_last 1000 (transactions s @ [new_credit e amount reason])"
  using assms(1,2) by (simp_all add: s_def s'_def credit_def Let_def token_supply_def unat_add_nowrap)

lemma debit_effect:
  fixes e :: call_env and w :: wallet and amount :: u64 and reason :: string
  assumes "\<not> effective_available w < amount"
  defines "s \<equiv> w_state w" and "s' \<equiv> w_state (snd (debit_commit e amount reason w))"
  shows "unat (available s') + unat amount = unat (available s)"
    and "in_escrow s' = in_escrow s" and "staked s' = staked s" and "escrows s' = escrows s"
    and "transactions s' = transactions s @ [new_debit e amount reason]"
  using assms(1) effective_available_le [OF assms(1)]
  by (simp_all add: s_def s'_def debit_commit_def Let_def unat_sub_le word_le_nat_alt)

lemma create_effect:
  fixes e :: call_env and w :: wallet and amount t :: u64 and r j :: string
  assumes "wallet_inv (w_state w)" and "\<not> effective_available w < amount"
    and "escrow_new e amount r j t = Some x"
  defines "s \<equiv> w_state w" and "s' \<equiv> w_state (snd (create_escrow_commit e amount r j t w))"
  shows "unat (available s') + unat amount = unat (available s)"
    and "unat (in_escrow s') = unat (in_escrow s) + unat amount" and "staked s' = staked s"
    and "escrows s' = hm_insert (esc_id x) x (escrows s)"
    and "transactions s' = transactions s @ [new_escrow_created e amount (esc_id x)]"
proof -
  have nle: "unat amount \<le> unat (available s)"
    using effective_available_le [OF assms(2)] by (simp add: word_le_nat_alt s_def)
  have "unat (in_escrow s + amount) = unat (in_escrow s) + unat amount"
    using wallet_invD(3) [OF assms(1)] nle by (intro unat_add_nowrap) (simp add: s_def)
  with assms(2,3) nle show "unat (available s') + unat amount = unat (available s)"
    and "unat (in_escrow s') = unat (in_escrow s) + unat amount" and "staked s' = staked s"
    and "escrows s' = hm_insert (esc_id x) x (escrows s)"
    and "transactions s' = transactions s @ [new_escrow_created e amount (esc_id x)]"
    by (simp_all add: s_def s'_def create_escrow_commit_def Let_def unat_sub_le word_le_nat_alt)
qed

lemma release_effect:
  fixes e :: call_env and w :: wallet and i :: escrow_id
  assumes "wallet_inv (w_state w)" and "hm_get (escrows (w_state w)) i = Some x"
    and "esc_status x = Active"
  defines "s \<equiv> w_state w" and "s' \<equiv> w_state (snd (release_escrow e i w))"
  shows "available s' = available s" and "staked s' = staked s"
    and "unat (in_escrow s') + unat (esc_amount x) = unat (in_escrow s)"
    and "escrows s' = hm_insert i (x\<lparr>esc_status := Released\<rparr>) (escrows s)"
    and "transactions s' = transactions s @ [new_escrow_released e (esc_amount x) i]"
  using assms(2,3) active_held [OF assms(1-3)]
  by (simp_all add: s_def s'_def release_escrow_def Let_def escrows_set_status unat_sub_le
      word_le_nat_alt)

lemma refund_effect:
  fixes e :: call_env and w :: wallet and i :: escrow_id
  assumes "wallet_inv (w_state w)" and "hm_get (escrows (w_state w)) i = Some x"
    and "esc_status x = Active"
  defines "s \<equiv> w_state w" and "s' \<equiv> w_state (snd (refund_escrow e i w))"
  shows "unat (available s') = unat (available s) + unat (esc_amount x)" and "staked s' = staked s"
    and "unat (in_escrow s') + unat (esc_amount x) = unat (in_escrow s)"
    and "escrows s' = hm_insert i (x\<lparr>esc_status := Refunded\<rparr>) (escrows s)"
    and "transactions s' = transactions s @ [new_escrow_refunded e (esc_amount x) i]"
proof -
  have le: "unat (esc_amount x) \<le> unat (in_escrow s)"
    using active_held [OF assms(1-3)] by (simp add: word_le_nat_alt s_def)
  have "unat (available s + esc_amount x) = unat (available s) + unat (esc_amount x)"
    using wallet_invD(3) [OF assms(1)] le by (intro unat_add_nowrap) (simp add: s_def)
  with assms(2,3) le show "unat (available s') = unat (available s) + unat (esc_amount x)"
    and "staked s' = staked s" and "unat (in_escrow s') + unat (esc_amount x) = unat (in_escrow s)"
    and "escrows s' = hm_insert i (x\<lparr>esc_status := Refunded\<rparr>) (escrows s)"
    and "transactions s' = transactions s @ [new_escrow_refunded e (esc_amount x) i]"
    by (simp_all add: s_def s'_def refund_escrow_def Let_def escrows_set_status unat_sub_le
        word_le_nat_alt)
qed

lemma stake_effect:
  fixes e :: call_env and w :: wallet and amount :: u64
  assumes "wallet_inv (w_state w)" and "\<not> available (w_state w) < amount"
  defines "s \<equiv> w_state w" and "s' \<equiv> w_state (snd (stake e amount w))"
  shows "unat (available s') + unat amount = unat (available s)"
    and "unat (staked s') = unat (staked s) + unat amount" and "in_escrow s' = in_escrow s"
    and "escrows s' = escrows s" and "transactions s' = transactions s @ [new_stake e amount]"
proof -
  have le: "unat amount \<le> unat (available s)" using assms(2) by (simp add: word_less_nat_alt s_def)
  have "unat (staked s + amount) = unat (staked s) + unat amount"
    using wallet_invD(3) [OF assms(1)] le by (intro unat_add_nowrap) (simp add: s_def)
  with assms(2) le show "unat (available s') + unat amount = unat (available s)"
    and "unat (staked s') = unat (staked s) + unat amount" and "in_escrow s' = in_escrow s"
    and "escrows s' = escrows s" and "transactions s' = transactions s @ [new_stake e amount]"
    by (simp_all add: s_def s'_def stake_def Let_def unat_sub_le word_le_nat_alt)
qed

lemma unstake_effect:
  fixes e :: call_env and w :: wallet and amount :: u64
  assumes "wallet_inv (w_state w)" and "\<not> staked (w_state w) < amount"
  defines "s \<equiv> w_state w" and "s' \<equiv> w_state (snd (unstake e amount w))"
  shows "unat (available s') = unat (available s) + unat amount"
    and "unat (staked s') + unat amount = unat (staked s)" and "in_escrow s' = in_escrow s"
    and "escrows s' = escrows s" and "transactions s' = transactions s @ [new_unstake e amount]"
proof -
  have le: "unat amount \<le> unat (staked s)" using assms(2) by (simp add: word_less_nat_alt s_def)
  have "unat (available s + amount) = unat (available s) + unat amount"
    using wallet_invD(3) [OF assms(1)] le by (intro unat_add_nowrap) (simp add: s_def)
  with assms(2) le show "unat (available s') = unat (available s) + unat amount"
    and "unat (staked s') + unat amount = unat (staked s)" and "in_escrow s' = in_escrow s"
    and "escrows s' = escrows s" and "transactions s' = transactions s @ [new_unstake e amount]"
    by (simp_all add: s_def s'_def unstake_def Let_def unat_sub_le word_le_nat_alt)
qed

text \<open>An operation that is refused leaves the state alone.\<close>

lemma refused [simp]:
  "snd (credit e 0 reason w) = w"
  "effective_available w < amount \<Longrightarrow> snd (debit_commit e amount reason w) = w"
  "effective_available w < amount \<Longrightarrow> snd (create_escrow_commit e amount r j t w) = w"
  "available (w_state w) < amount \<Longrightarrow> snd (stake e amount w) = w"
  "staked (w_state w) < amount \<Longrightarrow> snd (unstake e amount w) = w"
  by (simp_all add: credit_def debit_commit_def create_escrow_commit_def stake_def unstake_def
      Let_def)

lemma not_active_refused:
  assumes "\<nexists>x. hm_get (escrows (w_state w)) i = Some x \<and> esc_status x = Active"
  shows "snd (release_escrow e i w) = w" and "snd (refund_escrow e i w) = w"
  using assms by (auto simp: release_escrow_def refund_escrow_def Let_def split: option.splits)

subsection \<open>Every step keeps the invariant\<close>

lemma same_escrows_inv:
  assumes "wallet_inv s" and "escrows s' = escrows s" and "in_escrow s' = in_escrow s"
    and "token_supply s' < 2 ^ 64"
  shows "wallet_inv s'"
  using assms by (simp add: wallet_inv_def)

lemma credit_inv:
  assumes "wallet_inv (w_state w)" and "token_supply (w_state w) + unat amount < 2 ^ 64"
  shows "wallet_inv (w_state (snd (credit e amount reason w)))"
proof (cases "amount = 0")
  case False
  note c = credit_effect [OF assms(2) this, of e reason]
  show ?thesis
    using assms(2) c by (intro same_escrows_inv [OF assms(1)]) (simp_all add: token_supply_def)
qed (use assms in simp)

lemma debit_commit_inv:
  assumes "wallet_inv (w_state w)"
  shows "wallet_inv (w_state (snd (debit_commit e amount reason w)))"
proof (cases "effective_available w < amount")
  case False
  note d = debit_effect [OF False, of e reason]
  show ?thesis
    using wallet_invD(3) [OF assms] d
    by (intro same_escrows_inv [OF assms]) (simp_all add: token_supply_def)
qed (use assms in simp)

lemma create_escrow_commit_inv:
  assumes "wallet_inv (w_state w)" and "hm_get (escrows (w_state w)) (env_escrow_id e) = None"
    and "env_add_secs e (env_now e) t \<noteq> None"
  shows "wallet_inv (w_state (snd (create_escrow_commit e amount r j t w)))"
proof (cases "effective_available w < amount")
  case False
  from assms(3) obtain x where x: "escrow_new e amount r j t = Some x" "esc_id x = env_escrow_id e"
    "esc_status x = Active" "esc_amount x = amount"
    by (auto simp: escrow_new_def)
  note c = create_effect [OF assms(1) False x(1)]
  show ?thesis
    using assms(1,2) x c
    by (simp add: wallet_inv_def token_supply_def hm_sum_insert_fresh active_amount_def)
qed (use assms in simp)

lemma release_escrow_inv:
  assumes "wallet_inv (w_state w)"
  shows "wallet_inv (w_state (snd (release_escrow e i w)))"
proof (cases "\<exists>x. hm_get (escrows (w_state w)) i = Some x \<and> esc_status x = Active")
  case True
  then obtain x where x: "hm_get (escrows (w_state w)) i = Some x" "esc_status x = Active"
    by blast
  show ?thesis
    using assms release_effect [OF assms x, of e] resolve_sum [OF assms x, of Released]
    by (simp add: wallet_inv_def token_supply_def)
qed (use assms not_active_refused in simp)

lemma refund_escrow_inv:
  assumes "wallet_inv (w_state w)"
  shows "wallet_inv (w_state (snd (refund_escrow e i w)))"
proof (cases "\<exists>x. hm_get (escrows (w_state w)) i = Some x \<and> esc_status x = Active")
  case True
  then obtain x where x: "hm_get (escrows (w_state w)) i = Some x" "esc_status x = Active"
    by blast
  show ?thesis
    using assms refund_effect [OF assms x, of e] resolve_sum [OF assms x, of Refunded]
    by (simp add: wallet_inv_def token_supply_def)
qed (use assms not_active_refused in simp)

lemma stake_inv:
  assumes "wallet_inv (w_state w)"
  shows "wallet_inv (w_state (snd (stake e amount w)))"
proof (cases "available (w_state w) < amount")
  case False
  show ?thesis
    using wallet_invD(3) [OF assms] stake_effect [OF assms False, of e]
    by (intro same_escrows_inv [OF assms]) (simp_all add: token_supply_def)
qed (use assms in simp)

lemma unstake_inv:
  assumes "wallet_inv (w_state w)"
  shows "wallet_inv (w_state (snd (unstake e amount w)))"
proof (cases "staked (w_state w) < amount")
  case False
  show ?thesis
    using wallet_invD(3) [OF assms] unstake_effect [OF assms False, of e]
    by (intro same_escrows_inv [OF assms]) (simp_all add: token_supply_def)
qed (use assms in simp)

subsection \<open>The sweep\<close>

definition expire :: "escrow \<Rightarrow> escrow" where
  "expire x = x\<lparr>esc_status := Expired\<rparr>"

lemma sweep_one_active:
  assumes "wallet_inv s" and "hm_get (escrows s) i = Some x" and "esc_status x = Active"
  shows "wallet_inv (sweep_one e i s)"
    and "escrows (sweep_one e i s) = hm_insert i (expire x) (escrows s)"
    and "unat (available (sweep_one e i s)) = unat (available s) + unat (esc_amount x)"
    and "unat (in_escrow (sweep_one e i s)) + unat (esc_amount x) = unat (in_escrow s)"
    and "staked (sweep_one e i s) = staked s"
proof -
  have le: "unat (esc_amount x) \<le> unat (in_escrow s)"
    using active_held [OF assms] by (simp add: word_le_nat_alt)
  have p: "unat (available s + esc_amount x) = unat (available s) + unat (esc_amount x)"
    using wallet_invD(3) [OF assms(1)] le by (intro unat_add_nowrap) simp
  show "escrows (sweep_one e i s) = hm_insert i (expire x) (escrows s)"
    and "unat (available (sweep_one e i s)) = unat (available s) + unat (esc_amount x)"
    and "unat (in_escrow (sweep_one e i s)) + unat (esc_amount x) = unat (in_escrow s)"
    and "staked (sweep_one e i s) = staked s"
    using assms(2) le p by (auto simp: sweep_one_def Let_def escrows_set_status expire_def)
  then show "wallet_inv (sweep_one e i s)"
    using assms(1) resolve_sum [OF assms, of Expired] le
    by (simp add: wallet_inv_def token_supply_def expire_def)
qed

lemma sweep_one_frame [simp]:
  "hourly_spend (sweep_one e i s) = hourly_spend s" "daily_spend (sweep_one e i s) = daily_spend s"
  by (auto simp: sweep_one_def Let_def split: option.splits)

lemma fold_sweep:
  assumes "wallet_inv s" and "distinct ids"
    and "\<And>i. i \<in> set ids \<Longrightarrow> \<exists>x. hm_get (escrows s) i = Some x \<and> esc_status x = Active"
  shows "wallet_inv (fold (sweep_one e) ids s) \<and>
    token_supply (fold (sweep_one e) ids s) = token_supply s \<and>
    staked (fold (sweep_one e) ids s) = staked s \<and>
    hm_get (escrows (fold (sweep_one e) ids s)) =
      (\<lambda>i. if i \<in> set ids then map_option expire (hm_get (escrows s) i) else hm_get (escrows s) i)"
  using assms
proof (induction ids arbitrary: s)
  case (Cons i ids)
  from Cons.prems(3) obtain x where x: "hm_get (escrows s) i = Some x" "esc_status x = Active"
    by auto
  note one = sweep_one_active [OF Cons.prems(1) x, of e]
  have get1: "hm_get (escrows (sweep_one e i s)) = (hm_get (escrows s))(i \<mapsto> expire x)"
    by (simp add: one(2) fun_eq_iff)
  have d: "distinct ids" "i \<notin> set ids" using Cons.prems(2) by auto
  have "\<exists>x. hm_get (escrows (sweep_one e i s)) j = Some x \<and> esc_status x = Active"
    if "j \<in> set ids" for j
    using Cons.prems(3) [of j] that d(2) unfolding get1 by auto
  note IH = Cons.IH [OF one(1) d(1) this]
  have ts: "token_supply (sweep_one e i s) = token_supply s"
    using one(3-5) by (simp add: token_supply_def)
  have eq: "(\<lambda>j. if j \<in> set ids then map_option expire (hm_get (escrows (sweep_one e i s)) j)
        else hm_get (escrows (sweep_one e i s)) j) =
      (\<lambda>j. if j \<in> set (i # ids) then map_option expire (hm_get (escrows s) j)
        else hm_get (escrows s) j)"
    unfolding get1 using x(1) d(2) by (auto simp: fun_eq_iff)
  have f: "fold (sweep_one e) (i # ids) s = fold (sweep_one e) ids (sweep_one e i s)" by simp
  note I = IH [THEN conjunct1] IH [THEN conjunct2, THEN conjunct1]
    IH [THEN conjunct2, THEN conjunct2, THEN conjunct1]
    IH [THEN conjunct2, THEN conjunct2, THEN conjunct2]
  show ?case
    unfolding f
    by (intro conjI I(1) trans [OF I(2) ts] trans [OF I(3) one(5)] trans [OF I(4) eq])
qed simp

lemma expired_ids_iff:
  assumes "hm_wf (escrows s)"
  shows "i \<in> set (expired_ids now s) \<longleftrightarrow>
    (\<exists>x. hm_get (escrows s) i = Some x \<and> esc_status x = Active \<and> escrow_is_expired_at x now)"
proof -
  have "hm_get (escrows s) i = Some x \<longleftrightarrow> (i, x) \<in> set (escrows s)" for x
    using assms by (simp add: hm_wf_def)
  then show ?thesis by (auto simp: expired_ids_def image_iff)
qed

lemma distinct_map_filter_keys: "distinct (map fst m) \<Longrightarrow> distinct (map fst (filter p m))"
  by (induction m) (auto simp: image_iff)

lemma distinct_expired_ids: "hm_wf (escrows s) \<Longrightarrow> distinct (expired_ids now s)"
  by (simp add: hm_wf_def expired_ids_def distinct_map_filter_keys)

lemma sweep_state:
  "w_state (snd (sweep_expired_escrows e w)) =
     fold (sweep_one e) (expired_ids (env_now e) (w_state w)) (w_state w)"
  by (auto simp: sweep_expired_escrows_def Let_def)

lemma sweep_fold:
  assumes "wallet_inv (w_state w)"
  shows "wallet_inv (w_state (snd (sweep_expired_escrows e w))) \<and>
    token_supply (w_state (snd (sweep_expired_escrows e w))) = token_supply (w_state w) \<and>
    staked (w_state (snd (sweep_expired_escrows e w))) = staked (w_state w) \<and>
    hm_get (escrows (w_state (snd (sweep_expired_escrows e w)))) =
      (\<lambda>i. if i \<in> set (expired_ids (env_now e) (w_state w))
           then map_option expire (hm_get (escrows (w_state w)) i)
           else hm_get (escrows (w_state w)) i)"
  unfolding sweep_state
  using assms wallet_invD(1) [OF assms] distinct_expired_ids expired_ids_iff
  by (intro fold_sweep) auto

lemma sweep_returns:
  assumes "wallet_inv (w_state w)"
  shows "fst (sweep_expired_escrows e w) = expired_ids (env_now e) (w_state w)"
proof -
  have "filter (\<lambda>i. hm_get (escrows (w_state w)) i \<noteq> None) (expired_ids (env_now e) (w_state w)) =
      expired_ids (env_now e) (w_state w)"
    by (rule filter_True) (auto simp: expired_ids_iff [OF wallet_invD(1) [OF assms]])
  then show ?thesis by (simp add: sweep_expired_escrows_def Let_def)
qed

lemma wstep_inv: "wstep w w' \<Longrightarrow> wallet_inv (w_state w) \<Longrightarrow> wallet_inv (w_state w')"
  by (induction rule: wstep.induct)
    (simp_all add: credit_inv debit_commit_inv create_escrow_commit_inv release_escrow_inv
      refund_escrow_inv stake_inv unstake_inv sweep_fold)

lemma fresh_wallet_inv [simp]: "wallet_inv (w_state (fresh_wallet cfg))"
  by (simp add: fresh_wallet_def default_wallet_state_def wallet_inv_def token_supply_def)

lemma reach_inv: "wstep\<^sup>*\<^sup>* w w' \<Longrightarrow> wallet_inv (w_state w) \<Longrightarrow> wallet_inv (w_state w')"
  by (induction rule: rtranclp_induct) (auto intro: wstep_inv)

subsection \<open>The ledger\<close>

definition net_in :: "transaction list \<Rightarrow> int" where
  "net_in txs = (\<Sum>t\<leftarrow>txs. case tx_direction t of
     In \<Rightarrow> int (unat (tx_amount t)) | Out \<Rightarrow> - int (unat (tx_amount t)) | Internal \<Rightarrow> 0)"

definition net_held :: "transaction list \<Rightarrow> int" where
  "net_held txs = (\<Sum>t\<leftarrow>txs. case tx_type t of
     EscrowCreated _ \<Rightarrow> int (unat (tx_amount t))
   | EscrowReleased _ \<Rightarrow> - int (unat (tx_amount t))
   | EscrowRefunded _ \<Rightarrow> - int (unat (tx_amount t))
   | _ \<Rightarrow> 0)"

definition ledger_inv :: "wallet_state \<Rightarrow> bool" where
  "ledger_inv s \<longleftrightarrow> (length (transactions s) < 1000 \<longrightarrow>
     int (unat (available s)) + int (unat (staked s)) = net_in (transactions s) \<and>
     int (unat (in_escrow s)) = net_held (transactions s))"

lemma net_append [simp]:
  "net_in (xs @ ys) = net_in xs + net_in ys" "net_held (xs @ ys) = net_held xs + net_held ys"
  by (simp_all add: net_in_def net_held_def)

lemmas tx_defs = new_transaction_def new_credit_def new_debit_def new_escrow_created_def
  new_escrow_released_def new_escrow_refunded_def new_stake_def new_unstake_def

lemma net_singles [simp]:
  "net_in [new_credit e a r] = int (unat a)" "net_held [new_credit e a r] = 0"
  "net_in [new_debit e a r] = - int (unat a)" "net_held [new_debit e a r] = 0"
  "net_in [new_escrow_created e a i] = - int (unat a)"
  "net_held [new_escrow_created e a i] = int (unat a)"
  "net_in [new_escrow_released e a i] = 0" "net_held [new_escrow_released e a i] = - int (unat a)"
  "net_in [new_escrow_refunded e a i] = int (unat a)"
  "net_held [new_escrow_refunded e a i] = - int (unat a)"
  "net_in [new_stake e a] = 0" "net_held [new_stake e a] = 0"
  "net_in [new_unstake e a] = 0" "net_held [new_unstake e a] = 0"
  "net_in [] = 0" "net_held [] = 0"
  by (simp_all add: net_in_def net_held_def tx_defs)

text \<open>The ledger invariant survives appending one entry that explains the change.\<close>

lemma ledger_snoc:
  assumes "ledger_inv s" and "transactions s' = transactions s @ [t]"
    and "int (unat (available s')) + int (unat (staked s')) =
      int (unat (available s)) + int (unat (staked s)) + net_in [t]"
    and "int (unat (in_escrow s')) = int (unat (in_escrow s)) + net_held [t]"
  shows "ledger_inv s'"
  using assms by (simp add: ledger_inv_def)

lemma credit_ledger:
  assumes "wallet_inv (w_state w)" and "token_supply (w_state w) + unat amount < 2 ^ 64"
    and "ledger_inv (w_state w)"
  shows "ledger_inv (w_state (snd (credit e amount reason w)))"
proof (cases "amount = 0")
  case False
  note c = credit_effect [OF assms(2) this, of e reason]
  show ?thesis
  proof (cases "length (transactions (w_state w)) < 1000")
    case True
    then have "transactions (w_state (snd (credit e amount reason w))) =
        transactions (w_state w) @ [new_credit e amount reason]"
      using c(5) by simp
    from ledger_snoc [OF assms(3) this] c(1-3) show ?thesis by (simp del: of_nat_unat)
  next
    case False
    with c(5) show ?thesis by (simp add: ledger_inv_def length_keep_last)
  qed
qed (use assms in simp)

lemma debit_ledger:
  assumes "ledger_inv (w_state w)"
  shows "ledger_inv (w_state (snd (debit_commit e amount reason w)))"
proof (cases "effective_available w < amount")
  case False
  note d = debit_effect [OF False, of e reason]
  from ledger_snoc [OF assms d(5)] d(1-3) show ?thesis by (simp del: of_nat_unat)
qed (use assms in simp)

lemma create_ledger:
  assumes "wallet_inv (w_state w)" and "env_add_secs e (env_now e) t \<noteq> None"
    and "ledger_inv (w_state w)"
  shows "ledger_inv (w_state (snd (create_escrow_commit e amount r j t w)))"
proof (cases "effective_available w < amount")
  case False
  from assms(2) obtain x where x: "escrow_new e amount r j t = Some x"
    by (auto simp: escrow_new_def)
  note c = create_effect [OF assms(1) False x]
  from ledger_snoc [OF assms(3) c(5)] c(1-3) show ?thesis by (simp del: of_nat_unat)
qed (use assms in simp)

lemma release_ledger:
  assumes "wallet_inv (w_state w)" and "ledger_inv (w_state w)"
  shows "ledger_inv (w_state (snd (release_escrow e i w)))"
proof (cases "\<exists>x. hm_get (escrows (w_state w)) i = Some x \<and> esc_status x = Active")
  case True
  then obtain x where x: "hm_get (escrows (w_state w)) i = Some x" "esc_status x = Active"
    by blast
  note r = release_effect [OF assms(1) x, of e]
  from ledger_snoc [OF assms(2) r(5)] r(1-3) show ?thesis by (simp del: of_nat_unat)
qed (use assms not_active_refused in simp)

lemma refund_ledger:
  assumes "wallet_inv (w_state w)" and "ledger_inv (w_state w)"
  shows "ledger_inv (w_state (snd (refund_escrow e i w)))"
proof (cases "\<exists>x. hm_get (escrows (w_state w)) i = Some x \<and> esc_status x = Active")
  case True
  then obtain x where x: "hm_get (escrows (w_state w)) i = Some x" "esc_status x = Active"
    by blast
  note r = refund_effect [OF assms(1) x, of e]
  from ledger_snoc [OF assms(2) r(5)] r(1-3) show ?thesis by (simp del: of_nat_unat)
qed (use assms not_active_refused in simp)

lemma stake_ledger:
  assumes "wallet_inv (w_state w)" and "ledger_inv (w_state w)"
  shows "ledger_inv (w_state (snd (stake e amount w)))"
    and "ledger_inv (w_state (snd (unstake e amount w)))"
proof -
  show "ledger_inv (w_state (snd (stake e amount w)))"
  proof (cases "available (w_state w) < amount")
    case False
    note r = stake_effect [OF assms(1) False, of e]
    from ledger_snoc [OF assms(2) r(5)] r(1-3) show ?thesis by (simp del: of_nat_unat)
  qed (use assms in simp)
  show "ledger_inv (w_state (snd (unstake e amount w)))"
  proof (cases "staked (w_state w) < amount")
    case False
    note r = unstake_effect [OF assms(1) False, of e]
    from ledger_snoc [OF assms(2) r(5)] r(1-3) show ?thesis by (simp del: of_nat_unat)
  qed (use assms in simp)
qed

lemma sweep_one_ledger:
  assumes "wallet_inv s" and "hm_get (escrows s) i = Some x" and "esc_status x = Active"
    and "ledger_inv s"
  shows "ledger_inv (sweep_one e i s)"
proof (rule ledger_snoc [OF assms(4)])
  show "transactions (sweep_one e i s) = transactions s @
      [new_escrow_refunded (e\<lparr>env_tx_id := env_sweep_tx_id e i\<rparr>) (esc_amount x) i]"
    using assms(2) by (simp add: sweep_one_def Let_def)
qed (use sweep_one_active(3-5) [OF assms(1-3), of e] in \<open>simp_all del: of_nat_unat\<close>)

lemma fold_sweep_ledger:
  assumes "wallet_inv s" and "distinct ids" and "ledger_inv s"
    and "\<And>i. i \<in> set ids \<Longrightarrow> \<exists>x. hm_get (escrows s) i = Some x \<and> esc_status x = Active"
  shows "ledger_inv (fold (sweep_one e) ids s)"
  using assms
proof (induction ids arbitrary: s)
  case (Cons i ids)
  from Cons.prems(4) obtain x where x: "hm_get (escrows s) i = Some x" "esc_status x = Active"
    by auto
  have get1: "hm_get (escrows (sweep_one e i s)) = (hm_get (escrows s))(i \<mapsto> expire x)"
    by (simp add: sweep_one_active(2) [OF Cons.prems(1) x] fun_eq_iff)
  have "\<exists>x. hm_get (escrows (sweep_one e i s)) j = Some x \<and> esc_status x = Active"
    if "j \<in> set ids" for j
    using Cons.prems(4) [of j] that Cons.prems(2) unfolding get1 by auto
  then show ?case
    using Cons.IH [OF sweep_one_active(1) [OF Cons.prems(1) x] _
        sweep_one_ledger [OF Cons.prems(1) x Cons.prems(3)]] Cons.prems(2)
    by simp
qed simp

lemma sweep_ledger:
  assumes "wallet_inv (w_state w)" and "ledger_inv (w_state w)"
  shows "ledger_inv (w_state (snd (sweep_expired_escrows e w)))"
  unfolding sweep_state
  using assms distinct_expired_ids [OF wallet_invD(1)] expired_ids_iff [OF wallet_invD(1)]
  by (intro fold_sweep_ledger) auto

lemma wstep_ledger:
  "wstep w w' \<Longrightarrow> wallet_inv (w_state w) \<Longrightarrow> ledger_inv (w_state w) \<Longrightarrow> ledger_inv (w_state w')"
  by (induction rule: wstep.induct)
    (simp_all add: credit_ledger debit_ledger create_ledger release_ledger refund_ledger
      stake_ledger sweep_ledger)

lemma reach_ledger:
  "wstep\<^sup>*\<^sup>* w w' \<Longrightarrow> wallet_inv (w_state w) \<Longrightarrow> ledger_inv (w_state w) \<Longrightarrow> ledger_inv (w_state w')"
proof (induction rule: rtranclp_induct)
  case (step y z)
  then show ?case using wstep_ledger reach_inv by blast
qed

subsection \<open>The life cycle of an escrow\<close>

text \<open>
  A step changes a known escrow only by resolving it while it is active; the amount, the
  recipient and the times never change, and a resolved escrow never changes again.
\<close>

definition evolves :: "escrow \<Rightarrow> escrow \<Rightarrow> bool" where
  "evolves x y \<longleftrightarrow> (if esc_status x = Active then y = x\<lparr>esc_status := esc_status y\<rparr> else y = x)"

lemma evolves_refl [simp]: "evolves x x"
  by (simp add: evolves_def)

lemma evolves_trans: "evolves x y \<Longrightarrow> evolves y z \<Longrightarrow> evolves x z"
  by (cases "esc_status y = Active"; cases x; cases y; cases z)
    (auto simp: evolves_def split: if_splits)

lemma evolves_set [simp]: "esc_status x = Active \<Longrightarrow> evolves x (x\<lparr>esc_status := st\<rparr>)"
  by (simp add: evolves_def)

lemma wstep_evolves:
  assumes "wstep w w'" and "wallet_inv (w_state w)" and "hm_get (escrows (w_state w)) i = Some x"
  shows "\<exists>y. hm_get (escrows (w_state w')) i = Some y \<and> evolves x y"
  using assms
proof (induction rule: wstep.induct)
  case (ws_create w e t amount r j)
  then show ?case
    by (auto simp: create_escrow_commit_def escrow_new_def Let_def)
next
  case (ws_sweep w e)
  have "hm_get (escrows (w_state (snd (sweep_expired_escrows e w)))) i =
      (if i \<in> set (expired_ids (env_now e) (w_state w)) then Some (expire x) else Some x)"
    using sweep_fold [OF ws_sweep.prems(1)] ws_sweep.prems(2) by simp
  moreover have "esc_status x = Active" if "i \<in> set (expired_ids (env_now e) (w_state w))"
    using that ws_sweep.prems expired_ids_iff [OF wallet_invD(1) [OF ws_sweep.prems(1)]] by auto
  ultimately show ?case by (auto simp: expire_def)
next
  case (ws_release w e i')
  then show ?case
    by (auto simp: release_escrow_def Let_def escrows_set_status split: option.splits)
next
  case (ws_refund w e i')
  then show ?case
    by (auto simp: refund_escrow_def Let_def escrows_set_status split: option.splits)
qed (auto simp: credit_def debit_commit_def stake_def unstake_def Let_def)

lemma reach_evolves:
  assumes "wstep\<^sup>*\<^sup>* w w'" and "wallet_inv (w_state w)" and "hm_get (escrows (w_state w)) i = Some x"
  shows "\<exists>y. hm_get (escrows (w_state w')) i = Some y \<and> evolves x y"
  using assms
proof (induction rule: rtranclp_induct)
  case (step y z)
  then show ?case
    using wstep_evolves [OF step.hyps(2) reach_inv [OF step.hyps(1) step.prems(1)]]
    by (meson evolves_trans)
qed auto

end
