(* ===== verification/Wallet_Runs.thy ===== *)
theory Wallet_Runs
  imports Wallet_Correct
begin

section \<open>Runs of the wallet\<close>

text \<open>
  A run is a list of critical sections with the arguments and the readings of the outside world of
  each, in the order in which the lock was taken: every interleaving of every set of callers is
  one. Nothing is assumed of chrono here: a creation whose time-out makes it panic has moved the
  amount into escrow already, without an escrow for it, and \<open>run_lost\<close> counts those amounts. The
  proof moves them, in an auxiliary wallet, from the tokens in escrow to the staked ones, where
  they obey the invariants of \<^theory_text>\<open>Wallet_Correct\<close>.
\<close>

subsection \<open>Operations as data\<close>

datatype wallet_op =
    OpCredit call_env u64 string
  | OpDebit call_env u64 string
  | OpCreate call_env u64 string string u64
  | OpRelease call_env escrow_id
  | OpRefund call_env escrow_id
  | OpStake call_env u64
  | OpUnstake call_env u64
  | OpSweep call_env
  | OpSave call_env

fun wallet_call :: "wallet_op \<Rightarrow> wallet \<Rightarrow> wallet" where
  "wallet_call (OpCredit e amount reason) w = snd (credit e amount reason w)"
| "wallet_call (OpDebit e amount reason) w = snd (debit_commit e amount reason w)"
| "wallet_call (OpCreate e amount r j t) w = snd (create_escrow_commit e amount r j t w)"
| "wallet_call (OpRelease e i) w = snd (release_escrow e i w)"
| "wallet_call (OpRefund e i) w = snd (refund_escrow e i w)"
| "wallet_call (OpStake e amount) w = snd (stake e amount w)"
| "wallet_call (OpUnstake e amount) w = snd (unstake e amount w)"
| "wallet_call (OpSweep e) w = snd (sweep_expired_escrows e w)"
| "wallet_call (OpSave e) w = snd (save_state e w)"

fun wallet_run :: "wallet_op list \<Rightarrow> wallet \<Rightarrow> wallet" where
  "wallet_run [] w = w"
| "wallet_run (op # ops) w = wallet_run ops (wallet_call op w)"

text \<open>What an operation credits, the escrow identifiers it draws, and what it loses to a panic.\<close>

fun op_credits :: "wallet_op \<Rightarrow> nat" where
  "op_credits (OpCredit e amount reason) = unat amount"
| "op_credits _ = 0"

fun op_draws :: "wallet_op \<Rightarrow> escrow_id list" where
  "op_draws (OpCreate e amount r j t) = [env_escrow_id e]"
| "op_draws _ = []"

fun op_loses :: "wallet_op \<Rightarrow> wallet \<Rightarrow> nat" where
  "op_loses (OpCreate e amount r j t) w =
     (if fst (create_escrow_commit e amount r j t w) = Panic then unat amount else 0)"
| "op_loses _ _ = 0"

definition run_credits :: "wallet_op list \<Rightarrow> nat" where
  "run_credits ops = sum_list (map op_credits ops)"

definition run_draws :: "wallet_op list \<Rightarrow> escrow_id list" where
  "run_draws ops = concat (map op_draws ops)"

fun run_lost :: "wallet_op list \<Rightarrow> wallet \<Rightarrow> nat" where
  "run_lost [] w = 0"
| "run_lost (op # ops) w = op_loses op w + run_lost ops (wallet_call op w)"

lemma run_simps [simp]:
  "run_credits [] = 0" "run_credits (op # ops) = op_credits op + run_credits ops"
  "run_draws [] = []" "run_draws (op # ops) = op_draws op @ run_draws ops"
  by (simp_all add: run_credits_def run_draws_def)

subsection \<open>The auxiliary wallet\<close>

definition shift_lost :: "u64 \<Rightarrow> wallet_state \<Rightarrow> wallet_state" where
  "shift_lost l s = s\<lparr>in_escrow := in_escrow s + l, staked := staked s - l\<rparr>"

lemma shift_lost_simps [simp]:
  "available (shift_lost l s) = available s" "in_escrow (shift_lost l s) = in_escrow s + l"
  "staked (shift_lost l s) = staked s - l" "escrows (shift_lost l s) = escrows s"
  "transactions (shift_lost l s) = transactions s" "hourly_spend (shift_lost l s) = hourly_spend s"
  "daily_spend (shift_lost l s) = daily_spend s" "shift_lost 0 s = s"
  by (simp_all add: shift_lost_def)

lemma shift_set_status [simp]:
  "set_escrow_status i st (shift_lost l s) = shift_lost l (set_escrow_status i st s)"
  by (simp add: set_escrow_status_def shift_lost_def split: option.splits)

lemma shift_record_spend [simp]:
  "record_spend t a (shift_lost l s) = shift_lost l (record_spend t a s)"
  by (simp add: record_spend_def shift_lost_def Let_def)

lemma shift_expired_ids [simp]: "expired_ids now (shift_lost l s) = expired_ids now s"
  by (simp add: expired_ids_def)

lemma sat_sub_shift:
  fixes a b l :: u64
  assumes "b \<le> a" and "unat a + unat l < 2 ^ 64"
  shows "sat_sub (a + l) b = sat_sub a b + l"
proof -
  have "b \<le> a + l"
    using assms unat_add_nowrap [of a l] by (simp add: word_le_nat_alt)
  with assms(1) show ?thesis by (simp add: sat_sub_def)
qed


lemma shift_sweep_one:
  assumes "wallet_inv s" and "l \<le> staked s"
    and "hm_get (escrows s) i = Some x" and "esc_status x = Active"
  shows "sweep_one e i (shift_lost l s) = shift_lost l (sweep_one e i s)"
proof -
  have "unat l \<le> unat (staked s)" using assms(2) by (simp add: word_le_nat_alt)
  with wallet_invD(3) [OF assms(1)] have "unat (in_escrow s) + unat l < 2 ^ 64" by simp
  from sat_sub_shift [OF active_held [OF assms(1,3,4)] this] show ?thesis
    using assms(3) by (simp add: sweep_one_def Let_def)
qed

lemma shift_fold_sweep:
  assumes "wallet_inv s" and "l \<le> staked s" and "distinct ids"
    and "\<And>i. i \<in> set ids \<Longrightarrow> \<exists>x. hm_get (escrows s) i = Some x \<and> esc_status x = Active"
  shows "fold (sweep_one e) ids (shift_lost l s) = shift_lost l (fold (sweep_one e) ids s)"
  using assms
proof (induction ids arbitrary: s)
  case (Cons i ids)
  from Cons.prems(4) obtain x where x: "hm_get (escrows s) i = Some x" "esc_status x = Active"
    by auto
  note one = sweep_one_active [OF Cons.prems(1) x, of e]
  have "\<exists>x. hm_get (escrows (sweep_one e i s)) j = Some x \<and> esc_status x = Active"
    if "j \<in> set ids" for j
    using Cons.prems(3) Cons.prems(4) [of j] that by (auto simp: one(2))
  from Cons.IH [OF one(1) _ _ this] Cons.prems(2,3) show ?case
    by (simp add: one(5) shift_sweep_one [OF Cons.prems(1,2) x])
qed simp

text \<open>
  \<open>shadows l g w\<close>: the wallet \<open>w\<close> is the auxiliary wallet \<open>g\<close> with \<open>l\<close> tokens moved from its staked
  ones to those in escrow.
\<close>

definition shadows :: "u64 \<Rightarrow> wallet \<Rightarrow> wallet \<Rightarrow> bool" where
  "shadows l g w \<longleftrightarrow> w_state w = shift_lost l (w_state g) \<and> w_config w = w_config g \<and>
     l \<le> staked (w_state g) \<and> wallet_inv (w_state g) \<and> ledger_inv (w_state g)"

lemma shadowsD:
  assumes "shadows l g w"
  shows "w_state w = shift_lost l (w_state g)" and "w_config w = w_config g"
    and "l \<le> staked (w_state g)" and "wallet_inv (w_state g)" and "ledger_inv (w_state g)"
    and "effective_available w = effective_available g"
  using assms by (auto simp: shadows_def effective_available_def)

text \<open>A step of the auxiliary wallet that the real one takes too.\<close>

lemma shadows_step:
  assumes "shadows l g w" and "wstep g g'" and "w_state w' = shift_lost l (w_state g')"
    and "w_config w' = w_config g'" and "l \<le> staked (w_state g')"
  shows "shadows l g' w'"
  using assms(3-5) wstep_inv [OF assms(2)] wstep_ledger [OF assms(2)] shadowsD [OF assms(1)]
  by (simp add: shadows_def)


text \<open>One operation on both wallets. The auxiliary one stands still where the real one refuses to
  unstake what it does not have.\<close>

definition shadow_call :: "wallet_op \<Rightarrow> wallet \<Rightarrow> wallet \<Rightarrow> wallet" where
  "shadow_call op g w =
     (case op of
        OpCreate e amount r j t \<Rightarrow>
          if fst (create_escrow_commit e amount r j t w) = Panic
          then g\<lparr>w_state := (w_state g)\<lparr>available := available (w_state g) - amount,
                                      staked := staked (w_state g) + amount\<rparr>\<rparr>
          else wallet_call op g
      | OpUnstake e amount \<Rightarrow> if staked (w_state w) < amount then g else wallet_call op g
      | _ \<Rightarrow> wallet_call op g)"

lemma shadow_credit:
  assumes "shadows l g w" and "token_supply (w_state g) + unat amount < 2 ^ 64"
  shows "shadows l (snd (credit e amount reason g)) (snd (credit e amount reason w))"
proof (rule shadows_step [OF assms(1) ws_credit [OF assms(2)]])
  note d = shadowsD [OF assms(1)]
  show "w_state (snd (credit e amount reason w)) =
      shift_lost l (w_state (snd (credit e amount reason g)))"
    using d(1) by (simp add: credit_def Let_def shift_lost_def)
  show "w_config (snd (credit e amount reason w)) = w_config (snd (credit e amount reason g))"
    using d(2) by (simp add: credit_def Let_def)
  show "l \<le> staked (w_state (snd (credit e amount reason g)))"
    using d(3) by (simp add: credit_def Let_def)
qed

lemma shadow_debit:
  assumes "shadows l g w"
  shows "shadows l (snd (debit_commit e amount reason g)) (snd (debit_commit e amount reason w))"
proof (rule shadows_step [OF assms ws_debit])
  note d = shadowsD [OF assms]
  have r: "record_spend now a (shift_lost l s\<lparr>available := b\<rparr>) =
      shift_lost l (record_spend now a (s\<lparr>available := b\<rparr>))" for now a b s
    by (simp add: record_spend_def shift_lost_def Let_def)
  show "w_state (snd (debit_commit e amount reason w)) =
      shift_lost l (w_state (snd (debit_commit e amount reason g)))"
    using d(1,6) by (simp add: debit_commit_def Let_def r)
  show "w_config (snd (debit_commit e amount reason w)) = w_config (snd (debit_commit e amount reason g))"
    using d(2,6) by (simp add: debit_commit_def Let_def)
  show "l \<le> staked (w_state (snd (debit_commit e amount reason g)))"
    using d(3) by (simp add: debit_commit_def Let_def)
qed

lemma shadow_create:
  assumes "shadows l g w" and "hm_get (escrows (w_state g)) (env_escrow_id e) = None"
    and "env_add_secs e (env_now e) t \<noteq> None"
  shows "shadows l (snd (create_escrow_commit e amount r j t g)) (snd (create_escrow_commit e amount r j t w))"
proof (rule shadows_step [OF assms(1) ws_create [OF assms(2,3)]])
  note d = shadowsD [OF assms(1)]
  show "w_state (snd (create_escrow_commit e amount r j t w)) =
      shift_lost l (w_state (snd (create_escrow_commit e amount r j t g)))"
    using d(1,6)
    by (auto simp: create_escrow_commit_def Let_def shift_lost_def split: option.splits)
  show "w_config (snd (create_escrow_commit e amount r j t w)) =
      w_config (snd (create_escrow_commit e amount r j t g))"
    using d(2,6) by (auto simp: create_escrow_commit_def Let_def split: option.splits)
  show "l \<le> staked (w_state (snd (create_escrow_commit e amount r j t g)))"
    using d(3) by (auto simp: create_escrow_commit_def Let_def split: option.splits)
qed

lemma shadow_resolve:
  assumes "shadows l g w"
  shows "shadows l (snd (release_escrow e i g)) (snd (release_escrow e i w))"
    and "shadows l (snd (refund_escrow e i g)) (snd (refund_escrow e i w))"
proof -
  note d = shadowsD [OF assms]
  note defs = release_escrow_def refund_escrow_def Let_def
  have s: "set_escrow_status i st (s\<lparr>in_escrow := a, staked := b\<rparr>) =
      (set_escrow_status i st s)\<lparr>in_escrow := a, staked := b\<rparr>" for s a b st
    by (auto simp: set_escrow_status_def split: option.splits)
  have "w_state (snd (release_escrow e i w)) = shift_lost l (w_state (snd (release_escrow e i g)))"
    "w_state (snd (refund_escrow e i w)) = shift_lost l (w_state (snd (refund_escrow e i g)))"
    using d(1) by (auto simp: defs shift_lost_def s split: option.splits)
  moreover have "w_config (snd (release_escrow e i w)) = w_config (snd (release_escrow e i g))"
    "w_config (snd (refund_escrow e i w)) = w_config (snd (refund_escrow e i g))"
    using d(1,2) by (auto simp: defs split: option.splits)
  moreover have "l \<le> staked (w_state (snd (release_escrow e i g)))"
    "l \<le> staked (w_state (snd (refund_escrow e i g)))"
    using d(3) by (auto simp: defs split: option.splits)
  ultimately show "shadows l (snd (release_escrow e i g)) (snd (release_escrow e i w))"
    and "shadows l (snd (refund_escrow e i g)) (snd (refund_escrow e i w))"
    using shadows_step [OF assms ws_release] shadows_step [OF assms ws_refund] by blast+
qed


lemma le_add_staked:
  fixes l a b :: u64
  assumes "l \<le> a" and "unat a + unat b < 2 ^ 64"
  shows "l \<le> a + b"
  using assms unat_add_nowrap [of a b] by (simp add: word_le_nat_alt)

lemma shadow_stake:
  assumes "shadows l g w"
  shows "shadows l (snd (stake e amount g)) (snd (stake e amount w))"
proof (rule shadows_step [OF assms ws_stake])
  note d = shadowsD [OF assms]
  show "w_state (snd (stake e amount w)) = shift_lost l (w_state (snd (stake e amount g)))"
    using d(1) by (simp add: stake_def Let_def shift_lost_def)
  show "w_config (snd (stake e amount w)) = w_config (snd (stake e amount g))"
    using d(1,2) by (simp add: stake_def Let_def)
  have "l \<le> staked (w_state g) + amount" if "\<not> available (w_state g) < amount"
    using that wallet_invD(3) [OF d(4)] le_add_staked [OF d(3), of amount]
    by (simp add: word_less_nat_alt)
  then show "l \<le> staked (w_state (snd (stake e amount g)))"
    using d(3) by (simp add: stake_def Let_def)
qed

lemma shadow_unstake:
  assumes "shadows l g w" and "\<not> staked (w_state w) < amount"
  shows "shadows l (snd (unstake e amount g)) (snd (unstake e amount w))"
proof (rule shadows_step [OF assms(1) ws_unstake])
  note d = shadowsD [OF assms(1)]
  have le: "unat amount + unat l \<le> unat (staked (w_state g))"
    using assms(2) d(3) by (simp add: d(1) word_less_nat_alt word_le_nat_alt unat_sub_le)
  then have n: "\<not> staked (w_state g) < amount" by (simp add: word_less_nat_alt)
  show "w_state (snd (unstake e amount w)) = shift_lost l (w_state (snd (unstake e amount g)))"
    using d(1) assms(2) n by (simp add: unstake_def Let_def shift_lost_def)
  show "w_config (snd (unstake e amount w)) = w_config (snd (unstake e amount g))"
    using d(2) assms(2) n by (simp add: unstake_def Let_def)
  show "l \<le> staked (w_state (snd (unstake e amount g)))"
    using le n by (simp add: unstake_def Let_def word_le_nat_alt unat_sub_le)
qed

lemma shadow_sweep:
  assumes "shadows l g w"
  shows "shadows l (snd (sweep_expired_escrows e g)) (snd (sweep_expired_escrows e w))"
proof (rule shadows_step [OF assms ws_sweep])
  note d = shadowsD [OF assms]
  note h = wallet_invD(1) [OF d(4)]
  show "w_state (snd (sweep_expired_escrows e w)) =
      shift_lost l (w_state (snd (sweep_expired_escrows e g)))"
    unfolding sweep_state d(1) shift_expired_ids
    using expired_ids_iff [OF h]
    by (intro shift_fold_sweep [OF d(4,3) distinct_expired_ids [OF h]]) blast
  show "w_config (snd (sweep_expired_escrows e w)) = w_config (snd (sweep_expired_escrows e g))"
    using d(2) by (simp add: sweep_expired_escrows_def Let_def)
  show "l \<le> staked (w_state (snd (sweep_expired_escrows e g)))"
    using sweep_fold [OF d(4), of e] d(3) by simp
qed

lemma shadow_save: "shadows l g w \<Longrightarrow> shadows l (snd (save_state e g)) (snd (save_state e w))"
  by (simp add: shadows_def)

text \<open>A creation that panics has moved the amount out of the spendable tokens.\<close>

lemma create_panics:
  assumes "fst (create_escrow_commit e amount r j t w) = Panic"
  shows "\<not> effective_available w < amount" and "env_add_secs e (env_now e) t = None"
    and "snd (create_escrow_commit e amount r j t w) =
      w\<lparr>w_state := (w_state w)\<lparr>available := available (w_state w) - amount,
                             in_escrow := in_escrow (w_state w) + amount\<rparr>\<rparr>"
  using assms
  by (auto simp: create_escrow_commit_def Let_def finish_eq escrow_new_def split: option.splits if_splits)

lemma shadow_panic:
  assumes "shadows l g w" and "fst (create_escrow_commit e amount r j t w) = Panic"
  shows "shadows (l + amount) (shadow_call (OpCreate e amount r j t) g w)
      (snd (create_escrow_commit e amount r j t w))"
    and "unat (l + amount) = unat l + unat amount"
    and "token_supply (w_state (shadow_call (OpCreate e amount r j t) g w)) = token_supply (w_state g)"
proof -
  note d = shadowsD [OF assms(1)]
  note p = create_panics [OF assms(2)]
  have a: "unat amount \<le> unat (available (w_state g))"
    using effective_available_le [OF p(1)] by (simp add: d(1) word_le_nat_alt)
  have l: "unat l \<le> unat (staked (w_state g))" using d(3) by (simp add: word_le_nat_alt)
  note b = wallet_invD(3) [OF d(4)]
  have s: "unat (staked (w_state g) + amount) = unat (staked (w_state g)) + unat amount"
    using a b by (intro unat_add_nowrap) simp
  have v: "unat (available (w_state g) - amount) = unat (available (w_state g)) - unat amount"
    using a by (simp add: unat_sub_le word_le_nat_alt)
  show la: "unat (l + amount) = unat l + unat amount"
    using a b l by (intro unat_add_nowrap) simp
  show ts: "token_supply (w_state (shadow_call (OpCreate e amount r j t) g w)) = token_supply (w_state g)"
    using a s v assms(2) by (simp add: shadow_call_def token_supply_def)
  have i: "wallet_inv (w_state (shadow_call (OpCreate e amount r j t) g w))"
    using d(4) ts assms(2) by (simp add: wallet_inv_def shadow_call_def)
  have g: "ledger_inv (w_state (shadow_call (OpCreate e amount r j t) g w))"
    using d(5) s v a assms(2)
    by (simp add: ledger_inv_def shadow_call_def of_nat_diff del: of_nat_unat)
  have "l + amount \<le> staked (w_state g) + amount"
    using s la l by (simp add: word_le_nat_alt)
  moreover have "w_state (snd (create_escrow_commit e amount r j t w)) =
      shift_lost (l + amount) (w_state (shadow_call (OpCreate e amount r j t) g w))"
    using assms(2) by (simp add: p(3) d(1) shadow_call_def shift_lost_def)
  ultimately show "shadows (l + amount) (shadow_call (OpCreate e amount r j t) g w)
      (snd (create_escrow_commit e amount r j t w))"
    using i g d(2) assms(2) by (simp add: shadows_def p(3)) (simp add: shadow_call_def)
qed


subsection \<open>The supply and the identifiers in use\<close>

lemma supply_call:
  assumes inv: "wallet_inv (w_state w)" and cr: "token_supply (w_state w) + op_credits op < 2 ^ 64"
    and chrono: "\<And>e amount r j t. op = OpCreate e amount r j t \<Longrightarrow> env_add_secs e (env_now e) t \<noteq> None"
  shows "token_supply (w_state (wallet_call op w)) \<le> token_supply (w_state w) + op_credits op"
proof (cases op)
  case (OpCredit e amount reason)
  then show ?thesis
    using credit_effect [of w amount e reason] cr by (cases "amount = 0") (simp_all add: token_supply_def)
next
  case (OpDebit e amount reason)
  then show ?thesis
    using debit_effect [of w amount e reason]
    by (cases "effective_available w < amount") (simp_all add: token_supply_def)
next
  case (OpCreate e amount r j t)
  then obtain x where "escrow_new e amount r j t = Some x"
    using chrono by (auto simp: escrow_new_def)
  with OpCreate show ?thesis
    using create_effect [OF inv, of amount e r j t x]
    by (cases "effective_available w < amount") (simp_all add: token_supply_def)
next
  case (OpRelease e i)
  show ?thesis
  proof (cases "\<exists>x. hm_get (escrows (w_state w)) i = Some x \<and> esc_status x = Active")
    case True
    with OpRelease show ?thesis using release_effect [OF inv, of i _ e] by (auto simp: token_supply_def)
  qed (simp add: OpRelease not_active_refused)
next
  case (OpRefund e i)
  show ?thesis
  proof (cases "\<exists>x. hm_get (escrows (w_state w)) i = Some x \<and> esc_status x = Active")
    case True
    with OpRefund show ?thesis using refund_effect [OF inv, of i _ e] by (auto simp: token_supply_def)
  qed (simp add: OpRefund not_active_refused)
next
  case (OpStake e amount)
  then show ?thesis
    using stake_effect [OF inv, of amount e]
    by (cases "available (w_state w) < amount") (simp_all add: token_supply_def)
next
  case (OpUnstake e amount)
  then show ?thesis
    using unstake_effect [OF inv, of amount e]
    by (cases "staked (w_state w) < amount") (simp_all add: token_supply_def)
next
  case (OpSweep e)
  then show ?thesis using sweep_fold [OF inv, of e] by simp
qed simp

lemma fold_sweep_known:
  "hm_get (escrows (fold (sweep_one e) ids s)) k = None \<longleftrightarrow> hm_get (escrows s) k = None"
proof (induction ids arbitrary: s)
  case (Cons i ids)
  have "hm_get (escrows (sweep_one e i s)) k = None \<longleftrightarrow> hm_get (escrows s) k = None"
    by (auto simp: sweep_one_def Let_def escrows_set_status split: option.splits)
  with Cons show ?case by simp
qed simp

lemma known_after_call:
  assumes "hm_get (escrows (w_state w)) k = None" and "k \<notin> set (op_draws op)"
  shows "hm_get (escrows (w_state (wallet_call op w))) k = None"
proof (cases op)
  case (OpCreate e amount r j t)
  with assms show ?thesis
    by (auto simp: create_escrow_commit_def escrow_new_def Let_def split: option.splits)
next
  case (OpSweep e)
  then show ?thesis using assms by (simp add: sweep_state fold_sweep_known)
next
  case (OpRelease e i)
  then show ?thesis
    using assms by (auto simp: release_escrow_def Let_def escrows_set_status split: option.splits)
next
  case (OpRefund e i)
  then show ?thesis
    using assms by (auto simp: refund_escrow_def Let_def escrows_set_status split: option.splits)
qed (use assms in \<open>auto simp: credit_def debit_commit_def stake_def unstake_def Let_def\<close>)

subsection \<open>Runs\<close>

lemma shadow_step:
  assumes s: "shadows l g w" and c: "token_supply (w_state g) + op_credits op < 2 ^ 64"
    and f: "\<And>k. k \<in> set (op_draws op) \<Longrightarrow> hm_get (escrows (w_state w)) k = None"
  shows "\<exists>l' g'. shadows l' g' (wallet_call op w) \<and> unat l' = unat l + op_loses op w \<and>
    token_supply (w_state g') \<le> token_supply (w_state g) + op_credits op"
proof (cases "\<exists>e amount r j t. op = OpCreate e amount r j t \<and>
    fst (create_escrow_commit e amount r j t w) = Panic")
  case True
  then obtain e amount r j t where op: "op = OpCreate e amount r j t"
    and p: "fst (create_escrow_commit e amount r j t w) = Panic"
    by blast
  from shadow_panic [OF s p] show ?thesis
    using p by (intro exI [of _ "l + amount"] exI [of _ "shadow_call op g w"]) (simp add: op)
next
  case False
  note d = shadowsD [OF s]
  have fg: "hm_get (escrows (w_state g)) k = None" if "k \<in> set (op_draws op)" for k
    using f [OF that] d(1) by simp
  show ?thesis
  proof (cases "(\<exists>e a. op = OpUnstake e a \<and> staked (w_state w) < a) \<or>
      (\<exists>e a r j t. op = OpCreate e a r j t \<and> effective_available w < a)")
    case True
    then have "wallet_call op w = w \<and> op_loses op w = 0" using False by auto
    with s show ?thesis by (intro exI [of _ l] exI [of _ g]) simp
  next
    case go: False
    have chrono: "env_add_secs e (env_now e) t \<noteq> None" if "op = OpCreate e a r j t" for e a r j t
      using that False go by (auto simp: create_escrow_commit_def escrow_new_def Let_def split: option.splits)
    have "shadows l (wallet_call op g) (wallet_call op w)"
      using s go fg chrono c
      by (cases op) (simp_all add: shadow_credit shadow_debit shadow_create shadow_resolve shadow_stake
          shadow_unstake shadow_sweep shadow_save)
    moreover have "op_loses op w = 0" using False by (cases op) auto
    ultimately show ?thesis
      using supply_call [OF d(4) c chrono] by (intro exI [of _ l] exI [of _ "wallet_call op g"]) simp
  qed
qed

lemma shadow_run:
  assumes "shadows l g w" and "token_supply (w_state g) + run_credits ops < 2 ^ 64"
    and "distinct (run_draws ops)"
    and "\<And>k. k \<in> set (run_draws ops) \<Longrightarrow> hm_get (escrows (w_state w)) k = None"
  shows "\<exists>l' g'. shadows l' g' (wallet_run ops w) \<and> unat l' = unat l + run_lost ops w \<and>
    token_supply (w_state g') \<le> token_supply (w_state g) + run_credits ops"
  using assms
proof (induction ops arbitrary: l g w)
  case (Cons op ops)
  have "token_supply (w_state g) + op_credits op < 2 ^ 64" using Cons.prems(2) by simp
  from shadow_step [OF Cons.prems(1) this] Cons.prems(4)
  obtain l1 g1 where 1: "shadows l1 g1 (wallet_call op w)" "unat l1 = unat l + op_loses op w"
    "token_supply (w_state g1) \<le> token_supply (w_state g) + op_credits op"
    by auto
  have k: "hm_get (escrows (w_state (wallet_call op w))) k = None" if "k \<in> set (run_draws ops)" for k
    using that Cons.prems(3,4) by (intro known_after_call) auto
  have "token_supply (w_state g1) + run_credits ops < 2 ^ 64" "distinct (run_draws ops)"
    using 1(3) Cons.prems(2,3) by auto
  from Cons.IH [OF 1(1) this k] obtain l' g' where "shadows l' g' (wallet_run ops (wallet_call op w))"
    "unat l' = unat l1 + run_lost ops (wallet_call op w)"
    "token_supply (w_state g') \<le> token_supply (w_state g1) + run_credits ops"
    by blast
  with 1(2,3) show ?case by (intro exI [of _ l'] exI [of _ g']) simp
qed (auto intro: exI)

lemma fresh_shadow: "shadows 0 (fresh_wallet cfg) (fresh_wallet cfg)"
  using fresh_wallet_inv [of cfg]
  by (simp add: shadows_def ledger_inv_def fresh_wallet_def default_wallet_state_def)

text \<open>What a run from an empty wallet leaves behind.\<close>

lemma run_accounts:
  fixes ops :: "wallet_op list" and cfg :: wallet_config
  assumes "run_credits ops < 2 ^ 64" and "distinct (run_draws ops)"
  defines "s \<equiv> w_state (wallet_run ops (fresh_wallet cfg))" and "lost \<equiv> run_lost ops (fresh_wallet cfg)"
  shows "hm_wf (escrows s)"
    and "unat (in_escrow s) = hm_sum active_amount (escrows s) + lost"
    and "token_supply s \<le> run_credits ops"
    and "length (transactions s) < 1000 \<Longrightarrow>
      int (unat (available s)) + int (unat (staked s)) + int lost = net_in (transactions s) \<and>
      int (unat (in_escrow s)) = net_held (transactions s) + int lost"
proof -
  have z: "token_supply (w_state (fresh_wallet cfg)) = 0" "escrows (w_state (fresh_wallet cfg)) = []"
    by (simp_all add: fresh_wallet_def default_wallet_state_def token_supply_def)
  from shadow_run [OF fresh_shadow _ assms(2), of cfg] assms(1) z
  obtain l g where sh: "shadows l g (wallet_run ops (fresh_wallet cfg))" and l: "unat l = lost"
    and t: "token_supply (w_state g) \<le> run_credits ops"
    by (auto simp: lost_def)
  note d = shadowsD [OF sh]
  have le: "unat l \<le> unat (staked (w_state g))" using d(3) by (simp add: word_le_nat_alt)
  have i: "unat (in_escrow s) = unat (in_escrow (w_state g)) + lost"
    using wallet_invD(3) [OF d(4)] le unat_add_nowrap [of "in_escrow (w_state g)" l]
    by (simp add: s_def d(1) l)
  have k: "unat (staked s) + lost = unat (staked (w_state g))"
    using le d(3) by (simp add: s_def d(1) l unat_sub_le)
  have e: "escrows s = escrows (w_state g)" "transactions s = transactions (w_state g)"
    "available s = available (w_state g)"
    by (simp_all add: s_def d(1))
  show "hm_wf (escrows s)" and "unat (in_escrow s) = hm_sum active_amount (escrows s) + lost"
    using wallet_invD(1,2) [OF d(4)] i e by simp_all
  show "token_supply s \<le> run_credits ops" using t i k e by (simp add: token_supply_def)
  show "int (unat (available s)) + int (unat (staked s)) + int lost = net_in (transactions s) \<and>
      int (unat (in_escrow s)) = net_held (transactions s) + int lost"
    if "length (transactions s) < 1000"
    using d(5) that i k e by (simp add: ledger_inv_def del: of_nat_unat)
qed

end
