(* ===== verification/Wallet_Props.thy ===== *)
theory Wallet_Props
  imports Wallet_Runs
begin

section \<open>Properties of the wallet\<close>

text \<open>
  The spending limits, the interpretation of the escrow interface on the wallet, and the
  statements of the component's properties with their witnesses.
\<close>

subsection \<open>Spending limits\<close>

definition spent_hour :: "wallet \<Rightarrow> u64 \<Rightarrow> nat" where
  "spent_hour w k = unat (hm_get_or 0 (hourly_spend (w_state w)) k)"

definition spent_day :: "wallet \<Rightarrow> u64 \<Rightarrow> nat" where
  "spent_day w k = unat (hm_get_or 0 (daily_spend (w_state w)) k)"

definition within_limits :: "wallet \<Rightarrow> bool" where
  "within_limits w \<longleftrightarrow>
     (\<forall>k. spent_hour w k \<le> unat (max_spend_per_hour (w_config w))) \<and>
     (\<forall>k. spent_day w k \<le> unat (max_spend_per_day (w_config w)))"

text \<open>The limits are far enough from \<open>2 ^ 64\<close> for the sums in the check not to wrap.\<close>

definition sane_limits :: "wallet_config \<Rightarrow> bool" where
  "sane_limits c \<longleftrightarrow>
     unat (max_spend_per_tx c) + unat (max_spend_per_hour c) < 2 ^ 64 \<and>
     unat (max_spend_per_tx c) + unat (max_spend_per_day c) < 2 ^ 64"

lemma check_Ok:
  assumes "check_spending_limits e amount w = Ok ()" and "sane_limits (w_config w)"
    and "within_limits w"
  shows "spent_hour w (hour_key (env_now e)) + unat amount \<le> unat (max_spend_per_hour (w_config w))"
    and "spent_day w (day_key (env_now e)) + unat amount \<le> unat (max_spend_per_day (w_config w))"
proof -
  let ?h = "hm_get_or 0 (hourly_spend (w_state w)) (hour_key (env_now e))"
  let ?d = "hm_get_or 0 (daily_spend (w_state w)) (day_key (env_now e))"
  from assms(1) have c: "unat amount \<le> unat (max_spend_per_tx (w_config w))"
    "unat (?h + amount) \<le> unat (max_spend_per_hour (w_config w))"
    "unat (?d + amount) \<le> unat (max_spend_per_day (w_config w))"
    by (auto simp: check_spending_limits_def Let_def word_less_nat_alt split: if_splits)
  have hd: "unat ?h \<le> unat (max_spend_per_hour (w_config w))"
    "unat ?d \<le> unat (max_spend_per_day (w_config w))"
    using assms(3) by (auto simp: within_limits_def spent_hour_def spent_day_def)
  have "unat (?h + amount) = unat ?h + unat amount" "unat (?d + amount) = unat ?d + unat amount"
    using c(1) hd assms(2) by (auto intro!: unat_add_nowrap simp: sane_limits_def)
  with c show "spent_hour w (hour_key (env_now e)) + unat amount \<le>
      unat (max_spend_per_hour (w_config w))"
    and "spent_day w (day_key (env_now e)) + unat amount \<le> unat (max_spend_per_day (w_config w))"
    by (simp_all add: spent_hour_def spent_day_def)
qed

lemma spent_after_debit:
  fixes e :: call_env and w :: wallet and amount k :: u64 and reason :: string
  assumes "\<not> effective_available w < amount"
  defines "w' \<equiv> snd (debit_commit e amount reason w)"
  shows "spent_hour w' k \<le> (if k = hour_key (env_now e) then spent_hour w k + unat amount
      else spent_hour w k)"
    and "spent_day w' k \<le> (if k = day_key (env_now e) then spent_day w k + unat amount
      else spent_day w k)"
  using assms(1) unat_word_ariths(1)
  by (auto simp: w'_def spent_hour_def spent_day_def debit_commit_def Let_def record_spend_def
      hm_get_or_retain_key unat_word_ariths(1))

lemma debit_within_limits:
  assumes "sane_limits (w_config w)" and "within_limits w"
  shows "within_limits (snd (debit e amount reason w))"
proof (cases "check_spending_limits e amount w")
  case (Ok u)
  then have ok: "check_spending_limits e amount w = Ok ()" by simp
  note c = check_Ok [OF ok assms]
  show ?thesis
  proof (cases "effective_available w < amount")
    case False
    have cfg: "w_config (snd (debit_commit e amount reason w)) = w_config w"
      using False by (simp add: debit_commit_def Let_def)
    have "spent_hour (snd (debit_commit e amount reason w)) k \<le>
        unat (max_spend_per_hour (w_config w))" for k
      using spent_after_debit(1) [OF False, of e reason k] c(1) assms(2)
      by (auto simp: within_limits_def intro: order_trans split: if_splits)
    moreover have "spent_day (snd (debit_commit e amount reason w)) k \<le>
        unat (max_spend_per_day (w_config w))" for k
      using spent_after_debit(2) [OF False, of e reason k] c(2) assms(2)
      by (auto simp: within_limits_def intro: order_trans split: if_splits)
    ultimately show ?thesis using Ok cfg by (simp add: debit_def within_limits_def)
  qed (use Ok assms in \<open>simp add: debit_def\<close>)
qed (use assms in \<open>simp_all add: debit_def\<close>)

lemma debit_config [simp]: "w_config (snd (debit e amount reason w)) = w_config w"
  by (auto simp: debit_def debit_commit_def Let_def split: outcome.splits)

fun debit_run :: "(call_env \<times> u64 \<times> string) list \<Rightarrow> wallet \<Rightarrow> wallet" where
  "debit_run [] w = w"
| "debit_run ((e, amount, reason) # ds) w = debit_run ds (snd (debit e amount reason w))"

subsection \<open>The wallet as a provider of escrows\<close>

definition held_by :: "wallet \<Rightarrow> escrow_id \<Rightarrow> nat option" where
  "held_by w i =
     (case hm_get (escrows (w_state w)) i of
        None \<Rightarrow> None
      | Some x \<Rightarrow> if esc_status x = Active then Some (unat (esc_amount x)) else None)"

definition wallet_ready :: "call_env \<Rightarrow> u64 \<Rightarrow> wallet \<Rightarrow> bool" where
  "wallet_ready e t w \<longleftrightarrow>
     hm_get (escrows (w_state w)) (env_escrow_id e) = None \<and>
     env_add_secs e (env_now e) t \<noteq> None \<and> env_store_error e = None"

lemma held_by_Some:
  "held_by w i = Some n \<longleftrightarrow>
    (\<exists>x. hm_get (escrows (w_state w)) i = Some x \<and> esc_status x = Active \<and> n = unat (esc_amount x))"
  by (auto simp: held_by_def split: option.splits)

lemma create_escrow_Ok:
  assumes "create_escrow e a r j t w = (Ok x, w')"
  shows "\<not> effective_available w < a" and "escrow_new e a r j t = Some x"
    and "w' = snd (create_escrow_commit e a r j t w)"
proof -
  from assms have c: "create_escrow_commit e a r j t w = (Ok x, w')"
    by (auto simp: create_escrow_def split: outcome.splits)
  then show "\<not> effective_available w < a" "escrow_new e a r j t = Some x"
    "w' = snd (create_escrow_commit e a r j t w)"
    by (auto simp: create_escrow_commit_def Let_def finish_eq split: if_splits option.splits)
qed

lemma held_by_update:
  "escrows (w_state w') = hm_insert i x (escrows (w_state w)) \<Longrightarrow>
    held_by w' = (held_by w)(i := if esc_status x = Active then Some (unat (esc_amount x)) else None)"
  by (rule ext) (simp add: held_by_def)

lemma escrow_new_fields:
  "escrow_new e a r j t = Some x \<Longrightarrow>
    esc_id x = env_escrow_id e \<and> esc_amount x = a \<and> esc_status x = Active \<and>
    esc_recipient x = r \<and> esc_job_id x = j"
  by (auto simp: escrow_new_def split: option.splits)

interpretation wallet_escrow: escrow_provider
  "\<lambda>w. wallet_inv (w_state w)" wallet_ready "\<lambda>w. unat (available (w_state w))" held_by
  esc_id create_escrow release_escrow refund_escrow
proof unfold_locales
  fix w e t a r j x w'
  assume inv: "wallet_inv (w_state w)" and rd: "wallet_ready e t w"
    and ok: "create_escrow e a r j t w = (Ok x, w')"
  note o = create_escrow_Ok [OF ok]
  note c = create_effect [OF inv o(1,2)]
  note f = escrow_new_fields [OF o(2)]
  have "held_by w' = (held_by w)(esc_id x \<mapsto> unat a)"
    using held_by_update [of w' "esc_id x" x w] c(4) f o(3) by simp
  moreover have "held_by w (esc_id x) = None" using rd f by (simp add: wallet_ready_def held_by_def)
  moreover have "wallet_inv (w_state w')"
    using create_escrow_commit_inv [OF inv, of e t] rd o(3) by (simp add: wallet_ready_def)
  ultimately show "wallet_inv (w_state w') \<and> held_by w (esc_id x) = None \<and>
      held_by w' = (held_by w)(esc_id x \<mapsto> unat a) \<and>
      unat (available (w_state w')) + unat a = unat (available (w_state w))"
    using c(1) o(3) by simp
next
  fix e t w a r j er w'
  assume "wallet_ready e t w" and "create_escrow e a r j t w = (Err er, w')"
  then show "w' = w"
    by (auto simp: create_escrow_def create_escrow_commit_def Let_def wallet_ready_def finish_eq
        escrow_new_def split: outcome.splits if_splits option.splits)
next
  fix e t w a r j
  assume "wallet_ready e t w"
  then show "fst (create_escrow e a r j t w) \<noteq> Panic"
    by (auto simp: create_escrow_def create_escrow_commit_def Let_def wallet_ready_def finish_eq
        escrow_new_def check_spending_limits_def split: outcome.splits if_splits option.splits)
next
  fix w e t i n
  assume inv: "wallet_inv (w_state w)" and rd: "wallet_ready e t w" and h: "held_by w i = Some n"
  from h obtain x where x: "hm_get (escrows (w_state w)) i = Some x" "esc_status x = Active"
    "n = unat (esc_amount x)"
    by (auto simp: held_by_Some)
  have r: "fst (release_escrow e i w) =
      Ok (new_escrow_released e (esc_amount x) i, esc_amount x, esc_recipient x)"
    "\<exists>tx. fst (refund_escrow e i w) = Ok tx"
    using x rd by (simp_all add: release_escrow_def refund_escrow_def Let_def finish_eq wallet_ready_def)
  note re = release_effect [OF inv x(1,2), of e] and rf = refund_effect [OF inv x(1,2), of e]
  show "\<exists>tx r w'. release_escrow e i w = (Ok (tx, word_of_nat n, r), w') \<and>
      wallet_inv (w_state w') \<and> held_by w' = (held_by w)(i := None) \<and>
      unat (available (w_state w')) = unat (available (w_state w))"
    using held_by_update [OF re(4)] re(1) release_escrow_inv [OF inv, of e i] r(1) x(3)
    by (intro exI [of _ "new_escrow_released e (esc_amount x) i"] exI [of _ "esc_recipient x"]
        exI [of _ "snd (release_escrow e i w)"]) (auto simp: prod_eq_iff)
  from r(2) obtain tx where tx: "fst (refund_escrow e i w) = Ok tx" ..
  show "\<exists>tx w'. refund_escrow e i w = (Ok tx, w') \<and>
      wallet_inv (w_state w') \<and> held_by w' = (held_by w)(i := None) \<and>
      unat (available (w_state w')) = unat (available (w_state w)) + n"
    using held_by_update [OF rf(4)] rf(1) refund_escrow_inv [OF inv, of e i] tx x(3)
    by (intro exI [of _ tx] exI [of _ "snd (refund_escrow e i w)"]) (auto simp: prod_eq_iff)
next
  fix w i e
  assume h: "held_by w i = None"
  then show "\<exists>er. release_escrow e i w = (Err er, w)" and "\<exists>er. refund_escrow e i w = (Err er, w)"
    by (auto simp: held_by_def release_escrow_def refund_escrow_def Let_def
        split: option.splits if_splits)
qed

subsection \<open>Concrete inputs for the witnesses\<close>

definition demo_add :: "timestamp \<Rightarrow> i64 \<Rightarrow> timestamp option" where
  "demo_add t n = (if 0 \<le> sint n \<and> sint n \<le> 1000000000 then Some (t + sint n * 1000000000) else None)"

definition demo_env :: "timestamp \<Rightarrow> string \<Rightarrow> call_env" where
  "demo_env t i =
     \<lparr>env_now = t, env_tx_id = ''tx_1'', env_sweep_tx_id = (\<lambda>j. ''tx_s'' @ j), env_escrow_id = i,
      env_store_error = None, env_add_secs = demo_add\<rparr>"

definition demo_escrow :: escrow where
  "demo_escrow =
     \<lparr>esc_id = ''e1'', esc_amount = 50, esc_recipient = ''bob'', esc_job_id = ''j1'',
      esc_created_at = 0, esc_expires_at = 3600000000000, esc_status = Active,
      esc_resolved_at = None\<rparr>"

definition demo_wallet :: wallet where
  "demo_wallet =
     \<lparr>w_state =
        \<lparr>available = 1000000000, in_escrow = 50, staked = 0, escrows = [(''e1'', demo_escrow)],
         transactions = [], hourly_spend = [(5, 450000000)], daily_spend = []\<rparr>,
      w_config = default_wallet_config, w_stored = None\<rparr>"

lemma demo_wallet_inv: "wallet_inv (w_state demo_wallet)"
  by (simp add: demo_wallet_def demo_escrow_def wallet_inv_def token_supply_def hm_wf_def
      active_amount_def)

subsection \<open>The properties\<close>

text \<open>A history with a credit, an escrow, a creation that makes chrono panic, and a refund.\<close>

definition demo_ops :: "wallet_op list" where
  "demo_ops =
     [OpCredit (demo_env 0 ''e0'') 1000000000 ''r'', OpCreate (demo_env 0 ''e1'') 70 ''bob'' ''j1'' 300,
      OpCreate (demo_env 0 ''e2'') 30 ''bob'' ''j2'' (- 1), OpCreate (demo_env 0 ''e3'') 5 ''bob'' ''j3'' 9,
      OpRefund (demo_env 1 ''e0'') ''e3'']"

lemma demo_ops_ok: "run_credits demo_ops < 2 ^ 64" "distinct (run_draws demo_ops)"
  by (simp_all add: demo_ops_def demo_env_def)

lemma demo_run_facts:
  "run_lost demo_ops (fresh_wallet default_wallet_config) = 30"
  "hm_sum active_amount (escrows (w_state (wallet_run demo_ops (fresh_wallet default_wallet_config)))) = 70"
  "length (transactions (w_state (wallet_run demo_ops (fresh_wallet default_wallet_config)))) = 4"
  by (simp_all add: demo_ops_def demo_env_def demo_add_def fresh_wallet_def default_wallet_state_def
      default_wallet_config_def MICRO_PCLAW_def credit_def create_escrow_commit_def refund_escrow_def
      effective_available_def escrow_new_def set_escrow_status_def finish_eq sat_sub_def Let_def
      keep_last_def active_amount_def)

text \<open>C1: Take any sequence of the wallet's critical sections on an empty wallet, in any order, with any
  failures of the database, such that all credits together fit in \<open>u64\<close> and no escrow identifier is
  drawn twice. Then the amount in escrow is the sum of the active escrows, plus what was moved into
  escrow by creations that panicked on their time-out and have no escrow, and all tokens
  together are never more than have been credited.\<close>

theorem escrow_backed:
  assumes "run_credits ops < 2 ^ 64" and "distinct (run_draws ops)"
  shows "unat (in_escrow (w_state (wallet_run ops (fresh_wallet cfg)))) =
      hm_sum active_amount (escrows (w_state (wallet_run ops (fresh_wallet cfg)))) +
      run_lost ops (fresh_wallet cfg) \<and>
    hm_wf (escrows (w_state (wallet_run ops (fresh_wallet cfg)))) \<and>
    token_supply (w_state (wallet_run ops (fresh_wallet cfg))) \<le> run_credits ops"
  using run_accounts [OF assms] by blast

theorem escrow_backed_witness:
  "unat (in_escrow (w_state (wallet_run demo_ops (fresh_wallet default_wallet_config)))) = 100 \<and>
    token_supply (w_state (wallet_run demo_ops (fresh_wallet default_wallet_config))) \<le> 1000000000"
  using escrow_backed [OF demo_ops_ok, of default_wallet_config] demo_run_facts(1,2)
  by (simp add: demo_ops_def)

text \<open>C3: In any such sequence, as long as the history is below the 1000 entries at which \<open>credit\<close>
  starts to trim it, the recorded directions explain the spendable and staked tokens together, and the
  recorded escrow entries explain the tokens in escrow, up to the amounts of the creations that
  panicked: these left the spendable tokens for the escrow without an entry.\<close>

theorem ledger_explains_balances:
  assumes "run_credits ops < 2 ^ 64" and "distinct (run_draws ops)"
    and "length (transactions (w_state (wallet_run ops (fresh_wallet cfg)))) < 1000"
  shows "int (unat (available (w_state (wallet_run ops (fresh_wallet cfg))))) +
      int (unat (staked (w_state (wallet_run ops (fresh_wallet cfg))))) +
      int (run_lost ops (fresh_wallet cfg)) =
      net_in (transactions (w_state (wallet_run ops (fresh_wallet cfg)))) \<and>
    int (unat (in_escrow (w_state (wallet_run ops (fresh_wallet cfg))))) =
      net_held (transactions (w_state (wallet_run ops (fresh_wallet cfg)))) +
      int (run_lost ops (fresh_wallet cfg))"
  by (rule run_accounts(4) [OF assms])

theorem ledger_explains_balances_witness:
  "net_held (transactions (w_state (wallet_run demo_ops (fresh_wallet default_wallet_config)))) = 70"
proof -
  have "length (transactions (w_state (wallet_run demo_ops (fresh_wallet default_wallet_config)))) < 1000"
    using demo_run_facts(3) by simp
  from ledger_explains_balances [OF demo_ops_ok this]
  have "int (unat (in_escrow (w_state (wallet_run demo_ops (fresh_wallet default_wallet_config))))) =
      net_held (transactions (w_state (wallet_run demo_ops (fresh_wallet default_wallet_config)))) + 30"
    using demo_run_facts(1) by simp
  moreover have "unat (in_escrow (w_state (wallet_run demo_ops (fresh_wallet default_wallet_config)))) = 100"
    using run_accounts(2) [OF demo_ops_ok, of default_wallet_config] demo_run_facts(1,2) by simp
  ultimately show ?thesis by (simp del: of_nat_unat)
qed

text \<open>C2: An escrow that has been released, refunded or expired stays exactly as it is whatever
  happens later, and both \<open>release_escrow\<close> and \<open>refund_escrow\<close> refuse it and change nothing: no
  escrow is paid out twice.\<close>

theorem escrow_resolution_final:
  assumes "wstep\<^sup>*\<^sup>* w w'" and "wallet_inv (w_state w)"
    and "hm_get (escrows (w_state w)) i = Some x" and "esc_status x \<noteq> Active"
  shows "hm_get (escrows (w_state w')) i = Some x \<and>
    release_escrow e i w' = (Err (EscrowAlreadyResolved i), w') \<and>
    refund_escrow e i w' = (Err (EscrowAlreadyResolved i), w')"
proof -
  from reach_evolves [OF assms(1-3)] assms(4) have "hm_get (escrows (w_state w')) i = Some x"
    by (auto simp: evolves_def)
  then show ?thesis using assms(4) by (simp add: release_escrow_def refund_escrow_def Let_def)
qed

theorem escrow_resolution_final_witness:
  "fst (refund_escrow (demo_env 0 ''e2'') ''e1''
      (snd (release_escrow (demo_env 0 ''e2'') ''e1'' demo_wallet))) =
    Err (EscrowAlreadyResolved ''e1'')"
proof -
  let ?w = "snd (release_escrow (demo_env 0 ''e2'') ''e1'' demo_wallet)"
  have x: "hm_get (escrows (w_state ?w)) ''e1'' = Some (demo_escrow\<lparr>esc_status := Released\<rparr>)"
    by (simp add: release_escrow_def demo_wallet_def demo_escrow_def Let_def set_escrow_status_def)
  have i: "wallet_inv (w_state ?w)" by (rule release_escrow_inv [OF demo_wallet_inv])
  from escrow_resolution_final [OF rtranclp.rtrancl_refl i x] show ?thesis by simp
qed

text \<open>C4: Debits made one after the other never take the recorded spending of any hour or any day
  over the configured limits.\<close>

theorem debits_respect_limits:
  assumes "sane_limits (w_config w)" and "within_limits w"
  shows "within_limits (debit_run ds w)"
  using assms
proof (induction ds arbitrary: w)
  case (Cons d ds)
  obtain e amount reason where "d = (e, amount, reason)" by (cases d)
  with Cons debit_within_limits [OF Cons.prems] show ?case by simp
qed simp

theorem debits_respect_limits_witness:
  "spent_hour (debit_run [(demo_env 18000000000000 ''e'', 40000000, ''r''),
     (demo_env 18000000000000 ''e'', 40000000, ''r'')] demo_wallet) 5 \<le> 500000000"
proof -
  have "sane_limits (w_config demo_wallet)"
    by (simp add: demo_wallet_def default_wallet_config_def MICRO_PCLAW_def sane_limits_def)
  moreover have "within_limits demo_wallet"
    by (auto simp: demo_wallet_def within_limits_def spent_hour_def spent_day_def hm_get_or_def
        default_wallet_config_def MICRO_PCLAW_def)
  ultimately have "within_limits (debit_run [(demo_env 18000000000000 ''e'', 40000000, ''r''),
     (demo_env 18000000000000 ''e'', 40000000, ''r'')] demo_wallet)"
    by (rule debits_respect_limits)
  then show ?thesis
    by (simp add: within_limits_def demo_wallet_def default_wallet_config_def MICRO_PCLAW_def)
qed

text \<open>Concurrent debits do not: \<open>debit\<close> gives the lock up between the check and the
  withdrawal, so two debits that each pass the check can together spend 530 PCLAW in an hour whose
  limit is 500.\<close>

theorem concurrent_debits_exceed_limit:
  "\<exists>w e1 e2. within_limits w \<and> w_config w = default_wallet_config \<and>
     check_spending_limits e1 40000000 w = Ok () \<and> check_spending_limits e2 40000000 w = Ok () \<and>
     is_ok (fst (debit_commit e1 40000000 ''a'' w)) \<and>
     is_ok (fst (debit_commit e2 40000000 ''b'' (snd (debit_commit e1 40000000 ''a'' w)))) \<and>
     unat (max_spend_per_hour default_wallet_config) <
       spent_hour (snd (debit_commit e2 40000000 ''b'' (snd (debit_commit e1 40000000 ''a'' w))))
         (hour_key (env_now e2))"
proof -
  let ?e = "demo_env 18000000000000 ''e''"
  have h: "hour_key 18000000000000 = 5" "day_key 18000000000000 = 0"
    by (simp_all add: hour_key_def day_key_def now_secs_def)
  have "within_limits demo_wallet"
    by (auto simp: demo_wallet_def within_limits_def spent_hour_def spent_day_def hm_get_or_def
        default_wallet_config_def MICRO_PCLAW_def)
  moreover have "check_spending_limits ?e 40000000 demo_wallet = Ok ()"
    by (simp add: check_spending_limits_def demo_wallet_def demo_env_def h Let_def hm_get_or_def
        default_wallet_config_def MICRO_PCLAW_def)
  moreover have "is_ok (fst (debit_commit ?e 40000000 ''a'' demo_wallet)) \<and>
      is_ok (fst (debit_commit ?e 40000000 ''b'' (snd (debit_commit ?e 40000000 ''a'' demo_wallet)))) \<and>
      spent_hour (snd (debit_commit ?e 40000000 ''b'' (snd (debit_commit ?e 40000000 ''a'' demo_wallet)))) 5
        = 530000000"
    by (simp add: debit_commit_def effective_available_def demo_wallet_def demo_env_def h Let_def
        default_wallet_config_def MICRO_PCLAW_def finish_eq record_spend_def sat_sub_def
        hm_get_or_def hm_retain_def spent_hour_def)
  ultimately show ?thesis
    by (intro exI [of _ demo_wallet] exI [of _ ?e])
      (simp add: h demo_env_def demo_wallet_def default_wallet_config_def MICRO_PCLAW_def)
qed

text \<open>C19: In a wallet in order, whose amount in escrow is the sum of its active escrows and whose tokens
  together fit in \<open>u64\<close>, the sweep refunds exactly the escrows that are active and past their expiry: it returns
  their identifiers, marks each of them expired, leaves every other escrow alone, keeps the total
  of all tokens, and leaves no expired escrow active.\<close>

theorem sweep_correct:
  assumes "wallet_inv (w_state w)"
  shows "fst (sweep_expired_escrows e w) = expired_ids (env_now e) (w_state w) \<and>
    hm_get (escrows (w_state (snd (sweep_expired_escrows e w)))) =
      (\<lambda>i. case hm_get (escrows (w_state w)) i of
              None \<Rightarrow> None
            | Some x \<Rightarrow>
                if esc_status x = Active \<and> escrow_is_expired_at x (env_now e)
                then Some (x\<lparr>esc_status := Expired\<rparr>) else Some x) \<and>
    token_supply (w_state (snd (sweep_expired_escrows e w))) = token_supply (w_state w) \<and>
    expired_ids (env_now e) (w_state (snd (sweep_expired_escrows e w))) = []"
proof -
  let ?w' = "snd (sweep_expired_escrows e w)"
  note f = sweep_fold [OF assms, of e]
  have m: "i \<in> set (expired_ids (env_now e) (w_state w)) \<longleftrightarrow>
      (\<exists>x. hm_get (escrows (w_state w)) i = Some x \<and> esc_status x = Active \<and>
        escrow_is_expired_at x (env_now e))" for i
    by (rule expired_ids_iff [OF wallet_invD(1) [OF assms]])
  have g: "hm_get (escrows (w_state ?w')) i =
      (case hm_get (escrows (w_state w)) i of None \<Rightarrow> None
       | Some x \<Rightarrow> if esc_status x = Active \<and> escrow_is_expired_at x (env_now e)
                  then Some (x\<lparr>esc_status := Expired\<rparr>) else Some x)" for i
    using f m [of i] by (auto simp: expire_def split: option.splits)
  have "i \<notin> set (expired_ids (env_now e) (w_state ?w'))" for i
    using expired_ids_iff [of "w_state ?w'" i "env_now e"] wallet_invD(1) [of "w_state ?w'"] f g [of i]
    by (auto split: option.splits if_splits)
  then have "expired_ids (env_now e) (w_state ?w') = []"
    by (cases "expired_ids (env_now e) (w_state ?w')") (simp, metis list.set_intros(1))
  then show ?thesis using f g sweep_returns [OF assms] by (simp add: fun_eq_iff)
qed

theorem sweep_correct_witness:
  "fst (sweep_expired_escrows (demo_env 7200000000000 ''e'') demo_wallet) = [''e1'']"
  using sweep_correct [OF demo_wallet_inv, of "demo_env 7200000000000 ''e''"]
  by (simp add: expired_ids_def demo_wallet_def demo_escrow_def demo_env_def escrow_is_expired_at_def)

text \<open>A successful debit or escrow creation never takes the spendable balance below the
  configured reserve; \<open>stake\<close>, which does not look at the reserve, can.\<close>

theorem reserve_kept:
  assumes "reserve_balance (w_config w) \<le> available (w_state w)"
  shows "reserve_balance (w_config w) \<le> available (w_state (snd (debit e amount reason w))) \<and>
    reserve_balance (w_config w) \<le> available (w_state (snd (create_escrow e amount r j t w)))"
proof -
  have le: "unat (reserve_balance (w_config w)) + unat amount \<le> unat (available (w_state w))"
    if "\<not> effective_available w < amount"
  proof -
    from that have "unat amount \<le> unat (effective_available w)" by (simp add: word_less_nat_alt)
    with assms show ?thesis by (simp add: effective_available_def word_le_nat_alt)
  qed
  have "reserve_balance (w_config w) \<le> available (w_state w) - amount"
    if "\<not> effective_available w < amount"
    using le [OF that] by (simp add: word_le_nat_alt unat_sub_le)
  then have "reserve_balance (w_config w) \<le>
      available (w_state (snd (debit_commit e amount reason w)))"
    "reserve_balance (w_config w) \<le>
      available (w_state (snd (create_escrow_commit e amount r j t w)))"
    using assms by (auto simp: debit_commit_def create_escrow_commit_def Let_def split: option.splits)
  with assms show ?thesis by (auto simp: debit_def create_escrow_def split: outcome.splits)
qed

theorem reserve_kept_witness:
  "reserve_balance (w_config demo_wallet) \<le>
     available (w_state (snd (debit (demo_env 0 ''e'') 100000000 ''r'' demo_wallet)))"
proof -
  have "reserve_balance (w_config demo_wallet) \<le> available (w_state demo_wallet)"
    by (simp add: demo_wallet_def default_wallet_config_def MICRO_PCLAW_def)
  from reserve_kept [OF this] show ?thesis by blast
qed

text \<open>When the database refuses the write, \<open>credit\<close> reports an error although the tokens are
  in the balance: the caller that tries again is paid twice.\<close>

theorem failed_store_keeps_credit:
  assumes "env_store_error e = Some m" and "amount \<noteq> 0"
  shows "fst (credit e amount reason w) = Err (Database m) \<and>
    available (w_state (snd (credit e amount reason w))) = available (w_state w) + amount \<and>
    w_stored (snd (credit e amount reason w)) = w_stored w"
  using assms by (simp add: credit_def Let_def finish_eq)

theorem failed_store_keeps_credit_witness:
  "available (w_state (snd (credit ((demo_env 0 ''e'')\<lparr>env_store_error := Some ''disk full''\<rparr>) 5 ''r''
     demo_wallet))) = 1000000005"
  using failed_store_keeps_credit [of "(demo_env 0 ''e'')\<lparr>env_store_error := Some ''disk full''\<rparr>"
      "''disk full''" 5 "''r''" demo_wallet]
  by (simp add: demo_wallet_def)

end
