(* ===== verification/Text.thy ===== *)
theory Text
  imports Prelude
begin

section \<open>Strings\<close>

text \<open>
  The string operations of Rust's standard library the program uses, on UTF-8 byte strings: decimal
  numbers, search and replacement, trimming of Unicode white space, prefixes by characters.
\<close>

text \<open>Decimal rendering of a non-negative integer, most significant digit first.\<close>

function decimal :: "int \<Rightarrow> string" where
  "decimal n =
     (if n < 10 then [char_of (48 + nat n)] else decimal (n div 10) @ [char_of (48 + nat (n mod 10))])"
  by pat_completeness auto
termination
  by (relation "measure nat") auto

declare decimal.simps [simp del]

definition show_word :: "'a::len word \<Rightarrow> string" where
  "show_word w = decimal (uint w)"

text \<open>
  Strings are byte strings in UTF-8. \<open>ascii_lower\<close> changes the letters A to Z only; Unicode's
  lower case differs in other characters, none of which yields a letter of the patterns the code
  looks for.
\<close>

definition ascii_lower :: "string \<Rightarrow> string" where
  "ascii_lower s =
     map (\<lambda>c. let n = (of_char c :: nat) in if 65 \<le> n \<and> n \<le> 90 then char_of (n + 32) else c) s"

definition ascii_upper :: "string \<Rightarrow> string" where
  "ascii_upper s =
     map (\<lambda>c. let n = (of_char c :: nat) in if 97 \<le> n \<and> n \<le> 122 then char_of (n - 32) else c) s"

fun starts_with :: "string \<Rightarrow> string \<Rightarrow> bool" where
  "starts_with _ [] = True"
| "starts_with [] (_ # _) = False"
| "starts_with (a # as) (b # bs) = (a = b \<and> starts_with as bs)"

fun str_contains :: "string \<Rightarrow> string \<Rightarrow> bool" where
  "str_contains [] pat = (pat = [])"
| "str_contains (c # s) pat = (starts_with (c # s) pat \<or> str_contains s pat)"

definition ends_with :: "string \<Rightarrow> string \<Rightarrow> bool" where
  "ends_with s pat \<longleftrightarrow> starts_with (rev s) (rev pat)"

text \<open>\<open>find\<close>: the byte position of the first occurrence.\<close>

fun str_find :: "string \<Rightarrow> string \<Rightarrow> nat option" where
  "str_find [] pat = (if pat = [] then Some 0 else None)"
| "str_find (c # s) pat = (if starts_with (c # s) pat then Some 0 else map_option Suc (str_find s pat))"

definition eq_ignore_ascii_case :: "string \<Rightarrow> string \<Rightarrow> bool" where
  "eq_ignore_ascii_case a b \<longleftrightarrow> ascii_lower a = ascii_lower b"

lemma starts_with_length: "starts_with s pat \<Longrightarrow> length pat \<le> length s"
  by (induction s pat rule: starts_with.induct) auto

lemma str_find_bound: "str_find s pat = Some i \<Longrightarrow> i + length pat \<le> length s"
proof (induction s arbitrary: i)
  case (Cons c s)
  then show ?case using starts_with_length [of "c # s" pat] by (auto split: if_splits)
qed (auto split: if_splits)

text \<open>\<open>replace\<close>: the occurrences from left to right, which do not overlap.\<close>

function replace_all :: "string \<Rightarrow> string \<Rightarrow> string \<Rightarrow> string" where
  "replace_all pat rep s =
     (case s of
        [] \<Rightarrow> []
      | c # r \<Rightarrow>
          if pat \<noteq> [] \<and> starts_with s pat then rep @ replace_all pat rep (drop (length pat) s)
          else c # replace_all pat rep r)"
  by pat_completeness auto
termination
  by (relation "measure (\<lambda>(pat, rep, s). length s)") (auto simp: neq_Nil_conv)

declare replace_all.simps [simp del]

text \<open>The encodings of the characters with the property \<open>White_Space\<close>.\<close>

definition white_spaces :: "string list" where
  "white_spaces =
     [[CHR 0x09], [CHR 0x0A], [CHR 0x0B],
      [CHR 0x0C], [CHR 0x0D], [CHR 0x20],
      [CHR 0xC2, CHR 0x85], [CHR 0xC2, CHR 0xA0], [CHR 0xE1, CHR 0x9A, CHR 0x80],
      [CHR 0xE2, CHR 0x80, CHR 0x80], [CHR 0xE2, CHR 0x80, CHR 0x81], [CHR 0xE2, CHR 0x80, CHR 0x82],
      [CHR 0xE2, CHR 0x80, CHR 0x83], [CHR 0xE2, CHR 0x80, CHR 0x84], [CHR 0xE2, CHR 0x80, CHR 0x85],
      [CHR 0xE2, CHR 0x80, CHR 0x86], [CHR 0xE2, CHR 0x80, CHR 0x87], [CHR 0xE2, CHR 0x80, CHR 0x88],
      [CHR 0xE2, CHR 0x80, CHR 0x89], [CHR 0xE2, CHR 0x80, CHR 0x8A], [CHR 0xE2, CHR 0x80, CHR 0xA8],
      [CHR 0xE2, CHR 0x80, CHR 0xA9], [CHR 0xE2, CHR 0x80, CHR 0xAF], [CHR 0xE2, CHR 0x81, CHR 0x9F],
      [CHR 0xE3, CHR 0x80, CHR 0x80]]"

function trim_with :: "string list \<Rightarrow> string \<Rightarrow> string" where
  "trim_with ws s =
     (case find (\<lambda>w. w \<noteq> [] \<and> starts_with s w) ws of
        None \<Rightarrow> s
      | Some w \<Rightarrow> trim_with ws (drop (length w) s))"
  by pat_completeness auto
termination
proof (relation "measure (\<lambda>(ws, s). length s)", simp)
  fix ws s w
  assume "find (\<lambda>w. w \<noteq> [] \<and> starts_with s w) ws = Some w"
  then have "w \<noteq> []" "starts_with s w" by (auto simp: find_Some_iff)
  then show "((ws, drop (length w) s), ws, s) \<in> measure (\<lambda>(ws, s). length s)"
    by (cases s; cases w) auto
qed

declare trim_with.simps [simp del]

definition trim :: "string \<Rightarrow> string" where
  "trim s = rev (trim_with (map rev white_spaces) (rev (trim_with white_spaces s)))"

text \<open>\<open>chars().take(n)\<close>: up to the \<open>n\<close>-th byte that starts a character.\<close>

fun take_chars :: "nat \<Rightarrow> string \<Rightarrow> string" where
  "take_chars n [] = []"
| "take_chars n (c # s) =
     (if 128 \<le> (of_char c :: nat) \<and> (of_char c :: nat) < 192 then c # take_chars n s
      else (case n of 0 \<Rightarrow> [] | Suc k \<Rightarrow> c # take_chars k s))"

fun join_with :: "string \<Rightarrow> string list \<Rightarrow> string" where
  "join_with sep [] = []"
| "join_with sep [x] = x"
| "join_with sep (x # y # xs) = x @ sep @ join_with sep (y # xs)"

text \<open>The order of \<open>str\<close>: bytes, lexicographically.\<close>

fun str_less :: "string \<Rightarrow> string \<Rightarrow> bool" where
  "str_less _ [] = False"
| "str_less [] (_ # _) = True"
| "str_less (a # as) (b # bs) =
     ((of_char a :: nat) < of_char b \<or> a = b \<and> str_less as bs)"

text \<open>\<open>split_whitespace\<close>: the maximal runs of characters that are not white space.\<close>

fun until_white :: "string \<Rightarrow> string" where
  "until_white [] = []"
| "until_white (c # s) =
     (if find (starts_with (c # s)) white_spaces \<noteq> None then [] else c # until_white s)"

function split_whitespace :: "string \<Rightarrow> string list" where
  "split_whitespace s =
     (case until_white (trim_with white_spaces s) of
        [] \<Rightarrow> []
      | c # w \<Rightarrow> (c # w) # split_whitespace (drop (length (c # w)) (trim_with white_spaces s)))"
  by pat_completeness auto

lemma length_trim_with: "length (trim_with ws s) \<le> length s"
proof (induction ws s rule: trim_with.induct)
  case (1 ws s)
  show ?case
  proof (cases "find (\<lambda>w. w \<noteq> [] \<and> starts_with s w) ws")
    case (Some w)
    from 1 [OF this] have "length (trim_with ws (drop (length w) s)) \<le> length s"
      using le_trans [OF _ diff_le_self] by (metis length_drop)
    with Some show ?thesis by (subst trim_with.simps) simp
  qed (subst trim_with.simps, simp)
qed

termination split_whitespace
proof (relation "measure length", simp)
  fix s c w
  assume *: "until_white (trim_with white_spaces s) = c # w"
  then have "trim_with white_spaces s \<noteq> []" by auto
  then have "length (drop (length (c # w)) (trim_with white_spaces s)) < length (trim_with white_spaces s)"
    by simp
  also have "\<dots> \<le> length s" by (rule length_trim_with)
  finally show "(drop (length (c # w)) (trim_with white_spaces s), s) \<in> measure length" by simp
qed

declare split_whitespace.simps [simp del]

text \<open>\<open>chars().count()\<close>.\<close>

definition char_count :: "string \<Rightarrow> nat" where
  "char_count s = length (filter (\<lambda>c. \<not> (128 \<le> (of_char c :: nat) \<and> (of_char c :: nat) < 192)) s)"

text \<open>\<open>split\<close> at the characters a test picks.\<close>

fun split_on :: "(char \<Rightarrow> bool) \<Rightarrow> string \<Rightarrow> string list" where
  "split_on p [] = [[]]"
| "split_on p (c # s) =
     (if p c then [] # split_on p s
      else (case split_on p s of [] \<Rightarrow> [[c]] | w # ws \<Rightarrow> (c # w) # ws))"

text \<open>Positions between characters; a slice that cuts a character panics, here \<open>None\<close>.\<close>

definition is_char_start :: "char \<Rightarrow> bool" where
  "is_char_start c \<longleftrightarrow> \<not> (128 \<le> (of_char c :: nat) \<and> (of_char c :: nat) < 192)"

definition is_char_boundary :: "string \<Rightarrow> nat \<Rightarrow> bool" where
  "is_char_boundary s n \<longleftrightarrow> n = 0 \<or> n = length s \<or> n < length s \<and> is_char_start (s ! n)"

definition slice_to :: "nat \<Rightarrow> string \<Rightarrow> string option" where
  "slice_to n s = (if is_char_boundary s n then Some (take n s) else None)"

definition show_nat :: "nat \<Rightarrow> string" where
  "show_nat n = decimal (int n)"

fun show_bool :: "bool \<Rightarrow> string" where
  "show_bool b = (if b then ''true'' else ''false'')"

text \<open>\<open>Path::join\<close>: an absolute path replaces the first one.\<close>

definition path_join :: "string \<Rightarrow> string \<Rightarrow> string" where
  "path_join a b =
     (if starts_with b ''/'' \<or> a = [] then b
      else if ends_with a ''/'' then a @ b else a @ ''/'' @ b)"

definition quote1 :: "string \<Rightarrow> string" where
  "quote1 s = [CHR 0x27] @ s @ [CHR 0x27]"

subsection \<open>Decimal numbers\<close>

definition is_digit :: "char \<Rightarrow> bool" where
  "is_digit c \<longleftrightarrow> 48 \<le> (of_char c :: nat) \<and> (of_char c :: nat) \<le> 57"

definition digits_val :: "string \<Rightarrow> int" where
  "digits_val s = foldl (\<lambda>n c. 10 * n + (of_char c - 48)) 0 s"

text \<open>\<open>str::parse\<close> of an unsigned integer of the width of the result; a plus sign is allowed.\<close>

definition parse_uint :: "string \<Rightarrow> 'a::len word option" where
  "parse_uint s =
     (let d = (case s of c # r \<Rightarrow> if c = CHR ''+'' then r else s | [] \<Rightarrow> [])
      in if d = [] \<or> \<not> list_all is_digit d then None
         else let n = digits_val d in if n < 2 ^ LENGTH('a) then Some (word_of_int n) else None)"

lemma digits_val_snoc [simp]: "digits_val (s @ [c]) = 10 * digits_val s + (of_char c - 48)"
  by (simp add: digits_val_def)

lemma decimal_parses: "0 \<le> n \<Longrightarrow> digits_val (decimal n) = n \<and> list_all is_digit (decimal n) \<and> decimal n \<noteq> []"
proof (induction n rule: decimal.induct)
  case (1 n)
  have d: "of_char (char_of (48 + nat m)) - 48 = m" "is_digit (char_of (48 + nat m))" if "0 \<le> m" "m < 10" for m :: int
  proof -
    have "(of_char (char_of (48 + nat m) :: char) :: nat) = 48 + nat m" using that by simp
    moreover from this have "(of_char (char_of (48 + nat m) :: char) :: int) = 48 + m"
      using that by (simp flip: of_nat_of_char [of "char_of (48 + nat m)"])
    ultimately show "of_char (char_of (48 + nat m)) - 48 = m" "is_digit (char_of (48 + nat m))"
      using that by (auto simp: is_digit_def)
  qed
  show ?case
  proof (cases "n < 10")
    case True
    then show ?thesis using 1(2) d [of n] by (simp add: decimal.simps digits_val_def)
  next
    case False
    then show ?thesis using 1 d [of "n mod 10"] by (simp add: decimal.simps [of n])
  qed
qed

lemma decimal_no_sign: "0 \<le> n \<Longrightarrow> \<exists>c r. decimal n = c # r \<and> is_digit c"
  using decimal_parses [of n] by (cases "decimal n") auto

lemma parse_show_word [simp]: "parse_uint (show_word w) = Some w"
proof -
  obtain c r where d: "decimal (uint w) = c # r" "is_digit c"
    using decimal_no_sign [of "uint w"] by auto
  then have "c \<noteq> CHR ''+''" by (auto simp: is_digit_def)
  then show ?thesis
    using decimal_parses [of "uint w"] d unsigned_less [of w, where 'a = int]
    by (simp add: parse_uint_def show_word_def Let_def)
qed

lemma split_on_join: "\<not> list_ex p a \<Longrightarrow> p c \<Longrightarrow> split_on p (a @ c # s) = a # split_on p s"
  by (induction a) auto

lemma split_on_one: "\<not> list_ex p a \<Longrightarrow> split_on p a = [a]"
  by (induction a) auto

subsection \<open>UTF-8\<close>

text \<open>\<open>from_utf8\<close> of the standard library: the ranges the bytes after a leading byte must be in.\<close>

definition utf8_lead :: "nat \<Rightarrow> (nat \<times> nat) list option" where
  "utf8_lead b =
     (if b < 0x80 then Some []
      else if 0xC2 \<le> b \<and> b \<le> 0xDF then Some [(0x80, 0xBF)]
      else if b = 0xE0 then Some [(0xA0, 0xBF), (0x80, 0xBF)]
      else if b = 0xED then Some [(0x80, 0x9F), (0x80, 0xBF)]
      else if 0xE1 \<le> b \<and> b \<le> 0xEF then Some [(0x80, 0xBF), (0x80, 0xBF)]
      else if b = 0xF0 then Some [(0x90, 0xBF), (0x80, 0xBF), (0x80, 0xBF)]
      else if 0xF1 \<le> b \<and> b \<le> 0xF3 then Some [(0x80, 0xBF), (0x80, 0xBF), (0x80, 0xBF)]
      else if b = 0xF4 then Some [(0x80, 0x8F), (0x80, 0xBF), (0x80, 0xBF)]
      else None)"

fun utf8_run :: "(nat \<times> nat) list \<Rightarrow> string \<Rightarrow> bool" where
  "utf8_run rs [] = (rs = [])"
| "utf8_run [] (c # s) = (case utf8_lead (of_char c) of None \<Rightarrow> False | Some rs \<Rightarrow> utf8_run rs s)"
| "utf8_run ((lo, hi) # rs) (c # s) = (lo \<le> (of_char c :: nat) \<and> (of_char c :: nat) \<le> hi \<and> utf8_run rs s)"

definition utf8_valid :: "string \<Rightarrow> bool" where
  "utf8_valid s = utf8_run [] s"

end
