(* ===== verification/Channel.thy ===== *)
theory Channel
  imports Wallet Text
begin

section \<open>Payment channels\<close>

text \<open>
  Models \<^verbatim>\<open>src/channel/mod.rs\<close> and \<^verbatim>\<open>src/channel/state.rs\<close>: the updates and close requests with
  the bytes that are signed, one channel's balances, and the manager with its three maps and
  the wallet it locks funds in. Strings are byte strings. Ed25519, hex and BLAKE3 are third-party
  code: \<open>crypto\<close> holds the functions the code calls, with no assumption about them.
\<close>

subsection \<open>Bytes\<close>

definition str_bytes :: "string \<Rightarrow> u8 list" where
  "str_bytes s = map of_char s"

text \<open>\<open>to_le_bytes\<close> of a 64-bit integer.\<close>

definition le_bytes :: "u64 \<Rightarrow> u8 list" where
  "le_bytes w = map (\<lambda>i. ucast (drop_bit (8 * i) w)) [0..<8]"

text \<open>\<open>timestamp()\<close> of a \<open>DateTime\<close>: whole seconds, as the 64 bits of an \<open>i64\<close>.\<close>

definition unix_secs :: "timestamp \<Rightarrow> i64" where
  "unix_secs t = word_of_int (t div 1000000000)"

record 'k crypto =
  hex_encode :: "u8 list \<Rightarrow> string"
  hex_decode :: "string \<Rightarrow> u8 list option"
  key_from_bytes :: "u8 list \<Rightarrow> 'k option"
  key_verify :: "'k \<Rightarrow> u8 list \<Rightarrow> u8 list \<Rightarrow> bool"
  blake3_hex :: "u8 list \<Rightarrow> string"

record identity =
  own_peer_id :: string
  own_sign :: "u8 list \<Rightarrow> u8 list"

subsection \<open>Channel identifiers, errors, updates\<close>

type_synonym channel_id = string

definition channel_id_from_peers :: "'k crypto \<Rightarrow> string \<Rightarrow> string \<Rightarrow> channel_id" where
  "channel_id_from_peers c a b =
     (let (first, second) = (if str_less a b then (a, b) else (b, a))
      in ''chan_'' @ take 32 (blake3_hex c (str_bytes (first @ '':'' @ second))))"

datatype channel_error =
    NotFound channel_id
  | AlreadyExists string
  | InvalidState string
  | ChannelInsufficientBalance u64 u64 \<comment> \<open>available, required\<close>
  | BadSignature
  | NonceMismatch u64 u64 \<comment> \<open>expected, got\<close>
  | ChannelExpired
  | WalletErr wallet_error

datatype channel_status = Opening | Open | Closing | Closed | Disputed

fun display_channel_status :: "channel_status \<Rightarrow> string" where
  "display_channel_status Opening = ''Opening''"
| "display_channel_status Open = ''Open''"
| "display_channel_status Closing = ''Closing''"
| "display_channel_status Closed = ''Closed''"
| "display_channel_status Disputed = ''Disputed''"

record channel_update =
  cu_channel_id :: channel_id
  cu_nonce :: u64
  cu_local_balance :: u64
  cu_remote_balance :: u64
  cu_timestamp :: timestamp

definition to_signing_bytes :: "channel_update \<Rightarrow> u8 list" where
  "to_signing_bytes u =
     str_bytes (cu_channel_id u) @ le_bytes (cu_nonce u) @ le_bytes (cu_local_balance u) @
     le_bytes (cu_remote_balance u) @ le_bytes (unix_secs (cu_timestamp u))"

record signed_update =
  su_update :: channel_update
  su_signature :: string
  su_signer :: string

definition sign_update :: "'k crypto \<Rightarrow> identity \<Rightarrow> channel_update \<Rightarrow> signed_update" where
  "sign_update c me u =
     \<lparr>su_update = u, su_signature = hex_encode c (own_sign me (to_signing_bytes u)),
      su_signer = own_peer_id me\<rparr>"

definition decode_exact :: "'k crypto \<Rightarrow> nat \<Rightarrow> string \<Rightarrow> u8 list option" where
  "decode_exact c n s =
     (case hex_decode c s of
        None \<Rightarrow> None
      | Some b \<Rightarrow> if length b = n then Some b else None)"

definition verify_with_public_key :: "'k crypto \<Rightarrow> signed_update \<Rightarrow> 'k \<Rightarrow> bool" where
  "verify_with_public_key c su key =
     (case decode_exact c 64 (su_signature su) of
        None \<Rightarrow> False
      | Some sig \<Rightarrow> key_verify c key (to_signing_bytes (su_update su)) sig)"

definition verify_with_hex_key :: "'k crypto \<Rightarrow> signed_update \<Rightarrow> string \<Rightarrow> bool" where
  "verify_with_hex_key c su hex_key =
     (case decode_exact c 32 hex_key of
        None \<Rightarrow> False
      | Some kb \<Rightarrow>
          (case key_from_bytes c kb of
             None \<Rightarrow> False
           | Some key \<Rightarrow> verify_with_public_key c su key))"

subsection \<open>Settlement state\<close>

record channel_state =
  cs_channel_id :: channel_id
  cs_opening_tx :: "string option"
  cs_local_signed :: "signed_update option"
  cs_remote_signed :: "signed_update option"
  cs_disputed :: bool
  cs_closing_tx :: "string option"

definition channel_state_new :: "channel_id \<Rightarrow> channel_state" where
  "channel_state_new i =
     \<lparr>cs_channel_id = i, cs_opening_tx = None, cs_local_signed = None, cs_remote_signed = None,
      cs_disputed = False, cs_closing_tx = None\<rparr>"

definition latest_agreed :: "channel_state \<Rightarrow> channel_update option" where
  "latest_agreed s =
     (case (cs_local_signed s, cs_remote_signed s) of
        (Some l, Some r) \<Rightarrow>
          if cu_nonce (su_update r) \<le> cu_nonce (su_update l) then Some (su_update l)
          else Some (su_update r)
      | (Some l, None) \<Rightarrow> Some (su_update l)
      | (None, Some r) \<Rightarrow> Some (su_update r)
      | (None, None) \<Rightarrow> None)"

definition can_settle :: "channel_state \<Rightarrow> bool" where
  "can_settle s \<longleftrightarrow> cs_local_signed s \<noteq> None \<or> cs_remote_signed s \<noteq> None"

definition update_local :: "signed_update \<Rightarrow> channel_state \<Rightarrow> channel_state" where
  "update_local su s = s\<lparr>cs_local_signed := Some su\<rparr>"

definition update_remote :: "signed_update \<Rightarrow> channel_state \<Rightarrow> channel_state" where
  "update_remote su s = s\<lparr>cs_remote_signed := Some su\<rparr>"

definition dispute :: "channel_state \<Rightarrow> channel_state" where
  "dispute s = s\<lparr>cs_disputed := True\<rparr>"

subsection \<open>Close requests\<close>

record close_request =
  cr_channel_id :: channel_id
  cr_final_local_balance :: u64
  cr_final_remote_balance :: u64
  cr_nonce :: u64
  cr_signature :: string
  cr_requester :: string
  cr_timestamp :: timestamp

definition close_signing_bytes :: "close_request \<Rightarrow> u8 list" where
  "close_signing_bytes r =
     str_bytes ''close:'' @ str_bytes (cr_channel_id r) @ le_bytes (cr_final_local_balance r) @
     le_bytes (cr_final_remote_balance r) @ le_bytes (cr_nonce r) @
     le_bytes (unix_secs (cr_timestamp r))"

definition close_request_new ::
  "'k crypto \<Rightarrow> identity \<Rightarrow> timestamp \<Rightarrow> channel_id \<Rightarrow> u64 \<Rightarrow> u64 \<Rightarrow> u64 \<Rightarrow> close_request" where
  "close_request_new c me now i local_bal remote_bal nonce =
     (let r = \<lparr>cr_channel_id = i, cr_final_local_balance = local_bal,
               cr_final_remote_balance = remote_bal, cr_nonce = nonce, cr_signature = '''',
               cr_requester = own_peer_id me, cr_timestamp = now\<rparr>
      in r\<lparr>cr_signature := hex_encode c (own_sign me (close_signing_bytes r))\<rparr>)"

definition close_verify :: "'k crypto \<Rightarrow> close_request \<Rightarrow> string \<Rightarrow> bool" where
  "close_verify c r hex_key =
     (case decode_exact c 32 hex_key of
        None \<Rightarrow> False
      | Some kb \<Rightarrow>
          (case key_from_bytes c kb of
             None \<Rightarrow> False
           | Some key \<Rightarrow>
               (case decode_exact c 64 (cr_signature r) of
                  None \<Rightarrow> False
                | Some sig \<Rightarrow> key_verify c key (close_signing_bytes r) sig)))"

subsection \<open>One channel\<close>

record payment_channel =
  ch_id :: channel_id
  ch_local_peer :: string
  ch_remote_peer :: string
  ch_capacity :: u64
  ch_local_balance :: u64
  ch_remote_balance :: u64
  ch_nonce :: u64
  ch_status :: channel_status
  ch_opened_at :: timestamp
  ch_expires_at :: timestamp
  ch_latest_remote_signature :: "string option"
  ch_update_count :: u64
  ch_total_sent :: u64
  ch_total_received :: u64

record chan_env = call_env +
  env_add_hours :: "timestamp \<Rightarrow> i64 \<Rightarrow> timestamp option"

definition channel_new ::
  "'k crypto \<Rightarrow> chan_env \<Rightarrow> string \<Rightarrow> string \<Rightarrow> u64 \<Rightarrow> u64 \<Rightarrow> payment_channel option" where
  "channel_new c e local_peer remote_peer capacity duration_hours =
     (case env_add_hours e (env_now e) duration_hours of
        None \<Rightarrow> None
      | Some expires \<Rightarrow>
          Some \<lparr>ch_id = channel_id_from_peers c local_peer remote_peer, ch_local_peer = local_peer,
                ch_remote_peer = remote_peer, ch_capacity = capacity, ch_local_balance = capacity,
                ch_remote_balance = 0, ch_nonce = 0, ch_status = Opening, ch_opened_at = env_now e,
                ch_expires_at = expires, ch_latest_remote_signature = None, ch_update_count = 0,
                ch_total_sent = 0, ch_total_received = 0\<rparr>)"

definition channel_is_expired :: "timestamp \<Rightarrow> payment_channel \<Rightarrow> bool" where
  "channel_is_expired now ch \<longleftrightarrow> ch_expires_at ch < now"

definition is_operational :: "timestamp \<Rightarrow> payment_channel \<Rightarrow> bool" where
  "is_operational now ch \<longleftrightarrow> ch_status ch = Open \<and> \<not> channel_is_expired now ch"

definition channel_time_remaining :: "timestamp \<Rightarrow> payment_channel \<Rightarrow> int" where
  "channel_time_remaining now ch = ch_expires_at ch - now"

definition create_payment ::
  "timestamp \<Rightarrow> u64 \<Rightarrow> payment_channel \<Rightarrow> (channel_update, channel_error) outcome \<times> payment_channel"
where
  "create_payment now amount ch =
     (if \<not> is_operational now ch then (Err (InvalidState ''Channel is not operational''), ch)
      else if ch_local_balance ch < amount
      then (Err (ChannelInsufficientBalance (ch_local_balance ch) amount), ch)
      else
        let ch = ch\<lparr>ch_local_balance := ch_local_balance ch - amount,
                   ch_remote_balance := ch_remote_balance ch + amount,
                   ch_nonce := ch_nonce ch + 1, ch_update_count := ch_update_count ch + 1,
                   ch_total_sent := ch_total_sent ch + amount\<rparr>
        in (Ok \<lparr>cu_channel_id = ch_id ch, cu_nonce = ch_nonce ch,
                cu_local_balance = ch_local_balance ch, cu_remote_balance = ch_remote_balance ch,
                cu_timestamp = now\<rparr>, ch))"

definition channel_receive ::
  "timestamp \<Rightarrow> channel_update \<Rightarrow> payment_channel \<Rightarrow> (unit, channel_error) outcome \<times> payment_channel"
where
  "channel_receive now u ch =
     (if \<not> is_operational now ch then (Err (InvalidState ''Channel is not operational''), ch)
      else if cu_nonce u \<noteq> ch_nonce ch + 1
      then (Err (NonceMismatch (ch_nonce ch + 1) (cu_nonce u)), ch)
      else if cu_local_balance u + cu_remote_balance u \<noteq> ch_capacity ch
      then (Err (InvalidState ''Balance mismatch in update''), ch)
      else
        let amount_received = sat_sub (cu_local_balance u) (ch_remote_balance ch)
        in (Ok (),
            ch\<lparr>ch_local_balance := cu_remote_balance u, ch_remote_balance := cu_local_balance u,
               ch_nonce := cu_nonce u, ch_update_count := ch_update_count ch + 1,
               ch_total_received := ch_total_received ch + amount_received\<rparr>))"

subsection \<open>The manager\<close>

record channel_manager =
  cm_identity :: identity
  cm_wallet :: wallet
  cm_channels :: "(channel_id, payment_channel) hmap"
  cm_by_peer :: "(string, channel_id) hmap"
  cm_peer_keys :: "(string, string) hmap"

definition manager_new :: "identity \<Rightarrow> wallet \<Rightarrow> channel_manager" where
  "manager_new me w =
     \<lparr>cm_identity = me, cm_wallet = w, cm_channels = [], cm_by_peer = [], cm_peer_keys = []\<rparr>"

definition register_peer_public_key :: "string \<Rightarrow> string \<Rightarrow> channel_manager \<Rightarrow> channel_manager" where
  "register_peer_public_key peer key m = m\<lparr>cm_peer_keys := hm_insert peer key (cm_peer_keys m)\<rparr>"

definition get_peer_public_key :: "string \<Rightarrow> channel_manager \<Rightarrow> string option" where
  "get_peer_public_key peer m = hm_get (cm_peer_keys m) peer"

definition open_channel ::
  "'k crypto \<Rightarrow> chan_env \<Rightarrow> string \<Rightarrow> u64 \<Rightarrow> u64 \<Rightarrow> channel_manager \<Rightarrow>
     (payment_channel, channel_error) outcome \<times> channel_manager" where
  "open_channel c e remote_peer capacity duration_hours m =
     (if hm_get (cm_by_peer m) remote_peer \<noteq> None then (Err (AlreadyExists remote_peer), m)
      else
        (case create_escrow (call_env.truncate e) capacity remote_peer
                (''channel_'' @ remote_peer) (duration_hours * 3600) (cm_wallet m) of
           (Err x, w) \<Rightarrow> (Err (WalletErr x), m\<lparr>cm_wallet := w\<rparr>)
         | (Panic, w) \<Rightarrow> (Panic, m\<lparr>cm_wallet := w\<rparr>)
         | (Ok _, w) \<Rightarrow>
             (case channel_new c e (own_peer_id (cm_identity m)) remote_peer capacity
                     duration_hours of
                None \<Rightarrow> (Panic, m\<lparr>cm_wallet := w\<rparr>)
              | Some ch \<Rightarrow>
                  (Ok ch,
                   m\<lparr>cm_wallet := w,
                     cm_channels := hm_insert (ch_id ch) ch (cm_channels m),
                     cm_by_peer := hm_insert remote_peer (ch_id ch) (cm_by_peer m)\<rparr>))))"

definition get_channel :: "channel_id \<Rightarrow> channel_manager \<Rightarrow> payment_channel option" where
  "get_channel i m = hm_get (cm_channels m) i"

definition get_channel_with_peer :: "string \<Rightarrow> channel_manager \<Rightarrow> payment_channel option" where
  "get_channel_with_peer peer m =
     (case hm_get (cm_by_peer m) peer of None \<Rightarrow> None | Some i \<Rightarrow> get_channel i m)"

definition put_channel :: "channel_id \<Rightarrow> payment_channel \<Rightarrow> channel_manager \<Rightarrow> channel_manager" where
  "put_channel i ch m = m\<lparr>cm_channels := hm_insert i ch (cm_channels m)\<rparr>"

definition confirm_channel ::
  "channel_id \<Rightarrow> channel_manager \<Rightarrow> (unit, channel_error) outcome \<times> channel_manager" where
  "confirm_channel i m =
     (case hm_get (cm_channels m) i of
        None \<Rightarrow> (Err (NotFound i), m)
      | Some ch \<Rightarrow>
          if ch_status ch \<noteq> Opening
          then (Err (InvalidState ''Channel is not in Opening state''), m)
          else (Ok (), put_channel i (ch\<lparr>ch_status := Open\<rparr>) m))"

definition pay ::
  "'k crypto \<Rightarrow> timestamp \<Rightarrow> channel_id \<Rightarrow> u64 \<Rightarrow> channel_manager \<Rightarrow>
     (signed_update, channel_error) outcome \<times> channel_manager" where
  "pay c now i amount m =
     (case hm_get (cm_channels m) i of
        None \<Rightarrow> (Err (NotFound i), m)
      | Some ch \<Rightarrow>
          (case create_payment now amount ch of
             (Ok u, ch') \<Rightarrow> (Ok (sign_update c (cm_identity m) u), put_channel i ch' m)
           | (Err x, ch') \<Rightarrow> (Err x, put_channel i ch' m)
           | (Panic, ch') \<Rightarrow> (Panic, put_channel i ch' m)))"

definition pay_peer ::
  "'k crypto \<Rightarrow> timestamp \<Rightarrow> string \<Rightarrow> u64 \<Rightarrow> channel_manager \<Rightarrow>
     (signed_update, channel_error) outcome \<times> channel_manager" where
  "pay_peer c now peer amount m =
     (case hm_get (cm_by_peer m) peer of
        Some i \<Rightarrow> pay c now i amount m
      | None \<Rightarrow>
          (Err (NotFound (channel_id_from_peers c (own_peer_id (cm_identity m)) peer)), m))"

definition no_key_error :: "string \<Rightarrow> channel_error" where
  "no_key_error peer = InvalidState (''No public key registered for remote peer '' @ peer)"

definition receive_payment ::
  "'k crypto \<Rightarrow> timestamp \<Rightarrow> signed_update \<Rightarrow> channel_manager \<Rightarrow>
     (unit, channel_error) outcome \<times> channel_manager" where
  "receive_payment c now su m =
     (let i = cu_channel_id (su_update su) in
      case hm_get (cm_channels m) i of
        None \<Rightarrow> (Err (NotFound i), m)
      | Some ch \<Rightarrow>
          if su_signer su \<noteq> ch_remote_peer ch then (Err BadSignature, m)
          else
            (case hm_get (cm_peer_keys m) (ch_remote_peer ch) of
               None \<Rightarrow> (Err (no_key_error (ch_remote_peer ch)), m)
             | Some key \<Rightarrow>
                 if \<not> verify_with_hex_key c su key then (Err BadSignature, m)
                 else
                   (case channel_receive now (su_update su) ch of
                      (Ok _, ch') \<Rightarrow>
                        (Ok (),
                         put_channel i (ch'\<lparr>ch_latest_remote_signature := Some (su_signature su)\<rparr>) m)
                    | (Err x, ch') \<Rightarrow> (Err x, put_channel i ch' m)
                    | (Panic, ch') \<Rightarrow> (Panic, put_channel i ch' m))))"

definition close_channel ::
  "'k crypto \<Rightarrow> timestamp \<Rightarrow> channel_id \<Rightarrow> channel_manager \<Rightarrow>
     (close_request, channel_error) outcome \<times> channel_manager" where
  "close_channel c now i m =
     (case hm_get (cm_channels m) i of
        None \<Rightarrow> (Err (NotFound i), m)
      | Some ch \<Rightarrow>
          if \<not> (ch_status ch = Open \<or> ch_status ch = Opening)
          then (Err (InvalidState ''Channel cannot be closed from this state''), m)
          else
            (Ok (close_request_new c (cm_identity m) now i (ch_local_balance ch)
                   (ch_remote_balance ch) (ch_nonce ch)),
             put_channel i (ch\<lparr>ch_status := Closing\<rparr>) m))"

definition finalize_close ::
  "'k crypto \<Rightarrow> channel_id \<Rightarrow> close_request \<Rightarrow> channel_manager \<Rightarrow>
     (unit, channel_error) outcome \<times> channel_manager" where
  "finalize_close c i r m =
     (case hm_get (cm_channels m) i of
        None \<Rightarrow> (Err (NotFound i), m)
      | Some ch \<Rightarrow>
          if \<not> (ch_status ch = Closing \<or> ch_status ch = Open)
          then (Err (InvalidState ''Channel is not in a closeable state''), m)
          else
            (case hm_get (cm_peer_keys m) (ch_remote_peer ch) of
               None \<Rightarrow> (Err (no_key_error (ch_remote_peer ch)), m)
             | Some key \<Rightarrow>
                 if \<not> close_verify c r key then (Err BadSignature, m)
                 else if cr_final_local_balance r + cr_final_remote_balance r \<noteq> ch_capacity ch
                 then (Err (InvalidState ''Close request balances do not match channel capacity''), m)
                 else
                   let m' = put_channel i (ch\<lparr>ch_status := Closed\<rparr>) m
                   in (Ok (), m'\<lparr>cm_by_peer := hm_remove (ch_remote_peer ch) (cm_by_peer m')\<rparr>)))"

definition force_close_expired ::
  "timestamp \<Rightarrow> channel_id \<Rightarrow> channel_manager \<Rightarrow> (unit, channel_error) outcome \<times> channel_manager"
where
  "force_close_expired now i m =
     (case hm_get (cm_channels m) i of
        None \<Rightarrow> (Err (NotFound i), m)
      | Some ch \<Rightarrow>
          if \<not> channel_is_expired now ch
          then (Err (InvalidState ''Channel has not expired yet; use cooperative close instead''), m)
          else if ch_status ch = Closed then (Err (InvalidState ''Channel is already closed''), m)
          else
            let m' = put_channel i (ch\<lparr>ch_status := Closed\<rparr>) m
            in (Ok (), m'\<lparr>cm_by_peer := hm_remove (ch_remote_peer ch) (cm_by_peer m')\<rparr>))"

definition list_channels :: "channel_manager \<Rightarrow> payment_channel list" where
  "list_channels m = map snd (cm_channels m)"

record channel_stats =
  st_total_channels :: nat
  st_active_channels :: nat
  st_total_capacity :: u64
  st_total_local_balance :: u64
  st_total_sent :: u64
  st_total_received :: u64
  st_total_updates :: u64

definition stats_step :: "timestamp \<Rightarrow> payment_channel \<Rightarrow> channel_stats \<Rightarrow> channel_stats" where
  "stats_step now ch s =
     (let s = s\<lparr>st_total_channels := st_total_channels s + 1\<rparr>;
          s = (if is_operational now ch
               then s\<lparr>st_active_channels := st_active_channels s + 1,
                      st_total_capacity := st_total_capacity s + ch_capacity ch,
                      st_total_local_balance := st_total_local_balance s + ch_local_balance ch\<rparr>
               else s)
      in s\<lparr>st_total_sent := st_total_sent s + ch_total_sent ch,
           st_total_received := st_total_received s + ch_total_received ch,
           st_total_updates := st_total_updates s + ch_update_count ch\<rparr>)"

definition stats :: "timestamp \<Rightarrow> channel_manager \<Rightarrow> channel_stats" where
  "stats now m =
     fold (stats_step now) (list_channels m)
       \<lparr>st_total_channels = 0, st_active_channels = 0, st_total_capacity = 0,
        st_total_local_balance = 0, st_total_sent = 0, st_total_received = 0, st_total_updates = 0\<rparr>"

end
