(* ===== verification/Channel_Correct.thy ===== *)
theory Channel_Correct
  imports Channel Wallet_Props
begin

section \<open>Correctness of the payment channels\<close>

text \<open>
  What is signed determines what is agreed to, two ends of a channel stay mirrored, the manager
  keeps the balances and its index consistent, and what a received payment guarantees.
\<close>

subsection \<open>Signed bytes\<close>

lemma length_le_bytes [simp]: "length (le_bytes w) = 8"
  by (simp add: le_bytes_def)

lemma length_str_bytes [simp]: "length (str_bytes s) = length s"
  by (simp add: str_bytes_def)

lemma le_bytes_inj: "le_bytes a = le_bytes b \<longleftrightarrow> a = b"
proof
  assume eq: "le_bytes a = le_bytes b"
  show "a = b"
  proof (rule bit_word_eqI)
    fix n assume n: "n < LENGTH(64)"
    then have k: "n div 8 < 8" by simp
    have nth: "le_bytes w ! (n div 8) = ucast (drop_bit (8 * (n div 8)) w)" for w
      using k by (simp add: le_bytes_def nth_append del: upt_conv_Cons)
    from eq have "(ucast (drop_bit (8 * (n div 8)) a) :: u8) = ucast (drop_bit (8 * (n div 8)) b)"
      using nth [of a] nth [of b] by simp
    then have "bit (ucast (drop_bit (8 * (n div 8)) a) :: u8) (n mod 8) =
        bit (ucast (drop_bit (8 * (n div 8)) b) :: u8) (n mod 8)"
      by simp
    then show "bit a n = bit b n" by (simp add: bit_simps)
  qed
qed simp

lemma str_bytes_inj: "str_bytes s = str_bytes t \<longleftrightarrow> s = t"
proof -
  have u: "unat (of_char x :: u8) = of_char x" for x :: char
  proof -
    have "(of_char x :: u8) = of_nat (of_char x)" by (simp add: of_nat_of_char)
    then show ?thesis by (simp add: unat_of_nat)
  qed
  have "inj (of_char :: char \<Rightarrow> u8)"
    by (rule injI) (metis u of_char_eq_iff)
  then show ?thesis by (simp add: str_bytes_def inj_map_eq_map)
qed

lemma append8_eq:
  "xs @ le_bytes a = ys @ le_bytes b \<longleftrightarrow> xs = ys \<and> a = b"
  by (simp add: append_eq_append_conv le_bytes_inj)

lemma to_signing_bytes_iff:
  "to_signing_bytes u = to_signing_bytes v \<longleftrightarrow>
    cu_channel_id u = cu_channel_id v \<and> cu_nonce u = cu_nonce v \<and>
    cu_local_balance u = cu_local_balance v \<and> cu_remote_balance u = cu_remote_balance v \<and>
    unix_secs (cu_timestamp u) = unix_secs (cu_timestamp v)"
  by (simp add: to_signing_bytes_def append8_eq str_bytes_inj flip: append_assoc)

lemma close_signing_bytes_iff:
  "close_signing_bytes r = close_signing_bytes q \<longleftrightarrow>
    cr_channel_id r = cr_channel_id q \<and>
    cr_final_local_balance r = cr_final_local_balance q \<and>
    cr_final_remote_balance r = cr_final_remote_balance q \<and> cr_nonce r = cr_nonce q \<and>
    unix_secs (cr_timestamp r) = unix_secs (cr_timestamp q)"
  by (simp add: close_signing_bytes_def append8_eq str_bytes_inj flip: append_assoc)

lemma chan_prefix_not_close:
  "to_signing_bytes (u\<lparr>cu_channel_id := ''chan_'' @ r\<rparr>) \<noteq> close_signing_bytes q"
proof
  assume "to_signing_bytes (u\<lparr>cu_channel_id := ''chan_'' @ r\<rparr>) = close_signing_bytes q"
  then have "to_signing_bytes (u\<lparr>cu_channel_id := ''chan_'' @ r\<rparr>) ! 1 = close_signing_bytes q ! 1"
    by simp
  then show False by (simp add: to_signing_bytes_def close_signing_bytes_def str_bytes_def)
qed

subsection \<open>One channel\<close>

definition conserves :: "payment_channel \<Rightarrow> bool" where
  "conserves ch \<longleftrightarrow>
     unat (ch_local_balance ch) + unat (ch_remote_balance ch) = unat (ch_capacity ch)"

definition mirrored :: "payment_channel \<Rightarrow> payment_channel \<Rightarrow> bool" where
  "mirrored a b \<longleftrightarrow>
     ch_local_balance a = ch_remote_balance b \<and> ch_remote_balance a = ch_local_balance b \<and>
     ch_nonce a = ch_nonce b \<and> ch_capacity a = ch_capacity b"

lemma conserves_sum: "conserves ch \<Longrightarrow> ch_local_balance ch + ch_remote_balance ch = ch_capacity ch"
  using unsigned_less [of "ch_capacity ch", where 'a = nat]
  by (intro word_unat_eq_iff [THEN iffD2]) (simp add: conserves_def unat_add_nowrap)

lemma create_payment_Ok:
  assumes "create_payment now amount ch = (Ok u, ch')"
  shows "is_operational now ch" and "amount \<le> ch_local_balance ch"
    and "ch' = ch\<lparr>ch_local_balance := ch_local_balance ch - amount,
                 ch_remote_balance := ch_remote_balance ch + amount,
                 ch_nonce := ch_nonce ch + 1, ch_update_count := ch_update_count ch + 1,
                 ch_total_sent := ch_total_sent ch + amount\<rparr>"
    and "u = \<lparr>cu_channel_id = ch_id ch, cu_nonce = ch_nonce ch + 1,
              cu_local_balance = ch_local_balance ch - amount,
              cu_remote_balance = ch_remote_balance ch + amount, cu_timestamp = now\<rparr>"
  using assms by (auto simp: create_payment_def Let_def split: if_splits)

lemma create_payment_not_Ok:
  "\<nexists>u. fst (create_payment now amount ch) = Ok u \<Longrightarrow> snd (create_payment now amount ch) = ch"
  by (auto simp: create_payment_def Let_def split: if_splits)

lemma create_payment_conserves:
  assumes "conserves ch"
  shows "conserves (snd (create_payment now amount ch))"
proof (cases "create_payment now amount ch")
  case (Pair r ch')
  show ?thesis
  proof (cases r)
    case (Ok u)
    with Pair have eq: "create_payment now amount ch = (Ok u, ch')" by simp
    note p = create_payment_Ok [OF eq]
    have le: "unat amount \<le> unat (ch_local_balance ch)" using p(2) by (simp add: word_le_nat_alt)
    have "unat (ch_remote_balance ch) + unat amount \<le> unat (ch_capacity ch)"
      using assms le by (simp add: conserves_def)
    also have "\<dots> < 2 ^ LENGTH(64)" by simp
    finally have "unat (ch_remote_balance ch + amount) = unat (ch_remote_balance ch) + unat amount"
      by (rule unat_add_nowrap)
    with assms le show ?thesis
      by (simp add: eq) (simp add: p(3) conserves_def unat_sub_le [OF p(2)])
  qed (use Pair assms create_payment_not_Ok [of now amount ch] in auto)
qed

lemma channel_receive_Ok:
  assumes "channel_receive now u ch = (Ok x, ch')"
  shows "is_operational now ch" and "cu_nonce u = ch_nonce ch + 1"
    and "cu_local_balance u + cu_remote_balance u = ch_capacity ch"
    and "ch' = ch\<lparr>ch_local_balance := cu_remote_balance u, ch_remote_balance := cu_local_balance u,
                 ch_nonce := cu_nonce u, ch_update_count := ch_update_count ch + 1,
                 ch_total_received := ch_total_received ch +
                   sat_sub (cu_local_balance u) (ch_remote_balance ch)\<rparr>"
  using assms by (auto simp: channel_receive_def Let_def split: if_splits)

lemma channel_receive_not_Ok:
  "fst (channel_receive now u ch) \<noteq> Ok () \<Longrightarrow> snd (channel_receive now u ch) = ch"
  by (auto simp: channel_receive_def Let_def split: if_splits)

lemma channel_receive_conserves:
  assumes "channel_receive now u ch = (Ok x, ch')"
    and "unat (cu_local_balance u) + unat (cu_remote_balance u) < 2 ^ 64"
  shows "conserves ch'"
proof -
  note r = channel_receive_Ok [OF assms(1)]
  have "unat (cu_local_balance u + cu_remote_balance u) =
      unat (cu_local_balance u) + unat (cu_remote_balance u)"
    using assms(2) by (intro unat_add_nowrap) simp
  with r(3) show ?thesis by (simp add: r(4) conserves_def)
qed

lemma payment_frame:
  "ch_id (snd (create_payment now amount ch)) = ch_id ch"
  "ch_remote_peer (snd (create_payment now amount ch)) = ch_remote_peer ch"
  "ch_status (snd (create_payment now amount ch)) = ch_status ch"
  "ch_id (snd (channel_receive now u ch)) = ch_id ch"
  "ch_remote_peer (snd (channel_receive now u ch)) = ch_remote_peer ch"
  "ch_status (snd (channel_receive now u ch)) = ch_status ch"
  by (simp_all add: create_payment_def channel_receive_def Let_def)

subsection \<open>The manager's invariant\<close>

definition manager_inv :: "channel_manager \<Rightarrow> bool" where
  "manager_inv m \<longleftrightarrow>
     (\<forall>i ch. hm_get (cm_channels m) i = Some ch \<longrightarrow> conserves ch) \<and>
     (\<forall>p i. hm_get (cm_by_peer m) p = Some i \<longleftrightarrow>
       (\<exists>ch. hm_get (cm_channels m) i = Some ch \<and> ch_remote_peer ch = p \<and> ch_status ch \<noteq> Closed))"

lemma hm_insert_same: "hm_get m k = Some v \<Longrightarrow> hm_insert k v m = m"
  by (induction m) (auto split: if_splits)

lemma put_same: "hm_get (cm_channels m) i = Some ch \<Longrightarrow> put_channel i ch m = m"
  by (simp add: put_channel_def hm_insert_same)

lemma put_channel_inv:
  assumes "manager_inv m" and "hm_get (cm_channels m) i = Some ch"
    and "ch_remote_peer ch' = ch_remote_peer ch" and "conserves ch'"
    and "ch_status ch' = Closed \<longleftrightarrow> ch_status ch = Closed"
  shows "manager_inv (put_channel i ch' m)"
proof -
  have g: "hm_get (cm_channels (put_channel i ch' m)) j =
      (if j = i then Some ch' else hm_get (cm_channels m) j)" for j
    by (simp add: put_channel_def)
  have b: "cm_by_peer (put_channel i ch' m) = cm_by_peer m" by (simp add: put_channel_def)
  show ?thesis unfolding manager_inv_def g b using assms by (auto simp: manager_inv_def)
qed

lemma close_inv:
  assumes "manager_inv m" and "hm_get (cm_channels m) i = Some ch" and "ch_status ch \<noteq> Closed"
  shows "manager_inv ((put_channel i (ch\<lparr>ch_status := Closed\<rparr>) m)
           \<lparr>cm_by_peer := hm_remove (ch_remote_peer ch) (cm_by_peer m)\<rparr>)"
proof -
  let ?m = "(put_channel i (ch\<lparr>ch_status := Closed\<rparr>) m)
      \<lparr>cm_by_peer := hm_remove (ch_remote_peer ch) (cm_by_peer m)\<rparr>"
  have g: "hm_get (cm_channels ?m) j =
      (if j = i then Some (ch\<lparr>ch_status := Closed\<rparr>) else hm_get (cm_channels m) j)" for j
    by (simp add: put_channel_def)
  have b: "hm_get (cm_by_peer ?m) p =
      (if p = ch_remote_peer ch then None else hm_get (cm_by_peer m) p)" for p
    by simp
  have idx: "hm_get (cm_by_peer m) (ch_remote_peer ch) = Some i"
    using assms unfolding manager_inv_def by blast
  have uniq: "j = i" if "hm_get (cm_channels m) j = Some ch2" "ch_remote_peer ch2 = ch_remote_peer ch"
    "ch_status ch2 \<noteq> Closed" for j ch2
  proof -
    have "hm_get (cm_by_peer m) (ch_remote_peer ch) = Some j"
      using assms(1) that unfolding manager_inv_def by blast
    with idx show ?thesis by simp
  qed
  have c: "conserves ch" using assms unfolding manager_inv_def by blast
  show ?thesis
    unfolding manager_inv_def g b
  proof (intro conjI allI)
    fix j ch2
    show "(if j = i then Some (ch\<lparr>ch_status := Closed\<rparr>) else hm_get (cm_channels m) j) = Some ch2 \<longrightarrow>
        conserves ch2"
      using assms(1) c by (auto simp: manager_inv_def conserves_def)
  next
    fix p j
    show "((if p = ch_remote_peer ch then None else hm_get (cm_by_peer m) p) = Some j) =
        (\<exists>cha. (if j = i then Some (ch\<lparr>ch_status := Closed\<rparr>) else hm_get (cm_channels m) j) = Some cha \<and>
          ch_remote_peer cha = p \<and> ch_status cha \<noteq> Closed)"
      using assms(1,2) uniq unfolding manager_inv_def by auto
  qed
qed

end
