(* ===== verification/Channel_Props.thy ===== *)
theory Channel_Props
  imports Channel_Correct
begin

section \<open>Properties of the payment channels\<close>

text \<open>
  The steps of a channel manager, the invariant they keep, and the properties of single channels,
  of received payments and of the funds behind a channel.
\<close>

subsection \<open>Steps\<close>

text \<open>
  \<open>channel_step\<close> is any manager operation but opening. A received update is only required not to
  wrap the sum of its two balances, which the code does not check; nothing is assumed about
  signatures. Opening requires that the truncated hash does not give the peer the identifier of a
  channel with another peer.
\<close>

inductive channel_step :: "'k crypto \<Rightarrow> channel_manager \<Rightarrow> channel_manager \<Rightarrow> bool"
  for c :: "'k crypto" where
  cs_confirm: "channel_step c m (snd (confirm_channel i m))"
| cs_pay: "channel_step c m (snd (pay c now i amount m))"
| cs_pay_peer: "channel_step c m (snd (pay_peer c now p amount m))"
| cs_receive:
    "unat (cu_local_balance (su_update su)) + unat (cu_remote_balance (su_update su)) < 2 ^ 64 \<Longrightarrow>
     channel_step c m (snd (receive_payment c now su m))"
| cs_close: "channel_step c m (snd (close_channel c now i m))"
| cs_finalize: "channel_step c m (snd (finalize_close c i r m))"
| cs_force: "channel_step c m (snd (force_close_expired now i m))"
| cs_register: "channel_step c m (register_peer_public_key p k m)"

inductive manager_step :: "'k crypto \<Rightarrow> channel_manager \<Rightarrow> channel_manager \<Rightarrow> bool"
  for c :: "'k crypto" where
  ms_channel: "channel_step c m m' \<Longrightarrow> manager_step c m m'"
| ms_open:
    "(\<And>ch. hm_get (cm_channels m) (channel_id_from_peers c (own_peer_id (cm_identity m)) peer) =
        Some ch \<Longrightarrow> ch_remote_peer ch = peer) \<Longrightarrow>
     manager_step c m (snd (open_channel c e peer capacity hours m))"

lemma confirm_inv:
  assumes "manager_inv m"
  shows "manager_inv (snd (confirm_channel i m))"
  using assms
  by (auto simp: confirm_channel_def split: option.splits intro!: put_channel_inv)
    (auto simp: manager_inv_def conserves_def)

lemma pay_inv:
  assumes "manager_inv m"
  shows "manager_inv (snd (pay c now i amount m))"
proof (cases "hm_get (cm_channels m) i")
  case (Some ch)
  have "conserves (snd (create_payment now amount ch))"
    using assms Some by (intro create_payment_conserves) (auto simp: manager_inv_def)
  then have "manager_inv (put_channel i (snd (create_payment now amount ch)) m)"
    using assms Some by (intro put_channel_inv) (simp_all add: payment_frame)
  with Some show ?thesis by (auto simp: pay_def split: prod.splits outcome.splits)
qed (use assms in \<open>simp add: pay_def\<close>)

lemma receive_inv:
  assumes "manager_inv m"
    and "unat (cu_local_balance (su_update su)) + unat (cu_remote_balance (su_update su)) < 2 ^ 64"
  shows "manager_inv (snd (receive_payment c now su m))"
proof (cases "hm_get (cm_channels m) (cu_channel_id (su_update su))")
  case (Some ch)
  let ?r = "channel_receive now (su_update su) ch"
  have cons: "conserves (snd ?r)"
  proof (cases "fst ?r = Ok ()")
    case True
    then have "?r = (Ok (), snd ?r)" by (simp add: prod_eq_iff)
    from channel_receive_conserves [OF this assms(2)] show ?thesis .
  qed (use assms(1) Some channel_receive_not_Ok [of now "su_update su" ch] in
      \<open>auto simp: manager_inv_def\<close>)
  have p: "manager_inv (put_channel (cu_channel_id (su_update su)) (snd ?r) m)"
    using assms(1) Some cons by (intro put_channel_inv) (simp_all add: payment_frame)
  have q: "manager_inv (put_channel (cu_channel_id (su_update su))
      ((snd ?r)\<lparr>ch_latest_remote_signature := s\<rparr>) m)" for s
    using assms(1) Some cons by (intro put_channel_inv) (simp_all add: payment_frame conserves_def)
  show ?thesis
    using assms(1) Some p q
    by (auto simp: receive_payment_def Let_def split: option.splits prod.splits outcome.splits)
qed (use assms in \<open>simp add: receive_payment_def Let_def\<close>)

lemma close_channel_inv:
  assumes "manager_inv m"
  shows "manager_inv (snd (close_channel c now i m))"
  using assms
  by (auto simp: close_channel_def split: option.splits intro!: put_channel_inv)
    (auto simp: manager_inv_def conserves_def)

lemma finalize_inv:
  assumes "manager_inv m"
  shows "manager_inv (snd (finalize_close c i r m))"
proof (cases "hm_get (cm_channels m) i")
  case (Some ch)
  have b: "cm_by_peer (put_channel i ch' m) = cm_by_peer m" for ch' by (simp add: put_channel_def)
  show ?thesis
    using assms Some close_inv [OF assms Some]
    by (auto simp: finalize_close_def Let_def b split: option.splits)
qed (use assms in \<open>simp add: finalize_close_def\<close>)

lemma force_inv:
  assumes "manager_inv m"
  shows "manager_inv (snd (force_close_expired now i m))"
proof (cases "hm_get (cm_channels m) i")
  case (Some ch)
  have b: "cm_by_peer (put_channel i ch' m) = cm_by_peer m" for ch' by (simp add: put_channel_def)
  show ?thesis
    using assms Some close_inv [OF assms Some] by (auto simp: force_close_expired_def Let_def b)
qed (use assms in \<open>simp add: force_close_expired_def\<close>)

lemma channel_step_inv: "channel_step c m m' \<Longrightarrow> manager_inv m \<Longrightarrow> manager_inv m'"
proof (induction rule: channel_step.induct)
  case (cs_pay_peer m now p amount)
  then show ?case by (auto simp: pay_peer_def pay_inv split: option.splits)
next
  case (cs_register m p k)
  then show ?case by (simp add: register_peer_public_key_def manager_inv_def)
qed (simp_all add: confirm_inv pay_inv receive_inv close_channel_inv finalize_inv force_inv)

lemma channel_new_fields:
  "channel_new c e l r cap h = Some ch \<Longrightarrow>
    ch_id ch = channel_id_from_peers c l r \<and> ch_remote_peer ch = r \<and> ch_status ch = Opening \<and>
    conserves ch \<and> ch_capacity ch = cap"
  by (auto simp: channel_new_def conserves_def split: option.splits)

lemma open_inv:
  assumes "manager_inv m"
    and "\<And>ch. hm_get (cm_channels m) (channel_id_from_peers c (own_peer_id (cm_identity m)) peer) =
        Some ch \<Longrightarrow> ch_remote_peer ch = peer"
  shows "manager_inv (snd (open_channel c e peer capacity hours m))"
proof (cases "hm_get (cm_by_peer m) peer")
  case None
  have w: "manager_inv (m\<lparr>cm_wallet := w\<rparr>)" for w using assms(1) by (simp add: manager_inv_def)
  have none: "ch_remote_peer ch \<noteq> peer"
    if "hm_get (cm_channels m) i = Some ch" "ch_status ch \<noteq> Closed" for i ch
  proof
    assume "ch_remote_peer ch = peer"
    with that assms(1) have "hm_get (cm_by_peer m) peer = Some i"
      unfolding manager_inv_def by blast
    with None show False by simp
  qed
  have "manager_inv (m\<lparr>cm_wallet := w, cm_channels := hm_insert (ch_id ch) ch (cm_channels m),
      cm_by_peer := hm_insert peer (ch_id ch) (cm_by_peer m)\<rparr>)"
    if ch: "channel_new c e (own_peer_id (cm_identity m)) peer capacity hours = Some ch" for w ch
  proof -
    note f = channel_new_fields [OF ch]
    have b: "hm_get (cm_by_peer m) p = Some (ch_id ch) \<Longrightarrow> p = peer" for p
      using assms f unfolding manager_inv_def by fastforce
    show ?thesis
      unfolding manager_inv_def
    proof (intro conjI allI)
      fix i ch2
      show "hm_get (cm_channels (m\<lparr>cm_wallet := w,
            cm_channels := hm_insert (ch_id ch) ch (cm_channels m),
            cm_by_peer := hm_insert peer (ch_id ch) (cm_by_peer m)\<rparr>)) i = Some ch2 \<longrightarrow> conserves ch2"
        using assms(1) f by (auto simp: manager_inv_def)
    next
      fix p i
      show "(hm_get (cm_by_peer (m\<lparr>cm_wallet := w,
            cm_channels := hm_insert (ch_id ch) ch (cm_channels m),
            cm_by_peer := hm_insert peer (ch_id ch) (cm_by_peer m)\<rparr>)) p = Some i) =
          (\<exists>cha. hm_get (cm_channels (m\<lparr>cm_wallet := w,
            cm_channels := hm_insert (ch_id ch) ch (cm_channels m),
            cm_by_peer := hm_insert peer (ch_id ch) (cm_by_peer m)\<rparr>)) i = Some cha \<and>
            ch_remote_peer cha = p \<and> ch_status cha \<noteq> Closed)"
        using assms(1) f b none None by (auto simp: manager_inv_def)
    qed
  qed
  with w assms(1) None show ?thesis
    by (auto simp: open_channel_def split: prod.splits outcome.splits option.splits)
qed (use assms in \<open>simp add: open_channel_def\<close>)

lemma manager_step_inv: "manager_step c m m' \<Longrightarrow> manager_inv m \<Longrightarrow> manager_inv m'"
  by (induction rule: manager_step.induct) (auto intro: channel_step_inv open_inv)

lemma put_channel_wallet [simp]: "cm_wallet (put_channel i ch m) = cm_wallet m"
  by (simp add: put_channel_def)

lemma channel_step_wallet: "channel_step c m m' \<Longrightarrow> cm_wallet m' = cm_wallet m"
  by (induction rule: channel_step.induct)
    (auto simp: confirm_channel_def pay_def pay_peer_def receive_payment_def close_channel_def
      finalize_close_def force_close_expired_def register_peer_public_key_def Let_def
      split: option.splits prod.splits outcome.splits)

lemma channel_steps_wallet: "(channel_step c)\<^sup>*\<^sup>* m m' \<Longrightarrow> cm_wallet m' = cm_wallet m"
  by (induction rule: rtranclp_induct) (auto dest: channel_step_wallet)

subsection \<open>Concrete inputs for the witnesses\<close>

definition demo_crypto :: "unit crypto" where
  "demo_crypto =
     \<lparr>hex_encode = (\<lambda>_. ''sig''),
      hex_decode = (\<lambda>s. if s = ''pk'' then Some (replicate 32 0)
                       else if s = ''sig'' then Some (replicate 64 0) else None),
      key_from_bytes = (\<lambda>_. Some ()), key_verify = (\<lambda>_ _ _. True),
      blake3_hex = (\<lambda>_. replicate 64 CHR ''0'')\<rparr>"

definition demo_channel :: payment_channel where
  "demo_channel =
     \<lparr>ch_id = ''chan_1'', ch_local_peer = ''a'', ch_remote_peer = ''b'', ch_capacity = 100,
      ch_local_balance = 100, ch_remote_balance = 0, ch_nonce = 0, ch_status = Open,
      ch_opened_at = 0, ch_expires_at = 1000, ch_latest_remote_signature = None,
      ch_update_count = 0, ch_total_sent = 0, ch_total_received = 0\<rparr>"

definition demo_update :: "u64 \<Rightarrow> u64 \<Rightarrow> channel_update" where
  "demo_update l r =
     \<lparr>cu_channel_id = ''chan_1'', cu_nonce = 1, cu_local_balance = l, cu_remote_balance = r,
      cu_timestamp = 5\<rparr>"

definition demo_manager :: channel_manager where
  "demo_manager =
     \<lparr>cm_identity = \<lparr>own_peer_id = ''a'', own_sign = (\<lambda>_. [])\<rparr>, cm_wallet = demo_wallet,
      cm_channels = [(''chan_1'', demo_channel)], cm_by_peer = [(''b'', ''chan_1'')],
      cm_peer_keys = [(''b'', ''pk'')]\<rparr>"

definition demo_chan_env :: chan_env where
  "demo_chan_env = call_env.extend (demo_env 0 ''e2'') \<lparr>env_add_hours = (\<lambda>t h. Some (t + 1))\<rparr>"

lemma demo_truncate: "call_env.truncate demo_chan_env = demo_env 0 ''e2''"
  by (simp add: demo_chan_env_def call_env.defs demo_env_def)

subsection \<open>The properties\<close>

text \<open>C5: Every channel of a manager reached from a new one by any sequence of operations, with
  arbitrary signatures, splits exactly its capacity between the two sides, and the peer index holds
  exactly the channels that are not closed. Received updates whose two balances overflow \<open>u64\<close> are
  excluded.\<close>

theorem channels_conserve:
  assumes "(manager_step c)\<^sup>*\<^sup>* (manager_new me w) m"
  shows "(\<forall>i ch. hm_get (cm_channels m) i = Some ch \<longrightarrow>
      unat (ch_local_balance ch) + unat (ch_remote_balance ch) = unat (ch_capacity ch)) \<and>
    (\<forall>p i. hm_get (cm_by_peer m) p = Some i \<longleftrightarrow>
      (\<exists>ch. hm_get (cm_channels m) i = Some ch \<and> ch_remote_peer ch = p \<and> ch_status ch \<noteq> Closed))"
proof -
  from assms have "manager_inv m"
  proof (induction rule: rtranclp_induct)
    case base
    show ?case by (simp add: manager_new_def manager_inv_def)
  next
    case (step y z)
    then show ?case by (blast intro: manager_step_inv)
  qed
  then show ?thesis by (simp add: manager_inv_def conserves_def)
qed

theorem channels_conserve_witness:
  "\<exists>i ch. hm_get (cm_by_peer (snd (open_channel demo_crypto demo_chan_env ''c'' 100 1
       (manager_new \<lparr>own_peer_id = ''a'', own_sign = (\<lambda>_. [])\<rparr> demo_wallet)))) ''c'' = Some i \<and>
     hm_get (cm_channels (snd (open_channel demo_crypto demo_chan_env ''c'' 100 1
       (manager_new \<lparr>own_peer_id = ''a'', own_sign = (\<lambda>_. [])\<rparr> demo_wallet)))) i = Some ch \<and>
     unat (ch_local_balance ch) + unat (ch_remote_balance ch) = unat (ch_capacity ch)"
proof -
  let ?m = "manager_new \<lparr>own_peer_id = ''a'', own_sign = (\<lambda>_. [])\<rparr> demo_wallet"
  let ?o = "open_channel demo_crypto demo_chan_env ''c'' 100 1 ?m"
  have "manager_step demo_crypto ?m (snd ?o)" by (rule ms_open) (simp add: manager_new_def)
  then have "(manager_step demo_crypto)\<^sup>*\<^sup>* ?m (snd ?o)" by (rule r_into_rtranclp)
  note c = channels_conserve [OF this]
  have "\<exists>x w1. create_escrow (demo_env 0 ''e2'') 100 ''c'' ''channel_c'' 3600 demo_wallet = (Ok x, w1)"
    by (simp add: create_escrow_def check_spending_limits_def create_escrow_commit_def
        effective_available_def sat_sub_def demo_wallet_def default_wallet_config_def
        MICRO_PCLAW_def demo_env_def demo_add_def Let_def hm_get_or_def escrow_new_def finish_eq
        hour_key_def day_key_def now_secs_def)
  then obtain x w1 where
    "create_escrow (demo_env 0 ''e2'') 100 ''c'' ''channel_c'' 3600 demo_wallet = (Ok x, w1)" by blast
  moreover obtain ch where "channel_new demo_crypto demo_chan_env ''a'' ''c'' 100 1 = Some ch"
    by (simp add: channel_new_def demo_chan_env_def call_env.defs)
  ultimately have "\<exists>i. hm_get (cm_by_peer (snd ?o)) ''c'' = Some i"
    by (simp add: open_channel_def demo_truncate manager_new_def)
  with c show ?thesis by blast
qed

text \<open>C6: When the two ends of a channel mirror each other, a payment created at one end is accepted
  at the other, after which they mirror each other again and the receiver owns the amount more.
  The receiver's \<open>total_received\<close> however does not change: the amount is computed from the wrong
  side's balance and is always 0.\<close>

theorem payment_keeps_ends_mirrored:
  assumes "mirrored a b" and "conserves a" and "is_operational now' b"
    and "create_payment now amount a = (Ok u, a')"
  shows "\<exists>b'. channel_receive now' u b = (Ok (), b') \<and> mirrored a' b' \<and>
    unat (ch_local_balance b') = unat (ch_local_balance b) + unat amount \<and>
    ch_total_received b' = ch_total_received b"
proof -
  note p = create_payment_Ok [OF assms(4)]
  have c': "conserves a'" using create_payment_conserves [OF assms(2), of now amount] assms(4) by simp
  have sum: "cu_local_balance u + cu_remote_balance u = ch_capacity b"
    using conserves_sum [OF c'] assms(1) by (simp add: p(3,4) mirrored_def)
  have n: "cu_nonce u = ch_nonce b + 1" using assms(1) by (simp add: p(4) mirrored_def)
  have "unat (ch_local_balance a') = unat (ch_local_balance a) - unat amount"
    using p(2) by (simp add: p(3) unat_sub_le)
  then have u: "unat (ch_remote_balance a') = unat (ch_remote_balance a) + unat amount"
    using c' assms(2) p(2) by (simp add: conserves_def p(3) word_le_nat_alt)
  have z: "sat_sub (cu_local_balance u) (ch_remote_balance b) = 0"
    using p(2) assms(1)
    by (intro word_unat_eq_iff [THEN iffD2]) (simp add: p(4) mirrored_def unat_sub_le)
  let ?b' = "snd (channel_receive now' u b)"
  have r: "channel_receive now' u b = (Ok (), ?b')"
    using assms(3) n sum by (simp add: channel_receive_def Let_def)
  note rr = channel_receive_Ok [OF r]
  have "mirrored a' ?b'"
    using assms(1) by (subst rr(4)) (simp add: p(3,4) mirrored_def)
  moreover have "unat (ch_local_balance ?b') = unat (ch_local_balance b) + unat amount"
    using u assms(1) by (subst rr(4)) (simp add: p(3,4) mirrored_def)
  moreover have "ch_total_received ?b' = ch_total_received b"
    by (subst rr(4)) (simp add: z)
  ultimately show ?thesis using r by blast
qed

theorem payment_keeps_ends_mirrored_witness:
  "\<exists>b'. channel_receive 10 (demo_update 70 30)
     (demo_channel\<lparr>ch_local_balance := 0, ch_remote_balance := 100\<rparr>) = (Ok (), b') \<and>
     ch_local_balance b' = 30"
proof -
  have c: "create_payment 5 30 demo_channel = (Ok (demo_update 70 30),
      demo_channel\<lparr>ch_local_balance := 70, ch_remote_balance := 30, ch_nonce := 1,
        ch_update_count := 1, ch_total_sent := 30\<rparr>)"
    by (simp add: create_payment_def demo_channel_def is_operational_def channel_is_expired_def
        demo_update_def Let_def)
  have "mirrored demo_channel (demo_channel\<lparr>ch_local_balance := 0, ch_remote_balance := 100\<rparr>)"
    "conserves demo_channel"
    "is_operational 10 (demo_channel\<lparr>ch_local_balance := 0, ch_remote_balance := 100\<rparr>)"
    by (simp_all add: mirrored_def conserves_def demo_channel_def is_operational_def
        channel_is_expired_def)
  from payment_keeps_ends_mirrored [OF this c] show ?thesis
    by (auto simp: demo_channel_def mirrored_def)
qed

text \<open>C8: The bytes that are signed determine a message up to two things: the fraction of a second of
  its time and, in a close request, the name of the requester, which is not signed, so that the
  signature of a request verifies for the same request in any other name. Two updates, or two close
  requests, have the same bytes exactly when they agree in all other fields; and no update of a
  channel whose identifier starts with \<open>chan_\<close>, as all of them do, has the bytes of a close
  request.\<close>

theorem signed_bytes_determine_message:
  "(to_signing_bytes u = to_signing_bytes v \<longleftrightarrow>
      cu_channel_id u = cu_channel_id v \<and> cu_nonce u = cu_nonce v \<and>
      cu_local_balance u = cu_local_balance v \<and> cu_remote_balance u = cu_remote_balance v \<and>
      unix_secs (cu_timestamp u) = unix_secs (cu_timestamp v)) \<and>
   (close_signing_bytes r = close_signing_bytes q \<longleftrightarrow>
      cr_channel_id r = cr_channel_id q \<and>
      cr_final_local_balance r = cr_final_local_balance q \<and>
      cr_final_remote_balance r = cr_final_remote_balance q \<and> cr_nonce r = cr_nonce q \<and>
      unix_secs (cr_timestamp r) = unix_secs (cr_timestamp q)) \<and>
   close_verify k (r\<lparr>cr_requester := p\<rparr>) key = close_verify k r key \<and>
   to_signing_bytes (u\<lparr>cu_channel_id := channel_id_from_peers c a b\<rparr>) \<noteq> close_signing_bytes r"
proof -
  have "\<exists>x. channel_id_from_peers c a b = ''chan_'' @ x"
    by (simp add: channel_id_from_peers_def split: prod.splits)
  then obtain x where "channel_id_from_peers c a b = ''chan_'' @ x" ..
  then have d: "to_signing_bytes (u\<lparr>cu_channel_id := channel_id_from_peers c a b\<rparr>) \<noteq>
      close_signing_bytes r"
    by (simp only: chan_prefix_not_close not_False_eq_True)
  have n: "close_verify k (r\<lparr>cr_requester := p\<rparr>) key = close_verify k r key"
    by (simp add: close_verify_def close_signing_bytes_def split: option.split)
  show ?thesis by (intro conjI to_signing_bytes_iff close_signing_bytes_iff d n)
qed

text \<open>An update applies to a channel of the manager: signed by the channel's remote peer, verified
  under that peer's registered key over the bytes of this very update, with the next nonce and two
  balances that add up to the capacity.\<close>

definition applicable ::
  "'k crypto \<Rightarrow> timestamp \<Rightarrow> signed_update \<Rightarrow> channel_manager \<Rightarrow> payment_channel \<Rightarrow> bool" where
  "applicable c now su m ch \<longleftrightarrow>
     hm_get (cm_channels m) (cu_channel_id (su_update su)) = Some ch \<and>
     su_signer su = ch_remote_peer ch \<and>
     (\<exists>key. hm_get (cm_peer_keys m) (su_signer su) = Some key \<and> verify_with_hex_key c su key) \<and>
     is_operational now ch \<and> cu_nonce (su_update su) = ch_nonce ch + 1 \<and>
     cu_local_balance (su_update su) + cu_remote_balance (su_update su) = ch_capacity ch"

lemma receive_refused:
  assumes "fst (receive_payment c now su m) \<noteq> Ok ()"
  shows "snd (receive_payment c now su m) = m"
proof (cases "hm_get (cm_channels m) (cu_channel_id (su_update su))")
  case (Some ch)
  obtain z ch' where r: "channel_receive now (su_update su) ch = (z, ch')"
    by (cases "channel_receive now (su_update su) ch")
  have "ch' = ch" if "z \<noteq> Ok ()"
    using channel_receive_not_Ok [of now "su_update su" ch] that r by simp
  with assms Some r put_same [OF Some] show ?thesis
    by (cases z) (auto simp: receive_payment_def Let_def split: option.splits if_splits)
qed (simp add: receive_payment_def)

lemma receive_applies:
  assumes "applicable c now su m ch"
  shows "receive_payment c now su m =
    (Ok (), put_channel (cu_channel_id (su_update su))
      ((snd (channel_receive now (su_update su) ch))\<lparr>ch_latest_remote_signature := Some (su_signature su)\<rparr>) m)"
    and "fst (channel_receive now (su_update su) ch) = Ok ()"
  using assms by (auto simp: applicable_def receive_payment_def channel_receive_def Let_def)

lemma receive_Ok_applicable:
  assumes "fst (receive_payment c now su m) = Ok ()"
  shows "\<exists>ch. applicable c now su m ch"
proof -
  from assms obtain ch key ch' where "hm_get (cm_channels m) (cu_channel_id (su_update su)) = Some ch"
    "su_signer su = ch_remote_peer ch" "hm_get (cm_peer_keys m) (su_signer su) = Some key"
    "verify_with_hex_key c su key" "channel_receive now (su_update su) ch = (Ok (), ch')"
    by (auto simp: receive_payment_def Let_def split: option.splits if_splits prod.splits outcome.splits)
  with channel_receive_Ok [of now "su_update su" ch "()" ch'] show ?thesis
    by (auto simp: applicable_def)
qed

text \<open>C7: The manager applies an update exactly when it is signed by the channel's remote peer,
  verifies under that peer's registered key over the bytes of this very update, carries the next
  nonce, and splits the capacity of a channel that is operational. It then takes over its two
  balances and its nonce and touches no other channel, and the same signed update sent again, at
  any time, is refused. Whenever it refuses an update, for whatever reason, nothing at all
  changes.\<close>

theorem received_payment_authentic:
  "(fst (receive_payment c now su m) = Ok () \<longleftrightarrow> (\<exists>ch. applicable c now su m ch)) \<and>
   (fst (receive_payment c now su m) \<noteq> Ok () \<longrightarrow> snd (receive_payment c now su m) = m) \<and>
   (\<forall>ch. applicable c now su m ch \<longrightarrow>
     (\<exists>ch'. hm_get (cm_channels (snd (receive_payment c now su m))) =
         (hm_get (cm_channels m))(cu_channel_id (su_update su) \<mapsto> ch') \<and>
       ch_local_balance ch' = cu_remote_balance (su_update su) \<and>
       ch_remote_balance ch' = cu_local_balance (su_update su) \<and>
       ch_nonce ch' = ch_nonce ch + 1 \<and> ch_capacity ch' = ch_capacity ch) \<and>
     (\<forall>now'. fst (receive_payment c now' su (snd (receive_payment c now su m))) \<noteq> Ok () \<and>
       snd (receive_payment c now' su (snd (receive_payment c now su m))) =
         snd (receive_payment c now su m)))"
proof (intro conjI allI impI)
  show "fst (receive_payment c now su m) = Ok () \<longleftrightarrow> (\<exists>ch. applicable c now su m ch)"
    using receive_Ok_applicable [of c now su m] receive_applies(1) by fastforce
  show "snd (receive_payment c now su m) = m" if "fst (receive_payment c now su m) \<noteq> Ok ()"
    using that by (rule receive_refused)
next
  fix ch assume a: "applicable c now su m ch"
  note r = receive_applies [OF a]
  let ?ch = "(snd (channel_receive now (su_update su) ch))\<lparr>ch_latest_remote_signature := Some (su_signature su)\<rparr>"
  let ?m = "snd (receive_payment c now su m)"
  have m: "hm_get (cm_channels ?m) = (hm_get (cm_channels m))(cu_channel_id (su_update su) \<mapsto> ?ch)"
    by (simp add: r(1) put_channel_def fun_upd_def)
  have "channel_receive now (su_update su) ch = (Ok (), snd (channel_receive now (su_update su) ch))"
    using r(2) by (simp add: prod_eq_iff)
  note k = channel_receive_Ok [OF this]
  have b: "ch_local_balance ?ch = cu_remote_balance (su_update su)"
    "ch_remote_balance ?ch = cu_local_balance (su_update su)" "ch_nonce ?ch = ch_nonce ch + 1"
    "ch_capacity ?ch = ch_capacity ch"
    by (simp_all add: k(4)) (simp add: k(2))
  from m b show "\<exists>ch'. hm_get (cm_channels ?m) = (hm_get (cm_channels m))(cu_channel_id (su_update su) \<mapsto> ch') \<and>
       ch_local_balance ch' = cu_remote_balance (su_update su) \<and>
       ch_remote_balance ch' = cu_local_balance (su_update su) \<and>
       ch_nonce ch' = ch_nonce ch + 1 \<and> ch_capacity ch' = ch_capacity ch"
    by blast
  fix now'
  have "\<not> applicable c now' su ?m ch'" for ch'
    using m b(3) a by (auto simp: applicable_def)
  then show n: "fst (receive_payment c now' su ?m) \<noteq> Ok ()" using receive_Ok_applicable by blast
  show "snd (receive_payment c now' su ?m) = ?m" using n by (rule receive_refused)
qed

theorem received_payment_authentic_witness:
  "\<not> is_ok (fst (receive_payment demo_crypto 10
     \<lparr>su_update = demo_update 0 100, su_signature = ''sig'', su_signer = ''b''\<rparr>
     (snd (receive_payment demo_crypto 10
        \<lparr>su_update = demo_update 0 100, su_signature = ''sig'', su_signer = ''b''\<rparr> demo_manager))))"
proof -
  let ?su = "\<lparr>su_update = demo_update 0 100, su_signature = ''sig'', su_signer = ''b''\<rparr>"
  have "fst (receive_payment demo_crypto 10 ?su demo_manager) = Ok ()"
    by (simp add: receive_payment_def demo_manager_def demo_update_def demo_channel_def
        verify_with_hex_key_def verify_with_public_key_def decode_exact_def demo_crypto_def
        channel_receive_def is_operational_def channel_is_expired_def Let_def)
  with received_payment_authentic [of demo_crypto 10 ?su demo_manager]
  have "fst (receive_payment demo_crypto 10 ?su (snd (receive_payment demo_crypto 10 ?su demo_manager))) \<noteq> Ok ()"
    by blast
  then show ?thesis by (simp add: is_ok_iff)
qed

text \<open>Nothing bounds what a correctly numbered update takes: on any operational channel the
  update that assigns the whole capacity to the sender is accepted and leaves the local side
  nothing; and an update whose two balances overflow \<open>u64\<close> is accepted on a channel of capacity
  100 and gives the local side 150.\<close>

theorem update_can_take_everything:
  assumes "is_operational now ch"
  shows "(\<exists>ch'. channel_receive now
      \<lparr>cu_channel_id = ch_id ch, cu_nonce = ch_nonce ch + 1, cu_local_balance = ch_capacity ch,
       cu_remote_balance = 0, cu_timestamp = t\<rparr> ch = (Ok (), ch') \<and> ch_local_balance ch' = 0) \<and>
    (\<exists>ch'. channel_receive 10 (demo_update (- 50) 150) demo_channel = (Ok (), ch') \<and>
      ch_capacity ch' = 100 \<and> ch_local_balance ch' = 150)"
  using assms
  by (simp add: channel_receive_def Let_def demo_channel_def demo_update_def is_operational_def
      channel_is_expired_def)

theorem update_can_take_everything_witness:
  "\<exists>ch'. channel_receive 10 (demo_update 100 0) demo_channel = (Ok (), ch') \<and> ch_local_balance ch' = 0"
proof -
  have "is_operational 10 demo_channel"
    by (simp add: demo_channel_def is_operational_def channel_is_expired_def)
  from update_can_take_everything [OF this, of 5] show ?thesis
    by (simp add: demo_channel_def demo_update_def)
qed

text \<open>No channel operation settles the funds that opening the channel locked: after any
  payments, and after a cooperative or forced close, the wallet still holds the full capacity in
  the escrow, and refunding it gives the opener all of it back whatever was paid.\<close>

theorem channel_funds_not_settled:
  assumes "wallet_inv (w_state (cm_wallet m))"
    and "wallet_ready (call_env.truncate e) (hours * 3600) (cm_wallet m)"
    and "open_channel c e peer capacity hours m = (Ok ch, m1)"
    and "(channel_step c)\<^sup>*\<^sup>* m1 m2" and "wallet_ready e' t' (cm_wallet m2)"
  shows "\<exists>i tx w. held_by (cm_wallet m2) i = Some (unat capacity) \<and>
    refund_escrow e' i (cm_wallet m2) = (Ok tx, w) \<and>
    unat (available (w_state w)) = unat (available (w_state (cm_wallet m)))"
proof -
  from assms(3) obtain x w1 where cr: "create_escrow (call_env.truncate e) capacity peer
      (''channel_'' @ peer) (hours * 3600) (cm_wallet m) = (Ok x, w1)" and "cm_wallet m1 = w1"
    by (auto simp: open_channel_def split: if_splits prod.splits outcome.splits option.splits)
  then have w2: "cm_wallet m2 = w1" using channel_steps_wallet [OF assms(4)] by simp
  from wallet_escrow.create_Ok [OF assms(1,2) cr]
  have "held_by (cm_wallet m2) (esc_id x) = Some (unat capacity)" by (simp add: w2)
  moreover from wallet_escrow.refund_undoes_create [OF assms(1,2) cr] assms(5) w2
  obtain tx w where "refund_escrow e' (esc_id x) (cm_wallet m2) = (Ok tx, w)"
    "unat (available (w_state w)) = unat (available (w_state (cm_wallet m)))"
    by blast
  ultimately show ?thesis by blast
qed

theorem channel_funds_not_settled_witness:
  "\<exists>i tx w. held_by (cm_wallet (snd (open_channel demo_crypto demo_chan_env ''c'' 100 1 demo_manager))) i
       = Some 100 \<and>
     refund_escrow (demo_env 0 ''e3'') i
       (cm_wallet (snd (open_channel demo_crypto demo_chan_env ''c'' 100 1 demo_manager))) = (Ok tx, w) \<and>
     available (w_state w) = 1000000000"
proof -
  let ?o = "open_channel demo_crypto demo_chan_env ''c'' 100 1 demo_manager"
  have "\<exists>x w1. create_escrow (demo_env 0 ''e2'') 100 ''c'' ''channel_c'' 3600 demo_wallet = (Ok x, w1) \<and>
      escrows (w_state w1) = hm_insert ''e2'' x (escrows (w_state demo_wallet))"
    by (simp add: create_escrow_def check_spending_limits_def create_escrow_commit_def
        effective_available_def sat_sub_def demo_wallet_def default_wallet_config_def
        MICRO_PCLAW_def demo_env_def demo_add_def Let_def hm_get_or_def escrow_new_def finish_eq
        hour_key_def day_key_def now_secs_def)
  then obtain x w1 where
    cr: "create_escrow (demo_env 0 ''e2'') 100 ''c'' ''channel_c'' 3600 demo_wallet = (Ok x, w1)"
    and ew: "escrows (w_state w1) = hm_insert ''e2'' x (escrows (w_state demo_wallet))" by blast
  have w: "cm_wallet demo_manager = demo_wallet" by (simp add: demo_manager_def)
  obtain ch where ch: "channel_new demo_crypto demo_chan_env ''a'' ''c'' 100 1 = Some ch"
    by (simp add: channel_new_def demo_chan_env_def call_env.defs)
  have m: "hm_get (cm_by_peer demo_manager) ''c'' = None"
    "own_peer_id (cm_identity demo_manager) = ''a''"
    by (simp_all add: demo_manager_def)
  have ok: "?o = (Ok ch, snd ?o)" and wo: "cm_wallet (snd ?o) = w1"
    by (simp_all add: open_channel_def demo_truncate w m cr ch)
  have inv: "wallet_inv (w_state (cm_wallet demo_manager))"
    by (simp add: w demo_wallet_inv)
  have rd: "wallet_ready (call_env.truncate demo_chan_env) (1 * 3600) (cm_wallet demo_manager)"
    by (simp add: demo_truncate w wallet_ready_def demo_wallet_def demo_env_def demo_add_def)
  have rd2: "wallet_ready (demo_env 0 ''e3'') 0 (cm_wallet (snd ?o))"
    by (simp add: wo wallet_ready_def ew demo_wallet_def demo_env_def demo_add_def)
  have u: "unat (available (w_state (cm_wallet demo_manager))) = 1000000000" by (simp add: w demo_wallet_def)
  have "\<exists>i tx w. held_by (cm_wallet (snd ?o)) i = Some 100 \<and>
      refund_escrow (demo_env 0 ''e3'') i (cm_wallet (snd ?o)) = (Ok tx, w) \<and>
      unat (available (w_state w)) = 1000000000"
    using channel_funds_not_settled [OF inv rd ok rtranclp.rtrancl_refl rd2] u by simp
  then show ?thesis by (simp add: word_unat_eq_iff)
qed

end
