(* ===== verification/F64.thy ===== *)
theory F64
  imports Complex_Main Prelude
begin

section \<open>IEEE binary64 numbers\<close>

text \<open>
  The \<open>f64\<close> arithmetic the program uses, executable: a finite number is \<open>Fin m e\<close> with the value
  \<open>m * 2 ^ e\<close>, in the normal form where \<open>m\<close> is odd or both are 0, so that equal values are equal
  terms. Sums, products and quotients are computed exactly (a quotient with a sticky bit) and then
  rounded to 53 bits, ties to even, with gradual underflow and overflow to an infinity. The two
  zeros are identified, which is visible only in a division by a negative zero; the program makes
  none.
\<close>

datatype f64 = NaN | Inf bool | Fin int int \<comment> \<open>\<open>Inf True\<close> is negative\<close>

function bit_length :: "int \<Rightarrow> int" where
  "bit_length n = (if n \<le> 0 then 0 else 1 + bit_length (n div 2))"
  by pat_completeness auto
termination
  by (relation "measure nat") auto

declare bit_length.simps [simp del]

function strip2 :: "int \<Rightarrow> int \<Rightarrow> f64" where
  "strip2 m e = (if m = 0 then Fin 0 0 else if even m then strip2 (m div 2) (e + 1) else Fin m e)"
  by pat_completeness auto
termination
  by (relation "measure (\<lambda>(m, e). nat \<bar>m\<bar>)") (auto elim!: evenE)

declare strip2.simps [simp del]

definition two_pow :: "int \<Rightarrow> int" where
  "two_pow k = 2 ^ nat k"

text \<open>
  \<open>fp_round p lo hi m e\<close> is the number nearest to \<open>m * 2 ^ e\<close> with \<open>p\<close> bits, the least exponent \<open>lo\<close>
  and values below \<open>2 ^ hi\<close>; \<open>f_round\<close> is the one of \<open>f64\<close>, \<open>f32_round\<close> that of \<open>f32\<close>, whose values
  are \<open>f64\<close> values too.
\<close>

definition fp_round :: "int \<Rightarrow> int \<Rightarrow> int \<Rightarrow> int \<Rightarrow> int \<Rightarrow> f64" where
  "fp_round p lo hi m e =
     (let a = \<bar>m\<bar>;
          k = max (bit_length a - p) (lo - e)
      in if m = 0 then Fin 0 0
         else if k \<le> 0
         then (if hi < bit_length a + e then Inf (m < 0) else strip2 m e)
         else
           let q = a div two_pow k; r = a mod two_pow k; h = two_pow (k - 1);
               q = (if h < r \<or> (r = h \<and> odd q) then q + 1 else q)
           in if hi < bit_length q + (e + k) then Inf (m < 0)
              else strip2 (sgn m * q) (e + k))"

definition f_round :: "int \<Rightarrow> int \<Rightarrow> f64" where
  "f_round = fp_round 53 (- 1074) 1024"

definition f32_round :: "int \<Rightarrow> int \<Rightarrow> f64" where
  "f32_round = fp_round 24 (- 149) 128"

definition f_of_int :: "int \<Rightarrow> f64" where
  "f_of_int n = f_round n 0"

definition f_of_u64 :: "u64 \<Rightarrow> f64" where
  "f_of_u64 w = f_of_int (uint w)"

definition f_of_u32 :: "u32 \<Rightarrow> f64" where
  "f_of_u32 w = f_of_int (uint w)"

fun f_neg :: "f64 \<Rightarrow> f64" where
  "f_neg NaN = NaN"
| "f_neg (Inf s) = Inf (\<not> s)"
| "f_neg (Fin m e) = Fin (- m) e"

fun f_add :: "f64 \<Rightarrow> f64 \<Rightarrow> f64" where
  "f_add (Fin m1 e1) (Fin m2 e2) =
     (let e = min e1 e2 in f_round (m1 * two_pow (e1 - e) + m2 * two_pow (e2 - e)) e)"
| "f_add (Inf s) (Inf t) = (if s = t then Inf s else NaN)"
| "f_add (Inf s) (Fin _ _) = Inf s"
| "f_add (Fin _ _) (Inf s) = Inf s"
| "f_add _ _ = NaN"

definition f_sub :: "f64 \<Rightarrow> f64 \<Rightarrow> f64" where
  "f_sub a b = f_add a (f_neg b)"

fun f_mul :: "f64 \<Rightarrow> f64 \<Rightarrow> f64" where
  "f_mul (Fin m1 e1) (Fin m2 e2) = f_round (m1 * m2) (e1 + e2)"
| "f_mul (Inf s) (Inf t) = Inf (s \<noteq> t)"
| "f_mul (Inf s) (Fin m _) = (if m = 0 then NaN else Inf (s \<noteq> (m < 0)))"
| "f_mul (Fin m _) (Inf s) = (if m = 0 then NaN else Inf (s \<noteq> (m < 0)))"
| "f_mul _ _ = NaN"

text \<open>A quotient as an odd or exact numerator over a power of two, enough for any rounding.\<close>

definition sticky_quotient :: "int \<Rightarrow> int \<Rightarrow> int \<times> int" where
  "sticky_quotient m1 m2 =
     (let s = bit_length \<bar>m2\<bar> + 55;
          n = \<bar>m1\<bar> * two_pow s;
          q = 2 * (n div \<bar>m2\<bar>) + (if n mod \<bar>m2\<bar> = 0 then 0 else 1)
      in (sgn m1 * sgn m2 * q, - s - 1))"

fun f_div :: "f64 \<Rightarrow> f64 \<Rightarrow> f64" where
  "f_div (Fin m1 e1) (Fin m2 e2) =
     (if m2 = 0 then (if m1 = 0 then NaN else Inf (m1 < 0))
      else let (q, e) = sticky_quotient m1 m2 in f_round q (e1 - e2 + e))"
| "f_div (Inf s) (Fin m _) = Inf (s \<noteq> (m < 0))"
| "f_div (Fin _ _) (Inf _) = Fin 0 0"
| "f_div _ _ = NaN"

text \<open>A decimal literal \<open>p / q\<close> with exact \<open>p\<close> and \<open>q\<close> is their correctly rounded quotient.\<close>

definition f_lit :: "int \<Rightarrow> int \<Rightarrow> f64" where
  "f_lit p q = f_div (f_of_int p) (f_of_int q)"

definition f32_lit :: "int \<Rightarrow> int \<Rightarrow> f64" where
  "f32_lit p q = (let (n, e) = sticky_quotient p q in f32_round n e)"

text \<open>Comparison: \<open>None\<close> when an operand is a NaN, else the sign of the difference.\<close>

fun f_cmp :: "f64 \<Rightarrow> f64 \<Rightarrow> int option" where
  "f_cmp (Fin m1 e1) (Fin m2 e2) =
     (let e = min e1 e2 in Some (sgn (m1 * two_pow (e1 - e) - m2 * two_pow (e2 - e))))"
| "f_cmp (Inf s) (Inf t) = Some (if s = t then 0 else if s then - 1 else 1)"
| "f_cmp (Inf s) (Fin _ _) = Some (if s then - 1 else 1)"
| "f_cmp (Fin _ _) (Inf s) = Some (if s then 1 else - 1)"
| "f_cmp _ _ = None"

definition f_lt :: "f64 \<Rightarrow> f64 \<Rightarrow> bool" where
  "f_lt a b \<longleftrightarrow> f_cmp a b = Some (- 1)"

definition f_le :: "f64 \<Rightarrow> f64 \<Rightarrow> bool" where
  "f_le a b \<longleftrightarrow> f_cmp a b = Some (- 1) \<or> f_cmp a b = Some 0"

definition f_eq :: "f64 \<Rightarrow> f64 \<Rightarrow> bool" where
  "f_eq a b \<longleftrightarrow> f_cmp a b = Some 0"

text \<open>\<open>min\<close> and \<open>max\<close> return the other operand when one is a NaN; \<open>clamp\<close> keeps a NaN.\<close>

definition f_min :: "f64 \<Rightarrow> f64 \<Rightarrow> f64" where
  "f_min a b = (if a = NaN then b else if b = NaN then a else if f_lt b a then b else a)"

definition f_max :: "f64 \<Rightarrow> f64 \<Rightarrow> f64" where
  "f_max a b = (if a = NaN then b else if b = NaN then a else if f_lt a b then b else a)"

definition f_clamp :: "f64 \<Rightarrow> f64 \<Rightarrow> f64 \<Rightarrow> f64" where
  "f_clamp x lo hi = (let y = (if f_lt x lo then lo else x) in if f_lt hi y then hi else y)"

text \<open>The saturating cast \<open>as u64\<close>: towards zero, a NaN gives 0.\<close>

fun f_trunc :: "int \<Rightarrow> int \<Rightarrow> int" where
  "f_trunc m e = (if 0 \<le> e then m * two_pow e else sgn m * (\<bar>m\<bar> div two_pow (- e)))"

fun f_to_u64 :: "f64 \<Rightarrow> u64" where
  "f_to_u64 NaN = 0"
| "f_to_u64 (Inf s) = (if s then 0 else - 1)"
| "f_to_u64 (Fin m e) = word_of_int (max 0 (min (2 ^ 64 - 1) (f_trunc m e)))"

text \<open>
  Arithmetic of \<open>f32\<close>: rounding the \<open>f64\<close> result once more is exact, because 53 bits are more than
  twice 24 and two.
\<close>

fun to_f32 :: "f64 \<Rightarrow> f64" where
  "to_f32 (Fin m e) = f32_round m e"
| "to_f32 x = x"

definition f32_mul :: "f64 \<Rightarrow> f64 \<Rightarrow> f64" where
  "f32_mul a b = to_f32 (f_mul a b)"

definition f32_add :: "f64 \<Rightarrow> f64 \<Rightarrow> f64" where
  "f32_add a b = to_f32 (f_add a b)"

definition f32_div :: "f64 \<Rightarrow> f64 \<Rightarrow> f64" where
  "f32_div a b = to_f32 (f_div a b)"

fun f_to_u32 :: "f64 \<Rightarrow> u32" where
  "f_to_u32 NaN = 0"
| "f_to_u32 (Inf s) = (if s then 0 else - 1)"
| "f_to_u32 (Fin m e) = word_of_int (max 0 (min (2 ^ 32 - 1) (f_trunc m e)))"

subsection \<open>Facts\<close>

lemma f_cmp_refl: "x \<noteq> NaN \<Longrightarrow> f_cmp x x = Some 0"
  by (cases x) (simp_all add: Let_def)

lemma f_le_refl [simp]: "x \<noteq> NaN \<Longrightarrow> f_le x x"
  by (simp add: f_le_def f_cmp_refl)

lemma f_cmp_swap: "f_cmp b a = map_option uminus (f_cmp a b)"
proof (cases a; cases b)
  fix m1 e1 m2 e2 assume "a = Fin m1 e1" "b = Fin m2 e2"
  then show ?thesis by (simp add: Let_def min.commute) (simp add: sgn_if)
qed simp_all

lemma f_cmp_range: "f_cmp a b = Some c \<Longrightarrow> c = - 1 \<or> c = 0 \<or> c = 1"
  by (cases a; cases b) (auto simp: Let_def sgn_if split: if_splits)

lemma f_cmp_None: "f_cmp a b = None \<longleftrightarrow> a = NaN \<or> b = NaN"
  by (cases a; cases b) (simp_all add: Let_def)

lemma f_not_lt: "a \<noteq> NaN \<Longrightarrow> b \<noteq> NaN \<Longrightarrow> \<not> f_lt a b \<longleftrightarrow> f_le b a"
  using f_cmp_swap [of b a] f_cmp_range [of a b] f_cmp_None [of a b]
  by (cases "f_cmp a b") (auto simp: f_lt_def f_le_def)

lemma f_lt_imp_le: "f_lt a b \<Longrightarrow> f_le a b"
  by (simp add: f_lt_def f_le_def)

lemma f_clamp_bounds:
  assumes "x \<noteq> NaN" and "f_le lo hi"
  shows "f_le lo (f_clamp x lo hi)" and "f_le (f_clamp x lo hi) hi"
proof -
  have n: "lo \<noteq> NaN" "hi \<noteq> NaN"
    using assms(2) f_cmp_None [of lo hi] by (auto simp: f_le_def)
  have "\<not> f_lt hi lo" using assms(2) f_not_lt [OF n(2,1)] by simp
  with assms n f_not_lt [of x lo] f_not_lt [of hi x] show "f_le lo (f_clamp x lo hi)"
    and "f_le (f_clamp x lo hi) hi"
    by (auto simp: f_clamp_def Let_def)
qed

subsection \<open>The order\<close>

text \<open>
  \<open>f_le\<close> orders the finite numbers like the reals they denote, so it is a preorder on all numbers
  but the NaN.
\<close>

definition f_val :: "int \<Rightarrow> int \<Rightarrow> real" where
  "f_val m e = of_int m * 2 powi e"

lemma f_val_shift: "e0 \<le> e \<Longrightarrow> f_val m e = of_int (m * two_pow (e - e0)) * 2 powi e0"
  using power_int_add [of "2::real" "e - e0" e0]
  by (simp add: f_val_def two_pow_def power_int_def [of _ "e - e0"])

lemma f_cmp_val: "f_cmp (Fin m1 e1) (Fin m2 e2) = Some (sgn (m1 * two_pow (e1 - min e1 e2) - m2 * two_pow (e2 - min e1 e2)))"
  by (simp add: Let_def)

lemma f_le_Fin: "f_le (Fin m1 e1) (Fin m2 e2) \<longleftrightarrow> f_val m1 e1 \<le> f_val m2 e2"
proof -
  let ?e = "min e1 e2" and ?d = "m1 * two_pow (e1 - min e1 e2) - m2 * two_pow (e2 - min e1 e2)"
  have "f_val m1 e1 \<le> f_val m2 e2 \<longleftrightarrow> of_int ?d * 2 powi ?e \<le> (0 :: real)"
    using f_val_shift [of ?e e1 m1] f_val_shift [of ?e e2 m2] by (simp add: left_diff_distrib)
  also have "\<dots> \<longleftrightarrow> ?d \<le> 0"
    using zero_less_power_int [of "2 :: real" ?e]
    by (simp only: mult_le_0_iff of_int_le_0_iff of_int_0_le_iff) linarith
  finally show ?thesis by (simp add: f_le_def f_cmp_val sgn_if del: f_cmp.simps)
qed

lemma f_le_Inf:
  "f_le (Inf s) (Fin m e) \<longleftrightarrow> s" "f_le (Fin m e) (Inf s) \<longleftrightarrow> \<not> s"
  "f_le (Inf s) (Inf r) \<longleftrightarrow> s \<or> \<not> r"
  by (simp_all add: f_le_def)

lemma f_le_NaN [simp]: "\<not> f_le NaN a" "\<not> f_le a NaN"
  by (simp_all add: f_le_def f_cmp_None [THEN iffD2])

lemma f_le_trans: "f_le a b \<Longrightarrow> f_le b c \<Longrightarrow> f_le a c"
proof (cases a; cases b; cases c)
  fix m1 e1 m2 e2 m3 e3
  assume "f_le a b" "f_le b c" "a = Fin m1 e1" "b = Fin m2 e2" "c = Fin m3 e3"
  then show ?thesis using order_trans by (simp add: f_le_Fin)
qed (auto simp: f_le_Inf)

lemma f_le_total: "a \<noteq> NaN \<Longrightarrow> b \<noteq> NaN \<Longrightarrow> f_le a b \<or> f_le b a"
  using f_not_lt [of a b] f_lt_imp_le [of a b] by blast

end
