(* ===== verification/Pricing.thy ===== *)
theory Pricing
  imports F64 Text
begin

section \<open>Resource pricing\<close>

text \<open>
  Models \<^verbatim>\<open>src/job/pricing.rs\<close> and the unit conversions of \<^verbatim>\<open>src/wallet/mod.rs\<close>: the kinds of
  resources, the base rates, the price of a resource and the strategy that scales it. Integer
  prices are \<open>u64\<close> products that wrap; the prices by the hour and by the megabyte go through \<open>f64\<close>.
\<close>

subsection \<open>Resources and rates\<close>

definition to_micro :: "f64 \<Rightarrow> u64" where
  "to_micro pclaw = f_to_u64 (f_mul pclaw (f_of_int 1000000))"

definition from_micro :: "u64 \<Rightarrow> f64" where
  "from_micro micro = f_div (f_of_u64 micro) (f_of_int 1000000)"

datatype storage_operation = Read | Write

datatype resource_type =
    Inference string u32 \<comment> \<open>model, tokens\<close>
  | Embedding string u32 \<comment> \<open>model, tokens\<close>
  | ImageGeneration string u32 \<comment> \<open>model, count\<close>
  | Cpu u16 u64 \<comment> \<open>cores, seconds\<close>
  | Gpu u32 u64 \<comment> \<open>VRAM in MB, seconds\<close>
  | Storage storage_operation u64 \<comment> \<open>bytes\<close>
  | WebFetch u32
  | VectorSearch u32
  | WasmTool string u32 \<comment> \<open>tool name, invocations\<close>

fun display_resource_type :: "resource_type \<Rightarrow> string" where
  "display_resource_type (Inference model tokens) =
     ''Inference: '' @ model @ '' ('' @ show_word tokens @ '' tokens)''"
| "display_resource_type (Embedding model tokens) =
     ''Embedding: '' @ model @ '' ('' @ show_word tokens @ '' tokens)''"
| "display_resource_type (ImageGeneration model count) =
     ''ImageGen: '' @ model @ '' ('' @ show_word count @ '' images)''"
| "display_resource_type (Cpu cores secs) =
     ''CPU: '' @ show_word cores @ '' cores for '' @ show_word secs @ ''s''"
| "display_resource_type (Gpu vram secs) =
     ''GPU: '' @ show_word vram @ ''MB VRAM for '' @ show_word secs @ ''s''"
| "display_resource_type (Storage op bytes) =
     ''Storage '' @ (case op of Read \<Rightarrow> ''Read'' | Write \<Rightarrow> ''Write'') @ '': '' @
     show_word bytes @ '' bytes''"
| "display_resource_type (WebFetch urls) = ''WebFetch: '' @ show_word urls @ '' URLs''"
| "display_resource_type (VectorSearch queries) =
     ''VectorSearch: '' @ show_word queries @ '' queries''"
| "display_resource_type (WasmTool tool invocations) =
     ''WASM '' @ tool @ '': '' @ show_word invocations @ '' invocations''"

record resource_pricing =
  inference_small_per_1k :: u64
  inference_medium_per_1k :: u64
  inference_large_per_1k :: u64
  embedding_per_1k :: u64
  image_per_image :: u64
  cpu_per_core_hour :: u64
  gpu_consumer_per_hour :: u64
  gpu_datacenter_per_hour :: u64
  storage_read_per_mb :: u64
  storage_write_per_mb :: u64
  web_fetch_per_request :: u64
  vector_search_per_query :: u64
  wasm_per_invocation :: u64

definition default_resource_pricing :: resource_pricing where
  "default_resource_pricing =
     \<lparr>inference_small_per_1k = to_micro (f_lit 5 10), inference_medium_per_1k = to_micro (f_lit 2 1),
      inference_large_per_1k = to_micro (f_lit 5 1), embedding_per_1k = to_micro (f_lit 2 10),
      image_per_image = to_micro (f_lit 3 1), cpu_per_core_hour = to_micro (f_lit 2 1),
      gpu_consumer_per_hour = to_micro (f_lit 15 1), gpu_datacenter_per_hour = to_micro (f_lit 40 1),
      storage_read_per_mb = to_micro (f_lit 5 1000), storage_write_per_mb = to_micro (f_lit 1 100),
      web_fetch_per_request = to_micro (f_lit 1 10),
      vector_search_per_query = to_micro (f_lit 5 100),
      wasm_per_invocation = to_micro (f_lit 2 100)\<rparr>"

subsection \<open>The price of a resource\<close>

definition get_inference_rate :: "resource_pricing \<Rightarrow> string \<Rightarrow> u64" where
  "get_inference_rate p model =
     (let m = ascii_lower model in
      if str_contains m ''70b'' \<or> str_contains m ''72b'' \<or> str_contains m ''mixtral''
      then inference_large_per_1k p
      else if str_contains m ''30b'' \<or> str_contains m ''34b'' \<or> str_contains m ''33b''
      then inference_medium_per_1k p
      else inference_small_per_1k p)"

definition hours_of :: "u64 \<Rightarrow> f64" where
  "hours_of secs = f_div (f_of_u64 secs) (f_of_int 3600)"

fun price_calculate :: "resource_pricing \<Rightarrow> resource_type \<Rightarrow> u64" where
  "price_calculate p (Inference model tokens) = (get_inference_rate p model * ucast tokens) div 1000"
| "price_calculate p (Embedding _ tokens) = (embedding_per_1k p * ucast tokens) div 1000"
| "price_calculate p (ImageGeneration _ count) = image_per_image p * ucast count"
| "price_calculate p (Cpu cores secs) =
     f_to_u64 (f_mul (f_mul (f_of_u64 (cpu_per_core_hour p)) (f_of_int (uint cores))) (hours_of secs))"
| "price_calculate p (Gpu _ secs) =
     f_to_u64 (f_mul (f_of_u64 (gpu_consumer_per_hour p)) (hours_of secs))"
| "price_calculate p (Storage op bytes) =
     (let mb = f_div (f_of_u64 bytes) (f_mul (f_of_int 1024) (f_of_int 1024));
          rate = (case op of Read \<Rightarrow> storage_read_per_mb p | Write \<Rightarrow> storage_write_per_mb p)
      in f_to_u64 (f_mul (f_of_u64 rate) mb))"
| "price_calculate p (WebFetch urls) = web_fetch_per_request p * ucast urls"
| "price_calculate p (VectorSearch queries) = vector_search_per_query p * ucast queries"
| "price_calculate p (WasmTool _ invocations) = wasm_per_invocation p * ucast invocations"

subsection \<open>Pricing strategies\<close>

record pricing_strategy =
  base_rates :: resource_pricing
  utilization_multiplier :: f64
  target_utilization :: f64
  ps_estimated_latency_ms :: u32
  ps_reputation :: f64

definition default_pricing_strategy :: pricing_strategy where
  "default_pricing_strategy =
     \<lparr>base_rates = default_resource_pricing, utilization_multiplier = f_of_int 1,
      target_utilization = f_lit 7 10, ps_estimated_latency_ms = 100, ps_reputation = f_lit 5 10\<rparr>"

definition calculate_price :: "pricing_strategy \<Rightarrow> resource_type \<Rightarrow> u32 \<Rightarrow> u64" where
  "calculate_price s resource units =
     (let base_price = price_calculate (base_rates s) resource;
          adjusted = f_to_u64 (f_mul (f_of_u64 base_price) (utilization_multiplier s));
          rep_factor = f_sub (f_of_int 1) (f_mul (ps_reputation s) (f_lit 1 10))
      in f_to_u64 (f_mul (f_of_u64 adjusted) rep_factor))"

definition update_utilization :: "f64 \<Rightarrow> pricing_strategy \<Rightarrow> pricing_strategy" where
  "update_utilization current s =
     (let diff = f_sub current (target_utilization s);
          m = f_add (utilization_multiplier s) (f_mul diff (f_lit 2 10))
      in s\<lparr>utilization_multiplier := f_clamp m (f_lit 5 10) (f_of_int 3)\<rparr>)"

end
