(* ===== verification/Bid.thy ===== *)
theory Bid
  imports Pricing Wallet
begin

section \<open>Job requests and bids\<close>

text \<open>
  Models \<^verbatim>\<open>src/job/request.rs\<close> and \<^verbatim>\<open>src/job/bid.rs\<close>: requests, bids, the score of a bid and
  the choice of the best one. \<open>job_env\<close> extends the wallet's environment by the random UUID a call
  draws. An operation that adds seconds to a time is \<open>None\<close> where chrono panics. The clock stands
  still during one call.
\<close>

record job_env = call_env +
  je_uuid :: string

type_synonym job_id = string
type_synonym bid_id = string

definition without_dashes :: "string \<Rightarrow> string" where
  "without_dashes s = filter (\<lambda>c. c \<noteq> CHR ''-'') s"

definition new_job_id :: "'a job_env_scheme \<Rightarrow> job_id" where
  "new_job_id e = ''job_'' @ without_dashes (je_uuid e)"

definition new_bid_id :: "'a job_env_scheme \<Rightarrow> bid_id" where
  "new_bid_id e = ''bid_'' @ without_dashes (je_uuid e)"

subsection \<open>Requests\<close>

record job_requirements =
  req_max_latency_ms :: "u32 option"
  req_min_reputation :: "f64 option"
  req_capabilities :: "string list"
  req_preferred_peers :: "string list"
  req_excluded_peers :: "string list"

definition default_job_requirements :: job_requirements where
  "default_job_requirements =
     \<lparr>req_max_latency_ms = None, req_min_reputation = Some (f_lit 3 10), req_capabilities = [],
      req_preferred_peers = [], req_excluded_peers = []\<rparr>"

record job_request =
  rq_id :: job_id
  rq_resource_type :: resource_type
  rq_units :: u32
  rq_max_budget :: u64
  rq_requirements :: job_requirements
  rq_timeout_secs :: u64
  rq_created_at :: timestamp
  rq_expires_at :: timestamp
  rq_requester_id :: string
  rq_payload :: "u8 list option"

text \<open>Casts to \<open>u32\<close> cut the upper bits off; the product of cores and seconds wraps.\<close>

fun extract_units :: "resource_type \<Rightarrow> u32" where
  "extract_units (Inference _ tokens) = tokens"
| "extract_units (Embedding _ tokens) = tokens"
| "extract_units (ImageGeneration _ count) = count"
| "extract_units (Cpu cores secs) = ucast ((ucast cores :: u64) * secs)"
| "extract_units (Gpu _ secs) = ucast secs"
| "extract_units (Storage _ bytes) = ucast (bytes div 1024)"
| "extract_units (WebFetch urls) = urls"
| "extract_units (VectorSearch queries) = queries"
| "extract_units (WasmTool _ invocations) = invocations"

definition job_request_new ::
  "'a job_env_scheme \<Rightarrow> resource_type \<Rightarrow> u64 \<Rightarrow> u64 \<Rightarrow> job_request option" where
  "job_request_new e resource max_budget timeout_secs =
     (case env_add_secs e (env_now e) 60 of
        None \<Rightarrow> None
      | Some expires \<Rightarrow>
          Some \<lparr>rq_id = new_job_id e, rq_resource_type = resource, rq_units = extract_units resource,
                rq_max_budget = max_budget, rq_requirements = default_job_requirements,
                rq_timeout_secs = timeout_secs, rq_created_at = env_now e, rq_expires_at = expires,
                rq_requester_id = [], rq_payload = None\<rparr>)"

definition with_requirements :: "job_requirements \<Rightarrow> job_request \<Rightarrow> job_request" where
  "with_requirements r q = q\<lparr>rq_requirements := r\<rparr>"

definition with_requester :: "string \<Rightarrow> job_request \<Rightarrow> job_request" where
  "with_requester p q = q\<lparr>rq_requester_id := p\<rparr>"

definition with_payload :: "u8 list \<Rightarrow> job_request \<Rightarrow> job_request" where
  "with_payload b q = q\<lparr>rq_payload := Some b\<rparr>"

definition with_bid_window :: "'a call_env_scheme \<Rightarrow> u64 \<Rightarrow> job_request \<Rightarrow> job_request option" where
  "with_bid_window e secs q =
     map_option (\<lambda>t. q\<lparr>rq_expires_at := t\<rparr>) (env_add_secs e (rq_created_at q) secs)"

definition request_is_expired :: "timestamp \<Rightarrow> job_request \<Rightarrow> bool" where
  "request_is_expired now q \<longleftrightarrow> rq_expires_at q < now"

subsection \<open>Bids\<close>

datatype bid_status = BidPending | BidAccepted | BidRejected | BidExpired | BidWithdrawn

fun display_bid_status :: "bid_status \<Rightarrow> string" where
  "display_bid_status BidPending = ''Pending''"
| "display_bid_status BidAccepted = ''Accepted''"
| "display_bid_status BidRejected = ''Rejected''"
| "display_bid_status BidExpired = ''Expired''"
| "display_bid_status BidWithdrawn = ''Withdrawn''"

record job_bid =
  bid_id_of :: bid_id
  bid_job_id :: job_id
  bid_bidder :: string
  bid_price :: u64
  bid_latency_ms :: u32
  bid_created_at :: timestamp
  bid_expires_at :: timestamp
  bid_status_of :: bid_status
  bid_reputation :: f64
  bid_message :: "string option"

definition job_bid_new ::
  "'a job_env_scheme \<Rightarrow> job_id \<Rightarrow> string \<Rightarrow> u64 \<Rightarrow> u32 \<Rightarrow> u64 \<Rightarrow> job_bid option" where
  "job_bid_new e j bidder price latency valid_secs =
     (case env_add_secs e (env_now e) valid_secs of
        None \<Rightarrow> None
      | Some expires \<Rightarrow>
          Some \<lparr>bid_id_of = new_bid_id e, bid_job_id = j, bid_bidder = bidder, bid_price = price,
                bid_latency_ms = latency, bid_created_at = env_now e, bid_expires_at = expires,
                bid_status_of = BidPending, bid_reputation = f_lit 5 10, bid_message = None\<rparr>)"

definition with_reputation :: "f64 \<Rightarrow> job_bid \<Rightarrow> job_bid" where
  "with_reputation r b = b\<lparr>bid_reputation := r\<rparr>"

definition with_message :: "string \<Rightarrow> job_bid \<Rightarrow> job_bid" where
  "with_message m b = b\<lparr>bid_message := Some m\<rparr>"

definition bid_is_expired :: "timestamp \<Rightarrow> job_bid \<Rightarrow> bool" where
  "bid_is_expired now b \<longleftrightarrow> bid_expires_at b < now"

definition bid_is_valid :: "timestamp \<Rightarrow> job_bid \<Rightarrow> bool" where
  "bid_is_valid now b \<longleftrightarrow> bid_status_of b = BidPending \<and> \<not> bid_is_expired now b"

text \<open>Equality of bids compares the identifiers only.\<close>

definition bid_eq :: "job_bid \<Rightarrow> job_bid \<Rightarrow> bool" where
  "bid_eq a b \<longleftrightarrow> bid_id_of a = bid_id_of b"

definition bid_score :: "u32 option \<Rightarrow> job_bid \<Rightarrow> f64" where
  "bid_score max_latency b =
     (let score = f_add (f_of_int 0) (f_mul (bid_reputation b) (f_of_int 40));
          score =
            (case max_latency of
               Some mx \<Rightarrow>
                 if bid_latency_ms b \<le> mx
                 then f_add score
                   (f_mul (f_sub (f_of_int 1) (f_div (f_of_u32 (bid_latency_ms b)) (f_of_u32 mx)))
                     (f_of_int 30))
                 else score
             | None \<Rightarrow>
                 f_add score
                   (f_min (f_div (f_of_int 1000) (f_of_u32 (bid_latency_ms b))) (f_of_int 30)))
      in f_add score
           (f_div (f_of_int 30)
             (f_add (f_of_int 1) (f_div (f_of_u64 (bid_price b)) (f_of_int 1000000)))))"

text \<open>
  \<open>max_by\<close> of the standard library keeps the later of two elements unless the earlier one compares
  as greater; scores that do not compare count as equal.
\<close>

fun max_by :: "('a \<Rightarrow> 'a \<Rightarrow> int) \<Rightarrow> 'a list \<Rightarrow> 'a option" where
  "max_by cmp [] = None"
| "max_by cmp (x # xs) = Some (fold (\<lambda>y best. if cmp best y = 1 then best else y) xs x)"

definition compare_scores :: "u32 option \<Rightarrow> job_bid \<Rightarrow> job_bid \<Rightarrow> int" where
  "compare_scores max_latency a b =
     (case f_cmp (bid_score max_latency a) (bid_score max_latency b) of None \<Rightarrow> 0 | Some c \<Rightarrow> c)"

definition acceptable :: "timestamp \<Rightarrow> u32 option \<Rightarrow> job_bid \<Rightarrow> bool" where
  "acceptable now max_latency b \<longleftrightarrow>
     bid_is_valid now b \<and> (case max_latency of None \<Rightarrow> True | Some mx \<Rightarrow> bid_latency_ms b \<le> mx)"

definition select_best_bid :: "timestamp \<Rightarrow> u32 option \<Rightarrow> job_bid list \<Rightarrow> job_bid option" where
  "select_best_bid now max_latency bids =
     max_by (compare_scores max_latency) (filter (acceptable now max_latency) bids)"

end
