(* ===== verification/Job.thy ===== *)
theory Job
  imports Bid Channel
begin

section \<open>Jobs: messages, execution, the job manager\<close>

text \<open>
  Models \<^verbatim>\<open>src/job/execution.rs\<close>, \<^verbatim>\<open>src/job/network.rs\<close> and \<^verbatim>\<open>src/job/mod.rs\<close>: a job from an
  accepted bid to its settlement, the messages that are broadcast with the bytes that are signed,
  and the manager with its maps and the wallet that holds the payments. MessagePack, BLAKE3,
  Ed25519 and libp2p's peer ids are third-party code and enter as functions.
\<close>

subsection \<open>Jobs and their results\<close>

datatype job_status =
    JobPending | JobInProgress | JobPendingVerification | JobCompleted | JobFailed | JobTimedOut
  | JobCancelled

fun display_job_status :: "job_status \<Rightarrow> string" where
  "display_job_status JobPending = ''Pending''"
| "display_job_status JobInProgress = ''In Progress''"
| "display_job_status JobPendingVerification = ''Pending Verification''"
| "display_job_status JobCompleted = ''Completed''"
| "display_job_status JobFailed = ''Failed''"
| "display_job_status JobTimedOut = ''Timed Out''"
| "display_job_status JobCancelled = ''Cancelled''"

record actual_usage =
  au_tokens :: "u32 option"
  au_compute_time_ms :: "u64 option"
  au_bytes :: "u64 option"

record execution_metrics =
  em_ttfb_ms :: u64
  em_total_time_ms :: u64
  em_tokens_per_sec :: "f64 option"

record job_result =
  jr_data :: "u8 list"
  jr_hash :: string
  jr_actual_usage :: actual_usage
  jr_metrics :: execution_metrics

definition job_result_new :: "'k crypto \<Rightarrow> u8 list \<Rightarrow> job_result" where
  "job_result_new c data =
     \<lparr>jr_data = data, jr_hash = blake3_hex c data,
      jr_actual_usage = \<lparr>au_tokens = None, au_compute_time_ms = None, au_bytes = None\<rparr>,
      jr_metrics = \<lparr>em_ttfb_ms = 0, em_total_time_ms = 0, em_tokens_per_sec = None\<rparr>\<rparr>"

definition with_usage :: "actual_usage \<Rightarrow> job_result \<Rightarrow> job_result" where
  "with_usage u r = r\<lparr>jr_actual_usage := u\<rparr>"

definition with_metrics :: "execution_metrics \<Rightarrow> job_result \<Rightarrow> job_result" where
  "with_metrics x r = r\<lparr>jr_metrics := x\<rparr>"

record job =
  jb_id :: job_id
  jb_request :: job_request
  jb_bid :: job_bid
  jb_escrow_id :: escrow_id
  jb_status :: job_status
  jb_created_at :: timestamp
  jb_started_at :: "timestamp option"
  jb_completed_at :: "timestamp option"
  jb_result :: "job_result option"
  jb_error :: "string option"
  jb_verification_attempts :: u32

definition job_new :: "timestamp \<Rightarrow> job_request \<Rightarrow> job_bid \<Rightarrow> escrow_id \<Rightarrow> job" where
  "job_new now q b i =
     \<lparr>jb_id = rq_id q, jb_request = q, jb_bid = b, jb_escrow_id = i, jb_status = JobPending,
      jb_created_at = now, jb_started_at = None, jb_completed_at = None, jb_result = None,
      jb_error = None, jb_verification_attempts = 0\<rparr>"

text \<open>\<open>None\<close> where chrono panics on the deadline.\<close>

definition job_deadline :: "'a call_env_scheme \<Rightarrow> job \<Rightarrow> timestamp option" where
  "job_deadline e j = env_add_secs e (jb_created_at j) (rq_timeout_secs (jb_request j))"

definition is_timed_out :: "'a call_env_scheme \<Rightarrow> job \<Rightarrow> bool option" where
  "is_timed_out e j = map_option (\<lambda>d. d < env_now e) (job_deadline e j)"

definition job_time_remaining :: "'a call_env_scheme \<Rightarrow> job \<Rightarrow> int option" where
  "job_time_remaining e j = map_option (\<lambda>d. d - env_now e) (job_deadline e j)"

definition execution_duration :: "timestamp \<Rightarrow> job \<Rightarrow> int option" where
  "execution_duration now j =
     map_option (\<lambda>start. (case jb_completed_at j of None \<Rightarrow> now | Some t \<Rightarrow> t) - start)
       (jb_started_at j)"

definition is_terminal :: "job \<Rightarrow> bool" where
  "is_terminal j \<longleftrightarrow> jb_status j \<in> {JobCompleted, JobFailed, JobTimedOut, JobCancelled}"

datatype verification_method = NoVerification | Hash | Redundant | Sampling | Manual

record verification_result =
  vr_passed :: bool
  vr_confidence :: f64
  vr_method :: verification_method
  vr_details :: "string option"

definition vr_pass :: "verification_method \<Rightarrow> verification_result" where
  "vr_pass v = \<lparr>vr_passed = True, vr_confidence = f_of_int 1, vr_method = v, vr_details = None\<rparr>"

definition vr_fail :: "verification_method \<Rightarrow> string \<Rightarrow> verification_result" where
  "vr_fail v d = \<lparr>vr_passed = False, vr_confidence = f_of_int 1, vr_method = v, vr_details = Some d\<rparr>"

subsection \<open>Messages\<close>

definition JOB_REQUESTS :: string where
  "JOB_REQUESTS = ''peerclaw/jobs/requests/v1''"

definition JOB_BIDS :: string where
  "JOB_BIDS = ''peerclaw/jobs/bids/v1''"

definition JOB_STATUS :: string where
  "JOB_STATUS = ''peerclaw/jobs/status/v1''"

record job_request_message =
  rm_request :: job_request
  rm_requester_peer_id :: string
  rm_signature :: "u8 list"

record job_bid_message =
  bm_bid :: job_bid
  bm_bidder_peer_id :: string
  bm_signature :: "u8 list"

record bid_accepted_message =
  am_job_id :: job_id
  am_bid_id :: string
  am_winner_peer_id :: string
  am_escrow_id :: string
  am_signature :: "u8 list"

record job_result_message =
  sm_job_id :: job_id
  sm_result :: job_result
  sm_provider_peer_id :: string
  sm_signature :: "u8 list"

datatype job_status_update =
    UpdStarted
  | UpdProgress u8 "string option"
  | UpdCompleted
  | UpdFailed string
  | UpdCancelled

record job_status_message =
  um_job_id :: job_id
  um_status :: job_status_update
  um_peer_id :: string
  um_timestamp :: u64

datatype job_message =
    MsgRequest job_request_message
  | MsgBid job_bid_message
  | MsgBidAccepted bid_accepted_message
  | MsgResult job_result_message
  | MsgStatusUpdate job_status_message

definition request_signable_bytes :: "job_request_message \<Rightarrow> u8 list" where
  "request_signable_bytes m =
     str_bytes ''job_request:'' @ str_bytes (rm_requester_peer_id m) @ str_bytes '':'' @
     str_bytes (rq_id (rm_request m))"

definition request_message_new :: "job_request \<Rightarrow> string \<Rightarrow> job_request_message" where
  "request_message_new q p = \<lparr>rm_request = q, rm_requester_peer_id = p, rm_signature = []\<rparr>"

definition request_message_sign ::
  "(u8 list \<Rightarrow> u8 list) \<Rightarrow> job_request_message \<Rightarrow> job_request_message" where
  "request_message_sign sign m = m\<lparr>rm_signature := sign (request_signable_bytes m)\<rparr>"

definition request_message_new_signed ::
  "(u8 list \<Rightarrow> u8 list) \<Rightarrow> job_request \<Rightarrow> string \<Rightarrow> job_request_message" where
  "request_message_new_signed sign q p = request_message_sign sign (request_message_new q p)"

text \<open>\<open>Signature::from_slice\<close> accepts every 64 bytes, so its failure branch is never taken.\<close>

definition request_message_verify :: "'k crypto \<Rightarrow> 'k \<Rightarrow> job_request_message \<Rightarrow> bool" where
  "request_message_verify c key m \<longleftrightarrow>
     length (rm_signature m) = 64 \<and> key_verify c key (request_signable_bytes m) (rm_signature m)"

definition bid_signable_bytes :: "job_bid_message \<Rightarrow> u8 list" where
  "bid_signable_bytes m =
     str_bytes ''job_bid:'' @ str_bytes (bm_bidder_peer_id m) @ str_bytes '':'' @
     str_bytes (bid_job_id (bm_bid m))"

definition bid_message_new :: "job_bid \<Rightarrow> string \<Rightarrow> job_bid_message" where
  "bid_message_new b p = \<lparr>bm_bid = b, bm_bidder_peer_id = p, bm_signature = []\<rparr>"

definition bid_message_sign :: "(u8 list \<Rightarrow> u8 list) \<Rightarrow> job_bid_message \<Rightarrow> job_bid_message" where
  "bid_message_sign sign m = m\<lparr>bm_signature := sign (bid_signable_bytes m)\<rparr>"

definition bid_message_new_signed ::
  "(u8 list \<Rightarrow> u8 list) \<Rightarrow> job_bid \<Rightarrow> string \<Rightarrow> job_bid_message" where
  "bid_message_new_signed sign b p = bid_message_sign sign (bid_message_new b p)"

definition bid_message_verify :: "'k crypto \<Rightarrow> 'k \<Rightarrow> job_bid_message \<Rightarrow> bool" where
  "bid_message_verify c key m \<longleftrightarrow>
     length (bm_signature m) = 64 \<and> key_verify c key (bid_signable_bytes m) (bm_signature m)"

end
