(* ===== verification/Job_Manager.thy ===== *)
theory Job_Manager
  imports Job
begin

section \<open>The job manager\<close>

text \<open>
  Models \<open>JobManager\<close> of \<^verbatim>\<open>src/job/mod.rs\<close>. The broadcast queue is the list of the topics and
  bytes that were enqueued; a message is dropped when no queue is attached, when MessagePack
  refuses it or when the queue is full. \<open>jm_env\<close> adds to the environment what these broadcasts
  depend on and, for the operation that calls the wallet twice, the readings of the second call.
  Each operation runs at once, except that accepting a bid is split where it gives its locks up:
  \<open>accept_lookup\<close> reads the request and the bid, \<open>accept_commit\<close> does the rest.
\<close>

datatype job_error =
    JobNotFound job_id
  | BidNotFound bid_id
  | JobInvalidState string
  | InsufficientBudget u64 u64 \<comment> \<open>required, available\<close>
  | BidHasExpired
  | JobTimeout
  | VerificationFailed string
  | JobWallet wallet_error
  | JobSerialization string

record jm_env = job_env +
  je_peer_id :: "string \<Rightarrow> string option" \<comment> \<open>a peer id parsed and shown again\<close>
  je_random_peer :: string
  je_serialize :: "job_message \<Rightarrow> u8 list option"
  je_queue_room :: bool
  je_second :: call_env

record job_broadcast =
  jbc_topic :: string
  jbc_data :: "u8 list"

record job_manager =
  jm_local_peer_id :: string
  jm_requests :: "(job_id, job_request) hmap"
  jm_bids :: "(job_id, job_bid list) hmap"
  jm_active :: "(job_id, job) hmap"
  jm_completed :: "job list"
  jm_pricing :: pricing_strategy
  jm_wallet :: wallet
  jm_broadcast :: "job_broadcast list option"

definition job_manager_new :: "wallet \<Rightarrow> string \<Rightarrow> job_manager" where
  "job_manager_new w p =
     \<lparr>jm_local_peer_id = p, jm_requests = [], jm_bids = [], jm_active = [], jm_completed = [],
      jm_pricing = default_pricing_strategy, jm_wallet = w, jm_broadcast = None\<rparr>"

definition set_broadcast_tx :: "job_manager \<Rightarrow> job_manager" where
  "set_broadcast_tx m = m\<lparr>jm_broadcast := Some []\<rparr>"

definition broadcast :: "jm_env \<Rightarrow> string \<Rightarrow> u8 list \<Rightarrow> job_manager \<Rightarrow> job_manager" where
  "broadcast e topic data m =
     (case jm_broadcast m of
        None \<Rightarrow> m
      | Some q \<Rightarrow>
          if je_queue_room e
          then m\<lparr>jm_broadcast := Some (q @ [\<lparr>jbc_topic = topic, jbc_data = data\<rparr>])\<rparr> else m)"

definition broadcast_message :: "jm_env \<Rightarrow> string \<Rightarrow> job_message \<Rightarrow> job_manager \<Rightarrow> job_manager" where
  "broadcast_message e topic msg m =
     (case je_serialize e msg of None \<Rightarrow> m | Some data \<Rightarrow> broadcast e topic data m)"

definition message_peer :: "jm_env \<Rightarrow> job_manager \<Rightarrow> string" where
  "message_peer e m =
     (case je_peer_id e (jm_local_peer_id m) of None \<Rightarrow> je_random_peer e | Some p \<Rightarrow> p)"

definition set_pricing :: "pricing_strategy \<Rightarrow> job_manager \<Rightarrow> job_manager" where
  "set_pricing p m = m\<lparr>jm_pricing := p\<rparr>"

subsection \<open>The requester\<close>

definition create_request :: "jm_env \<Rightarrow> job_request \<Rightarrow> job_manager \<Rightarrow> job_id \<times> job_manager" where
  "create_request e q m =
     (let i = rq_id q;
          m = m\<lparr>jm_requests := hm_insert i q (jm_requests m), jm_bids := hm_insert i [] (jm_bids m)\<rparr>
      in (i, broadcast_message e JOB_REQUESTS (MsgRequest (request_message_new q (message_peer e m))) m))"

definition receive_bid :: "job_bid \<Rightarrow> job_manager \<Rightarrow> (unit, job_error) outcome \<times> job_manager" where
  "receive_bid b m =
     (case hm_get (jm_bids m) (bid_job_id b) of
        Some bs \<Rightarrow> (Ok (), m\<lparr>jm_bids := hm_insert (bid_job_id b) (bs @ [b]) (jm_bids m)\<rparr>)
      | None \<Rightarrow> (Err (JobNotFound (bid_job_id b)), m))"

definition get_bids :: "job_manager \<Rightarrow> job_id \<Rightarrow> job_bid list" where
  "get_bids m i = hm_get_or [] (jm_bids m) i"

datatype job_description =
    AwaitingBids job_id resource_type u64 nat u64
  | ActiveJob job_id string string
  | DoneJob job_id string bool

definition describe_job_for_tools :: "job_manager \<Rightarrow> job_id \<Rightarrow> job_description option" where
  "describe_job_for_tools m i =
     (case hm_get (jm_requests m) i of
        Some q \<Rightarrow>
          Some (AwaitingBids i (rq_resource_type q) (rq_max_budget q) (length (get_bids m i))
            (rq_timeout_secs q))
      | None \<Rightarrow>
          (case hm_get (jm_active m) i of
             Some j \<Rightarrow> Some (ActiveJob i (display_job_status (jb_status j)) (bid_bidder (jb_bid j)))
           | None \<Rightarrow>
               (case find (\<lambda>j. jb_id j = i) (rev (jm_completed m)) of
                  Some j \<Rightarrow> Some (DoneJob i (display_job_status (jb_status j)) (jb_result j \<noteq> None))
                | None \<Rightarrow> None)))"

definition accept_lookup ::
  "jm_env \<Rightarrow> job_id \<Rightarrow> bid_id \<Rightarrow> job_manager \<Rightarrow> (job_request \<times> job_bid, job_error) outcome" where
  "accept_lookup e i b m =
     (case hm_get (jm_requests m) i of
        None \<Rightarrow> Err (JobNotFound i)
      | Some q \<Rightarrow>
          (case find (\<lambda>x. bid_id_of x = b) (get_bids m i) of
             None \<Rightarrow> Err (BidNotFound b)
           | Some bid \<Rightarrow>
               if bid_is_expired (env_now e) bid then Err BidHasExpired else Ok (q, bid)))"

definition accept_commit ::
  "jm_env \<Rightarrow> job_id \<Rightarrow> bid_id \<Rightarrow> job_request \<times> job_bid \<Rightarrow> job_manager \<Rightarrow>
     (job, job_error) outcome \<times> job_manager" where
  "accept_commit e i b qb m =
     (let (q, bid) = qb in
      case create_escrow (call_env.truncate e) (bid_price bid) (bid_bidder bid) i
             (rq_timeout_secs q) (jm_wallet m) of
        (Err x, w) \<Rightarrow> (Err (JobWallet x), m\<lparr>jm_wallet := w\<rparr>)
      | (Panic, w) \<Rightarrow> (Panic, m\<lparr>jm_wallet := w\<rparr>)
      | (Ok x, w) \<Rightarrow>
          let j = job_new (env_now e) q bid (esc_id x);
              m = m\<lparr>jm_wallet := w, jm_requests := hm_remove i (jm_requests m),
                    jm_bids := hm_remove i (jm_bids m), jm_active := hm_insert i j (jm_active m)\<rparr>;
              msg = \<lparr>am_job_id = i, am_bid_id = b, am_winner_peer_id = bid_bidder bid,
                     am_escrow_id = esc_id x, am_signature = []\<rparr>
          in (Ok j, broadcast_message e JOB_STATUS (MsgBidAccepted msg) m))"

definition accept_bid ::
  "jm_env \<Rightarrow> job_id \<Rightarrow> bid_id \<Rightarrow> job_manager \<Rightarrow> (job, job_error) outcome \<times> job_manager" where
  "accept_bid e i b m =
     (case accept_lookup e i b m of
        Ok qb \<Rightarrow> accept_commit e i b qb m
      | Err x \<Rightarrow> (Err x, m)
      | Panic \<Rightarrow> (Panic, m))"

subsection \<open>The provider\<close>

definition evaluate_request :: "jm_env \<Rightarrow> job_request \<Rightarrow> job_manager \<Rightarrow> (job_bid option, job_error) outcome"
where
  "evaluate_request e q m =
     (let p = jm_pricing m; price = calculate_price p (rq_resource_type q) (rq_units q) in
      if rq_max_budget q < price then Ok None
      else
        (case job_bid_new e (rq_id q) (jm_local_peer_id m) price (ps_estimated_latency_ms p) 60 of
           None \<Rightarrow> Panic
         | Some b \<Rightarrow> Ok (Some b)))"

definition submit_bid ::
  "jm_env \<Rightarrow> job_request \<Rightarrow> job_manager \<Rightarrow> (job_bid option, job_error) outcome \<times> job_manager" where
  "submit_bid e q m =
     (case evaluate_request e q m of
        Ok (Some b) \<Rightarrow>
          (Ok (Some b), broadcast_message e JOB_BIDS (MsgBid (bid_message_new b (message_peer e m))) m)
      | r \<Rightarrow> (r, m))"

definition bid_accepted :: "job \<Rightarrow> job_manager \<Rightarrow> job_manager" where
  "bid_accepted j m = m\<lparr>jm_active := hm_insert (jb_id j) j (jm_active m)\<rparr>"

subsection \<open>Execution and settlement\<close>

definition get_job :: "job_manager \<Rightarrow> job_id \<Rightarrow> job option" where
  "get_job m i = hm_get (jm_active m) i"

definition start_job :: "timestamp \<Rightarrow> job_id \<Rightarrow> job_manager \<Rightarrow> (unit, job_error) outcome \<times> job_manager"
where
  "start_job now i m =
     (case hm_get (jm_active m) i of
        None \<Rightarrow> (Err (JobNotFound i), m)
      | Some j \<Rightarrow>
          (Ok (), m\<lparr>jm_active := hm_insert i (j\<lparr>jb_status := JobInProgress, jb_started_at := Some now\<rparr>)
                     (jm_active m)\<rparr>))"

definition submit_result ::
  "job_id \<Rightarrow> job_result \<Rightarrow> job_manager \<Rightarrow> (unit, job_error) outcome \<times> job_manager" where
  "submit_result i r m =
     (case hm_get (jm_active m) i of
        None \<Rightarrow> (Err (JobNotFound i), m)
      | Some j \<Rightarrow>
          (Ok (), m\<lparr>jm_active := hm_insert i (j\<lparr>jb_result := Some r, jb_status := JobPendingVerification\<rparr>)
                     (jm_active m)\<rparr>))"

text \<open>The wallet's part of a settlement; the result of the credit is dropped.\<close>

definition settle_payment ::
  "jm_env \<Rightarrow> job_id \<Rightarrow> escrow_id \<Rightarrow> bool \<Rightarrow> wallet \<Rightarrow> (unit, wallet_error) outcome \<times> wallet" where
  "settle_payment e i esc success w =
     (if success
      then (case release_escrow (call_env.truncate e) esc w of
              (Ok (tx, amount, _), w) \<Rightarrow>
                (Ok (), snd (credit (je_second e) amount (''job_payment:'' @ i) w))
            | (Err x, w) \<Rightarrow> (Err x, w)
            | (Panic, w) \<Rightarrow> (Panic, w))
      else (case refund_escrow (call_env.truncate e) esc w of
              (Ok tx, w) \<Rightarrow> (Ok (), w)
            | (Err x, w) \<Rightarrow> (Err x, w)
            | (Panic, w) \<Rightarrow> (Panic, w)))"

definition settle_job ::
  "jm_env \<Rightarrow> job_id \<Rightarrow> bool \<Rightarrow> job_manager \<Rightarrow> (unit, job_error) outcome \<times> job_manager" where
  "settle_job e i success m =
     (case hm_get (jm_active m) i of
        None \<Rightarrow> (Err (JobNotFound i), m)
      | Some j \<Rightarrow>
          let m = m\<lparr>jm_active := hm_remove i (jm_active m)\<rparr> in
          case settle_payment e i (jb_escrow_id j) success (jm_wallet m) of
            (Ok _, w) \<Rightarrow>
              let j = j\<lparr>jb_status := (if success then JobCompleted else JobFailed),
                        jb_completed_at := Some (env_now e)\<rparr>
              in (Ok (), m\<lparr>jm_wallet := w, jm_completed := keep_last 100 (jm_completed m @ [j])\<rparr>)
          | (Err x, w) \<Rightarrow> (Err (JobWallet x), m\<lparr>jm_wallet := w\<rparr>)
          | (Panic, w) \<Rightarrow> (Panic, m\<lparr>jm_wallet := w\<rparr>))"

definition active_job_list :: "job_manager \<Rightarrow> job list" where
  "active_job_list m = map snd (jm_active m)"

definition recent_completed :: "job_manager \<Rightarrow> nat \<Rightarrow> job list" where
  "recent_completed m limit = drop (length (jm_completed m) - limit) (jm_completed m)"

definition pending_requests :: "job_manager \<Rightarrow> job_request list" where
  "pending_requests m = map snd (jm_requests m)"

definition bids_count :: "job_manager \<Rightarrow> job_id \<Rightarrow> nat" where
  "bids_count m i = length (get_bids m i)"

end
