(* ===== verification/Job_Correct.thy ===== *)
theory Job_Correct
  imports Job_Manager Wallet_Props
begin

section \<open>Correctness of the job manager\<close>

text \<open>
  The interpretation of the paying interface on the wallet, what each wallet call does to the
  escrows that are held, and the invariant of the job manager: the escrow of every active job
  holds exactly the price of its bid, and no two jobs share one.
\<close>

subsection \<open>The wallet as a paying provider\<close>

interpretation wallet_pay: paying_provider
  "\<lambda>w. wallet_inv (w_state w)" wallet_ready "\<lambda>w. unat (available (w_state w))" held_by
  esc_id create_escrow release_escrow refund_escrow "\<lambda>e. env_store_error e = None"
  "\<lambda>w. token_supply (w_state w)" credit
proof unfold_locales
  fix w :: wallet and e :: call_env and a :: u64 and r
  assume h: "wallet_inv (w_state w)" "env_store_error e = None" "a \<noteq> 0"
    "token_supply (w_state w) + unat a < 2 ^ 64"
  note c = credit_effect [OF h(4,3), of e r]
  have "\<exists>tx. fst (credit e a r w) = Ok tx" using h(2,3) by (simp add: credit_def Let_def finish_eq)
  then obtain tx where "fst (credit e a r w) = Ok tx" ..
  moreover have "held_by (snd (credit e a r w)) = held_by w" using c(4) by (simp add: held_by_def fun_eq_iff)
  ultimately show "\<exists>tx w'. credit e a r w = (Ok tx, w') \<and> wallet_inv (w_state w') \<and>
      held_by w' = held_by w \<and> unat (available (w_state w')) = unat (available (w_state w)) + unat a"
    using c(1) credit_inv [OF h(1,4), of e r]
    by (intro exI [of _ tx] exI [of _ "snd (credit e a r w)"]) (simp add: prod_eq_iff)
next
  fix w i n e y w'
  assume inv: "wallet_inv (w_state w)" and h: "held_by w i = Some n"
    and ok: "release_escrow e i w = (Ok y, w')"
  from h obtain x where x: "hm_get (escrows (w_state w)) i = Some x" "esc_status x = Active"
    "n = unat (esc_amount x)"
    by (auto simp: held_by_Some)
  show "token_supply (w_state w') + n = token_supply (w_state w)"
    using release_effect [OF inv x(1,2), of e] ok x(3) by (simp add: token_supply_def)
next
  fix w
  assume "wallet_inv (w_state w)"
  then show "token_supply (w_state w) < 2 ^ 64" by (simp add: wallet_inv_def)
qed

subsection \<open>Held escrows under the wallet's operations, failures included\<close>

lemma held_release:
  assumes "wallet_inv (w_state w)"
  shows "held_by (snd (release_escrow e i w)) = (held_by w)(i := None)"
proof (cases "held_by w i")
  case (Some n)
  then obtain x where x: "hm_get (escrows (w_state w)) i = Some x" "esc_status x = Active"
    by (auto simp: held_by_Some)
  from held_by_update [OF release_effect(4) [OF assms x, of e]] show ?thesis by simp
next
  case None
  with wallet_escrow.release_not_held [OF None, of e] show ?thesis by (auto simp: fun_eq_iff)
qed

lemma held_refund:
  assumes "wallet_inv (w_state w)"
  shows "held_by (snd (refund_escrow e i w)) = (held_by w)(i := None)"
proof (cases "held_by w i")
  case (Some n)
  then obtain x where x: "hm_get (escrows (w_state w)) i = Some x" "esc_status x = Active"
    by (auto simp: held_by_Some)
  from held_by_update [OF refund_effect(4) [OF assms x, of e]] show ?thesis by simp
next
  case None
  with wallet_escrow.refund_not_held [OF None, of e] show ?thesis by (auto simp: fun_eq_iff)
qed

lemma held_credit [simp]: "held_by (snd (credit e a r w)) = held_by w"
  by (auto simp: credit_def held_by_def Let_def fun_eq_iff)

lemma held_create:
  assumes "wallet_inv (w_state w)" and "hm_get (escrows (w_state w)) (env_escrow_id e) = None"
    and "env_add_secs e (env_now e) t \<noteq> None"
  shows "k \<noteq> env_escrow_id e \<Longrightarrow> held_by (snd (create_escrow e a r j t w)) k = held_by w k"
    and "wallet_inv (w_state (snd (create_escrow e a r j t w)))"
proof -
  show "wallet_inv (w_state (snd (create_escrow e a r j t w)))"
    using create_escrow_commit_inv [OF assms(1-3)] assms(1)
    by (auto simp: create_escrow_def split: outcome.splits)
  assume k: "k \<noteq> env_escrow_id e"
  have "held_by (snd (create_escrow_commit e a r j t w)) k = held_by w k"
  proof (cases "effective_available w < a")
    case False
    from assms(3) obtain x where x: "escrow_new e a r j t = Some x" by (auto simp: escrow_new_def)
    from held_by_update [OF create_effect(4) [OF assms(1) False x]] k escrow_new_fields [OF x]
    show ?thesis by simp
  qed simp
  then show "held_by (snd (create_escrow e a r j t w)) k = held_by w k"
    by (auto simp: create_escrow_def split: outcome.splits)
qed

lemma settle_payment_held:
  assumes "wallet_inv (w_state w)" and "held_by w esc = Some n"
  shows "held_by (snd (settle_payment e i esc success w)) = (held_by w)(esc := None)"
    and "wallet_inv (w_state (snd (settle_payment e i esc success w)))"
proof -
  let ?r = "release_escrow (call_env.truncate e) esc w"
  show "held_by (snd (settle_payment e i esc success w)) = (held_by w)(esc := None)"
    using held_release [OF assms(1), of "call_env.truncate e" esc]
      held_refund [OF assms(1), of "call_env.truncate e" esc]
    by (auto simp: settle_payment_def split: prod.splits outcome.splits)
  have "wallet_inv (w_state (snd (credit (je_second e) amount r w1)))"
    if "?r = (Ok (tx, amount, rc), w1)" for tx amount rc r w1
  proof (rule credit_inv)
    show "wallet_inv (w_state w1)"
      using release_escrow_inv [OF assms(1), of "call_env.truncate e" esc] that by simp
    from assms(2) obtain x where "hm_get (escrows (w_state w)) esc = Some x" "esc_status x = Active"
      "n = unat (esc_amount x)"
      by (auto simp: held_by_Some)
    with that have "n = unat amount"
      by (auto simp: release_escrow_def Let_def finish_eq split: option.splits)
    with wallet_pay.release_supply [OF assms that] wallet_pay.supply_bound [OF assms(1)]
    show "token_supply (w_state w1) + unat amount < 2 ^ 64" by simp
  qed
  then show "wallet_inv (w_state (snd (settle_payment e i esc success w)))"
    using release_escrow_inv [OF assms(1), of "call_env.truncate e" esc]
      refund_escrow_inv [OF assms(1), of "call_env.truncate e" esc]
    by (auto simp: settle_payment_def split: prod.splits outcome.splits)
qed

subsection \<open>Broadcasts change only the queue\<close>

lemma broadcast_frame [simp]:
  "jm_active (broadcast_message e topic msg m) = jm_active m"
  "jm_wallet (broadcast_message e topic msg m) = jm_wallet m"
  "jm_requests (broadcast_message e topic msg m) = jm_requests m"
  "jm_bids (broadcast_message e topic msg m) = jm_bids m"
  "jm_completed (broadcast_message e topic msg m) = jm_completed m"
  "jm_pricing (broadcast_message e topic msg m) = jm_pricing m"
  by (simp_all add: broadcast_message_def broadcast_def split: option.splits)

subsection \<open>The invariant\<close>

definition job_inv :: "job_manager \<Rightarrow> bool" where
  "job_inv m \<longleftrightarrow>
     wallet_inv (w_state (jm_wallet m)) \<and>
     (\<forall>i j. hm_get (jm_active m) i = Some j \<longrightarrow>
        held_by (jm_wallet m) (jb_escrow_id j) = Some (unat (bid_price (jb_bid j)))) \<and>
     (\<forall>i j i' j'. hm_get (jm_active m) i = Some j \<and> hm_get (jm_active m) i' = Some j' \<and>
        jb_escrow_id j = jb_escrow_id j' \<longrightarrow> i = i')"

lemma job_invD:
  assumes "job_inv m"
  shows "wallet_inv (w_state (jm_wallet m))"
    and "hm_get (jm_active m) i = Some j \<Longrightarrow>
      held_by (jm_wallet m) (jb_escrow_id j) = Some (unat (bid_price (jb_bid j)))"
    and "hm_get (jm_active m) i = Some j \<Longrightarrow> hm_get (jm_active m) i' = Some j' \<Longrightarrow>
      jb_escrow_id j = jb_escrow_id j' \<Longrightarrow> i = i'"
  using assms by (auto simp: job_inv_def)

text \<open>Changing an active job in place, without its bid and escrow, keeps the invariant.\<close>

lemma job_inv_update:
  assumes "job_inv m" and "hm_get (jm_active m) i = Some j"
    and "jb_escrow_id j' = jb_escrow_id j" and "jb_bid j' = jb_bid j"
  shows "job_inv (m\<lparr>jm_active := hm_insert i j' (jm_active m)\<rparr>)"
  using assms unfolding job_inv_def by (auto split: if_splits)

lemma job_inv_cong:
  assumes "job_inv m" and "jm_active m' = jm_active m" and "jm_wallet m' = jm_wallet m"
  shows "job_inv m'"
  using assms(1) unfolding job_inv_def assms(2,3) .

lemma accept_commit_inv:
  assumes inv: "job_inv m" and fresh: "hm_get (escrows (w_state (jm_wallet m))) (env_escrow_id e) = None"
    and add: "env_add_secs e (env_now e) (rq_timeout_secs q) \<noteq> None"
  shows "job_inv (snd (accept_commit e i b (q, bid) m))"
proof -
  let ?e = "call_env.truncate e"
  let ?r = "create_escrow ?e (bid_price bid) (bid_bidder bid) i (rq_timeout_secs q) (jm_wallet m)"
  have f: "env_escrow_id ?e = env_escrow_id e" "env_add_secs ?e = env_add_secs e"
    "env_now ?e = env_now e"
    by (simp_all add: call_env.truncate_def)
  have nh: "held_by (jm_wallet m) (env_escrow_id e) = None" using fresh by (simp add: held_by_def)
  have ne: "jb_escrow_id j \<noteq> env_escrow_id e" if "hm_get (jm_active m) k = Some j" for k j
    using job_invD(2) [OF inv that] nh by auto
  have old: "held_by (snd ?r) (jb_escrow_id j) = Some (unat (bid_price (jb_bid j)))"
    if "hm_get (jm_active m) k = Some j" for k j
    using held_create(1) [of "jm_wallet m" ?e] job_invD(1,2) [OF inv] that ne [OF that] fresh add f
    by simp
  have w: "wallet_inv (w_state (snd ?r))"
    using held_create(2) [OF job_invD(1) [OF inv], of ?e "rq_timeout_secs q"] fresh add f by simp
  show ?thesis
  proof (cases "fst ?r")
    case (Ok x)
    then have ok: "?r = (Ok x, snd ?r)" by (simp add: prod_eq_iff)
    note o = create_escrow_Ok [OF ok]
    note g = escrow_new_fields [OF o(2)]
    have "held_by (snd ?r) = (held_by (jm_wallet m))(esc_id x \<mapsto> unat (bid_price bid))"
      using held_by_update [OF create_effect(4) [OF job_invD(1) [OF inv] o(1,2)]] g o(3) by simp
    moreover have "esc_id x \<noteq> jb_escrow_id j'" "jb_escrow_id j' \<noteq> esc_id x"
      if "hm_get (jm_active m) k = Some j'" for k j'
      using ne [OF that] g f by simp_all
    ultimately show ?thesis
      using ok old w g job_invD(3) [OF inv]
      by (auto simp: accept_commit_def Let_def job_inv_def job_new_def split: if_splits prod.splits)
  next
    case (Err x)
    then have "?r = (Err x, snd ?r)" by (simp add: prod_eq_iff)
    with old w inv show ?thesis
      by (auto simp: accept_commit_def job_inv_def split: prod.splits)
  next
    case Panic
    then have "?r = (Panic, snd ?r)" by (simp add: prod_eq_iff)
    with old w inv show ?thesis
      by (auto simp: accept_commit_def job_inv_def split: prod.splits)
  qed
qed

lemma settle_job_frame:
  assumes "hm_get (jm_active m) i = Some j"
  shows "jm_active (snd (settle_job e i success m)) = hm_remove i (jm_active m)"
    and "jm_wallet (snd (settle_job e i success m)) =
      snd (settle_payment e i (jb_escrow_id j) success (jm_wallet m))"
  using assms
  by (simp_all add: settle_job_def Let_def case_prod_beta' split: prod.split outcome.split)

lemma settle_job_inv:
  assumes "job_inv m"
  shows "job_inv (snd (settle_job e i success m))"
proof (cases "hm_get (jm_active m) i")
  case (Some j)
  let ?r = "settle_payment e i (jb_escrow_id j) success (jm_wallet m)"
  note s = settle_payment_held [OF job_invD(1) [OF assms] job_invD(2) [OF assms Some], of e i success]
  have "job_inv (m\<lparr>jm_active := hm_remove i (jm_active m), jm_wallet := snd ?r\<rparr>)"
    using assms s job_invD(3) [OF assms Some]
    unfolding job_inv_def by (auto split: if_splits)
  then show ?thesis by (rule job_inv_cong) (simp_all add: settle_job_frame [OF Some])
qed (use assms in \<open>simp add: settle_job_def\<close>)

lemma job_manager_new_inv: "wallet_inv (w_state w) \<Longrightarrow> job_inv (job_manager_new w p)"
  by (simp add: job_manager_new_def job_inv_def)

end
