(* ===== verification/Job_Props.thy ===== *)
theory Job_Props
  imports Job_Correct
begin

section \<open>Properties of pricing, bids and jobs\<close>

subsection \<open>Choosing a bid\<close>

lemma fold_max_by:
  assumes "\<And>a b. a \<in> S \<Longrightarrow> b \<in> S \<Longrightarrow> (cmp a b = (1::int)) \<longleftrightarrow> \<not> le a b"
    and "\<And>a b. a \<in> S \<Longrightarrow> b \<in> S \<Longrightarrow> le a b \<or> le b a"
    and "\<And>a b c. le a b \<Longrightarrow> le b c \<Longrightarrow> le a c"
    and "x \<in> S" and "set xs \<subseteq> S"
  defines "b \<equiv> fold (\<lambda>y best. if cmp best y = 1 then best else y) xs x"
  shows "b \<in> insert x (set xs) \<and> (\<forall>y \<in> insert x (set xs). le y b)"
  unfolding b_def using assms(4,5)
proof (induction xs arbitrary: x)
  case Nil
  then show ?case using assms(2) [of x x] by simp
next
  case (Cons y xs)
  let ?z = "if cmp x y = 1 then x else y"
  have z: "?z \<in> S" "set xs \<subseteq> S" "le x ?z" "le y ?z"
    using Cons.prems assms(1) [of x y] assms(2) [of x y] assms(2) [of x x] assms(2) [of y y]
    by auto
  from Cons.IH [OF z(1,2)] z(3,4) show ?case by (auto intro: assms(3))
qed

lemma compare_scores_le:
  assumes "bid_score mx a \<noteq> NaN" and "bid_score mx b \<noteq> NaN"
  shows "compare_scores mx a b = 1 \<longleftrightarrow> \<not> f_le (bid_score mx a) (bid_score mx b)"
  using assms f_cmp_None [of "bid_score mx a" "bid_score mx b"]
    f_cmp_range [of "bid_score mx a" "bid_score mx b"]
  by (auto simp: compare_scores_def f_le_def split: option.splits)

lemma max_by_snoc:
  "max_by cmp (xs @ [y]) =
     (case max_by cmp xs of None \<Rightarrow> Some y | Some b \<Rightarrow> Some (if cmp b y = 1 then b else y))"
  by (cases xs) simp_all

lemma f_NaN [simp]:
  "f_add NaN a = NaN" "f_mul NaN a = NaN" "f_cmp a NaN = None"
  by (cases a; simp)+

lemma bid_score_NaN: "bid_reputation b = NaN \<Longrightarrow> bid_score mx b = NaN"
  by (simp add: bid_score_def split: option.split)

definition demo_bid :: "string \<Rightarrow> u64 \<Rightarrow> u32 \<Rightarrow> f64 \<Rightarrow> job_bid" where
  "demo_bid i price latency rep =
     \<lparr>bid_id_of = i, bid_job_id = ''j1'', bid_bidder = ''bob'', bid_price = price,
      bid_latency_ms = latency, bid_created_at = 0, bid_expires_at = 60000000000,
      bid_status_of = BidPending, bid_reputation = rep, bid_message = None\<rparr>"

text \<open>C13: The bid that is chosen is one of the valid bids within the latency limit, and none of these
  has a higher score, provided that no score is a NaN; nothing is chosen only if there is no such
  bid.\<close>

theorem best_bid_selected:
  assumes "\<And>b. b \<in> set bids \<Longrightarrow> acceptable now mx b \<Longrightarrow> bid_score mx b \<noteq> NaN"
  shows "case select_best_bid now mx bids of
      None \<Rightarrow> \<forall>b \<in> set bids. \<not> acceptable now mx b
    | Some b \<Rightarrow> b \<in> set bids \<and> acceptable now mx b \<and>
        (\<forall>x \<in> set bids. acceptable now mx x \<longrightarrow> f_le (bid_score mx x) (bid_score mx b))"
proof (cases "filter (acceptable now mx) bids")
  case Nil
  then show ?thesis by (simp add: select_best_bid_def filter_empty_conv)
next
  case (Cons x xs)
  let ?S = "set (filter (acceptable now mx) bids)"
  let ?b = "fold (\<lambda>y best. if compare_scores mx best y = 1 then best else y) xs x"
  have in_S: "insert x (set xs) = ?S" using Cons by simp
  have num: "a \<in> ?S \<Longrightarrow> bid_score mx a \<noteq> NaN" for a using assms by simp
  have best: "?b \<in> insert x (set xs) \<and> (\<forall>y \<in> insert x (set xs). f_le (bid_score mx y) (bid_score mx ?b))"
  proof (rule fold_max_by [where S = ?S and cmp = "compare_scores mx"
        and le = "\<lambda>a b. f_le (bid_score mx a) (bid_score mx b)" and x = x and xs = xs])
    fix a b
    assume ab: "a \<in> ?S" "b \<in> ?S"
    show "(compare_scores mx a b = 1) = (\<not> f_le (bid_score mx a) (bid_score mx b))"
      by (rule compare_scores_le [OF num [OF ab(1)] num [OF ab(2)]])
    show "f_le (bid_score mx a) (bid_score mx b) \<or> f_le (bid_score mx b) (bid_score mx a)"
      by (rule f_le_total [OF num [OF ab(1)] num [OF ab(2)]])
  next
    fix a b c
    assume "f_le (bid_score mx a) (bid_score mx b)" "f_le (bid_score mx b) (bid_score mx c)"
    then show "f_le (bid_score mx a) (bid_score mx c)" by (rule f_le_trans)
  qed (use in_S in blast)+
  have mem: "y \<in> insert x (set xs) \<longleftrightarrow> y \<in> set bids \<and> acceptable now mx y" for y
    unfolding in_S by simp
  have sel: "select_best_bid now mx bids = Some ?b" using Cons by (simp add: select_best_bid_def)
  show ?thesis unfolding sel option.case using best mem by blast
qed

theorem best_bid_selected_witness:
  "select_best_bid 0 None [demo_bid ''b1'' 5000000 100 (f_lit 1 2), demo_bid ''b2'' 1000000 100 (f_lit 1 2)] =
     Some (demo_bid ''b2'' 1000000 100 (f_lit 1 2)) \<and>
   f_le (bid_score None (demo_bid ''b1'' 5000000 100 (f_lit 1 2)))
     (bid_score None (demo_bid ''b2'' 1000000 100 (f_lit 1 2)))"
proof -
  let ?bs = "[demo_bid ''b1'' 5000000 100 (f_lit 1 2), demo_bid ''b2'' 1000000 100 (f_lit 1 2)]"
  have s: "select_best_bid 0 None ?bs = Some (demo_bid ''b2'' 1000000 100 (f_lit 1 2))"
    by code_simp
  have "bid_score None (demo_bid ''b1'' 5000000 100 (f_lit 1 2)) \<noteq> NaN"
    "bid_score None (demo_bid ''b2'' 1000000 100 (f_lit 1 2)) \<noteq> NaN"
    "acceptable 0 None (demo_bid ''b1'' 5000000 100 (f_lit 1 2))"
    by code_simp+
  with best_bid_selected [of ?bs 0 None] s show ?thesis by auto
qed

text \<open>A bid whose reputation is a NaN, a number the sender of the bid chooses, wins against all
  earlier bids, whatever its price: its score does not compare, which counts as equal, and among
  equals the last one is taken.\<close>

theorem nan_bid_wins:
  assumes "acceptable now mx b" and "bid_reputation b = NaN"
  shows "select_best_bid now mx (bids @ [b]) = Some b"
  using assms bid_score_NaN [OF assms(2), of mx]
  by (simp add: select_best_bid_def max_by_snoc compare_scores_def split: option.split)

theorem nan_bid_wins_witness:
  "select_best_bid 0 None [demo_bid ''b1'' 1 1 (f_of_int 1), demo_bid ''b2'' (- 1) (- 1) NaN] =
     Some (demo_bid ''b2'' (- 1) (- 1) NaN)"
  using nan_bid_wins [of 0 None "demo_bid ''b2'' (- 1) (- 1) NaN" "[demo_bid ''b1'' 1 1 (f_of_int 1)]"]
  by (simp add: acceptable_def bid_is_valid_def bid_is_expired_def demo_bid_def)

subsection \<open>Prices\<close>

lemma strip2_number: "strip2 m e \<noteq> NaN"
  by (induction m e rule: strip2.induct) (subst strip2.simps, simp)

lemma f_round_number [simp]: "f_round m e \<noteq> NaN"
  by (simp add: f_round_def fp_round_def Let_def strip2_number)

lemma default_rates:
  "default_resource_pricing =
     \<lparr>inference_small_per_1k = 500000, inference_medium_per_1k = 2000000,
      inference_large_per_1k = 5000000, embedding_per_1k = 200000, image_per_image = 3000000,
      cpu_per_core_hour = 2000000, gpu_consumer_per_hour = 15000000,
      gpu_datacenter_per_hour = 40000000, storage_read_per_mb = 5000, storage_write_per_mb = 10000,
      web_fetch_per_request = 100000, vector_search_per_query = 50000, wasm_per_invocation = 20000\<rparr>"
  by code_simp

lemma unat_mult_u32:
  fixes r :: u64 and n :: u32
  assumes "unat r \<le> 5000000"
  shows "unat (r * ucast n) = unat r * unat n"
proof -
  have n: "unat n < 2 ^ 32" using unsigned_less [of n, where 'a = nat] by simp
  then have u: "unat (ucast n :: u64) = unat n"
    by (simp add: unsigned_ucast_eq take_bit_nat_eq_self)
  have "unat r * unat n \<le> 5000000 * 2 ^ 32"
    using mult_le_mono [OF assms less_imp_le [OF n]] by simp
  then have "unat r * unat (ucast n :: u64) < 2 ^ LENGTH(64)" by (simp add: u)
  then show ?thesis by (subst unat_mult_lem [THEN iffD1]) (simp_all add: u)
qed

lemma multiplier_step:
  assumes "target_utilization s = Fin m e" and "utilization_multiplier s = Fin m' e'" and "u \<noteq> NaN"
  shows "f_le (f_lit 5 10) (utilization_multiplier (update_utilization u s)) \<and>
    f_le (utilization_multiplier (update_utilization u s)) (f_of_int 3)"
proof -
  have l: "f_lit 2 10 = Fin 3602879701896397 (- 54)" by code_simp
  have "f_sub u (Fin m e) \<noteq> NaN" using assms(3) by (cases u) (simp_all add: f_sub_def Let_def)
  then have "f_mul (f_sub u (Fin m e)) (f_lit 2 10) \<noteq> NaN"
    unfolding l by (cases "f_sub u (Fin m e)") simp_all
  then have n: "f_add (Fin m' e') (f_mul (f_sub u (Fin m e)) (f_lit 2 10)) \<noteq> NaN"
    by (cases "f_mul (f_sub u (Fin m e)) (f_lit 2 10)") (simp_all add: Let_def)
  have "f_le (f_lit 5 10) (f_of_int 3)" by code_simp
  from f_clamp_bounds [OF n this] show ?thesis
    by (simp add: update_utilization_def assms(1,2) Let_def)
qed

lemma between_finite: "f_le (f_lit 5 10) x \<Longrightarrow> f_le x (f_of_int 3) \<Longrightarrow> \<exists>m e. x = Fin m e"
proof -
  assume h: "f_le (f_lit 5 10) x" "f_le x (f_of_int 3)"
  have "f_lit 5 10 = Fin 1 (- 1)" "f_of_int 3 = Fin 3 0" by code_simp+
  with h show ?thesis by (cases x) (simp_all add: f_le_Inf)
qed

text \<open>Whatever loads are reported, infinite ones included and the NaN excluded, the utilization
  multiplier of a strategy that starts between 0.5 and 3 stays between 0.5 and 3.\<close>

theorem multiplier_stays_clamped:
  assumes "target_utilization s = Fin m e" and "NaN \<notin> set us"
    and "f_le (f_lit 5 10) (utilization_multiplier s)" and "f_le (utilization_multiplier s) (f_of_int 3)"
  shows "f_le (f_lit 5 10) (utilization_multiplier (fold update_utilization us s)) \<and>
    f_le (utilization_multiplier (fold update_utilization us s)) (f_of_int 3)"
  using assms
proof (induction us arbitrary: s)
  case (Cons u us)
  from between_finite [OF Cons.prems(3,4)] obtain m' e' where "utilization_multiplier s = Fin m' e'"
    by blast
  from multiplier_step [OF Cons.prems(1) this, of u] Cons.prems(2)
  have b: "f_le (f_lit 5 10) (utilization_multiplier (update_utilization u s))"
    "f_le (utilization_multiplier (update_utilization u s)) (f_of_int 3)"
    by auto
  have "target_utilization (update_utilization u s) = Fin m e"
    using Cons.prems(1) by (simp add: update_utilization_def Let_def)
  from Cons.IH [OF this _ b] Cons.prems(2) show ?case by simp
qed simp

theorem multiplier_stays_clamped_witness:
  "f_le (utilization_multiplier (fold update_utilization (replicate 30 (f_of_int 1) @ [Inf False])
     default_pricing_strategy)) (f_of_int 3)"
proof -
  have "f_le (f_lit 5 10) (utilization_multiplier default_pricing_strategy)"
    "f_le (utilization_multiplier default_pricing_strategy) (f_of_int 3)"
    "target_utilization default_pricing_strategy = Fin 3152519739159347 (- 52)"
    "NaN \<notin> set (replicate 30 (f_of_int 1) @ [Inf False])"
    by code_simp+
  from multiplier_stays_clamped [OF this(3,4,1,2)] show ?thesis by blast
qed

text \<open>With the default rates no integer price wraps: each is the exact product of the rate and
  the number of units, by the thousand and rounded down for tokens.\<close>

theorem default_prices_exact:
  "unat (price_calculate default_resource_pricing (Inference model n)) =
      unat (get_inference_rate default_resource_pricing model) * unat n div 1000 \<and>
    unat (price_calculate default_resource_pricing (Embedding model n)) = 200000 * unat n div 1000 \<and>
    unat (price_calculate default_resource_pricing (ImageGeneration model n)) = 3000000 * unat n \<and>
    unat (price_calculate default_resource_pricing (WebFetch n)) = 100000 * unat n \<and>
    unat (price_calculate default_resource_pricing (VectorSearch n)) = 50000 * unat n \<and>
    unat (price_calculate default_resource_pricing (WasmTool tool n)) = 20000 * unat n"
proof -
  have "unat (get_inference_rate default_resource_pricing model) \<le> 5000000"
    by (simp add: get_inference_rate_def default_rates Let_def)
  note inf = unat_mult_u32 [OF this, of n]
  have m: "unat ((200000 :: u64) * ucast n) = 200000 * unat n"
    "unat ((3000000 :: u64) * ucast n) = 3000000 * unat n"
    "unat ((100000 :: u64) * ucast n) = 100000 * unat n"
    "unat ((50000 :: u64) * ucast n) = 50000 * unat n"
    "unat ((20000 :: u64) * ucast n) = 20000 * unat n"
    by (simp_all add: unat_mult_u32)
  show ?thesis
    using inf m by (simp add: unat_div_distrib) (simp add: default_rates unat_div_distrib)
qed

end
