(* ===== verification/Job_Life_Props.thy ===== *)
theory Job_Life_Props
  imports Job_Correct
begin

section \<open>Properties of the life of a job\<close>

text \<open>
  From the acceptance of a bid to the settlement: what is locked, what is paid and to whom, and
  what goes wrong when two acceptances overlap or the escrow has expired.
\<close>

subsection \<open>Concrete inputs for the witnesses\<close>

definition demo_jm_env :: "timestamp \<Rightarrow> string \<Rightarrow> jm_env" where
  "demo_jm_env t i =
     \<lparr>env_now = t, env_tx_id = ''tx_1'', env_sweep_tx_id = (\<lambda>j. ''tx_s'' @ j), env_escrow_id = i,
      env_store_error = None, env_add_secs = demo_add, je_uuid = ''a-1'', je_peer_id = Some,
      je_random_peer = ''rnd'', je_serialize = (\<lambda>_. None), je_queue_room = True,
      je_second = demo_env t ''unused''\<rparr>"

definition job_request_demo :: job_request where
  "job_request_demo =
     \<lparr>rq_id = ''j1'', rq_resource_type = WebFetch 1, rq_units = 1, rq_max_budget = 100,
      rq_requirements = default_job_requirements, rq_timeout_secs = 300, rq_created_at = 0,
      rq_expires_at = 60000000000, rq_requester_id = ''me'', rq_payload = None\<rparr>"

definition job_bid_demo :: "string \<Rightarrow> u64 \<Rightarrow> job_bid" where
  "job_bid_demo i price =
     \<lparr>bid_id_of = i, bid_job_id = ''j1'', bid_bidder = ''bob'', bid_price = price,
      bid_latency_ms = 5, bid_created_at = 0, bid_expires_at = 60000000000,
      bid_status_of = BidPending, bid_reputation = Fin 1 (- 1), bid_message = None\<rparr>"

definition demo_jobs :: job_manager where
  "demo_jobs =
     (job_manager_new demo_wallet ''me'')
       \<lparr>jm_requests := [(''j1'', job_request_demo)],
        jm_bids := [(''j1'', [job_bid_demo ''b1'' 70, job_bid_demo ''b2'' 90])]\<rparr>"

lemma demo_jobs_inv: "job_inv demo_jobs"
  using demo_wallet_inv by (simp add: demo_jobs_def job_manager_new_def job_inv_def)

lemma demo_spending: "check_spending_limits (demo_env 0 i) 70 demo_wallet = Ok ()"
  by (simp add: check_spending_limits_def demo_wallet_def demo_env_def Let_def hm_get_or_def
      default_wallet_config_def MICRO_PCLAW_def hour_key_def now_secs_def day_key_def)

lemma demo_jm_truncate: "call_env.truncate (demo_jm_env t i) = demo_env t i"
  by (simp add: call_env.truncate_def demo_jm_env_def demo_env_def)

lemma demo_create:
  assumes "i \<noteq> ''e1''" and "available (w_state w) = 1000000000 \<or> available (w_state w) = 999999930"
    and "w_config w = default_wallet_config" and "hourly_spend (w_state w) = [(5, 450000000)]"
    and "daily_spend (w_state w) = []" and "p \<in> {70, 90}"
  shows "\<exists>x. create_escrow (demo_env 0 i) p ''bob'' ''j1'' 300 w =
      (Ok x, snd (create_escrow (demo_env 0 i) p ''bob'' ''j1'' 300 w)) \<and> esc_id x = i \<and>
    escrows (w_state (snd (create_escrow (demo_env 0 i) p ''bob'' ''j1'' 300 w))) =
      hm_insert i x (escrows (w_state w)) \<and>
    available (w_state (snd (create_escrow (demo_env 0 i) p ''bob'' ''j1'' 300 w))) =
      available (w_state w) - p \<and>
    w_config (snd (create_escrow (demo_env 0 i) p ''bob'' ''j1'' 300 w)) = w_config w \<and>
    hourly_spend (w_state (snd (create_escrow (demo_env 0 i) p ''bob'' ''j1'' 300 w))) =
      hourly_spend (w_state w) \<and>
    daily_spend (w_state (snd (create_escrow (demo_env 0 i) p ''bob'' ''j1'' 300 w))) =
      daily_spend (w_state w)"
proof -
  have "check_spending_limits (demo_env 0 i) p w = Ok ()"
    using assms(3-6)
    by (auto simp: check_spending_limits_def demo_env_def Let_def hm_get_or_def
        default_wallet_config_def MICRO_PCLAW_def hour_key_def now_secs_def day_key_def)
  then show ?thesis
    using assms
    by (auto simp: create_escrow_def create_escrow_commit_def effective_available_def Let_def
        sat_sub_def default_wallet_config_def MICRO_PCLAW_def escrow_new_def demo_env_def
        demo_add_def finish_eq)
qed

subsection \<open>Acceptance and settlement\<close>

lemma accept_commit_Ok:
  assumes "accept_commit e i b (q, bid) m = (Ok j, m')"
  shows "\<exists>x. create_escrow (call_env.truncate e) (bid_price bid) (bid_bidder bid) i
      (rq_timeout_secs q) (jm_wallet m) = (Ok x, jm_wallet m') \<and> j = job_new (env_now e) q bid (esc_id x) \<and>
    jm_active m' = hm_insert i j (jm_active m) \<and> jm_completed m' = jm_completed m \<and>
    jm_requests m' = hm_remove i (jm_requests m)"
  using assms
  by (auto simp: accept_commit_def Let_def split: prod.splits outcome.splits)

lemma accept_commit_run:
  assumes "create_escrow (call_env.truncate e) (bid_price bid) (bid_bidder bid) i
      (rq_timeout_secs q) (jm_wallet m) = (Ok x, w)"
  shows "\<exists>m'. accept_commit e i b (q, bid) m = (Ok (job_new (env_now e) q bid (esc_id x)), m') \<and>
    jm_wallet m' = w"
  using assms by (simp add: accept_commit_def Let_def)

lemma demo_fields [simp]:
  "bid_price (job_bid_demo i p) = p" "bid_bidder (job_bid_demo i p) = ''bob''"
  "rq_timeout_secs job_request_demo = 300" "jm_wallet demo_jobs = demo_wallet"
  by (simp_all add: job_bid_demo_def job_request_demo_def demo_jobs_def job_manager_new_def)

lemma job_new_simps [simp]:
  "jb_escrow_id (job_new t q b i) = i" "jb_bid (job_new t q b i) = b"
  "jb_request (job_new t q b i) = q" "jb_result (job_new t q b i) = None"
  by (simp_all add: job_new_def)

lemma settle_payment_Ok:
  assumes "wallet_inv (w_state w)" and "wallet_ready (call_env.truncate e) t w"
    and "held_by w esc = Some n" and "0 < n" and "env_store_error (je_second e) = None"
  shows "\<exists>w'. settle_payment e i esc success w = (Ok (), w') \<and> wallet_inv (w_state w') \<and>
    held_by w' = (held_by w)(esc := None) \<and>
    unat (available (w_state w')) = unat (available (w_state w)) + n"
proof (cases success)
  case True
  with wallet_pay.release_then_pay_in [OF assms, of "''job_payment:'' @ i"] show ?thesis
    by (auto simp: settle_payment_def)
next
  case False
  with wallet_escrow.refund_held [OF assms(1-3)] show ?thesis by (auto simp: settle_payment_def)
qed

subsection \<open>Runs of a manager\<close>

text \<open>
  A run is any list of operations of the manager and of the other users of its wallet, with their
  arguments and their readings of the outside world. An acceptance is split at the point where it
  gives the locks up: \<open>JAccept\<close> commits a request and a bid that were looked up at some time before.
  \<open>JDelivered\<close> is \<open>bid_accepted\<close>, which makes a job active whose escrow somebody else names.
\<close>

datatype job_op =
    JRequest jm_env job_request
  | JBid job_bid
  | JSubmit jm_env job_request
  | JAccept jm_env job_id bid_id "job_request \<times> job_bid"
  | JDelivered job
  | JStart timestamp job_id
  | JResult job_id job_result
  | JSettle jm_env job_id bool
  | JPricing pricing_strategy
  | JWallet wallet_op

fun job_call :: "job_op \<Rightarrow> job_manager \<Rightarrow> job_manager" where
  "job_call (JRequest e q) m = snd (create_request e q m)"
| "job_call (JBid b) m = snd (receive_bid b m)"
| "job_call (JSubmit e q) m = snd (submit_bid e q m)"
| "job_call (JAccept e i b qb) m = snd (accept_commit e i b qb m)"
| "job_call (JDelivered j) m = bid_accepted j m"
| "job_call (JStart now i) m = snd (start_job now i m)"
| "job_call (JResult i r) m = snd (submit_result i r m)"
| "job_call (JSettle e i success) m = snd (settle_job e i success m)"
| "job_call (JPricing p) m = set_pricing p m"
| "job_call (JWallet op) m = m\<lparr>jm_wallet := wallet_call op (jm_wallet m)\<rparr>"

definition job_run :: "job_op list \<Rightarrow> job_manager \<Rightarrow> job_manager" where
  "job_run ops m = foldl (\<lambda>m op. job_call op m) m ops"

text \<open>
  The escrow identifiers an operation draws, those a delivered job names, and whether the other
  users of the wallet resolve an escrow only by the sweep, as everything but the settlement does:
  no other caller of \<open>release_escrow\<close> or \<open>refund_escrow\<close> exists.
\<close>

fun job_draws :: "job_op \<Rightarrow> escrow_id list" where
  "job_draws (JAccept e i b qb) = [env_escrow_id e]"
| "job_draws (JWallet op) = op_draws op"
| "job_draws _ = []"

fun job_names :: "job_op \<Rightarrow> escrow_id list" where
  "job_names (JDelivered j) = [jb_escrow_id j]"
| "job_names _ = []"

fun settles_only_by_sweep :: "job_op \<Rightarrow> bool" where
  "settles_only_by_sweep (JWallet (OpRelease e i)) = False"
| "settles_only_by_sweep (JWallet (OpRefund e i)) = False"
| "settles_only_by_sweep _ = True"

definition all_draws :: "job_op list \<Rightarrow> escrow_id list" where
  "all_draws ops = concat (map job_draws ops)"

definition all_names :: "job_op list \<Rightarrow> escrow_id list" where
  "all_names ops = concat (map job_names ops)"

definition swept_in :: "job_op list \<Rightarrow> escrow \<Rightarrow> bool" where
  "swept_in ops x \<longleftrightarrow> (\<exists>e. JWallet (OpSweep e) \<in> set ops \<and> esc_expires_at x < env_now e)"

text \<open>The escrow of a job: made for it, and active unless a sweep found it expired.\<close>

definition escrow_for :: "job_op list \<Rightarrow> wallet \<Rightarrow> job_id \<Rightarrow> job \<Rightarrow> bool" where
  "escrow_for ops w i j \<longleftrightarrow>
     (\<exists>x. hm_get (escrows (w_state w)) (jb_escrow_id j) = Some x \<and> esc_amount x = bid_price (jb_bid j) \<and>
        esc_recipient x = bid_bidder (jb_bid j) \<and> esc_job_id x = i \<and>
        (esc_status x = Active \<or> esc_status x = Expired \<and> swept_in ops x))"

subsubsection \<open>The escrows under the wallet's operations\<close>

lemma fold_sweep_get:
  "hm_get (escrows (fold (sweep_one e) ids s)) k =
     (if k \<in> set ids then map_option expire (hm_get (escrows s) k) else hm_get (escrows s) k)"
proof (induction ids arbitrary: s)
  case (Cons i ids)
  have "hm_get (escrows (sweep_one e i s)) k =
      (if k = i then map_option expire (hm_get (escrows s) k) else hm_get (escrows s) k)" for k
    by (auto simp: sweep_one_def Let_def escrows_set_status expire_def split: option.split)
  moreover have "expire (expire x) = expire x" for x by (simp add: expire_def)
  ultimately show ?case using Cons by (simp add: option.map_comp comp_def)
qed simp

lemma fold_sweep_wf: "hm_wf (escrows s) \<Longrightarrow> hm_wf (escrows (fold (sweep_one e) ids s))"
proof (induction ids arbitrary: s)
  case (Cons i ids)
  have "hm_wf (escrows (sweep_one e i s))"
    using Cons.prems by (auto simp: sweep_one_def Let_def escrows_set_status split: option.split)
  from Cons.IH [OF this] show ?case by simp
qed simp

lemma create_commit_escrows:
  "escrows (w_state (snd (create_escrow_commit e a r j t w))) = escrows (w_state w) \<or>
   (\<exists>x. escrow_new e a r j t = Some x \<and>
      escrows (w_state (snd (create_escrow_commit e a r j t w))) = hm_insert (env_escrow_id e) x (escrows (w_state w)))"
  by (auto simp: create_escrow_commit_def Let_def escrow_new_def split: option.split)

lemma create_escrow_escrows:
  "escrows (w_state (snd (create_escrow e a r j t w))) = escrows (w_state w) \<or>
   (\<exists>x. escrow_new e a r j t = Some x \<and>
      escrows (w_state (snd (create_escrow e a r j t w))) = hm_insert (env_escrow_id e) x (escrows (w_state w)))"
  using create_commit_escrows [of e a r j t w] by (auto simp: create_escrow_def split: outcome.split)

lemma resolve_escrows:
  "escrows (w_state (snd (release_escrow e i w))) = escrows (w_state w) \<or>
   (\<exists>x. escrows (w_state (snd (release_escrow e i w))) = hm_insert i x (escrows (w_state w)))"
  "escrows (w_state (snd (refund_escrow e i w))) = escrows (w_state w) \<or>
   (\<exists>x. escrows (w_state (snd (refund_escrow e i w))) = hm_insert i x (escrows (w_state w)))"
  by (auto simp: release_escrow_def refund_escrow_def Let_def escrows_set_status split: option.split)

lemma credit_escrows: "escrows (w_state (snd (credit e a r w))) = escrows (w_state w)"
  by (simp add: credit_def Let_def)

lemma settle_payment_escrows:
  "escrows (w_state (snd (settle_payment e i esc success w))) = escrows (w_state w) \<or>
   (\<exists>x. escrows (w_state (snd (settle_payment e i esc success w))) = hm_insert esc x (escrows (w_state w)))"
  using resolve_escrows [of "call_env.truncate e" esc w]
  by (auto simp: settle_payment_def credit_escrows split: prod.splits outcome.splits)

text \<open>
  One operation: what becomes of an escrow in the wallet. It is untouched, made anew, resolved by
  the settlement of the job that names it, or swept.
\<close>

definition escrow_fate :: "job_op \<Rightarrow> job_manager \<Rightarrow> escrow_id \<Rightarrow> escrow option \<Rightarrow> bool" where
  "escrow_fate op m k r \<longleftrightarrow>
     r = hm_get (escrows (w_state (jm_wallet m))) k \<or> k \<in> set (job_draws op) \<or>
     (\<exists>e i success j. op = JSettle e i success \<and> hm_get (jm_active m) i = Some j \<and> jb_escrow_id j = k) \<or>
     (\<exists>e x. op = JWallet (OpSweep e) \<and> hm_get (escrows (w_state (jm_wallet m))) k = Some x \<and>
        esc_expires_at x < env_now e \<and> esc_status x = Active \<and> r = Some (expire x))"

lemma job_call_escrows:
  assumes "settles_only_by_sweep op" and "hm_wf (escrows (w_state (jm_wallet m)))"
  shows "hm_wf (escrows (w_state (jm_wallet (job_call op m)))) \<and>
    (\<forall>k. escrow_fate op m k (hm_get (escrows (w_state (jm_wallet (job_call op m)))) k))"
proof -
  have same: ?thesis if "escrows (w_state (jm_wallet (job_call op m))) = escrows (w_state (jm_wallet m))"
    using that assms(2) by (simp add: escrow_fate_def)
  show ?thesis
  proof (cases op)
    case (JAccept e i b qb)
    obtain q bid where qb: "qb = (q, bid)" by (cases qb)
    have "jm_wallet (job_call op m) = snd (create_escrow (call_env.truncate e) (bid_price bid) (bid_bidder bid) i
        (rq_timeout_secs q) (jm_wallet m))"
      by (simp add: JAccept qb accept_commit_def Let_def split: prod.split outcome.split)
    with create_escrow_escrows [of "call_env.truncate e" "bid_price bid" "bid_bidder bid" i "rq_timeout_secs q" "jm_wallet m"]
    show ?thesis
      using same assms(2) by (auto simp: JAccept escrow_fate_def call_env.truncate_def)
  next
    case (JSettle e i success)
    show ?thesis
    proof (cases "hm_get (jm_active m) i")
      case (Some j)
      have "jm_wallet (job_call op m) = snd (settle_payment e i (jb_escrow_id j) success (jm_wallet m))"
        by (simp add: JSettle settle_job_frame(2) [OF Some])
      with settle_payment_escrows [of e i "jb_escrow_id j" success "jm_wallet m"] show ?thesis
        using same assms(2) Some by (auto simp: JSettle escrow_fate_def)
    qed (use same in \<open>simp add: JSettle settle_job_def\<close>)
  next
    case (JWallet wop)
    show ?thesis
    proof (cases wop)
      case (OpCreate e a r j t)
      from create_commit_escrows [of e a r j t "jm_wallet m"] show ?thesis
        using same assms(2) by (auto simp: JWallet OpCreate escrow_fate_def)
    next
      case (OpSweep e)
      let ?s = "w_state (jm_wallet m)"
      have g: "hm_get (escrows (w_state (jm_wallet (job_call op m)))) k =
          (if k \<in> set (expired_ids (env_now e) ?s) then map_option expire (hm_get (escrows ?s) k)
           else hm_get (escrows ?s) k)" for k
        by (simp add: JWallet OpSweep sweep_state fold_sweep_get)
      have "hm_wf (escrows (w_state (jm_wallet (job_call op m))))"
        using assms(2) by (simp add: JWallet OpSweep sweep_state fold_sweep_wf)
      moreover have "escrow_fate op m k (hm_get (escrows (w_state (jm_wallet (job_call op m)))) k)" for k
        using expired_ids_iff [OF assms(2), of k "env_now e"]
        unfolding g by (auto simp: escrow_fate_def JWallet OpSweep escrow_is_expired_at_def)
      ultimately show ?thesis by blast
    qed (use assms(1) same in \<open>simp_all add: JWallet credit_escrows debit_commit_def stake_def unstake_def Let_def\<close>)
  qed (rule same; simp add: create_request_def receive_bid_def submit_bid_def bid_accepted_def start_job_def
      submit_result_def set_pricing_def Let_def split: option.split outcome.split)+
qed

subsubsection \<open>The active jobs\<close>

text \<open>Where an active job comes from: it was active before, was delivered, or has just been accepted.\<close>

lemma job_call_jobs:
  assumes "get_job (job_call op m) i = Some j"
  shows "(\<exists>j0. get_job m i = Some j0 \<and> jb_escrow_id j0 = jb_escrow_id j \<and> jb_bid j0 = jb_bid j \<and>
      (\<forall>e success. op \<noteq> JSettle e i success)) \<or>
    jb_escrow_id j \<in> set (job_names op) \<or>
    (\<exists>e b q x. op = JAccept e i b (q, jb_bid j) \<and> jb_escrow_id j = env_escrow_id e \<and>
      hm_get (escrows (w_state (jm_wallet (job_call op m)))) (env_escrow_id e) = Some x \<and>
      esc_amount x = bid_price (jb_bid j) \<and> esc_recipient x = bid_bidder (jb_bid j) \<and> esc_job_id x = i \<and>
      esc_status x = Active)"
proof -
  have same: ?thesis if "jm_active (job_call op m) = jm_active m" "\<forall>e success. op \<noteq> JSettle e i success"
    using that assms by (auto simp: get_job_def)
  show ?thesis
  proof (cases op)
    case (JAccept e k b qb)
    obtain q bid where qb: "qb = (q, bid)" by (cases qb)
    obtain r m' where r: "accept_commit e k b (q, bid) m = (r, m')" by fastforce
    show ?thesis
    proof (cases r)
      case (Ok j')
      from accept_commit_Ok [OF r [unfolded Ok]] obtain x where
        x: "create_escrow (call_env.truncate e) (bid_price bid) (bid_bidder bid) k (rq_timeout_secs q) (jm_wallet m) =
          (Ok x, jm_wallet m')"
        and j': "j' = job_new (env_now e) q bid (esc_id x)" and a: "jm_active m' = hm_insert k j' (jm_active m)"
        by blast
      from create_escrow_Ok [OF x] have
        n: "\<not> effective_available (jm_wallet m) < bid_price bid"
          "escrow_new (call_env.truncate e) (bid_price bid) (bid_bidder bid) k (rq_timeout_secs q) = Some x"
        and w: "jm_wallet m' = snd (create_escrow_commit (call_env.truncate e) (bid_price bid) (bid_bidder bid) k
            (rq_timeout_secs q) (jm_wallet m))"
        by blast+
      note f = escrow_new_fields [OF n(2)]
      have id: "esc_id x = env_escrow_id e" using f by (simp add: call_env.truncate_def)
      have "hm_get (escrows (w_state (jm_wallet m'))) (env_escrow_id e) = Some x"
        using n by (simp add: w create_escrow_commit_def Let_def id)
      with assms f j' a show ?thesis
        by (cases "i = k") (auto simp: get_job_def JAccept qb r id)
    next
      case (Err x)
      with r have "jm_active m' = jm_active m"
        by (auto simp: accept_commit_def Let_def split: prod.splits outcome.splits)
      then show ?thesis using same by (simp add: JAccept qb r)
    next
      case Panic
      with r have "jm_active m' = jm_active m"
        by (auto simp: accept_commit_def Let_def split: prod.splits outcome.splits)
      then show ?thesis using same by (simp add: JAccept qb r)
    qed
  next
    case (JDelivered j')
    with assms show ?thesis by (auto simp: get_job_def bid_accepted_def split: if_splits)
  next
    case (JStart now k)
    with assms show ?thesis
      by (auto simp: get_job_def start_job_def split: option.splits if_splits)
  next
    case (JResult k r)
    with assms show ?thesis
      by (auto simp: get_job_def submit_result_def split: option.splits if_splits)
  next
    case (JSettle e k success)
    show ?thesis
    proof (cases "hm_get (jm_active m) k")
      case (Some j')
      with assms show ?thesis
        by (auto simp: get_job_def JSettle settle_job_frame(1) [OF Some] split: if_splits)
    next
      case None
      with assms show ?thesis by (auto simp: get_job_def JSettle settle_job_def)
    qed
  qed (rule same; simp add: create_request_def receive_bid_def submit_bid_def set_pricing_def Let_def
      split: option.split outcome.split)+
qed

text \<open>The invariant of a run, over the operations so far.\<close>

definition run_inv :: "job_op list \<Rightarrow> (escrow_id, escrow) hmap \<Rightarrow> job_manager \<Rightarrow> bool" where
  "run_inv ops initial m \<longleftrightarrow>
     hm_wf (escrows (w_state (jm_wallet m))) \<and>
     (\<forall>k. hm_get (escrows (w_state (jm_wallet m))) k \<noteq> None \<longrightarrow> hm_get initial k \<noteq> None \<or> k \<in> set (all_draws ops)) \<and>
     (\<forall>i j. get_job m i = Some j \<and> jb_escrow_id j \<notin> set (all_names ops) \<longrightarrow>
        escrow_for ops (jm_wallet m) i j) \<and>
     (\<forall>i j i' j'. get_job m i = Some j \<and> get_job m i' = Some j' \<and> jb_escrow_id j \<notin> set (all_names ops) \<and>
        jb_escrow_id j = jb_escrow_id j' \<longrightarrow> i = i')"

lemma run_inv_step:
  assumes inv: "run_inv ops initial m" and ok: "settles_only_by_sweep op"
    and fresh: "\<And>k. k \<in> set (job_draws op) \<Longrightarrow> hm_get initial k = None \<and> k \<notin> set (all_draws ops)"
  shows "run_inv (ops @ [op]) initial (job_call op m)"
proof -
  let ?m = "job_call op m"
  have wf: "hm_wf (escrows (w_state (jm_wallet m)))" using inv by (simp add: run_inv_def)
  note E = job_call_escrows [OF ok wf]
  have fate: "escrow_fate op m k (hm_get (escrows (w_state (jm_wallet ?m))) k)" for k using E by blast
  have new: "hm_get (escrows (w_state (jm_wallet m))) k = None" if "k \<in> set (job_draws op)" for k
    using inv fresh [OF that] by (auto simp: run_inv_def)
  have sub: "set (all_names ops) \<subseteq> set (all_names (ops @ [op]))" "set (job_names op) \<subseteq> set (all_names (ops @ [op]))"
    by (auto simp: all_names_def)
  have swept: "swept_in (ops @ [op]) x" if "swept_in ops x" for x using that by (auto simp: swept_in_def)
  have old: "escrow_for ops (jm_wallet m) i j" if "get_job m i = Some j" "jb_escrow_id j \<notin> set (all_names (ops @ [op]))" for i j
    using inv that sub unfolding run_inv_def by blast
  have kept: "escrow_for (ops @ [op]) (jm_wallet ?m) i j"
    if j0: "get_job m i = Some j0" "jb_escrow_id j0 = jb_escrow_id j" "jb_bid j0 = jb_bid j"
      and ns: "\<forall>e success. op \<noteq> JSettle e i success" and nn: "jb_escrow_id j \<notin> set (all_names (ops @ [op]))" for i j j0
  proof -
    from old [OF j0(1)] j0(2) nn have o: "escrow_for ops (jm_wallet m) i j0" by simp
    then obtain x where x: "hm_get (escrows (w_state (jm_wallet m))) (jb_escrow_id j) = Some x"
      "esc_amount x = bid_price (jb_bid j)" "esc_recipient x = bid_bidder (jb_bid j)" "esc_job_id x = i"
      "esc_status x = Active \<or> esc_status x = Expired \<and> swept_in ops x"
      using j0(2,3) by (auto simp: escrow_for_def)
    have nd: "jb_escrow_id j \<notin> set (job_draws op)" using new x(1) by auto
    have nset: "\<not> (\<exists>e k success j'. op = JSettle e k success \<and> hm_get (jm_active m) k = Some j' \<and> jb_escrow_id j' = jb_escrow_id j)"
    proof
      assume "\<exists>e k success j'. op = JSettle e k success \<and> hm_get (jm_active m) k = Some j' \<and> jb_escrow_id j' = jb_escrow_id j"
      then obtain e k success j' where s: "op = JSettle e k success" "get_job m k = Some j'" "jb_escrow_id j' = jb_escrow_id j0"
        using j0(2) by (auto simp: get_job_def)
      have "jb_escrow_id j0 \<notin> set (all_names ops)" using nn j0(2) sub(1) by auto
      with inv j0(1) s have "i = k" unfolding run_inv_def by metis
      with s(1) ns show False by blast
    qed
    from fate [of "jb_escrow_id j"] nd nset x(1)
    consider "hm_get (escrows (w_state (jm_wallet ?m))) (jb_escrow_id j) = Some x"
      | e where "op = JWallet (OpSweep e)" "esc_expires_at x < env_now e"
          "hm_get (escrows (w_state (jm_wallet ?m))) (jb_escrow_id j) = Some (expire x)"
      by (auto simp: escrow_fate_def)
    then show ?thesis
    proof cases
      case 1
      with x swept show ?thesis by (auto simp: escrow_for_def)
    next
      case (2 e)
      then have "swept_in (ops @ [op]) (expire x)" by (auto simp: swept_in_def expire_def)
      with 2(3) x(2-4) show ?thesis by (auto simp: escrow_for_def expire_def)
    qed
  qed
  have goal3: "escrow_for (ops @ [op]) (jm_wallet ?m) i j"
    if "get_job ?m i = Some j" "jb_escrow_id j \<notin> set (all_names (ops @ [op]))" for i j
    using job_call_jobs [OF that(1)] kept that(2) sub(2) by (auto simp: escrow_for_def)
  have goal4: "i = i'" if g: "get_job ?m i = Some j" "get_job ?m i' = Some j'"
      "jb_escrow_id j \<notin> set (all_names (ops @ [op]))" "jb_escrow_id j = jb_escrow_id j'" for i j i' j'
  proof -
    from goal3 [OF g(1,3)] goal3 [OF g(2)] g(3,4) show ?thesis by (auto simp: escrow_for_def)
  qed
  have goal2: "hm_get initial k \<noteq> None \<or> k \<in> set (all_draws (ops @ [op]))"
    if "hm_get (escrows (w_state (jm_wallet ?m))) k \<noteq> None" for k
  proof (cases "hm_get (escrows (w_state (jm_wallet m))) k = None")
    case True
    have nosettle: "\<not> (\<exists>e i success j. op = JSettle e i success \<and> hm_get (jm_active m) i = Some j \<and> jb_escrow_id j = k)"
    proof
      assume "\<exists>e i success j. op = JSettle e i success \<and> hm_get (jm_active m) i = Some j \<and> jb_escrow_id j = k"
      then obtain e i success j where s: "op = JSettle e i success" "hm_get (jm_active m) i = Some j" "jb_escrow_id j = k"
        by blast
      have "snd (settle_payment e i k success (jm_wallet m)) = jm_wallet m"
        using True by (simp add: settle_payment_def release_escrow_def refund_escrow_def)
      with settle_job_frame(2) [OF s(2), of e success] s True that show False by simp
    qed
    from fate [of k] nosettle True that have "k \<in> set (job_draws op)"
      by (auto simp: escrow_fate_def)
    then show ?thesis by (simp add: all_draws_def)
  next
    case False
    with inv show ?thesis by (auto simp: run_inv_def all_draws_def)
  qed
  show ?thesis
    unfolding run_inv_def using E goal2 goal3 goal4 by blast
qed

lemma run_inv_run:
  assumes "distinct (all_draws ops)" and "\<And>k. k \<in> set (all_draws ops) \<Longrightarrow> hm_get (escrows (w_state w)) k = None"
    and "list_all settles_only_by_sweep ops" and "hm_wf (escrows (w_state w))"
  shows "run_inv ops (escrows (w_state w)) (job_run ops (job_manager_new w p))"
  using assms(1-3)
proof (induction ops rule: rev_induct)
  case Nil
  then show ?case
    using assms(4) by (simp add: run_inv_def job_run_def job_manager_new_def get_job_def)
next
  case (snoc op ops)
  have "run_inv ops (escrows (w_state w)) (job_run ops (job_manager_new w p))"
    using snoc.prems by (intro snoc.IH) (auto simp: all_draws_def)
  moreover have "settles_only_by_sweep op" using snoc.prems(3) by simp
  ultimately show ?case
    using run_inv_step [of ops "escrows (w_state w)" "job_run ops (job_manager_new w p)" op] snoc.prems(1,2)
    by (auto simp: job_run_def all_draws_def)
qed

text \<open>C9: Start a new manager on any wallet and run any list of its operations and of those of the other
  users of the wallet, in any order, with any failures of the database and panics of the clock, such
  that no escrow identifier is drawn twice and the others settle escrows only by the sweep, as the
  program does. Then every active job, unless a delivered job names the same escrow, has the escrow
  that was made for it, with exactly the price of its bid for the bidder, and shares it with no other
  active job. That escrow is still active, so that the price is locked, except when a sweep after its
  expiry has refunded it: the sweep does not look at the jobs.\<close>

theorem active_jobs_funded:
  assumes "hm_wf (escrows (w_state w))" and "distinct (all_draws ops)"
    and "\<And>k. k \<in> set (all_draws ops) \<Longrightarrow> hm_get (escrows (w_state w)) k = None"
    and "list_all settles_only_by_sweep ops"
    and "get_job (job_run ops (job_manager_new w p)) i = Some j" and "jb_escrow_id j \<notin> set (all_names ops)"
  shows "(\<exists>x. hm_get (escrows (w_state (jm_wallet (job_run ops (job_manager_new w p))))) (jb_escrow_id j) = Some x \<and>
      esc_amount x = bid_price (jb_bid j) \<and> esc_recipient x = bid_bidder (jb_bid j) \<and> esc_job_id x = i \<and>
      (esc_status x = Active \<or>
       esc_status x = Expired \<and> (\<exists>e. JWallet (OpSweep e) \<in> set ops \<and> esc_expires_at x < env_now e))) \<and>
    (\<forall>i' j'. get_job (job_run ops (job_manager_new w p)) i' = Some j' \<and> jb_escrow_id j' = jb_escrow_id j \<longrightarrow> i' = i)"
proof -
  have inv: "run_inv ops (escrows (w_state w)) (job_run ops (job_manager_new w p))"
    using assms(1-4) by (intro run_inv_run)
  then have "escrow_for ops (jm_wallet (job_run ops (job_manager_new w p))) i j"
    using assms(5,6) unfolding run_inv_def by blast
  moreover have "i' = i" if "get_job (job_run ops (job_manager_new w p)) i' = Some j'" "jb_escrow_id j' = jb_escrow_id j" for i' j'
    using inv assms(5,6) that unfolding run_inv_def by metis
  ultimately show ?thesis unfolding escrow_for_def swept_in_def by blast
qed

text \<open>A job whose bid is accepted, and the sweep two hours later, long after its time-out.\<close>

definition demo_job_ops :: "job_op list" where
  "demo_job_ops =
     [JRequest (demo_jm_env 0 ''e0'') job_request_demo, JBid (job_bid_demo ''b1'' 70),
      JAccept (demo_jm_env 0 ''e2'') ''j1'' ''b1'' (job_request_demo, job_bid_demo ''b1'' 70),
      JStart 1 ''j1'', JWallet (OpSweep (demo_env 7200000000000 ''e3''))]"

theorem active_jobs_funded_witness:
  "\<exists>x. hm_get (escrows (w_state (jm_wallet (job_run demo_job_ops (job_manager_new demo_wallet ''me''))))) ''e2'' = Some x \<and>
     esc_amount x = 70 \<and> esc_job_id x = ''j1'' \<and> (esc_status x = Active \<or> esc_status x = Expired)"
proof -
  let ?m = "job_run demo_job_ops (job_manager_new demo_wallet ''me'')"
  have wf: "hm_wf (escrows (w_state demo_wallet))" using demo_wallet_inv by (simp add: wallet_inv_def)
  have d: "all_draws demo_job_ops = [''e2'']" "all_names demo_job_ops = []"
    "list_all settles_only_by_sweep demo_job_ops"
    by (simp_all add: demo_job_ops_def all_draws_def all_names_def demo_jm_env_def)
  have f: "hm_get (escrows (w_state demo_wallet)) k = None" if "k \<in> set (all_draws demo_job_ops)" for k
    using that by (simp add: d(1) demo_wallet_def)
  let ?m1 = "job_run (take 3 demo_job_ops) (job_manager_new demo_wallet ''me'')"
  have "\<exists>j. get_job ?m1 ''j1'' = Some j \<and> jb_bid j = job_bid_demo ''b1'' 70 \<and> jb_escrow_id j = ''e2''"
    using demo_spending [of "''e2''"]
    by (simp add: job_run_def demo_job_ops_def create_request_def receive_bid_def Let_def accept_commit_def
        job_manager_new_def demo_jm_truncate create_escrow_def create_escrow_commit_def effective_available_def
        demo_wallet_def sat_sub_def get_job_def default_wallet_config_def MICRO_PCLAW_def escrow_new_def
        demo_env_def demo_add_def finish_eq)
  then obtain j where j: "get_job ?m ''j1'' = Some j" "jb_bid j = job_bid_demo ''b1'' 70" "jb_escrow_id j = ''e2''"
    by (auto simp: job_run_def demo_job_ops_def start_job_def get_job_def split: option.splits)
  have "jb_escrow_id j \<notin> set (all_names demo_job_ops)" by (simp add: d(2))
  from active_jobs_funded [OF wf _ f d(3) j(1) this] d(1) j(2,3) show ?thesis by auto
qed

text \<open>C10: Accepting a bid and settling the job leaves the requester's wallet as it was, whether the
  job succeeded or not: on success too the released price is credited to the requester's own
  wallet. The job moves from the active to the completed ones.\<close>

theorem settlement_restores_wallet:
  assumes "job_inv m" and "accept_lookup e i b m = Ok (q, bid)"
    and "wallet_ready (call_env.truncate e) (rq_timeout_secs q) (jm_wallet m)"
    and "accept_bid e i b m = (Ok j, m1)" and "bid_price bid \<noteq> 0"
    and "wallet_ready (call_env.truncate e') t (jm_wallet m1)" and "env_store_error (je_second e') = None"
  shows "\<exists>m2. settle_job e' i success m1 = (Ok (), m2) \<and> get_job m2 i = None \<and>
    unat (available (w_state (jm_wallet m2))) = unat (available (w_state (jm_wallet m))) \<and>
    held_by (jm_wallet m2) = held_by (jm_wallet m) \<and>
    last (jm_completed m2) =
      j\<lparr>jb_status := (if success then JobCompleted else JobFailed), jb_completed_at := Some (env_now e')\<rparr>"
proof -
  have "accept_commit e i b (q, bid) m = (Ok j, m1)" using assms(2,4) by (simp add: accept_bid_def)
  from accept_commit_Ok [OF this] obtain x where
    c: "create_escrow (call_env.truncate e) (bid_price bid) (bid_bidder bid) i (rq_timeout_secs q)
      (jm_wallet m) = (Ok x, jm_wallet m1)" and
    j: "j = job_new (env_now e) q bid (esc_id x)" and a: "jm_active m1 = hm_insert i j (jm_active m)"
    by blast
  note o = wallet_escrow.create_Ok [OF job_invD(1) [OF assms(1)] assms(3) c]
  have h: "held_by (jm_wallet m1) (esc_id x) = Some (unat (bid_price bid))" using o by simp
  have p: "0 < unat (bid_price bid)" using assms(5) by (simp add: unat_gt_0)
  from settle_payment_Ok [OF _ assms(6) h p assms(7), of i success] o obtain w where
    w: "settle_payment e' i (esc_id x) success (jm_wallet m1) = (Ok (), w)"
      "held_by w = (held_by (jm_wallet m1))(esc_id x := None)"
      "unat (available (w_state w)) = unat (available (w_state (jm_wallet m1))) + unat (bid_price bid)"
    by blast
  show ?thesis
    using w a j o by (simp add: settle_job_def Let_def get_job_def fun_eq_iff)
qed

theorem settlement_restores_wallet_witness:
  "\<exists>m2. settle_job (demo_jm_env 9 ''e3'') ''j1'' True
       (snd (accept_bid (demo_jm_env 0 ''e2'') ''j1'' ''b1'' demo_jobs)) = (Ok (), m2) \<and>
     unat (available (w_state (jm_wallet m2))) = 1000000000"
proof -
  let ?e = "demo_jm_env 0 ''e2''" and ?e' = "demo_jm_env 9 ''e3''"
  have l: "accept_lookup ?e ''j1'' ''b1'' demo_jobs = Ok (job_request_demo, job_bid_demo ''b1'' 70)"
    by (simp add: accept_lookup_def demo_jobs_def get_bids_def hm_get_or_def job_bid_demo_def
        bid_is_expired_def demo_jm_env_def)
  obtain x where x: "create_escrow (demo_env 0 ''e2'') 70 ''bob'' ''j1'' 300 demo_wallet =
      (Ok x, snd (create_escrow (demo_env 0 ''e2'') 70 ''bob'' ''j1'' 300 demo_wallet))"
    and e: "escrows (w_state (snd (create_escrow (demo_env 0 ''e2'') 70 ''bob'' ''j1'' 300 demo_wallet))) =
      hm_insert ''e2'' x (escrows (w_state demo_wallet))"
    using demo_create [of "''e2''" demo_wallet 70] by (auto simp: demo_wallet_def)
  from accept_commit_run [where e = ?e and bid = "job_bid_demo ''b1'' 70" and i = "''j1''" and
      q = job_request_demo and m = demo_jobs and b = "''b1''", simplified, unfolded demo_jm_truncate, OF x] l
  obtain m1 j where a: "accept_bid ?e ''j1'' ''b1'' demo_jobs = (Ok j, m1)"
    and m1: "jm_wallet m1 = snd (create_escrow (demo_env 0 ''e2'') 70 ''bob'' ''j1'' 300 demo_wallet)"
    by (auto simp: accept_bid_def)
  have r: "wallet_ready (call_env.truncate ?e) (rq_timeout_secs job_request_demo) (jm_wallet demo_jobs)"
    by (simp add: wallet_ready_def demo_jm_truncate demo_env_def demo_wallet_def demo_add_def)
  have r': "wallet_ready (call_env.truncate ?e') 300 (jm_wallet m1)"
    using e by (simp add: wallet_ready_def demo_jm_truncate m1 demo_env_def demo_add_def demo_wallet_def)
  have s: "env_store_error (je_second ?e') = None" by (simp add: demo_jm_env_def demo_env_def)
  have p: "bid_price (job_bid_demo ''b1'' 70) \<noteq> 0" by simp
  from settlement_restores_wallet [OF demo_jobs_inv l r a p r' s, of True] show ?thesis
    by (auto simp: a demo_wallet_def)
qed

text \<open>When the escrow of an active job has been resolved in the meantime, as by the sweep once the
  job's time-out is over, settling the job reports an error and forgets the job: it is neither
  active nor completed, and nothing is paid.\<close>

theorem unfunded_job_lost:
  assumes "get_job m i = Some j" and "held_by (jm_wallet m) (jb_escrow_id j) = None"
  shows "\<exists>x. settle_job e i success m = (Err (JobWallet x), m\<lparr>jm_active := hm_remove i (jm_active m)\<rparr>) \<and>
    get_job (m\<lparr>jm_active := hm_remove i (jm_active m)\<rparr>) i = None"
proof -
  obtain x1 x2 where
    "release_escrow (call_env.truncate e) (jb_escrow_id j) (jm_wallet m) = (Err x1, jm_wallet m)"
    "refund_escrow (call_env.truncate e) (jb_escrow_id j) (jm_wallet m) = (Err x2, jm_wallet m)"
    using wallet_escrow.release_not_held [OF assms(2)] wallet_escrow.refund_not_held [OF assms(2)]
    by blast
  then have "\<exists>x. settle_payment e i (jb_escrow_id j) success (jm_wallet m) = (Err x, jm_wallet m)"
    by (simp add: settle_payment_def)
  then show ?thesis using assms(1) by (auto simp: settle_job_def get_job_def Let_def)
qed

theorem unfunded_job_lost_witness:
  "\<exists>x. fst (settle_job (demo_jm_env 7300000000000 ''e3'') ''j1'' True
      (demo_jobs\<lparr>jm_active := [(''j1'', job_new 0 job_request_demo (job_bid_demo ''b1'' 50) ''e1'')],
        jm_wallet := snd (sweep_expired_escrows (demo_env 7200000000000 ''e2'') demo_wallet)\<rparr>)) =
     Err (JobWallet x)"
proof -
  let ?m = "demo_jobs\<lparr>jm_active := [(''j1'', job_new 0 job_request_demo (job_bid_demo ''b1'' 50) ''e1'')],
        jm_wallet := snd (sweep_expired_escrows (demo_env 7200000000000 ''e2'') demo_wallet)\<rparr>"
  have j: "get_job ?m ''j1'' = Some (job_new 0 job_request_demo (job_bid_demo ''b1'' 50) ''e1'')"
    by (simp add: get_job_def)
  have "held_by (snd (sweep_expired_escrows (demo_env 7200000000000 ''e2'') demo_wallet)) ''e1'' = None"
    by (simp add: held_by_def sweep_expired_escrows_def expired_ids_def sweep_one_def demo_wallet_def
        demo_escrow_def demo_env_def escrow_is_expired_at_def set_escrow_status_def Let_def)
  then have h: "held_by (jm_wallet ?m) (jb_escrow_id (job_new 0 job_request_demo (job_bid_demo ''b1'' 50) ''e1'')) = None"
    by simp
  from unfunded_job_lost [OF j h, of "demo_jm_env 7300000000000 ''e3''" True] show ?thesis by auto
qed

text \<open>Two acceptances of bids for the same job that both look the bid up before either locks the
  payment both succeed: both prices leave the requester's funds, only one job is active, and the
  first escrow belongs to no job, so nothing but the sweep ever resolves it.\<close>

theorem overlapping_accepts_lock_twice:
  assumes "job_inv m" and "accept_lookup e1 i b1 m = Ok (q1, bid1)" and "accept_lookup e2 i b2 m = Ok (q2, bid2)"
    and "wallet_ready (call_env.truncate e1) (rq_timeout_secs q1) (jm_wallet m)"
    and "accept_commit e1 i b1 (q1, bid1) m = (Ok j1, m1)"
    and "wallet_ready (call_env.truncate e2) (rq_timeout_secs q2) (jm_wallet m1)"
    and "accept_commit e2 i b2 (q2, bid2) m1 = (Ok j2, m2)"
  shows "get_job m2 i = Some j2 \<and>
    held_by (jm_wallet m2) (jb_escrow_id j1) = Some (unat (bid_price bid1)) \<and>
    held_by (jm_wallet m2) (jb_escrow_id j2) = Some (unat (bid_price bid2)) \<and>
    (\<forall>k j. get_job m2 k = Some j \<longrightarrow> jb_escrow_id j \<noteq> jb_escrow_id j1) \<and>
    unat (available (w_state (jm_wallet m2))) + unat (bid_price bid1) + unat (bid_price bid2) =
      unat (available (w_state (jm_wallet m)))"
proof -
  from accept_commit_Ok [OF assms(5)] obtain x1 where
    c1: "create_escrow (call_env.truncate e1) (bid_price bid1) (bid_bidder bid1) i (rq_timeout_secs q1)
      (jm_wallet m) = (Ok x1, jm_wallet m1)" and
    j1: "j1 = job_new (env_now e1) q1 bid1 (esc_id x1)" and a1: "jm_active m1 = hm_insert i j1 (jm_active m)"
    by blast
  note o1 = wallet_escrow.create_Ok [OF job_invD(1) [OF assms(1)] assms(4) c1]
  from accept_commit_Ok [OF assms(7)] obtain x2 where
    c2: "create_escrow (call_env.truncate e2) (bid_price bid2) (bid_bidder bid2) i (rq_timeout_secs q2)
      (jm_wallet m1) = (Ok x2, jm_wallet m2)" and
    j2: "j2 = job_new (env_now e2) q2 bid2 (esc_id x2)" and a2: "jm_active m2 = hm_insert i j2 (jm_active m1)"
    by blast
  from o1 have "wallet_inv (w_state (jm_wallet m1))" by blast
  note o2 = wallet_escrow.create_Ok [OF this assms(6) c2]
  have ne: "esc_id x2 \<noteq> esc_id x1" using o1 o2 by auto
  have "jb_escrow_id j \<noteq> esc_id x1" if "get_job m2 k = Some j" for k j
  proof (cases "k = i")
    case True
    then show ?thesis using that ne by (auto simp: get_job_def a2 j2)
  next
    case False
    then have "hm_get (jm_active m) k = Some j" using that by (simp add: get_job_def a1 a2)
    from job_invD(2) [OF assms(1) this] o1 show ?thesis by auto
  qed
  then show ?thesis using o1 o2 ne by (simp add: get_job_def a2 j1 j2)
qed

theorem overlapping_accepts_lock_twice_witness:
  "\<exists>m1 m2 j1 j2.
     accept_commit (demo_jm_env 0 ''e2'') ''j1'' ''b1'' (job_request_demo, job_bid_demo ''b1'' 70) demo_jobs =
       (Ok j1, m1) \<and>
     accept_commit (demo_jm_env 0 ''e3'') ''j1'' ''b2'' (job_request_demo, job_bid_demo ''b2'' 90) m1 =
       (Ok j2, m2) \<and>
     held_by (jm_wallet m2) (jb_escrow_id j1) = Some 70 \<and>
     unat (available (w_state (jm_wallet m2))) + 160 = 1000000000"
proof -
  let ?e = "demo_jm_env 0 ''e2''" and ?e' = "demo_jm_env 0 ''e3''"
  let ?w1 = "snd (create_escrow (demo_env 0 ''e2'') 70 ''bob'' ''j1'' 300 demo_wallet)"
  have l: "accept_lookup ?e ''j1'' ''b1'' demo_jobs = Ok (job_request_demo, job_bid_demo ''b1'' 70)"
    "accept_lookup ?e' ''j1'' ''b2'' demo_jobs = Ok (job_request_demo, job_bid_demo ''b2'' 90)"
    by (simp_all add: accept_lookup_def demo_jobs_def get_bids_def hm_get_or_def job_bid_demo_def
        bid_is_expired_def demo_jm_env_def)
  obtain x where x: "create_escrow (demo_env 0 ''e2'') 70 ''bob'' ''j1'' 300 demo_wallet = (Ok x, ?w1)"
    and e: "escrows (w_state ?w1) = hm_insert ''e2'' x (escrows (w_state demo_wallet))"
      "available (w_state ?w1) = 999999930" "w_config ?w1 = default_wallet_config"
      "hourly_spend (w_state ?w1) = [(5, 450000000)]" "daily_spend (w_state ?w1) = []"
    using demo_create [of "''e2''" demo_wallet 70] by (auto simp: demo_wallet_def)
  obtain y where y: "create_escrow (demo_env 0 ''e3'') 90 ''bob'' ''j1'' 300 ?w1 =
      (Ok y, snd (create_escrow (demo_env 0 ''e3'') 90 ''bob'' ''j1'' 300 ?w1))"
    using demo_create [of "''e3''" ?w1 90] e(2-5) by auto
  from accept_commit_run [where e = ?e and bid = "job_bid_demo ''b1'' 70" and i = "''j1''" and
      q = job_request_demo and m = demo_jobs and b = "''b1''", simplified, unfolded demo_jm_truncate, OF x]
  obtain m1 j1 where a: "accept_commit ?e ''j1'' ''b1'' (job_request_demo, job_bid_demo ''b1'' 70) demo_jobs = (Ok j1, m1)"
    and m1: "jm_wallet m1 = ?w1"
    by blast
  from accept_commit_run [where e = ?e' and bid = "job_bid_demo ''b2'' 90" and i = "''j1''" and
      q = job_request_demo and m = m1 and b = "''b2''", simplified, unfolded demo_jm_truncate m1, OF y]
  obtain m2 j2 where a': "accept_commit ?e' ''j1'' ''b2'' (job_request_demo, job_bid_demo ''b2'' 90) m1 = (Ok j2, m2)"
    by blast
  have r: "wallet_ready (call_env.truncate ?e) (rq_timeout_secs job_request_demo) (jm_wallet demo_jobs)"
    by (simp add: wallet_ready_def demo_jm_truncate demo_env_def demo_wallet_def demo_add_def)
  have r': "wallet_ready (call_env.truncate ?e') (rq_timeout_secs job_request_demo) (jm_wallet m1)"
    using e by (simp add: wallet_ready_def demo_jm_truncate m1 demo_env_def demo_add_def demo_wallet_def)
  from overlapping_accepts_lock_twice [OF demo_jobs_inv l r a r' a'] show ?thesis
    using a a' by (intro exI [of _ m1] exI [of _ m2] exI [of _ j1] exI [of _ j2]) (simp add: demo_wallet_def)
qed

end
