(* ===== verification/Task.thy ===== *)
theory Task
  imports Bid
begin

section \<open>Tasks and what they need\<close>

text \<open>
  Models \<^verbatim>\<open>src/executor/task.rs\<close>: the tasks that can be executed here or by a peer, their results,
  and the estimate of the resources a task needs, which for inference is read off the model's
  name. \<open>f32\<close> values are \<open>f64\<close> values; a JSON value, of a third-party library, is a type variable.
\<close>

subsection \<open>Tasks\<close>

datatype message_role = RoleSystem | RoleUser | RoleAssistant

record chat_message =
  cm_role :: message_role
  cm_content :: string

definition chat_system :: "string \<Rightarrow> chat_message" where
  "chat_system s = \<lparr>cm_role = RoleSystem, cm_content = s\<rparr>"

definition chat_user :: "string \<Rightarrow> chat_message" where
  "chat_user s = \<lparr>cm_role = RoleUser, cm_content = s\<rparr>"

definition chat_assistant :: "string \<Rightarrow> chat_message" where
  "chat_assistant s = \<lparr>cm_role = RoleAssistant, cm_content = s\<rparr>"

record inference_task =
  it_model :: string
  it_messages :: "chat_message list"
  it_max_tokens :: u32
  it_temperature :: f64
  it_stop_sequences :: "string list"
  it_stream :: bool

definition inference_task_new :: "string \<Rightarrow> string \<Rightarrow> inference_task" where
  "inference_task_new model prompt =
     \<lparr>it_model = model, it_messages = [chat_user prompt], it_max_tokens = 1024,
      it_temperature = f32_lit 7 10, it_stop_sequences = [], it_stream = False\<rparr>"

definition with_max_tokens :: "u32 \<Rightarrow> inference_task \<Rightarrow> inference_task" where
  "with_max_tokens n t = t\<lparr>it_max_tokens := n\<rparr>"

definition with_temperature :: "f64 \<Rightarrow> inference_task \<Rightarrow> inference_task" where
  "with_temperature x t = t\<lparr>it_temperature := x\<rparr>"

definition with_streaming :: "inference_task \<Rightarrow> inference_task" where
  "with_streaming t = t\<lparr>it_stream := True\<rparr>"

datatype http_method = HttpGet | HttpPost | HttpPut | HttpDelete | HttpPatch | HttpHead

record web_fetch_task =
  wf_url :: string
  wf_method :: http_method
  wf_headers :: "(string \<times> string) list"
  wf_body :: "u8 list option"
  wf_timeout_secs :: u32

definition web_fetch_get :: "string \<Rightarrow> web_fetch_task" where
  "web_fetch_get url =
     \<lparr>wf_url = url, wf_method = HttpGet, wf_headers = [], wf_body = None, wf_timeout_secs = 30\<rparr>"

definition web_fetch_post :: "string \<Rightarrow> u8 list \<Rightarrow> web_fetch_task" where
  "web_fetch_post url body =
     \<lparr>wf_url = url, wf_method = HttpPost, wf_headers = [], wf_body = Some body, wf_timeout_secs = 30\<rparr>"

definition with_header :: "string \<Rightarrow> string \<Rightarrow> web_fetch_task \<Rightarrow> web_fetch_task" where
  "with_header k v t = t\<lparr>wf_headers := wf_headers t @ [(k, v)]\<rparr>"

datatype search_engine = DefaultEngine | Google | Bing | DuckDuckGo

record web_search_task =
  ws_query :: string
  ws_max_results :: u32
  ws_engine :: search_engine

definition web_search_new :: "string \<Rightarrow> web_search_task" where
  "web_search_new q = \<lparr>ws_query = q, ws_max_results = 10, ws_engine = DefaultEngine\<rparr>"

record wasm_capabilities =
  network_access :: bool
  filesystem_read :: bool
  filesystem_write :: bool
  allowed_hosts :: "string list"

record 'j wasm_task =
  wt_tool_hash :: string
  wt_function :: string
  wt_params :: 'j
  wt_capabilities :: wasm_capabilities
  wt_timeout_secs :: u32
  wt_max_fuel :: u64

definition wasm_task_new :: "string \<Rightarrow> string \<Rightarrow> 'j \<Rightarrow> 'j wasm_task" where
  "wasm_task_new tool fn params =
     \<lparr>wt_tool_hash = tool, wt_function = fn, wt_params = params,
      wt_capabilities =
        \<lparr>network_access = False, filesystem_read = False, filesystem_write = False, allowed_hosts = []\<rparr>,
      wt_timeout_secs = 60, wt_max_fuel = 100000000\<rparr>"

datatype 'j execution_task =
    InferenceT inference_task
  | WebFetchT web_fetch_task
  | WebSearchT web_search_task
  | WasmExecutionT "'j wasm_task"

fun task_type_name :: "'j execution_task \<Rightarrow> string" where
  "task_type_name (InferenceT _) = ''inference''"
| "task_type_name (WebFetchT _) = ''web_fetch''"
| "task_type_name (WebSearchT _) = ''web_search''"
| "task_type_name (WasmExecutionT _) = ''wasm''"

subsection \<open>Results\<close>

datatype execution_location = LocalRun | RemoteRun string job_id

datatype finish_reason = FinishStop | FinishLength | FinishContentFilter

record inference_result =
  ir_text :: string
  ir_tokens_generated :: u32
  ir_tokens_per_second :: f64
  ir_finish_reason :: finish_reason

record web_fetch_result =
  wfr_status :: u16
  wfr_headers :: "(string \<times> string) list"
  wfr_body :: "u8 list"

record search_result =
  sr_title :: string
  sr_url :: string
  sr_snippet :: string

record 'j wasm_result =
  wr_value :: 'j
  wr_fuel_consumed :: u64

datatype 'j task_data =
    InferenceD inference_result
  | WebFetchD web_fetch_result
  | WebSearchD "search_result list"
  | WasmD "'j wasm_result"
  | ErrorD string

record task_metrics =
  tm_ttfb_ms :: u64
  tm_total_time_ms :: u64
  tm_queue_time_ms :: u64

record 'j task_result =
  tr_task_id :: string
  tr_location :: execution_location
  tr_data :: "'j task_data"
  tr_metrics :: task_metrics
  tr_cost :: "u64 option"

subsection \<open>The size of a model, from its name\<close>

definition trim_end :: "char \<Rightarrow> string \<Rightarrow> string" where
  "trim_end c s = rev (dropWhile (\<lambda>x. x = c) (rev s))"

definition strip_sign :: "string \<Rightarrow> bool \<times> string" where
  "strip_sign s =
     (case s of [] \<Rightarrow> (False, []) | c # r \<Rightarrow>
        if c = CHR ''-'' then (True, r) else if c = CHR ''+'' then (False, r) else (False, s))"

text \<open>The exponent part: absent, or an \<open>e\<close>, a sign and digits.\<close>

definition parse_exponent :: "string \<Rightarrow> int option" where
  "parse_exponent s =
     (case s of [] \<Rightarrow> Some 0 | c # r \<Rightarrow>
        if c \<noteq> CHR ''e'' then None
        else
          (case strip_sign r of (neg, ds) \<Rightarrow>
             if ds = [] \<or> \<not> list_all is_digit ds then None
             else Some (if neg then - digits_val ds else digits_val ds)))"

definition f32_decimal :: "int \<Rightarrow> int \<Rightarrow> f64" where
  "f32_decimal n k =
     (if 0 \<le> k then f32_round (n * 10 ^ nat k) 0
      else let (q, e) = sticky_quotient n (10 ^ nat (- k)) in f32_round q e)"

text \<open>The standard library's \<open>parse::<f32>()\<close>, of a string without upper-case letters.\<close>

definition parse_f32 :: "string \<Rightarrow> f64 option" where
  "parse_f32 s =
     (case strip_sign s of (neg, r) \<Rightarrow>
        if r = ''inf'' \<or> r = ''infinity'' then Some (Inf neg)
        else if r = ''nan'' then Some NaN
        else
          let ip = takeWhile is_digit r; r1 = dropWhile is_digit r;
              (fp, r2) = (case r1 of [] \<Rightarrow> ([], []) | c # t \<Rightarrow>
                 if c = CHR ''.'' then (takeWhile is_digit t, dropWhile is_digit t) else ([], r1))
          in if ip = [] \<and> fp = [] then None
             else
               (case parse_exponent r2 of
                  None \<Rightarrow> None
                | Some k \<Rightarrow>
                    let n = digits_val (ip @ fp)
                    in Some (f32_decimal (if neg then - n else n) (k - int (length fp)))))"

definition is_name_separator :: "char \<Rightarrow> bool" where
  "is_name_separator c \<longleftrightarrow> c = CHR ''-'' \<or> c = CHR ''_'' \<or> c = CHR '' '' \<or> c = CHR '':''"

fun first_size :: "string list \<Rightarrow> f64 option" where
  "first_size [] = None"
| "first_size (part # parts) =
     (if part \<noteq> [] \<and> last part = CHR ''b''
      then (case parse_f32 (trim_end (CHR ''b'') part) of
              Some sz \<Rightarrow> Some sz
            | None \<Rightarrow> first_size parts)
      else first_size parts)"

definition parse_model_size :: "string \<Rightarrow> f64 option" where
  "parse_model_size model = first_size (split_on is_name_separator (ascii_lower model))"

subsection \<open>Requirements\<close>

record resource_requirements =
  rr_ram_mb :: u32
  rr_vram_mb :: "u32 option"
  rr_cpu_cores :: u16
  rr_estimated_secs :: u64

definition minimal_requirements :: resource_requirements where
  "minimal_requirements =
     \<lparr>rr_ram_mb = 50, rr_vram_mb = None, rr_cpu_cores = 1, rr_estimated_secs = 10\<rparr>"

definition vram_for_size :: "f64 \<Rightarrow> u32" where
  "vram_for_size p =
     (if f_le p (f_of_int 3) then 2000
      else if f_le p (f_of_int 8) then 5000
      else if f_le p (f_of_int 13) then 8000
      else if f_le p (f_of_int 34) then 20000
      else if f_le p (f_of_int 70) then 40000
      else 80000)"

definition inference_requirements :: "inference_task \<Rightarrow> resource_requirements" where
  "inference_requirements t =
     (if str_contains (ascii_lower (it_model t)) '':cloud'' then minimal_requirements
      else
        (case parse_model_size (it_model t) of
           None \<Rightarrow> minimal_requirements
         | Some p \<Rightarrow>
             \<lparr>rr_ram_mb = vram_for_size p + 1000, rr_vram_mb = Some (vram_for_size p),
              rr_cpu_cores = 4, rr_estimated_secs = 30\<rparr>))"

definition wasm_requirements :: "'j wasm_task \<Rightarrow> resource_requirements" where
  "wasm_requirements t =
     \<lparr>rr_ram_mb = 100, rr_vram_mb = None, rr_cpu_cores = 1,
      rr_estimated_secs = ucast (wt_timeout_secs t)\<rparr>"

fun estimate_requirements :: "'j execution_task \<Rightarrow> resource_requirements" where
  "estimate_requirements (InferenceT t) = inference_requirements t"
| "estimate_requirements (WebFetchT _) = minimal_requirements"
| "estimate_requirements (WebSearchT _) = minimal_requirements"
| "estimate_requirements (WasmExecutionT t) = wasm_requirements t"

end
