(* ===== verification/Router.thy ===== *)
theory Router
  imports Task
begin

section \<open>Resources and routing\<close>

text \<open>
  Models \<^verbatim>\<open>src/executor/resource.rs\<close> and \<^verbatim>\<open>src/executor/router.rs\<close>: the monitored state of
  the machine, the operations that change it, and the decision to run a task here, to offer it to
  the network or to refuse it. What the operating system reports at a tick is an argument of the
  update.
\<close>

subsection \<open>The resource monitor\<close>

record resource_state =
  rs_cpu_usage :: f64
  rs_ram_total_mb :: u32
  rs_ram_available_mb :: u32
  rs_gpu_usage :: "f64 option"
  rs_vram_total_mb :: "u32 option"
  rs_vram_available_mb :: "u32 option"
  rs_loaded_models :: "string list"
  rs_active_inference_tasks :: u32
  rs_active_wasm_tasks :: u32
  rs_active_web_tasks :: u32

definition default_resource_state :: resource_state where
  "default_resource_state =
     \<lparr>rs_cpu_usage = f_of_int 0, rs_ram_total_mb = 0, rs_ram_available_mb = 0, rs_gpu_usage = None,
      rs_vram_total_mb = None, rs_vram_available_mb = None, rs_loaded_models = [],
      rs_active_inference_tasks = 0, rs_active_wasm_tasks = 0, rs_active_web_tasks = 0\<rparr>"

record monitor_config =
  mc_update_interval_secs :: u64
  mc_reserve_ram_mb :: u32
  mc_max_inference_tasks :: u32
  mc_max_wasm_tasks :: u32

definition default_monitor_config :: monitor_config where
  "default_monitor_config =
     \<lparr>mc_update_interval_secs = 1, mc_reserve_ram_mb = 500, mc_max_inference_tasks = 2,
      mc_max_wasm_tasks = 10\<rparr>"

text \<open>One tick of the background task: processor load, memory in bytes and the graphics probe.\<close>

definition background_update ::
  "f64 \<Rightarrow> u64 \<Rightarrow> u64 \<Rightarrow> f64 option \<Rightarrow> resource_state \<Rightarrow> resource_state" where
  "background_update cpu total_memory used_memory gpu s =
     (let total_mb = (ucast (total_memory div 1000000) :: u32);
          used_mb = (ucast (used_memory div 1000000) :: u32)
      in s\<lparr>rs_cpu_usage := cpu, rs_ram_total_mb := total_mb,
           rs_ram_available_mb := sat_sub total_mb used_mb, rs_gpu_usage := gpu\<rparr>)"

definition rs_can_handle :: "resource_state \<Rightarrow> resource_requirements \<Rightarrow> bool" where
  "rs_can_handle s r =
     (if rs_ram_available_mb s < rr_ram_mb r then False
      else
        (case rr_vram_mb r of
           None \<Rightarrow> True
         | Some v \<Rightarrow> (case rs_vram_available_mb s of None \<Rightarrow> False | Some a \<Rightarrow> v \<le> a)))"

definition available_capacity :: "resource_state \<Rightarrow> f64" where
  "available_capacity s =
     (let cpu_available = f_sub (f_of_int 1) (rs_cpu_usage s);
          ram_ratio = f_div (f_of_u32 (rs_ram_available_mb s)) (f_of_u32 (max (rs_ram_total_mb s) 1))
      in f_div (f_add cpu_available ram_ratio) (f_of_int 2))"

definition has_model :: "resource_state \<Rightarrow> string \<Rightarrow> bool" where
  "has_model s m = list_ex (\<lambda>x. x = m) (rs_loaded_models s)"

definition register_loaded_model :: "string \<Rightarrow> resource_state \<Rightarrow> resource_state" where
  "register_loaded_model m s =
     (if m \<in> set (rs_loaded_models s) then s else s\<lparr>rs_loaded_models := rs_loaded_models s @ [m]\<rparr>)"

definition unregister_model :: "string \<Rightarrow> resource_state \<Rightarrow> resource_state" where
  "unregister_model m s = s\<lparr>rs_loaded_models := filter (\<lambda>x. x \<noteq> m) (rs_loaded_models s)\<rparr>"

datatype task_kind = KindInference | KindWasm | KindWeb

definition task_started :: "task_kind \<Rightarrow> resource_state \<Rightarrow> resource_state" where
  "task_started k s =
     (case k of
        KindInference \<Rightarrow> s\<lparr>rs_active_inference_tasks := rs_active_inference_tasks s + 1\<rparr>
      | KindWasm \<Rightarrow> s\<lparr>rs_active_wasm_tasks := rs_active_wasm_tasks s + 1\<rparr>
      | KindWeb \<Rightarrow> s\<lparr>rs_active_web_tasks := rs_active_web_tasks s + 1\<rparr>)"

definition task_completed :: "task_kind \<Rightarrow> resource_state \<Rightarrow> resource_state" where
  "task_completed k s =
     (case k of
        KindInference \<Rightarrow> s\<lparr>rs_active_inference_tasks := sat_sub (rs_active_inference_tasks s) 1\<rparr>
      | KindWasm \<Rightarrow> s\<lparr>rs_active_wasm_tasks := sat_sub (rs_active_wasm_tasks s) 1\<rparr>
      | KindWeb \<Rightarrow> s\<lparr>rs_active_web_tasks := sat_sub (rs_active_web_tasks s) 1\<rparr>)"

subsection \<open>The router\<close>

record router_config =
  rc_local_utilization_threshold :: f64
  rc_offload_threshold :: f64
  rc_allow_network_offload :: bool
  rc_max_concurrent_inference :: u32
  rc_max_concurrent_wasm :: u32
  rc_local_preference_factor :: f64

definition default_router_config :: router_config where
  "default_router_config =
     \<lparr>rc_local_utilization_threshold = f_lit 8 10, rc_offload_threshold = f_lit 9 10,
      rc_allow_network_offload = True, rc_max_concurrent_inference = 2, rc_max_concurrent_wasm = 10,
      rc_local_preference_factor = f_lit 12 10\<rparr>"

record peer_filter =
  pf_min_ram_mb :: "u32 option"
  pf_min_vram_mb :: "u32 option"
  pf_min_cpu_cores :: "u16 option"
  pf_required_model :: "string option"
  pf_required_capabilities :: "string list"

datatype routing_decision =
    ExecuteLocally
  | OffloadToNetwork peer_filter
  | InsufficientResources string

definition utilization :: "resource_state \<Rightarrow> f64" where
  "utilization s = f_sub (f_of_int 1) (available_capacity s)"

definition should_execute_locally ::
  "router_config \<Rightarrow> resource_state \<Rightarrow> resource_requirements \<Rightarrow> 'j execution_task \<Rightarrow> bool" where
  "should_execute_locally c s r task =
     (if \<not> rs_can_handle s r then False
      else if (case task of InferenceT t \<Rightarrow> has_model s (it_model t) | _ \<Rightarrow> False) then True
      else if f_lt (rc_local_utilization_threshold c) (utilization s) then False
      else
        (case task of
           InferenceT _ \<Rightarrow> \<not> rc_max_concurrent_inference c \<le> rs_active_inference_tasks s
         | WasmExecutionT _ \<Rightarrow> \<not> rc_max_concurrent_wasm c \<le> rs_active_wasm_tasks s
         | _ \<Rightarrow> True))"

definition should_offload :: "router_config \<Rightarrow> resource_state \<Rightarrow> resource_requirements \<Rightarrow> bool" where
  "should_offload c s r =
     (if \<not> rs_can_handle s r then rc_allow_network_offload c
      else if f_lt (rc_offload_threshold c) (utilization s) then rc_allow_network_offload c
      else False)"

definition build_insufficient_reason ::
  "router_config \<Rightarrow> resource_state \<Rightarrow> resource_requirements \<Rightarrow> string" where
  "build_insufficient_reason c s r =
     (let ram =
            (if rs_ram_available_mb s < rr_ram_mb r
             then [''need '' @ show_word (rr_ram_mb r) @ ''MB RAM, have '' @
                   show_word (rs_ram_available_mb s) @ ''MB''] else []);
          vram =
            (case rr_vram_mb r of
               None \<Rightarrow> []
             | Some v \<Rightarrow>
                 (case rs_vram_available_mb s of
                    None \<Rightarrow> [''GPU required but not available'']
                  | Some a \<Rightarrow>
                      if a < v
                      then [''need '' @ show_word v @ ''MB VRAM, have '' @ show_word a @ ''MB'']
                      else []));
          off = (if rc_allow_network_offload c then [] else [''network offload disabled'']);
          reasons = ram @ vram @ off
      in if reasons = [] then ''unknown resource constraint'' else join_with ''; '' reasons)"

definition to_job_requirements :: "resource_requirements \<Rightarrow> 'j execution_task \<Rightarrow> peer_filter" where
  "to_job_requirements r task =
     \<lparr>pf_min_ram_mb = Some (rr_ram_mb r), pf_min_vram_mb = rr_vram_mb r,
      pf_min_cpu_cores = Some (rr_cpu_cores r),
      pf_required_model = (case task of InferenceT t \<Rightarrow> Some (it_model t) | _ \<Rightarrow> None),
      pf_required_capabilities =
        (case task of
           InferenceT _ \<Rightarrow> [''inference'']
         | WasmExecutionT _ \<Rightarrow> [''wasm'']
         | _ \<Rightarrow> [''web_proxy''])\<rparr>"

definition route_with_requirements ::
  "router_config \<Rightarrow> resource_state \<Rightarrow> 'j execution_task \<Rightarrow> resource_requirements \<Rightarrow> routing_decision"
where
  "route_with_requirements c s task r =
     (if should_execute_locally c s r task then ExecuteLocally
      else if should_offload c s r then OffloadToNetwork (to_job_requirements r task)
      else InsufficientResources (build_insufficient_reason c s r))"

definition route :: "router_config \<Rightarrow> resource_state \<Rightarrow> 'j execution_task \<Rightarrow> routing_decision" where
  "route c s task = route_with_requirements c s task (estimate_requirements task)"

definition satisfied_by :: "peer_filter \<Rightarrow> resource_state \<Rightarrow> bool" where
  "satisfied_by f s =
     (if (case pf_min_ram_mb f of None \<Rightarrow> False | Some n \<Rightarrow> rs_ram_available_mb s < n) then False
      else if (case pf_min_vram_mb f of None \<Rightarrow> False
               | Some n \<Rightarrow> (case rs_vram_available_mb s of None \<Rightarrow> True | Some v \<Rightarrow> \<not> n \<le> v)) then False
      else if (case pf_required_model f of None \<Rightarrow> False | Some m \<Rightarrow> \<not> has_model s m) then False
      else True)"

end
