(* ===== verification/Job_Network.thy ===== *)
theory Job_Network
  imports Job_Manager Router
begin

section \<open>Jobs over the network\<close>

text \<open>
  Models \<^verbatim>\<open>src/executor/remote.rs\<close> and the job messages of \<open>Runtime::handle_gossip_message\<close> in
  \<^verbatim>\<open>src/runtime.rs\<close>: the provider that bids on requests, the handler of received messages, and
  the executor that offers a task to the network and waits for its result. A node is the job
  manager, which the runtime keeps behind one lock, the requests the provider has bid on, and what
  was published. Received bytes are decoded by a parameter; running a task as a provider is a
  parameter too. A panic ends the calling task and leaves the state as it was by then.
\<close>

record node_env = jm_env +
  ne_deserialize :: "u8 list \<Rightarrow> job_message option"
  ne_serialize_error :: string
  ne_publish_error :: "string option"
  ne_run :: "job_request \<Rightarrow> job_result option" \<comment> \<open>the result for a request, None: a panic\<close>

record job_node =
  jn_manager :: job_manager
  jn_pending :: "(job_id, job_request) hmap"
  jn_peer :: string
  jn_published :: "job_broadcast list"

abbreviation jm_of :: "node_env \<Rightarrow> jm_env" where
  "jm_of e \<equiv> jm_env.truncate e"

definition publish :: "node_env \<Rightarrow> string \<Rightarrow> u8 list \<Rightarrow> job_node \<Rightarrow> (unit, string) outcome \<times> job_node" where
  "publish e topic data n =
     (case ne_publish_error e of
        Some x \<Rightarrow> (Err x, n)
      | None \<Rightarrow> (Ok (), n\<lparr>jn_published := jn_published n @ [\<lparr>jbc_topic = topic, jbc_data = data\<rparr>]\<rparr>))"

text \<open>Serialise, then publish.\<close>

definition publish_message :: "node_env \<Rightarrow> string \<Rightarrow> job_message \<Rightarrow> job_node \<Rightarrow> (unit, string) outcome \<times> job_node"
where
  "publish_message e topic msg n =
     (case je_serialize e msg of
        None \<Rightarrow> (Err (ne_serialize_error e), n)
      | Some data \<Rightarrow> publish e topic data n)"

text \<open>The encoders and decoders of third-party libraries, and \<open>from_utf8_lossy\<close>.\<close>

record 'j task_codec =
  tc_encode :: "'j execution_task \<Rightarrow> u8 list option"
  tc_encode_error :: string
  tc_utf8_lossy :: "u8 list \<Rightarrow> string"
  tc_json :: "u8 list \<Rightarrow> 'j"

subsection \<open>The provider\<close>

text \<open>
  What a provider returns for a request, given the local executor: \<open>ne_run\<close> of the environment is
  \<open>provider_job_result\<close> of the executor at hand. An error is sent as the text of the result.
\<close>

definition provider_job_result ::
  "'k crypto \<Rightarrow> 'j task_codec \<Rightarrow> ('j execution_task \<Rightarrow> ('j task_result, string) outcome) \<Rightarrow>
     job_request \<Rightarrow> job_result option" where
  "provider_job_result c codec exec q =
     (let payload = (case rq_payload q of None \<Rightarrow> [] | Some b \<Rightarrow> b);
          text_result = (\<lambda>s. job_result_new c (str_bytes s));
          prompt = tc_utf8_lossy codec payload
      in case rq_resource_type q of
           Inference model tokens \<Rightarrow>
             (case exec (InferenceT (with_max_tokens tokens
                      (inference_task_new model (if prompt = [] then ''Hello'' else prompt)))) of
                Ok t \<Rightarrow>
                  (case tr_data t of
                     InferenceD r \<Rightarrow>
                       Some (with_metrics
                         \<lparr>em_ttfb_ms = tm_ttfb_ms (tr_metrics t),
                          em_total_time_ms = tm_total_time_ms (tr_metrics t),
                          em_tokens_per_sec = Some (ir_tokens_per_second r)\<rparr>
                         (with_usage
                           \<lparr>au_tokens = Some (ir_tokens_generated r),
                            au_compute_time_ms = Some (tm_total_time_ms (tr_metrics t)),
                            au_bytes = None\<rparr> (text_result (ir_text r))))
                   | _ \<Rightarrow> Some (text_result ''Unexpected result type''))
              | Err x \<Rightarrow> Some (text_result (''Error: '' @ x))
              | Panic \<Rightarrow> None)
         | WebFetch _ \<Rightarrow>
             (case exec (WebFetchT (web_fetch_get prompt)) of
                Ok t \<Rightarrow>
                  (case tr_data t of
                     WebFetchD r \<Rightarrow>
                       Some (with_usage
                         \<lparr>au_tokens = None, au_compute_time_ms = Some (tm_total_time_ms (tr_metrics t)),
                          au_bytes = Some (word_of_nat (length (wfr_body r)))\<rparr>
                         (job_result_new c (wfr_body r)))
                   | _ \<Rightarrow> Some (text_result ''Unexpected result type''))
              | Err x \<Rightarrow> Some (text_result (''Error: '' @ x))
              | Panic \<Rightarrow> None)
         | _ \<Rightarrow> Some (text_result ''Unsupported resource type''))"

definition handle_request :: "node_env \<Rightarrow> job_request_message \<Rightarrow> job_node \<Rightarrow> (unit, string) outcome \<times> job_node"
where
  "handle_request e msg n =
     (if rm_requester_peer_id msg = jn_peer n then (Ok (), n)
      else
        (case evaluate_request (jm_of e) (rm_request msg) (jn_manager n) of
           Ok (Some bid) \<Rightarrow>
             let bid = bid\<lparr>bid_bidder := jn_peer n\<rparr>;
                 n = n\<lparr>jn_pending := hm_insert (rq_id (rm_request msg)) (rm_request msg) (jn_pending n)\<rparr>
             in publish_message e JOB_BIDS (MsgBid (bid_message_new bid (jn_peer n))) n
         | Ok None \<Rightarrow> (Ok (), n)
         | Err _ \<Rightarrow> (Ok (), n)
         | Panic \<Rightarrow> (Panic, n)))"

definition handle_bid_accepted :: "bid_accepted_message \<Rightarrow> job_node \<Rightarrow> job_node" where
  "handle_bid_accepted msg n =
     (if am_winner_peer_id msg \<noteq> jn_peer n then n
      else n\<lparr>jn_pending := hm_remove (am_job_id msg) (jn_pending n)\<rparr>)"

definition get_pending_request :: "job_node \<Rightarrow> job_id \<Rightarrow> job_request option" where
  "get_pending_request n i = hm_get (jn_pending n) i"

definition remove_pending_request :: "job_id \<Rightarrow> job_node \<Rightarrow> job_node" where
  "remove_pending_request i n = n\<lparr>jn_pending := hm_remove i (jn_pending n)\<rparr>"

text \<open>Errors of the two broadcasts are dropped.\<close>

definition execute_provider_job ::
  "node_env \<Rightarrow> job_id \<Rightarrow> job_request \<Rightarrow> job_node \<Rightarrow> (unit, unit) outcome \<times> job_node" where
  "execute_provider_job e i q n =
     (let started = \<lparr>um_job_id = i, um_status = UpdStarted, um_peer_id = jn_peer n,
                     um_timestamp = unix_secs (env_now e)\<rparr>;
          n = snd (publish_message e JOB_STATUS (MsgStatusUpdate started) n)
      in case ne_run e q of
           None \<Rightarrow> (Panic, n)
         | Some r \<Rightarrow>
             let res = \<lparr>sm_job_id = i, sm_result = r, sm_provider_peer_id = jn_peer n,
                        sm_signature = []\<rparr>;
                 n = snd (publish_message e JOB_STATUS (MsgResult res) n)
             in (Ok (), remove_pending_request i n))"

subsection \<open>Received messages\<close>

text \<open>A received result is stored and the job settled at once, under the lock of the manager.\<close>

definition handle_result :: "node_env \<Rightarrow> job_result_message \<Rightarrow> job_node \<Rightarrow> job_node" where
  "handle_result e msg n =
     (case submit_result (sm_job_id msg) (sm_result msg) (jn_manager n) of
        (Ok _, m) \<Rightarrow> n\<lparr>jn_manager := snd (settle_job (jm_of e) (sm_job_id msg) True m)\<rparr>
      | (_, m) \<Rightarrow> n\<lparr>jn_manager := m\<rparr>)"

definition handle_gossip_message :: "node_env \<Rightarrow> string \<Rightarrow> u8 list \<Rightarrow> job_node \<Rightarrow> job_node" where
  "handle_gossip_message e topic data n =
     (if topic = JOB_REQUESTS then
        (case ne_deserialize e data of
           Some (MsgRequest msg) \<Rightarrow> snd (handle_request e msg n)
         | _ \<Rightarrow> n)
      else if topic = JOB_BIDS then
        (case ne_deserialize e data of
           Some (MsgBid msg) \<Rightarrow> n\<lparr>jn_manager := snd (receive_bid (bm_bid msg) (jn_manager n))\<rparr>
         | _ \<Rightarrow> n)
      else if topic = JOB_STATUS then
        (case ne_deserialize e data of
           Some (MsgBidAccepted msg) \<Rightarrow>
             if am_winner_peer_id msg = jn_peer n
             then
               (case get_pending_request n (am_job_id msg) of
                  Some q \<Rightarrow>
                    (case execute_provider_job e (am_job_id msg) q n of
                       (Panic, n) \<Rightarrow> n
                     | (_, n) \<Rightarrow> handle_bid_accepted msg n)
                | None \<Rightarrow> handle_bid_accepted msg n)
             else handle_bid_accepted msg n
         | Some (MsgResult msg) \<Rightarrow> handle_result e msg n
         | _ \<Rightarrow> n)
      else n)"

subsection \<open>Offering a task to the network\<close>

datatype executor_error =
    InsufficientRes string
  | NetworkUnavailable
  | WebError string
  | InferenceError string
  | WasmError string
  | ExecTimeout
  | ExecCancelled

record remote_executor_config =
  rx_bid_collection_timeout_secs :: u64
  rx_result_timeout_secs :: u64
  rx_max_price_multiplier :: f64

definition default_remote_executor_config :: remote_executor_config where
  "default_remote_executor_config =
     \<lparr>rx_bid_collection_timeout_secs = 10, rx_result_timeout_secs = 300,
      rx_max_price_multiplier = f_of_int 2\<rparr>"

definition task_to_request ::
  "node_env \<Rightarrow> 'j task_codec \<Rightarrow> 'j execution_task \<Rightarrow> (job_request, executor_error) outcome" where
  "task_to_request e c task =
     (let (resource, budget, timeout) =
            (case task of
               InferenceT t \<Rightarrow>
                 (Inference (it_model t) (it_max_tokens t), to_micro (f_of_int 10), 300)
             | WebFetchT t \<Rightarrow> (WebFetch 1, to_micro (f_of_int 1), ucast (wf_timeout_secs t))
             | WebSearchT _ \<Rightarrow> (WebFetch 10, to_micro (f_of_int 2), 60)
             | WasmExecutionT t \<Rightarrow>
                 (WasmTool (wt_tool_hash t) 1, to_micro (f_of_int 5), ucast (wt_timeout_secs t)))
      in case job_request_new e resource budget timeout of
           None \<Rightarrow> Panic
         | Some q \<Rightarrow>
             (case tc_encode c task of
                None \<Rightarrow> Err (InferenceError (tc_encode_error c))
              | Some payload \<Rightarrow> Ok (with_payload payload q)))"

definition map_error :: "('e \<Rightarrow> 'f) \<Rightarrow> ('a, 'e) outcome \<times> 's \<Rightarrow> ('a, 'f) outcome \<times> 's" where
  "map_error f r = (case r of (Ok a, s) \<Rightarrow> (Ok a, s) | (Err x, s) \<Rightarrow> (Err (f x), s) | (Panic, s) \<Rightarrow> (Panic, s))"

definition broadcast_request :: "node_env \<Rightarrow> job_request \<Rightarrow> job_node \<Rightarrow> (unit, executor_error) outcome \<times> job_node"
where
  "broadcast_request e q n =
     (case je_serialize e (MsgRequest (request_message_new q (jn_peer n))) of
        None \<Rightarrow> (Err (InferenceError (ne_serialize_error e)), n)
      | Some data \<Rightarrow>
          let n = n\<lparr>jn_manager := snd (create_request (jm_of e) q (jn_manager n))\<rparr>
          in map_error InferenceError (publish e JOB_REQUESTS data n))"

text \<open>The filter the router made is not looked at.\<close>

definition collect_bids :: "job_node \<Rightarrow> job_id \<Rightarrow> peer_filter \<Rightarrow> job_bid list" where
  "collect_bids n i f = get_bids (jn_manager n) i"

definition remote_select_best_bid :: "job_bid list \<Rightarrow> job_bid option" where
  "remote_select_best_bid bids = max_by (compare_scores (Some 100)) bids"

text \<open>\<open>show_err\<close> is the text of a job error.\<close>

definition remote_accept ::
  "(job_error \<Rightarrow> string) \<Rightarrow> node_env \<Rightarrow> job_id \<Rightarrow> job_bid \<Rightarrow> job_node \<Rightarrow> (unit, executor_error) outcome \<times> job_node"
where
  "remote_accept show_err e i bid n =
     (case accept_bid (jm_of e) i (bid_id_of bid) (jn_manager n) of
        (Err x, m) \<Rightarrow> (Err (InferenceError (show_err x)), n\<lparr>jn_manager := m\<rparr>)
      | (Panic, m) \<Rightarrow> (Panic, n\<lparr>jn_manager := m\<rparr>)
      | (Ok j, m) \<Rightarrow>
          let msg = \<lparr>am_job_id = i, am_bid_id = bid_id_of bid, am_winner_peer_id = bid_bidder bid,
                     am_escrow_id = jb_escrow_id j, am_signature = []\<rparr>
          in map_error InferenceError (publish_message e JOB_STATUS (MsgBidAccepted msg) (n\<lparr>jn_manager := m\<rparr>)))"

text \<open>
  The waiting loop reads the job every 100 milliseconds until it has a result. \<open>run k\<close> is the node
  at the \<open>k\<close>-th reading, \<open>polls\<close> the number of readings before the time-out.
\<close>

definition wait_poll :: "job_id \<Rightarrow> job_node \<Rightarrow> job_result option" where
  "wait_poll i n = (case get_job (jn_manager n) i of None \<Rightarrow> None | Some j \<Rightarrow> jb_result j)"

fun wait_for_result :: "nat \<Rightarrow> nat \<Rightarrow> (nat \<Rightarrow> job_node) \<Rightarrow> job_id \<Rightarrow> (nat \<times> job_result) option" where
  "wait_for_result 0 k run i = None"
| "wait_for_result (Suc polls) k run i =
     (case wait_poll i (run k) of
        Some r \<Rightarrow> Some (k, r)
      | None \<Rightarrow> wait_for_result polls (Suc k) run i)"

definition poll_count :: "remote_executor_config \<Rightarrow> nat" where
  "poll_count c = 10 * unat (rx_result_timeout_secs c)"

definition execute_with_bid ::
  "(job_error \<Rightarrow> string) \<Rightarrow> remote_executor_config \<Rightarrow> node_env \<Rightarrow> (job_node \<Rightarrow> nat \<Rightarrow> job_node) \<Rightarrow>
     job_id \<Rightarrow> job_bid \<Rightarrow> job_node \<Rightarrow> (job_result, executor_error) outcome \<times> job_node" where
  "execute_with_bid show_err c e waiting i bid n =
     (case remote_accept show_err e i bid n of
        (Err x, n) \<Rightarrow> (Err x, n)
      | (Panic, n) \<Rightarrow> (Panic, n)
      | (Ok _, n) \<Rightarrow>
          (case wait_for_result (poll_count c) 0 (waiting n) i of
             None \<Rightarrow> (Err ExecTimeout, waiting n (poll_count c))
           | Some (k, r) \<Rightarrow>
               (case settle_job (jm_of e) i True (jn_manager (waiting n k)) of
                  (Ok _, m) \<Rightarrow> (Ok r, (waiting n k)\<lparr>jn_manager := m\<rparr>)
                | (Err x, m) \<Rightarrow> (Err (InferenceError (show_err x)), (waiting n k)\<lparr>jn_manager := m\<rparr>)
                | (Panic, m) \<Rightarrow> (Panic, (waiting n k)\<lparr>jn_manager := m\<rparr>))))"

definition result_to_task_data :: "'j task_codec \<Rightarrow> 'j execution_task \<Rightarrow> job_result \<Rightarrow> 'j task_data" where
  "result_to_task_data c task r =
     (case task of
        InferenceT _ \<Rightarrow>
          InferenceD \<lparr>ir_text = tc_utf8_lossy c (jr_data r),
            ir_tokens_generated = (case au_tokens (jr_actual_usage r) of None \<Rightarrow> 0 | Some t \<Rightarrow> t),
            ir_tokens_per_second =
              (case em_tokens_per_sec (jr_metrics r) of None \<Rightarrow> f_of_int 0 | Some x \<Rightarrow> x),
            ir_finish_reason = FinishStop\<rparr>
      | WebFetchT _ \<Rightarrow> WebFetchD \<lparr>wfr_status = 200, wfr_headers = [], wfr_body = jr_data r\<rparr>
      | WebSearchT _ \<Rightarrow> WebSearchD []
      | WasmExecutionT _ \<Rightarrow> WasmD \<lparr>wr_value = tc_json c (jr_data r), wr_fuel_consumed = 0\<rparr>)"

text \<open>
  \<open>bidding\<close> is what the rest of the node does while the executor collects bids; \<open>elapsed\<close> is the
  measured time.
\<close>

definition remote_execute ::
  "(job_error \<Rightarrow> string) \<Rightarrow> remote_executor_config \<Rightarrow> node_env \<Rightarrow> 'j task_codec \<Rightarrow>
     (job_node \<Rightarrow> job_node) \<Rightarrow> (job_node \<Rightarrow> nat \<Rightarrow> job_node) \<Rightarrow> u64 \<Rightarrow>
     string \<Rightarrow> 'j execution_task \<Rightarrow> peer_filter \<Rightarrow> job_node \<Rightarrow>
     ('j task_result, executor_error) outcome \<times> job_node" where
  "remote_execute show_err c e codec bidding waiting elapsed task_id task f n =
     (case task_to_request e codec task of
        Err x \<Rightarrow> (Err x, n)
      | Panic \<Rightarrow> (Panic, n)
      | Ok q \<Rightarrow>
          (case broadcast_request e q n of
             (Err x, n) \<Rightarrow> (Err x, n)
           | (Panic, n) \<Rightarrow> (Panic, n)
           | (Ok _, n) \<Rightarrow>
               let n = bidding n; i = rq_id q in
               (case remote_select_best_bid (collect_bids n i f) of
                  None \<Rightarrow> (Err (InsufficientRes ''No peers available to handle task''), n)
                | Some bid \<Rightarrow>
                    (case execute_with_bid show_err c e waiting i bid n of
                       (Err x, n) \<Rightarrow> (Err x, n)
                     | (Panic, n) \<Rightarrow> (Panic, n)
                     | (Ok r, n) \<Rightarrow>
                         (Ok \<lparr>tr_task_id = task_id, tr_location = RemoteRun (bid_bidder bid) i,
                              tr_data = result_to_task_data codec task r,
                              tr_metrics = \<lparr>tm_ttfb_ms = em_ttfb_ms (jr_metrics r),
                                            tm_total_time_ms = elapsed, tm_queue_time_ms = 0\<rparr>,
                              tr_cost = Some (bid_price bid)\<rparr>, n)))))"

end
