(* ===== verification/Job_Network_Props.thy ===== *)
theory Job_Network_Props
  imports Job_Network Job_Life_Props
begin

section \<open>Properties of jobs over the network and of routing\<close>

subsection \<open>Signatures\<close>

definition demo_crypto_all :: "u8 list crypto" where
  "demo_crypto_all =
     \<lparr>hex_encode = (\<lambda>_. []), hex_decode = (\<lambda>_. None), key_from_bytes = Some,
      key_verify = (\<lambda>k b s. take 1 s = take 1 b), blake3_hex = (\<lambda>_. [])\<rparr>"

text \<open>The signature of a bid or request message binds only the sender and the job: exchanging the
  bid for any other bid on the same job, at any price, or the request for one with any budget and
  payload, leaves a verified message verified.\<close>

theorem signatures_ignore_terms:
  assumes "bid_job_id b' = bid_job_id (bm_bid bm)" and "rq_id q' = rq_id (rm_request rm)"
  shows "bid_message_verify c key (bm\<lparr>bm_bid := b'\<rparr>) = bid_message_verify c key bm \<and>
    request_message_verify c key (rm\<lparr>rm_request := q'\<rparr>) = request_message_verify c key rm"
  using assms
  by (simp add: bid_message_verify_def bid_signable_bytes_def request_message_verify_def
      request_signable_bytes_def)

theorem signatures_ignore_terms_witness:
  "bid_message_verify demo_crypto_all []
     \<lparr>bm_bid = job_bid_demo ''b1'' 70, bm_bidder_peer_id = ''bob'', bm_signature = replicate 64 106\<rparr> \<and>
   bid_message_verify demo_crypto_all []
     \<lparr>bm_bid = job_bid_demo ''b1'' 1, bm_bidder_peer_id = ''bob'', bm_signature = replicate 64 106\<rparr>"
proof -
  let ?bm = "\<lparr>bm_bid = job_bid_demo ''b1'' 70, bm_bidder_peer_id = ''bob'', bm_signature = replicate 64 106\<rparr>"
  have "bid_message_verify demo_crypto_all [] ?bm"
    by (simp add: bid_message_verify_def demo_crypto_all_def bid_signable_bytes_def str_bytes_def)
  moreover from signatures_ignore_terms [of "job_bid_demo ''b1'' 1" ?bm job_request_demo
      "request_message_new job_request_demo ''me''" demo_crypto_all "[]"]
  have "bid_message_verify demo_crypto_all [] (?bm\<lparr>bm_bid := job_bid_demo ''b1'' 1\<rparr>) =
      bid_message_verify demo_crypto_all [] ?bm"
    by (simp add: job_bid_demo_def request_message_new_def)
  ultimately show ?thesis by simp
qed

subsection \<open>Received results\<close>

lemma submit_result_Some:
  assumes "get_job m i = Some j"
  shows "submit_result i r m =
    (Ok (), m\<lparr>jm_active := hm_insert i (j\<lparr>jb_result := Some r, jb_status := JobPendingVerification\<rparr>) (jm_active m)\<rparr>)"
  using assms by (simp add: submit_result_def get_job_def)

lemma handle_result_active:
  "jm_active (jn_manager (handle_result e msg n)) =
     (if get_job (jn_manager n) (sm_job_id msg) = None then jm_active (jn_manager n)
      else hm_remove (sm_job_id msg) (jm_active (jn_manager n)))"
proof (cases "get_job (jn_manager n) (sm_job_id msg)")
  case None
  then show ?thesis by (simp add: handle_result_def submit_result_def get_job_def)
next
  case (Some j)
  let ?m = "snd (submit_result (sm_job_id msg) (sm_result msg) (jn_manager n))"
  have "hm_get (jm_active ?m) (sm_job_id msg) =
      Some (j\<lparr>jb_result := Some (sm_result msg), jb_status := JobPendingVerification\<rparr>)"
    by (simp add: submit_result_Some [OF Some])
  from settle_job_frame(1) [OF this] Some show ?thesis
    by (simp add: handle_result_def submit_result_Some [OF Some] delete_update_same)
qed

text \<open>Whoever sends it, an unsigned result message for an active job completes the job and
  releases its payment: neither the sender, nor the provider it names, nor its signature, nor the
  data are looked at.\<close>

theorem anyone_settles_job:
  assumes "job_inv (jn_manager n)" and "get_job (jn_manager n) i = Some j" and "bid_price (jb_bid j) \<noteq> 0"
    and "wallet_ready (call_env.truncate (jm_of e)) t (jm_wallet (jn_manager n))"
    and "env_store_error (je_second (jm_of e)) = None"
    and "ne_deserialize e data = Some (MsgResult \<lparr>sm_job_id = i, sm_result = r,
        sm_provider_peer_id = anyone, sm_signature = anything\<rparr>)"
  shows "let n' = handle_gossip_message e JOB_STATUS data n in
    get_job (jn_manager n') i = None \<and>
    jb_status (last (jm_completed (jn_manager n'))) = JobCompleted \<and>
    jb_result (last (jm_completed (jn_manager n'))) = Some r \<and>
    held_by (jm_wallet (jn_manager n')) (jb_escrow_id j) = None"
proof -
  let ?m = "jn_manager n" and ?j = "j\<lparr>jb_result := Some r, jb_status := JobPendingVerification\<rparr>"
  have h: "held_by (jm_wallet ?m) (jb_escrow_id j) = Some (unat (bid_price (jb_bid j)))"
    using job_invD(2) [OF assms(1)] assms(2) by (simp add: get_job_def)
  have "0 < unat (bid_price (jb_bid j))" using assms(3) by (simp add: unat_gt_0)
  from settle_payment_Ok [OF job_invD(1) [OF assms(1)] assms(4) h this assms(5), of i True] obtain w
    where w: "settle_payment (jm_of e) i (jb_escrow_id j) True (jm_wallet ?m) = (Ok (), w)"
      "held_by w = (held_by (jm_wallet ?m))(jb_escrow_id j := None)"
    by blast
  then show ?thesis
    by (simp add: handle_gossip_message_def JOB_STATUS_def JOB_REQUESTS_def JOB_BIDS_def assms(6)
        handle_result_def submit_result_Some [OF assms(2)] settle_job_def Let_def get_job_def)
qed

subsection \<open>Waiting for a result\<close>

text \<open>
  The steps of a node while its remote executor waits. Results come from the network only: a job
  the node runs for itself (\<open>execute_job_locally\<close> of the serve command) is another matter.
\<close>

inductive node_step :: "job_node \<Rightarrow> job_node \<Rightarrow> bool" where
  ns_gossip: "node_step n (handle_gossip_message e topic data n)"
| ns_request: "node_step n (n\<lparr>jn_manager := snd (create_request e q (jn_manager n))\<rparr>)"
| ns_bid: "node_step n (n\<lparr>jn_manager := snd (submit_bid e q (jn_manager n))\<rparr>)"
| ns_accept: "node_step n (n\<lparr>jn_manager := snd (accept_bid e i b (jn_manager n))\<rparr>)"
| ns_start: "node_step n (n\<lparr>jn_manager := snd (start_job now i (jn_manager n))\<rparr>)"
| ns_settle: "node_step n (n\<lparr>jn_manager := snd (settle_job e i success (jn_manager n))\<rparr>)"
| ns_wallet: "node_step n (n\<lparr>jn_manager := (jn_manager n)\<lparr>jm_wallet := w\<rparr>\<rparr>)"
| ns_pricing: "node_step n (n\<lparr>jn_manager := set_pricing p (jn_manager n)\<rparr>)"

definition no_results :: "job_node \<Rightarrow> bool" where
  "no_results n \<longleftrightarrow> (\<forall>i. wait_poll i n = None)"

lemma no_results_iff:
  "no_results n \<longleftrightarrow> (\<forall>i j. hm_get (jm_active (jn_manager n)) i = Some j \<longrightarrow> jb_result j = None)"
  by (auto simp: no_results_def wait_poll_def get_job_def split: option.splits)

lemma no_results_cong:
  "no_results n \<Longrightarrow> jm_active (jn_manager n') = jm_active (jn_manager n) \<Longrightarrow> no_results n'"
  by (simp add: no_results_iff)

lemma publish_frame [simp]: "jn_manager (snd (publish_message e topic msg n)) = jn_manager n"
  by (simp add: publish_message_def publish_def split: option.split)

lemma handle_request_frame [simp]: "jn_manager (snd (handle_request e msg n)) = jn_manager n"
  by (auto simp: handle_request_def Let_def split: outcome.split option.split)

lemma provider_frame [simp]: "jn_manager (snd (execute_provider_job e i q n)) = jn_manager n"
  by (simp add: execute_provider_job_def Let_def remove_pending_request_def split: option.split)

lemma accepted_frame [simp]: "jn_manager (handle_bid_accepted msg n) = jn_manager n"
  by (simp add: handle_bid_accepted_def)

lemma receive_bid_frame [simp]: "jm_active (snd (receive_bid b m)) = jm_active m"
  by (simp add: receive_bid_def split: option.split)

lemma gossip_active:
  "jm_active (jn_manager (handle_gossip_message e topic data n)) = jm_active (jn_manager n) \<or>
   (\<exists>i. jm_active (jn_manager (handle_gossip_message e topic data n)) = hm_remove i (jm_active (jn_manager n)))"
proof -
  have p: "jn_manager (case execute_provider_job e i q n of (Panic, n) \<Rightarrow> n
      | (_, n) \<Rightarrow> handle_bid_accepted msg n) = jn_manager n" for i q msg
    using provider_frame [of e i q n]
    by (cases "execute_provider_job e i q n") (auto split: outcome.split simp del: provider_frame)
  show ?thesis
    by (auto simp: handle_gossip_message_def p handle_result_active split: option.split job_message.split)
qed

lemma accept_active:
  "jm_active (snd (accept_bid e i b m)) = jm_active m \<or>
   (\<exists>j. jm_active (snd (accept_bid e i b m)) = hm_insert i j (jm_active m) \<and> jb_result j = None)"
  by (auto simp: accept_bid_def accept_commit_def Let_def split: outcome.splits prod.splits)

lemma settle_active:
  "jm_active (snd (settle_job e i success m)) = jm_active m \<or>
   jm_active (snd (settle_job e i success m)) = hm_remove i (jm_active m)"
proof (cases "hm_get (jm_active m) i")
  case (Some j)
  then show ?thesis by (simp add: settle_job_frame(1))
qed (simp add: settle_job_def)

lemma start_active:
  "no_results n \<Longrightarrow> no_results (n\<lparr>jn_manager := snd (start_job now i (jn_manager n))\<rparr>)"
  by (auto simp: no_results_iff start_job_def split: option.splits if_splits)

lemma node_step_no_results: "node_step n n' \<Longrightarrow> no_results n \<Longrightarrow> no_results n'"
proof (induction rule: node_step.induct)
  case (ns_gossip n e topic data)
  then show ?case
    using gossip_active [of e topic data n] by (auto simp: no_results_iff split: if_splits)
next
  case (ns_accept n e i b)
  then show ?case
    using accept_active [of e i b "jn_manager n"] by (auto simp: no_results_iff split: if_splits)
next
  case (ns_settle n e i success)
  then show ?case
    using settle_active [of e i success "jn_manager n"] by (auto simp: no_results_iff split: if_splits)
next
  case (ns_start n now i)
  then show ?case by (rule start_active)
next
  case (ns_bid n e q)
  then show ?case
    by (elim no_results_cong) (simp add: submit_bid_def split: outcome.split option.split)
qed (auto elim!: no_results_cong simp: create_request_def Let_def set_pricing_def)

lemma wait_None: "(\<And>k. no_results (run k)) \<Longrightarrow> wait_for_result polls k run i = None"
  by (induction polls arbitrary: k) (auto simp: no_results_def)

lemma node_steps_no_results: "node_step\<^sup>*\<^sup>* n n' \<Longrightarrow> no_results n \<Longrightarrow> no_results n'"
  by (induction rule: rtranclp_induct) (auto intro: node_step_no_results)

lemma broadcast_request_no_results:
  assumes "no_results n" and "broadcast_request e q n = (r, n')"
  shows "no_results n'"
proof -
  have "jm_active (jn_manager (snd (broadcast_request e q n))) = jm_active (jn_manager n)"
    by (simp add: broadcast_request_def map_error_def publish_def create_request_def Let_def
        split: option.split)
  then show ?thesis using assms by (intro no_results_cong [OF assms(1)]) simp
qed

lemma remote_accept_no_results:
  assumes "no_results n" and "remote_accept show_err e i bid n = (r, n')"
  shows "no_results n'"
proof -
  have "jn_manager (snd (map_error f x)) = jn_manager (snd x)" for f :: "string \<Rightarrow> executor_error" and x :: "(unit, string) outcome \<times> job_node"
    by (simp add: map_error_def split: prod.split outcome.split)
  then have "jn_manager (snd (remote_accept show_err e i bid n)) =
      snd (accept_bid (jm_of e) i (bid_id_of bid) (jn_manager n))"
    by (simp add: remote_accept_def Let_def split: prod.split outcome.split)
  then have "jn_manager n' = snd (accept_bid (jm_of e) i (bid_id_of bid) (jn_manager n))"
    using assms(2) by simp
  then have "jm_active (jn_manager n') =
      jm_active (jn_manager (n\<lparr>jn_manager := snd (accept_bid (jm_of e) i (bid_id_of bid) (jn_manager n))\<rparr>))"
    by simp
  moreover have "no_results (n\<lparr>jn_manager := snd (accept_bid (jm_of e) i (bid_id_of bid) (jn_manager n))\<rparr>)"
    using node_step_no_results [OF ns_accept assms(1)] .
  ultimately show ?thesis using no_results_cong by blast
qed

definition demo_node_env :: node_env where
  "demo_node_env =
     \<lparr>env_now = 0, env_tx_id = ''tx_1'', env_sweep_tx_id = (\<lambda>j. ''tx_s'' @ j), env_escrow_id = ''e2'',
      env_store_error = None, env_add_secs = demo_add, je_uuid = ''a-1'', je_peer_id = Some,
      je_random_peer = ''rnd'', je_serialize = (\<lambda>_. Some []), je_queue_room = True,
      je_second = demo_env 0 ''unused'',
      ne_deserialize = (\<lambda>d. if d = [1] then Some (MsgBid (bid_message_new (job_bid_demo ''b1'' 70) ''bob''))
         else Some (MsgResult \<lparr>sm_job_id = ''j1'',
           sm_result = job_result_new demo_crypto_all [], sm_provider_peer_id = ''mallory'', sm_signature = []\<rparr>)),
      ne_serialize_error = [], ne_publish_error = None, ne_run = (\<lambda>_. None)\<rparr>"

definition demo_node :: job_node where
  "demo_node =
     \<lparr>jn_manager = demo_jobs\<lparr>jm_active := [(''j1'', job_new 0 job_request_demo (job_bid_demo ''b1'' 50) ''e1'')]\<rparr>,
      jn_pending = [], jn_peer = ''me'', jn_published = []\<rparr>"

theorem anyone_settles_job_witness:
  "get_job (jn_manager (handle_gossip_message demo_node_env JOB_STATUS [2] demo_node)) ''j1'' = None \<and>
   held_by (jm_wallet (jn_manager (handle_gossip_message demo_node_env JOB_STATUS [2] demo_node))) ''e1'' = None"
proof -
  let ?j = "job_new 0 job_request_demo (job_bid_demo ''b1'' 50) ''e1''"
  have "held_by demo_wallet ''e1'' = Some 50"
    by (simp add: held_by_def demo_wallet_def demo_escrow_def)
  then have i: "job_inv (jn_manager demo_node)"
    using demo_wallet_inv by (simp add: demo_node_def job_inv_def)
  have tr: "call_env.truncate (jm_of demo_node_env) = demo_env 0 ''e2''"
    by (simp add: call_env.truncate_def jm_env.truncate_def demo_node_env_def demo_env_def)
  have r: "wallet_ready (call_env.truncate (jm_of demo_node_env)) 300 (jm_wallet (jn_manager demo_node))"
    by (simp add: tr wallet_ready_def demo_env_def demo_node_def demo_wallet_def demo_add_def)
  have s: "env_store_error (je_second (jm_of demo_node_env)) = None"
    by (simp add: jm_env.truncate_def demo_node_env_def demo_env_def)
  have d: "ne_deserialize demo_node_env [2] = Some (MsgResult \<lparr>sm_job_id = ''j1'',
      sm_result = job_result_new demo_crypto_all [], sm_provider_peer_id = ''mallory'', sm_signature = []\<rparr>)"
    by (simp add: demo_node_env_def)
  have j: "get_job (jn_manager demo_node) ''j1'' = Some ?j" by (simp add: demo_node_def get_job_def)
  have p: "bid_price (jb_bid ?j) \<noteq> 0" by simp
  from anyone_settles_job [OF i j p r s d] show ?thesis by (simp add: Let_def)
qed

text \<open>A result that arrives is stored and settled under one lock, which removes the job: the waiting
  loop, which looks for it in the active job, never finds it.\<close>

lemma remote_execute_not_ok:
  assumes "no_results n" and "\<And>m. node_step\<^sup>*\<^sup>* m (bidding m)"
    and "\<And>m k. node_step\<^sup>*\<^sup>* m (waiting m k)"
  shows "\<not> is_ok (fst (remote_execute show_err c e codec bidding waiting elapsed tid task f n))"
proof -
  have b: "\<not> is_ok (fst (execute_with_bid show_err c e waiting i bid m))" if "no_results m" for i bid m
  proof (cases "remote_accept show_err e i bid m")
    case (Pair r m')
    from remote_accept_no_results [OF that Pair]
    have "wait_for_result (poll_count c) 0 (waiting m') i = None"
      using node_steps_no_results [OF assms(3)] by (intro wait_None)
    then show ?thesis using Pair by (simp add: execute_with_bid_def split: outcome.split)
  qed
  show ?thesis
  proof (cases "task_to_request e codec task")
    case (Ok q)
    obtain r m where br: "broadcast_request e q n = (r, m)" by (cases "broadcast_request e q n")
    have "no_results (bidding m)"
      using node_steps_no_results [OF assms(2)] broadcast_request_no_results [OF assms(1) br] .
    from b [OF this] have "\<not> is_ok (fst (execute_with_bid show_err c e waiting i bid (bidding m)))"
      for i bid .
    then show ?thesis
      using Ok br
      by (auto simp: remote_execute_def Let_def is_ok_iff split: outcome.split option.split prod.split)
        (metis fst_conv)
  qed (simp_all add: remote_execute_def)
qed

end
