(* ===== verification/Model_Cache.thy ===== *)
theory Model_Cache
  imports Task
begin

section \<open>Models and the cache of loaded models\<close>

text \<open>
  Models \<^verbatim>\<open>src/inference/{model,cache}.rs\<close> and the registry and loading of models of
  \<^verbatim>\<open>src/inference/mod.rs\<close>. Loading a model into the cache only books its memory; the weights are read
  by the back-end, which is left out. The memory of a model is estimated in \<open>f32\<close>.
\<close>

subsection \<open>Models\<close>

datatype model_architecture =
    ArchLlama | ArchMistral | ArchPhi | ArchQwen | ArchGemma | ArchStableLM | ArchFalcon | ArchMPT | ArchUnknown

datatype quantization =
    QF32 | QF16 | Q8_0 | Q6_K | Q5_K_M | Q4_K_M | Q4_0 | Q3_K_M | Q2_K | QUnknown

record model_info =
  mi_id :: string
  mi_name :: string
  mi_path :: string
  mi_size_bytes :: u64
  mi_architecture :: model_architecture
  mi_quantization :: quantization
  mi_parameters_billions :: f64
  mi_context_length :: u32
  mi_hash :: "string option"

text \<open>The first name a text contains decides.\<close>

definition first_contained :: "(string \<times> 'a) list \<Rightarrow> 'a \<Rightarrow> string \<Rightarrow> 'a" where
  "first_contained table d s =
     (case find (\<lambda>(pat, _). str_contains s pat) table of None \<Rightarrow> d | Some (_, x) \<Rightarrow> x)"

definition architecture_from_name :: "string \<Rightarrow> model_architecture" where
  "architecture_from_name name = first_contained
     [(''llama'', ArchLlama), (''mistral'', ArchMistral), (''phi'', ArchPhi), (''qwen'', ArchQwen),
      (''gemma'', ArchGemma), (''stablelm'', ArchStableLM), (''falcon'', ArchFalcon), (''mpt'', ArchMPT)]
     ArchUnknown (ascii_lower name)"

definition quantization_from_name :: "string \<Rightarrow> quantization" where
  "quantization_from_name name = first_contained
     [(''f32'', QF32), (''f16'', QF16), (''q8_0'', Q8_0), (''q6_k'', Q6_K), (''q5_k_m'', Q5_K_M),
      (''q5_k-m'', Q5_K_M), (''q4_k_m'', Q4_K_M), (''q4_k-m'', Q4_K_M), (''q4_0'', Q4_0),
      (''q3_k_m'', Q3_K_M), (''q3_k-m'', Q3_K_M), (''q2_k'', Q2_K)]
     QUnknown (ascii_lower name)"

fun bits_per_weight :: "quantization \<Rightarrow> f64" where
  "bits_per_weight QF32 = f_of_int 32"
| "bits_per_weight QF16 = f_of_int 16"
| "bits_per_weight Q8_0 = f_of_int 8"
| "bits_per_weight Q6_K = f32_lit 65 10"
| "bits_per_weight Q5_K_M = f32_lit 55 10"
| "bits_per_weight Q4_K_M = f32_lit 45 10"
| "bits_per_weight Q4_0 = f_of_int 4"
| "bits_per_weight Q3_K_M = f32_lit 35 10"
| "bits_per_weight Q2_K = f32_lit 25 10"
| "bits_per_weight QUnknown = f32_lit 45 10"

text \<open>The name is split at its dots too.\<close>

definition parse_parameters :: "string \<Rightarrow> f64" where
  "parse_parameters name =
     (case first_size (split_on (\<lambda>c. c = CHR ''-'' \<or> c = CHR ''_'' \<or> c = CHR '' '' \<or> c = CHR ''.'') name) of
        Some n \<Rightarrow> n
      | None \<Rightarrow> f_of_int 7)"

definition parse_model_filename :: "string \<Rightarrow> model_architecture \<times> f64 \<times> quantization" where
  "parse_model_filename filename =
     (let lower = ascii_lower filename
      in (architecture_from_name lower, parse_parameters lower, quantization_from_name lower))"

text \<open>From the stem of the file's name, when it is UTF-8, and the size of the file.\<close>

definition model_from_path :: "string option \<Rightarrow> string \<Rightarrow> u64 \<Rightarrow> model_info" where
  "model_from_path stem path sz =
     (let filename = (case stem of Some s \<Rightarrow> s | None \<Rightarrow> ''unknown'')
      in (case parse_model_filename filename of (arch, params, quant) \<Rightarrow>
            \<lparr>mi_id = filename, mi_name = filename, mi_path = path, mi_size_bytes = sz, mi_architecture = arch,
             mi_quantization = quant, mi_parameters_billions = params, mi_context_length = 4096, mi_hash = None\<rparr>))"

fun mb_per_billion :: "quantization \<Rightarrow> int" where
  "mb_per_billion QF32 = 4000"
| "mb_per_billion QF16 = 2000"
| "mb_per_billion Q8_0 = 1000"
| "mb_per_billion Q6_K = 750"
| "mb_per_billion Q5_K_M = 625"
| "mb_per_billion Q4_K_M = 500"
| "mb_per_billion Q4_0 = 500"
| "mb_per_billion Q3_K_M = 375"
| "mb_per_billion Q2_K = 250"
| "mb_per_billion QUnknown = 500"

definition estimate_ram_mb :: "model_info \<Rightarrow> u32" where
  "estimate_ram_mb i =
     f_to_u32 (f32_add (f32_mul (mi_parameters_billions i) (f_of_int (mb_per_billion (mi_quantization i)))) (f_of_int 1000))"

definition total_layers :: "f64 \<Rightarrow> int" where
  "total_layers p =
     (if f_le p (f_of_int 3) then 26 else if f_le p (f_of_int 8) then 32 else if f_le p (f_of_int 14) then 40
      else if f_le p (f_of_int 35) then 60 else if f_le p (f_of_int 70) then 80 else 96)"

definition estimate_vram_mb :: "int \<Rightarrow> model_info \<Rightarrow> u32" where
  "estimate_vram_mb gpu_layers i =
     (if gpu_layers = 0 then 0
      else
        let all = total_layers (mi_parameters_billions i);
            n = (if gpu_layers < 0 then all else min gpu_layers all)
        in word_of_int n * (estimate_ram_mb i div word_of_int all))"

subsection \<open>The registry\<close>

type_synonym model_registry = "(string, model_info) hmap"

definition registry_register :: "model_info \<Rightarrow> model_registry \<Rightarrow> model_registry" where
  "registry_register i r = hm_insert (mi_id i) i r"

text \<open>The model of that name, or any whose name begins with it.\<close>

definition registry_get :: "model_registry \<Rightarrow> string \<Rightarrow> model_info option" where
  "registry_get r model =
     (case hm_get r model of
        Some i \<Rightarrow> Some i
      | None \<Rightarrow> find (\<lambda>i. starts_with (mi_id i) model) (map snd r))"

definition registry_remove :: "string \<Rightarrow> model_registry \<Rightarrow> model_info option \<times> model_registry" where
  "registry_remove model r = (hm_get r model, hm_remove model r)"

text \<open>The GGUF files of the directory: what \<open>from_path\<close> makes of each, \<open>None\<close> when it fails.\<close>

definition scan_models :: "model_info option list \<Rightarrow> model_registry \<Rightarrow> nat \<times> model_registry" where
  "scan_models files r =
     (let found = List.map_filter id files
      in (length found, foldl (\<lambda>r i. registry_register i r) r found))"

subsection \<open>The cache\<close>

record loaded_model =
  lm_info :: model_info
  lm_loaded_at :: timestamp
  lm_last_used :: timestamp
  lm_ref_count :: nat

record model_cache =
  mc_models :: "(string, loaded_model) hmap"
  mc_max_models :: nat
  mc_max_memory_mb :: u32
  mc_current_memory_mb :: u32

datatype cache_error =
    AllModelsInUse
  | InsufficientMemory u32 u32
  | CacheModelNotFound string

definition cache_new :: "nat \<Rightarrow> u32 \<Rightarrow> model_cache" where
  "cache_new most memory =
     \<lparr>mc_models = [], mc_max_models = most, mc_max_memory_mb = memory, mc_current_memory_mb = 0\<rparr>"

definition cache_get :: "timestamp \<Rightarrow> string \<Rightarrow> model_cache \<Rightarrow> bool \<times> model_cache" where
  "cache_get now i c =
     (case hm_get (mc_models c) i of
        Some m \<Rightarrow>
          (True, c\<lparr>mc_models := hm_insert i (m\<lparr>lm_last_used := now, lm_ref_count := lm_ref_count m + 1\<rparr>) (mc_models c)\<rparr>)
      | None \<Rightarrow> (False, c))"

definition cache_release :: "string \<Rightarrow> model_cache \<Rightarrow> model_cache" where
  "cache_release i c =
     (case hm_get (mc_models c) i of
        Some m \<Rightarrow> c\<lparr>mc_models := hm_insert i (m\<lparr>lm_ref_count := lm_ref_count m - 1\<rparr>) (mc_models c)\<rparr>
      | None \<Rightarrow> c)"

text \<open>\<open>min_by_key\<close>: of equal keys the first.\<close>

fun least_recent :: "(string \<times> loaded_model) list \<Rightarrow> (string \<times> loaded_model) option" where
  "least_recent [] = None"
| "least_recent (m # ms) =
     (case least_recent ms of
        None \<Rightarrow> Some m
      | Some m' \<Rightarrow> if lm_last_used (snd m') < lm_last_used (snd m) then Some m' else Some m)"

definition evict_lru :: "model_cache \<Rightarrow> cache_error option \<times> model_cache" where
  "evict_lru c =
     (case least_recent (filter (\<lambda>(_, m). lm_ref_count m = 0) (mc_models c)) of
        None \<Rightarrow> (Some AllModelsInUse, c)
      | Some (i, m) \<Rightarrow>
          (None, c\<lparr>mc_models := hm_remove i (mc_models c),
                   mc_current_memory_mb := sat_sub (mc_current_memory_mb c) (estimate_ram_mb (lm_info m))\<rparr>))"

text \<open>Each round takes a model out of the cache, so the number of models bounds the rounds.\<close>

fun evict_until_fits :: "nat \<Rightarrow> u32 \<Rightarrow> model_cache \<Rightarrow> cache_error option \<times> model_cache" where
  "evict_until_fits fuel needed c =
     (if mc_current_memory_mb c + needed \<le> mc_max_memory_mb c then (None, c)
      else if mc_models c = []
      then (Some (InsufficientMemory needed (sat_sub (mc_max_memory_mb c) (mc_current_memory_mb c))), c)
      else
        (case fuel of
           0 \<Rightarrow> (None, c)
         | Suc fuel \<Rightarrow>
             (case evict_lru c of
                (Some x, c) \<Rightarrow> (Some x, c)
              | (None, c) \<Rightarrow> evict_until_fits fuel needed c)))"

declare evict_until_fits.simps [simp del]

definition ensure_capacity :: "u32 \<Rightarrow> model_cache \<Rightarrow> cache_error option \<times> model_cache" where
  "ensure_capacity needed c =
     (let current = mc_current_memory_mb c;
          (r, c) = (if mc_max_models c \<le> length (mc_models c) then evict_lru c else (None, c))
      in (case r of
            Some x \<Rightarrow> (Some x, c)
          | None \<Rightarrow>
              if mc_max_memory_mb c < current + needed then evict_until_fits (length (mc_models c)) needed c
              else (None, c)))"

definition cache_insert :: "loaded_model \<Rightarrow> model_cache \<Rightarrow> cache_error option \<times> model_cache" where
  "cache_insert m c =
     (case ensure_capacity (estimate_ram_mb (lm_info m)) c of
        (Some x, c) \<Rightarrow> (Some x, c)
      | (None, c) \<Rightarrow>
          (None, c\<lparr>mc_models := hm_insert (mi_id (lm_info m)) m (mc_models c),
                   mc_current_memory_mb := mc_current_memory_mb c + estimate_ram_mb (lm_info m)\<rparr>))"

definition cache_clear :: "model_cache \<Rightarrow> cache_error option \<times> model_cache" where
  "cache_clear c =
     (if list_ex (\<lambda>(_, m). 0 < lm_ref_count m) (mc_models c) then (Some AllModelsInUse, c)
      else (None, c\<lparr>mc_models := [], mc_current_memory_mb := 0\<rparr>))"

definition is_loaded :: "string \<Rightarrow> model_cache \<Rightarrow> bool" where
  "is_loaded i c \<longleftrightarrow> hm_get (mc_models c) i \<noteq> None"

definition loaded_models :: "model_cache \<Rightarrow> string list" where
  "loaded_models c = map fst (mc_models c)"

subsection \<open>Loading a model\<close>

datatype inference_error =
    ModelNotFound string
  | LoadFailed string
  | GenerationFailed string
  | CacheFailed cache_error
  | IoFailed string

definition load_model :: "timestamp \<Rightarrow> string \<Rightarrow> model_registry \<Rightarrow> model_cache \<Rightarrow> inference_error option \<times> model_cache" where
  "load_model now i r c =
     (if is_loaded i c then (None, c)
      else
        (case registry_get r i of
           None \<Rightarrow> (Some (ModelNotFound i), c)
         | Some info \<Rightarrow>
             (case cache_insert \<lparr>lm_info = info, lm_loaded_at = now, lm_last_used = now, lm_ref_count = 0\<rparr> c of
                (Some x, c) \<Rightarrow> (Some (CacheFailed x), c)
              | (None, c) \<Rightarrow> (None, c))))"

end
