(* ===== verification/Failover.thy ===== *)
theory Failover
  imports Model_Cache
begin

section \<open>Inference back-ends and failover\<close>

text \<open>
  Models \<^verbatim>\<open>src/inference/failover.rs\<close>, the settings of \<^verbatim>\<open>src/inference/live_settings.rs\<close> and the
  routing of \<open>InferenceEngine::generate\<close>. Running a GGUF model, Ollama and the remote API are
  parameters, as is what an elapsed time makes of the speed; an \<open>Instant\<close> is a time in nanoseconds.
\<close>

record generate_request =
  gq_model :: string
  gq_prompt :: string
  gq_max_tokens :: u32
  gq_temperature :: f64
  gq_top_p :: f64
  gq_stop_sequences :: "string list"

definition generate_request_new :: "string \<Rightarrow> string \<Rightarrow> generate_request" where
  "generate_request_new model prompt =
     \<lparr>gq_model = model, gq_prompt = prompt, gq_max_tokens = 512, gq_temperature = f32_lit 7 10,
      gq_top_p = f32_lit 9 10, gq_stop_sequences = []\<rparr>"

record generate_response =
  gr_text :: string
  gr_tokens_generated :: u32
  gr_tokens_per_second :: f64
  gr_time_to_first_token_ms :: u64
  gr_total_time_ms :: u64
  gr_finish_reason :: finish_reason
  gr_model_id :: string

record inference_live_settings =
  ls_use_local_gguf :: bool
  ls_use_ollama :: bool
  ls_ollama_url :: string
  ls_remote_api_enabled :: bool
  ls_remote_api_base_url :: string
  ls_remote_api_model :: string
  ls_remote_api_key :: string

text \<open>The environment variables \<^verbatim>\<open>USE_OLLAMA\<close> and \<^verbatim>\<open>OLLAMA_BASE_URL\<close>.\<close>

definition live_settings_default :: "string option \<Rightarrow> string option \<Rightarrow> inference_live_settings" where
  "live_settings_default use_ollama ollama_base =
     \<lparr>ls_use_local_gguf = True,
      ls_use_ollama = (use_ollama = Some ''1'' \<or> use_ollama = Some ''true'' \<or> ollama_base \<noteq> None),
      ls_ollama_url = (case ollama_base of Some u \<Rightarrow> u | None \<Rightarrow> ''http://localhost:11434''),
      ls_remote_api_enabled = False, ls_remote_api_base_url = [], ls_remote_api_model = [],
      ls_remote_api_key = []\<rparr>"

subsection \<open>Back-ends\<close>

datatype backend_id = LocalGguf | PeerToPeer | Ollama | RemoteApi

record ollama_result =
  or_text :: string
  or_tokens_generated :: u32
  or_tokens_per_second :: f64
  or_total_time_ms :: u64
  or_model_used :: string

text \<open>What the libraries and the network answer; \<open>bk_remote_speed\<close> is tokens over elapsed seconds.\<close>

record backends =
  bk_gguf_load :: "string \<Rightarrow> string option"
  bk_gguf_generate :: "generate_request \<Rightarrow> string + generate_response"
  bk_ollama :: "string \<Rightarrow> string \<Rightarrow> string \<Rightarrow> u32 \<Rightarrow> f64 \<Rightarrow> string + ollama_result"
  bk_remote :: "string \<Rightarrow> string \<Rightarrow> string \<Rightarrow> string \<Rightarrow> u32 \<Rightarrow> f64 \<Rightarrow> string + (string \<times> u32)"
  bk_elapsed_ms :: u64
  bk_remote_speed :: "u32 \<Rightarrow> f64"

definition remote_configured :: "inference_live_settings \<Rightarrow> bool" where
  "remote_configured live \<longleftrightarrow>
     ls_remote_api_enabled live \<and> trim (ls_remote_api_base_url live) \<noteq> [] \<and> trim (ls_remote_api_key live) \<noteq> []"

definition run_gguf :: "backends \<Rightarrow> string \<Rightarrow> generate_request \<Rightarrow> inference_error + generate_response" where
  "run_gguf b path q =
     (case bk_gguf_load b path of
        Some x \<Rightarrow> Inl (LoadFailed (''GGUF load failed: '' @ x))
      | None \<Rightarrow>
          (case bk_gguf_generate b q of
             Inl x \<Rightarrow> Inl (GenerationFailed (''GGUF generate failed: '' @ x))
           | Inr r \<Rightarrow> Inr r))"

definition run_ollama :: "backends \<Rightarrow> inference_live_settings \<Rightarrow> generate_request \<Rightarrow> inference_error + ollama_result" where
  "run_ollama b live q =
     (case bk_ollama b (ls_ollama_url live) (gq_model q) (gq_prompt q) (gq_max_tokens q) (gq_temperature q) of
        Inl x \<Rightarrow> Inl (GenerationFailed x)
      | Inr r \<Rightarrow> Inr r)"

definition ollama_response :: "u64 \<Rightarrow> ollama_result \<Rightarrow> generate_response" where
  "ollama_response elapsed r =
     \<lparr>gr_text = or_text r, gr_tokens_generated = or_tokens_generated r,
      gr_tokens_per_second = or_tokens_per_second r, gr_time_to_first_token_ms = 0, gr_total_time_ms = elapsed,
      gr_finish_reason = FinishStop, gr_model_id = or_model_used r\<rparr>"

definition run_remote :: "backends \<Rightarrow> inference_live_settings \<Rightarrow> generate_request \<Rightarrow> inference_error + generate_response" where
  "run_remote b live q =
     (let model = (if trim (ls_remote_api_model live) = [] then gq_model q else trim (ls_remote_api_model live))
      in (case bk_remote b (trim (ls_remote_api_base_url live)) (trim (ls_remote_api_key live)) model
                (gq_prompt q) (gq_max_tokens q) (gq_temperature q) of
            Inl x \<Rightarrow> Inl (GenerationFailed x)
          | Inr (text, tokens) \<Rightarrow>
              Inr \<lparr>gr_text = text, gr_tokens_generated = tokens, gr_tokens_per_second = bk_remote_speed b tokens,
                   gr_time_to_first_token_ms = 0, gr_total_time_ms = bk_elapsed_ms b,
                   gr_finish_reason = FinishStop, gr_model_id = model\<rparr>))"

subsection \<open>Errors and circuit breakers\<close>

datatype error_kind = Retriable | Fatal

fun classify_error :: "inference_error \<Rightarrow> error_kind" where
  "classify_error (ModelNotFound _) = Fatal"
| "classify_error (LoadFailed msg) =
     (if list_ex (str_contains msg) [''auth'', ''unauthorized'', ''403''] then Fatal else Retriable)"
| "classify_error (GenerationFailed msg) =
     (let lower = ascii_lower msg
      in if list_ex (str_contains lower)
              [''timeout'', ''timed out'', ''rate limit'', ''429'', ''overloaded'', ''503'', ''502'',
               ''connection refused'', ''connection reset'']
         then Retriable
         else if list_ex (str_contains lower) [''auth'', ''unauthorized'', ''401'', ''403'', ''not found'', ''404'']
         then Fatal
         else Retriable)"
| "classify_error (CacheFailed _) = Retriable"
| "classify_error (IoFailed _) = Retriable"

text \<open>In nanoseconds.\<close>

definition cooldown_tiers :: "int list" where
  "cooldown_tiers = [60 * 1000000000, 300 * 1000000000, 1800 * 1000000000]"

record circuit_breaker =
  cb_error_count :: u32
  cb_cooldown_until :: "timestamp option"

definition breaker_new :: circuit_breaker where
  "breaker_new = \<lparr>cb_error_count = 0, cb_cooldown_until = None\<rparr>"

definition is_available :: "timestamp \<Rightarrow> circuit_breaker \<Rightarrow> bool" where
  "is_available now b \<longleftrightarrow> (case cb_cooldown_until b of None \<Rightarrow> True | Some t \<Rightarrow> t \<le> now)"

definition record_success :: "circuit_breaker \<Rightarrow> circuit_breaker" where
  "record_success b = b\<lparr>cb_error_count := 0, cb_cooldown_until := None\<rparr>"

definition record_failure :: "timestamp \<Rightarrow> circuit_breaker \<Rightarrow> circuit_breaker" where
  "record_failure now b =
     (let n = cb_error_count b + 1;
          tier = min (unat n - 1) (length cooldown_tiers - 1)
      in b\<lparr>cb_error_count := n, cb_cooldown_until := Some (now + cooldown_tiers ! tier)\<rparr>)"

subsection \<open>The chain\<close>

type_synonym failover_chain = "(backend_id \<times> circuit_breaker) list"

definition failover_new :: "bool \<Rightarrow> failover_chain" where
  "failover_new p2p =
     [(LocalGguf, breaker_new)] @ (if p2p then [(PeerToPeer, breaker_new)] else []) @
     [(Ollama, breaker_new), (RemoteApi, breaker_new)]"

text \<open>\<open>iter_mut().find\<close>: the first entry of the back-end is changed.\<close>

fun on_breaker :: "backend_id \<Rightarrow> (circuit_breaker \<Rightarrow> circuit_breaker) \<Rightarrow> failover_chain \<Rightarrow> failover_chain" where
  "on_breaker i f [] = []"
| "on_breaker i f ((j, b) # c) = (if i = j then (j, f b) # c else (j, b) # on_breaker i f c)"

definition reset_breaker :: "backend_id \<Rightarrow> failover_chain \<Rightarrow> failover_chain" where
  "reset_breaker i c = on_breaker i record_success c"

definition try_backend ::
    "backends \<Rightarrow> inference_live_settings \<Rightarrow> model_registry \<Rightarrow> generate_request \<Rightarrow> backend_id \<Rightarrow>
       inference_error + generate_response" where
  "try_backend b live r q i =
     (case i of
        LocalGguf \<Rightarrow>
          if \<not> ls_use_local_gguf live then Inl (ModelNotFound ''Local GGUF disabled'')
          else
            (case registry_get r (gq_model q) of
               None \<Rightarrow> Inl (ModelNotFound (''Model '' @ [CHR 0x27] @ gq_model q @ [CHR 0x27] @ '' not found in local registry''))
             | Some info \<Rightarrow> run_gguf b (mi_path info) q)
      | PeerToPeer \<Rightarrow> Inl (ModelNotFound ''P2P inference routing not yet wired into failover chain'')
      | Ollama \<Rightarrow>
          if \<not> ls_use_ollama live then Inl (ModelNotFound ''Ollama disabled'')
          else (case run_ollama b live q of Inl x \<Rightarrow> Inl x | Inr o' \<Rightarrow> Inr (ollama_response (bk_elapsed_ms b) o'))
      | RemoteApi \<Rightarrow>
          if \<not> remote_configured live then Inl (ModelNotFound ''Remote API disabled or not configured'')
          else run_remote b live q)"

text \<open>One back-end after the other; \<open>now i\<close> is the time at which a failure of \<open>i\<close> is recorded.\<close>

fun try_in_turn ::
    "(backend_id \<Rightarrow> inference_error + generate_response) \<Rightarrow> (backend_id \<Rightarrow> timestamp) \<Rightarrow> backend_id list \<Rightarrow>
       inference_error option \<Rightarrow> failover_chain \<Rightarrow> (inference_error + generate_response) \<times> failover_chain" where
  "try_in_turn try now [] last_error c =
     (Inl (case last_error of Some x \<Rightarrow> x | None \<Rightarrow> GenerationFailed ''All backends exhausted''), c)"
| "try_in_turn try now (i # is) last_error c =
     (case try i of
        Inr r \<Rightarrow> (Inr r, on_breaker i record_success c)
      | Inl x \<Rightarrow>
          try_in_turn try now is (Some x)
            (case classify_error x of Retriable \<Rightarrow> on_breaker i (record_failure (now i)) c | Fatal \<Rightarrow> c))"

text \<open>The back-ends that are out of their cooldown when the request comes in.\<close>

definition usable :: "timestamp \<Rightarrow> failover_chain \<Rightarrow> backend_id list" where
  "usable now c = map fst (filter (\<lambda>(_, br). is_available now br) c)"

definition execute_with_failover ::
    "backends \<Rightarrow> inference_live_settings \<Rightarrow> model_registry \<Rightarrow> timestamp \<Rightarrow> (backend_id \<Rightarrow> timestamp) \<Rightarrow>
       generate_request \<Rightarrow> failover_chain \<Rightarrow> (inference_error + generate_response) \<times> failover_chain" where
  "execute_with_failover b live r start now q c =
     (let ids = usable start c
      in if ids = [] then (Inl (GenerationFailed ''All backends are in cooldown. Try again later.''), c)
         else try_in_turn (try_backend b live r q) now ids None c)"

subsection \<open>The engine\<close>

text \<open>\<open>no_gguf\<close>: the directory of models has no GGUF file; \<open>dir\<close> is its Debug text.\<close>

definition no_backend_hint :: "bool \<Rightarrow> string \<Rightarrow> string \<Rightarrow> string" where
  "no_backend_hint no_gguf dir model =
     (if no_gguf
      then ''No inference backend available for '' @ [CHR 0x27] @ model @ [CHR 0x27] @
           ''. Enable Ollama (Settings '' @ [CHR 0xE2, CHR 0x86, CHR 0x92] @ '' Inference '' @ [CHR 0xE2, CHR 0x86, CHR 0x92] @
           '' Ollama) or a remote API, or download a GGUF model. Models dir: '' @ dir
      else ''Model '' @ [CHR 0x27] @ model @ [CHR 0x27] @
           '' not found. Available GGUF files exist but may need Ollama (llama.cpp not wired yet). Enable Ollama in Settings '' @
           [CHR 0xE2, CHR 0x86, CHR 0x92] @ '' Inference.'')"

definition engine_generate ::
    "backends \<Rightarrow> inference_live_settings \<Rightarrow> model_registry \<Rightarrow> timestamp \<Rightarrow> (backend_id \<Rightarrow> timestamp) \<Rightarrow> bool \<Rightarrow> string \<Rightarrow>
       generate_request \<Rightarrow> failover_chain option \<Rightarrow> (inference_error + generate_response) \<times> failover_chain option" where
  "engine_generate b live r start now no_gguf dir q chain =
     (case chain of
        Some c \<Rightarrow> (case execute_with_failover b live r start now q c of (x, c) \<Rightarrow> (x, Some c))
      | None \<Rightarrow>
          (if remote_configured live then run_remote b live q
           else (case (if ls_use_local_gguf live then registry_get r (gq_model q) else None) of
             Some info \<Rightarrow> run_gguf b (mi_path info) q
           | None \<Rightarrow>
               if ls_use_ollama live
               then (case run_ollama b live q of Inl x \<Rightarrow> Inl x | Inr o' \<Rightarrow> Inr (ollama_response (or_total_time_ms o') o'))
               else Inl (ModelNotFound (no_backend_hint no_gguf dir (gq_model q)))), None))"

text \<open>
  The streaming form: the same routing, and what was passed to \<open>on_delta\<close>. The last two arguments are
  the streaming calls of the local engine and of Ollama.
\<close>

definition engine_generate_streaming ::
    "backends \<Rightarrow> (generate_request \<Rightarrow> (string + generate_response) \<times> string list) \<Rightarrow>
       (inference_live_settings \<Rightarrow> generate_request \<Rightarrow> (string + ollama_result) \<times> string list) \<Rightarrow>
       inference_live_settings \<Rightarrow> model_registry \<Rightarrow> timestamp \<Rightarrow> (backend_id \<Rightarrow> timestamp) \<Rightarrow> bool \<Rightarrow> string \<Rightarrow>
       generate_request \<Rightarrow> failover_chain option \<Rightarrow>
       ((inference_error + generate_response) \<times> string list) \<times> failover_chain option" where
  "engine_generate_streaming b gguf_stream ollama_stream live r start now no_gguf dir q chain =
     (case chain of
        Some c \<Rightarrow>
          (case engine_generate b live r start now no_gguf dir q chain of
             (Inl x, c) \<Rightarrow> ((Inl x, []), c)
           | (Inr a, c) \<Rightarrow> ((Inr a, if gr_text a = [] then [] else [gr_text a]), c))
      | None \<Rightarrow>
          (if remote_configured live
           then (case run_remote b live q of Inl x \<Rightarrow> (Inl x, []) | Inr a \<Rightarrow> (Inr a, [gr_text a]))
           else (case (if ls_use_local_gguf live then registry_get r (gq_model q) else None) of
             Some info \<Rightarrow>
               (case bk_gguf_load b (mi_path info) of
                  Some x \<Rightarrow> (Inl (LoadFailed (''GGUF load failed: '' @ x)), [])
                | None \<Rightarrow>
                    (case gguf_stream q of
                       (Inl x, ds) \<Rightarrow> (Inl (GenerationFailed (''GGUF stream failed: '' @ x)), ds)
                     | (Inr a, ds) \<Rightarrow> (Inr a, ds)))
           | None \<Rightarrow>
               if ls_use_ollama live
               then (case ollama_stream live q of
                       (Inl x, ds) \<Rightarrow> (Inl (GenerationFailed x), ds)
                     | (Inr o', ds) \<Rightarrow> (Inr (ollama_response (or_total_time_ms o') o'), ds))
               else (Inl (ModelNotFound (no_backend_hint no_gguf dir (gq_model q))), [])), None))"

text \<open>The requirements the router sees, of the model only when it would run here.\<close>

definition routing_resource_requirements ::
    "inference_live_settings \<Rightarrow> model_registry \<Rightarrow> bool \<Rightarrow> string \<Rightarrow> resource_requirements" where
  "routing_resource_requirements live r failover model =
     (if \<not> failover \<and> remote_configured live then minimal_requirements
      else if ls_use_local_gguf live \<and> registry_get r model \<noteq> None
      then inference_requirements (inference_task_new model [])
      else minimal_requirements)"

subsection \<open>Failover as a choice\<close>

text \<open>What one attempt does to a breaker.\<close>

definition after_attempt :: "timestamp \<Rightarrow> inference_error + 'a \<Rightarrow> circuit_breaker \<Rightarrow> circuit_breaker" where
  "after_attempt now res b =
     (case res of
        Inr _ \<Rightarrow> record_success b
      | Inl x \<Rightarrow> (case classify_error x of Retriable \<Rightarrow> record_failure now b | Fatal \<Rightarrow> b))"

text \<open>The back-ends that are tried: those before the first that succeeds, and that one.\<close>

fun attempted :: "(backend_id \<Rightarrow> inference_error + 'a) \<Rightarrow> backend_id list \<Rightarrow> backend_id list" where
  "attempted try [] = []"
| "attempted try (i # is) = (case try i of Inr _ \<Rightarrow> [i] | Inl _ \<Rightarrow> i # attempted try is)"

lemma on_breaker_same: "on_breaker i (\<lambda>b. b) c = c"
  by (induction i "\<lambda>b::circuit_breaker. b" c rule: on_breaker.induct) auto

lemma on_breaker_map:
  "distinct (map fst c) \<Longrightarrow> on_breaker i f c = map (\<lambda>(j, b). (j, if j = i then f b else b)) c"
proof (induction i f c rule: on_breaker.induct)
  case (2 i f j b c)
  then show ?case by (cases "i = j") (auto intro!: map_idI [symmetric] simp: rev_image_eqI)
qed simp

fun first_answer ::
    "(backend_id \<Rightarrow> inference_error + 'a) \<Rightarrow> backend_id list \<Rightarrow> inference_error \<Rightarrow> inference_error + 'a" where
  "first_answer try [] x = Inl x"
| "first_answer try (i # is) x = (case try i of Inr r \<Rightarrow> Inr r | Inl x' \<Rightarrow> first_answer try is x')"

lemma try_in_turn_answer:
  "fst (try_in_turn try now is prior c) =
     first_answer try is (case prior of Some x \<Rightarrow> x | None \<Rightarrow> GenerationFailed ''All backends exhausted'')"
  by (induction "try" now "is" prior c rule: try_in_turn.induct) (auto split: sum.splits)

lemma on_breaker_twice: "i \<noteq> j \<Longrightarrow> on_breaker i f (on_breaker j g c) = on_breaker j g (on_breaker i f c)"
  by (induction i f c rule: on_breaker.induct) auto

lemma on_breaker_ids [simp]: "map fst (on_breaker i f c) = map fst c"
  by (induction i f c rule: on_breaker.induct) auto

lemma after_attempt_cases:
  "(case classify_error x of Retriable \<Rightarrow> on_breaker i (record_failure t) c | Fatal \<Rightarrow> c) =
     on_breaker i (after_attempt t (Inl x :: inference_error + 'a)) c"
proof -
  have "after_attempt t (Inl x :: inference_error + 'a) =
      (case classify_error x of Retriable \<Rightarrow> record_failure t | Fatal \<Rightarrow> (\<lambda>b. b))"
    by (auto simp: after_attempt_def fun_eq_iff split: error_kind.splits)
  then show ?thesis
    by (cases "classify_error x") (simp_all add: on_breaker_same)
qed

lemma after_attempt_Inr: "after_attempt t (Inr r) = record_success"
  by (simp add: after_attempt_def fun_eq_iff)

lemma attempted_subset: "set (attempted try is) \<subseteq> set is"
  by (induction "try" "is" rule: attempted.induct) (auto split: sum.splits)

lemma try_in_turn_breakers:
  "distinct is \<Longrightarrow> distinct (map fst c) \<Longrightarrow>
     snd (try_in_turn try now is prior c) =
     map (\<lambda>(j, b). (j, if j \<in> set (attempted try is) then after_attempt (now j) (try j) b else b)) c"
proof (induction "try" now "is" prior c rule: try_in_turn.induct)
  case (2 "try" now i "is" prior c)
  show ?case
  proof (cases "try i")
    case (Inr r)
    then show ?thesis
      using 2(3) by (auto simp: on_breaker_map after_attempt_Inr)
  next
    case (Inl x)
    have "i \<notin> set (attempted try is)"
      using attempted_subset [of "try" "is"] 2(2) by auto
    then show ?thesis
      using 2 Inl by (auto simp: after_attempt_cases [where 'a = generate_response] on_breaker_map comp_def split_def)
  qed
qed (auto intro!: map_idI [symmetric])

lemma failover_chain_distinct [simp]: "distinct (map fst (failover_new p))"
  by (simp add: failover_new_def)

lemma failover_run:
  assumes "distinct (map fst c)"
  shows "execute_with_failover b live r start now q c =
    (let run = try_backend b live r q; ids = usable start c
     in (first_answer run ids
           (GenerationFailed (if ids = [] then ''All backends are in cooldown. Try again later.''
                              else ''All backends exhausted'')),
         map (\<lambda>(j, br). (j, if j \<in> set (attempted run ids) then after_attempt (now j) (run j) br else br)) c))"
proof (cases "usable start c = []")
  case True
  then show ?thesis
    by (simp add: execute_with_failover_def Let_def split_def)
next
  case False
  have "distinct (usable start c)"
    using assms by (simp add: usable_def distinct_map_filter)
  then show ?thesis
    using False assms
      try_in_turn_answer [of "try_backend b live r q" now "usable start c" None c]
      try_in_turn_breakers [of "usable start c" c "try_backend b live r q" now None]
    by (simp add: execute_with_failover_def Let_def prod_eq_iff)
qed

text \<open>What the chain promises, in words of its own: a back-end cools down until a time; an error that says
  the model is unknown or the credentials are wrong lasts, any other passes, as does one that speaks of
  a time-out, too much load or a broken connection.\<close>

definition cooling :: "timestamp \<Rightarrow> circuit_breaker \<Rightarrow> bool" where
  "cooling now br \<longleftrightarrow> (\<exists>t. cb_cooldown_until br = Some t \<and> now < t)"

definition mentions :: "string list \<Rightarrow> string \<Rightarrow> bool" where
  "mentions words msg \<longleftrightarrow> (\<exists>w \<in> set words. str_contains msg w)"

definition lasting :: "inference_error \<Rightarrow> bool" where
  "lasting x \<longleftrightarrow>
     (\<exists>m. x = ModelNotFound m) \<or>
     (\<exists>msg. x = LoadFailed msg \<and> mentions [''auth'', ''unauthorized'', ''403''] msg) \<or>
     (\<exists>msg. x = GenerationFailed msg \<and>
        mentions [''auth'', ''unauthorized'', ''401'', ''403'', ''not found'', ''404''] (ascii_lower msg) \<and>
        \<not> mentions [''timeout'', ''timed out'', ''rate limit'', ''429'', ''overloaded'', ''503'', ''502'',
                    ''connection refused'', ''connection reset''] (ascii_lower msg))"

text \<open>The cooldown in seconds after so many failures in a row before this one.\<close>

definition cooldown_seconds :: "nat \<Rightarrow> int" where
  "cooldown_seconds n = (if n = 0 then 60 else if n = 1 then 300 else 1800)"

text \<open>A back-end's turn comes when it does not cool down and all before it cooled down or failed.\<close>

definition has_turn ::
    "(backend_id \<Rightarrow> inference_error + generate_response) \<Rightarrow> timestamp \<Rightarrow> failover_chain \<Rightarrow> backend_id \<Rightarrow> bool" where
  "has_turn run start c i \<longleftrightarrow>
     (\<exists>before br after. c = before @ (i, br) # after \<and> \<not> cooling start br \<and>
        (\<forall>(j, b) \<in> set before. \<not> cooling start b \<longrightarrow> isl (run j)))"

lemma available_cooling: "is_available now br \<longleftrightarrow> \<not> cooling now br"
  by (auto simp: is_available_def cooling_def split: option.split)

lemma classify_lasting: "classify_error x = Fatal \<longleftrightarrow> lasting x"
  by (cases x) (auto simp: lasting_def mentions_def list_ex_iff Let_def)

lemma usable_Cons: "usable now ((i, br) # c) = (if cooling now br then usable now c else i # usable now c)"
  by (simp add: usable_def available_cooling)

lemma has_turn_Cons:
  "has_turn run start ((j, b) # c) i \<longleftrightarrow>
     i = j \<and> \<not> cooling start b \<or> (cooling start b \<or> isl (run j)) \<and> has_turn run start c i"
proof
  assume "has_turn run start ((j, b) # c) i"
  then obtain before br after where t: "(j, b) # c = before @ (i, br) # after" "\<not> cooling start br"
    "\<forall>(j, b) \<in> set before. \<not> cooling start b \<longrightarrow> isl (run j)"
    unfolding has_turn_def by blast
  show "i = j \<and> \<not> cooling start b \<or> (cooling start b \<or> isl (run j)) \<and> has_turn run start c i"
  proof (cases before)
    case Nil
    with t show ?thesis by simp
  next
    case (Cons jb before')
    with t have "c = before' @ (i, br) # after" "\<forall>(j, b) \<in> set before'. \<not> cooling start b \<longrightarrow> isl (run j)"
      "cooling start b \<or> isl (run j)" by auto
    with t(2) show ?thesis unfolding has_turn_def by blast
  qed
next
  assume "i = j \<and> \<not> cooling start b \<or> (cooling start b \<or> isl (run j)) \<and> has_turn run start c i"
  then show "has_turn run start ((j, b) # c) i"
  proof (rule disjE; elim conjE)
    assume "i = j" "\<not> cooling start b"
    then have "(j, b) # c = [] @ (i, b) # c \<and> \<not> cooling start b" by simp
    then show ?thesis unfolding has_turn_def by fastforce
  next
    assume f: "cooling start b \<or> isl (run j)" and "has_turn run start c i"
    then obtain before br after where t: "c = before @ (i, br) # after" "\<not> cooling start br"
      "\<forall>(j, b) \<in> set before. \<not> cooling start b \<longrightarrow> isl (run j)"
      unfolding has_turn_def by blast
    from t f have "(j, b) # c = ((j, b) # before) @ (i, br) # after"
      "\<forall>(j, b) \<in> set ((j, b) # before). \<not> cooling start b \<longrightarrow> isl (run j)" by auto
    with t(2) show ?thesis unfolding has_turn_def by blast
  qed
qed

lemma attempted_turns:
  assumes "distinct (map fst c)"
  shows "i \<in> set (attempted run (usable start c)) \<longleftrightarrow> has_turn run start c i"
  using assms
proof (induction c)
  case Nil
  then show ?case by (simp add: usable_def has_turn_def)
next
  case (Cons jb c)
  obtain j b where jb: "jb = (j, b)" by (cases jb)
  have step: "has_turn run start ((j, b) # c) i \<longleftrightarrow>
      i = j \<and> \<not> cooling start b \<or> (cooling start b \<or> isl (run j)) \<and> has_turn run start c i"
    by (rule has_turn_Cons)
  from Cons show ?case
    unfolding jb step usable_Cons by (auto split: sum.split)
qed

lemma first_answer_ok:
  "first_answer run is x = Inr a \<longleftrightarrow> (\<exists>i \<in> set (attempted run is). run i = Inr a)"
  by (induction "is" arbitrary: x) (auto split: sum.split)

lemma first_answer_failed:
  "(\<forall>i \<in> set is. isl (run i)) \<Longrightarrow> first_answer run is x = (if is = [] then Inl x else Inl (projl (run (last is))))"
  by (induction "is" arbitrary: x) (auto split: sum.split)

lemma all_attempted: "(\<forall>i \<in> set (attempted run is). isl (run i)) \<Longrightarrow> (\<forall>i \<in> set is. isl (run i))"
  by (induction "is") (auto split: sum.splits)

lemma after_attempt_spec:
  assumes "unat (cb_error_count br) + 1 < 2 ^ 32"
  shows "after_attempt now res br =
    (case res of
       Inr _ \<Rightarrow> \<lparr>cb_error_count = 0, cb_cooldown_until = None\<rparr>
     | Inl x \<Rightarrow>
         if lasting x then br
         else \<lparr>cb_error_count = cb_error_count br + 1,
               cb_cooldown_until = Some (now + cooldown_seconds (unat (cb_error_count br)) * 1000000000)\<rparr>)"
proof -
  have "unat (cb_error_count br + 1) = unat (cb_error_count br) + 1"
    using assms by (simp add: unat_add_nowrap)
  moreover have "cooldown_tiers ! min n 2 = cooldown_seconds n * 1000000000" for n
    by (cases "n = 0"; cases "n = 1") (auto simp: cooldown_tiers_def cooldown_seconds_def min_def numeral_2_eq_2)
  moreover have "length cooldown_tiers - 1 = 2" by (simp add: cooldown_tiers_def)
  ultimately have fail: "record_failure now br = \<lparr>cb_error_count = cb_error_count br + 1,
      cb_cooldown_until = Some (now + cooldown_seconds (unat (cb_error_count br)) * 1000000000)\<rparr>"
    by (simp add: record_failure_def Let_def)
  have "record_success br = \<lparr>cb_error_count = 0, cb_cooldown_until = None\<rparr>"
    by (simp add: record_success_def)
  with fail show ?thesis
    by (auto simp: after_attempt_def classify_lasting [symmetric] split: sum.split error_kind.split)
qed

text \<open>C29: One request over a failover chain of different back-ends, none of which has failed 2^32 - 1 times in a row. It tries those back-ends that are not cooling down, in the chain's order, up to the first that succeeds, and answers what that one answers. When none succeeds the answer is the error of the last that was tried, or that all are cooling down. The chain keeps its back-ends in their order. One that was not tried keeps its breaker, and so does one whose error lasts (the model is unknown, the credentials are wrong); one that succeeded starts anew with no failures and no cooldown; one with an error that may pass has one failure more, and cools down for a minute after its first failure in a row, five minutes after the second and half an hour after every further one.\<close>

theorem failover_picks_first_success:
  assumes "distinct (map fst c)" and "\<forall>(i, br) \<in> set c. unat (cb_error_count br) + 1 < 2 ^ 32"
    and "execute_with_failover b live r start now q c = (answer, c')"
  shows "(\<forall>a. answer = Inr a \<longleftrightarrow>
        (\<exists>i. has_turn (try_backend b live r q) start c i \<and> try_backend b live r q i = Inr a)) \<and>
    (\<forall>before i br after x. c = before @ (i, br) # after \<and> \<not> cooling start br \<and>
        (\<forall>(j, b) \<in> set after. cooling start b) \<and> isl answer \<and> try_backend b live r q i = Inl x \<longrightarrow> answer = Inl x) \<and>
    ((\<forall>(i, br) \<in> set c. cooling start br) \<longrightarrow>
        answer = Inl (GenerationFailed ''All backends are in cooldown. Try again later.'')) \<and>
    map fst c' = map fst c \<and>
    (\<forall>i br. (i, br) \<in> set c \<longrightarrow>
        (\<exists>br'. (i, br') \<in> set c' \<and>
          (if \<not> has_turn (try_backend b live r q) start c i then br' = br
           else (case try_backend b live r q i of
                   Inr _ \<Rightarrow> cb_error_count br' = 0 \<and> cb_cooldown_until br' = None
                 | Inl x \<Rightarrow>
                     if lasting x then br' = br
                     else unat (cb_error_count br') = unat (cb_error_count br) + 1 \<and>
                       cb_cooldown_until br' =
                         Some (now i + cooldown_seconds (unat (cb_error_count br)) * 1000000000)))))"
proof -
  let ?run = "try_backend b live r q" and ?ids = "usable start c"
  let ?none = "GenerationFailed (if ?ids = [] then ''All backends are in cooldown. Try again later.''
                              else ''All backends exhausted'')"
  have ans: "answer = first_answer ?run ?ids ?none"
    and c': "c' = map (\<lambda>(j, br). (j, if j \<in> set (attempted ?run ?ids) then after_attempt (now j) (?run j) br else br)) c"
    using failover_run [OF assms(1), of b live r start now q] assms(3) by (simp_all add: Let_def)
  note turns = attempted_turns [OF assms(1), of _ ?run start]
  have one: "\<forall>a. answer = Inr a \<longleftrightarrow> (\<exists>i. has_turn ?run start c i \<and> ?run i = Inr a)"
    unfolding ans first_answer_ok using turns by blast
  have two: "answer = Inl x"
    if s: "c = before @ (i, br) # after" "\<not> cooling start br" "\<forall>(j, b) \<in> set after. cooling start b" "isl answer"
      "?run i = Inl x" for before i br after x
  proof -
    have none: "usable start after = []"
      using s(3) by (auto simp: usable_def available_cooling filter_empty_conv)
    then have ids: "?ids = usable start before @ [i]"
      using s(1,2) by (simp add: usable_def available_cooling)
    have "\<forall>i \<in> set (attempted ?run ?ids). isl (?run i)"
      using s(4) first_answer_ok [of ?run ?ids ?none] unfolding ans by (metis isl_def obj_sumE)
    from first_answer_failed [OF all_attempted [OF this], of ?none] show ?thesis
      unfolding ans using s(5) by (simp add: ids)
  qed
  have three: "answer = Inl (GenerationFailed ''All backends are in cooldown. Try again later.'')"
    if "\<forall>(i, br) \<in> set c. cooling start br"
  proof -
    have "?ids = []" using that by (auto simp: usable_def available_cooling filter_empty_conv)
    then show ?thesis by (simp add: ans)
  qed
  have four: "map fst c' = map fst c" by (simp add: c' comp_def split_def)
  have five: "\<exists>br'. (i, br') \<in> set c' \<and>
      (if \<not> has_turn ?run start c i then br' = br
       else (case ?run i of
               Inr _ \<Rightarrow> cb_error_count br' = 0 \<and> cb_cooldown_until br' = None
             | Inl x \<Rightarrow>
                 if lasting x then br' = br
                 else unat (cb_error_count br') = unat (cb_error_count br) + 1 \<and>
                   cb_cooldown_until br' = Some (now i + cooldown_seconds (unat (cb_error_count br)) * 1000000000)))"
    if ib: "(i, br) \<in> set c" for i br
  proof -
    let ?br = "if i \<in> set (attempted ?run ?ids) then after_attempt (now i) (?run i) br else br"
    have lt: "unat (cb_error_count br) + 1 < 2 ^ 32" using assms(2) ib by auto
    then have "unat (cb_error_count br + 1) = unat (cb_error_count br) + 1" by (simp add: unat_add_nowrap)
    moreover have "(i, ?br) \<in> set c'" unfolding c' using ib by force
    ultimately show ?thesis
      using turns [of i] after_attempt_spec [OF lt, of "now i" "?run i"]
      by (intro exI [of _ ?br]) (auto split: sum.split)
  qed
  show ?thesis using one two three four five by blast
qed

text \<open>A chain whose Ollama times out and whose remote API answers.\<close>

definition demo_live :: inference_live_settings where
  "demo_live = (live_settings_default (Some ''1'') None)
     \<lparr>ls_use_local_gguf := False, ls_remote_api_enabled := True, ls_remote_api_base_url := ''https://api'',
      ls_remote_api_key := ''k''\<rparr>"

definition demo_backends :: backends where
  "demo_backends =
     \<lparr>bk_gguf_load = (\<lambda>_. None), bk_gguf_generate = (\<lambda>_. Inl []),
      bk_ollama = (\<lambda>_ _ _ _ _. Inl ''request timeout''), bk_remote = (\<lambda>_ _ _ _ _ _. Inr (''hi'', 2)),
      bk_elapsed_ms = 40, bk_remote_speed = (\<lambda>_. Fin 0 0)\<rparr>"

theorem failover_picks_first_success_witness:
  "\<exists>q answer c'. execute_with_failover demo_backends demo_live [] 5 (\<lambda>_. 7) q (failover_new False) = (answer, c') \<and>
     map fst c' = [LocalGguf, Ollama, RemoteApi] \<and>
     (\<exists>a. answer = Inr a \<and> gr_text a = ''hi'') \<and>
     (\<exists>br. (Ollama, br) \<in> set c' \<and> unat (cb_error_count br) = 1 \<and> cb_cooldown_until br = Some 60000000007)"
proof -
  let ?q = "generate_request_new ''m'' []" and ?c = "failover_new False"
  let ?run = "try_backend demo_backends demo_live [] ?q"
  obtain answer c' where x: "execute_with_failover demo_backends demo_live [] 5 (\<lambda>_. 7) ?q ?c = (answer, c')" by fastforce
  have c: "?c = [(LocalGguf, breaker_new), (Ollama, breaker_new), (RemoteApi, breaker_new)]"
    by (simp add: failover_new_def)
  have free: "\<not> cooling 5 breaker_new" by (simp add: cooling_def breaker_new_def)
  have runs: "?run LocalGguf = Inl (ModelNotFound ''Local GGUF disabled'')"
    "?run Ollama = Inl (GenerationFailed ''request timeout'')"
    "map_sum id gr_text (?run RemoteApi) = Inr ''hi''"
    by code_simp+
  have lasts: "\<not> lasting (GenerationFailed ''request timeout'')"
    unfolding classify_lasting [symmetric] by code_simp
  have "has_turn ?run 5 ?c RemoteApi"
    unfolding has_turn_def using c free runs
    by (intro exI [of _ "[(LocalGguf, breaker_new), (Ollama, breaker_new)]"] exI [of _ breaker_new] exI [of _ "[]"]) simp
  moreover have turn: "has_turn ?run 5 ?c Ollama"
    unfolding has_turn_def using c free runs
    by (intro exI [of _ "[(LocalGguf, breaker_new)]"] exI [of _ breaker_new] exI [of _ "[(RemoteApi, breaker_new)]"]) simp
  moreover obtain a where "?run RemoteApi = Inr a" "gr_text a = ''hi''"
    using runs(3) by (cases "?run RemoteApi") auto
  moreover have "\<forall>(i, br) \<in> set ?c. unat (cb_error_count br) + 1 < 2 ^ 32"
    by (simp add: c breaker_new_def)
  note facts = failover_picks_first_success [OF failover_chain_distinct this x]
  ultimately have "(\<exists>a. answer = Inr a \<and> gr_text a = ''hi'')" using facts by blast
  moreover have "map fst c' = [LocalGguf, Ollama, RemoteApi]" using facts c by simp
  moreover have "(Ollama, breaker_new) \<in> set ?c" by (simp add: c)
  then obtain br where br: "(Ollama, br) \<in> set c'"
    "if \<not> has_turn ?run 5 ?c Ollama then br = breaker_new
     else (case ?run Ollama of
             Inr _ \<Rightarrow> cb_error_count br = 0 \<and> cb_cooldown_until br = None
           | Inl x \<Rightarrow>
               if lasting x then br = breaker_new
               else unat (cb_error_count br) = unat (cb_error_count breaker_new) + 1 \<and>
                 cb_cooldown_until br = Some (7 + cooldown_seconds (unat (cb_error_count breaker_new)) * 1000000000))"
    using facts by blast
  have "unat (cb_error_count br) = 1 \<and> cb_cooldown_until br = Some 60000000007"
    using br(2) turn runs(2) lasts by (simp add: breaker_new_def cooldown_seconds_def)
  with br(1) have "\<exists>br. (Ollama, br) \<in> set c' \<and> unat (cb_error_count br) = 1 \<and> cb_cooldown_until br = Some 60000000007"
    by blast
  ultimately show ?thesis
    using x by (intro exI [of _ ?q] exI [of _ answer] exI [of _ c'] conjI)
qed

end
