(* ===== verification/Json.thy ===== *)
theory Json
  imports F64 Text
begin

section \<open>JSON values\<close>

text \<open>
  The values of \<^verbatim>\<open>serde_json\<close>, as the program uses them: a number is an integer or an \<open>f64\<close>, an
  object is a map whose iteration order is that of its keys (the crate's default, which Cargo.toml
  does not change), kept as an association list in that order. Printing and parsing JSON text is
  done by the crate and is a parameter of the definitions that need it.
\<close>

datatype json =
    JNull
  | JBool bool
  | JInt int
  | JFloat f64
  | JString string
  | JArray "json list"
  | JObject "(string \<times> json) list"

type_synonym json_map = "(string \<times> json) list"

text \<open>\<open>Map::insert\<close>, of JSON objects and of other maps in the order of their keys.\<close>

fun obj_insert :: "string \<Rightarrow> 'v \<Rightarrow> (string \<times> 'v) list \<Rightarrow> (string \<times> 'v) list" where
  "obj_insert k v [] = [(k, v)]"
| "obj_insert k v ((k', v') # m) =
     (if k = k' then (k, v) # m
      else if str_less k k' then (k, v) # (k', v') # m
      else (k', v') # obj_insert k v m)"

definition obj_of :: "(string \<times> json) list \<Rightarrow> json_map" where
  "obj_of kvs = foldl (\<lambda>m (k, v). obj_insert k v m) [] kvs"

text \<open>The macro \<open>json!\<close> on an object.\<close>

definition json_object :: "(string \<times> json) list \<Rightarrow> json" where
  "json_object kvs = JObject (obj_of kvs)"

fun as_object :: "json \<Rightarrow> json_map option" where
  "as_object (JObject m) = Some m"
| "as_object _ = None"

fun as_str :: "json \<Rightarrow> string option" where
  "as_str (JString s) = Some s"
| "as_str _ = None"

fun as_array :: "json \<Rightarrow> json list option" where
  "as_array (JArray a) = Some a"
| "as_array _ = None"

fun as_bool :: "json \<Rightarrow> bool option" where
  "as_bool (JBool b) = Some b"
| "as_bool _ = None"

fun as_i64 :: "json \<Rightarrow> int option" where
  "as_i64 (JInt n) = (if - (2 ^ 63) \<le> n \<and> n < 2 ^ 63 then Some n else None)"
| "as_i64 _ = None"

fun as_u64 :: "json \<Rightarrow> int option" where
  "as_u64 (JInt n) = (if 0 \<le> n \<and> n < 2 ^ 64 then Some n else None)"
| "as_u64 _ = None"

fun json_get :: "string \<Rightarrow> json \<Rightarrow> json option" where
  "json_get k (JObject m) = map_of m k"
| "json_get k _ = None"

definition get_str :: "string \<Rightarrow> json \<Rightarrow> string option" where
  "get_str k j = Option.bind (json_get k j) as_str"

text \<open>A float that is not finite becomes \<open>null\<close>.\<close>

fun json_of_float :: "f64 \<Rightarrow> json" where
  "json_of_float (Fin m e) = JFloat (Fin m e)"
| "json_of_float _ = JNull"

definition json_of_word :: "'a::len word \<Rightarrow> json" where
  "json_of_word w = JInt (uint w)"

fun json_of_option :: "string option \<Rightarrow> json" where
  "json_of_option None = JNull"
| "json_of_option (Some s) = JString s"

text \<open>
  Looking up what was inserted; and an insertion keeps the keys sorted, which is what makes the
  association list a faithful picture of the map.
\<close>

lemma map_of_obj_insert [simp]: "map_of (obj_insert k v m) k' = (if k' = k then Some v else map_of m k')"
  by (induction m) auto

lemma str_less_irrefl [simp]: "\<not> str_less a a"
  by (induction a) auto

lemma str_less_Nil [simp]: "\<not> str_less a []"
  by (cases a) auto

lemma str_less_trans: "str_less a b \<Longrightarrow> str_less b c \<Longrightarrow> str_less a c"
proof (induction a b arbitrary: c rule: str_less.induct)
  case (3 x xs y ys)
  then show ?case by (cases c) auto
qed (auto elim: str_less.elims)

lemma str_less_linear: "a \<noteq> b \<Longrightarrow> str_less a b \<or> str_less b a"
proof (induction a b rule: str_less.induct)
  case (1 a)
  then show ?case by (cases a) auto
next
  case (3 x xs y ys)
  show ?case
  proof (cases "x = y")
    case True
    with 3 show ?thesis by auto
  next
    case False
    then have "(of_char x :: nat) \<noteq> of_char y" by simp
    then consider "(of_char x :: nat) < of_char y" | "(of_char y :: nat) < of_char x" by linarith
    then show ?thesis by cases auto
  qed
qed auto

definition obj_sorted :: "(string \<times> 'v) list \<Rightarrow> bool" where
  "obj_sorted m \<longleftrightarrow> sorted_wrt (\<lambda>a b. str_less (fst a) (fst b)) m"

lemma fst_obj_insert: "fst ` set (obj_insert k v m) = insert k (fst ` set m)"
proof (induction m)
  case (Cons kv m)
  then show ?case by (cases kv) (simp add: insert_commute)
qed simp

lemma obj_sorted_insert: "obj_sorted m \<Longrightarrow> obj_sorted (obj_insert k v m)"
proof (induction m)
  case (Cons kv m)
  obtain k' v' where [simp]: "kv = (k', v')" by (cases kv)
  have tail: "str_less k' x" if "x \<in> fst ` set m" for x
    using Cons.prems that by (auto simp: obj_sorted_def)
  show ?case
  proof (cases "k = k' \<or> str_less k k'")
    case True
    with Cons.prems show ?thesis by (auto simp: obj_sorted_def intro: str_less_trans)
  next
    case False
    then have "str_less k' k" using str_less_linear by blast
    then have "str_less k' x" if "x \<in> fst ` set (obj_insert k v m)" for x
      using that tail by (auto simp: fst_obj_insert)
    with False Cons show ?thesis by (auto simp: obj_sorted_def)
  qed
qed (simp add: obj_sorted_def)

lemma obj_sorted_of: "obj_sorted (obj_of kvs)"
proof -
  have "obj_sorted m \<Longrightarrow> obj_sorted (foldl (\<lambda>m (k, v). obj_insert k v m) m kvs)" for m
    by (induction kvs arbitrary: m) (auto simp: obj_sorted_insert)
  then show ?thesis by (simp add: obj_of_def obj_sorted_def)
qed

lemma map_of_obj_of: "map_of (obj_of kvs) = map_of (rev kvs)"
proof -
  have "map_of (foldl (\<lambda>m (k, v). obj_insert k v m) m kvs) = map_of m ++ map_of (rev kvs)" for m
    by (induction kvs arbitrary: m) (auto simp: map_add_def fun_eq_iff split: option.splits)
  then show ?thesis by (simp add: obj_of_def)
qed

lemma json_get_object [simp]: "json_get k (json_object kvs) = map_of (rev kvs) k"
  by (simp add: json_object_def map_of_obj_of)

end
