(* ===== verification/Wasm.thy ===== *)
theory Wasm
  imports F64 Text Json
begin

section \<open>The WASM sandbox\<close>

text \<open>
  Models \<^verbatim>\<open>src/wasm/{fuel,host,sandbox,mod}.rs\<close>: fuel, capabilities, the host functions a module
  can call, their execution in the sandbox, and the registry of tools. The module itself runs inside
  the wasmtime library: what it does is a parameter, the sequence of its calls to the host with its
  own changes of the linear memory in between, and how it ends. A memory is a list of bytes; so is a
  string, as everywhere.
\<close>

type_synonym i32 = "32 word"

subsection \<open>Fuel\<close>

record fuel_config =
  fc_base_limit :: u64
  fc_fuel_per_second :: u64
  fc_max_fuel :: u64

definition fuel_config_default :: fuel_config where
  "fuel_config_default = \<lparr>fc_base_limit = 10000000, fc_fuel_per_second = 50000000, fc_max_fuel = 1000000000\<rparr>"

definition fuel_for_timeout :: "fuel_config \<Rightarrow> u64 \<Rightarrow> u64" where
  "fuel_for_timeout c secs = min (fc_base_limit c + secs * fc_fuel_per_second c) (fc_max_fuel c)"

record fuel_meter =
  fm_allocated :: u64
  fm_consumed :: u64
  fm_config :: fuel_config

definition fuel_meter_new :: "fuel_config \<Rightarrow> u64 \<Rightarrow> fuel_meter" where
  "fuel_meter_new c secs = \<lparr>fm_allocated = fuel_for_timeout c secs, fm_consumed = 0, fm_config = c\<rparr>"

definition remaining_fuel :: "fuel_meter \<Rightarrow> u64" where
  "remaining_fuel m = sat_sub (fm_allocated m) (fm_consumed m)"

definition consume_fuel :: "u64 \<Rightarrow> fuel_meter \<Rightarrow> bool \<times> fuel_meter" where
  "consume_fuel amount m =
     (if amount \<le> remaining_fuel m then (True, m\<lparr>fm_consumed := fm_consumed m + amount\<rparr>) else (False, m))"

definition fuel_exhausted :: "fuel_meter \<Rightarrow> bool" where
  "fuel_exhausted m \<longleftrightarrow> remaining_fuel m = 0"

definition usage_ratio :: "fuel_meter \<Rightarrow> f64" where
  "usage_ratio m = f_div (f_of_u64 (fm_consumed m)) (f_of_u64 (max (fm_allocated m) 1))"

definition estimate_cost :: "fuel_meter \<Rightarrow> u64 \<Rightarrow> u64" where
  "estimate_cost m rate = fm_consumed m div max rate 1"

subsection \<open>Capabilities\<close>

text \<open>The two hash sets are lists.\<close>

record host_capabilities =
  hc_logging :: bool
  hc_network_access :: bool
  hc_filesystem_read :: bool
  hc_filesystem_write :: bool
  hc_env_access :: bool
  hc_clock_access :: bool
  hc_random_access :: bool
  hc_allowed_hosts :: "string list"
  hc_allowed_paths :: "string list"

definition host_capabilities_default :: host_capabilities where
  "host_capabilities_default =
     \<lparr>hc_logging = False, hc_network_access = False, hc_filesystem_read = False, hc_filesystem_write = False,
      hc_env_access = False, hc_clock_access = False, hc_random_access = False, hc_allowed_hosts = [],
      hc_allowed_paths = []\<rparr>"

definition host_capabilities_all :: host_capabilities where
  "host_capabilities_all =
     \<lparr>hc_logging = True, hc_network_access = True, hc_filesystem_read = True, hc_filesystem_write = True,
      hc_env_access = True, hc_clock_access = True, hc_random_access = True, hc_allowed_hosts = [],
      hc_allowed_paths = []\<rparr>"

definition host_capabilities_minimal :: host_capabilities where
  "host_capabilities_minimal =
     host_capabilities_default\<lparr>hc_logging := True, hc_clock_access := True, hc_random_access := True\<rparr>"

definition capabilities_satisfy :: "host_capabilities \<Rightarrow> host_capabilities \<Rightarrow> bool" where
  "capabilities_satisfy granted required \<longleftrightarrow>
     (if hc_network_access required \<and> \<not> hc_network_access granted then False
      else if hc_filesystem_read required \<and> \<not> hc_filesystem_read granted then False
      else if hc_filesystem_write required \<and> \<not> hc_filesystem_write granted then False
      else if hc_env_access required \<and> \<not> hc_env_access granted then False
      else \<not> list_ex (\<lambda>h. \<not> List.member (hc_allowed_hosts granted) h \<and> hc_allowed_hosts granted \<noteq> [])
              (hc_allowed_hosts required))"

subsection \<open>The state behind the host functions\<close>

datatype log_level = LevelDebug | LevelInfo | LevelWarn | LevelError

record log_entry =
  le_level :: log_level
  le_message :: string
  le_timestamp :: timestamp

record host_state =
  hs_capabilities :: host_capabilities
  hs_logs :: "log_entry list"
  hs_memory_used :: u64
  hs_network_requests :: u32
  hs_fs_operations :: u32
  hs_input_json :: "string option"
  hs_output_json :: "string option"

definition host_state_new :: "host_capabilities \<Rightarrow> host_state" where
  "host_state_new caps =
     \<lparr>hs_capabilities = caps, hs_logs = [], hs_memory_used = 0, hs_network_requests = 0, hs_fs_operations = 0,
      hs_input_json = None, hs_output_json = None\<rparr>"

definition state_log :: "timestamp \<Rightarrow> log_level \<Rightarrow> string \<Rightarrow> host_state \<Rightarrow> host_state" where
  "state_log now level msg s =
     (if hc_logging (hs_capabilities s)
      then s\<lparr>hs_logs := hs_logs s @ [\<lparr>le_level = level, le_message = msg, le_timestamp = now\<rparr>]\<rparr> else s)"

definition host_pattern_matches :: "string \<Rightarrow> string \<Rightarrow> bool" where
  "host_pattern_matches host pattern \<longleftrightarrow>
     (if starts_with pattern ''*.'' then ends_with host (drop 1 pattern) else pattern = host)"

definition can_access_host :: "host_state \<Rightarrow> string \<Rightarrow> bool" where
  "can_access_host s host \<longleftrightarrow>
     (let c = hs_capabilities s
      in if \<not> hc_network_access c then False
         else if hc_allowed_hosts c = [] then True
         else List.member (hc_allowed_hosts c) host \<or> list_ex (host_pattern_matches host) (hc_allowed_hosts c))"

definition can_access_path :: "host_state \<Rightarrow> string \<Rightarrow> bool \<Rightarrow> bool" where
  "can_access_path s path write \<longleftrightarrow>
     (let c = hs_capabilities s
      in if write \<and> \<not> hc_filesystem_write c then False
         else if \<not> write \<and> \<not> hc_filesystem_read c then False
         else if hc_allowed_paths c = [] then True
         else list_ex (starts_with path) (hc_allowed_paths c))"

subsection \<open>Host functions\<close>

datatype wasm_error =
    CompilationFailed string
  | ExecutionFailed string
  | FuelExhausted u64
  | MemoryLimitExceeded u64
  | WasmTimeout int
  | CapabilityDenied string
  | WasmToolNotFound string
  | WasmIo string

text \<open>
  What a host function works on: the state and the exported memory, if there is one. The clock and the
  random generator are those of the call.
\<close>

record host_world =
  hw_state :: host_state
  hw_memory :: "string option"

record host_env =
  he_now :: timestamp
  he_random :: "nat \<Rightarrow> char"

text \<open>
  \<open>ptr as usize\<close> extends the sign and the sum wraps. \<open>None\<close> is a range that ends outside of the
  memory; a range that ends inside but starts after its end makes the slice panic.
\<close>

definition usize_of_i32 :: "i32 \<Rightarrow> u64" where
  "usize_of_i32 p = scast p"

definition byte_range :: "u64 \<Rightarrow> u64 \<Rightarrow> string \<Rightarrow> ((nat \<times> nat) option, wasm_error) outcome" where
  "byte_range start n data =
     (let stop = start + n
      in if unat stop \<le> length data
         then if stop < start then Panic else Ok (Some (unat start, unat stop))
         else Ok None)"

definition bytes_at :: "nat \<times> nat \<Rightarrow> string \<Rightarrow> string" where
  "bytes_at r data = take (snd r - fst r) (drop (fst r) data)"

definition put_bytes :: "nat \<Rightarrow> string \<Rightarrow> string \<Rightarrow> string" where
  "put_bytes start bytes data = take start data @ bytes @ drop (start + length bytes) data"

datatype guest_value = NoValue | I32 i32 | I64 i64

definition log_level_of :: "i32 \<Rightarrow> log_level" where
  "log_level_of n = (if n = 0 then LevelDebug else if n = 1 then LevelInfo else if n = 2 then LevelWarn else LevelError)"

definition host_log :: "host_env \<Rightarrow> i32 \<Rightarrow> i32 \<Rightarrow> i32 \<Rightarrow> host_world \<Rightarrow> (guest_value \<times> host_world, wasm_error) outcome" where
  "host_log e level ptr len w =
     (case hw_memory w of
        None \<Rightarrow> Ok (NoValue, w)
      | Some data \<Rightarrow>
          (case byte_range (usize_of_i32 ptr) (usize_of_i32 len) data of
             Ok (Some r) \<Rightarrow>
               (let msg = bytes_at r data
                in Ok (NoValue, if utf8_valid msg
                                then w\<lparr>hw_state := state_log (he_now e) (log_level_of level) msg (hw_state w)\<rparr> else w))
           | Ok None \<Rightarrow> Ok (NoValue, w)
           | Err x \<Rightarrow> Err x
           | Panic \<Rightarrow> Panic))"

text \<open>Milliseconds since the epoch, 0 for a clock before it; the cast keeps 64 bits.\<close>

definition host_time_now :: "host_env \<Rightarrow> host_world \<Rightarrow> guest_value" where
  "host_time_now e w =
     I64 (if hc_clock_access (hs_capabilities (hw_state w)) \<and> 0 \<le> he_now e
          then word_of_int (he_now e div 1000000) else 0)"

definition host_random :: "host_env \<Rightarrow> i32 \<Rightarrow> i32 \<Rightarrow> host_world \<Rightarrow> (guest_value \<times> host_world, wasm_error) outcome" where
  "host_random e ptr len w =
     (if \<not> hc_random_access (hs_capabilities (hw_state w)) then Ok (I32 (- 1), w)
      else
        (case hw_memory w of
           None \<Rightarrow> Ok (I32 (- 1), w)
         | Some data \<Rightarrow>
             (case byte_range (usize_of_i32 ptr) (usize_of_i32 len) data of
                Ok (Some (a, b)) \<Rightarrow>
                  Ok (I32 0, w\<lparr>hw_memory := Some (put_bytes a (map (he_random e) [0..<b - a]) data)\<rparr>)
              | Ok None \<Rightarrow> Ok (I32 (- 1), w)
              | Err x \<Rightarrow> Err x
              | Panic \<Rightarrow> Panic)))"

definition host_get_input_len :: "host_world \<Rightarrow> guest_value" where
  "host_get_input_len w =
     I32 (case hs_input_json (hw_state w) of Some s \<Rightarrow> word_of_nat (length s) | None \<Rightarrow> 0)"

definition host_get_input :: "i32 \<Rightarrow> i32 \<Rightarrow> host_world \<Rightarrow> (guest_value \<times> host_world, wasm_error) outcome" where
  "host_get_input ptr len w =
     (let bytes = (case hs_input_json (hw_state w) of Some s \<Rightarrow> s | None \<Rightarrow> []);
          to_copy = min (unat (usize_of_i32 len)) (length bytes)
      in case hw_memory w of
           None \<Rightarrow> Ok (I32 (- 1), w)
         | Some data \<Rightarrow>
             (case byte_range (usize_of_i32 ptr) (word_of_nat to_copy) data of
                Ok (Some (a, b)) \<Rightarrow>
                  Ok (I32 (word_of_nat to_copy), w\<lparr>hw_memory := Some (put_bytes a (take to_copy bytes) data)\<rparr>)
              | Ok None \<Rightarrow> Ok (I32 (- 1), w)
              | Err x \<Rightarrow> Err x
              | Panic \<Rightarrow> Panic))"

definition host_set_output :: "i32 \<Rightarrow> i32 \<Rightarrow> host_world \<Rightarrow> (guest_value \<times> host_world, wasm_error) outcome" where
  "host_set_output ptr len w =
     (case hw_memory w of
        None \<Rightarrow> Ok (NoValue, w)
      | Some data \<Rightarrow>
          (case byte_range (usize_of_i32 ptr) (usize_of_i32 len) data of
             Ok (Some r) \<Rightarrow>
               (let text = bytes_at r data
                in Ok (NoValue, if utf8_valid text
                                then w\<lparr>hw_state := (hw_state w)\<lparr>hs_output_json := Some text\<rparr>\<rparr> else w))
           | Ok None \<Rightarrow> Ok (NoValue, w)
           | Err x \<Rightarrow> Err x
           | Panic \<Rightarrow> Panic))"

text \<open>The functions the linker offers a module; a module with any other import does not link.\<close>

datatype guest_call =
    CallLog i32 i32 i32
  | CallTimeNow
  | CallRandom i32 i32
  | CallInputLen
  | CallInput i32 i32
  | CallSetOutput i32 i32

fun host_call :: "host_env \<Rightarrow> guest_call \<Rightarrow> host_world \<Rightarrow> (guest_value \<times> host_world, wasm_error) outcome" where
  "host_call e (CallLog level ptr len) w = host_log e level ptr len w"
| "host_call e CallTimeNow w = Ok (host_time_now e w, w)"
| "host_call e (CallRandom ptr len) w = host_random e ptr len w"
| "host_call e CallInputLen w = Ok (host_get_input_len w, w)"
| "host_call e (CallInput ptr len) w = host_get_input ptr len w"
| "host_call e (CallSetOutput ptr len) w = host_set_output ptr len w"

subsection \<open>Running a module\<close>

text \<open>
  What a module does: calls of the host, answered as above, and its own work, after which the memory
  holds other bytes.
\<close>

datatype guest_op = HostCall host_env guest_call | GuestWork string

fun run_guest :: "guest_op list \<Rightarrow> host_world \<Rightarrow> (host_world, wasm_error) outcome" where
  "run_guest [] w = Ok w"
| "run_guest (HostCall e c # ops) w =
     (case host_call e c w of Ok (_, w) \<Rightarrow> run_guest ops w | Err x \<Rightarrow> Err x | Panic \<Rightarrow> Panic)"
| "run_guest (GuestWork data # ops) w =
     run_guest ops (w\<lparr>hw_memory := map_option (\<lambda>_. data) (hw_memory w)\<rparr>)"

text \<open>
  A compiled module: whether it links, its exported memory, the number of parameters of an exported
  function, what a call of it does and how the call ends: with a trap, or with the first result when
  that is an \<open>i32\<close>, and the fuel that is left.
\<close>

record compiled_module =
  cm_link_error :: "string option"
  cm_memory :: "string option"
  cm_function :: "string \<Rightarrow> nat option"
  cm_run :: "string \<Rightarrow> string \<Rightarrow> guest_op list"
  cm_end :: "string \<Rightarrow> string \<Rightarrow> string + i32 option"
  cm_fuel_left :: "string \<Rightarrow> string \<Rightarrow> u64 \<Rightarrow> u64"

record sandbox_config =
  sc_max_memory_bytes :: u64
  sc_fuel_limit :: u64
  sc_timeout :: int

definition sandbox_config_default :: sandbox_config where
  "sandbox_config_default = \<lparr>sc_max_memory_bytes = 268435456, sc_fuel_limit = 100000000, sc_timeout = 60 * 1000000000\<rparr>"

record sandbox_result =
  wr_value :: json
  wr_fuel_consumed :: u64
  wr_memory_peak_bytes :: u64

text \<open>The JSON library: text of a value, and parsing.\<close>

record json_codec =
  jc_text :: "json \<Rightarrow> string"
  jc_parse :: "string \<Rightarrow> json option"

definition wasm_value :: "json_codec \<Rightarrow> string option \<Rightarrow> i32 option \<Rightarrow> json" where
  "wasm_value j out ret =
     (case out of
        Some s \<Rightarrow> (case jc_parse j s of Some v \<Rightarrow> v | None \<Rightarrow> JString s)
      | None \<Rightarrow> json_object [(''return_code'', JInt (case ret of Some n \<Rightarrow> sint n | None \<Rightarrow> 0))])"

definition sandbox_execute ::
    "json_codec \<Rightarrow> sandbox_config \<Rightarrow> compiled_module \<Rightarrow> string \<Rightarrow> json \<Rightarrow> host_capabilities \<Rightarrow>
       (sandbox_result, wasm_error) outcome" where
  "sandbox_execute j cfg m f params caps =
     (let input = jc_text j params;
          st = (host_state_new caps)\<lparr>hs_input_json := Some input\<rparr>
      in case cm_link_error m of
           Some x \<Rightarrow> Err (ExecutionFailed x)
         | None \<Rightarrow>
         (case cm_function m f of
            None \<Rightarrow> Err (ExecutionFailed (''Function '' @ quote1 f @ '' not found in module''))
          | Some n \<Rightarrow>
              if n \<noteq> 0
              then Err (ExecutionFailed (''Function '' @ quote1 f @ '' expects '' @ show_nat n @
                          '' params; use host_get_input for parameter passing''))
              else
                (case run_guest (cm_run m f input) \<lparr>hw_state = st, hw_memory = cm_memory m\<rparr> of
                   Ok w \<Rightarrow>
                     (case cm_end m f input of
                        Inl msg \<Rightarrow>
                          Err (if str_contains msg ''fuel'' then FuelExhausted (sc_fuel_limit cfg)
                               else ExecutionFailed msg)
                      | Inr ret \<Rightarrow>
                          Ok \<lparr>wr_value = wasm_value j (hs_output_json (hw_state w)) ret,
                              wr_fuel_consumed = sc_fuel_limit cfg - cm_fuel_left m f input (sc_fuel_limit cfg),
                              wr_memory_peak_bytes =
                                (case hw_memory w of Some data \<Rightarrow> word_of_nat (length data) | None \<Rightarrow> 0)\<rparr>)
                 | Err x \<Rightarrow> Err x
                 | Panic \<Rightarrow> Panic)))"

subsection \<open>The registry and the executor\<close>

record wasm_tool_info =
  wti_hash :: string
  wti_name :: string
  wti_description :: string
  wti_version :: string
  wti_required_capabilities :: host_capabilities
  wti_size_bytes :: u64

text \<open>Files by path, with the errors of the disk; \<open>wx_hash\<close> is BLAKE3 in hexadecimal digits.\<close>

record wasm_env =
  wx_hash :: "string \<Rightarrow> string"
  wx_write_error :: "string \<Rightarrow> string option"
  wx_read_error :: "string \<Rightarrow> string option"
  wx_compile :: "string \<Rightarrow> string + compiled_module"
  wx_json :: json_codec

record wasm_executor =
  wm_tools_dir :: string
  wm_tools :: "(string, wasm_tool_info) hmap"
  wm_compiled :: "(string, compiled_module) hmap"
  wm_files :: "(string, string) hmap"
  wm_sandbox :: sandbox_config

record wasm_executor_config =
  wc_tools_dir :: string
  wc_max_memory_mb :: u32
  wc_default_fuel_limit :: u64
  wc_timeout_secs :: u32

definition wasm_executor_new :: "wasm_executor_config \<Rightarrow> (string, string) hmap \<Rightarrow> wasm_executor" where
  "wasm_executor_new c files =
     \<lparr>wm_tools_dir = wc_tools_dir c, wm_tools = [], wm_compiled = [], wm_files = files,
      wm_sandbox = \<lparr>sc_max_memory_bytes = ucast (wc_max_memory_mb c) * 1024 * 1024,
                    sc_fuel_limit = wc_default_fuel_limit c,
                    sc_timeout = uint (wc_timeout_secs c) * 1000000000\<rparr>\<rparr>"

definition wasm_register :: "wasm_env \<Rightarrow> string \<Rightarrow> string \<Rightarrow> wasm_executor \<Rightarrow> (string, wasm_error) outcome \<times> wasm_executor" where
  "wasm_register e name bytes s =
     (let hash = wx_hash e bytes;
          path = path_join (wm_tools_dir s) (take 16 hash @ ''.wasm'')
      in case wx_write_error e path of
           Some x \<Rightarrow> (Err (WasmIo x), s)
         | None \<Rightarrow>
             (Ok hash,
              s\<lparr>wm_files := hm_insert path bytes (wm_files s),
                wm_tools := hm_insert hash
                  \<lparr>wti_hash = hash, wti_name = name, wti_description = [], wti_version = ''0.1.0'',
                   wti_required_capabilities = host_capabilities_default, wti_size_bytes = word_of_nat (length bytes)\<rparr>
                  (wm_tools s)\<rparr>))"

text \<open>\<open>None\<close> is the panic of a slice inside a character.\<close>

definition tool_path :: "string \<Rightarrow> string \<Rightarrow> string option" where
  "tool_path dir hash =
     map_option (\<lambda>p. path_join dir (p @ ''.wasm'')) (slice_to (min 16 (length hash)) hash)"

definition get_compiled :: "wasm_env \<Rightarrow> string \<Rightarrow> wasm_executor \<Rightarrow> (compiled_module, wasm_error) outcome \<times> wasm_executor" where
  "get_compiled e hash s =
     (case hm_get (wm_compiled s) hash of
        Some m \<Rightarrow> (Ok m, s)
      | None \<Rightarrow>
          (case tool_path (wm_tools_dir s) hash of
             None \<Rightarrow> (Panic, s)
           | Some path \<Rightarrow>
               (case hm_get (wm_files s) path of
                  None \<Rightarrow> (Err (WasmToolNotFound hash), s)
                | Some bytes \<Rightarrow>
                    (case wx_read_error e path of
                       Some x \<Rightarrow> (Err (WasmIo x), s)
                     | None \<Rightarrow>
                         (case wx_compile e bytes of
                            Inl x \<Rightarrow> (Err (CompilationFailed x), s)
                          | Inr m \<Rightarrow> (Ok m, s\<lparr>wm_compiled := hm_insert hash m (wm_compiled s)\<rparr>))))))"

definition wasm_execute ::
    "wasm_env \<Rightarrow> string \<Rightarrow> string \<Rightarrow> json \<Rightarrow> host_capabilities \<Rightarrow> wasm_executor \<Rightarrow>
       (sandbox_result, wasm_error) outcome \<times> wasm_executor" where
  "wasm_execute e hash f params caps s =
     (case get_compiled e hash s of
        (Ok m, s) \<Rightarrow>
          (case hm_get (wm_tools s) hash of
             Some info \<Rightarrow>
               if \<not> capabilities_satisfy caps (wti_required_capabilities info)
               then (Err (CapabilityDenied ''Tool requires capabilities not granted''), s)
               else (sandbox_execute (wx_json e) (wm_sandbox s) m f params caps, s)
           | None \<Rightarrow> (sandbox_execute (wx_json e) (wm_sandbox s) m f params caps, s))
      | (Err x, s) \<Rightarrow> (Err x, s)
      | (Panic, s) \<Rightarrow> (Panic, s))"

end
