(* ===== verification/Executor.thy ===== *)
theory Executor
  imports Job_Network Failover Wasm
begin

section \<open>Task execution\<close>

text \<open>
  Models \<open>TaskExecutor\<close> of \<^verbatim>\<open>src/executor/mod.rs\<close>: a task is routed, run here or offered to the
  network, and run here after all when the network fails. It composes the router, the inference
  engine, the WASM sandbox and the executor of remote jobs. The HTTP client, the search tool, the
  direct GGUF engine and the files are parameters. The state is what the executor shares with the
  rest of the node, in the form it has between two tasks.
\<close>

subsection \<open>Errors as text\<close>

fun cache_error_text :: "cache_error \<Rightarrow> string" where
  "cache_error_text AllModelsInUse = ''All models are currently in use''"
| "cache_error_text (InsufficientMemory needed available') =
     ''Insufficient memory: need '' @ show_word needed @ ''MB, only '' @ show_word available' @ ''MB available''"
| "cache_error_text (CacheModelNotFound i) = ''Model not found: '' @ i"

fun inference_error_text :: "inference_error \<Rightarrow> string" where
  "inference_error_text (ModelNotFound x) = ''Model not found: '' @ x"
| "inference_error_text (LoadFailed x) = ''Model load failed: '' @ x"
| "inference_error_text (GenerationFailed x) = ''Generation failed: '' @ x"
| "inference_error_text (CacheFailed x) = ''Cache error: '' @ cache_error_text x"
| "inference_error_text (IoFailed x) = ''IO error: '' @ x"

text \<open>\<open>dur\<close> is the Debug text of a duration.\<close>

fun wasm_error_text :: "(int \<Rightarrow> string) \<Rightarrow> wasm_error \<Rightarrow> string" where
  "wasm_error_text dur (CompilationFailed x) = ''Compilation failed: '' @ x"
| "wasm_error_text dur (ExecutionFailed x) = ''Execution failed: '' @ x"
| "wasm_error_text dur (FuelExhausted n) = ''Fuel exhausted after '' @ show_word n @ '' units''"
| "wasm_error_text dur (MemoryLimitExceeded n) = ''Memory limit exceeded: '' @ show_word n @ ''MB''"
| "wasm_error_text dur (WasmTimeout t) = ''Timeout after '' @ dur t"
| "wasm_error_text dur (CapabilityDenied x) = ''Capability denied: '' @ x"
| "wasm_error_text dur (WasmToolNotFound h) = ''Tool not found: '' @ h"
| "wasm_error_text dur (WasmIo x) = ''IO error: '' @ x"

fun executor_error_text :: "executor_error \<Rightarrow> string" where
  "executor_error_text (InsufficientRes x) = ''Insufficient resources: '' @ x"
| "executor_error_text NetworkUnavailable = ''Network unavailable for remote execution''"
| "executor_error_text (WebError x) = ''Web error: '' @ x"
| "executor_error_text (InferenceError x) = ''Inference error: '' @ x"
| "executor_error_text (WasmError x) = ''WASM error: '' @ x"
| "executor_error_text ExecTimeout = ''Timeout''"
| "executor_error_text ExecCancelled = ''Task cancelled''"

subsection \<open>The executor and its surroundings\<close>

text \<open>The inference engine: its back-ends, settings and registry, the times of one request.\<close>

record engine_ctx =
  en_backends :: backends
  en_gguf_stream :: "generate_request \<Rightarrow> (string + generate_response) \<times> string list"
  en_ollama_stream :: "inference_live_settings \<Rightarrow> generate_request \<Rightarrow> (string + ollama_result) \<times> string list"
  en_live :: inference_live_settings
  en_registry :: model_registry
  en_start :: timestamp
  en_now :: "backend_id \<Rightarrow> timestamp"
  en_no_gguf :: bool
  en_dir :: string

text \<open>The executor of remote jobs: what \<open>remote_execute\<close> takes besides the task.\<close>

record remote_ctx =
  rm_show_err :: "job_error \<Rightarrow> string"
  rm_config :: remote_executor_config
  rm_env :: node_env
  rm_codec :: "json task_codec"
  rm_bidding :: "job_node \<Rightarrow> job_node"
  rm_waiting :: "job_node \<Rightarrow> nat \<Rightarrow> job_node"
  rm_elapsed :: u64

record http_reply =
  hp_status :: u16
  hp_headers :: "(string \<times> string option) list" \<comment> \<open>None: no text\<close>
  hp_body :: "string + u8 list"

record executor_env =
  xe_router :: router_config
  xe_models_dir :: string
  xe_tools_dir :: string
  xe_task_id :: string
  xe_elapsed_ms :: u64
  xe_engine :: "engine_ctx option"
  xe_peers :: "string list option" \<comment> \<open>the connected peers, if there is a network\<close>
  xe_remote :: "remote_ctx option"
  xe_lower :: "string \<Rightarrow> string"
  xe_exists :: "string \<Rightarrow> bool"
  xe_read_dir :: "string \<Rightarrow> string list option"
  xe_gguf_load :: "string \<Rightarrow> string option"
  xe_gguf_generate :: "generate_request \<Rightarrow> string + generate_response"
  xe_gguf_streaming :: "generate_request \<Rightarrow> (string + generate_response) \<times> string list"
  xe_client_error :: "u32 \<Rightarrow> string option"
  xe_send :: "web_fetch_task \<Rightarrow> string + http_reply"
  xe_search :: "json \<Rightarrow> string + json"
  xe_sandbox_error :: "string option"
  xe_read :: "string \<Rightarrow> string + string"
  xe_compile :: "string \<Rightarrow> string + compiled_module"
  xe_codec :: json_codec
  xe_join_error :: string
  xe_duration_text :: "int \<Rightarrow> string"

record executor_state =
  xs_monitor :: resource_state
  xs_chain :: "failover_chain option"
  xs_node :: job_node

subsection \<open>Inference\<close>

definition chat_line :: "string \<Rightarrow> chat_message \<Rightarrow> string" where
  "chat_line stop m =
     (case cm_role m of
        RoleSystem \<Rightarrow> ''System: '' @ cm_content m @ stop
      | RoleUser \<Rightarrow> ''User: '' @ cm_content m @ [CHR 0x0A]
      | RoleAssistant \<Rightarrow> ''Assistant: '' @ cm_content m @ stop)"

definition local_prompt :: "inference_task \<Rightarrow> string" where
  "local_prompt t = concat (map (chat_line [CHR 0x0A]) (it_messages t)) @ ''Assistant:''"

text \<open>The prompt of the form that prints: an empty line after a system's or an assistant's message.\<close>

definition print_prompt :: "inference_task \<Rightarrow> string" where
  "print_prompt t = concat (map (chat_line [CHR 0x0A, CHR 0x0A]) (it_messages t)) @ ''Assistant:''"

definition request_of :: "inference_task \<Rightarrow> string \<Rightarrow> generate_request" where
  "request_of t prompt =
     \<lparr>gq_model = it_model t, gq_prompt = prompt, gq_max_tokens = it_max_tokens t,
      gq_temperature = it_temperature t, gq_top_p = f32_lit 9 10, gq_stop_sequences = it_stop_sequences t\<rparr>"

definition inference_result_of :: "generate_response \<Rightarrow> inference_result" where
  "inference_result_of r =
     \<lparr>ir_text = gr_text r, ir_tokens_generated = gr_tokens_generated r,
      ir_tokens_per_second = gr_tokens_per_second r, ir_finish_reason = gr_finish_reason r\<rparr>"

text \<open>The name of a file in front of its last point and what is behind it; a leading point belongs to the name.\<close>

definition split_extension :: "string \<Rightarrow> string \<times> string option" where
  "split_extension s =
     (let before = rev (dropWhile (\<lambda>c. c \<noteq> CHR ''.'') (rev s))
      in if s = ''..'' \<or> length before \<le> 1 then (s, None)
         else (butlast before, Some (drop (length before) s)))"

definition norm_model :: "executor_env \<Rightarrow> string \<Rightarrow> string" where
  "norm_model e s = replace_all '' '' [] (replace_all ''-'' [] (xe_lower e s))"

text \<open>The entries of the directory: the first whose name fits the model, or the first GGUF file.\<close>

fun pick_gguf :: "executor_env \<Rightarrow> string \<Rightarrow> string option \<Rightarrow> string list \<Rightarrow> string option" where
  "pick_gguf e needle found [] = found"
| "pick_gguf e needle found (name # names) =
     (case split_extension name of
        (stem, ext) \<Rightarrow>
          if ext \<noteq> Some ''gguf'' then pick_gguf e needle found names
          else if str_contains (norm_model e stem) needle \<or> str_contains needle (norm_model e stem)
          then Some name
          else pick_gguf e needle (if found = None then Some name else found) names)"

definition find_gguf_model :: "executor_env \<Rightarrow> string \<Rightarrow> executor_error + string" where
  "find_gguf_model e model =
     (let path = path_join (xe_models_dir e) (replace_all '' '' ''-'' (xe_lower e model) @ ''.gguf'')
      in if xe_exists e path then Inr path
         else
           (case pick_gguf e (norm_model e model) None
                  (case xe_read_dir e (xe_models_dir e) of Some names \<Rightarrow> names | None \<Rightarrow> []) of
              Some name \<Rightarrow> Inr (path_join (xe_models_dir e) name)
            | None \<Rightarrow>
                Inl (InferenceError (''Model not found: '' @ model @ ''. No GGUF models in '' @ xe_models_dir e))))"

text \<open>The GGUF engine the executor falls back to when it has no inference engine.\<close>

definition direct_gguf ::
    "executor_env \<Rightarrow> string \<Rightarrow> (generate_request \<Rightarrow> (string + generate_response) \<times> string list) \<Rightarrow>
       inference_task \<Rightarrow> string \<Rightarrow> (executor_error + inference_result) \<times> string list" where
  "direct_gguf e failed gen t prompt =
     (case find_gguf_model e (it_model t) of
        Inl x \<Rightarrow> (Inl x, [])
      | Inr path \<Rightarrow>
          (case xe_gguf_load e path of
             Some x \<Rightarrow> (Inl (InferenceError (''Failed to load model: '' @ x)), [])
           | None \<Rightarrow>
               (case gen (request_of t prompt) of
                  (Inl x, ds) \<Rightarrow> (Inl (InferenceError (failed @ x)), ds)
                | (Inr r, ds) \<Rightarrow> (Inr (inference_result_of r), ds))))"

definition execute_inference_local ::
    "executor_env \<Rightarrow> inference_task \<Rightarrow> executor_state \<Rightarrow> (executor_error + inference_result) \<times> executor_state" where
  "execute_inference_local e t s =
     (case xe_engine e of
        Some n \<Rightarrow>
          (case engine_generate (en_backends n) (en_live n) (en_registry n) (en_start n) (en_now n) (en_no_gguf n)
                  (en_dir n) (request_of t (local_prompt t)) (xs_chain s) of
             (Inl x, c) \<Rightarrow> (Inl (InferenceError (inference_error_text x)), s\<lparr>xs_chain := c\<rparr>)
           | (Inr r, c) \<Rightarrow> (Inr (inference_result_of r), s\<lparr>xs_chain := c\<rparr>))
      | None \<Rightarrow>
          (fst (direct_gguf e ''Generation failed: '' (\<lambda>q. (xe_gguf_generate e q, [])) t (local_prompt t)), s))"

definition execute_inference_local_streaming ::
    "executor_env \<Rightarrow> inference_task \<Rightarrow> executor_state \<Rightarrow>
       ((executor_error + inference_result) \<times> string list) \<times> executor_state" where
  "execute_inference_local_streaming e t s =
     (case xe_engine e of
        Some n \<Rightarrow>
          (case engine_generate_streaming (en_backends n) (en_gguf_stream n) (en_ollama_stream n) (en_live n)
                  (en_registry n) (en_start n) (en_now n) (en_no_gguf n) (en_dir n)
                  (request_of t (local_prompt t)) (xs_chain s) of
             ((Inl x, ds), c) \<Rightarrow> ((Inl (InferenceError (inference_error_text x)), ds), s\<lparr>xs_chain := c\<rparr>)
           | ((Inr r, ds), c) \<Rightarrow> ((Inr (inference_result_of r), ds), s\<lparr>xs_chain := c\<rparr>))
      | None \<Rightarrow>
          (direct_gguf e ''Streaming generation failed: '' (xe_gguf_streaming e) t (local_prompt t), s))"

text \<open>The form that prints: what was written to the terminal beside the result.\<close>

definition execute_inference_streaming_print ::
    "executor_env \<Rightarrow> inference_task \<Rightarrow> executor_state \<Rightarrow>
       ((executor_error + inference_result) \<times> string list) \<times> executor_state" where
  "execute_inference_streaming_print e t s =
     (case xe_engine e of
        Some n \<Rightarrow>
          (case engine_generate (en_backends n) (en_live n) (en_registry n) (en_start n) (en_now n) (en_no_gguf n)
                  (en_dir n) (request_of t (print_prompt t)) (xs_chain s) of
             (Inl x, c) \<Rightarrow> ((Inl (InferenceError (inference_error_text x)), []), s\<lparr>xs_chain := c\<rparr>)
           | (Inr r, c) \<Rightarrow> ((Inr (inference_result_of r), [gr_text r]), s\<lparr>xs_chain := c\<rparr>))
      | None \<Rightarrow>
          (direct_gguf e ''Streaming generation failed: '' (xe_gguf_streaming e) t (print_prompt t), s))"

subsection \<open>The web and WASM tools\<close>

definition execute_web_fetch_local :: "executor_env \<Rightarrow> web_fetch_task \<Rightarrow> executor_error + web_fetch_result" where
  "execute_web_fetch_local e t =
     (case xe_client_error e (wf_timeout_secs t) of
        Some x \<Rightarrow> Inl (WebError x)
      | None \<Rightarrow>
          (case xe_send e t of
             Inl x \<Rightarrow> Inl (WebError x)
           | Inr r \<Rightarrow>
               (case hp_body r of
                  Inl x \<Rightarrow> Inl (WebError x)
                | Inr body \<Rightarrow>
                    Inr \<lparr>wfr_status = hp_status r,
                        wfr_headers = map (\<lambda>(k, v). (k, case v of Some t \<Rightarrow> t | None \<Rightarrow> [])) (hp_headers r),
                        wfr_body = body\<rparr>)))"

definition str_field :: "string \<Rightarrow> json \<Rightarrow> string" where
  "str_field k v = (case json_get k v of Some x \<Rightarrow> (case as_str x of Some t \<Rightarrow> t | None \<Rightarrow> []) | None \<Rightarrow> [])"

definition search_results :: "json \<Rightarrow> search_result list" where
  "search_results data =
     filter (\<lambda>r. sr_title r \<noteq> [] \<or> sr_url r \<noteq> [])
       (map (\<lambda>r. \<lparr>sr_title = str_field ''title'' r, sr_url = str_field ''url'' r, sr_snippet = str_field ''snippet'' r\<rparr>)
         (case json_get ''results'' data of Some v \<Rightarrow> (case as_array v of Some xs \<Rightarrow> xs | None \<Rightarrow> []) | None \<Rightarrow> []))"

definition execute_web_search_local :: "executor_env \<Rightarrow> web_search_task \<Rightarrow> executor_error + search_result list" where
  "execute_web_search_local e t =
     (let n = max 1 (min 20 (uint (ws_max_results t)))
      in case xe_search e (json_object [(''query'', JString (ws_query t)), (''max_results'', JInt n)]) of
           Inl x \<Rightarrow> Inl (WebError x)
         | Inr data \<Rightarrow> Inr (search_results data))"

text \<open>A task gets the capabilities it asks for, on top of logging, the clock and random numbers.\<close>

definition wasm_task_capabilities :: "wasm_capabilities \<Rightarrow> host_capabilities" where
  "wasm_task_capabilities c =
     (let h = host_capabilities_minimal;
          h = (if network_access c
               then h\<lparr>hc_network_access := True,
                     hc_allowed_hosts := foldl (\<lambda>hs x. List.insert x hs) (hc_allowed_hosts h) (allowed_hosts c)\<rparr>
               else h);
          h = (if filesystem_read c then h\<lparr>hc_filesystem_read := True\<rparr> else h)
      in if filesystem_write c then h\<lparr>hc_filesystem_write := True\<rparr> else h)"

definition execute_wasm_local :: "executor_env \<Rightarrow> json wasm_task \<Rightarrow> (sandbox_result, executor_error) outcome" where
  "execute_wasm_local e t =
     (case xe_sandbox_error e of
        Some x \<Rightarrow> Err (WasmError (''Failed to create sandbox: '' @ x))
      | None \<Rightarrow>
     (case slice_to (min 16 (length (wt_tool_hash t))) (wt_tool_hash t) of
        None \<Rightarrow> Panic
      | Some prefix \<Rightarrow>
          let path = path_join (xe_tools_dir e) (prefix @ ''.wasm'');
              cfg = \<lparr>sc_max_memory_bytes = 256 * 1024 * 1024, sc_fuel_limit = wt_max_fuel t,
                    sc_timeout = uint (wt_timeout_secs t) * 1000000000\<rparr>
          in (case xe_read e path of
                Inl x \<Rightarrow> Err (WasmError (''Failed to read WASM module at '' @ path @ '': '' @ x))
              | Inr bytes \<Rightarrow>
             (case xe_compile e bytes of
                Inl x \<Rightarrow>
                  Err (WasmError (''WASM compilation failed: '' @
                    wasm_error_text (xe_duration_text e) (CompilationFailed x)))
              | Inr m \<Rightarrow>
             (case sandbox_execute (xe_codec e) cfg m (wt_function t) (wt_params t)
                     (wasm_task_capabilities (wt_capabilities t)) of
                Ok r \<Rightarrow> Ok r
              | Err x \<Rightarrow> Err (WasmError (wasm_error_text (xe_duration_text e) x))
              | Panic \<Rightarrow> Err (WasmError (''WASM task panicked: '' @ xe_join_error e)))))))"

subsection \<open>Running a task here\<close>

fun kind_of_task :: "'j execution_task \<Rightarrow> task_kind" where
  "kind_of_task (InferenceT _) = KindInference"
| "kind_of_task (WasmExecutionT _) = KindWasm"
| "kind_of_task (WebFetchT _) = KindWeb"
| "kind_of_task (WebSearchT _) = KindWeb"

definition wasm_data :: "sandbox_result \<Rightarrow> json task_data" where
  "wasm_data r = WasmD (wasm_result.make (sandbox_result.wr_value r) (sandbox_result.wr_fuel_consumed r))"

definition run_task_here ::
    "executor_env \<Rightarrow> json execution_task \<Rightarrow> executor_state \<Rightarrow>
       (json task_data, executor_error) outcome \<times> executor_state" where
  "run_task_here e task s =
     (case task of
        InferenceT t \<Rightarrow>
          (case execute_inference_local e t s of
             (Inl x, s) \<Rightarrow> (Err x, s) | (Inr r, s) \<Rightarrow> (Ok (InferenceD r), s))
      | WebFetchT t \<Rightarrow>
          (case execute_web_fetch_local e t of Inl x \<Rightarrow> Err x | Inr r \<Rightarrow> Ok (WebFetchD r), s)
      | WebSearchT t \<Rightarrow>
          (case execute_web_search_local e t of Inl x \<Rightarrow> Err x | Inr r \<Rightarrow> Ok (WebSearchD r), s)
      | WasmExecutionT t \<Rightarrow>
          (case execute_wasm_local e t of Ok r \<Rightarrow> Ok (wasm_data r) | Err x \<Rightarrow> Err x | Panic \<Rightarrow> Panic, s))"

definition local_result :: "executor_env \<Rightarrow> json task_data \<Rightarrow> json task_result" where
  "local_result e data =
     \<lparr>tr_task_id = xe_task_id e, tr_location = LocalRun, tr_data = data,
      tr_metrics = \<lparr>tm_ttfb_ms = 0, tm_total_time_ms = xe_elapsed_ms e, tm_queue_time_ms = 0\<rparr>, tr_cost = None\<rparr>"

text \<open>An error of the task is data of the result; a panic ends before the task is counted off.\<close>

definition on_monitor :: "(resource_state \<Rightarrow> resource_state) \<Rightarrow> executor_state \<Rightarrow> executor_state" where
  "on_monitor f s = s\<lparr>xs_monitor := f (xs_monitor s)\<rparr>"

definition execute_task_local ::
    "executor_env \<Rightarrow> json execution_task \<Rightarrow> executor_state \<Rightarrow>
       (json task_result, executor_error) outcome \<times> executor_state" where
  "execute_task_local e task s =
     (let k = kind_of_task task
      in case run_task_here e task (on_monitor (task_started k) s) of
           (Ok data, s) \<Rightarrow> (Ok (local_result e data), on_monitor (task_completed k) s)
         | (Err x, s) \<Rightarrow> (Ok (local_result e (ErrorD (executor_error_text x))), on_monitor (task_completed k) s)
         | (Panic, s) \<Rightarrow> (Panic, s))"

subsection \<open>Offering a task to the network\<close>

definition remote_call ::
    "executor_env \<Rightarrow> remote_ctx \<Rightarrow> json execution_task \<Rightarrow> peer_filter \<Rightarrow> executor_state \<Rightarrow>
       (json task_result, executor_error) outcome \<times> executor_state" where
  "remote_call e r task f s =
     (case remote_execute (rm_show_err r) (rm_config r) (rm_env r) (rm_codec r) (rm_bidding r) (rm_waiting r)
             (rm_elapsed r) (xe_task_id e) task f (xs_node s) of
        (x, n) \<Rightarrow> (x, s\<lparr>xs_node := n\<rparr>))"

definition execute_remote ::
    "executor_env \<Rightarrow> json execution_task \<Rightarrow> peer_filter \<Rightarrow> executor_state \<Rightarrow>
       (json task_result, executor_error) outcome \<times> executor_state" where
  "execute_remote e task f s =
     (if xe_peers e = Some [] then execute_task_local e task s
      else
        (case xe_remote e of
           Some r \<Rightarrow>
             (case remote_call e r task f s of
                (Ok x, s) \<Rightarrow> (Ok x, s)
              | (Err _, s) \<Rightarrow> execute_task_local e task s
              | (Panic, s) \<Rightarrow> (Panic, s))
         | None \<Rightarrow> execute_task_local e task s))"

subsection \<open>Routing\<close>

definition routing_requirements_for_task ::
    "executor_env \<Rightarrow> executor_state \<Rightarrow> json execution_task \<Rightarrow> resource_requirements" where
  "routing_requirements_for_task e s task =
     (case task of
        InferenceT t \<Rightarrow>
          (case xe_engine e of
             Some n \<Rightarrow>
               routing_resource_requirements (en_live n) (en_registry n) (xs_chain s \<noteq> None) (it_model t)
           | None \<Rightarrow> estimate_requirements task)
      | _ \<Rightarrow> estimate_requirements task)"

definition decide :: "executor_env \<Rightarrow> executor_state \<Rightarrow> json execution_task \<Rightarrow> routing_decision" where
  "decide e s task = route_with_requirements (xe_router e) (xs_monitor s) task (routing_requirements_for_task e s task)"

definition execute_task ::
    "executor_env \<Rightarrow> json execution_task \<Rightarrow> executor_state \<Rightarrow>
       (json task_result, executor_error) outcome \<times> executor_state" where
  "execute_task e task s =
     (case decide e s task of
        ExecuteLocally \<Rightarrow> execute_task_local e task s
      | OffloadToNetwork f \<Rightarrow> execute_remote e task f s
      | InsufficientResources reason \<Rightarrow> (Err (InsufficientRes reason), s))"

definition streamed_here ::
    "executor_env \<Rightarrow> inference_task \<Rightarrow> executor_state \<Rightarrow> (json task_result \<times> string list) \<times> executor_state" where
  "streamed_here e t s =
     (case execute_inference_local_streaming e t s of
        ((Inl x, ds), s) \<Rightarrow> ((local_result e (ErrorD (executor_error_text x)), ds), s)
      | ((Inr r, ds), s) \<Rightarrow> ((local_result e (InferenceD r), ds), s))"

text \<open>What a remote result puts into the stream.\<close>

fun delta_of :: "json task_data \<Rightarrow> string" where
  "delta_of (InferenceD r) = ir_text r"
| "delta_of (ErrorD x) = x"
| "delta_of _ = ''Unexpected response type''"

text \<open>Streaming: an offloaded task counts as active here, and the connected peers are not looked at.\<close>

definition execute_inference_streaming ::
    "executor_env \<Rightarrow> inference_task \<Rightarrow> executor_state \<Rightarrow>
       ((json task_result, executor_error) outcome \<times> string list) \<times> executor_state" where
  "execute_inference_streaming e t s =
     (let stop = on_monitor (task_completed KindInference);
          here = (\<lambda>s. case streamed_here e t s of ((r, ds), s) \<Rightarrow> ((Ok r, ds), stop s))
      in case decide e s (InferenceT t) of
           InsufficientResources reason \<Rightarrow> ((Err (InsufficientRes reason), []), s)
         | ExecuteLocally \<Rightarrow> here (on_monitor (task_started KindInference) s)
         | OffloadToNetwork f \<Rightarrow>
             let s = on_monitor (task_started KindInference) s
             in (case xe_remote e of
                   None \<Rightarrow> here s
                 | Some r \<Rightarrow>
                     (case remote_call e r (InferenceT t) f s of
                        (Ok x, s) \<Rightarrow> ((Ok x, [delta_of (tr_data x)]), stop s)
                      | (Err _, s) \<Rightarrow> here s
                      | (Panic, s) \<Rightarrow> ((Panic, []), s))))"

end
