(* ===== verification/Executor_Props.thy ===== *)
theory Executor_Props
  imports Executor Job_Network_Props
begin

section \<open>Properties of task execution\<close>

text \<open>
  A task that runs here is accounted for, and its errors are data; a task that the router offers to
  the network, because this machine cannot take it, runs here all the same.
\<close>

subsection \<open>The counts of active tasks\<close>

fun active_tasks :: "task_kind \<Rightarrow> resource_state \<Rightarrow> u32" where
  "active_tasks KindInference m = rs_active_inference_tasks m"
| "active_tasks KindWasm m = rs_active_wasm_tasks m"
| "active_tasks KindWeb m = rs_active_web_tasks m"

lemma sat_sub_succ: "(x :: u32) \<noteq> - 1 \<Longrightarrow> sat_sub (x + 1) 1 = x"
  by (simp add: sat_sub_def word_le_nat_alt) (metis One_nat_def Suc_leI add_eq_0_iff2 neq0_conv unat_eq_zero add.commute)

lemma completed_started: "active_tasks k m \<noteq> - 1 \<Longrightarrow> task_completed k (task_started k m) = m"
  by (cases k) (simp_all add: task_completed_def task_started_def sat_sub_succ)

subsection \<open>Running here\<close>

lemma inference_keeps:
  "xs_monitor (snd (execute_inference_local e t s)) = xs_monitor s"
  "xs_node (snd (execute_inference_local e t s)) = xs_node s"
  by (simp_all add: execute_inference_local_def split: option.split prod.split sum.split)

lemma run_task_here_keeps:
  "xs_monitor (snd (run_task_here e task s)) = xs_monitor s"
  "xs_node (snd (run_task_here e task s)) = xs_node s"
  by (cases task;
      auto simp: run_task_here_def split: prod.split sum.split;
      metis inference_keeps snd_conv)+

text \<open>What runs here depends on the failover chain only.\<close>

lemma run_task_here_same:
  "xs_chain s = xs_chain s' \<Longrightarrow> fst (run_task_here e task s) = fst (run_task_here e task s')"
  by (cases task)
    (simp_all add: run_task_here_def execute_inference_local_def split: option.split prod.split sum.split)

definition hash_cut :: "json execution_task \<Rightarrow> bool" where
  "hash_cut task \<longleftrightarrow>
     (case task of
        WasmExecutionT t \<Rightarrow> \<not> is_char_boundary (wt_tool_hash t) (min 16 (length (wt_tool_hash t)))
      | _ \<Rightarrow> False)"

lemma execute_wasm_Panic:
  "execute_wasm_local e t = Panic \<longleftrightarrow>
     xe_sandbox_error e = None \<and> \<not> is_char_boundary (wt_tool_hash t) (min 16 (length (wt_tool_hash t)))"
  by (simp add: execute_wasm_local_def slice_to_def Let_def split: option.split sum.split outcome.split)

lemma run_task_here_Panic:
  "fst (run_task_here e task s) = Panic \<longleftrightarrow> xe_sandbox_error e = None \<and> hash_cut task"
  by (cases task) (auto simp: run_task_here_def hash_cut_def execute_wasm_Panic [symmetric]
      split: prod.split sum.split outcome.split)

lemma hash_cut_kind: "hash_cut task \<Longrightarrow> kind_of_task task = KindWasm"
  by (cases task) (simp_all add: hash_cut_def)

lemma on_monitor_simps [simp]:
  "xs_monitor (on_monitor f s) = f (xs_monitor s)"
  "xs_chain (on_monitor f s) = xs_chain s"
  "xs_node (on_monitor f s) = xs_node s"
  by (simp_all add: on_monitor_def)

lemma execute_task_local_cases:
  obtains (answered) data where "\<not> (xe_sandbox_error e = None \<and> hash_cut task)"
      "fst (execute_task_local e task s) = Ok (local_result e data)"
      "xs_monitor (snd (execute_task_local e task s)) =
         task_completed (kind_of_task task) (task_started (kind_of_task task) (xs_monitor s))"
      "xs_node (snd (execute_task_local e task s)) = xs_node s"
  | (panicked) "xe_sandbox_error e = None" "hash_cut task" "fst (execute_task_local e task s) = Panic"
      "xs_monitor (snd (execute_task_local e task s)) = task_started KindWasm (xs_monitor s)"
      "xs_node (snd (execute_task_local e task s)) = xs_node s"
proof -
  let ?s = "on_monitor (task_started (kind_of_task task)) s"
  obtain x s' where r: "run_task_here e task ?s = (x, s')" by fastforce
  have k: "xs_monitor s' = task_started (kind_of_task task) (xs_monitor s)" "xs_node s' = xs_node s"
    using run_task_here_keeps [of e task ?s] r by simp_all
  have p: "x = Panic \<longleftrightarrow> xe_sandbox_error e = None \<and> hash_cut task"
    using run_task_here_Panic [of e task ?s] r by simp
  show thesis
  proof (cases x)
    case (Ok d)
    then show ?thesis using r k p by (intro answered [of d]) (simp_all add: execute_task_local_def Let_def)
  next
    case (Err d)
    then show ?thesis
      using r k p by (intro answered [of "ErrorD (executor_error_text d)"]) (simp_all add: execute_task_local_def Let_def)
  next
    case Panic
    then show ?thesis
      using r k p hash_cut_kind [of task] by (intro panicked) (simp_all add: execute_task_local_def Let_def)
  qed
qed

lemma execute_task_local_same:
  "xs_chain s = xs_chain s' \<Longrightarrow> fst (execute_task_local e task s) = fst (execute_task_local e task s')"
proof -
  let ?k = "kind_of_task task"
  assume "xs_chain s = xs_chain s'"
  then have "fst (run_task_here e task (on_monitor (task_started ?k) s)) =
      fst (run_task_here e task (on_monitor (task_started ?k) s'))"
    by (intro run_task_here_same) simp
  then show ?thesis
    by (cases "run_task_here e task (on_monitor (task_started ?k) s)";
        cases "run_task_here e task (on_monitor (task_started ?k) s')")
      (simp add: execute_task_local_def Let_def split: outcome.split)
qed

text \<open>C12: Running a task on this machine always answers with a result of this run, its errors among the result's data, and leaves the counts of active tasks as they were (below 2^32 - 1 active tasks); the one exception is a WASM task whose hash is cut inside a character by its first 16 bytes: it panics and stays counted as active for good.\<close>

theorem local_execution_accounted:
  assumes "active_tasks (kind_of_task task) (xs_monitor s) \<noteq> - 1"
  shows "let (x, s') = execute_task_local e task s
    in if xe_sandbox_error e = None \<and> hash_cut task
       then x = Panic \<and> xs_monitor s' = task_started KindWasm (xs_monitor s)
       else (\<exists>data. x = Ok (local_result e data)) \<and> xs_monitor s' = xs_monitor s"
  by (cases rule: execute_task_local_cases [of e task s])
    (auto simp: split_beta Let_def completed_started [OF assms])

subsection \<open>Offloaded tasks\<close>

text \<open>C11: A task the router offers to the network, because this machine cannot or should not take it, never gets its answer from there: whatever bids and messages arrive and whatever the remote executor does, short of a panic of its own, the answer is that of running the task on this machine, at no cost, although a price may have been paid.\<close>

theorem offloaded_task_runs_here:
  assumes "decide e s task = OffloadToNetwork f" and "no_results (xs_node s)"
    and "\<And>r m. xe_remote e = Some r \<Longrightarrow> node_step\<^sup>*\<^sup>* m (rm_bidding r m)"
    and "\<And>r m k. xe_remote e = Some r \<Longrightarrow> node_step\<^sup>*\<^sup>* m (rm_waiting r m k)"
  shows "if (\<exists>r. xe_remote e = Some r \<and> xe_peers e \<noteq> Some [] \<and> fst (remote_call e r task f s) = Panic)
     then fst (execute_task e task s) = Panic
     else fst (execute_task e task s) = fst (execute_task_local e task s)"
proof -
  have x: "execute_task e task s = execute_remote e task f s" using assms(1) by (simp add: execute_task_def)
  show ?thesis
  proof (cases "xe_peers e = Some [] \<or> xe_remote e = None")
    case True
    then show ?thesis unfolding x by (auto simp: execute_remote_def)
  next
    case False
    then obtain r where r: "xe_remote e = Some r" and p: "xe_peers e \<noteq> Some []" by auto
    obtain y s' where c: "remote_call e r task f s = (y, s')" by fastforce
    have ch: "xs_chain s' = xs_chain s" using c by (auto simp: remote_call_def split: prod.splits)
    have "y = fst (remote_execute (rm_show_err r) (rm_config r) (rm_env r) (rm_codec r) (rm_bidding r)
        (rm_waiting r) (rm_elapsed r) (xe_task_id e) task f (xs_node s))"
      using c by (simp add: remote_call_def split: prod.splits)
    then have "\<not> is_ok y"
      using remote_execute_not_ok [where waiting = "rm_waiting r", OF assms(2) assms(3,4) [OF r]] by simp
    then consider z where "y = Err z" | "y = Panic" by (cases y) auto
    then show ?thesis
      unfolding x using r p c execute_task_local_same [OF ch, of e task]
      by cases (simp_all add: execute_remote_def)
  qed
qed

subsection \<open>Witnesses\<close>

definition demo_remote :: remote_ctx where
  "demo_remote =
     \<lparr>rm_show_err = (\<lambda>_. []), rm_config = default_remote_executor_config, rm_env = demo_node_env,
      rm_codec = \<lparr>tc_encode = (\<lambda>_. Some []), tc_encode_error = [], tc_utf8_lossy = (\<lambda>_. []), tc_json = (\<lambda>_. JNull)\<rparr>,
      rm_bidding = handle_gossip_message demo_node_env JOB_BIDS [1],
      rm_waiting = (\<lambda>n k. handle_gossip_message demo_node_env JOB_STATUS [2] n), rm_elapsed = 5\<rparr>"

definition demo_executor_env :: executor_env where
  "demo_executor_env =
     \<lparr>xe_router = default_router_config, xe_models_dir = ''/m'', xe_tools_dir = ''/t'', xe_task_id = ''t1'',
      xe_elapsed_ms = 7, xe_engine = None, xe_peers = Some [''p''], xe_remote = Some demo_remote,
      xe_lower = ascii_lower, xe_exists = (\<lambda>_. False), xe_read_dir = (\<lambda>_. None),
      xe_gguf_load = (\<lambda>_. None), xe_gguf_generate = (\<lambda>_. Inl []), xe_gguf_streaming = (\<lambda>_. (Inl [], [])),
      xe_client_error = (\<lambda>_. None), xe_send = (\<lambda>_. Inl ''offline''), xe_search = (\<lambda>_. Inl ''offline''),
      xe_sandbox_error = None, xe_read = (\<lambda>_. Inl ''missing''), xe_compile = (\<lambda>_. Inl []),
      xe_codec = \<lparr>jc_text = (\<lambda>_. []), jc_parse = (\<lambda>_. None)\<rparr>, xe_join_error = [], xe_duration_text = (\<lambda>_. [])\<rparr>"

definition demo_executor_state :: executor_state where
  "demo_executor_state =
     \<lparr>xs_monitor = default_resource_state, xs_chain = None, xs_node = demo_node\<lparr>jn_manager := demo_jobs\<rparr>\<rparr>"

text \<open>A task whose hash holds a two-byte character at its bytes 16 and 17.\<close>

definition demo_wasm_task :: "json execution_task" where
  "demo_wasm_task =
     WasmExecutionT (wasm_task_new (replicate 15 (CHR ''a'') @ [CHR 0xC3, CHR 0xA9]) ''run'' JNull)"

definition demo_search_task :: "json execution_task" where
  "demo_search_task = WebSearchT (web_search_new ''q'')"

theorem local_execution_accounted_witness:
  "fst (execute_task_local demo_executor_env demo_wasm_task demo_executor_state) = Panic \<and>
   fst (execute_task_local demo_executor_env demo_search_task demo_executor_state) \<noteq> Panic"
proof -
  have c: "hash_cut demo_wasm_task" "\<not> hash_cut demo_search_task"
    by (simp_all add: hash_cut_def demo_wasm_task_def demo_search_task_def wasm_task_new_def
        is_char_boundary_def is_char_start_def eval_nat_numeral)
  have a: "active_tasks k (xs_monitor demo_executor_state) \<noteq> - 1" for k
    by (cases k) (simp_all add: demo_executor_state_def default_resource_state_def)
  have x: "xe_sandbox_error demo_executor_env = None" by (simp add: demo_executor_env_def)
  show ?thesis
    using local_execution_accounted [OF a, where task = demo_wasm_task and e = demo_executor_env]
      local_execution_accounted [OF a, where task = demo_search_task and e = demo_executor_env] c x
    by (auto simp: split_beta Let_def)
qed

theorem offloaded_task_runs_here_witness:
  "let s = demo_executor_state; e = demo_executor_env
   in fst (execute_task e demo_search_task s) = Panic \<or>
      fst (execute_task e demo_search_task s) = fst (execute_task_local e demo_search_task s)"
proof -
  have r: "xe_remote demo_executor_env = Some r \<Longrightarrow> r = demo_remote" for r
    by (simp add: demo_executor_env_def)
  have d: "decide demo_executor_env demo_executor_state demo_search_task =
      OffloadToNetwork (to_job_requirements minimal_requirements demo_search_task)"
    by (simp add: decide_def route_with_requirements_def routing_requirements_for_task_def demo_search_task_def
        demo_executor_env_def demo_executor_state_def default_resource_state_def default_router_config_def
        should_execute_locally_def should_offload_def rs_can_handle_def minimal_requirements_def)
  have n: "no_results (xs_node demo_executor_state)"
    by (simp add: demo_executor_state_def no_results_iff demo_jobs_def job_manager_new_def)
  have "node_step\<^sup>*\<^sup>* m (rm_bidding r m)" "node_step\<^sup>*\<^sup>* m (rm_waiting r m k)"
    if "xe_remote demo_executor_env = Some r" for r m k
    unfolding r [OF that] by (simp_all add: demo_remote_def r_into_rtranclp ns_gossip)
  from offloaded_task_runs_here [OF d n this] show ?thesis by (auto simp: Let_def split: if_splits)
qed

end
