(* ===== verification/Router_Props.thy ===== *)
theory Router_Props
  imports Router
begin

section \<open>Properties of tasks and of routing\<close>

subsection \<open>Concrete inputs for the witnesses\<close>

definition demo_state :: "resource_state" where
  "demo_state = background_update (f_lit 9 10) 10000000000 8000000000 None default_resource_state"

text \<open>The estimate of what a model needs grows with its size, and it always asks for 1000 MB more
  main memory than graphics memory, between 2000 and 80000 MB of the latter.\<close>

theorem requirements_monotone:
  assumes "parse_model_size (it_model t1) = Some p1" and "parse_model_size (it_model t2) = Some p2"
    and "f_le p1 p2" and "\<not> str_contains (ascii_lower (it_model t1)) '':cloud''"
    and "\<not> str_contains (ascii_lower (it_model t2)) '':cloud''"
  shows "\<exists>v1 v2. rr_vram_mb (inference_requirements t1) = Some v1 \<and>
    rr_vram_mb (inference_requirements t2) = Some v2 \<and> 2000 \<le> v1 \<and> v1 \<le> v2 \<and> v2 \<le> 80000 \<and>
    rr_ram_mb (inference_requirements t1) = v1 + 1000 \<and>
    rr_ram_mb (inference_requirements t2) = v2 + 1000"
proof -
  have mono: "f_le p2 x \<Longrightarrow> f_le p1 x" for x using f_le_trans [OF assms(3)] .
  have r: "2000 \<le> vram_for_size p" "vram_for_size p \<le> 80000" for p
    by (simp_all add: vram_for_size_def)
  have "vram_for_size p1 \<le> vram_for_size p2"
    using mono [of "f_of_int 3"] mono [of "f_of_int 8"] mono [of "f_of_int 13"]
      mono [of "f_of_int 34"] mono [of "f_of_int 70"]
    by (simp add: vram_for_size_def)
  then show ?thesis using assms r by (simp add: inference_requirements_def)
qed

theorem requirements_monotone_witness:
  "\<exists>v1 v2. rr_vram_mb (inference_requirements (inference_task_new ''llama-8b'' ''x'')) = Some v1 \<and>
     rr_vram_mb (inference_requirements (inference_task_new ''llama-70b'' ''x'')) = Some v2 \<and> v1 \<le> v2"
proof -
  have "parse_model_size ''llama-8b'' = Some (Fin 1 3)" "parse_model_size ''llama-70b'' = Some (Fin 35 1)"
    "f_le (Fin 1 3) (Fin 35 1)" "\<not> str_contains (ascii_lower ''llama-8b'') '':cloud''"
    "\<not> str_contains (ascii_lower ''llama-70b'') '':cloud''"
    by code_simp+
  with requirements_monotone [of "inference_task_new ''llama-8b'' ''x''" "Fin 1 3"
      "inference_task_new ''llama-70b'' ''x''" "Fin 35 1"]
  show ?thesis by (auto simp: inference_task_new_def)
qed

lemma filter_sound:
  "satisfied_by (to_job_requirements r task) s \<longleftrightarrow>
     rs_can_handle s r \<and> (\<forall>t. task = InferenceT t \<longrightarrow> has_model s (it_model t))"
  by (cases task) (auto simp: satisfied_by_def to_job_requirements_def rs_can_handle_def
      split: option.split)

text \<open>What the documentation of the router asks of a task that runs here and of one that is offered.\<close>

definition memory_suffices :: "resource_state \<Rightarrow> resource_requirements \<Rightarrow> bool" where
  "memory_suffices s r \<longleftrightarrow> rr_ram_mb r \<le> rs_ram_available_mb s \<and>
     (\<forall>v. rr_vram_mb r = Some v \<longrightarrow> (\<exists>a. rs_vram_available_mb s = Some a \<and> v \<le> a))"

definition model_loaded :: "resource_state \<Rightarrow> 'j execution_task \<Rightarrow> bool" where
  "model_loaded s task \<longleftrightarrow> (\<exists>t. task = InferenceT t \<and> it_model t \<in> set (rs_loaded_models s))"

definition slot_free :: "router_config \<Rightarrow> resource_state \<Rightarrow> 'j execution_task \<Rightarrow> bool" where
  "slot_free c s task \<longleftrightarrow>
     \<not> f_lt (rc_local_utilization_threshold c) (utilization s) \<and>
     (\<forall>t. task = InferenceT t \<longrightarrow> rs_active_inference_tasks s < rc_max_concurrent_inference c) \<and>
     (\<forall>t. task = WasmExecutionT t \<longrightarrow> rs_active_wasm_tasks s < rc_max_concurrent_wasm c)"

definition runs_here :: "router_config \<Rightarrow> resource_state \<Rightarrow> 'j execution_task \<Rightarrow> resource_requirements \<Rightarrow> bool" where
  "runs_here c s task r \<longleftrightarrow> memory_suffices s r \<and> (model_loaded s task \<or> slot_free c s task)"

definition may_offer :: "router_config \<Rightarrow> resource_state \<Rightarrow> resource_requirements \<Rightarrow> bool" where
  "may_offer c s r \<longleftrightarrow> rc_allow_network_offload c \<and>
     (\<not> memory_suffices s r \<or> f_lt (rc_offload_threshold c) (utilization s))"

lemma can_handle_iff: "rs_can_handle s r \<longleftrightarrow> memory_suffices s r"
  by (auto simp: rs_can_handle_def memory_suffices_def split: option.split)

lemma has_model_iff: "has_model s m \<longleftrightarrow> m \<in> set (rs_loaded_models s)"
  by (auto simp: has_model_def list_ex_iff)

lemma should_execute_iff: "should_execute_locally c s r task \<longleftrightarrow> runs_here c s task r"
  by (cases task)
    (auto simp: should_execute_locally_def runs_here_def can_handle_iff model_loaded_def slot_free_def
      has_model_iff)

lemma should_offload_iff: "should_offload c s r \<longleftrightarrow> may_offer c s r"
  by (auto simp: should_offload_def may_offer_def can_handle_iff)

text \<open>The reason of a refusal names what is missing; it is the fallback exactly when nothing is.\<close>

lemma unknown_reason_iff:
  "build_insufficient_reason c s r = ''unknown resource constraint'' \<longleftrightarrow>
     memory_suffices s r \<and> rc_allow_network_offload c"
proof -
  have h: "join_with ''; '' (x # xs) = ''unknown resource constraint'' \<Longrightarrow> hd (x @ ''; '') = CHR ''u''" for x xs
    by (cases xs; cases x) auto
  show ?thesis
    by (auto simp: build_insufficient_reason_def memory_suffices_def Let_def dest!: h
        split: if_splits option.splits)
qed

text \<open>C14: A task runs here exactly if the memory suffices and the model is loaded or the machine is below
  its thresholds. Otherwise it is offered to the network exactly if that is allowed and the memory does
  not suffice or the utilization is above the offload threshold, with a filter that a peer's state
  satisfies exactly if its memory suffices and it has the model. In every other case, and in no
  further one, it is refused; so with the network allowed a task that fits is refused for an
  \<open>unknown resource constraint\<close> whenever this machine is too busy for it but not above the
  offload threshold.\<close>

theorem routing_sound:
  "(route_with_requirements c s task r = ExecuteLocally \<longleftrightarrow> runs_here c s task r) \<and>
   ((\<exists>f. route_with_requirements c s task r = OffloadToNetwork f) \<longleftrightarrow>
      \<not> runs_here c s task r \<and> may_offer c s r) \<and>
   (\<forall>f s'. route_with_requirements c s task r = OffloadToNetwork f \<longrightarrow>
      (satisfied_by f s' \<longleftrightarrow> memory_suffices s' r \<and>
        (\<forall>t. task = InferenceT t \<longrightarrow> it_model t \<in> set (rs_loaded_models s')))) \<and>
   ((\<exists>reason. route_with_requirements c s task r = InsufficientResources reason) \<longleftrightarrow>
      \<not> runs_here c s task r \<and> \<not> may_offer c s r) \<and>
   (route_with_requirements c s task r = InsufficientResources ''unknown resource constraint'' \<longleftrightarrow>
      rc_allow_network_offload c \<and> memory_suffices s r \<and> \<not> model_loaded s task \<and>
      \<not> slot_free c s task \<and> \<not> f_lt (rc_offload_threshold c) (utilization s))"
  by (auto simp: route_with_requirements_def should_execute_iff should_offload_iff filter_sound
      can_handle_iff has_model_iff unknown_reason_iff runs_here_def may_offer_def)

theorem routing_sound_witness:
  "satisfied_by (to_job_requirements minimal_requirements (InferenceT (inference_task_new ''m'' ''x'') :: unit execution_task))
     (register_loaded_model ''m'' default_resource_state) =
   memory_suffices (register_loaded_model ''m'' default_resource_state) minimal_requirements"
proof -
  let ?t = "InferenceT (inference_task_new ''m'' ''x'') :: unit execution_task"
  have "route_with_requirements default_router_config default_resource_state ?t minimal_requirements =
      OffloadToNetwork (to_job_requirements minimal_requirements ?t)"
    by code_simp
  with routing_sound [of default_router_config default_resource_state ?t minimal_requirements]
  have "satisfied_by (to_job_requirements minimal_requirements ?t)
      (register_loaded_model ''m'' default_resource_state) \<longleftrightarrow>
    memory_suffices (register_loaded_model ''m'' default_resource_state) minimal_requirements \<and>
      (\<forall>t. ?t = InferenceT t \<longrightarrow>
        it_model t \<in> set (rs_loaded_models (register_loaded_model ''m'' default_resource_state)))"
    by blast
  then show ?thesis by (simp add: inference_task_new_def register_loaded_model_def)
qed

text \<open>Between the two thresholds, 0.8 and 0.9 of utilization by default, a task for which the
  memory suffices is neither run here nor offered to the network: it is refused, for an
  \<open>unknown resource constraint\<close>.\<close>

theorem refused_between_thresholds:
  assumes "rs_can_handle s r" and "f_lt (rc_local_utilization_threshold c) (utilization s)"
    and "\<not> f_lt (rc_offload_threshold c) (utilization s)" and "rc_allow_network_offload c"
    and "\<And>t. task = InferenceT t \<Longrightarrow> \<not> has_model s (it_model t)"
  shows "route_with_requirements c s task r = InsufficientResources ''unknown resource constraint''"
proof -
  have "\<not> should_execute_locally c s r task"
    using assms by (cases task) (simp_all add: should_execute_locally_def)
  moreover have "build_insufficient_reason c s r = ''unknown resource constraint''"
    using assms(1,4)
    by (auto simp: build_insufficient_reason_def rs_can_handle_def Let_def
        split: if_splits option.splits)
  ultimately show ?thesis using assms(1,3) by (simp add: route_with_requirements_def should_offload_def)
qed

theorem refused_between_thresholds_witness:
  "route default_router_config demo_state (WebFetchT (web_fetch_get ''http://x'') :: unit execution_task) =
     InsufficientResources ''unknown resource constraint''"
  unfolding route_def
proof (rule refused_between_thresholds)
  show "rs_can_handle demo_state (estimate_requirements (WebFetchT (web_fetch_get ''http://x'')))"
    "f_lt (rc_local_utilization_threshold default_router_config) (utilization demo_state)"
    "\<not> f_lt (rc_offload_threshold default_router_config) (utilization demo_state)"
    "rc_allow_network_offload default_router_config"
    by code_simp+
qed simp

text \<open>The operations of the resource monitor.\<close>

inductive monitor_step :: "resource_state \<Rightarrow> resource_state \<Rightarrow> bool" where
  mo_tick: "monitor_step s (background_update cpu total_mem used_mem gpu s)"
| mo_register: "monitor_step s (register_loaded_model m s)"
| mo_unregister: "monitor_step s (unregister_model m s)"
| mo_started: "monitor_step s (task_started k s)"
| mo_completed: "monitor_step s (task_completed k s)"

lemma monitor_step_vram: "monitor_step s s' \<Longrightarrow> rs_vram_available_mb s' = rs_vram_available_mb s"
  by (induction rule: monitor_step.induct)
    (simp_all add: background_update_def register_loaded_model_def unregister_model_def
      task_started_def task_completed_def Let_def split: task_kind.split)

text \<open>The monitor never records graphics memory, so in every state it reaches a task that needs
  some, as inference with a model whose name states a size does, is not run here, not even with
  the model loaded.\<close>

theorem sized_model_never_local:
  assumes "monitor_step\<^sup>*\<^sup>* default_resource_state s" and "parse_model_size (it_model t) = Some p"
    and "\<not> str_contains (ascii_lower (it_model t)) '':cloud''"
  shows "route c s (InferenceT t :: 'j execution_task) \<noteq> ExecuteLocally"
proof -
  from assms(1) have "rs_vram_available_mb s = None"
    by (induction rule: rtranclp_induct) (simp_all add: default_resource_state_def monitor_step_vram)
  then have "\<not> rs_can_handle s (inference_requirements t)"
    using assms(2,3) by (simp add: rs_can_handle_def inference_requirements_def)
  then show ?thesis
    by (simp add: route_def route_with_requirements_def should_execute_locally_def)
qed

theorem sized_model_never_local_witness:
  "route default_router_config (register_loaded_model ''llama-8b'' default_resource_state)
     (InferenceT (inference_task_new ''llama-8b'' ''x'') :: unit execution_task) \<noteq> ExecuteLocally"
proof (rule sized_model_never_local)
  show "monitor_step\<^sup>*\<^sup>* default_resource_state (register_loaded_model ''llama-8b'' default_resource_state)"
    by (rule r_into_rtranclp) (rule mo_register)
  show "parse_model_size (it_model (inference_task_new ''llama-8b'' ''x'')) = Some (Fin 1 3)"
    by code_simp
  show "\<not> str_contains (ascii_lower (it_model (inference_task_new ''llama-8b'' ''x''))) '':cloud''"
    by code_simp
qed

end
