(* ===== verification/Agent.thy ===== *)
theory Agent
  imports Json Task
begin

section \<open>Agents: configuration, results and budgets\<close>

text \<open>
  Models \<^verbatim>\<open>src/agent/budget.rs\<close> and the data of \<^verbatim>\<open>src/agent/runtime.rs\<close>. An \<open>Instant\<close> is a number
  of nanoseconds; the operations that read the clock take it as an argument. Amounts are \<open>f64\<close>.
\<close>

record agent_config =
  ac_id :: string
  ac_name :: string
  ac_model :: string
  ac_max_tokens :: u32
  ac_temperature :: f64
  ac_system_prompt :: string
  ac_allowed_tools :: "string list"
  ac_context_window :: u32

record tool_call_record =
  tc_tool_name :: string
  tc_args :: json
  tc_result :: string
  tc_success :: bool
  tc_duration_ms :: u64

record agent_result =
  ar_answer :: string
  ar_tool_calls :: "tool_call_record list"
  ar_iterations :: u32
  ar_total_tokens :: u32
  ar_budget_spent :: f64
  ar_success :: bool
  ar_error :: "string option"

subsection \<open>Budgets\<close>

record budget_tracker =
  bt_per_request_limit :: f64
  bt_per_hour_limit :: f64
  bt_per_day_limit :: f64
  bt_total_limit :: f64
  bt_spent_request :: f64
  bt_spent_hour :: f64
  bt_spent_day :: f64
  bt_spent_total :: f64
  bt_hour_start :: timestamp
  bt_day_start :: timestamp

definition budget_new :: "timestamp \<Rightarrow> f64 \<Rightarrow> f64 \<Rightarrow> f64 \<Rightarrow> f64 \<Rightarrow> budget_tracker" where
  "budget_new now per_request per_hour per_day lifetime =
     \<lparr>bt_per_request_limit = per_request, bt_per_hour_limit = per_hour,
      bt_per_day_limit = per_day, bt_total_limit = lifetime,
      bt_spent_request = Fin 0 0, bt_spent_hour = Fin 0 0, bt_spent_day = Fin 0 0,
      bt_spent_total = Fin 0 0, bt_hour_start = now, bt_day_start = now\<rparr>"

definition budget_default :: "timestamp \<Rightarrow> budget_tracker" where
  "budget_default now = budget_new now (f_of_int 10) (f_of_int 100) (f_of_int 500) (f_of_int 5000)"

text \<open>\<open>duration_since(..).as_secs()\<close>: whole seconds, 0 when the earlier instant is the later one.\<close>

definition secs_since :: "timestamp \<Rightarrow> timestamp \<Rightarrow> int" where
  "secs_since now t = max 0 (now - t) div 1000000000"

definition budget_reset :: "timestamp \<Rightarrow> budget_tracker \<Rightarrow> budget_tracker" where
  "budget_reset now b =
     (let b = (if 3600 \<le> secs_since now (bt_hour_start b)
               then b\<lparr>bt_spent_hour := Fin 0 0, bt_hour_start := now\<rparr> else b)
      in if 86400 \<le> secs_since now (bt_day_start b)
         then b\<lparr>bt_spent_day := Fin 0 0, bt_day_start := now\<rparr> else b)"

definition can_spend :: "timestamp \<Rightarrow> f64 \<Rightarrow> budget_tracker \<Rightarrow> bool \<times> budget_tracker" where
  "can_spend now amount b =
     (let b = budget_reset now b
      in (f_le (f_add (bt_spent_request b) amount) (bt_per_request_limit b) \<and>
          f_le (f_add (bt_spent_hour b) amount) (bt_per_hour_limit b) \<and>
          f_le (f_add (bt_spent_day b) amount) (bt_per_day_limit b) \<and>
          f_le (f_add (bt_spent_total b) amount) (bt_total_limit b), b))"

definition budget_spend :: "timestamp \<Rightarrow> f64 \<Rightarrow> budget_tracker \<Rightarrow> budget_tracker" where
  "budget_spend now amount b =
     (let b = budget_reset now b
      in b\<lparr>bt_spent_request := f_add (bt_spent_request b) amount,
           bt_spent_hour := f_add (bt_spent_hour b) amount,
           bt_spent_day := f_add (bt_spent_day b) amount,
           bt_spent_total := f_add (bt_spent_total b) amount\<rparr>)"

definition new_request :: "budget_tracker \<Rightarrow> budget_tracker" where
  "new_request b = b\<lparr>bt_spent_request := Fin 0 0\<rparr>"

definition remaining_request :: "budget_tracker \<Rightarrow> f64" where
  "remaining_request b = f_sub (bt_per_request_limit b) (bt_spent_request b)"

end
