(* ===== verification/Crew.thy ===== *)
theory Crew
  imports Agent
begin

section \<open>Crews of agents\<close>

text \<open>
  Models \<^verbatim>\<open>src/crew/spec.rs\<close>, \<^verbatim>\<open>orchestrator.rs\<close> and \<^verbatim>\<open>store.rs\<close>: a crew of agents and tasks, its
  validation, and a run that gives each task to an agent and passes answers on as context. The run
  of one agent, the text of its system prompt, the names of the built-in tools and printing JSON
  are the fields of \<open>crew_env\<close>; a run's \<open>i\<close>-th call of an agent is \<open>ce_agent e i\<close>.
\<close>

subsection \<open>Specification\<close>

datatype crew_process = SequentialCrew | HierarchicalCrew | DelegateCrew

record crew_agent_def =
  cad_id :: string
  cad_role :: string
  cad_goal :: string
  cad_backstory :: string
  cad_llm :: string
  cad_tools :: "string list"
  cad_max_iter :: u32

record crew_task_def =
  ctd_id :: string
  ctd_description :: string
  ctd_expected_output :: string
  ctd_agent_id :: string
  ctd_context :: "string list"

record crew_spec =
  crew_name :: string
  crew_agents :: "crew_agent_def list"
  crew_tasks :: "crew_task_def list"
  crew_proc :: crew_process
  crew_manager_agent_id :: "string option"
  crew_planning :: bool

datatype crew_error =
    NoAgents
  | NoTasks
  | UnknownAgent string string \<comment> \<open>task, agent\<close>
  | UnknownContextTask string string \<comment> \<open>task, context task\<close>
  | ManagerNotFound string
  | ManagerMissing
  | NoManager string
  | AgentMissing string
  | NoAgentForTask string

definition find_agent :: "crew_agent_def list \<Rightarrow> string \<Rightarrow> crew_agent_def option" where
  "find_agent agents i = find (\<lambda>a. cad_id a = i) agents"

fun check_context :: "crew_spec \<Rightarrow> string \<Rightarrow> string list \<Rightarrow> (unit, crew_error) outcome" where
  "check_context spec tid [] = Ok ()"
| "check_context spec tid (c # cs) =
     (if c \<notin> ctd_id ` set (crew_tasks spec) then Err (UnknownContextTask tid c)
      else check_context spec tid cs)"

fun check_tasks :: "crew_spec \<Rightarrow> crew_task_def list \<Rightarrow> (unit, crew_error) outcome" where
  "check_tasks spec [] = Ok ()"
| "check_tasks spec (t # ts) =
     (if ctd_agent_id t \<notin> cad_id ` set (crew_agents spec)
      then Err (UnknownAgent (ctd_id t) (ctd_agent_id t))
      else
        (case check_context spec (ctd_id t) (ctd_context t) of
           Ok _ \<Rightarrow> check_tasks spec ts
         | r \<Rightarrow> r))"

definition crew_validate :: "crew_spec \<Rightarrow> (unit, crew_error) outcome" where
  "crew_validate spec =
     (if crew_agents spec = [] then Err NoAgents
      else if crew_tasks spec = [] then Err NoTasks
      else
        (case check_tasks spec (crew_tasks spec) of
           Ok _ \<Rightarrow>
             (if crew_proc spec = HierarchicalCrew \<or> crew_proc spec = DelegateCrew
              then (case crew_manager_agent_id spec of
                      None \<Rightarrow> Ok ()
                    | Some mid \<Rightarrow>
                        if mid \<in> cad_id ` set (crew_agents spec) then Ok ()
                        else Err (ManagerNotFound mid))
              else Ok ())
         | r \<Rightarrow> r))"

subsection \<open>Running a crew\<close>

record crew_env =
  ce_agent :: "nat \<Rightarrow> agent_config \<Rightarrow> string \<Rightarrow> agent_result"
  ce_system_prompt :: "string \<Rightarrow> string \<Rightarrow> string \<Rightarrow> string"
  ce_builtin_names :: "string list"
  ce_json_text :: "json \<Rightarrow> string"
  ce_debug_list :: "string list \<Rightarrow> string"
  ce_lowercase :: "string \<Rightarrow> string"

record crew_task_output =
  cto_task_id :: string
  cto_agent_id :: string
  cto_answer :: string
  cto_iterations :: u32
  cto_tokens :: u32
  cto_success :: bool
  cto_error :: "string option"

record crew_output =
  cro_raw :: string
  cro_tasks_output :: "crew_task_output list"
  cro_token_usage :: json

text \<open>The replacement of a placeholder is a string's own text, or the JSON text of another value.\<close>

definition value_to_string :: "(json \<Rightarrow> string) \<Rightarrow> json \<Rightarrow> string" where
  "value_to_string txt v = (case v of JString s \<Rightarrow> s | _ \<Rightarrow> txt v)"

definition interpolate_template :: "(json \<Rightarrow> string) \<Rightarrow> string \<Rightarrow> json \<Rightarrow> string" where
  "interpolate_template txt s inputs =
     (case as_object inputs of
        None \<Rightarrow> s
      | Some obj \<Rightarrow> foldl (\<lambda>out (k, v). replace_all (''{'' @ k @ ''}'') (value_to_string txt v) out) s obj)"

definition allowed_tools_for_agent :: "crew_env \<Rightarrow> crew_agent_def \<Rightarrow> string list" where
  "allowed_tools_for_agent e a = (if cad_tools a = [] then ce_builtin_names e else cad_tools a)"

definition crew_agent_config :: "crew_env \<Rightarrow> crew_agent_def \<Rightarrow> agent_config" where
  "crew_agent_config e a =
     \<lparr>ac_id = ''crew_'' @ cad_id a, ac_name = cad_id a, ac_model = cad_llm a, ac_max_tokens = 2048,
      ac_temperature = f32_lit 1 2,
      ac_system_prompt = ce_system_prompt e (cad_role a) (cad_goal a) (cad_backstory a),
      ac_allowed_tools = allowed_tools_for_agent e a, ac_context_window = 4096\<rparr>"

definition crew_manager_id :: "crew_spec \<Rightarrow> string option" where
  "crew_manager_id spec =
     (case crew_manager_agent_id spec of
        Some m \<Rightarrow> Some m
      | None \<Rightarrow> (case crew_agents spec of [] \<Rightarrow> None | a # _ \<Rightarrow> Some (cad_id a)))"

abbreviation nl :: string where
  "nl \<equiv> [CHR 0x0A]"

definition plan_prompt :: "crew_env \<Rightarrow> crew_spec \<Rightarrow> json \<Rightarrow> string" where
  "plan_prompt e spec inputs =
     ''You coordinate this crew. Tasks (in order): '' @
     ce_debug_list e (map ctd_id (crew_tasks spec)) @ ''.'' @ nl @
     ''Inputs: '' @ ce_json_text e inputs @ nl @
     ''Reply with a short bullet plan (max 8 lines) for how the crew should execute.''"

definition crew_context :: "(string, string) hmap \<Rightarrow> string list \<Rightarrow> string" where
  "crew_context outputs cids =
     concat (map (\<lambda>cid. case hm_get outputs cid of
                          None \<Rightarrow> []
                        | Some prev \<Rightarrow> ''## Prior task '' @ cid @ nl @ prev @ nl @ nl) cids)"

definition task_block :: "string \<Rightarrow> string \<Rightarrow> string \<Rightarrow> string" where
  "task_block ctx desc expected =
     ctx @ ''## Current task'' @ nl @ desc @ nl @ nl @ ''Expected output: '' @ expected @ nl @
     ''Produce the final deliverable clearly.''"

definition task_output_of :: "crew_task_def \<Rightarrow> crew_agent_def \<Rightarrow> agent_result \<Rightarrow> crew_task_output" where
  "task_output_of t a res =
     \<lparr>cto_task_id = ctd_id t, cto_agent_id = cad_id a, cto_answer = ar_answer res,
      cto_iterations = ar_iterations res, cto_tokens = ar_total_tokens res,
      cto_success = ar_success res, cto_error = ar_error res\<rparr>"

text \<open>
  What the loops over the tasks change: the answers so far, the records of the tasks and the sum
  of the tokens, which wraps. \<open>run_task\<close> is the body both loops share, with the agent chosen.
\<close>

record crew_state =
  cst_outputs :: "(string, string) hmap"
  cst_tasks :: "crew_task_output list"
  cst_tokens :: u32

definition crew_start :: crew_state where
  "crew_start = \<lparr>cst_outputs = [], cst_tasks = [], cst_tokens = 0\<rparr>"

definition run_task ::
    "crew_env \<Rightarrow> json \<Rightarrow> string \<Rightarrow> nat \<Rightarrow> crew_task_def \<Rightarrow> crew_agent_def \<Rightarrow> crew_state \<Rightarrow> crew_state" where
  "run_task e inputs preamble i t a st =
     (let ctx = preamble @ crew_context (cst_outputs st) (ctd_context t);
          desc = interpolate_template (ce_json_text e) (ctd_description t) inputs;
          expected = interpolate_template (ce_json_text e) (ctd_expected_output t) inputs;
          res = ce_agent e i (crew_agent_config e a) (task_block ctx desc expected)
      in \<lparr>cst_outputs = hm_insert (ctd_id t) (ar_answer res) (cst_outputs st),
          cst_tasks = cst_tasks st @ [task_output_of t a res],
          cst_tokens = cst_tokens st + ar_total_tokens res\<rparr>)"

fun run_tasks ::
    "crew_env \<Rightarrow> crew_spec \<Rightarrow> json \<Rightarrow> string \<Rightarrow> nat \<Rightarrow> crew_task_def list \<Rightarrow> crew_state \<Rightarrow>
       (crew_state, crew_error) outcome" where
  "run_tasks e spec inputs preamble i [] st = Ok st"
| "run_tasks e spec inputs preamble i (t # ts) st =
     (case find_agent (crew_agents spec) (ctd_agent_id t) of
        None \<Rightarrow> Err (AgentMissing (ctd_agent_id t))
      | Some a \<Rightarrow>
          run_tasks e spec inputs preamble (Suc i) ts (run_task e inputs preamble i t a st))"

definition delegate_score :: "crew_env \<Rightarrow> string \<Rightarrow> crew_agent_def \<Rightarrow> nat" where
  "delegate_score e desc a =
     (let haystack = ce_lowercase e (cad_role a @ '' '' @ cad_goal a)
      in length (filter (str_contains haystack) (split_whitespace (ce_lowercase e desc))))"

text \<open>\<open>max_by_key\<close>: the last element with the greatest key.\<close>

fun last_max_by :: "('a \<Rightarrow> nat) \<Rightarrow> 'a list \<Rightarrow> 'a option" where
  "last_max_by f [] = None"
| "last_max_by f (x # xs) =
     (case last_max_by f xs of
        None \<Rightarrow> Some x
      | Some y \<Rightarrow> if f x \<le> f y then Some y else Some x)"

definition delegate_choice ::
    "crew_env \<Rightarrow> crew_spec \<Rightarrow> string \<Rightarrow> string \<Rightarrow> crew_task_def \<Rightarrow> crew_agent_def option" where
  "delegate_choice e spec mgr desc t =
     (case last_max_by (delegate_score e desc) (filter (\<lambda>a. cad_id a \<noteq> mgr) (crew_agents spec)) of
        Some a \<Rightarrow> Some a
      | None \<Rightarrow> find_agent (crew_agents spec) (ctd_agent_id t))"

fun run_delegated ::
    "crew_env \<Rightarrow> crew_spec \<Rightarrow> json \<Rightarrow> string \<Rightarrow> nat \<Rightarrow> crew_task_def list \<Rightarrow> crew_state \<Rightarrow>
       (crew_state, crew_error) outcome" where
  "run_delegated e spec inputs mgr i [] st = Ok st"
| "run_delegated e spec inputs mgr i (t # ts) st =
     (let desc = interpolate_template (ce_json_text e) (ctd_description t) inputs
      in case delegate_choice e spec mgr desc t of
           None \<Rightarrow> Err (NoAgentForTask (ctd_id t))
         | Some a \<Rightarrow> run_delegated e spec inputs mgr (Suc i) ts (run_task e inputs [] i t a st))"

definition crew_result :: "crew_spec \<Rightarrow> crew_state \<Rightarrow> crew_output" where
  "crew_result spec st =
     \<lparr>cro_raw = hm_get_or [] (cst_outputs st)
                  (if crew_tasks spec = [] then [] else ctd_id (last (crew_tasks spec))),
      cro_tasks_output = cst_tasks st,
      cro_token_usage = json_object [(''total_tokens'', json_of_word (cst_tokens st))]\<rparr>"

fun finish_crew :: "crew_spec \<Rightarrow> (crew_state, crew_error) outcome \<Rightarrow> (crew_output, crew_error) outcome" where
  "finish_crew spec (Ok st) = Ok (crew_result spec st)"
| "finish_crew spec (Err x) = Err x"
| "finish_crew spec Panic = Panic"

definition run_crew_delegate :: "crew_env \<Rightarrow> crew_spec \<Rightarrow> json \<Rightarrow> (crew_output, crew_error) outcome" where
  "run_crew_delegate e spec inputs =
     (case crew_manager_id spec of
        None \<Rightarrow> Err (NoManager ''delegate'')
      | Some mgr \<Rightarrow> finish_crew spec (run_delegated e spec inputs mgr 0 (crew_tasks spec) crew_start))"

definition run_crew :: "crew_env \<Rightarrow> crew_spec \<Rightarrow> json \<Rightarrow> (crew_output, crew_error) outcome" where
  "run_crew e spec inputs =
     (case crew_validate spec of
        Err x \<Rightarrow> Err x
      | Panic \<Rightarrow> Panic
      | Ok _ \<Rightarrow>
          if crew_proc spec = DelegateCrew then run_crew_delegate e spec inputs
          else if crew_proc spec = HierarchicalCrew then
            (case crew_manager_id spec of
               None \<Rightarrow> Err (NoManager ''hierarchical'')
             | Some mgr \<Rightarrow>
                 (case find_agent (crew_agents spec) mgr of
                    None \<Rightarrow> Err ManagerMissing
                  | Some a \<Rightarrow>
                      let plan = ce_agent e 0 (crew_agent_config e a) (plan_prompt e spec inputs);
                          preamble = ''## Manager plan'' @ nl @ ar_answer plan @ nl @ nl
                      in finish_crew spec
                           (run_tasks e spec inputs preamble 1 (crew_tasks spec) crew_start)))
          else finish_crew spec (run_tasks e spec inputs [] 0 (crew_tasks spec) crew_start))"

text \<open>The JSON of a result; an absent error is left out.\<close>

definition task_output_json :: "crew_task_output \<Rightarrow> json" where
  "task_output_json t =
     json_object
       ([(''task_id'', JString (cto_task_id t)), (''agent_id'', JString (cto_agent_id t)),
         (''answer'', JString (cto_answer t)), (''iterations'', json_of_word (cto_iterations t)),
         (''tokens'', json_of_word (cto_tokens t)), (''success'', JBool (cto_success t))] @
        (case cto_error t of None \<Rightarrow> [] | Some x \<Rightarrow> [(''error'', JString x)]))"

definition crew_output_json :: "crew_output \<Rightarrow> json" where
  "crew_output_json r =
     json_object [(''raw'', JString (cro_raw r)),
       (''tasks_output'', JArray (map task_output_json (cro_tasks_output r))),
       (''token_usage'', cro_token_usage r)]"

fun crew_error_msg :: "crew_error \<Rightarrow> string" where
  "crew_error_msg NoAgents = ''crew needs at least one agent''"
| "crew_error_msg NoTasks = ''crew needs at least one task''"
| "crew_error_msg (UnknownAgent t a) = ''task '' @ t @ '' references unknown agent '' @ a"
| "crew_error_msg (UnknownContextTask t c) = ''task '' @ t @ '' references unknown context task '' @ c"
| "crew_error_msg (ManagerNotFound m) = ''manager_agent_id '' @ m @ '' not found''"
| "crew_error_msg ManagerMissing = ''manager agent not found''"
| "crew_error_msg (NoManager k) = k @ '' crew needs manager_agent_id or at least one agent''"
| "crew_error_msg (AgentMissing a) = ''agent '' @ a @ '' missing''"
| "crew_error_msg (NoAgentForTask t) = ''no agent available for task '' @ t"

end
