(* ===== verification/Run_Store.thy ===== *)
theory Run_Store
  imports Crew
begin

section \<open>Runs of crews and workflows\<close>

text \<open>
  Models the in-memory stores of \<^verbatim>\<open>src/crew/store.rs\<close> and of \<^verbatim>\<open>src/flow/mod.rs\<close>, which keep one
  record per run. The two records have the same fields, \<open>'o\<close> is the type of a result. The workflow
  store also broadcasts its log lines. The times are the texts of \<open>to_rfc3339\<close> and arguments.
\<close>

record 'o run_record =
  rr_id :: string
  rr_status :: string
  rr_name :: string
  rr_error :: "string option"
  rr_output :: "'o option"
  rr_created_at :: string
  rr_completed_at :: "string option"
  rr_logs :: "string list option"

text \<open>\<open>get_or_insert_with(Vec::new).push(line)\<close> on the logs.\<close>

definition add_log :: "string \<Rightarrow> 'o run_record \<Rightarrow> 'o run_record" where
  "add_log line r =
     r\<lparr>rr_logs := Some ((case rr_logs r of None \<Rightarrow> [] | Some ls \<Rightarrow> ls) @ [line])\<rparr>"

text \<open>\<open>get_mut\<close>: an operation on the record of an id, if there is one.\<close>

definition modify_run ::
    "string \<Rightarrow> ('o run_record \<Rightarrow> 'o run_record) \<Rightarrow> (string, 'o run_record) hmap \<Rightarrow> (string, 'o run_record) hmap" where
  "modify_run i f runs = (case hm_get runs i of None \<Rightarrow> runs | Some r \<Rightarrow> hm_insert i (f r) runs)"

definition pending_run :: "string \<Rightarrow> string \<Rightarrow> string \<Rightarrow> string \<Rightarrow> 'o run_record" where
  "pending_run i name now line =
     \<lparr>rr_id = i, rr_status = ''pending'', rr_name = name, rr_error = None, rr_output = None,
      rr_created_at = now, rr_completed_at = None, rr_logs = Some [line]\<rparr>"

text \<open>\<open>list\<close>: a stable sort by the time of creation, the newest first.\<close>

fun insert_run :: "'o run_record \<Rightarrow> 'o run_record list \<Rightarrow> 'o run_record list" where
  "insert_run r [] = [r]"
| "insert_run r (x # xs) =
     (if str_less (rr_created_at r) (rr_created_at x) then x # insert_run r xs else r # x # xs)"

definition list_runs :: "(string, 'o run_record) hmap \<Rightarrow> 'o run_record list" where
  "list_runs runs = foldr insert_run (map snd runs) []"

subsection \<open>The crew store\<close>

record crew_run_store =
  crs_runs :: "(string, crew_output run_record) hmap"
  crs_cancels :: "(string, bool) hmap"

definition crew_store_new :: crew_run_store where
  "crew_store_new = \<lparr>crs_runs = [], crs_cancels = []\<rparr>"

definition crew_insert_pending :: "string \<Rightarrow> string \<Rightarrow> crew_spec \<Rightarrow> crew_run_store \<Rightarrow> crew_run_store" where
  "crew_insert_pending i now spec s =
     s\<lparr>crs_runs := hm_insert i (pending_run i (crew_name spec) now ''[crew] queued'') (crs_runs s),
       crs_cancels := hm_insert i False (crs_cancels s)\<rparr>"

definition crew_update_status :: "string \<Rightarrow> string \<Rightarrow> crew_run_store \<Rightarrow> crew_run_store" where
  "crew_update_status i status s =
     s\<lparr>crs_runs := modify_run i (\<lambda>r. r\<lparr>rr_status := status\<rparr>) (crs_runs s)\<rparr>"

definition crew_push_log :: "string \<Rightarrow> string \<Rightarrow> crew_run_store \<Rightarrow> crew_run_store" where
  "crew_push_log i line s = s\<lparr>crs_runs := modify_run i (add_log line) (crs_runs s)\<rparr>"

definition crew_complete_ok :: "string \<Rightarrow> string \<Rightarrow> crew_output \<Rightarrow> crew_run_store \<Rightarrow> crew_run_store" where
  "crew_complete_ok i now out s =
     s\<lparr>crs_runs := modify_run i
         (\<lambda>r. r\<lparr>rr_status := ''completed'', rr_output := Some out, rr_completed_at := Some now,
               rr_error := None\<rparr>) (crs_runs s)\<rparr>"

definition crew_complete_err :: "string \<Rightarrow> string \<Rightarrow> string \<Rightarrow> crew_run_store \<Rightarrow> crew_run_store" where
  "crew_complete_err i now msg s =
     s\<lparr>crs_runs := modify_run i
         (\<lambda>r. r\<lparr>rr_status := ''failed'', rr_error := Some msg, rr_completed_at := Some now\<rparr>) (crs_runs s)\<rparr>"

definition crew_get :: "string \<Rightarrow> crew_run_store \<Rightarrow> crew_output run_record option" where
  "crew_get i s = hm_get (crs_runs s) i"

definition crew_list :: "crew_run_store \<Rightarrow> crew_output run_record list" where
  "crew_list s = list_runs (crs_runs s)"

definition cancel_flag :: "string \<Rightarrow> crew_run_store \<Rightarrow> bool option" where
  "cancel_flag i s = hm_get (crs_cancels s) i"

subsection \<open>The workflow store\<close>

text \<open>A broadcast is the run, the line and the status; it is sent when there is a sender.\<close>

record flow_run_store =
  frs_runs :: "(string, json list run_record) hmap"
  frs_ws :: bool
  frs_sent :: "(string \<times> string \<times> string) list"

definition flow_store_new :: flow_run_store where
  "flow_store_new = \<lparr>frs_runs = [], frs_ws = False, frs_sent = []\<rparr>"

definition flow_store_with_ws :: flow_run_store where
  "flow_store_with_ws = \<lparr>frs_runs = [], frs_ws = True, frs_sent = []\<rparr>"

definition flow_broadcast :: "string \<Rightarrow> string \<Rightarrow> string \<Rightarrow> flow_run_store \<Rightarrow> flow_run_store" where
  "flow_broadcast i line status s =
     (if frs_ws s then s\<lparr>frs_sent := frs_sent s @ [(i, line, status)]\<rparr> else s)"

definition flow_insert_pending :: "string \<Rightarrow> string \<Rightarrow> string \<Rightarrow> flow_run_store \<Rightarrow> flow_run_store" where
  "flow_insert_pending i now name s =
     flow_broadcast i ''[flow] queued'' ''pending''
       (s\<lparr>frs_runs := hm_insert i (pending_run i name now ''[flow] queued'') (frs_runs s)\<rparr>)"

definition flow_update_status :: "string \<Rightarrow> string \<Rightarrow> flow_run_store \<Rightarrow> flow_run_store" where
  "flow_update_status i status s =
     s\<lparr>frs_runs := modify_run i (\<lambda>r. r\<lparr>rr_status := status\<rparr>) (frs_runs s)\<rparr>"

definition flow_push_log :: "string \<Rightarrow> string \<Rightarrow> flow_run_store \<Rightarrow> flow_run_store" where
  "flow_push_log i line s =
     (case hm_get (frs_runs s) i of
        None \<Rightarrow> s
      | Some r \<Rightarrow>
          flow_broadcast i line (rr_status r)
            (s\<lparr>frs_runs := hm_insert i (add_log line r) (frs_runs s)\<rparr>))"

definition flow_complete_ok :: "string \<Rightarrow> string \<Rightarrow> json list \<Rightarrow> flow_run_store \<Rightarrow> flow_run_store" where
  "flow_complete_ok i now out s =
     flow_broadcast i ''[flow] completed successfully'' ''completed''
       (s\<lparr>frs_runs := modify_run i
           (\<lambda>r. add_log ''[flow] completed successfully''
                  (r\<lparr>rr_status := ''completed'', rr_output := Some out, rr_completed_at := Some now,
                     rr_error := None\<rparr>)) (frs_runs s)\<rparr>)"

definition flow_complete_err :: "string \<Rightarrow> string \<Rightarrow> string \<Rightarrow> flow_run_store \<Rightarrow> flow_run_store" where
  "flow_complete_err i now msg s =
     flow_broadcast i (''[flow] failed: '' @ msg) ''failed''
       (s\<lparr>frs_runs := modify_run i
           (\<lambda>r. add_log (''[flow] failed: '' @ msg)
                  (r\<lparr>rr_status := ''failed'', rr_error := Some msg, rr_completed_at := Some now\<rparr>))
           (frs_runs s)\<rparr>)"

definition flow_get :: "string \<Rightarrow> flow_run_store \<Rightarrow> json list run_record option" where
  "flow_get i s = hm_get (frs_runs s) i"

definition flow_list :: "flow_run_store \<Rightarrow> json list run_record list" where
  "flow_list s = list_runs (frs_runs s)"

end
