(* ===== verification/Flow.thy ===== *)
theory Flow
  imports Run_Store
begin

section \<open>Workflow specifications\<close>

text \<open>
  Models \<^verbatim>\<open>src/flow/mod.rs\<close> and the static half of \<^verbatim>\<open>src/flow/interpreter.rs\<close>: the graph of nodes
  and labelled edges, its validation, the topological order of a flow without a start node
  and the choice of the next node in a flow with one.
\<close>

subsection \<open>Nodes, edges, errors\<close>

record flow_node =
  fn_id :: string
  fn_kind :: string
  fn_name :: string
  fn_prompt :: string
  fn_crew_spec :: "crew_spec option"
  fn_instructions :: string
  fn_model :: string
  fn_tools :: "string list"
  fn_temperature :: "f64 option"
  fn_max_tokens :: "u32 option"
  fn_include_chat_history :: bool
  fn_output_format :: string
  fn_agent_session_key :: string
  fn_classify_categories :: "string list"
  fn_classify_model :: string
  fn_classify_input_template :: string
  fn_classify_examples_json :: string
  fn_condition_cel :: string
  fn_if_case_name :: string
  fn_max_iterations :: u32
  fn_source_node_id :: string
  fn_guardrail_checks :: "string list"
  fn_guardrail_input_template :: string
  fn_guardrail_continue_on_error :: bool
  fn_guardrail_custom_substring :: string
  fn_mcp_tool_id :: string
  fn_mcp_arguments_json :: string
  fn_vector_collection :: string
  fn_vector_query_template :: string
  fn_vector_top_k :: u32
  fn_transform_from_node_id :: string
  fn_transform_mode :: string
  fn_transform_expressions_json :: string
  fn_transform_object_json :: string
  fn_state_key :: string
  fn_state_value_json :: string
  fn_state_value_cel :: string

definition default_node :: flow_node where
  "default_node =
     \<lparr>fn_id = [], fn_kind = [], fn_name = [], fn_prompt = [], fn_crew_spec = None,
      fn_instructions = [], fn_model = [], fn_tools = [], fn_temperature = None,
      fn_max_tokens = None, fn_include_chat_history = False, fn_output_format = [],
      fn_agent_session_key = [], fn_classify_categories = [], fn_classify_model = [],
      fn_classify_input_template = [], fn_classify_examples_json = [], fn_condition_cel = [],
      fn_if_case_name = [], fn_max_iterations = 0, fn_source_node_id = [],
      fn_guardrail_checks = [], fn_guardrail_input_template = [],
      fn_guardrail_continue_on_error = False, fn_guardrail_custom_substring = [],
      fn_mcp_tool_id = [], fn_mcp_arguments_json = [], fn_vector_collection = [],
      fn_vector_query_template = [], fn_vector_top_k = 0, fn_transform_from_node_id = [],
      fn_transform_mode = [], fn_transform_expressions_json = [], fn_transform_object_json = [],
      fn_state_key = [], fn_state_value_json = [], fn_state_value_cel = []\<rparr>"

record flow_edge =
  fe_from :: string
  fe_to :: string
  fe_label :: "string option"

record flow_spec =
  fs_name :: string
  fs_nodes :: "flow_node list"
  fs_edges :: "flow_edge list"

datatype node_kind =
    KNote | KStart | KEnd | KApproval | KIf | KWhile | KGuardrails | KMcp | KFileSearch | KSetState
  | KTransform | KCrew | KAgent | KClassify | KLlm | KOther

datatype flow_error =
    NeedsNodes
  | EdgeFromUnknown string
  | EdgeToUnknown string
  | FlowCycle
  | StartCount nat
  | NeedsLabels string node_kind
  | EndHasEdges string
  | NeedsOneDefault string
  | GuardNeedsSource string
  | GuardSourceNotFound string string
  | TransformSourceNotFound string string
  | StartEdges nat
  | NotReachable string
  | MaxStepsExceeded
  | MissingNode string
  | NoBranch string node_kind
  | MissingEdge string string
  | AmbiguousEdges string nat
  | UnknownKind string string
  | CrewFailed crew_error
  | NodeFailed string

text \<open>The arms of the interpreter's match on the lower-cased kind.\<close>

definition kind_class :: "string \<Rightarrow> node_kind" where
  "kind_class k =
     (if k = ''note'' then KNote
      else if k = ''start'' then KStart
      else if k = ''end'' then KEnd
      else if k \<in> {''human_approval'', ''humanapproval'', ''user_approval'', ''userapproval''} then KApproval
      else if k = ''if'' \<or> k = ''ifelse'' then KIf
      else if k = ''while'' then KWhile
      else if k = ''guardrails'' then KGuardrails
      else if k = ''mcp'' then KMcp
      else if k = ''file_search'' \<or> k = ''filesearch'' then KFileSearch
      else if k = ''set_state'' \<or> k = ''setstate'' then KSetState
      else if k = ''transform'' then KTransform
      else if k = ''crew'' then KCrew
      else if k = ''agent'' then KAgent
      else if k = ''classify'' then KClassify
      else if k = [] \<or> k = ''llm'' then KLlm
      else KOther)"

definition node_class :: "flow_node \<Rightarrow> node_kind" where
  "node_class n = kind_class (ascii_lower (fn_kind n))"

definition node_ids :: "flow_spec \<Rightarrow> string list" where
  "node_ids spec = map fn_id (fs_nodes spec)"

definition find_node :: "flow_spec \<Rightarrow> string \<Rightarrow> flow_node option" where
  "find_node spec i = find (\<lambda>n. fn_id n = i) (fs_nodes spec)"

subsection \<open>Flows made from a crew or an agent\<close>

definition plain_edge :: "string \<Rightarrow> string \<Rightarrow> flow_edge" where
  "plain_edge a b = \<lparr>fe_from = a, fe_to = b, fe_label = None\<rparr>"

definition from_crew :: "crew_spec \<Rightarrow> flow_spec" where
  "from_crew crew =
     \<lparr>fs_name = (if crew_name crew = [] then ''crew-workflow'' else crew_name crew),
      fs_nodes =
        [default_node\<lparr>fn_id := ''s'', fn_kind := ''start'', fn_name := ''Start''\<rparr>,
         default_node\<lparr>fn_id := ''crew'', fn_kind := ''crew'', fn_name := ''Crew'',
           fn_crew_spec := Some crew\<rparr>,
         default_node\<lparr>fn_id := ''e'', fn_kind := ''end'', fn_name := ''End''\<rparr>],
      fs_edges = [plain_edge ''s'' ''crew'', plain_edge ''crew'' ''e'']\<rparr>"

definition single_agent :: "string \<Rightarrow> flow_spec" where
  "single_agent name =
     \<lparr>fs_name = name,
      fs_nodes =
        [default_node\<lparr>fn_id := ''s'', fn_kind := ''start'', fn_name := ''Start''\<rparr>,
         default_node\<lparr>fn_id := ''agent'', fn_kind := ''agent'', fn_name := name,
           fn_instructions := ''You are a helpful '' @ name @
             '' agent. Complete the user'' @ [CHR 0x27] @ ''s request.''\<rparr>,
         default_node\<lparr>fn_id := ''e'', fn_kind := ''end'', fn_name := ''End''\<rparr>],
      fs_edges = [plain_edge ''s'' ''agent'', plain_edge ''agent'' ''e'']\<rparr>"

subsection \<open>Validation of the graph and the topological order\<close>

fun check_edges :: "string list \<Rightarrow> flow_edge list \<Rightarrow> (unit, flow_error) outcome" where
  "check_edges ids [] = Ok ()"
| "check_edges ids (e # es) =
     (if fe_from e \<notin> set ids then Err (EdgeFromUnknown (fe_from e))
      else if fe_to e \<notin> set ids then Err (EdgeToUnknown (fe_to e))
      else check_edges ids es)"

definition flow_validate :: "flow_spec \<Rightarrow> (unit, flow_error) outcome" where
  "flow_validate spec =
     (if fs_nodes spec = [] then Err NeedsNodes else check_edges (node_ids spec) (fs_edges spec))"

definition has_interpreter_start :: "flow_spec \<Rightarrow> bool" where
  "has_interpreter_start spec \<longleftrightarrow>
     list_ex (\<lambda>n. eq_ignore_ascii_case (fn_kind n) ''start'') (fs_nodes spec)"

text \<open>
  \<open>entry(k).or_default().push(v)\<close>. In Kahn's loop an in-degree is an \<open>int\<close>: the \<open>usize\<close> that
  reaches 0 is the only value the loop tests for. \<open>iter\<close> is the order in which the hash map of
  the in-degrees is iterated.
\<close>

definition hm_push :: "'k \<Rightarrow> 'v \<Rightarrow> ('k, 'v list) hmap \<Rightarrow> ('k, 'v list) hmap" where
  "hm_push k v m = hm_insert k (hm_get_or [] m k @ [v]) m"

definition initial_degrees :: "flow_spec \<Rightarrow> (string, int) hmap" where
  "initial_degrees spec =
     foldl (\<lambda>m e. hm_insert (fe_to e) (hm_get_or 0 m (fe_to e) + 1) m)
       (foldl (\<lambda>m n. hm_insert (fn_id n) 0 m) [] (fs_nodes spec)) (fs_edges spec)"

definition adjacency :: "flow_spec \<Rightarrow> (string, string list) hmap" where
  "adjacency spec = foldl (\<lambda>m e. hm_push (fe_from e) (fe_to e) m) [] (fs_edges spec)"

text \<open>The inner loop: \<open>None\<close> is the panic of \<open>unwrap\<close> on a node without an in-degree.\<close>

fun relax :: "(string, int) hmap \<Rightarrow> string list \<Rightarrow> string list \<Rightarrow> ((string, int) hmap \<times> string list) option" where
  "relax indeg q [] = Some (indeg, q)"
| "relax indeg q (v # vs) =
     (case hm_get indeg v of
        None \<Rightarrow> None
      | Some d \<Rightarrow> relax (hm_insert v (d - 1) indeg) (if d - 1 = 0 then q @ [v] else q) vs)"

partial_function (option) kahn ::
    "(string, string list) hmap \<Rightarrow> (string, int) hmap \<Rightarrow> string list \<Rightarrow> string list \<Rightarrow>
       (string list, flow_error) outcome option" where
  "kahn adj indeg q out =
     (case q of
        [] \<Rightarrow> Some (Ok out)
      | u # q \<Rightarrow>
          (case relax indeg q (hm_get_or [] adj u) of
             None \<Rightarrow> Some Panic
           | Some (indeg, q) \<Rightarrow> kahn adj indeg q (out @ [u])))"

declare kahn.simps [code]

definition execution_order ::
    "((string, int) hmap \<Rightarrow> (string, int) hmap) \<Rightarrow> flow_spec \<Rightarrow> (string list, flow_error) outcome option" where
  "execution_order iter spec =
     (case flow_validate spec of
        Err x \<Rightarrow> Some (Err x)
      | Panic \<Rightarrow> Some Panic
      | Ok _ \<Rightarrow>
          let indeg = initial_degrees spec;
              q = map fst (filter (\<lambda>(k, d). d = 0) (iter indeg))
          in map_option
               (\<lambda>r. case r of
                  Ok out \<Rightarrow> if length out \<noteq> length (fs_nodes spec) then Err FlowCycle else Ok out
                | r \<Rightarrow> r)
               (kahn (adjacency spec) indeg q []))"

subsection \<open>Labels and the next node\<close>

definition normalize_label :: "string option \<Rightarrow> string option" where
  "normalize_label l =
     (case l of
        None \<Rightarrow> None
      | Some s \<Rightarrow> let s = ascii_lower (trim s) in if s = [] then None else Some s)"

type_synonym out_edge = "string \<times> string option"

definition outgoing_map :: "flow_spec \<Rightarrow> (string, out_edge list) hmap" where
  "outgoing_map spec = foldl (\<lambda>m e. hm_push (fe_from e) (fe_to e, fe_label e) m) [] (fs_edges spec)"

definition incoming_map :: "flow_spec \<Rightarrow> (string, string list) hmap" where
  "incoming_map spec = foldl (\<lambda>m e. hm_push (fe_to e) (fe_from e) m) [] (fs_edges spec)"

definition outs_of :: "flow_spec \<Rightarrow> string \<Rightarrow> out_edge list" where
  "outs_of spec i = hm_get_or [] (outgoing_map spec) i"

definition unlabeled :: "out_edge \<Rightarrow> bool" where
  "unlabeled e = (case snd e of None \<Rightarrow> True | Some s \<Rightarrow> trim s = [])"

definition labeled :: "string \<Rightarrow> out_edge \<Rightarrow> bool" where
  "labeled l e \<longleftrightarrow> normalize_label (snd e) = Some l"

text \<open>The branching kinds follow the first edge with the branch's label.\<close>

definition branch_kind :: "node_kind \<Rightarrow> bool" where
  "branch_kind k \<longleftrightarrow> k \<in> {KIf, KWhile, KGuardrails, KApproval}"

definition pick_next ::
    "flow_node \<Rightarrow> out_edge list \<Rightarrow> string option \<Rightarrow> (string option, flow_error) outcome" where
  "pick_next from outs branch =
     (if branch_kind (node_class from)
      then
        (case branch of
           None \<Rightarrow> Err (NoBranch (fn_id from) (node_class from))
         | Some b \<Rightarrow>
             let want = ascii_lower b
             in case find (labeled want) outs of
                  Some e \<Rightarrow> Ok (Some (fst e))
                | None \<Rightarrow> Err (MissingEdge (fn_id from) want))
      else
        (case outs of
           [] \<Rightarrow> Ok None
         | [e] \<Rightarrow> Ok (Some (fst e))
         | _ \<Rightarrow>
             (case filter unlabeled outs of
                [e] \<Rightarrow> Ok (Some (fst e))
              | _ \<Rightarrow>
                  (case filter (labeled ''default'') outs of
                     [e] \<Rightarrow> Ok (Some (fst e))
                   | _ \<Rightarrow> Err (AmbiguousEdges (fn_id from) (length outs))))))"

subsection \<open>Validation of a flow with a start node\<close>

definition branch_labels :: "node_kind \<Rightarrow> string \<times> string" where
  "branch_labels k =
     (case k of
        KIf \<Rightarrow> (''true'', ''false'')
      | KWhile \<Rightarrow> (''loop'', ''exit'')
      | KGuardrails \<Rightarrow> (''pass'', ''fail'')
      | _ \<Rightarrow> (''approve'', ''reject''))"

definition check_labels :: "out_edge list \<Rightarrow> flow_node \<Rightarrow> (unit, flow_error) outcome" where
  "check_labels outs n =
     (let k = node_class n
      in if branch_kind k then
           (if list_ex (labeled (fst (branch_labels k))) outs \<and>
               list_ex (labeled (snd (branch_labels k))) outs
            then Ok () else Err (NeedsLabels (fn_id n) k))
         else if k = KEnd then (if outs \<noteq> [] then Err (EndHasEdges (fn_id n)) else Ok ())
         else if 1 < length outs \<and> length (filter (labeled ''default'') outs) \<noteq> 1 \<and>
                 length (filter unlabeled outs) \<noteq> 1
         then Err (NeedsOneDefault (fn_id n)) else Ok ())"

definition check_guard_source :: "string list \<Rightarrow> flow_node \<Rightarrow> (unit, flow_error) outcome" where
  "check_guard_source ids n =
     (let sid = trim (fn_source_node_id n)
      in if node_class n \<noteq> KGuardrails then Ok ()
         else if trim (fn_guardrail_input_template n) = [] then
           (if sid = [] then Err (GuardNeedsSource (fn_id n))
            else if sid \<notin> set ids then Err (GuardSourceNotFound (fn_id n) sid)
            else Ok ())
         else if sid \<noteq> [] \<and> sid \<notin> set ids then Err (GuardSourceNotFound (fn_id n) sid)
         else Ok ())"

definition check_transform_source :: "string list \<Rightarrow> flow_node \<Rightarrow> (unit, flow_error) outcome" where
  "check_transform_source ids n =
     (let mode = ascii_lower (fn_transform_mode n);
          copy_mode = (mode = ''copy'' \<or>
            mode = [] \<and> trim (fn_transform_expressions_json n) = [] \<and>
            trim (fn_transform_object_json n) = []);
          fid = trim (fn_transform_from_node_id n)
      in if node_class n = KTransform \<and> copy_mode \<and> fid \<noteq> [] \<and> fid \<notin> set ids
         then Err (TransformSourceNotFound (fn_id n) fid) else Ok ())"

fun check_nodes :: "flow_spec \<Rightarrow> flow_node list \<Rightarrow> (unit, flow_error) outcome" where
  "check_nodes spec [] = Ok ()"
| "check_nodes spec (n # ns) =
     (if node_class n = KNote then check_nodes spec ns
      else
        (case check_labels (outs_of spec (fn_id n)) n of
           Ok _ \<Rightarrow>
             (case check_guard_source (node_ids spec) n of
                Ok _ \<Rightarrow>
                  (case check_transform_source (node_ids spec) n of
                     Ok _ \<Rightarrow> check_nodes spec ns
                   | r \<Rightarrow> r)
              | r \<Rightarrow> r)
         | r \<Rightarrow> r))"

text \<open>The stack's top is the head of the list.\<close>

partial_function (option) reach ::
    "(string, out_edge list) hmap \<Rightarrow> string list \<Rightarrow> string list \<Rightarrow> string list option" where
  "reach out seen stack =
     (case stack of
        [] \<Rightarrow> Some seen
      | x # stack \<Rightarrow>
          if x \<in> set seen then reach out seen stack
          else reach out (x # seen) (rev (map fst (hm_get_or [] out x)) @ stack))"

declare reach.simps [code]

fun check_reached :: "string list \<Rightarrow> flow_node list \<Rightarrow> (unit, flow_error) outcome" where
  "check_reached seen [] = Ok ()"
| "check_reached seen (n # ns) =
     (if node_class n \<noteq> KNote \<and> fn_id n \<notin> set seen then Err (NotReachable (fn_id n))
      else check_reached seen ns)"

definition start_nodes :: "flow_spec \<Rightarrow> flow_node list" where
  "start_nodes spec = filter (\<lambda>n. eq_ignore_ascii_case (fn_kind n) ''start'') (fs_nodes spec)"

definition validate_interpreter :: "flow_spec \<Rightarrow> (unit, flow_error) outcome option" where
  "validate_interpreter spec =
     (case start_nodes spec of
        [s] \<Rightarrow>
          (case check_nodes spec (fs_nodes spec) of
             Ok _ \<Rightarrow>
               let so = length (outs_of spec (fn_id s))
               in if so \<noteq> 1 then Some (Err (StartEdges so))
                  else map_option (\<lambda>seen. check_reached seen (fs_nodes spec))
                         (reach (outgoing_map spec) [] [fn_id s])
           | r \<Rightarrow> Some r)
      | starts \<Rightarrow> Some (Err (StartCount (length starts))))"

definition validate_for_run ::
    "((string, int) hmap \<Rightarrow> (string, int) hmap) \<Rightarrow> flow_spec \<Rightarrow> (unit, flow_error) outcome option" where
  "validate_for_run iter spec =
     (case flow_validate spec of
        Ok _ \<Rightarrow>
          if has_interpreter_start spec then validate_interpreter spec
          else map_option (\<lambda>r. case r of Ok _ \<Rightarrow> Ok () | Err x \<Rightarrow> Err x | Panic \<Rightarrow> Panic)
                 (execution_order iter spec)
      | r \<Rightarrow> Some r)"

end
