(* ===== verification/Flow_Graph.thy ===== *)
theory Flow_Graph
  imports Flow
begin

section \<open>The graph algorithms of workflows\<close>

text \<open>
  The two loops over a flow's graph, against reference definitions: Kahn's loop returns a
  topological order of all nodes exactly when there is one, the search with a stack returns the
  nodes that are reachable by the reflexive transitive closure of the edges.
\<close>

definition edge_rel :: "flow_spec \<Rightarrow> (string \<times> string) set" where
  "edge_rel spec = (\<lambda>e. (fe_from e, fe_to e)) ` set (fs_edges spec)"

subsection \<open>Maps built by pushing\<close>

lemma hm_get_or_push [simp]:
  "hm_get_or [] (hm_push k v m) k' = (if k' = k then hm_get_or [] m k @ [v] else hm_get_or [] m k')"
  by (simp add: hm_push_def)

lemma hm_get_or_pushes:
  "hm_get_or [] (foldl (\<lambda>m e. hm_push (f e) (g e) m) m es) k =
     hm_get_or [] m k @ map g (filter (\<lambda>e. f e = k) es)"
  by (induction es arbitrary: m) auto

lemma hm_get_or_empty [simp]: "hm_get_or d [] k = d"
  by (simp add: hm_get_or_def)

lemma adjacency_get:
  "hm_get_or [] (adjacency spec) u = map fe_to (filter (\<lambda>e. fe_from e = u) (fs_edges spec))"
  by (simp add: adjacency_def hm_get_or_pushes)

lemma outs_of_eq:
  "outs_of spec u = map (\<lambda>e. (fe_to e, fe_label e)) (filter (\<lambda>e. fe_from e = u) (fs_edges spec))"
  by (simp add: outs_of_def outgoing_map_def hm_get_or_pushes)

lemma set_outs_of: "fst ` set (outs_of spec u) = edge_rel spec `` {u}"
  by (force simp: outs_of_eq edge_rel_def)

subsection \<open>Validation\<close>

lemma check_edges_ok:
  "check_edges ids es = Ok () \<longleftrightarrow> (\<forall>e \<in> set es. fe_from e \<in> set ids \<and> fe_to e \<in> set ids)"
  by (induction es) auto

lemma flow_validate_ok:
  "flow_validate spec = Ok () \<longleftrightarrow>
     fs_nodes spec \<noteq> [] \<and> edge_rel spec \<subseteq> set (node_ids spec) \<times> set (node_ids spec)"
  by (auto simp: flow_validate_def check_edges_ok edge_rel_def)

lemma check_edges_not_Panic [simp]: "check_edges ids es \<noteq> Panic"
  by (induction es) auto

lemma flow_validate_not_Panic [simp]: "flow_validate spec \<noteq> Panic"
  by (simp add: flow_validate_def)

subsection \<open>The search from the start node\<close>

definition reach_inv :: "flow_spec \<Rightarrow> string \<Rightarrow> string list \<Rightarrow> string list \<Rightarrow> bool" where
  "reach_inv spec s seen stack \<longleftrightarrow>
     s \<in> set seen \<union> set stack \<and>
     set seen \<union> set stack \<subseteq> (edge_rel spec)\<^sup>* `` {s} \<and>
     edge_rel spec `` set seen \<subseteq> set seen \<union> set stack"

lemma reach_inv_push:
  assumes "reach_inv spec s seen (x # stack)"
  shows "reach_inv spec s (x # seen) (rev (map fst (outs_of spec x)) @ stack)"
proof -
  have *: "set (rev (map fst (outs_of spec x))) = edge_rel spec `` {x}"
    by (simp add: set_outs_of)
  have "edge_rel spec `` {x} \<subseteq> (edge_rel spec)\<^sup>* `` {s}"
    using assms by (auto simp: reach_inv_def intro: rtrancl_into_rtrancl)
  with assms show ?thesis
    unfolding reach_inv_def set_append * by auto
qed

lemma reach_Nil [simp]: "reach out seen [] = Some seen"
  by (subst reach.simps) simp

lemma reach_Cons:
  "reach out seen (x # stack) =
     (if x \<in> set seen then reach out seen stack
      else reach out (x # seen) (rev (map fst (hm_get_or [] out x)) @ stack))"
  by (subst reach.simps) simp

lemma reach_returns:
  assumes "reach_inv spec s seen stack" and "finite V" and "set seen \<union> set stack \<subseteq> V"
    and "edge_rel spec `` V \<subseteq> V"
  shows "\<exists>seen'. reach (outgoing_map spec) seen stack = Some seen' \<and> reach_inv spec s seen' []"
  using assms
proof (induction "(card (V - set seen), length stack)" arbitrary: seen stack
    rule: wf_induct_rule [OF wf_lex_prod [OF wf_less_than wf_less_than]])
  case less: 1
  show ?case
  proof (cases stack)
    case Nil
    with less.prems show ?thesis by simp
  next
    case (Cons x rest)
    show ?thesis
    proof (cases "x \<in> set seen")
      case True
      with Cons less.prems have "reach_inv spec s seen rest" by (auto simp: reach_inv_def)
      with True Cons less.prems less.hyps show ?thesis by (simp add: reach_Cons)
    next
      case False
      let ?next = "rev (map fst (outs_of spec x)) @ rest"
      have x: "x \<in> V" using less.prems Cons by simp
      have "V - set (x # seen) \<subset> V - set seen" using x False by auto
      then have "card (V - set (x # seen)) < card (V - set seen)"
        using less.prems by (intro psubset_card_mono) auto
      moreover have "set (x # seen) \<union> set ?next \<subseteq> V"
        using less.prems Cons x set_outs_of [of spec x] by auto
      moreover have "reach_inv spec s (x # seen) ?next"
        using less.prems Cons by (auto intro: reach_inv_push)
      ultimately show ?thesis
        using False Cons less.prems less.hyps by (simp add: reach_Cons outs_of_def)
    qed
  qed
qed

lemma Image_rtrancl_closed: "s \<in> S \<Longrightarrow> r `` S \<subseteq> S \<Longrightarrow> r\<^sup>* `` {s} \<subseteq> S"
proof
  fix y assume "s \<in> S" "r `` S \<subseteq> S" and "y \<in> r\<^sup>* `` {s}"
  then have "(s, y) \<in> r\<^sup>*" by simp
  then show "y \<in> S" using \<open>s \<in> S\<close> \<open>r `` S \<subseteq> S\<close> by induction auto
qed

lemma reach_rtrancl:
  "\<exists>seen. reach (outgoing_map spec) [] [s] = Some seen \<and> set seen = (edge_rel spec)\<^sup>* `` {s}"
proof -
  let ?V = "insert s (Range (edge_rel spec))"
  have inv: "reach_inv spec s [] [s]" by (simp add: reach_inv_def)
  have V: "finite ?V" by (simp add: edge_rel_def finite_Range)
  have "set [] \<union> set [s] \<subseteq> ?V" and "edge_rel spec `` ?V \<subseteq> ?V" by auto
  from reach_returns [OF inv V this] obtain seen where
    *: "reach (outgoing_map spec) [] [s] = Some seen" "reach_inv spec s seen []" by blast
  then have "s \<in> set seen" "edge_rel spec `` set seen \<subseteq> set seen"
    "set seen \<subseteq> (edge_rel spec)\<^sup>* `` {s}" by (auto simp: reach_inv_def)
  with Image_rtrancl_closed [of s "set seen" "edge_rel spec"] * show ?thesis by blast
qed

subsection \<open>Kahn's loop\<close>

text \<open>How many edges enter a node from nodes outside a set.\<close>

definition in_count :: "flow_spec \<Rightarrow> string set \<Rightarrow> string \<Rightarrow> int" where
  "in_count spec S v = int (length (filter (\<lambda>e. fe_to e = v \<and> fe_from e \<notin> S) (fs_edges spec)))"

lemma in_count_nonneg [simp]: "0 \<le> in_count spec S v"
  by (simp add: in_count_def)

lemma in_count_zero: "in_count spec S v = 0 \<longleftrightarrow> (edge_rel spec)\<inverse> `` {v} \<subseteq> S"
  by (auto simp: in_count_def edge_rel_def filter_empty_conv)

lemma in_count_insert:
  "u \<notin> S \<Longrightarrow> in_count spec S v =
     in_count spec (insert u S) v + int (count_list (hm_get_or [] (adjacency spec) u) v)"
proof -
  assume u: "u \<notin> S"
  have "length (filter (\<lambda>e. fe_to e = v \<and> fe_from e \<notin> S) es) =
      length (filter (\<lambda>e. fe_to e = v \<and> fe_from e \<notin> insert u S) es) +
      count_list (map fe_to (filter (\<lambda>e. fe_from e = u) es)) v" for es
    using u by (induction es) auto
  from this [of "fs_edges spec"] show ?thesis
    by (simp only: in_count_def adjacency_get flip: of_nat_add)
qed

lemma initial_degrees_get:
  assumes "v \<in> set (node_ids spec)"
  shows "hm_get (initial_degrees spec) v = Some (in_count spec {} v)"
proof -
  let ?inc = "\<lambda>m e. hm_insert (fe_to e) (hm_get_or 0 m (fe_to e) + 1) m"
  have nodes: "hm_get (foldl (\<lambda>m n. hm_insert (fn_id n) 0 m) m ns) v =
      (if v \<in> fn_id ` set ns then Some (0 :: int) else hm_get m v)" for ns m
    by (induction ns arbitrary: m) auto
  have edges: "hm_get m v = Some d \<Longrightarrow> hm_get (foldl ?inc m es) v =
      Some (d + int (length (filter (\<lambda>e. fe_to e = v) es)))" for m d es
    by (induction es arbitrary: m d) (auto simp: hm_get_or_def)
  show ?thesis
    using edges [of "foldl (\<lambda>m n. hm_insert (fn_id n) 0 m) [] (fs_nodes spec)" 0 "fs_edges spec"]
      nodes [of "[]" "fs_nodes spec"] assms
    by (simp add: initial_degrees_def in_count_def node_ids_def)
qed

lemma initial_degrees_keys:
  assumes "flow_validate spec = Ok ()"
  shows "fst ` set (initial_degrees spec) = set (node_ids spec)" and "hm_wf (initial_degrees spec)"
proof -
  let ?inc = "\<lambda>m e. hm_insert (fe_to e) (hm_get_or (0 :: int) m (fe_to e) + 1) m"
  have nodes: "fst ` set (foldl (\<lambda>m n. hm_insert (fn_id n) (0 :: int) m) m ns) =
      fst ` set m \<union> fn_id ` set ns" for ns m
    by (induction ns arbitrary: m) (auto simp: dom_update)
  have edges: "fst ` set (foldl ?inc m es) = fst ` set m \<union> fe_to ` set es" for m es
    by (induction es arbitrary: m) (auto simp: dom_update)
  show "fst ` set (initial_degrees spec) = set (node_ids spec)"
    using assms by (auto simp: initial_degrees_def nodes edges flow_validate_ok edge_rel_def node_ids_def)
  have wf1: "hm_wf m \<Longrightarrow> hm_wf (foldl (\<lambda>m n. hm_insert (fn_id n) (0 :: int) m) m ns)" for ns m
    by (induction ns arbitrary: m) auto
  have wf2: "hm_wf m \<Longrightarrow> hm_wf (foldl ?inc m es)" for m es
    by (induction es arbitrary: m) auto
  show "hm_wf (initial_degrees spec)"
    unfolding initial_degrees_def by (rule wf2, rule wf1, rule hm_wf_Nil)
qed

lemma relax_spec:
  assumes "\<And>v. v \<in> V \<Longrightarrow> hm_get indeg v = Some (c v + int (count_list ns v))"
    and "\<And>v. v \<in> V \<Longrightarrow> 0 \<le> c v" and "set ns \<subseteq> V"
  shows "\<exists>indeg' new. relax indeg q ns = Some (indeg', q @ new) \<and>
    (\<forall>v \<in> V. hm_get indeg' v = Some (c v)) \<and> distinct new \<and> set new = {v \<in> set ns. c v = 0}"
  using assms
proof (induction ns arbitrary: indeg q)
  case Nil
  then show ?case by auto
next
  case (Cons v vs)
  let ?d = "c v + int (count_list vs v)"
  let ?q = "if ?d = 0 then q @ [v] else q"
  have v: "hm_get indeg v = Some (?d + 1)" using Cons.prems by simp
  have "hm_get (hm_insert v ?d indeg) w = Some (c w + int (count_list vs w))" if "w \<in> V" for w
    using Cons.prems(1) [OF that] by simp
  from Cons.IH [OF this] Cons.prems(2,3) obtain indeg' new where
    new: "relax (hm_insert v ?d indeg) ?q vs = Some (indeg', ?q @ new)"
      "\<forall>v \<in> V. hm_get indeg' v = Some (c v)" "distinct new" "set new = {v \<in> set vs. c v = 0}"
    by (metis (no_types, lifting) insert_subset list.set(2))
  have step: "relax indeg q (v # vs) = relax (hm_insert v ?d indeg) ?q vs"
    using v by simp
  have zero: "?d = 0 \<longleftrightarrow> c v = 0 \<and> v \<notin> set vs"
    using Cons.prems(2,3) by (auto simp: count_list_0_iff add_nonneg_eq_0_iff)
  show ?case
  proof (cases "?d = 0")
    case True
    with new step zero show ?thesis by (intro exI [of _ indeg'] exI [of _ "v # new"]) auto
  next
    case False
    with new step zero show ?thesis by (intro exI [of _ indeg'] exI [of _ new]) auto
  qed
qed

text \<open>Every predecessor of a listed node comes before it.\<close>

definition preds_first :: "flow_spec \<Rightarrow> string list \<Rightarrow> bool" where
  "preds_first spec out \<longleftrightarrow>
     (\<forall>xs u ys. out = xs @ u # ys \<longrightarrow> (edge_rel spec)\<inverse> `` {u} \<subseteq> set xs)"

lemma preds_first_snoc:
  "preds_first spec out \<Longrightarrow> (edge_rel spec)\<inverse> `` {u} \<subseteq> set out \<Longrightarrow> preds_first spec (out @ [u])"
  unfolding preds_first_def
proof (intro allI impI)
  fix xs w ys
  assume *: "\<forall>xs u ys. out = xs @ u # ys \<longrightarrow> (edge_rel spec)\<inverse> `` {u} \<subseteq> set xs"
    "(edge_rel spec)\<inverse> `` {u} \<subseteq> set out" and eq: "out @ [u] = xs @ w # ys"
  show "(edge_rel spec)\<inverse> `` {w} \<subseteq> set xs"
  proof (cases ys rule: rev_cases)
    case Nil
    with eq * show ?thesis by simp
  next
    case (snoc zs z)
    with eq have "out = xs @ w # zs" by simp
    with * show ?thesis by blast
  qed
qed

definition kahn_inv :: "flow_spec \<Rightarrow> (string, int) hmap \<Rightarrow> string list \<Rightarrow> string list \<Rightarrow> bool" where
  "kahn_inv spec indeg q out \<longleftrightarrow>
     distinct (out @ q) \<and> set (out @ q) \<subseteq> set (node_ids spec) \<and> preds_first spec out \<and>
     (\<forall>v \<in> set (node_ids spec).
        hm_get indeg v = Some (in_count spec (set out) v) \<and>
        (v \<in> set (out @ q) \<longleftrightarrow> in_count spec (set out) v = 0))"

lemma kahn_step:
  assumes inv: "kahn_inv spec indeg (u # q) out" and valid: "flow_validate spec = Ok ()"
  obtains indeg' q' where "relax indeg q (hm_get_or [] (adjacency spec) u) = Some (indeg', q')"
    and "kahn_inv spec indeg' q' (out @ [u])"
proof -
  let ?V = "set (node_ids spec)" and ?ns = "hm_get_or [] (adjacency spec) u"
  let ?c = "in_count spec (set (out @ [u]))"
  have u: "u \<notin> set out" "u \<in> ?V" using inv by (auto simp: kahn_inv_def)
  have cnt: "in_count spec (set out) v = ?c v + int (count_list ?ns v)" for v
    using in_count_insert [OF u(1), of spec v] by simp
  have ns: "set ?ns \<subseteq> ?V"
    using valid by (force simp: adjacency_get flow_validate_ok edge_rel_def)
  have "hm_get indeg v = Some (?c v + int (count_list ?ns v))" if "v \<in> ?V" for v
    using inv that cnt [of v] by (simp add: kahn_inv_def)
  then obtain indeg' new where new: "relax indeg q ?ns = Some (indeg', q @ new)"
      "\<forall>v \<in> ?V. hm_get indeg' v = Some (?c v)" "distinct new" "set new = {v \<in> set ?ns. ?c v = 0}"
    using relax_spec [of ?V indeg ?c ?ns q] ns by auto
  have old: "v \<in> set (out @ u # q) \<longleftrightarrow> in_count spec (set out) v = 0" if "v \<in> ?V" for v
    using inv that by (simp add: kahn_inv_def)
  have fresh: "v \<notin> set (out @ u # q)" if "v \<in> set ?ns" for v
  proof -
    have "count_list ?ns v \<noteq> 0" using that by (simp add: count_list_0_iff)
    then have "in_count spec (set out) v \<noteq> 0"
      using cnt [of v] in_count_nonneg [of spec "set (out @ [u])" v] by linarith
    with old ns that show ?thesis by blast
  qed
  have members: "v \<in> set ((out @ [u]) @ q @ new) \<longleftrightarrow> ?c v = 0" if "v \<in> ?V" for v
  proof (cases "v \<in> set ?ns")
    case True
    with new(4) fresh [OF True] show ?thesis by auto
  next
    case False
    then have "in_count spec (set out) v = ?c v" using cnt [of v] by (simp add: count_list_0_iff)
    moreover have "v \<notin> set new" using False new(4) by simp
    ultimately show ?thesis using old [OF that] by auto
  qed
  have "distinct ((out @ [u]) @ q @ new)" "set ((out @ [u]) @ q @ new) \<subseteq> ?V"
    using inv new(3,4) fresh ns by (auto simp: kahn_inv_def)
  moreover have "preds_first spec (out @ [u])"
    using inv old [OF u(2)] by (intro preds_first_snoc) (auto simp: kahn_inv_def in_count_zero)
  ultimately have "kahn_inv spec indeg' (q @ new) (out @ [u])"
    using new(2) members unfolding kahn_inv_def by blast
  with new(1) show ?thesis by (rule that)
qed

lemma kahn_Nil [simp]: "kahn adj indeg [] out = Some (Ok out)"
  by (subst kahn.simps) simp

lemma kahn_Cons:
  "relax indeg q (hm_get_or [] adj u) = Some (indeg', q') \<Longrightarrow>
     kahn adj indeg (u # q) out = kahn adj indeg' q' (out @ [u])"
  by (subst kahn.simps) simp

lemma kahn_returns:
  assumes "kahn_inv spec indeg q out" and "flow_validate spec = Ok ()"
  shows "\<exists>indeg' out'. kahn (adjacency spec) indeg q out = Some (Ok out') \<and> kahn_inv spec indeg' [] out'"
  using assms
proof (induction "card (set (node_ids spec) - set out)" arbitrary: indeg q out rule: less_induct)
  case less
  show ?case
  proof (cases q)
    case Nil
    with less.prems show ?thesis by auto
  next
    case (Cons u rest)
    from kahn_step [OF less.prems(1) [unfolded Cons] less.prems(2)] obtain indeg' q' where
      *: "relax indeg rest (hm_get_or [] (adjacency spec) u) = Some (indeg', q')"
        "kahn_inv spec indeg' q' (out @ [u])" .
    have "set (node_ids spec) - set (out @ [u]) \<subset> set (node_ids spec) - set out"
      using less.prems(1) Cons by (auto simp: kahn_inv_def)
    then have "card (set (node_ids spec) - set (out @ [u])) < card (set (node_ids spec) - set out)"
      by (intro psubset_card_mono) auto
    from less.hyps [OF this *(2) less.prems(2)] show ?thesis by (simp add: Cons kahn_Cons [OF *(1)])
  qed
qed

subsection \<open>Topological orders\<close>

definition topological :: "flow_spec \<Rightarrow> string list \<Rightarrow> bool" where
  "topological spec xs \<longleftrightarrow>
     distinct xs \<and> set xs = set (node_ids spec) \<and>
     (\<forall>(u, v) \<in> edge_rel spec. \<exists>as bs cs. xs = as @ u # bs @ v # cs)"

lemma topological_acyclic:
  assumes "topological spec xs"
  shows "acyclic (edge_rel spec)"
proof -
  let ?pos = "\<lambda>x. length (takeWhile (\<lambda>y. y \<noteq> x) xs)"
  have d: "distinct xs" and before: "(u, v) \<in> edge_rel spec \<Longrightarrow> \<exists>as bs cs. xs = as @ u # bs @ v # cs" for u v
    using assms by (auto simp: topological_def)
  have "edge_rel spec \<subseteq> measure ?pos"
  proof (rule subrelI)
    fix u v assume "(u, v) \<in> edge_rel spec"
    from before [OF this] obtain as bs cs where xs: "xs = as @ u # bs @ v # cs" by (elim exE)
    have stop: "w \<notin> set ys \<Longrightarrow> takeWhile (\<lambda>y. y \<noteq> w) (ys @ w # zs) = ys" for w ys and zs :: "string list"
      by (induction ys) auto
    have "takeWhile (\<lambda>y. y \<noteq> u) xs = as" and "takeWhile (\<lambda>y. y \<noteq> v) xs = as @ u # bs"
      using d stop [of u as "bs @ v # cs"] stop [of v "as @ u # bs" cs] unfolding xs by auto
    then show "(u, v) \<in> measure ?pos" by simp
  qed
  then show ?thesis using wf_acyclic wf_measure acyclic_subset by blast
qed

lemma preds_first_topological:
  assumes "preds_first spec out" "distinct out" "set out = set (node_ids spec)"
    and "flow_validate spec = Ok ()"
  shows "topological spec out"
proof -
  have "\<exists>as bs cs. out = as @ u # bs @ v # cs" if "(u, v) \<in> edge_rel spec" for u v
  proof -
    have "v \<in> set out" using that assms by (auto simp: flow_validate_ok)
    then obtain xs ys where out: "out = xs @ v # ys" by (meson split_list)
    with assms(1) that have "u \<in> set xs" unfolding preds_first_def by blast
    then obtain as bs where "xs = as @ u # bs" by (meson split_list)
    with out show ?thesis by auto
  qed
  with assms show ?thesis by (auto simp: topological_def)
qed

lemma kahn_inv_acyclic_all:
  assumes "kahn_inv spec indeg [] out" and "flow_validate spec = Ok ()" and "acyclic (edge_rel spec)"
  shows "set out = set (node_ids spec)"
proof (rule ccontr)
  let ?W = "set (node_ids spec) - set out"
  assume "set out \<noteq> set (node_ids spec)"
  then obtain w where "w \<in> ?W" using assms(1) by (auto simp: kahn_inv_def)
  moreover have "wf (edge_rel spec)"
    by (rule finite_acyclic_wf) (simp_all add: edge_rel_def assms(3) [unfolded edge_rel_def])
  ultimately obtain z where z: "z \<in> ?W" "\<And>y. (y, z) \<in> edge_rel spec \<Longrightarrow> y \<notin> ?W"
    using wfE_min [of "edge_rel spec" w ?W] by metis
  then have "in_count spec (set out) z = 0"
    using assms(2) by (auto simp: in_count_zero flow_validate_ok)
  with z assms(1) show False by (auto simp: kahn_inv_def)
qed

end
