(* ===== verification/Flow_Interpreter.thy ===== *)
theory Flow_Interpreter
  imports Flow
begin

section \<open>The workflow interpreter\<close>

text \<open>
  Models the dynamic half of \<^verbatim>\<open>src/flow/interpreter.rs\<close>: what each kind of node does to the outputs,
  the state map, the iteration counts and the recorded steps, the loop that follows the edges, and
  the mode for flows without a start node. \<open>interp_env\<close> holds what the interpreter calls: the CEL
  engine, JSON text, the task executor, agents, MCP, the vector store and the safety layer. Every
  step has an environment of its own, so that two calls may answer differently.
\<close>

subsection \<open>What the interpreter calls\<close>

datatype 'v cel_value = CelBool bool | CelInt i64 | CelUInt u64 | CelNull | CelOther 'v

datatype mcp_content = McpText string | McpImage string string | McpResource string "string option"

record mcp_result =
  mr_content :: "mcp_content list"
  mr_is_error :: bool

record search_hit =
  sh_id :: string
  sh_score :: f64
  sh_payload :: "json option"
  sh_text :: "string option"

record safety_checks =
  sc_scan_fails :: "string \<Rightarrow> bool"
  sc_sanitizer_warns :: "string \<Rightarrow> bool"
  sc_policy_blocks :: "string \<Rightarrow> bool"

record 'v interp_env =
  ie_json_text :: "json \<Rightarrow> string"
  ie_json_parse :: "string \<Rightarrow> (json, string) outcome"
  ie_json_rows :: "string \<Rightarrow> (json list, string) outcome"
  ie_cel_run :: "string \<Rightarrow> (string \<times> json) list \<Rightarrow> ('v cel_value, string) outcome"
  ie_cel_debug :: "'v cel_value \<Rightarrow> string"
  ie_cel_json :: "'v cel_value \<Rightarrow> (json, string) outcome"
  ie_execute :: "json execution_task \<Rightarrow> (json task_result, string) outcome"
  ie_crew :: crew_env
  ie_agent :: "agent_config \<Rightarrow> string \<Rightarrow> string option \<Rightarrow> agent_result"
  ie_mcp :: "(string \<Rightarrow> json \<Rightarrow> (mcp_result, string) outcome) option"
  ie_search :: "string \<Rightarrow> string \<Rightarrow> nat \<Rightarrow> (search_hit list, string) outcome"
  ie_safety :: "safety_checks option"
  ie_url_ok :: "string \<Rightarrow> bool"
  ie_builtin_names :: "string list"
  ie_default_model :: string
  ie_prior_order :: "(string, json) hmap \<Rightarrow> (string, json) hmap"

text \<open>The variables of the loop, with the log lines written so far.\<close>

record interp_state =
  fi_outputs :: "(string, json) hmap"
  fi_state :: json_map
  fi_while :: "(string, u32) hmap"
  fi_steps :: "json list"
  fi_log :: "string list"

definition interp_start :: interp_state where
  "interp_start = \<lparr>fi_outputs = [], fi_state = [], fi_while = [], fi_steps = [], fi_log = []\<rparr>"

definition step_log :: "string \<Rightarrow> interp_state \<Rightarrow> interp_state" where
  "step_log line st = st\<lparr>fi_log := fi_log st @ [line]\<rparr>"

definition set_output :: "string \<Rightarrow> json \<Rightarrow> interp_state \<Rightarrow> interp_state" where
  "set_output i v st = st\<lparr>fi_outputs := hm_insert i v (fi_outputs st)\<rparr>"

definition push_step :: "(string \<times> json) list \<Rightarrow> interp_state \<Rightarrow> interp_state" where
  "push_step kvs st = st\<lparr>fi_steps := fi_steps st @ [json_object kvs]\<rparr>"

text \<open>\<open>push({"id", "kind", "output"})\<close>, which most kinds of node end with.\<close>

definition push_output :: "string \<Rightarrow> string \<Rightarrow> json \<Rightarrow> interp_state \<Rightarrow> interp_state" where
  "push_output i kind out st =
     push_step [(''id'', JString i), (''kind'', JString kind), (''output'', out)] st"

subsection \<open>Templates and prompts\<close>

definition interpolate_inputs :: "(json \<Rightarrow> string) \<Rightarrow> string \<Rightarrow> json \<Rightarrow> string" where
  "interpolate_inputs txt template inputs =
     (case as_object inputs of
        None \<Rightarrow> template
      | Some obj \<Rightarrow>
          foldl (\<lambda>s (k, v). replace_all ([CHR ''$'', CHR ''{''] @ k @ ''}'') (value_to_string txt v) s) template obj)"

definition interpolate_context :: "(json \<Rightarrow> string) \<Rightarrow> string \<Rightarrow> json \<Rightarrow> string" where
  "interpolate_context txt template ctx =
     (case as_object ctx of
        None \<Rightarrow> template
      | Some obj \<Rightarrow>
          foldl (\<lambda>s (k, v). replace_all (''{'' @ k @ ''}'') (value_to_string txt v) s) template obj)"

definition build_template_context :: "json \<Rightarrow> (string, json) hmap \<Rightarrow> json" where
  "build_template_context inputs outputs =
     (let m = (case as_object inputs of None \<Rightarrow> [] | Some obj \<Rightarrow> obj_of obj)
      in JObject (foldl (\<lambda>m (i, v). obj_insert i v m) m outputs))"

definition template :: "'v interp_env \<Rightarrow> json \<Rightarrow> interp_state \<Rightarrow> string \<Rightarrow> string" where
  "template e inputs st s =
     interpolate_context (ie_json_text e) s (build_template_context inputs (fi_outputs st))"

fun sort_strings :: "string list \<Rightarrow> string list" where
  "sort_strings [] = []"
| "sort_strings (x # xs) =
     (let ys = sort_strings xs
      in takeWhile (\<lambda>y. str_less y x) ys @ x # dropWhile (\<lambda>y. str_less y x) ys)"

definition prior_context_block :: "(json \<Rightarrow> string) \<Rightarrow> flow_spec \<Rightarrow> string \<Rightarrow> (string, json) hmap \<Rightarrow> string" where
  "prior_context_block txt spec i outputs =
     concat (map (\<lambda>sid. case hm_get outputs sid of
                          None \<Rightarrow> []
                        | Some v \<Rightarrow> nl @ nl @ ''--- from '' @ sid @ '' ---'' @ nl @ value_to_string txt v)
       (sort_strings (hm_get_or [] (incoming_map spec) i)))"

definition input_as_text :: "(json \<Rightarrow> string) \<Rightarrow> json \<Rightarrow> string" where
  "input_as_text txt inputs =
     (case get_str ''input_as_text'' inputs of
        Some s \<Rightarrow> s
      | None \<Rightarrow> (case get_str ''text'' inputs of Some s \<Rightarrow> s | None \<Rightarrow> txt inputs))"

subsection \<open>Conditions\<close>

text \<open>The activation of a CEL program and the variables that are read from it.\<close>

definition cel_activation ::
    "json \<Rightarrow> interp_state \<Rightarrow> string \<Rightarrow> (string \<times> json) list \<Rightarrow> json" where
  "cel_activation inputs st text extra =
     json_object
       ([(''inputs'', inputs), (''outputs'', json_object (fi_outputs st)),
         (''state'', JObject (fi_state st)), (''input_as_text'', JString text)] @ extra)"

definition cel_fill_context :: "json \<Rightarrow> u32 \<Rightarrow> (string \<times> json) list" where
  "cel_fill_context act i =
     (let get = (\<lambda>k. case json_get k act of None \<Rightarrow> JNull | Some v \<Rightarrow> v);
          text = (case get_str ''input_as_text'' act of None \<Rightarrow> [] | Some s \<Rightarrow> s)
      in [(''inputs'', get ''inputs''), (''outputs'', get ''outputs''), (''state'', get ''state''),
          (''input_as_text'', JString text), (''iteration'', json_of_word i)])"

definition cel_bool :: "'v interp_env \<Rightarrow> string \<Rightarrow> json \<Rightarrow> u32 \<Rightarrow> (bool, string) outcome" where
  "cel_bool e expr act i =
     (let expr = trim expr
      in if expr = [] then Ok False
         else
           (case ie_cel_run e expr (cel_fill_context act i) of
              Err m \<Rightarrow> Err m
            | Panic \<Rightarrow> Panic
            | Ok v \<Rightarrow>
                (case v of
                   CelBool b \<Rightarrow> Ok b
                 | CelInt n \<Rightarrow> Ok (n \<noteq> 0)
                 | CelUInt n \<Rightarrow> Ok (n \<noteq> 0)
                 | CelNull \<Rightarrow> Ok False
                 | CelOther _ \<Rightarrow> Err (''CEL result is not bool: '' @ ie_cel_debug e v))))"

definition cel_json_value :: "'v interp_env \<Rightarrow> string \<Rightarrow> json \<Rightarrow> u32 \<Rightarrow> (json, string) outcome" where
  "cel_json_value e expr act i =
     (let expr = trim expr
      in if expr = [] then Err ''empty CEL expression''
         else
           (case ie_cel_run e expr (cel_fill_context act i) of
              Err m \<Rightarrow> Err m
            | Panic \<Rightarrow> Panic
            | Ok v \<Rightarrow>
                (case ie_cel_json e v of
                   Ok j \<Rightarrow> Ok j
                 | Err m \<Rightarrow> Err (''CEL'' @ [CHR 0xE2, CHR 0x86, CHR 0x92] @ ''JSON: '' @ m)
                 | Panic \<Rightarrow> Panic)))"

subsection \<open>Nodes that branch\<close>

text \<open>
  A node's arm returns the branch it takes, if its kind branches, and the new state; an \<open>Err\<close> ends
  the run. The choice of the next node, which every arm but the one of an end node makes, is in
  \<open>interp_step\<close> below.
\<close>

type_synonym arm_result = "(string option, flow_error) outcome \<times> interp_state"

abbreviation arrow :: string where
  "arrow \<equiv> '' '' @ [CHR 0xE2, CHR 0x86, CHR 0x92] @ '' ''"

definition failed :: "string \<Rightarrow> (string option, flow_error) outcome" where
  "failed m = Err (NodeFailed m)"

definition arm_start :: "json \<Rightarrow> flow_node \<Rightarrow> interp_state \<Rightarrow> arm_result" where
  "arm_start inputs n st =
     (let st = set_output (fn_id n) inputs st
      in (Ok None, push_output (fn_id n) ''start'' inputs st))"

definition arm_approval :: "json \<Rightarrow> flow_node \<Rightarrow> interp_state \<Rightarrow> arm_result" where
  "arm_approval inputs n st =
     (let v = (case json_get ''human_approval'' inputs of
                 Some v \<Rightarrow> Some v | None \<Rightarrow> json_get ''simulated_human_approval'' inputs);
          raw = (case Option.bind v as_str of Some s \<Rightarrow> s | None \<Rightarrow> ''approve'');
          branch = (if eq_ignore_ascii_case raw ''reject'' then ''reject'' else ''approve'');
          st = step_log (''[user_approval] '' @ fn_id n @ arrow @ branch @
                 '' (set inputs.human_approval to approve|reject)'') st;
          out = json_object [(''branch'', JString branch), (''message'', JString (trim (fn_prompt n))),
                  (''simulated'', JBool True)];
          st = set_output (fn_id n) out st
      in (Ok (Some branch),
          push_step [(''id'', JString (fn_id n)), (''kind'', JString ''user_approval''),
            (''branch'', JString branch), (''output'', out)] st))"

definition arm_if :: "'v interp_env \<Rightarrow> json \<Rightarrow> flow_node \<Rightarrow> interp_state \<Rightarrow> arm_result" where
  "arm_if e inputs n st =
     (let act = cel_activation inputs st (input_as_text (ie_json_text e) inputs) []
      in case cel_bool e (fn_condition_cel n) act 0 of
           Err m \<Rightarrow> (failed m, st)
         | Panic \<Rightarrow> (Panic, st)
         | Ok cond \<Rightarrow>
             let branch = (if cond then ''true'' else ''false'');
                 st = step_log (''[branch] if '' @ fn_id n @ arrow @ branch) st
             in (Ok (Some branch),
                 push_step [(''id'', JString (fn_id n)), (''kind'', JString (ascii_lower (fn_kind n))),
                   (''branch'', JString branch)] st))"

definition max_iter_of :: "flow_node \<Rightarrow> u32" where
  "max_iter_of n = (if fn_max_iterations n = 0 then 100 else fn_max_iterations n)"

text \<open>Leaving a loop forgets its count.\<close>

definition while_exit :: "flow_node \<Rightarrow> string \<Rightarrow> (string \<times> json) list \<Rightarrow> interp_state \<Rightarrow> arm_result" where
  "while_exit n note extra st =
     (let st = st\<lparr>fi_while := hm_remove (fn_id n) (fi_while st)\<rparr>;
          st = step_log (''[branch] while '' @ fn_id n @ arrow @ ''exit'' @ note) st
      in (Ok (Some ''exit''),
          push_step ([(''id'', JString (fn_id n)), (''kind'', JString ''while''),
            (''branch'', JString ''exit'')] @ extra) st))"

definition arm_while :: "'v interp_env \<Rightarrow> json \<Rightarrow> flow_node \<Rightarrow> interp_state \<Rightarrow> arm_result" where
  "arm_while e inputs n st =
     (let i = fn_id n; count = hm_get_or 0 (fi_while st) i
      in if max_iter_of n \<le> count
         then while_exit n '' (max_iterations)'' [(''reason'', JString ''max_iterations'')] st
         else
           let act = cel_activation inputs st (input_as_text (ie_json_text e) inputs)
                       [(''iteration'', json_of_word count)]
           in case cel_bool e (fn_condition_cel n) act count of
                Err m \<Rightarrow> (failed m, st)
              | Panic \<Rightarrow> (Panic, st)
              | Ok False \<Rightarrow> while_exit n [] [] st
              | Ok True \<Rightarrow>
                  let st = st\<lparr>fi_while := hm_insert i (hm_get_or 0 (fi_while st) i + 1) (fi_while st)\<rparr>;
                      st = step_log (''[branch] while '' @ i @ arrow @ ''loop (iter '' @ show_word count @ '')'') st
                  in (Ok (Some ''loop''),
                      push_step [(''id'', JString i), (''kind'', JString ''while''),
                        (''branch'', JString ''loop''), (''iteration'', json_of_word count)] st))"

text \<open>The URLs a text contains: \<open>https?://\<close> and the characters up to the next white space.\<close>

definition url_at :: "string \<Rightarrow> string option" where
  "url_at s =
     (case find (starts_with s) [''https://'', ''http://''] of
        None \<Rightarrow> None
      | Some p \<Rightarrow>
          (case until_white (drop (length p) s) of [] \<Rightarrow> None | c # w \<Rightarrow> Some (p @ c # w)))"

function url_matches :: "string \<Rightarrow> string list" where
  "url_matches s =
     (case s of
        [] \<Rightarrow> []
      | c # r \<Rightarrow>
          (case url_at s of
             None \<Rightarrow> url_matches r
           | Some m \<Rightarrow> m # url_matches (drop (length m) s)))"
  by pat_completeness auto
termination
proof (relation "measure length", simp, simp)
  fix s c r m
  assume "s = c # r" "url_at s = Some m"
  moreover from this(2) have "m \<noteq> []" by (auto simp: url_at_def split: option.splits list.splits)
  ultimately show "(drop (length m) s, s) \<in> measure length" by simp
qed

declare url_matches.simps [simp del]

definition guard_urls_allowed :: "(string \<Rightarrow> bool) \<Rightarrow> string \<Rightarrow> bool" where
  "guard_urls_allowed ok text \<longleftrightarrow> list_all ok (url_matches text)"

definition guard_check :: "'v interp_env \<Rightarrow> safety_checks \<Rightarrow> flow_node \<Rightarrow> string \<Rightarrow> string \<Rightarrow> bool" where
  "guard_check e sc n text c =
     (if c \<in> {''leak'', ''pii''} then \<not> sc_scan_fails sc text
      else if c \<in> {''injection'', ''jailbreak''} then \<not> sc_sanitizer_warns sc text
      else if c \<in> {''policy'', ''moderation'', ''hallucination'', ''nsfw''} then \<not> sc_policy_blocks sc text
      else if c \<in> {''url'', ''url_filter''} then guard_urls_allowed (ie_url_ok e) text
      else if c = ''custom'' then
        (let needle = trim (fn_guardrail_custom_substring n)
         in \<not> (needle \<noteq> [] \<and> str_contains (ascii_lower text) (ascii_lower needle)))
      else True)"

definition guard_passes :: "'v interp_env \<Rightarrow> flow_node \<Rightarrow> string \<Rightarrow> bool" where
  "guard_passes e n text =
     (case ie_safety e of
        None \<Rightarrow> True
      | Some sc \<Rightarrow>
          list_all (\<lambda>c. guard_check e sc n text (ascii_lower c))
            (if fn_guardrail_checks n = [] then [''leak'', ''injection'', ''policy'']
             else fn_guardrail_checks n))"

definition arm_guardrails :: "'v interp_env \<Rightarrow> json \<Rightarrow> flow_node \<Rightarrow> interp_state \<Rightarrow> arm_result" where
  "arm_guardrails e inputs n st =
     (let sid = trim (fn_source_node_id n);
          templated = (trim (fn_guardrail_input_template n) \<noteq> [])
      in if \<not> templated \<and> sid = [] then (Err (GuardNeedsSource (fn_id n)), st)
         else
           let text = (if templated then template e inputs st (fn_guardrail_input_template n)
                       else (case hm_get (fi_outputs st) sid of
                               None \<Rightarrow> [] | Some v \<Rightarrow> value_to_string (ie_json_text e) v));
               pass = guard_passes e n text;
               forced = (\<not> pass \<and> fn_guardrail_continue_on_error n);
               st = (if forced
                     then step_log (''[guardrails] '' @ fn_id n @ '' continue_on_error'' @ arrow @
                            ''treating as pass'') st
                     else st);
               pass = (pass \<or> forced);
               branch = (if pass then ''pass'' else ''fail'');
               st = step_log (''[branch] guardrails '' @ fn_id n @ arrow @ branch) st;
               out = json_object [(''pass'', JBool pass), (''forced_pass'', JBool forced),
                       (''text_preview'', JString (take_chars 500 text))];
               st = set_output (fn_id n) out st
           in (Ok (Some branch),
               push_step [(''id'', JString (fn_id n)), (''kind'', JString ''guardrails''),
                 (''branch'', JString branch), (''output'', out)] st))"

subsection \<open>Nodes that call out\<close>

definition node_msg :: "flow_node \<Rightarrow> string \<Rightarrow> (string option, flow_error) outcome" where
  "node_msg n m = failed (''node '' @ fn_id n @ '': '' @ m)"

text \<open>The text parts of a tool's answer.\<close>

fun mcp_text :: "mcp_content \<Rightarrow> string option" where
  "mcp_text (McpText t) = Some t"
| "mcp_text (McpResource _ t) = t"
| "mcp_text (McpImage _ _) = None"

definition arm_mcp :: "'v interp_env \<Rightarrow> json \<Rightarrow> flow_node \<Rightarrow> interp_state \<Rightarrow> arm_result" where
  "arm_mcp e inputs n st =
     (let tool_id = trim (fn_mcp_tool_id n)
      in if tool_id = [] then (node_msg n ''mcp needs mcp_tool_id (server:tool)'', st)
         else
           let raw = template e inputs st (fn_mcp_arguments_json n);
               args = (if trim raw = [] then Ok (json_object []) else ie_json_parse e raw)
           in case args of
                Err m \<Rightarrow> (node_msg n (''mcp_arguments_json must be JSON object: '' @ m), st)
              | Panic \<Rightarrow> (Panic, st)
              | Ok args \<Rightarrow>
                  (case ie_mcp e of
                     None \<Rightarrow> (node_msg n ''MCP is not connected on this node'', st)
                   | Some call_tool \<Rightarrow>
                       (case call_tool tool_id args of
                          Err m \<Rightarrow> (failed (''MCP call failed: '' @ m), st)
                        | Panic \<Rightarrow> (Panic, st)
                        | Ok r \<Rightarrow>
                            let text = join_with nl (List.map_filter mcp_text (mr_content r));
                                out = json_object [(''text'', JString text), (''is_error'', JBool (mr_is_error r))];
                                st = push_output (fn_id n) ''mcp'' out (set_output (fn_id n) out st)
                            in (Ok None,
                                step_log (''[mcp] '' @ fn_id n @ '' tool='' @ tool_id @ '' error='' @
                                  show_bool (mr_is_error r)) st))))"

definition search_hit_json :: "search_hit \<Rightarrow> json" where
  "search_hit_json r =
     json_object [(''id'', JString (sh_id r)), (''score'', json_of_float (sh_score r)),
       (''text'', JString (case sh_text r of None \<Rightarrow> [] | Some t \<Rightarrow> t)),
       (''payload'', (case sh_payload r of None \<Rightarrow> JNull | Some p \<Rightarrow> p))]"

definition arm_file_search :: "'v interp_env \<Rightarrow> json \<Rightarrow> flow_node \<Rightarrow> interp_state \<Rightarrow> arm_result" where
  "arm_file_search e inputs n st =
     (let coll = trim (fn_vector_collection n);
          q = template e inputs st (fn_vector_query_template n)
      in if coll = [] then (node_msg n ''file_search needs vector_collection'', st)
         else if trim q = [] then (node_msg n ''file_search needs vector_query_template'', st)
         else
           let top_k = (if fn_vector_top_k n = 0 then 10 else min (unat (fn_vector_top_k n)) 100)
           in case ie_search e coll q top_k of
                Err m \<Rightarrow> (failed (''vector search: '' @ m), st)
              | Panic \<Rightarrow> (Panic, st)
              | Ok results \<Rightarrow>
                  let st = step_log (''[file_search] '' @ fn_id n @ '' collection='' @ coll @ '' hits='' @
                             show_nat (length results)) st;
                      out = json_object [(''results'', JArray (map search_hit_json results)),
                              (''query'', JString q)];
                      st = set_output (fn_id n) out st
                  in (Ok None, push_output (fn_id n) ''file_search'' out st))"

definition merged_inputs :: "(json \<Rightarrow> string) \<Rightarrow> flow_node \<Rightarrow> json \<Rightarrow> json" where
  "merged_inputs txt n inputs =
     (if fn_prompt n = [] then inputs
      else json_object [(''flow_prompt'', JString (interpolate_inputs txt (fn_prompt n) inputs))])"

definition arm_crew :: "'v interp_env \<Rightarrow> json \<Rightarrow> flow_node \<Rightarrow> interp_state \<Rightarrow> arm_result" where
  "arm_crew e inputs n st =
     (case fn_crew_spec n of
        None \<Rightarrow> (failed (''flow node '' @ fn_id n @ '': crew requires crew_spec''), st)
      | Some crew \<Rightarrow>
          (case crew_validate crew of
             Err x \<Rightarrow> (Err (CrewFailed x), st)
           | Panic \<Rightarrow> (Panic, st)
           | Ok _ \<Rightarrow>
               (case run_crew (ie_crew e) crew (merged_inputs (ie_json_text e) n inputs) of
                  Err x \<Rightarrow> (Err (CrewFailed x), st)
                | Panic \<Rightarrow> (Panic, st)
                | Ok r \<Rightarrow>
                    let v = crew_output_json r;
                        st = push_output (fn_id n) ''crew'' v (set_output (fn_id n) v st)
                    in (Ok None, step_log (''[crew] '' @ fn_id n @ '' done'') st))))"

definition or_default :: "string \<Rightarrow> string \<Rightarrow> string" where
  "or_default s d = (if trim s = [] then d else s)"

definition wants_json :: "flow_node \<Rightarrow> bool" where
  "wants_json n = eq_ignore_ascii_case (fn_output_format n) ''json''"

definition flow_agent_config :: "'v interp_env \<Rightarrow> flow_node \<Rightarrow> agent_config" where
  "flow_agent_config e n =
     \<lparr>ac_id = ''flow_'' @ fn_id n,
      ac_name = or_default (fn_name n) (fn_id n),
      ac_model = or_default (fn_model n) (ie_default_model e),
      ac_max_tokens = (case fn_max_tokens n of None \<Rightarrow> 2048 | Some k \<Rightarrow> k),
      ac_temperature = (case fn_temperature n of None \<Rightarrow> f32_lit 1 2 | Some t \<Rightarrow> t),
      ac_system_prompt =
        or_default (fn_instructions n) ''You are a helpful assistant.'' @
        (if wants_json n
         then nl @ nl @ ''Respond with valid JSON only. Do not wrap in markdown fences or add commentary outside the JSON.''
         else []),
      ac_allowed_tools = (if fn_tools n = [] then ie_builtin_names e else fn_tools n),
      ac_context_window = 4096\<rparr>"

definition arm_agent :: "'v interp_env \<Rightarrow> flow_spec \<Rightarrow> json \<Rightarrow> flow_node \<Rightarrow> interp_state \<Rightarrow> arm_result" where
  "arm_agent e spec inputs n st =
     (let ctx = prior_context_block (ie_json_text e) spec (fn_id n) (fi_outputs st);
          user = template e inputs st (fn_prompt n);
          block = ctx @ nl @ nl @ ''## Task'' @ nl @ user @ nl;
          session = (if fn_include_chat_history n
                     then Some (or_default (fn_agent_session_key n) (''flow_agent_'' @ fn_id n)) else None);
          res = ie_agent e (flow_agent_config e n) block session;
          out = json_object [(''text'', JString (ar_answer res)),
                  (''iterations'', json_of_word (ar_iterations res)),
                  (''tokens'', json_of_word (ar_total_tokens res)), (''success'', JBool (ar_success res)),
                  (''error'', json_of_option (ar_error res))];
          st = push_output (fn_id n) ''agent'' out (set_output (fn_id n) out st)
      in (Ok None,
          step_log (''[agent] '' @ fn_id n @ '' iterations='' @ show_word (ar_iterations res) @
            '' tokens='' @ show_word (ar_total_tokens res) @ '' success='' @ show_bool (ar_success res)) st))"

text \<open>The text an inference task returns.\<close>

definition infer_text :: "'v interp_env \<Rightarrow> inference_task \<Rightarrow> (string, flow_error) outcome" where
  "infer_text e task =
     (case ie_execute e (InferenceT task) of
        Err m \<Rightarrow> Err (NodeFailed m)
      | Panic \<Rightarrow> Panic
      | Ok res \<Rightarrow>
          (case tr_data res of
             InferenceD r \<Rightarrow> Ok (ir_text r)
           | ErrorD m \<Rightarrow> Err (NodeFailed m)
           | _ \<Rightarrow> Err (NodeFailed ''non-inference flow step'')))"

definition classify_task :: "'v interp_env \<Rightarrow> json \<Rightarrow> flow_node \<Rightarrow> interp_state \<Rightarrow> inference_task" where
  "classify_task e inputs n st =
     (let block = (if trim (fn_classify_input_template n) = []
                   then input_as_text (ie_json_text e) inputs
                   else template e inputs st (fn_classify_input_template n));
          body = ''You are a classifier. Possible categories (reply with exactly one label from this list): ['' @
            join_with '', '' (fn_classify_categories n) @ ''].'' @ nl @ nl @ ''Text to classify:'' @ nl @
            block @ nl @ nl @ ''Reply with only the category label, no punctuation or explanation.'';
          body = body @
            (if trim (fn_classify_examples_json n) = [] then []
             else nl @ nl @ ''Few-shot examples (JSON):'' @ nl @ trim (fn_classify_examples_json n)) @
            (if wants_json n
             then nl @ nl @ ''Return JSON: {'' @ [CHR 0x22] @ ''category'' @ [CHR 0x22] @ '': '' @ [CHR 0x22] @
               ''<label>'' @ [CHR 0x22] @ ''} only.''
             else []);
          max_t = max (case fn_max_tokens n of None \<Rightarrow> 128 | Some k \<Rightarrow> k) 16;
          temp = (case fn_temperature n of None \<Rightarrow> f32_lit 1 5 | Some t \<Rightarrow> t)
      in with_temperature temp (with_max_tokens max_t
           (inference_task_new (or_default (fn_classify_model n) (ie_default_model e)) body)))"

definition arm_classify :: "'v interp_env \<Rightarrow> json \<Rightarrow> flow_node \<Rightarrow> interp_state \<Rightarrow> arm_result" where
  "arm_classify e inputs n st =
     (if fn_classify_categories n = [] then (node_msg n ''classify needs at least one category'', st)
      else
        (case infer_text e (classify_task e inputs n st) of
           Err x \<Rightarrow> (Err x, st)
         | Panic \<Rightarrow> (Panic, st)
         | Ok text \<Rightarrow>
             let label = trim text;
                 out = json_object [(''text'', JString text), (''category'', JString label)];
                 st = push_output (fn_id n) ''classify'' out (set_output (fn_id n) out st)
             in (Ok None, step_log (''[classify] '' @ fn_id n @ arrow @ take_chars 80 label) st)))"

definition llm_task :: "'v interp_env \<Rightarrow> flow_spec \<Rightarrow> json \<Rightarrow> flow_node \<Rightarrow> interp_state \<Rightarrow> inference_task" where
  "llm_task e spec inputs n st =
     (let prompt = template e inputs st (fn_prompt n);
          ctx = prior_context_block (ie_json_text e) spec (fn_id n) (fi_outputs st);
          body = ctx @ nl @ nl @ prompt @
            (if wants_json n then nl @ nl @ ''Respond with valid JSON only. No markdown fences.'' else []);
          max_t = (case fn_max_tokens n of None \<Rightarrow> 512 | Some k \<Rightarrow> k);
          temp = (case fn_temperature n of None \<Rightarrow> f32_lit 7 10 | Some t \<Rightarrow> t)
      in with_temperature temp (with_max_tokens max_t
           (inference_task_new (or_default (fn_model n) (ie_default_model e)) body)))"

definition arm_llm :: "'v interp_env \<Rightarrow> flow_spec \<Rightarrow> json \<Rightarrow> flow_node \<Rightarrow> interp_state \<Rightarrow> arm_result" where
  "arm_llm e spec inputs n st =
     (case infer_text e (llm_task e spec inputs n st) of
        Err x \<Rightarrow> (Err x, st)
      | Panic \<Rightarrow> (Panic, st)
      | Ok text \<Rightarrow>
          let out = json_object [(''text'', JString text)];
              st = push_output (fn_id n) ''llm'' out (set_output (fn_id n) out st)
          in (Ok None, step_log (''[llm] '' @ fn_id n @ '' chars='' @ show_nat (char_count text)) st))"

subsection \<open>Nodes that change the state map\<close>

definition put_state :: "string \<Rightarrow> json \<Rightarrow> interp_state \<Rightarrow> interp_state" where
  "put_state k v st = st\<lparr>fi_state := obj_insert k v (fi_state st)\<rparr>"

definition arm_set_state :: "'v interp_env \<Rightarrow> json \<Rightarrow> flow_node \<Rightarrow> interp_state \<Rightarrow> arm_result" where
  "arm_set_state e inputs n st =
     (let key = trim (fn_state_key n);
          act = cel_activation inputs st (input_as_text (ie_json_text e) inputs) [(''iteration'', json_of_word (0 :: u32))]
      in if key = [] then (node_msg n ''set_state needs state_key'', st)
         else
           let val = (if trim (fn_state_value_cel n) \<noteq> [] then cel_json_value e (fn_state_value_cel n) act 0
                      else
                        let raw = template e inputs st (fn_state_value_json n)
                        in if trim raw = [] then Ok JNull
                           else (case ie_json_parse e raw of
                                   Ok v \<Rightarrow> Ok v | Err _ \<Rightarrow> Ok (JString raw) | Panic \<Rightarrow> Panic))
           in case val of
                Err m \<Rightarrow> (failed m, st)
              | Panic \<Rightarrow> (Panic, st)
              | Ok v \<Rightarrow>
                  let out = json_object [(''state_key'', JString key), (''value'', v)];
                      st = set_output (fn_id n) out (put_state key v st)
                  in (Ok None, push_output (fn_id n) ''set_state'' out st))"

text \<open>The rows \<open>{key, cel}\<close> in turn; the results so far are the third argument.\<close>

fun apply_rows ::
    "'v interp_env \<Rightarrow> flow_node \<Rightarrow> json \<Rightarrow> json list \<Rightarrow> interp_state \<Rightarrow> json list \<Rightarrow>
       (json list \<times> interp_state, flow_error) outcome" where
  "apply_rows e n act applied st [] = Ok (applied, st)"
| "apply_rows e n act applied st (row # rows) =
     (case get_str ''key'' row of
        None \<Rightarrow> Err (NodeFailed (''node '' @ fn_id n @ '': each transform row needs string key''))
      | Some key \<Rightarrow>
          (case get_str ''cel'' row of
             None \<Rightarrow> Err (NodeFailed (''node '' @ fn_id n @ '': each transform row needs string cel''))
           | Some cel \<Rightarrow>
               (case cel_json_value e cel act 0 of
                  Err m \<Rightarrow> Err (NodeFailed m)
                | Panic \<Rightarrow> Panic
                | Ok v \<Rightarrow>
                    apply_rows e n act
                      (applied @ [json_object [(''key'', JString key), (''value'', v)]])
                      (put_state key v st) rows)))"

definition transform_object :: "'v interp_env \<Rightarrow> json \<Rightarrow> flow_node \<Rightarrow> interp_state \<Rightarrow> (json \<times> interp_state, flow_error) outcome" where
  "transform_object e inputs n st =
     (case ie_json_parse e (template e inputs st (trim (fn_transform_object_json n))) of
        Err m \<Rightarrow> Err (NodeFailed (''node '' @ fn_id n @ '': transform_object_json: '' @ m))
      | Panic \<Rightarrow> Panic
      | Ok v \<Rightarrow>
          (case as_object v of
             None \<Rightarrow> Err (NodeFailed (''node '' @ fn_id n @ '': transform_object_json must be a JSON object''))
           | Some obj \<Rightarrow>
               Ok (json_object [(''mode'', JString ''object''), (''keys'', JArray (map (JString \<circ> fst) obj))],
                   foldl (\<lambda>st (k, v). put_state k v st) st obj)))"

definition transform_expressions :: "'v interp_env \<Rightarrow> json \<Rightarrow> flow_node \<Rightarrow> interp_state \<Rightarrow> (json \<times> interp_state, flow_error) outcome" where
  "transform_expressions e inputs n st =
     (case ie_json_rows e (fn_transform_expressions_json n) of
        Err m \<Rightarrow> Err (NodeFailed (''node '' @ fn_id n @ '': transform_expressions_json must be a JSON array: '' @ m))
      | Panic \<Rightarrow> Panic
      | Ok rows \<Rightarrow>
          if rows = [] then
            Err (NodeFailed (''node '' @ fn_id n @ '': transform expressions mode needs at least one {key, cel} row''))
          else
            let act = cel_activation inputs st (input_as_text (ie_json_text e) inputs) [(''iteration'', json_of_word (0 :: u32))]
            in case apply_rows e n act [] st rows of
                 Err x \<Rightarrow> Err x
               | Panic \<Rightarrow> Panic
               | Ok (applied, st) \<Rightarrow>
                   Ok (json_object [(''mode'', JString ''expressions''), (''applied'', JArray applied)], st))"

definition transform_copy :: "flow_node \<Rightarrow> interp_state \<Rightarrow> (json \<times> interp_state, flow_error) outcome" where
  "transform_copy n st =
     (let from_id = trim (fn_transform_from_node_id n); sk = trim (fn_state_key n)
      in if from_id = [] \<or> sk = [] then
           Err (NodeFailed (''node '' @ fn_id n @
             '': transform (copy) needs transform_from_node_id and state_key, or use expressions/object mode''))
         else
           Ok (json_object [(''copied_from'', JString from_id), (''state_key'', JString sk), (''mode'', JString ''copy'')],
               put_state sk (hm_get_or JNull (fi_outputs st) from_id) st))"

definition arm_transform :: "'v interp_env \<Rightarrow> json \<Rightarrow> flow_node \<Rightarrow> interp_state \<Rightarrow> arm_result" where
  "arm_transform e inputs n st =
     (let mode = ascii_lower (fn_transform_mode n);
          has_obj = (trim (fn_transform_object_json n) \<noteq> []);
          has_expr = (trim (fn_transform_expressions_json n) \<noteq> []);
          use_object = (mode = ''object'' \<or> has_obj \<and> mode \<noteq> ''copy'' \<and> mode \<noteq> ''expressions'');
          use_expr = (mode = ''expressions'' \<or> has_expr \<and> mode \<noteq> ''object'' \<and> \<not> use_object)
      in case (if use_object then transform_object e inputs n st
               else if use_expr then transform_expressions e inputs n st
               else transform_copy n st) of
           Err x \<Rightarrow> (Err x, st)
         | Panic \<Rightarrow> (Panic, st)
         | Ok (out, st) \<Rightarrow>
             (Ok None, push_output (fn_id n) ''transform'' out (set_output (fn_id n) out st)))"

subsection \<open>The loop\<close>

definition node_effect :: "'v interp_env \<Rightarrow> flow_spec \<Rightarrow> json \<Rightarrow> flow_node \<Rightarrow> interp_state \<Rightarrow> arm_result" where
  "node_effect e spec inputs n st =
     (case node_class n of
        KNote \<Rightarrow> (Ok None, st)
      | KStart \<Rightarrow> arm_start inputs n st
      | KEnd \<Rightarrow> (Ok None, push_output (fn_id n) ''end'' JNull st)
      | KApproval \<Rightarrow> arm_approval inputs n st
      | KIf \<Rightarrow> arm_if e inputs n st
      | KWhile \<Rightarrow> arm_while e inputs n st
      | KGuardrails \<Rightarrow> arm_guardrails e inputs n st
      | KMcp \<Rightarrow> arm_mcp e inputs n st
      | KFileSearch \<Rightarrow> arm_file_search e inputs n st
      | KSetState \<Rightarrow> arm_set_state e inputs n st
      | KTransform \<Rightarrow> arm_transform e inputs n st
      | KCrew \<Rightarrow> arm_crew e inputs n st
      | KAgent \<Rightarrow> arm_agent e spec inputs n st
      | KClassify \<Rightarrow> arm_classify e inputs n st
      | KLlm \<Rightarrow> arm_llm e spec inputs n st
      | KOther \<Rightarrow> (Err (UnknownKind (fn_id n) (ascii_lower (fn_kind n))), st))"

text \<open>One round of the loop: \<open>Ok None\<close> ends it, as an end node's \<open>break\<close> does.\<close>

definition interp_step ::
    "'v interp_env \<Rightarrow> flow_spec \<Rightarrow> json \<Rightarrow> string \<Rightarrow> interp_state \<Rightarrow>
       (string option, flow_error) outcome \<times> interp_state" where
  "interp_step e spec inputs cur st =
     (case find_node spec cur of
        None \<Rightarrow> (Err (MissingNode cur), st)
      | Some n \<Rightarrow>
          let st = step_log (''[step] '' @ cur @ '' ('' @ ascii_lower (fn_kind n) @ '')'') st
          in case node_effect e spec inputs n st of
               (Ok branch, st) \<Rightarrow>
                 (if node_class n = KEnd then Ok None else pick_next n (outs_of spec cur) branch, st)
             | (Err x, st) \<Rightarrow> (Err x, st)
             | (Panic, st) \<Rightarrow> (Panic, st))"

text \<open>
  \<open>left\<close> is \<open>MAX_STEPS\<close> less the steps made, which is also the number of the environment of the
  next step: the counter of the code is the fuel of the recursion.
\<close>

definition max_steps :: nat where
  "max_steps = 10000"

fun interp_loop ::
    "(nat \<Rightarrow> 'v interp_env) \<Rightarrow> flow_spec \<Rightarrow> json \<Rightarrow> nat \<Rightarrow> string option \<Rightarrow> interp_state \<Rightarrow>
       (json list, flow_error) outcome \<times> interp_state" where
  "interp_loop envs spec inputs left None st = (Ok (fi_steps st), st)"
| "interp_loop envs spec inputs 0 (Some cur) st = (Err MaxStepsExceeded, st)"
| "interp_loop envs spec inputs (Suc left) (Some cur) st =
     (case interp_step (envs left) spec inputs cur st of
        (Ok nxt, st) \<Rightarrow> interp_loop envs spec inputs left nxt st
      | (Err x, st) \<Rightarrow> (Err x, st)
      | (Panic, st) \<Rightarrow> (Panic, st))"

definition run_interpreter ::
    "(nat \<Rightarrow> 'v interp_env) \<Rightarrow> flow_spec \<Rightarrow> json \<Rightarrow> (json list, flow_error) outcome \<times> interp_state" where
  "run_interpreter envs spec inputs =
     (case start_nodes spec of
        [] \<Rightarrow> (Err (StartCount 0), interp_start)
      | s # _ \<Rightarrow> interp_loop envs spec inputs max_steps (Some (fn_id s)) interp_start)"

subsection \<open>Flows without a start node\<close>

definition legacy_prompt :: "'v interp_env \<Rightarrow> flow_node \<Rightarrow> json \<Rightarrow> (string, json) hmap \<Rightarrow> string" where
  "legacy_prompt e n inputs outputs =
     interpolate_inputs (ie_json_text e) (fn_prompt n) inputs @
     concat (map (\<lambda>(k, v). nl @ nl @ ''--- prior step '' @ k @ '' ---'' @ nl @ ie_json_text e v)
       (ie_prior_order e outputs))"

definition legacy_crew :: "'v interp_env \<Rightarrow> json \<Rightarrow> flow_node \<Rightarrow> (json, flow_error) outcome" where
  "legacy_crew e inputs n =
     (case fn_crew_spec n of
        None \<Rightarrow> Err (NodeFailed (''flow node '' @ fn_id n @ '': crew steps require '' @ [CHR 0x22] @ ''crew_spec'' @ [CHR 0x22]))
      | Some crew \<Rightarrow>
          (case crew_validate crew of
             Err x \<Rightarrow> Err (CrewFailed x)
           | Panic \<Rightarrow> Panic
           | Ok _ \<Rightarrow>
               (case run_crew (ie_crew e) crew (merged_inputs (ie_json_text e) n inputs) of
                  Err x \<Rightarrow> Err (CrewFailed x)
                | Panic \<Rightarrow> Panic
                | Ok r \<Rightarrow> Ok (crew_output_json r))))"

fun legacy_loop ::
    "(nat \<Rightarrow> 'v interp_env) \<Rightarrow> flow_spec \<Rightarrow> json \<Rightarrow> string list \<Rightarrow> interp_state \<Rightarrow>
       (json list, flow_error) outcome \<times> interp_state" where
  "legacy_loop envs spec inputs [] st = (Ok (fi_steps st), st)"
| "legacy_loop envs spec inputs (i # order) st =
     (let e = envs (length order)
      in case find_node spec i of
           None \<Rightarrow> (Err (MissingNode i), st)
         | Some n \<Rightarrow>
             let kind = ascii_lower (fn_kind n);
                 st = step_log (''[step] '' @ i @ '' ('' @ kind @ '') [legacy DAG]'') st
             in if kind = ''note'' then legacy_loop envs spec inputs order st
                else if kind = ''crew'' \<or> fn_crew_spec n \<noteq> None then
                  (case legacy_crew e inputs n of
                     Err x \<Rightarrow> (Err x, st)
                   | Panic \<Rightarrow> (Panic, st)
                   | Ok v \<Rightarrow>
                       legacy_loop envs spec inputs order
                         (push_output (fn_id n) ''crew'' v (set_output (fn_id n) v st)))
                else
                  (case infer_text e (with_max_tokens 512
                          (inference_task_new (ie_default_model e) (legacy_prompt e n inputs (fi_outputs st)))) of
                     Err x \<Rightarrow> (Err x, st)
                   | Panic \<Rightarrow> (Panic, st)
                   | Ok text \<Rightarrow>
                       let j = json_object [(''text'', JString text)]
                       in legacy_loop envs spec inputs order
                            (push_output (fn_id n) ''llm'' j (set_output (fn_id n) j st))))"

definition run_legacy_topo ::
    "((string, int) hmap \<Rightarrow> (string, int) hmap) \<Rightarrow> (nat \<Rightarrow> 'v interp_env) \<Rightarrow> flow_spec \<Rightarrow> json \<Rightarrow>
       ((json list, flow_error) outcome \<times> interp_state) option" where
  "run_legacy_topo iter envs spec inputs =
     map_option
       (\<lambda>r. case r of
          Ok order \<Rightarrow> legacy_loop envs spec inputs order interp_start
        | Err x \<Rightarrow> (Err x, interp_start)
        | Panic \<Rightarrow> (Panic, interp_start))
       (execution_order iter spec)"

definition run_flow ::
    "((string, int) hmap \<Rightarrow> (string, int) hmap) \<Rightarrow> (nat \<Rightarrow> 'v interp_env) \<Rightarrow> flow_spec \<Rightarrow> json \<Rightarrow>
       ((json list, flow_error) outcome \<times> interp_state) option" where
  "run_flow iter envs spec inputs =
     (case validate_for_run iter spec of
        None \<Rightarrow> None
      | Some (Err x) \<Rightarrow> Some (Err x, interp_start)
      | Some Panic \<Rightarrow> Some (Panic, interp_start)
      | Some (Ok _) \<Rightarrow>
          if has_interpreter_start spec then Some (run_interpreter envs spec inputs)
          else run_legacy_topo iter envs spec inputs)"

subsection \<open>A queued run\<close>

fun flow_error_msg :: "flow_error \<Rightarrow> string" where
  "flow_error_msg NeedsNodes = ''flow needs nodes''"
| "flow_error_msg (EdgeFromUnknown i) = ''edge from unknown node '' @ i"
| "flow_error_msg (EdgeToUnknown i) = ''edge to unknown node '' @ i"
| "flow_error_msg FlowCycle = ''flow has a cycle''"
| "flow_error_msg (StartCount k) = ''flow must have exactly one start node, found '' @ show_nat k"
| "flow_error_msg (NeedsLabels i k) =
     ''node '' @ i @ '': '' @
     (case k of
        KIf \<Rightarrow> ''if/else needs outgoing edges labeled true and false''
      | KWhile \<Rightarrow> ''while needs outgoing edges labeled loop and exit''
      | KGuardrails \<Rightarrow> ''guardrails needs outgoing edges labeled pass and fail''
      | _ \<Rightarrow> ''user approval needs outgoing edges labeled approve and reject'')"
| "flow_error_msg (EndHasEdges i) = ''node '' @ i @ '': end node must have no outgoing edges''"
| "flow_error_msg (NeedsOneDefault i) =
     ''node '' @ i @ '': multiple outgoing edges need exactly one default label or one unlabeled edge''"
| "flow_error_msg (GuardNeedsSource i) =
     ''node '' @ i @ '': guardrails needs source_node_id or guardrail_input_template''"
| "flow_error_msg (GuardSourceNotFound i s) =
     ''node '' @ i @ '': guardrails source_node_id '' @ [CHR 0x27] @ s @ [CHR 0x27] @ '' not found''"
| "flow_error_msg (TransformSourceNotFound i s) =
     ''node '' @ i @ '': transform_from_node_id '' @ [CHR 0x27] @ s @ [CHR 0x27] @ '' not found''"
| "flow_error_msg (StartEdges k) = ''start node must have exactly one outgoing edge, found '' @ show_nat k"
| "flow_error_msg (NotReachable i) = ''node '' @ i @ '' is not reachable from start''"
| "flow_error_msg MaxStepsExceeded = ''flow interpreter: max steps exceeded (infinite loop?)''"
| "flow_error_msg (MissingNode i) = ''missing node '' @ i"
| "flow_error_msg (NoBranch i k) =
     ''node '' @ i @ '': '' @
     (case k of KIf \<Rightarrow> ''if/else'' | KWhile \<Rightarrow> ''while'' | KGuardrails \<Rightarrow> ''guardrails'' | _ \<Rightarrow> ''user approval'') @
     '' internal error''"
| "flow_error_msg (MissingEdge i l) =
     ''node '' @ i @ '': missing '' @ [CHR 0x27] @ l @ [CHR 0x27] @ '' labeled outgoing edge''"
| "flow_error_msg (AmbiguousEdges i k) =
     ''node '' @ i @ '': ambiguous outgoing edges ('' @ show_nat k @
     ''); use one unlabeled edge or one default label''"
| "flow_error_msg (UnknownKind i k) =
     ''node '' @ i @ '': unknown kind '' @ [CHR 0x27] @ k @ [CHR 0x27] @ '' for interpreter mode''"
| "flow_error_msg (CrewFailed x) = crew_error_msg x"
| "flow_error_msg (NodeFailed m) = m"

text \<open>
  A queued run, as the loop of \<^verbatim>\<open>src/cli/serve.rs\<close> handles it: \<open>now\<close> is the time of its end and
  the environment's default model is the first available one, empty if there is none. A run that
  panics unwinds the caller; \<open>None\<close> stands for that and for a run that does not return.
\<close>

definition process_flow_run ::
    "((string, int) hmap \<Rightarrow> (string, int) hmap) \<Rightarrow> (nat \<Rightarrow> 'v interp_env) \<Rightarrow> string \<Rightarrow> string \<Rightarrow>
       string \<Rightarrow> flow_spec \<Rightarrow> json \<Rightarrow> flow_run_store \<Rightarrow> flow_run_store option" where
  "process_flow_run iter envs model now i spec inputs s =
     (let s = flow_update_status i ''running'' s;
          s = flow_push_log i ''[flow] started'' s
      in if model = [] then Some (flow_complete_err i now ''no models available for flow execution'' s)
         else
           (case run_flow iter (\<lambda>k. (envs k)\<lparr>ie_default_model := model\<rparr>) spec inputs of
              None \<Rightarrow> None
            | Some (r, st) \<Rightarrow>
                let s = foldl (\<lambda>s line. flow_push_log i line s) s (fi_log st)
                in case r of
                     Ok out \<Rightarrow> Some (flow_complete_ok i now out s)
                   | Err x \<Rightarrow> Some (flow_complete_err i now (flow_error_msg x) s)
                   | Panic \<Rightarrow> None))"

end
