(* ===== verification/Flow_Correct.thy ===== *)
theory Flow_Correct
  imports Flow_Graph Flow_Interpreter
begin

section \<open>What the interpreter keeps\<close>

text \<open>
  Lemmas on validation, on the choice of the next node and on the arms of the interpreter:
  a validated node always has a next node for the branch its arm takes, and the iteration counts
  stay within the limits of their nodes.
\<close>

named_theorems arm_defs \<open>the arms of the interpreter\<close>

lemmas [arm_defs] =
  arm_start_def arm_approval_def arm_if_def arm_while_def while_exit_def arm_guardrails_def
  arm_mcp_def arm_file_search_def arm_crew_def arm_agent_def arm_classify_def arm_llm_def
  arm_set_state_def arm_transform_def node_msg_def failed_def

subsection \<open>Validation\<close>

lemma check_labels_not_Panic [simp]: "check_labels outs n \<noteq> Panic"
  by (simp add: check_labels_def Let_def)

lemma check_guard_source_not_Panic [simp]: "check_guard_source ids n \<noteq> Panic"
  by (simp add: check_guard_source_def Let_def)

lemma check_transform_source_not_Panic [simp]: "check_transform_source ids n \<noteq> Panic"
  by (simp add: check_transform_source_def Let_def)

lemma check_nodes_ok:
  "check_nodes spec ns = Ok () \<longleftrightarrow>
     (\<forall>n \<in> set ns. node_class n \<noteq> KNote \<longrightarrow>
        check_labels (outs_of spec (fn_id n)) n = Ok () \<and>
        check_guard_source (node_ids spec) n = Ok () \<and>
        check_transform_source (node_ids spec) n = Ok ())"
  by (induction ns) (auto split: outcome.splits)

lemma check_reached_ok:
  "check_reached seen ns = Ok () \<longleftrightarrow>
     (\<forall>n \<in> set ns. node_class n \<noteq> KNote \<longrightarrow> fn_id n \<in> set seen)"
  by (induction ns) auto

lemma start_class: "eq_ignore_ascii_case (fn_kind n) ''start'' \<longleftrightarrow> node_class n = KStart"
proof -
  have "ascii_lower ''start'' = ''start''" by code_simp
  then show ?thesis by (simp add: eq_ignore_ascii_case_def node_class_def kind_class_def)
qed

lemma start_nodes_eq: "start_nodes spec = filter (\<lambda>n. node_class n = KStart) (fs_nodes spec)"
  by (simp add: start_nodes_def start_class)

lemma has_interpreter_start_iff: "has_interpreter_start spec \<longleftrightarrow> start_nodes spec \<noteq> []"
  by (auto simp: has_interpreter_start_def start_nodes_def list_ex_iff filter_empty_conv)

lemma validate_interpreter_reaches:
  assumes "start_nodes spec = [s]" and "check_nodes spec (fs_nodes spec) = Ok ()"
    and "length (outs_of spec (fn_id s)) = 1"
  obtains seen where "set seen = (edge_rel spec)\<^sup>* `` {fn_id s}"
    and "validate_interpreter spec = Some (check_reached seen (fs_nodes spec))"
proof -
  from reach_rtrancl [of spec "fn_id s"] obtain seen where
    "reach (outgoing_map spec) [] [fn_id s] = Some seen"
    "set seen = (edge_rel spec)\<^sup>* `` {fn_id s}" by blast
  with assms show thesis by (intro that [of seen]) (auto simp: validate_interpreter_def)
qed

lemma validate_interpreterD:
  assumes "validate_interpreter spec = Some (Ok ())"
  obtains s where "start_nodes spec = [s]" and "check_nodes spec (fs_nodes spec) = Ok ()"
    and "length (outs_of spec (fn_id s)) = 1"
proof -
  from assms obtain s where "start_nodes spec = [s]" "check_nodes spec (fs_nodes spec) = Ok ()"
    "length (outs_of spec (fn_id s)) = 1"
    by (auto simp: validate_interpreter_def Let_def split: list.splits outcome.splits if_splits)
  then show thesis by (rule that)
qed

lemma validate_for_runD:
  assumes "validate_for_run iter spec = Some (Ok ())"
  shows "flow_validate spec = Ok ()"
    and "has_interpreter_start spec \<Longrightarrow> validate_interpreter spec = Some (Ok ())"
  using assms by (auto simp: validate_for_run_def split: outcome.splits if_splits)

lemma find_node_Some: "find_node spec i = Some n \<Longrightarrow> n \<in> set (fs_nodes spec) \<and> fn_id n = i"
  by (auto simp: find_node_def find_Some_iff)

lemma find_node_ex: "i \<in> set (node_ids spec) \<Longrightarrow> \<exists>n. find_node spec i = Some n"
  by (auto simp: find_node_def node_ids_def find_None_iff simp flip: not_None_eq)

subsection \<open>The next node\<close>

lemma branch_labels_lower:
  "branch_kind k \<Longrightarrow> l \<in> {fst (branch_labels k), snd (branch_labels k)} \<Longrightarrow> ascii_lower l = l"
proof -
  have "map ascii_lower [''true'', ''false'', ''loop'', ''exit'', ''pass'', ''fail'', ''approve'', ''reject''] =
      [''true'', ''false'', ''loop'', ''exit'', ''pass'', ''fail'', ''approve'', ''reject'']"
    by code_simp
  then show "branch_kind k \<Longrightarrow> l \<in> {fst (branch_labels k), snd (branch_labels k)} \<Longrightarrow> ascii_lower l = l"
    by (auto simp: branch_kind_def branch_labels_def)
qed

lemma find_ex: "list_ex P xs \<Longrightarrow> \<exists>x. find P xs = Some x"
  by (induction xs) auto

lemma singleton_filter: "filter P xs = [e] \<Longrightarrow> e \<in> set xs"
proof -
  assume "filter P xs = [e]"
  then have "e \<in> set (filter P xs)" by simp
  then show ?thesis by simp
qed

lemma pick_next_target:
  assumes "pick_next n outs b = Ok (Some j)"
  shows "j \<in> fst ` set outs"
proof (cases "branch_kind (node_class n)")
  case True
  with assms obtain l e where "find (labeled l) outs = Some e" "j = fst e"
    by (auto simp: pick_next_def Let_def split: option.splits)
  then show ?thesis by (auto simp: find_Some_iff intro!: imageI)
next
  case False
  show ?thesis
  proof (cases "\<exists>e. outs = [] \<or> outs = [e]")
    case True
    with False assms show ?thesis by (auto simp: pick_next_def)
  next
    case several: False
    then have "pick_next n outs b =
        (case filter unlabeled outs of
           [e] \<Rightarrow> Ok (Some (fst e))
         | _ \<Rightarrow> (case filter (labeled ''default'') outs of
                    [e] \<Rightarrow> Ok (Some (fst e)) | _ \<Rightarrow> Err (AmbiguousEdges (fn_id n) (length outs))))"
      using False by (cases outs rule: remdups_adj.cases) (auto simp: pick_next_def simp del: filter.simps)
    with assms consider e where "filter unlabeled outs = [e]" "j = fst e"
      | e where "filter (labeled ''default'') outs = [e]" "j = fst e"
      by (auto split: list.splits)
    then show ?thesis by cases (auto dest: singleton_filter)
  qed
qed

text \<open>What an arm hands on: a label of the node for the kinds that branch.\<close>

definition branch_ok :: "flow_node \<Rightarrow> string option \<Rightarrow> bool" where
  "branch_ok n b \<longleftrightarrow>
     (if branch_kind (node_class n)
      then b \<in> Some ` {fst (branch_labels (node_class n)), snd (branch_labels (node_class n))}
      else b = None)"

lemma pick_next_ok:
  assumes "check_labels outs n = Ok ()" and "branch_ok n b"
  shows "\<exists>r. pick_next n outs b = Ok r"
proof (cases "branch_kind (node_class n)")
  case True
  then obtain l where l: "b = Some l" "l \<in> {fst (branch_labels (node_class n)), snd (branch_labels (node_class n))}"
    using assms(2) by (auto simp: branch_ok_def)
  then have "list_ex (labeled l) outs"
    using assms(1) True by (auto simp: check_labels_def Let_def split: if_splits)
  then obtain e where "find (labeled l) outs = Some e" using find_ex by blast
  with True l branch_labels_lower [OF True l(2)] show ?thesis by (simp add: pick_next_def)
next
  case False
  show ?thesis
  proof (cases "node_class n = KEnd")
    case True
    with assms(1) False have "outs = []" by (simp add: check_labels_def split: if_splits)
    with False show ?thesis by (simp add: pick_next_def)
  next
    case other: False
    have cls: "length outs \<le> 1 \<or> length (filter (labeled ''default'') outs) = 1 \<or>
        length (filter unlabeled outs) = 1"
      using assms(1) False other by (auto simp: check_labels_def Let_def split: if_splits)
    have one: "length xs = 1 \<longleftrightarrow> (\<exists>e. xs = [e])" for xs :: "out_edge list"
      by (simp add: length_Suc_conv)
    have few: "length outs \<le> 1 \<longleftrightarrow> outs = [] \<or> (\<exists>e. outs = [e])"
      by (cases outs) auto
    from cls consider "outs = []" | e where "outs = [e]"
      | e where "filter (labeled ''default'') outs = [e]" | e where "filter unlabeled outs = [e]"
      unfolding one few by blast
    then show ?thesis
      by cases (use False in \<open>auto simp: pick_next_def simp del: filter.simps split: list.splits\<close>)
  qed
qed

subsection \<open>A validated flow is never stuck\<close>

text \<open>The errors a node itself reports, as opposed to those of the graph.\<close>

fun node_failure :: "flow_error \<Rightarrow> bool" where
  "node_failure (UnknownKind _ _) = True"
| "node_failure (CrewFailed _) = True"
| "node_failure (NodeFailed _) = True"
| "node_failure _ = False"

lemma infer_text_error: "infer_text e t = Err x \<Longrightarrow> node_failure x"
  by (auto simp: infer_text_def split: outcome.splits task_data.splits)

lemma apply_rows_error: "apply_rows e n act applied st rows = Err x \<Longrightarrow> node_failure x"
  by (induction rows arbitrary: applied st) (auto split: option.splits outcome.splits)

lemma transform_errors:
  "transform_object e inputs n st = Err x \<Longrightarrow> node_failure x"
  "transform_expressions e inputs n st = Err x \<Longrightarrow> node_failure x"
  "transform_copy n st = Err x \<Longrightarrow> node_failure x"
  by (auto simp: transform_object_def transform_expressions_def transform_copy_def Let_def
    dest: apply_rows_error split: outcome.splits option.splits if_splits prod.splits)

text \<open>Every arm takes a branch of its kind, and fails only with a failure of the node.\<close>

lemma arm_while_branch: "arm_while e inputs n st = (Ok b, st') \<Longrightarrow> b \<in> {Some ''loop'', Some ''exit''}"
  by (auto simp: arm_defs Let_def split: outcome.splits if_splits bool.splits)

lemma node_effect_branch:
  "node_effect e spec inputs n st = (Ok b, st') \<Longrightarrow> branch_ok n b"
proof (cases "node_class n")
  case KWhile
  assume "node_effect e spec inputs n st = (Ok b, st')"
  with KWhile arm_while_branch show ?thesis
    by (fastforce simp: node_effect_def branch_ok_def branch_kind_def branch_labels_def)
next
  case KTransform
  assume "node_effect e spec inputs n st = (Ok b, st')"
  with KTransform show ?thesis
    by (auto simp: node_effect_def arm_transform_def Let_def branch_ok_def branch_kind_def
        split: outcome.splits prod.splits)
qed (auto simp: node_effect_def arm_start_def arm_approval_def arm_if_def arm_guardrails_def
  arm_mcp_def arm_file_search_def arm_crew_def arm_agent_def arm_classify_def arm_llm_def
  arm_set_state_def node_msg_def failed_def Let_def branch_ok_def branch_kind_def branch_labels_def
  split: outcome.splits if_splits option.splits)

lemma node_effect_error:
  assumes "node_effect e spec inputs n st = (Err x, st')"
    and "check_guard_source ids n = Ok ()"
  shows "node_failure x"
proof (cases "node_class n")
  case KTransform
  with assms transform_errors show ?thesis
    by (fastforce simp: node_effect_def arm_transform_def Let_def split: outcome.splits prod.splits if_splits)
next
  case KGuardrails
  with assms show ?thesis
    by (auto simp: node_effect_def arm_guardrails_def check_guard_source_def Let_def split: if_splits)
next
  case KWhile
  with assms show ?thesis
    by (auto simp: node_effect_def arm_while_def while_exit_def failed_def Let_def split: outcome.splits if_splits bool.splits)
qed (use assms in \<open>auto simp: node_effect_def arm_start_def arm_approval_def arm_if_def
  arm_mcp_def arm_file_search_def arm_crew_def arm_agent_def arm_classify_def arm_llm_def
  arm_set_state_def node_msg_def failed_def Let_def dest: infer_text_error
  split: outcome.splits if_splits option.splits\<close>)


text \<open>A flow that passed validation, whose notes have at most one edge out.\<close>

definition runnable :: "flow_spec \<Rightarrow> bool" where
  "runnable spec \<longleftrightarrow>
     flow_validate spec = Ok () \<and> check_nodes spec (fs_nodes spec) = Ok () \<and>
     (\<forall>n \<in> set (fs_nodes spec). node_class n = KNote \<longrightarrow> length (outs_of spec (fn_id n)) \<le> 1)"

lemma runnable_node:
  assumes "runnable spec" and "find_node spec i = Some n"
  shows "branch_ok n b \<Longrightarrow> \<exists>r. pick_next n (outs_of spec i) b = Ok r"
    and "node_class n \<noteq> KNote \<Longrightarrow> check_guard_source (node_ids spec) n = Ok ()"
proof -
  have n: "n \<in> set (fs_nodes spec)" "fn_id n = i" using assms(2) find_node_Some by auto
  show "node_class n \<noteq> KNote \<Longrightarrow> check_guard_source (node_ids spec) n = Ok ()"
    using assms(1) n by (auto simp: runnable_def check_nodes_ok)
  show "\<exists>r. pick_next n (outs_of spec i) b = Ok r" if "branch_ok n b"
  proof (cases "node_class n = KNote")
    case True
    with assms(1) n have "length (outs_of spec i) \<le> 1" by (auto simp: runnable_def)
    then show ?thesis
      using True by (cases "outs_of spec i") (auto simp: pick_next_def branch_kind_def)
  next
    case False
    with assms(1) n that show ?thesis
      by (auto simp: runnable_def check_nodes_ok intro: pick_next_ok)
  qed
qed

lemma interp_step_sound:
  assumes "runnable spec" and "i \<in> set (node_ids spec)"
  shows "interp_step e spec inputs i st = (Err x, st') \<Longrightarrow> node_failure x"
    and "interp_step e spec inputs i st = (Ok (Some j), st') \<Longrightarrow> j \<in> set (node_ids spec)"
proof -
  obtain n where n: "find_node spec i = Some n" using find_node_ex [OF assms(2)] by blast
  let ?st = "step_log (''[step] '' @ i @ '' ('' @ ascii_lower (fn_kind n) @ '')'') st"
  show "node_failure x" if "interp_step e spec inputs i st = (Err x, st')"
  proof (cases "node_effect e spec inputs n ?st")
    case (Pair r st2)
    show ?thesis
    proof (cases r)
      case (Ok b)
      then have "\<exists>r. pick_next n (outs_of spec i) b = Ok r"
        using runnable_node(1) [OF assms(1) n] node_effect_branch Pair by metis
      with that n Pair Ok show ?thesis by (auto simp: interp_step_def split: if_splits)
    next
      case (Err y)
      have "check_guard_source (node_ids spec) n = Ok ()"
      proof (cases "node_class n = KNote")
        case True
        then show ?thesis by (simp add: check_guard_source_def Let_def)
      next
        case False
        with runnable_node(2) [OF assms(1) n] show ?thesis .
      qed
      with node_effect_error Pair Err have "node_failure y" by blast
      with that n Pair Err show ?thesis by (simp add: interp_step_def)
    next
      case Panic
      with that n Pair show ?thesis by (simp add: interp_step_def)
    qed
  qed
  show "j \<in> set (node_ids spec)" if "interp_step e spec inputs i st = (Ok (Some j), st')"
  proof -
    from that n obtain b where "pick_next n (outs_of spec i) b = Ok (Some j)"
      by (auto simp: interp_step_def Let_def split: prod.splits outcome.splits if_splits)
    then have "j \<in> edge_rel spec `` {i}" using pick_next_target set_outs_of by blast
    with assms(1) show ?thesis by (auto simp: runnable_def flow_validate_ok)
  qed
qed

lemma interp_loop_sound:
  assumes "runnable spec" and "set_option cur \<subseteq> set (node_ids spec)"
    and "interp_loop envs spec inputs left cur st = (Err x, st')"
  shows "x = MaxStepsExceeded \<or> node_failure x"
  using assms
proof (induction envs spec inputs left cur st rule: interp_loop.induct)
  case (3 envs spec inputs left cur st)
  have cur: "cur \<in> set (node_ids spec)" using 3 by simp
  obtain r s2 where step: "interp_step (envs left) spec inputs cur st = (r, s2)" by fastforce
  show ?case
  proof (cases r)
    case (Ok nxt)
    have "set_option nxt \<subseteq> set (node_ids spec)"
      using interp_step_sound(2) [OF 3(2) cur] step Ok by (cases nxt) auto
    with 3 step Ok show ?thesis by simp
  next
    case (Err y)
    with step interp_step_sound(1) [OF 3(2) cur] have "node_failure y" by blast
    with 3 step Err show ?thesis by simp
  next
    case Panic
    with 3 step show ?thesis by simp
  qed
qed auto

subsection \<open>Iteration counts\<close>

definition counts_ok :: "flow_spec \<Rightarrow> interp_state \<Rightarrow> bool" where
  "counts_ok spec st \<longleftrightarrow>
     (\<forall>i c. hm_get (fi_while st) i = Some c \<longrightarrow>
        (\<exists>n. find_node spec i = Some n \<and> node_class n = KWhile \<and> 0 < c \<and> c \<le> max_iter_of n))"

lemma fi_while_simps [simp]:
  "fi_while (step_log l st) = fi_while st" "fi_while (set_output i v st) = fi_while st"
  "fi_while (push_step kvs st) = fi_while st" "fi_while (push_output i k v st) = fi_while st"
  "fi_while (put_state k v st) = fi_while st"
  by (simp_all add: step_log_def set_output_def push_step_def push_output_def put_state_def)

lemma fi_while_put_states: "fi_while (foldl (\<lambda>st (k, v). put_state k v st) st obj) = fi_while st"
  by (induction obj arbitrary: st) auto

lemma apply_rows_while: "apply_rows e n act applied st rows = Ok (js, st') \<Longrightarrow> fi_while st' = fi_while st"
  by (induction rows arbitrary: applied st) (auto split: option.splits outcome.splits)

lemma transform_while:
  "transform_object e inputs n st = Ok (v, st') \<Longrightarrow> fi_while st' = fi_while st"
  "transform_expressions e inputs n st = Ok (v, st') \<Longrightarrow> fi_while st' = fi_while st"
  "transform_copy n st = Ok (v, st') \<Longrightarrow> fi_while st' = fi_while st"
  by (auto simp: transform_object_def transform_expressions_def transform_copy_def Let_def
    fi_while_put_states dest: apply_rows_while split: outcome.splits option.splits if_splits prod.splits)

text \<open>Only a while node changes the counts, and only its own.\<close>

lemma node_effect_while:
  "node_class n \<noteq> KWhile \<Longrightarrow> fi_while (snd (node_effect e spec inputs n st)) = fi_while st"
proof (cases "node_class n")
  case KTransform
  then show ?thesis using transform_while
    by (auto simp: node_effect_def arm_transform_def Let_def split: outcome.splits prod.splits)
qed (auto simp: node_effect_def arm_start_def arm_approval_def arm_if_def arm_guardrails_def
  arm_mcp_def arm_file_search_def arm_crew_def arm_agent_def arm_classify_def arm_llm_def
  arm_set_state_def node_msg_def failed_def Let_def split: outcome.splits option.splits if_splits)

lemma unat_count_inc: "c < (m :: u32) \<Longrightarrow> unat (c + 1) = unat c + 1"
proof -
  assume "c < m"
  then have "unat c < unat m" by (simp add: word_less_nat_alt)
  moreover have "unat m < 2 ^ 32" using unsigned_less [of m, where 'a = nat] by simp
  ultimately show ?thesis by (simp add: unat_add_nowrap)
qed

lemma arm_while_counts:
  assumes "find_node spec (fn_id n) = Some n" and "node_class n = KWhile" and "counts_ok spec st"
  shows "counts_ok spec (snd (arm_while e inputs n st))"
proof -
  let ?c = "hm_get_or 0 (fi_while st) (fn_id n)"
  have inc: "0 < ?c + 1 \<and> ?c + 1 \<le> max_iter_of n" if "?c < max_iter_of n"
    using that unat_count_inc [OF that] by (simp add: word_less_nat_alt word_le_nat_alt)
  from assms show ?thesis
    by (cases "?c < max_iter_of n")
      (auto simp: arm_while_def while_exit_def failed_def counts_ok_def Let_def not_less
        dest: inc split: outcome.splits bool.splits if_splits)
qed


lemma interp_step_counts:
  assumes "counts_ok spec st"
  shows "counts_ok spec (snd (interp_step e spec inputs i st))"
proof (cases "find_node spec i")
  case None
  with assms show ?thesis by (simp add: interp_step_def)
next
  case (Some n)
  let ?st = "step_log (''[step] '' @ i @ '' ('' @ ascii_lower (fn_kind n) @ '')'') st"
  have st: "counts_ok spec ?st" using assms by (simp add: counts_ok_def)
  have "counts_ok spec (snd (node_effect e spec inputs n ?st))"
  proof (cases "node_class n = KWhile")
    case True
    have "find_node spec (fn_id n) = Some n" using Some find_node_Some [OF Some] by simp
    from arm_while_counts [OF this True st] True show ?thesis by (simp add: node_effect_def)
  next
    case False
    with node_effect_while [OF False, of e spec inputs ?st] st show ?thesis by (simp add: counts_ok_def)
  qed
  with Some show ?thesis
    by (auto simp: interp_step_def Let_def split: prod.splits outcome.splits)
qed

lemma interp_loop_counts:
  "counts_ok spec st \<Longrightarrow> counts_ok spec (snd (interp_loop envs spec inputs left cur st))"
proof (induction envs spec inputs left cur st rule: interp_loop.induct)
  case (3 envs spec inputs left cur st)
  then show ?case
    using interp_step_counts [OF 3(2), of "envs left" inputs cur]
    by (auto split: prod.splits outcome.splits)
qed auto

text \<open>
  How often a node has gone round its loop since it last left it, read off the recorded steps; the
  interpreter's count is that number.
\<close>

definition loop_count :: "string \<Rightarrow> json list \<Rightarrow> nat" where
  "loop_count i steps =
     foldl (\<lambda>c s. if get_str ''kind'' s = Some ''while'' \<and> get_str ''id'' s = Some i
                  then (if get_str ''branch'' s = Some ''loop'' then Suc c else 0) else c) 0 steps"

lemma loop_count_snoc:
  "loop_count i (steps @ [s]) =
     (if get_str ''kind'' s = Some ''while'' \<and> get_str ''id'' s = Some i
      then (if get_str ''branch'' s = Some ''loop'' then Suc (loop_count i steps) else 0)
      else loop_count i steps)"
  by (simp add: loop_count_def)

lemma loop_count_Nil [simp]: "loop_count i [] = 0"
  by (simp add: loop_count_def)

definition loops_match :: "interp_state \<Rightarrow> bool" where
  "loops_match st \<longleftrightarrow> (\<forall>i. loop_count i (fi_steps st) = unat (hm_get_or 0 (fi_while st) i))"

lemma fi_steps_simps [simp]:
  "fi_steps (step_log l st) = fi_steps st" "fi_steps (set_output i v st) = fi_steps st"
  "fi_steps (push_step kvs st) = fi_steps st @ [json_object kvs]" 
  "fi_steps (put_state k v st) = fi_steps st"
  by (simp_all add: step_log_def set_output_def push_step_def push_output_def put_state_def)

lemma loop_count_push:
  "get_str ''kind'' (json_object kvs) \<noteq> Some ''while'' \<Longrightarrow>
     loop_count i (fi_steps (push_step kvs st)) = loop_count i (fi_steps st)"
  by (simp add: loop_count_snoc)

lemma loop_count_output [simp]:
  "k \<noteq> ''while'' \<Longrightarrow> loop_count i (fi_steps (push_output j k v st)) = loop_count i (fi_steps st)"
  by (simp add: push_output_def loop_count_snoc get_str_def)

lemma fi_steps_put_states: "fi_steps (foldl (\<lambda>st (k, v). put_state k v st) st obj) = fi_steps st"
  by (induction obj arbitrary: st) auto

lemma apply_rows_steps: "apply_rows e n act applied st rows = Ok (js, st') \<Longrightarrow> fi_steps st' = fi_steps st"
  by (induction rows arbitrary: applied st) (auto split: option.splits outcome.splits)

lemma transform_steps:
  "transform_object e inputs n st = Ok (v, st') \<Longrightarrow> fi_steps st' = fi_steps st"
  "transform_expressions e inputs n st = Ok (v, st') \<Longrightarrow> fi_steps st' = fi_steps st"
  "transform_copy n st = Ok (v, st') \<Longrightarrow> fi_steps st' = fi_steps st"
  by (auto simp: transform_object_def transform_expressions_def transform_copy_def Let_def
    fi_steps_put_states dest: apply_rows_steps split: outcome.splits option.splits if_splits prod.splits)

lemma if_kind: "node_class n = KIf \<Longrightarrow> ascii_lower (fn_kind n) \<noteq> ''while''"
  by (auto simp: node_class_def kind_class_def)

lemma node_effect_loop_count:
  "node_class n \<noteq> KWhile \<Longrightarrow>
     loop_count i (fi_steps (snd (node_effect e spec inputs n st))) = loop_count i (fi_steps st)"
proof (cases "node_class n")
  case KTransform
  then show ?thesis
    by (auto simp: node_effect_def arm_transform_def Let_def dest!: transform_steps
        split: outcome.splits prod.splits if_splits)
next
  case KIf
  with if_kind [OF this] show ?thesis
    by (auto simp: node_effect_def arm_if_def Let_def failed_def loop_count_snoc get_str_def split: outcome.splits)
qed (auto simp: node_effect_def arm_start_def arm_approval_def arm_guardrails_def
  arm_mcp_def arm_file_search_def arm_crew_def arm_agent_def arm_classify_def arm_llm_def
  arm_set_state_def node_msg_def failed_def Let_def loop_count_snoc get_str_def
  split: outcome.splits option.splits if_splits)

lemma hm_get_or_remove [simp]: "hm_get_or d (hm_remove k m) k' = (if k' = k then d else hm_get_or d m k')"
  by (simp add: hm_get_or_def)

lemma arm_while_match:
  "loops_match st \<Longrightarrow> loops_match (snd (arm_while e inputs n st))"
  by (auto simp: arm_while_def while_exit_def failed_def Let_def loops_match_def loop_count_snoc get_str_def
    not_le unat_count_inc split: outcome.splits bool.splits)

lemma interp_step_match:
  assumes "loops_match st"
  shows "loops_match (snd (interp_step e spec inputs i st))"
proof (cases "find_node spec i")
  case None
  with assms show ?thesis by (simp add: interp_step_def)
next
  case (Some n)
  let ?st = "step_log (''[step] '' @ i @ '' ('' @ ascii_lower (fn_kind n) @ '')'') st"
  have st: "loops_match ?st" using assms by (simp add: loops_match_def)
  have "loops_match (snd (node_effect e spec inputs n ?st))"
  proof (cases "node_class n = KWhile")
    case True
    with arm_while_match [OF st] show ?thesis by (simp add: node_effect_def)
  next
    case False
    with node_effect_while [OF False, of e spec inputs ?st] node_effect_loop_count [OF False, where e = e] st
    show ?thesis by (simp add: loops_match_def)
  qed
  with Some show ?thesis
    by (auto simp: interp_step_def Let_def split: prod.splits outcome.splits)
qed

lemma interp_loop_match:
  "loops_match st \<Longrightarrow> loops_match (snd (interp_loop envs spec inputs left cur st))"
proof (induction envs spec inputs left cur st rule: interp_loop.induct)
  case (3 envs spec inputs left cur st)
  then show ?case
    using interp_step_match [OF 3(2), of "envs left" spec inputs cur]
    by (auto split: prod.splits outcome.splits)
qed auto

lemma interp_loop_step:
  "0 < left \<Longrightarrow> interp_loop envs spec inputs left (Some cur) st =
     (case interp_step (envs (left - 1)) spec inputs cur st of
        (Ok nxt, st) \<Rightarrow> interp_loop envs spec inputs (left - 1) nxt st
      | (Err x, st) \<Rightarrow> (Err x, st)
      | (Panic, st) \<Rightarrow> (Panic, st))"
  by (cases left) (simp_all split: prod.splits outcome.splits)

subsection \<open>Flows without a start node\<close>

definition step_id :: "json \<Rightarrow> string option" where
  "step_id s = get_str ''id'' s"

lemma legacy_loop_steps:
  "legacy_loop envs spec inputs order st = (Ok steps, st') \<Longrightarrow>
     map step_id steps = map step_id (fi_steps st) @
       map Some (filter (\<lambda>i. \<exists>n. find_node spec i = Some n \<and> node_class n \<noteq> KNote) order)"
proof (induction order arbitrary: st)
  case (Cons i order)
  have note_iff: "node_class n = KNote \<longleftrightarrow> ascii_lower (fn_kind n) = ''note''" for n
    by (auto simp: node_class_def kind_class_def)
  show ?case
  proof (cases "find_node spec i")
    case (Some n)
    with Cons.prems show ?thesis
      by (auto simp: Let_def note_iff push_output_def step_id_def get_str_def dest!: Cons.IH find_node_Some
          split: if_splits outcome.splits)
  qed (use Cons.prems in \<open>simp add: Let_def\<close>)
qed simp

end
