(* ===== verification/Flow_Props.thy ===== *)
theory Flow_Props
  imports Flow_Correct "HOL-Library.Multiset"
begin

section \<open>Properties of workflows\<close>

text \<open>
  The topological order, the two flows the program builds itself, the check of reachability, the
  interpreter on validated flows, its loops, and flows without a start node.
\<close>

subsection \<open>The topological order\<close>

lemma kahn_inv_start:
  assumes "flow_validate spec = Ok ()" and iter: "\<And>m. mset (iter m) = mset m"
  shows "kahn_inv spec (initial_degrees spec)
    (map fst (filter (\<lambda>(k, d). d = 0) (iter (initial_degrees spec)))) []"
proof -
  let ?m = "initial_degrees spec"
  have mset: "mset (map fst (iter ?m)) = mset (map fst ?m)" using iter [of ?m] by simp
  have "distinct (map fst (iter ?m))"
    using initial_degrees_keys(2) [OF assms(1)] mset_eq_imp_distinct_iff [OF mset]
    by (simp add: hm_wf_def)
  then have d: "distinct (map fst (filter (\<lambda>(k, d). d = 0) (iter ?m)))"
    by (rule distinct_map_filter)
  have set: "set (iter ?m) = set ?m" using iter [of ?m] by (rule mset_eq_setD)
  have mem: "(k, d) \<in> set ?m \<longleftrightarrow> k \<in> set (node_ids spec) \<and> d = in_count spec {} k" for k d
    using initial_degrees_keys [OF assms(1)] initial_degrees_get [of k spec] hm_get_mem [of ?m k d]
    by (metis fst_conv hm_get_SomeD image_eqI option.inject)
  have q: "set (map fst (filter (\<lambda>(k, d). d = 0) (iter ?m))) =
      {k \<in> set (node_ids spec). in_count spec {} k = 0}"
    by (force simp: set mem)
  show ?thesis
    using d initial_degrees_get by (simp add: kahn_inv_def preds_first_def q del: set_map set_filter)
qed

lemma execution_order_out:
  assumes valid: "flow_validate spec = Ok ()" and iter: "\<And>m. mset (iter m) = mset m"
  obtains indeg out where "kahn_inv spec indeg [] out" and "execution_order iter spec =
    Some (if length out \<noteq> length (node_ids spec) then Err FlowCycle else Ok out)"
proof -
  from kahn_returns [OF kahn_inv_start [where iter = iter, OF valid iter] valid] obtain indeg out where
    k: "kahn (adjacency spec) (initial_degrees spec)
          (map fst (filter (\<lambda>(k, d). d = 0) (iter (initial_degrees spec)))) [] = Some (Ok out)"
      "kahn_inv spec indeg [] out" by blast
  have "execution_order iter spec =
      Some (if length out \<noteq> length (node_ids spec) then Err FlowCycle else Ok out)"
    using valid k(1) by (simp add: execution_order_def node_ids_def)
  with k(2) show thesis by (rule that)
qed

lemma kahn_complete:
  assumes "kahn_inv spec indeg [] out" and "flow_validate spec = Ok ()"
    and len: "length out = length (node_ids spec)"
  shows "topological spec out" and "distinct (node_ids spec)"
proof -
  have out: "distinct out" "set out \<subseteq> set (node_ids spec)" "preds_first spec out"
    using assms(1) by (auto simp: kahn_inv_def)
  then have card: "card (set out) = length (node_ids spec)" using len by (simp add: distinct_card)
  then have all: "set out = set (node_ids spec)"
    using out(2) card_length [of "node_ids spec"] by (intro card_seteq) auto
  with card show "distinct (node_ids spec)" by (simp add: card_distinct)
  from out all assms(2) show "topological spec out" by (intro preds_first_topological)
qed

text \<open>C16: The loop that orders a flow's nodes always ends, without a panic. It returns a topological
  order of all nodes exactly when the node names are distinct and the edges have no cycle, and
  the error "flow has a cycle" otherwise, in whatever order the hash map is iterated.
\<close>

theorem execution_order_correct:
  assumes valid: "flow_validate spec = Ok ()" and iter: "\<And>m. mset (iter m) = mset m"
  shows "if distinct (node_ids spec) \<and> acyclic (edge_rel spec)
    then \<exists>xs. execution_order iter spec = Some (Ok xs) \<and> topological spec xs
    else execution_order iter spec = Some (Err FlowCycle)"
proof -
  obtain indeg out where k: "kahn_inv spec indeg [] out" and run: "execution_order iter spec =
      Some (if length out \<noteq> length (node_ids spec) then Err FlowCycle else Ok out)"
    using execution_order_out [where iter = iter, OF valid iter] .
  show ?thesis
  proof (cases "length out = length (node_ids spec)")
    case True
    with run kahn_complete [OF k valid True] topological_acyclic show ?thesis by auto
  next
    case False
    have "\<not> (distinct (node_ids spec) \<and> acyclic (edge_rel spec))"
      using kahn_inv_acyclic_all [OF k valid] False distinct_card [of out] distinct_card [of "node_ids spec"] k
      by (auto simp: kahn_inv_def)
    with run False show ?thesis by auto
  qed
qed

definition two_node_flow :: flow_spec where
  "two_node_flow =
     \<lparr>fs_name = ''t'', fs_nodes = [default_node\<lparr>fn_id := ''a''\<rparr>, default_node\<lparr>fn_id := ''b''\<rparr>],
      fs_edges = [plain_edge ''b'' ''a'']\<rparr>"

lemma execution_order_correct_witness:
  "\<exists>xs. execution_order (\<lambda>m. m) two_node_flow = Some (Ok xs) \<and> topological two_node_flow xs"
proof -
  have "flow_validate two_node_flow = Ok ()" by code_simp
  moreover have "distinct (node_ids two_node_flow)" by code_simp
  moreover have "acyclic (edge_rel two_node_flow)"
    by (simp add: two_node_flow_def edge_rel_def plain_edge_def wf_acyclic)
  ultimately show ?thesis using execution_order_correct [of two_node_flow "\<lambda>m. m"] by simp
qed

subsection \<open>Validation\<close>

text \<open>C17: Once the other checks of a flow with a start node have passed, the validation returns, and it
  accepts the flow exactly when every node but the notes is reachable from the start node: the
  search with a stack computes the reflexive transitive closure of the edges.
\<close>

theorem validation_checks_reachability:
  assumes "start_nodes spec = [s]" and "check_nodes spec (fs_nodes spec) = Ok ()"
    and "length (outs_of spec (fn_id s)) = 1"
  shows "\<exists>r. validate_interpreter spec = Some r \<and>
    (r = Ok () \<longleftrightarrow>
      (\<forall>n \<in> set (fs_nodes spec). node_class n = KNote \<or> (fn_id s, fn_id n) \<in> (edge_rel spec)\<^sup>*))"
proof -
  obtain seen where "set seen = (edge_rel spec)\<^sup>* `` {fn_id s}"
    "validate_interpreter spec = Some (check_reached seen (fs_nodes spec))"
    using validate_interpreter_reaches [OF assms] .
  then show ?thesis by (auto simp: check_reached_ok)
qed

definition started :: "flow_spec \<Rightarrow> flow_edge list \<Rightarrow> flow_spec" where
  "started spec es =
     spec\<lparr>fs_nodes := default_node\<lparr>fn_id := ''s'', fn_kind := ''start''\<rparr> # fs_nodes spec, fs_edges := es\<rparr>"

lemma validation_checks_reachability_witness:
  "\<exists>r. validate_interpreter (started two_node_flow [plain_edge ''s'' ''b'']) = Some r \<and> r \<noteq> Ok ()"
proof -
  let ?f = "started two_node_flow [plain_edge ''s'' ''b'']"
  let ?s = "default_node\<lparr>fn_id := ''s'', fn_kind := ''start''\<rparr>"
  let ?a = "default_node\<lparr>fn_id := ''a''\<rparr>"
  have s: "start_nodes ?f = [?s]" "check_nodes ?f (fs_nodes ?f) = Ok ()"
    "length (outs_of ?f (fn_id ?s)) = 1" by code_simp+
  have a: "?a \<in> set (fs_nodes ?f)" by (simp add: started_def two_node_flow_def)
  have n: "node_class ?a \<noteq> KNote" by code_simp
  have "edge_rel ?f = {(''s'', ''b'')}"
    by (simp add: edge_rel_def started_def plain_edge_def)
  then have "(fn_id ?s, fn_id ?a) \<notin> (edge_rel ?f)\<^sup>*"
    by (auto simp: default_node_def elim: rtranclE)
  with validation_checks_reachability [OF s] a n show ?thesis by blast
qed

subsection \<open>The interpreter\<close>

text \<open>C15: A run of a validated flow with a start node never gets stuck on the graph. When it ends with an
  error, the error is that of a node (an unknown kind, a failed crew or the failure of the node's own
  work) or the bound on the number of steps; it never lacks a node, a branch, the edge with a
  branch's label or a way to choose between edges. Notes, which validation skips, have to have
  at most one edge out for that.
\<close>

theorem validated_flow_not_stuck:
  assumes "validate_for_run iter spec = Some (Ok ())" and "has_interpreter_start spec"
    and "\<forall>n \<in> set (fs_nodes spec). node_class n = KNote \<longrightarrow> length (outs_of spec (fn_id n)) \<le> 1"
  shows "case fst (run_interpreter envs spec inputs) of
      Err x \<Rightarrow> x = MaxStepsExceeded \<or> node_failure x | _ \<Rightarrow> True"
proof -
  from validate_for_runD [OF assms(1)] assms(2) have
    v: "flow_validate spec = Ok ()" "validate_interpreter spec = Some (Ok ())" by auto
  from validate_interpreterD [OF v(2)] obtain s where
    s: "start_nodes spec = [s]" "check_nodes spec (fs_nodes spec) = Ok ()" by blast
  from v(1) s(2) assms(3) have "runnable spec" by (simp add: runnable_def)
  moreover have "s \<in> set (start_nodes spec)" using s(1) by simp
  then have "set_option (Some (fn_id s)) \<subseteq> set (node_ids spec)"
    by (simp add: start_nodes_def node_ids_def)
  ultimately show ?thesis
    using s(1) interp_loop_sound [of spec "Some (fn_id s)" envs inputs max_steps interp_start]
    by (cases "run_interpreter envs spec inputs")
      (auto simp: run_interpreter_def split: outcome.splits)
qed

definition no_crew :: crew_env where
  "no_crew =
     \<lparr>ce_agent = (\<lambda>i c b. \<lparr>ar_answer = [], ar_tool_calls = [], ar_iterations = 1, ar_total_tokens = 0,
        ar_budget_spent = Fin 0 0, ar_success = True, ar_error = None\<rparr>),
      ce_system_prompt = (\<lambda>r g b. r), ce_builtin_names = [], ce_json_text = (\<lambda>j. []),
      ce_debug_list = concat, ce_lowercase = ascii_lower\<rparr>"

definition quiet_env :: "unit interp_env" where
  "quiet_env =
     \<lparr>ie_json_text = (\<lambda>j. []), ie_json_parse = (\<lambda>s. Ok (JString s)), ie_json_rows = (\<lambda>s. Ok []),
      ie_cel_run = (\<lambda>s vs. Ok (CelBool True)), ie_cel_debug = (\<lambda>v. []), ie_cel_json = (\<lambda>v. Ok JNull),
      ie_execute = (\<lambda>t. Ok \<lparr>tr_task_id = [], tr_location = LocalRun,
        tr_data = InferenceD \<lparr>ir_text = ''yes'', ir_tokens_generated = 1, ir_tokens_per_second = Fin 1 0,
          ir_finish_reason = FinishStop\<rparr>,
        tr_metrics = \<lparr>tm_ttfb_ms = 0, tm_total_time_ms = 0, tm_queue_time_ms = 0\<rparr>, tr_cost = None\<rparr>),
      ie_crew = no_crew, ie_agent = (\<lambda>c b s. ce_agent no_crew 0 c b),
      ie_mcp = None, ie_search = (\<lambda>c q k. Ok []), ie_safety = None, ie_url_ok = (\<lambda>u. True),
      ie_builtin_names = [], ie_default_model = ''m'', ie_prior_order = (\<lambda>m. m)\<rparr>"

text \<open>A kind that no arm knows passes validation and fails when the run gets there.\<close>

definition typo_flow :: flow_spec where
  "typo_flow =
     \<lparr>fs_name = ''t'',
      fs_nodes = [default_node\<lparr>fn_id := ''s'', fn_kind := ''start''\<rparr>, default_node\<lparr>fn_id := ''x'', fn_kind := ''agnet''\<rparr>],
      fs_edges = [plain_edge ''s'' ''x'']\<rparr>"

lemma validated_flow_not_stuck_witness:
  "fst (run_interpreter (\<lambda>k. quiet_env) typo_flow JNull) = Err (UnknownKind ''x'' ''agnet'') \<and>
   (UnknownKind ''x'' ''agnet'' = MaxStepsExceeded \<or> node_failure (UnknownKind ''x'' ''agnet''))"
proof -
  have n: "start_nodes typo_flow = [default_node\<lparr>fn_id := ''s'', fn_kind := ''start''\<rparr>]"
    "find_node typo_flow ''s'' = Some (default_node\<lparr>fn_id := ''s'', fn_kind := ''start''\<rparr>)"
    "find_node typo_flow ''x'' = Some (default_node\<lparr>fn_id := ''x'', fn_kind := ''agnet''\<rparr>)"
    "outs_of typo_flow ''s'' = [(''x'', None)]" "outs_of typo_flow ''x'' = []"
    "node_class (default_node\<lparr>fn_id := ''s'', fn_kind := ''start''\<rparr>) = KStart"
    "node_class (default_node\<lparr>fn_id := ''x'', fn_kind := ''agnet''\<rparr>) = KOther"
    "ascii_lower ''agnet'' = ''agnet''"
    by code_simp+
  have e: "fst (run_interpreter (\<lambda>k. quiet_env) typo_flow JNull) = Err (UnknownKind ''x'' ''agnet'')"
    by (simp add: run_interpreter_def n interp_loop_step max_steps_def interp_step_def node_effect_def
        arm_start_def pick_next_def branch_kind_def Let_def)
  have "validate_for_run (\<lambda>m. m) typo_flow = Some (Ok ())" "has_interpreter_start typo_flow"
    "\<forall>n \<in> set (fs_nodes typo_flow). node_class n = KNote \<longrightarrow> length (outs_of typo_flow (fn_id n)) \<le> 1"
    by code_simp+
  from validated_flow_not_stuck [OF this, of "\<lambda>k. quiet_env" JNull] e show ?thesis by simp
qed

text \<open>C18: In every prefix of every run, whatever the conditions evaluate to, a while node has gone round
  its loop at most \<open>max_iterations\<close> times (100 if that is 0) since it last took its exit, as the
  recorded steps show: the iteration count is kept per node, forgotten at each exit and never
  wraps.
\<close>

theorem loops_bounded:
  assumes "find_node spec i = Some n"
  shows "loop_count i (fi_steps (snd (interp_loop envs spec inputs left cur interp_start)))
    \<le> unat (max_iter_of n)"
proof -
  let ?st = "snd (interp_loop envs spec inputs left cur interp_start)"
  have "counts_ok spec interp_start" and "loops_match interp_start"
    by (simp_all add: counts_ok_def loops_match_def interp_start_def)
  then have "counts_ok spec ?st" and "loops_match ?st"
    by (auto intro: interp_loop_counts interp_loop_match)
  from \<open>loops_match ?st\<close> have count: "loop_count i (fi_steps ?st) = unat (hm_get_or 0 (fi_while ?st) i)"
    by (simp add: loops_match_def)
  show ?thesis
  proof (cases "hm_get (fi_while ?st) i")
    case (Some c)
    with \<open>counts_ok spec ?st\<close> obtain m where "find_node spec i = Some m" "c \<le> max_iter_of m"
      unfolding counts_ok_def by blast
    with assms count Some show ?thesis by (simp add: hm_get_or_def word_le_nat_alt)
  qed (simp add: count hm_get_or_def)
qed

definition spinning_flow :: flow_spec where
  "spinning_flow =
     \<lparr>fs_name = ''t'',
      fs_nodes = [default_node\<lparr>fn_id := ''s'', fn_kind := ''start''\<rparr>,
        default_node\<lparr>fn_id := ''w'', fn_kind := ''while'', fn_condition_cel := ''true'', fn_max_iterations := 3\<rparr>],
      fs_edges = [plain_edge ''s'' ''w'', (plain_edge ''w'' ''w'')\<lparr>fe_label := Some ''loop''\<rparr>,
        (plain_edge ''w'' ''s'')\<lparr>fe_label := Some ''exit''\<rparr>]\<rparr>"

lemma loops_bounded_witness:
  "loop_count ''w'' (fi_steps (snd (run_interpreter (\<lambda>k. quiet_env) spinning_flow JNull))) \<le> 3"
proof -
  have "start_nodes spinning_flow = [default_node\<lparr>fn_id := ''s'', fn_kind := ''start''\<rparr>]"
    "find_node spinning_flow ''w'' = Some (default_node\<lparr>fn_id := ''w'', fn_kind := ''while'',
       fn_condition_cel := ''true'', fn_max_iterations := 3\<rparr>)"
    by code_simp+
  then show ?thesis
    using loops_bounded [of spinning_flow "''w''" _ "\<lambda>k. quiet_env" JNull max_steps "Some ''s''"]
    by (simp add: run_interpreter_def max_iter_of_def default_node_def)
qed

subsection \<open>Flows without a start node\<close>

text \<open>A run without a start node that succeeds has executed every node but the notes exactly once,
  each after all its predecessors.
\<close>

theorem legacy_run_in_order:
  assumes "run_flow iter envs spec inputs = Some (Ok steps, st)" and "\<not> has_interpreter_start spec"
    and "\<And>m. mset (iter m) = mset m"
  shows "\<exists>order. topological spec order \<and>
    map step_id steps =
      map Some (filter (\<lambda>i. \<exists>n. find_node spec i = Some n \<and> node_class n \<noteq> KNote) order)"
proof -
  have v: "flow_validate spec = Ok ()" and run: "run_legacy_topo iter envs spec inputs = Some (Ok steps, st)"
    using assms(1,2)
    by (auto simp: run_flow_def validate_for_run_def split: option.splits outcome.splits if_splits)
  then obtain r where r: "execution_order iter spec = Some r" "(case r of
      Ok order \<Rightarrow> legacy_loop envs spec inputs order interp_start
    | Err x \<Rightarrow> (Err x, interp_start) | Panic \<Rightarrow> (Panic, interp_start)) = (Ok steps, st)"
    by (auto simp: run_legacy_topo_def)
  then obtain order where order: "execution_order iter spec = Some (Ok order)"
    "legacy_loop envs spec inputs order interp_start = (Ok steps, st)"
    by (cases r) auto
  obtain indeg out where k: "kahn_inv spec indeg [] out" and "execution_order iter spec =
      Some (if length out \<noteq> length (node_ids spec) then Err FlowCycle else Ok out)"
    using execution_order_out [where iter = iter, OF v assms(3)] .
  with order(1) have "topological spec order"
    using kahn_complete(1) [OF k v] by (auto split: if_splits)
  with legacy_loop_steps [OF order(2)] show ?thesis by (auto simp: interp_start_def)
qed

lemma legacy_run_in_order_witness:
  "\<exists>order. topological two_node_flow order \<and> [Some ''b'', Some ''a''] = map Some
     (filter (\<lambda>i. \<exists>n. find_node two_node_flow i = Some n \<and> node_class n \<noteq> KNote) order)"
proof -
  have "case run_flow (\<lambda>m. m) (\<lambda>k. quiet_env) two_node_flow JNull of
      Some (Ok steps, st) \<Rightarrow> map step_id steps = [Some ''b'', Some ''a''] | _ \<Rightarrow> False"
    by code_simp
  then obtain steps st where run: "run_flow (\<lambda>m. m) (\<lambda>k. quiet_env) two_node_flow JNull = Some (Ok steps, st)"
    and "map step_id steps = [Some ''b'', Some ''a'']"
    by (auto split: option.splits outcome.splits prod.splits)
  moreover have "\<not> has_interpreter_start two_node_flow" by code_simp
  ultimately show ?thesis using legacy_run_in_order [OF run] by simp
qed

end
