(* ===== verification/Crew_Props.thy ===== *)
theory Crew_Props
  imports Crew
begin

section \<open>Properties of crews\<close>

text \<open>What validation promises the two loops over the tasks, and what a run returns.\<close>

lemma check_context_not_Panic [simp]: "check_context spec t cs \<noteq> Panic"
  by (induction cs) auto

lemma check_tasks_ok:
  "check_tasks spec ts = Ok () \<Longrightarrow> t \<in> set ts \<Longrightarrow> ctd_agent_id t \<in> cad_id ` set (crew_agents spec)"
  by (induction ts) (auto split: if_splits outcome.split_asm)

lemma crew_validateD:
  assumes "crew_validate spec = Ok ()"
  shows "crew_agents spec \<noteq> []" and "crew_tasks spec \<noteq> []"
    and "t \<in> set (crew_tasks spec) \<Longrightarrow> ctd_agent_id t \<in> cad_id ` set (crew_agents spec)"
    and "crew_proc spec \<noteq> SequentialCrew \<Longrightarrow> crew_manager_agent_id spec = Some m \<Longrightarrow>
      m \<in> cad_id ` set (crew_agents spec)"
  using assms crew_process.exhaust [of "crew_proc spec"]
  by (auto simp: crew_validate_def dest: check_tasks_ok
      split: if_splits outcome.split_asm option.split_asm)

lemma find_agent_ex: "i \<in> cad_id ` set agents \<Longrightarrow> \<exists>a. find_agent agents i = Some a \<and> cad_id a = i"
  by (induction agents) (auto simp: find_agent_def)

lemma crew_manager_ex:
  assumes "crew_validate spec = Ok ()" and "crew_proc spec \<noteq> SequentialCrew"
  shows "\<exists>m. crew_manager_id spec = Some m \<and> m \<in> cad_id ` set (crew_agents spec)"
  using crew_validateD(1,4) [OF assms(1)] assms(2)
  by (auto simp: crew_manager_id_def split: option.splits list.splits)

lemma last_max_by_None [simp]: "last_max_by f xs = None \<longleftrightarrow> xs = []"
  by (cases xs) (auto split: option.splits)

lemma last_max_by_Some: "last_max_by f xs = Some x \<Longrightarrow> x \<in> set xs \<and> (\<forall>y \<in> set xs. f y \<le> f x)"
  by (induction xs arbitrary: x) (force split: option.splits if_splits)+

text \<open>
  One task adds one record, and the answer of the last record is the one kept under its task.
\<close>

definition last_kept :: "crew_state \<Rightarrow> bool" where
  "last_kept st \<longleftrightarrow>
     (cst_tasks st = [] \<or>
      hm_get (cst_outputs st) (cto_task_id (last (cst_tasks st))) = Some (cto_answer (last (cst_tasks st))))"

lemma run_task_records:
  "map cto_task_id (cst_tasks (run_task e inputs pre i t a st)) = map cto_task_id (cst_tasks st) @ [ctd_id t]"
  "map cto_agent_id (cst_tasks (run_task e inputs pre i t a st)) = map cto_agent_id (cst_tasks st) @ [cad_id a]"
  "last_kept (run_task e inputs pre i t a st)"
  by (simp_all add: run_task_def task_output_of_def last_kept_def Let_def)

lemma run_tasks_ok:
  assumes "\<And>t. t \<in> set ts \<Longrightarrow> ctd_agent_id t \<in> cad_id ` set (crew_agents spec)" and "last_kept st"
  shows "\<exists>st'. run_tasks e spec inputs pre i ts st = Ok st' \<and> last_kept st' \<and>
    map cto_task_id (cst_tasks st') = map cto_task_id (cst_tasks st) @ map ctd_id ts \<and>
    map cto_agent_id (cst_tasks st') = map cto_agent_id (cst_tasks st) @ map ctd_agent_id ts"
  using assms
proof (induction ts arbitrary: i st)
  case (Cons t ts)
  obtain a where a: "find_agent (crew_agents spec) (ctd_agent_id t) = Some a" "cad_id a = ctd_agent_id t"
    using find_agent_ex [OF Cons.prems(1) [of t]] by auto
  show ?case
    using Cons.IH [of "run_task e inputs pre i t a st" "Suc i"] Cons.prems(1) a
    by (auto simp: run_task_records)
qed simp

text \<open>
  Who does a task of a crew that delegates: among the agents besides the manager one whose role and
  goal contain most words of the task's description, however few; only where there is no such
  agent, the one the task names.
\<close>

definition delegated_to :: "crew_env \<Rightarrow> crew_spec \<Rightarrow> json \<Rightarrow> string \<Rightarrow> crew_task_def \<Rightarrow> string \<Rightarrow> bool" where
  "delegated_to e spec inputs mgr t i \<longleftrightarrow>
     (let score = delegate_score e (interpolate_template (ce_json_text e) (ctd_description t) inputs);
          others = {a \<in> set (crew_agents spec). cad_id a \<noteq> mgr}
      in if others = {} then i = ctd_agent_id t
         else (\<exists>a \<in> others. cad_id a = i \<and> (\<forall>b \<in> others. score b \<le> score a)))"

lemma delegate_choice_agent:
  assumes "ctd_agent_id t \<in> cad_id ` set (crew_agents spec)"
  shows "\<exists>a. delegate_choice e spec mgr (interpolate_template (ce_json_text e) (ctd_description t) inputs) t = Some a \<and>
    delegated_to e spec inputs mgr t (cad_id a)"
proof (cases "last_max_by (delegate_score e (interpolate_template (ce_json_text e) (ctd_description t) inputs))
    (filter (\<lambda>a. cad_id a \<noteq> mgr) (crew_agents spec))")
  case None
  then have "{a \<in> set (crew_agents spec). cad_id a \<noteq> mgr} = {}" by (simp add: filter_empty_conv)
  with None find_agent_ex [OF assms] show ?thesis
    by (auto simp: delegate_choice_def delegated_to_def Let_def)
next
  case (Some a)
  from last_max_by_Some [OF Some] have "a \<in> {a \<in> set (crew_agents spec). cad_id a \<noteq> mgr}"
    "\<forall>b \<in> {a \<in> set (crew_agents spec). cad_id a \<noteq> mgr}.
      delegate_score e (interpolate_template (ce_json_text e) (ctd_description t) inputs) b \<le>
      delegate_score e (interpolate_template (ce_json_text e) (ctd_description t) inputs) a"
    by auto
  then have "delegated_to e spec inputs mgr t (cad_id a)"
    unfolding delegated_to_def Let_def by auto
  with Some show ?thesis by (simp add: delegate_choice_def)
qed

lemma run_delegated_ok:
  assumes "\<And>t. t \<in> set ts \<Longrightarrow> ctd_agent_id t \<in> cad_id ` set (crew_agents spec)" and "last_kept st"
  shows "\<exists>st' rs. run_delegated e spec inputs mgr i ts st = Ok st' \<and> last_kept st' \<and>
    cst_tasks st' = cst_tasks st @ rs \<and>
    list_all2 (\<lambda>t r. cto_task_id r = ctd_id t \<and> delegated_to e spec inputs mgr t (cto_agent_id r)) ts rs"
  using assms(1,2)
proof (induction ts arbitrary: i st)
  case (Cons t ts)
  let ?desc = "interpolate_template (ce_json_text e) (ctd_description t) inputs"
  obtain a where a: "delegate_choice e spec mgr ?desc t = Some a" "delegated_to e spec inputs mgr t (cad_id a)"
    using delegate_choice_agent [OF Cons.prems(1) [of t], of e mgr inputs] by auto
  have one: "\<exists>r. cst_tasks (run_task e inputs [] i t a st) = cst_tasks st @ [r] \<and>
      cto_task_id r = ctd_id t \<and> cto_agent_id r = cad_id a"
    by (simp add: run_task_def task_output_of_def Let_def)
  show ?case
    using Cons.IH [of "run_task e inputs [] i t a st" "Suc i"] Cons.prems(1) a one
    by (auto simp: run_task_records Let_def)
qed (auto intro: exI [of _ "[]"])

lemma list_all2_task_ids:
  "list_all2 (\<lambda>t r. cto_task_id r = ctd_id t \<and> P t r) ts rs \<Longrightarrow> map cto_task_id rs = map ctd_id ts"
  by (induction rule: list_all2_induct) auto

lemma crew_result_raw:
  assumes "last_kept st" and "map cto_task_id (cst_tasks st) = map ctd_id (crew_tasks spec)"
    and "crew_tasks spec \<noteq> []"
  shows "cro_raw (crew_result spec st) = cto_answer (last (cst_tasks st))"
proof -
  have ne: "cst_tasks st \<noteq> []" using assms(2,3) by auto
  then have "cto_task_id (last (cst_tasks st)) = ctd_id (last (crew_tasks spec))"
    using assms(2,3) by (metis last_map)
  with ne assms(1,3) show ?thesis by (simp add: last_kept_def crew_result_def hm_get_or_def)
qed

lemma crew_result_tasks: "cro_tasks_output (crew_result spec st) = cst_tasks st"
  by (simp add: crew_result_def)

text \<open>C20: A crew that passes validation always finishes with a result, whatever its agents answer: one
  record per task in the order of the tasks, and the answer of the last one as the crew's. Unless
  it delegates, every task is done by the agent it names. A crew that delegates gives each task to
  one of the agents besides its manager whose role and goal contain most words of the task's
  description, even if they contain none of them; the agent that the task names gets it only when
  the manager is the only agent.\<close>

theorem valid_crew_completes:
  assumes "crew_validate spec = Ok ()"
  shows "\<exists>r mgr. run_crew e spec inputs = Ok r \<and> crew_manager_id spec = Some mgr \<and>
    cro_raw r = cto_answer (last (cro_tasks_output r)) \<and>
    list_all2 (\<lambda>t out. cto_task_id out = ctd_id t \<and>
        (if crew_proc spec = DelegateCrew then delegated_to e spec inputs mgr t (cto_agent_id out)
         else cto_agent_id out = ctd_agent_id t))
      (crew_tasks spec) (cro_tasks_output r)"
proof -
  note v = crew_validateD [OF assms(1)]
  have start: "last_kept crew_start" "cst_tasks crew_start = []"
    by (simp_all add: last_kept_def crew_start_def)
  obtain mgr where mgr: "crew_manager_id spec = Some mgr"
    using v(1) by (cases "crew_agents spec"; cases "crew_manager_agent_id spec") (auto simp: crew_manager_id_def)
  have tasks: "\<exists>r. finish_crew spec (run_tasks e spec inputs pre i (crew_tasks spec) crew_start) = Ok r \<and>
      cro_raw r = cto_answer (last (cro_tasks_output r)) \<and>
      list_all2 (\<lambda>t out. cto_task_id out = ctd_id t \<and> cto_agent_id out = ctd_agent_id t)
        (crew_tasks spec) (cro_tasks_output r)" for pre i
  proof -
    obtain st where st: "run_tasks e spec inputs pre i (crew_tasks spec) crew_start = Ok st" "last_kept st"
      "map cto_task_id (cst_tasks st) = map ctd_id (crew_tasks spec)"
      "map cto_agent_id (cst_tasks st) = map ctd_agent_id (crew_tasks spec)"
      using run_tasks_ok [of "crew_tasks spec" spec, OF v(3) start(1), of e inputs pre i] start(2) by auto
    have "list_all2 (\<lambda>t out. cto_task_id out = ctd_id t \<and> cto_agent_id out = ctd_agent_id t)
        (crew_tasks spec) (cst_tasks st)"
      using st(3,4) by (simp add: list_all2_conv_all_nth list_eq_iff_nth_eq)
    with st(1) crew_result_raw [OF st(2,3) v(2)] show ?thesis by (simp add: crew_result_tasks)
  qed
  show ?thesis
  proof (cases "crew_proc spec")
    case SequentialCrew
    then have "run_crew e spec inputs = finish_crew spec (run_tasks e spec inputs [] 0 (crew_tasks spec) crew_start)"
      using assms(1) by (simp add: run_crew_def)
    with tasks [of "[]" 0] SequentialCrew mgr show ?thesis by simp
  next
    case HierarchicalCrew
    then obtain m where "crew_manager_id spec = Some m" "m \<in> cad_id ` set (crew_agents spec)"
      using crew_manager_ex [OF assms(1)] by auto
    moreover from find_agent_ex [OF this(2)] obtain a where "find_agent (crew_agents spec) m = Some a" by blast
    ultimately have m: "crew_manager_id spec = Some m" "find_agent (crew_agents spec) m = Some a" by blast+
    define plan where "plan = ce_agent e 0 (crew_agent_config e a) (plan_prompt e spec inputs)"
    define pre where "pre = ''## Manager plan'' @ nl @ ar_answer plan @ nl @ nl"
    have "run_crew e spec inputs = finish_crew spec (run_tasks e spec inputs pre 1 (crew_tasks spec) crew_start)"
      using assms(1) HierarchicalCrew m by (simp add: run_crew_def Let_def plan_def pre_def)
    with tasks [of pre 1] HierarchicalCrew mgr show ?thesis by simp
  next
    case DelegateCrew
    obtain st where st: "run_delegated e spec inputs mgr 0 (crew_tasks spec) crew_start = Ok st" "last_kept st"
      "list_all2 (\<lambda>t r. cto_task_id r = ctd_id t \<and> delegated_to e spec inputs mgr t (cto_agent_id r))
        (crew_tasks spec) (cst_tasks st)"
      using run_delegated_ok [of "crew_tasks spec" spec, OF v(3) start(1), of e inputs mgr 0] start(2) by auto
    from crew_result_raw [OF st(2) list_all2_task_ids [OF st(3)] v(2)] st mgr assms(1) DelegateCrew
    show ?thesis by (simp add: run_crew_def run_crew_delegate_def crew_result_tasks)
  qed
qed

definition pair_crew :: crew_spec where
  "pair_crew =
     \<lparr>crew_name = ''pair'',
      crew_agents =
        [\<lparr>cad_id = ''m'', cad_role = ''lead'', cad_goal = ''plan'', cad_backstory = [], cad_llm = ''l'', cad_tools = [], cad_max_iter = 0\<rparr>,
         \<lparr>cad_id = ''w'', cad_role = ''cook'', cad_goal = ''bake'', cad_backstory = [], cad_llm = ''l'', cad_tools = [], cad_max_iter = 0\<rparr>],
      crew_tasks =
        [\<lparr>ctd_id = ''t'', ctd_description = ''plan'', ctd_expected_output = [], ctd_agent_id = ''m'', ctd_context = []\<rparr>],
      crew_proc = DelegateCrew, crew_manager_agent_id = None, crew_planning = False\<rparr>"

definition silent_crew_env :: crew_env where
  "silent_crew_env =
     \<lparr>ce_agent = (\<lambda>i c b. \<lparr>ar_answer = ''done'', ar_tool_calls = [], ar_iterations = 1, ar_total_tokens = 7,
        ar_budget_spent = Fin 0 0, ar_success = True, ar_error = None\<rparr>),
      ce_system_prompt = (\<lambda>r g b. r), ce_builtin_names = [], ce_json_text = (\<lambda>j. []),
      ce_debug_list = concat, ce_lowercase = ascii_lower\<rparr>"

text \<open>The manager matches the task best and names it, and still the other agent gets it.\<close>

lemma valid_crew_completes_witness:
  "\<exists>r out. run_crew silent_crew_env pair_crew JNull = Ok r \<and> cro_tasks_output r = [out] \<and>
    cto_agent_id out = ''w''"
proof -
  have v: "crew_validate pair_crew = Ok ()" by code_simp
  have o: "{a \<in> set (crew_agents pair_crew). cad_id a \<noteq> ''m''} = {last (crew_agents pair_crew)}"
    "crew_manager_id pair_crew = Some ''m''" "crew_proc pair_crew = DelegateCrew"
    "cad_id (last (crew_agents pair_crew)) = ''w''"
    by (auto simp: pair_crew_def crew_manager_id_def)
  from valid_crew_completes [OF v, of silent_crew_env JNull] obtain r where
    "run_crew silent_crew_env pair_crew JNull = Ok r"
    "list_all2 (\<lambda>t out. cto_task_id out = ctd_id t \<and>
        delegated_to silent_crew_env pair_crew JNull ''m'' t (cto_agent_id out))
      (crew_tasks pair_crew) (cro_tasks_output r)"
    by (auto simp: o(2,3))
  moreover have "delegated_to silent_crew_env pair_crew JNull ''m'' t i \<longleftrightarrow> i = ''w''" for t i
    by (auto simp: delegated_to_def o(1,4))
  moreover obtain t where "crew_tasks pair_crew = [t]" by (simp add: pair_crew_def)
  ultimately show ?thesis by (auto simp: list_all2_Cons1)
qed

end
