(* ===== verification/Regex_Engine.thy ===== *)
theory Regex_Engine
  imports Text
begin

section \<open>Regular expressions\<close>

text \<open>
  The crate \<^verbatim>\<open>regex\<close> is a parameter: what \<open>Regex::new\<close> makes of a pattern and the matches found in a
  text, as the byte ranges of the groups, the whole match first. What the code does with the
  matches is defined here. A pattern is written with a tilde for each backslash and a hash sign for
  each single quote; \<open>raw\<close> gives the pattern of the source.
\<close>

type_synonym range = "nat \<times> nat"

record 'r regex_engine =
  rx_new :: "string \<Rightarrow> 'r option"
  rx_static :: "string \<Rightarrow> 'r" \<comment> \<open>of a pattern of the source, whose compilation is unwrapped\<close>
  rx_captures :: "'r \<Rightarrow> string \<Rightarrow> (range \<times> range option list) list"

definition raw :: "string \<Rightarrow> string" where
  "raw s = map (\<lambda>c. if c = CHR ''~'' then CHR 0x5C else if c = CHR ''#'' then CHR 0x27 else c) s"

definition find_iter :: "'r regex_engine \<Rightarrow> 'r \<Rightarrow> string \<Rightarrow> range list" where
  "find_iter e r s = map fst (rx_captures e r s)"

definition is_match :: "'r regex_engine \<Rightarrow> 'r \<Rightarrow> string \<Rightarrow> bool" where
  "is_match e r s \<longleftrightarrow> find_iter e r s \<noteq> []"

definition rx_find :: "'r regex_engine \<Rightarrow> 'r \<Rightarrow> string \<Rightarrow> range option" where
  "rx_find e r s = (case find_iter e r s of [] \<Rightarrow> None | m # _ \<Rightarrow> Some m)"

definition text_span :: "string \<Rightarrow> range \<Rightarrow> string" where
  "text_span s m = take (snd m - fst m) (drop (fst m) s)"

text \<open>The text of group \<open>i\<close> of a match; group 0 is the match.\<close>

definition group_text :: "string \<Rightarrow> range \<times> range option list \<Rightarrow> nat \<Rightarrow> string option" where
  "group_text s c i =
     (case i of
        0 \<Rightarrow> Some (text_span s (fst c))
      | Suc k \<Rightarrow> if k < length (snd c) then map_option (text_span s) (snd c ! k) else None)"

text \<open>\<open>replace_all\<close> with a closure: the matches from left to right, the text between them kept.\<close>

fun replace_from :: "(string \<Rightarrow> string) \<Rightarrow> string \<Rightarrow> nat \<Rightarrow> range list \<Rightarrow> string" where
  "replace_from f s pos [] = drop pos s"
| "replace_from f s pos (m # ms) = text_span s (pos, fst m) @ f (text_span s m) @ replace_from f s (snd m) ms"

definition rx_replace_all :: "'r regex_engine \<Rightarrow> 'r \<Rightarrow> (string \<Rightarrow> string) \<Rightarrow> string \<Rightarrow> string" where
  "rx_replace_all e r f s = replace_from f s 0 (find_iter e r s)"

text \<open>A text cut to its first bytes; \<open>None\<close> is the panic of a slice inside a character.\<close>

definition preview :: "nat \<Rightarrow> string \<Rightarrow> string option" where
  "preview n s = (if n < length s then map_option (\<lambda>p. p @ ''...'') (slice_to n s) else Some s)"

text \<open>
  What the crate documents of \<open>find_iter\<close>: the matches are ranges of the text between characters,
  in order, and do not overlap.
\<close>

fun ordered_from :: "nat \<Rightarrow> range list \<Rightarrow> bool" where
  "ordered_from pos [] = True"
| "ordered_from pos (m # ms) = (pos \<le> fst m \<and> fst m \<le> snd m \<and> ordered_from (snd m) ms)"

definition matches_wf :: "'r regex_engine \<Rightarrow> 'r \<Rightarrow> string \<Rightarrow> bool" where
  "matches_wf e r s \<longleftrightarrow>
     ordered_from 0 (find_iter e r s) \<and>
     list_all (\<lambda>m. snd m \<le> length s \<and> is_char_boundary s (fst m) \<and> is_char_boundary s (snd m)) (find_iter e r s)"

lemma rx_find_None: "rx_find e r s = None \<longleftrightarrow> \<not> is_match e r s"
  by (simp add: rx_find_def is_match_def split: list.split)

lemma replace_no_match [simp]: "\<not> is_match e r s \<Longrightarrow> rx_replace_all e r f s = s"
  by (simp add: rx_replace_all_def is_match_def)

end
