(* ===== verification/Content_Policy.thy ===== *)
theory Content_Policy
  imports Regex_Engine
begin

section \<open>Content policies\<close>

text \<open>
  Models \<^verbatim>\<open>src/safety/policy.rs\<close>.
\<close>

datatype policy_action = PolicyAllow | PolicyWarn | PolicyBlock

datatype policy_category =
  CategorySecurity | CategoryPrivacy | CategoryLegal | CategorySafety | CategoryContent

record 'r policy_rule =
  pr_name :: string
  pr_description :: string
  pr_pattern :: 'r
  pr_action :: policy_action
  pr_category :: policy_category

record policy_violation =
  pv_rule :: string
  pv_description :: string
  pv_action :: policy_action
  pv_category :: policy_category
  pv_preview :: string

record 'r policy =
  po_rules :: "'r policy_rule list"
  po_strict_mode :: bool

definition policy_rule_of ::
    "'r regex_engine \<Rightarrow> string \<Rightarrow> string \<Rightarrow> string \<Rightarrow> policy_action \<Rightarrow> policy_category \<Rightarrow> 'r policy_rule" where
  "policy_rule_of e name descr pattern act cat =
     \<lparr>pr_name = name, pr_description = descr, pr_pattern = rx_static e (raw pattern),
      pr_action = act, pr_category = cat\<rparr>"

definition default_rules :: "'r regex_engine \<Rightarrow> 'r policy_rule list" where
  \<open>default_rules e =
     [policy_rule_of e ''malware_code'' ''Potential malware or exploit code''
        ''(?i)(?:rm~s+-rf~s+/|:~(~)~s*~{~s*:~|:&~s*~}~s*;:|fork~s*bomb|reverse~s*shell)''
        PolicyBlock CategorySecurity,
      policy_rule_of e ''sql_injection'' ''SQL injection pattern''
        ''(?i)(?:#~s*(?:OR|AND)~s+#.{0,10}=|UNION~s+(?:ALL~s+)?SELECT|INSERT~s+INTO.*VALUES|DROP~s+TABLE|--~s*$)''
        PolicyWarn CategorySecurity,
      policy_rule_of e ''xss_payload'' ''XSS attack pattern''
        ''(?i)<script[^>]*>.*?</script>|javascript:~s*[^~s]+|on(?:error|load|click)~s*=''
        PolicyWarn CategorySecurity,
      policy_rule_of e ''ssn_pattern'' ''Social Security Number pattern''
        ''~b~d{3}-~d{2}-~d{4}~b''
        PolicyWarn CategoryPrivacy,
      policy_rule_of e ''credit_card'' ''Credit card number pattern''
        ''~b(?:4[0-9]{12}(?:[0-9]{3})?|5[1-5][0-9]{14}|3[47][0-9]{13}|6(?:011|5[0-9][0-9])[0-9]{12})~b''
        PolicyWarn CategoryPrivacy,
      policy_rule_of e ''harmful_instructions'' ''Potentially harmful instructions''
        ''(?i)how~s+to~s+(?:make|build|create)~s+(?:a~s+)?(?:bomb|explosive|weapon|poison)''
        PolicyBlock CategorySafety,
      policy_rule_of e ''excessive_caps'' ''Excessive capitalization (spam indicator)''
        ''[A-Z~s]{50,}''
        PolicyWarn CategoryContent]\<close>

definition policy_new :: "'r policy" where
  "policy_new = \<lparr>po_rules = [], po_strict_mode = False\<rparr>"

definition content_policy_default :: "'r regex_engine \<Rightarrow> 'r policy" where
  "content_policy_default e = \<lparr>po_rules = default_rules e, po_strict_mode = False\<rparr>"

definition policy_set_strict :: "bool \<Rightarrow> 'r policy \<Rightarrow> 'r policy" where
  "policy_set_strict strict p = p\<lparr>po_strict_mode := strict\<rparr>"

definition policy_add_rule ::
    "'r regex_engine \<Rightarrow> string \<Rightarrow> string \<Rightarrow> string \<Rightarrow> policy_action \<Rightarrow> policy_category \<Rightarrow>
       'r policy \<Rightarrow> 'r policy option" where
  "policy_add_rule e name descr pattern act cat p =
     map_option (\<lambda>r. p\<lparr>po_rules := po_rules p @
         [\<lparr>pr_name = name, pr_description = descr, pr_pattern = r, pr_action = act, pr_category = cat\<rparr>]\<rparr>)
       (rx_new e pattern)"

definition policy_remove_rule :: "string \<Rightarrow> 'r policy \<Rightarrow> 'r policy" where
  "policy_remove_rule name p = p\<lparr>po_rules := filter (\<lambda>r. pr_name r \<noteq> name) (po_rules p)\<rparr>"

definition policy_clear :: "'r policy \<Rightarrow> 'r policy" where
  "policy_clear p = p\<lparr>po_rules := []\<rparr>"

text \<open>\<open>None\<close>: the preview cuts a character.\<close>

fun policy_violations ::
    "'r regex_engine \<Rightarrow> bool \<Rightarrow> string \<Rightarrow> 'r policy_rule list \<Rightarrow> policy_violation list option" where
  "policy_violations e strict s [] = Some []"
| "policy_violations e strict s (r # rs) =
     (case rx_find e (pr_pattern r) s of
        None \<Rightarrow> policy_violations e strict s rs
      | Some m \<Rightarrow>
          (case (preview 30 (text_span s m), policy_violations e strict s rs) of
             (Some p, Some vs) \<Rightarrow>
               Some (\<lparr>pv_rule = pr_name r, pv_description = pr_description r,
                      pv_action = (if strict then PolicyBlock else pr_action r),
                      pv_category = pr_category r, pv_preview = p\<rparr> # vs)
           | _ \<Rightarrow> None))"

definition policy_check :: "'r regex_engine \<Rightarrow> 'r policy \<Rightarrow> string \<Rightarrow> policy_violation list option" where
  "policy_check e p s = policy_violations e (po_strict_mode p) s (po_rules p)"

definition policy_is_allowed :: "'r regex_engine \<Rightarrow> 'r policy \<Rightarrow> string \<Rightarrow> bool option" where
  "policy_is_allowed e p s =
     map_option (\<lambda>vs. \<not> list_ex (\<lambda>v. pv_action v = PolicyBlock) vs) (policy_check e p s)"

end
