(* ===== verification/Sanitizer.thy ===== *)
theory Sanitizer
  imports Regex_Engine
begin

section \<open>Prompt injection\<close>

text \<open>
  Models \<^verbatim>\<open>src/safety/sanitizer.rs\<close>.
\<close>

datatype sanitize_action = SanAllowed | SanModified | SanTruncated | SanBlocked

record sanitized_output =
  so_content :: string
  so_action :: sanitize_action
  so_warnings :: "string list"

datatype injection_action = InjectionWarn | InjectionRemove | InjectionEscape | InjectionBlock

datatype severity = SeverityLow | SeverityMedium | SeverityHigh | SeverityCritical

record 'r injection_pattern =
  ip_name :: string
  ip_regex :: 'r
  ip_action :: injection_action
  ip_description :: string

definition injection_pattern_of ::
    "'r regex_engine \<Rightarrow> string \<Rightarrow> string \<Rightarrow> injection_action \<Rightarrow> string \<Rightarrow> 'r injection_pattern" where
  "injection_pattern_of e name pattern act descr =
     \<lparr>ip_name = name, ip_regex = rx_static e (raw pattern), ip_action = act, ip_description = descr\<rparr>"

definition injection_patterns :: "'r regex_engine \<Rightarrow> 'r injection_pattern list" where
  \<open>injection_patterns e =
     [injection_pattern_of e ''system_marker''
        ''(?i)^(system|assistant|user|human|ai):~s*''
        InjectionRemove ''Role marker at line start'',
      injection_pattern_of e ''xml_system_tag''
        ''(?i)</?(?:system|instructions?|prompt|context|rules?)>''
        InjectionEscape ''XML-style system tag'',
      injection_pattern_of e ''delimiter_sequence''
        ''(?:===+|---+|```+|~*~*~*+){3,}''
        InjectionWarn ''Suspicious delimiter sequence'',
      injection_pattern_of e ''ignore_instructions''
        ''(?i)ignore~s+(?:all~s+)?(?:previous|above|prior)~s+instructions?''
        InjectionWarn ''Instruction override attempt'',
      injection_pattern_of e ''jailbreak_dan''
        ''(?i)(?:DAN|do~s+anything~s+now)~s+mode''
        InjectionBlock ''DAN jailbreak attempt'',
      injection_pattern_of e ''hidden_instruction''
        ''(?i)~[~s*(?:hidden|secret|admin)~s*(?:instruction|prompt|command)~s*~]''
        InjectionRemove ''Hidden instruction marker'',
      injection_pattern_of e ''unicode_homoglyph''
        ''[~u200B-~u200D~uFEFF~u2060]''
        InjectionRemove ''Zero-width Unicode characters'',
      injection_pattern_of e ''suspicious_base64''
        ''(?:aW5zdHJ1Y3Rpb24|c3lzdGVtIHByb21wdA|aWdub3JlIHByZXZpb3Vz)''
        InjectionWarn ''Base64-encoded suspicious content'',
      injection_pattern_of e ''code_block_system''
        ''(?i)```(?:system|prompt|instructions?)~n''
        InjectionEscape ''Code block posing as system content'']\<close>

record 'r sanitizer =
  sa_active_mode :: bool
  sa_custom :: "(string \<times> 'r \<times> injection_action) list"

definition sanitizer_new :: "bool \<Rightarrow> 'r sanitizer" where
  "sanitizer_new active = \<lparr>sa_active_mode = active, sa_custom = []\<rparr>"

definition parse_injection_action :: "string \<Rightarrow> injection_action" where
  "parse_injection_action s =
     (if s = ''warn'' then InjectionWarn else if s = ''remove'' then InjectionRemove
      else if s = ''escape'' then InjectionEscape else if s = ''block'' then InjectionBlock
      else InjectionWarn)"

definition sanitizer_add_pattern ::
    "'r regex_engine \<Rightarrow> string \<Rightarrow> string \<Rightarrow> string \<Rightarrow> 'r sanitizer \<Rightarrow> 'r sanitizer option" where
  "sanitizer_add_pattern e name pattern act s =
     map_option (\<lambda>r. s\<lparr>sa_custom := sa_custom s @ [(name, r, parse_injection_action act)]\<rparr>)
       (rx_new e pattern)"

text \<open>
  One pass over patterns, built-in or custom, each with the warning it gives: \<open>Inl\<close> the warnings when
  the content is blocked, else the text, the action and the warnings so far.
\<close>

fun sanitize_pass ::
    "'r regex_engine \<Rightarrow> bool \<Rightarrow> (string \<times> 'r \<times> injection_action) list \<Rightarrow>
       string \<Rightarrow> sanitize_action \<Rightarrow> string list \<Rightarrow>
       string list + (string \<times> sanitize_action \<times> string list)" where
  "sanitize_pass e active [] s act ws = Inr (s, act, ws)"
| "sanitize_pass e active ((w, r, a) # ps) s act ws =
     (if is_match e r s
      then
        if active
        then
          (case a of
             InjectionBlock \<Rightarrow> Inl (ws @ [w])
           | InjectionRemove \<Rightarrow>
               sanitize_pass e active ps (rx_replace_all e r (\<lambda>_. []) s) SanModified (ws @ [w])
           | InjectionEscape \<Rightarrow>
               sanitize_pass e active ps (rx_replace_all e r (\<lambda>m. CHR 0x5C # m) s) SanModified (ws @ [w])
           | InjectionWarn \<Rightarrow> sanitize_pass e active ps s act (ws @ [w]))
        else sanitize_pass e active ps s act (ws @ [w])
      else sanitize_pass e active ps s act ws)"

definition sanitize :: "'r regex_engine \<Rightarrow> 'r sanitizer \<Rightarrow> string \<Rightarrow> sanitized_output" where
  "sanitize e sa content =
     (case sanitize_pass e (sa_active_mode sa)
             (map (\<lambda>p. (ip_name p @ '': '' @ ip_description p, ip_regex p, ip_action p)) (injection_patterns e))
             content SanAllowed [] of
        Inl ws \<Rightarrow>
          \<lparr>so_content = ''[Content blocked: injection detected]'', so_action = SanBlocked, so_warnings = ws\<rparr>
      | Inr (s, act, ws) \<Rightarrow>
          (case sanitize_pass e (sa_active_mode sa)
                  (map (\<lambda>(n, r, a). (n @ '': custom pattern match'', r, a)) (sa_custom sa)) s act ws of
             Inl ws \<Rightarrow>
               \<lparr>so_content = ''[Content blocked: custom rule]'', so_action = SanBlocked, so_warnings = ws\<rparr>
           | Inr (s, act, ws) \<Rightarrow> \<lparr>so_content = s, so_action = act, so_warnings = ws\<rparr>))"

definition has_injection_patterns :: "'r regex_engine \<Rightarrow> 'r sanitizer \<Rightarrow> string \<Rightarrow> bool" where
  "has_injection_patterns e sa s \<longleftrightarrow>
     list_ex (\<lambda>p. is_match e (ip_regex p) s) (injection_patterns e) \<or>
     list_ex (\<lambda>(_, r, _). is_match e r s) (sa_custom sa)"

record injection_analysis =
  ia_pattern_name :: string
  ia_description :: string
  ia_matched_text :: string
  ia_start :: nat
  ia_end :: nat
  ia_severity :: severity

definition injection_severity :: "injection_action \<Rightarrow> severity" where
  "injection_severity a =
     (case a of
        InjectionBlock \<Rightarrow> SeverityCritical
      | InjectionRemove \<Rightarrow> SeverityHigh
      | InjectionEscape \<Rightarrow> SeverityMedium
      | InjectionWarn \<Rightarrow> SeverityLow)"

definition analyze :: "'r regex_engine \<Rightarrow> string \<Rightarrow> injection_analysis list" where
  "analyze e s =
     concat (map (\<lambda>p. map (\<lambda>m.
         \<lparr>ia_pattern_name = ip_name p, ia_description = ip_description p, ia_matched_text = text_span s m,
          ia_start = fst m, ia_end = snd m, ia_severity = injection_severity (ip_action p)\<rparr>)
       (find_iter e (ip_regex p) s)) (injection_patterns e))"

end
