(* ===== verification/Egress.thy ===== *)
theory Egress
  imports Json
begin

section \<open>Network egress policies\<close>

text \<open>
  Models \<^verbatim>\<open>src/safety/egress.rs\<close> and the policy section of \<^verbatim>\<open>src/agent/spec.rs\<close>. Parsing a URL is
  done by the crate \<^verbatim>\<open>url\<close>: a parameter that yields the parts the code reads.
\<close>

record parsed_url =
  url_scheme :: string
  url_host :: "string option"
  url_port :: "u16 option" \<comment> \<open>\<open>port_or_known_default\<close>\<close>

type_synonym url_parser = "string \<Rightarrow> string + parsed_url"

record network_policy_rule =
  npr_host :: string
  npr_port :: "u16 option"
  npr_methods :: "string list"
  npr_tools :: "string list"
  npr_action :: string

record network_policy_spec =
  nps_default :: string
  nps_rules :: "network_policy_rule list"

datatype policy_default = DefaultDeny | DefaultAllow

datatype rule_action = RuleAllow | RuleDeny

record egress_rule =
  er_host_pattern :: string
  er_is_wildcard :: bool
  er_port :: "u16 option"
  er_methods :: "string list"
  er_tools :: "string list"
  er_action :: rule_action

record egress_policy =
  ep_default :: policy_default
  ep_rules :: "egress_rule list"

record egress_denied =
  ed_url :: string
  ed_tool_name :: string
  ed_reason :: string

definition egress_denied_text :: "egress_denied \<Rightarrow> string" where
  "egress_denied_text d =
     ''egress denied for tool '' @ [CHR 0x27] @ ed_tool_name d @ [CHR 0x27] @ '' to '' @ [CHR 0x27] @
     ed_url d @ [CHR 0x27] @ '': '' @ ed_reason d"

subsection \<open>Policies from specifications\<close>

definition rule_from_spec :: "network_policy_rule \<Rightarrow> egress_rule" where
  "rule_from_spec r =
     (let host = ascii_lower (npr_host r)
      in \<lparr>er_host_pattern = host,
          er_is_wildcard = starts_with host ''*.'',
          er_port = npr_port r,
          er_methods = map ascii_upper (npr_methods r),
          er_tools = npr_tools r,
          er_action = (if ascii_lower (npr_action r) = ''deny'' then RuleDeny else RuleAllow)\<rparr>)"

definition policy_from_spec :: "network_policy_spec option \<Rightarrow> egress_policy option" where
  "policy_from_spec spec =
     (case spec of
        None \<Rightarrow> None
      | Some s \<Rightarrow>
          Some \<lparr>ep_default = (if ascii_lower (nps_default s) = ''allow'' then DefaultAllow else DefaultDeny),
                ep_rules = map rule_from_spec (nps_rules s)\<rparr>)"

definition deny_all :: egress_policy where
  "deny_all = \<lparr>ep_default = DefaultDeny, ep_rules = []\<rparr>"

definition allow_all :: egress_policy where
  "allow_all = \<lparr>ep_default = DefaultAllow, ep_rules = []\<rparr>"

subsection \<open>Checks\<close>

definition matches_host :: "egress_rule \<Rightarrow> string \<Rightarrow> bool" where
  "matches_host r host \<longleftrightarrow>
     (if er_is_wildcard r
      then let suffix = drop 1 (er_host_pattern r)
           in ends_with host suffix \<or> host = drop 1 suffix
      else host = er_host_pattern r)"

text \<open>The guards a rule passes before its action counts.\<close>

definition rule_applies ::
    "egress_rule \<Rightarrow> string \<Rightarrow> u16 option \<Rightarrow> string \<Rightarrow> string option \<Rightarrow> bool" where
  "rule_applies r host port tool meth \<longleftrightarrow>
     matches_host r host \<and>
     (case (er_port r, port) of (Some p, Some q) \<Rightarrow> p = q | _ \<Rightarrow> True) \<and>
     (er_methods r = [] \<or>
      (case meth of None \<Rightarrow> True | Some m \<Rightarrow> list_ex (\<lambda>rm. eq_ignore_ascii_case rm m) (er_methods r))) \<and>
     (er_tools r = [] \<or> tool \<in> set (er_tools r))"

fun walk_rules ::
    "policy_default \<Rightarrow> string \<Rightarrow> string \<Rightarrow> string \<Rightarrow> u16 option \<Rightarrow> string option \<Rightarrow> egress_rule list \<Rightarrow>
       egress_denied + unit" where
  "walk_rules d url tool host port meth [] =
     (case d of
        DefaultAllow \<Rightarrow> Inr ()
      | DefaultDeny \<Rightarrow>
          Inl \<lparr>ed_url = url, ed_tool_name = tool, ed_reason = ''no matching allow rule (default deny)''\<rparr>)"
| "walk_rules d url tool host port meth (r # rs) =
     (if rule_applies r host port tool meth
      then
        (case er_action r of
           RuleAllow \<Rightarrow> Inr ()
         | RuleDeny \<Rightarrow>
             Inl \<lparr>ed_url = url, ed_tool_name = tool,
                  ed_reason = ''denied by rule for host pattern '' @ [CHR 0x27] @ er_host_pattern r @ [CHR 0x27]\<rparr>)
      else walk_rules d url tool host port meth rs)"

definition check_egress_with_method ::
    "url_parser \<Rightarrow> egress_policy \<Rightarrow> string \<Rightarrow> string \<Rightarrow> string option \<Rightarrow> egress_denied + unit" where
  "check_egress_with_method parse p url tool meth =
     (case parse url of
        Inl e \<Rightarrow> Inl \<lparr>ed_url = url, ed_tool_name = tool, ed_reason = ''invalid URL: '' @ e\<rparr>
      | Inr u \<Rightarrow>
          (case url_host u of
             None \<Rightarrow> Inl \<lparr>ed_url = url, ed_tool_name = tool, ed_reason = ''URL has no host''\<rparr>
           | Some h \<Rightarrow> walk_rules (ep_default p) url tool (ascii_lower h) (url_port u) meth (ep_rules p)))"

definition check_egress :: "url_parser \<Rightarrow> egress_policy \<Rightarrow> string \<Rightarrow> string \<Rightarrow> egress_denied + unit" where
  "check_egress parse p url tool = check_egress_with_method parse p url tool None"

definition network_tools_names :: "string list" where
  "network_tools_names = [''http'', ''web_fetch'', ''web_search'', ''browser'']"

definition is_network_tool :: "string \<Rightarrow> bool" where
  "is_network_tool name \<longleftrightarrow> name \<in> set network_tools_names"

subsection \<open>Facts\<close>

lemma walk_rules_find:
  "walk_rules d url tool host port meth rs = Inr () \<longleftrightarrow>
     (case find (\<lambda>r. rule_applies r host port tool meth) rs of
        None \<Rightarrow> d = DefaultAllow
      | Some r \<Rightarrow> er_action r = RuleAllow)"
  by (induction rs) (auto split: policy_default.split rule_action.split)

text \<open>With the default to deny, a request passes only under an allow rule that applies to it.\<close>

lemma default_deny_needs_rule:
  assumes "check_egress_with_method parse p url tool meth = Inr ()" and "ep_default p = DefaultDeny"
  obtains u h r where "parse url = Inr u" and "url_host u = Some h" and "r \<in> set (ep_rules p)"
    and "er_action r = RuleAllow" and "rule_applies r (ascii_lower h) (url_port u) tool meth"
  using assms
  by (auto simp: check_egress_with_method_def walk_rules_find find_Some_iff
      split: sum.splits option.splits) (metis nth_mem)

end
