(* ===== verification/Validator.thy ===== *)
theory Validator
  imports Egress
begin

section \<open>Input validation\<close>

text \<open>
  Models \<^verbatim>\<open>src/safety/validator.rs\<close>. The sets of hosts are lists, whose order is the iteration order
  of the \<open>HashSet\<close>.
\<close>

datatype validation_error =
    TooLong nat nat
  | TooShort nat nat
  | InvalidEncoding string
  | PathTraversal string
  | DisallowedUrl string string
  | InvalidJson string
  | MissingField string
  | InvalidFormat string string
  | NullBytes
  | ControlCharacters

fun validation_error_text :: "validation_error \<Rightarrow> string" where
  "validation_error_text (TooLong mx actual) =
     ''Content too long: '' @ show_nat actual @ '' bytes (max '' @ show_nat mx @ '')''"
| "validation_error_text (TooShort mn actual) =
     ''Content too short: '' @ show_nat actual @ '' bytes (min '' @ show_nat mn @ '')''"
| "validation_error_text (InvalidEncoding reason) = ''Invalid encoding: '' @ reason"
| "validation_error_text (PathTraversal path) = ''Path traversal attempt: '' @ path"
| "validation_error_text (DisallowedUrl url reason) = ''Disallowed URL '' @ url @ '': '' @ reason"
| "validation_error_text (InvalidJson reason) = ''Invalid JSON: '' @ reason"
| "validation_error_text (MissingField field) = ''Missing required field: '' @ field"
| "validation_error_text (InvalidFormat field expected) =
     ''Invalid format for '' @ field @ '': expected '' @ expected"
| "validation_error_text NullBytes = ''Null bytes in input''"
| "validation_error_text ControlCharacters = ''Control characters in input''"

record validation_result =
  vr_valid :: bool
  vr_errors :: "validation_error list"
  vr_warnings :: "string list"

definition validation_ok :: validation_result where
  "validation_ok = \<lparr>vr_valid = True, vr_errors = [], vr_warnings = []\<rparr>"

definition validation_fail :: "validation_error \<Rightarrow> validation_result" where
  "validation_fail x = \<lparr>vr_valid = False, vr_errors = [x], vr_warnings = []\<rparr>"

definition add_error :: "validation_error \<Rightarrow> validation_result \<Rightarrow> validation_result" where
  "add_error x r = r\<lparr>vr_valid := False, vr_errors := vr_errors r @ [x]\<rparr>"

definition add_warning :: "string \<Rightarrow> validation_result \<Rightarrow> validation_result" where
  "add_warning w r = r\<lparr>vr_warnings := vr_warnings r @ [w]\<rparr>"

definition add_error_if :: "bool \<Rightarrow> validation_error \<Rightarrow> validation_result \<Rightarrow> validation_result" where
  "add_error_if b x r = (if b then add_error x r else r)"

record validator_config =
  vc_max_message_length :: nat
  vc_min_message_length :: nat
  vc_allow_null_bytes :: bool
  vc_allow_control_chars :: bool
  vc_url_allowlist :: "string list"
  vc_url_blocklist :: "string list"

definition validator_default :: validator_config where
  "validator_default =
     \<lparr>vc_max_message_length = 100000, vc_min_message_length = 1, vc_allow_null_bytes = False,
      vc_allow_control_chars = False, vc_url_allowlist = [],
      vc_url_blocklist = [''localhost'', ''127.0.0.1'', ''0.0.0.0'', ''169.254.169.254'', ''[::1]'']\<rparr>"

text \<open>
  \<open>is_control\<close>: the characters U+0000 to U+001F and U+007F, and U+0080 to U+009F, which are the byte
  C2 followed by 80 to 9F.
\<close>

fun has_control :: "string \<Rightarrow> bool" where
  "has_control [] = False"
| "has_control (c # s) =
     (((of_char c :: nat) < 32 \<and> c \<notin> {CHR 0x0A, CHR 0x0D, CHR 0x09}) \<or> c = CHR 0x7F \<or>
      (c = CHR 0xC2 \<and> (case s of [] \<Rightarrow> False | d # _ \<Rightarrow> 128 \<le> (of_char d :: nat) \<and> (of_char d :: nat) < 160)) \<or>
      has_control s)"

definition validate_message :: "validator_config \<Rightarrow> string \<Rightarrow> validation_result" where
  "validate_message c s =
     add_error_if (\<not> vc_allow_control_chars c \<and> has_control s) ControlCharacters
       (add_error_if (\<not> vc_allow_null_bytes c \<and> CHR 0x00 \<in> set s) NullBytes
         (add_error_if (length s < vc_min_message_length c) (TooShort (vc_min_message_length c) (length s))
           (add_error_if (vc_max_message_length c < length s) (TooLong (vc_max_message_length c) (length s))
             validation_ok)))"

text \<open>The components of a Unix path: \<open>..\<close> between slashes is the parent.\<close>

definition validate_path :: "string \<Rightarrow> validation_result" where
  "validate_path path =
     (if CHR 0x00 \<in> set path then add_error NullBytes validation_ok
      else if ''..'' \<in> set (split_on (\<lambda>c. c = CHR ''/'') path)
      then add_error (PathTraversal path) validation_ok
      else add_error_if (str_contains path ''..'') (PathTraversal path)
        (if starts_with path ''/'' then add_warning ''Absolute path provided'' validation_ok else validation_ok))"

definition host_blocked :: "string list \<Rightarrow> string \<Rightarrow> bool" where
  "host_blocked blocklist host \<longleftrightarrow> list_ex (\<lambda>b. host = b \<or> ends_with host (CHR ''.'' # b)) blocklist"

definition host_allowed :: "string list \<Rightarrow> string \<Rightarrow> bool" where
  "host_allowed allowlist host \<longleftrightarrow>
     list_ex (\<lambda>p. if starts_with p ''*.'' then ends_with host (drop 1 p) else host = p) allowlist"

definition validator_url :: "url_parser \<Rightarrow> validator_config \<Rightarrow> string \<Rightarrow> validation_result" where
  "validator_url parse c url =
     (case parse url of
        Inl x \<Rightarrow> add_error (InvalidFormat ''url'' (''valid URL ('' @ x @ '')'')) validation_ok
      | Inr u \<Rightarrow>
          if url_scheme u \<noteq> ''http'' \<and> url_scheme u \<noteq> ''https''
          then add_error (DisallowedUrl url ''Only http/https allowed'') validation_ok
          else
            (case url_host u of
               None \<Rightarrow> add_error (InvalidFormat ''url'' ''URL with host'') validation_ok
             | Some host \<Rightarrow>
                 if host_blocked (vc_url_blocklist c) host
                 then add_error (DisallowedUrl url (''Host '' @ host @ '' is blocked'')) validation_ok
                 else
                   add_error_if (vc_url_allowlist c \<noteq> [] \<and> \<not> host_allowed (vc_url_allowlist c) host)
                     (DisallowedUrl url ''Host not in allowlist'') validation_ok))"

definition validate_json :: "json \<Rightarrow> string list \<Rightarrow> validation_result" where
  "validate_json j required =
     (case as_object j of
        None \<Rightarrow> add_error (InvalidJson ''Expected object'') validation_ok
      | Some m \<Rightarrow>
          foldl (\<lambda>r f. add_error_if (map_of m f = None) (MissingField f) r) validation_ok required)"

end
