(* ===== verification/Safety.thy ===== *)
theory Safety
  imports Leak_Detector Content_Policy Sanitizer Validator
begin

section \<open>The safety layer\<close>

text \<open>
  Models \<^verbatim>\<open>src/safety/mod.rs\<close>: the detector, the policy and the sanitizer composed on the way of a
  tool's output to the model.
\<close>

record safety_config =
  sc_leak_detection_enabled :: bool
  sc_injection_defense_enabled :: bool
  sc_policy_enabled :: bool
  sc_max_output_length :: nat
  sc_redaction_string :: string
  sc_tool_timeout :: nat \<comment> \<open>nanoseconds\<close>

definition safety_config_default :: safety_config where
  "safety_config_default =
     \<lparr>sc_leak_detection_enabled = True, sc_injection_defense_enabled = True, sc_policy_enabled = True,
      sc_max_output_length = 100000, sc_redaction_string = ''[REDACTED]'', sc_tool_timeout = 30000000000\<rparr>"

datatype safety_error =
    LeakDetected string
  | InjectionDetected string
  | PolicyViolated string
  | ContentTooLarge nat nat
  | ValidationFailed string

record 'r safety_layer =
  sl_config :: safety_config
  sl_leak_detector :: "'r leak_detector"
  sl_sanitizer :: "'r sanitizer"
  sl_policy :: "'r policy"
  sl_validator :: validator_config

definition safety_with_config :: "'r regex_engine \<Rightarrow> safety_config \<Rightarrow> 'r safety_layer" where
  "safety_with_config e c =
     \<lparr>sl_config = c, sl_leak_detector = leak_detector_new,
      sl_sanitizer = sanitizer_new (sc_injection_defense_enabled c), sl_policy = content_policy_default e,
      sl_validator = validator_default\<rparr>"

definition safety_new :: "'r regex_engine \<Rightarrow> 'r safety_layer" where
  "safety_new e = safety_with_config e safety_config_default"

text \<open>The largest character boundary that is at most the index.\<close>

fun boundary_at_most :: "string \<Rightarrow> nat \<Rightarrow> nat" where
  "boundary_at_most s 0 = 0"
| "boundary_at_most s (Suc n) = (if is_char_boundary s (Suc n) then Suc n else boundary_at_most s n)"

definition floor_char_boundary :: "string \<Rightarrow> nat \<Rightarrow> string" where
  "floor_char_boundary s i = (if length s \<le> i then s else take (boundary_at_most s i) s)"

text \<open>Inbound and outbound scans.\<close>

definition scan_leaks :: "'r regex_engine \<Rightarrow> 'r safety_layer \<Rightarrow> string \<Rightarrow> (unit, safety_error) outcome" where
  "scan_leaks e l s =
     (if \<not> sc_leak_detection_enabled (sl_config l) then Ok ()
      else (case scan e (sl_leak_detector l) s of
              None \<Rightarrow> Panic
            | Some [] \<Rightarrow> Ok ()
            | Some (m # _) \<Rightarrow> Err (LeakDetected (lm_pattern_name m))))"

definition scan_inbound :: "'r regex_engine \<Rightarrow> 'r safety_layer \<Rightarrow> string \<Rightarrow> (unit, safety_error) outcome" where
  "scan_inbound e l s = scan_leaks e l s"

definition validate_outbound :: "'r regex_engine \<Rightarrow> 'r safety_layer \<Rightarrow> string \<Rightarrow> (unit, safety_error) outcome" where
  "validate_outbound e l s = scan_leaks e l s"

text \<open>The four stages of a tool's output; \<open>None\<close> is a panic.\<close>

definition injection_stage :: "'r regex_engine \<Rightarrow> 'r safety_layer \<Rightarrow> string \<Rightarrow> sanitized_output" where
  "injection_stage e l s =
     (if sc_injection_defense_enabled (sl_config l) then sanitize e (sl_sanitizer l) s
      else \<lparr>so_content = s, so_action = SanAllowed, so_warnings = []\<rparr>)"

definition policy_stage :: "'r regex_engine \<Rightarrow> 'r safety_layer \<Rightarrow> string \<Rightarrow> sanitized_output option" where
  "policy_stage e l s =
     (if sc_policy_enabled (sl_config l)
      then
        (case policy_check e (sl_policy l) s of
           None \<Rightarrow> None
         | Some vs \<Rightarrow>
             if list_ex (\<lambda>v. pv_action v = PolicyBlock) vs
             then Some \<lparr>so_content = ''[Output blocked by policy]'', so_action = SanBlocked,
                        so_warnings = map pv_rule vs\<rparr>
             else Some (injection_stage e l s))
      else Some (injection_stage e l s))"

definition leak_stage :: "'r regex_engine \<Rightarrow> 'r safety_layer \<Rightarrow> string \<Rightarrow> sanitized_output option" where
  "leak_stage e l s =
     (if sc_leak_detection_enabled (sl_config l)
      then
        (case scan_and_clean e (sl_leak_detector l) s (sc_redaction_string (sl_config l)) of
           Panic \<Rightarrow> None
         | Err x \<Rightarrow>
             Some \<lparr>so_content = ''[Output blocked: '' @ x @ '']'', so_action = SanBlocked, so_warnings = [x]\<rparr>
         | Ok (cleaned, n) \<Rightarrow> policy_stage e l (if 0 < n then cleaned else s))
      else policy_stage e l s)"

definition sanitize_tool_output :: "'r regex_engine \<Rightarrow> 'r safety_layer \<Rightarrow> string \<Rightarrow> sanitized_output option" where
  "sanitize_tool_output e l s =
     (let mx = sc_max_output_length (sl_config l)
      in if mx < length s
         then Some \<lparr>so_content = floor_char_boundary s mx @ ''...[truncated]'', so_action = SanTruncated,
                    so_warnings = [''Output truncated from '' @ show_nat (length s) @ '' to '' @
                      show_nat mx @ '' bytes'']\<rparr>
         else leak_stage e l s)"

end
