(* ===== verification/Ssrf.thy ===== *)
theory Ssrf
  imports Egress
begin

unbundle bit_operations_syntax

section \<open>Guard against requests to internal addresses\<close>

text \<open>
  Models \<^verbatim>\<open>src/safety/ssrf.rs\<close>. An IPv6 address is a word of 128 bits. Parsing a URL, reading and
  writing an IPv6 address and resolving a name are parameters.
\<close>

datatype ssrf_error =
    InvalidUrl string
  | BlockedScheme string
  | BlockedHost string string
  | BlockedIp string string
  | DnsResolutionFailed string string

datatype ip_addr = V4 u8 u8 u8 u8 | V6 "128 word"

record ssrf_env =
  se_parse :: url_parser
  se_parse_ipv6 :: "string \<Rightarrow> 128 word option"
  se_show_ipv6 :: "128 word \<Rightarrow> string"
  se_resolve :: "string \<Rightarrow> string + ip_addr list"

subsection \<open>Addresses as text\<close>

text \<open>A decimal of at most three digits without a leading zero, below 256.\<close>

definition parse_octet :: "string \<Rightarrow> u8 option" where
  "parse_octet s =
     (if s = [] \<or> 3 < length s \<or> \<not> list_all (\<lambda>c. 48 \<le> (of_char c :: nat) \<and> (of_char c :: nat) \<le> 57) s \<or>
         (1 < length s \<and> hd s = CHR ''0'')
      then None
      else let n = foldl (\<lambda>n c. 10 * n + (of_char c - 48)) (0 :: nat) s
           in if n < 256 then Some (of_nat n) else None)"

definition parse_ipv4 :: "string \<Rightarrow> ip_addr option" where
  "parse_ipv4 s =
     (case map parse_octet (split_on (\<lambda>c. c = CHR ''.'') s) of
        [Some a, Some b, Some c, Some d] \<Rightarrow> Some (V4 a b c d)
      | _ \<Rightarrow> None)"

definition parse_ip :: "ssrf_env \<Rightarrow> string \<Rightarrow> ip_addr option" where
  "parse_ip e s = (case parse_ipv4 s of Some ip \<Rightarrow> Some ip | None \<Rightarrow> map_option V6 (se_parse_ipv6 e s))"

definition show_ipv4 :: "u8 \<Rightarrow> u8 \<Rightarrow> u8 \<Rightarrow> u8 \<Rightarrow> string" where
  "show_ipv4 a b c d = join_with ''.'' (map show_word [a, b, c, d])"

definition segment0 :: "128 word \<Rightarrow> u16" where
  "segment0 ip = ucast (drop_bit 112 ip)"

definition to_ipv4_mapped :: "128 word \<Rightarrow> (u8 \<times> u8 \<times> u8 \<times> u8) option" where
  "to_ipv4_mapped ip =
     (if drop_bit 32 ip = 0xffff
      then Some (ucast (drop_bit 24 ip), ucast (drop_bit 16 ip), ucast (drop_bit 8 ip), ucast ip)
      else None)"

subsection \<open>Checks\<close>

definition check_ipv4 :: "u8 \<Rightarrow> u8 \<Rightarrow> u8 \<Rightarrow> u8 \<Rightarrow> bool \<Rightarrow> ssrf_error + unit" where
  "check_ipv4 a b c d allow_lan =
     (let ip = show_ipv4 a b c d
      in if a = 127 then Inl (BlockedIp ip ''loopback address (127.0.0.0/8)'')
         else if a = 169 \<and> b = 254 then Inl (BlockedIp ip ''link-local address (169.254.0.0/16)'')
         else if a = 0 then Inl (BlockedIp ip ''unspecified address (0.0.0.0/8)'')
         else if (a, b, c, d) = (169, 254, 169, 254) then Inl (BlockedIp ip ''cloud metadata endpoint'')
         else if \<not> allow_lan \<and> a = 10 then Inl (BlockedIp ip ''private address (10.0.0.0/8)'')
         else if \<not> allow_lan \<and> a = 172 \<and> 16 \<le> b \<and> b \<le> 31
         then Inl (BlockedIp ip ''private address (172.16.0.0/12)'')
         else if \<not> allow_lan \<and> a = 192 \<and> b = 168 then Inl (BlockedIp ip ''private address (192.168.0.0/16)'')
         else Inr ())"

definition check_ipv6 :: "ssrf_env \<Rightarrow> 128 word \<Rightarrow> bool \<Rightarrow> ssrf_error + unit" where
  "check_ipv6 e ip allow_lan =
     (if ip = 1 then Inl (BlockedIp (se_show_ipv6 e ip) ''IPv6 loopback (::1)'')
      else if ip = 0 then Inl (BlockedIp (se_show_ipv6 e ip) ''IPv6 unspecified (::)'')
      else if segment0 ip AND 0xffc0 = 0xfe80
      then Inl (BlockedIp (se_show_ipv6 e ip) ''IPv6 link-local (fe80::/10)'')
      else if \<not> allow_lan \<and> segment0 ip AND 0xfe00 = 0xfc00
      then Inl (BlockedIp (se_show_ipv6 e ip) ''IPv6 unique local (fc00::/7)'')
      else (case to_ipv4_mapped ip of
              Some (a, b, c, d) \<Rightarrow> check_ipv4 a b c d allow_lan
            | None \<Rightarrow> Inr ()))"

fun check_ip :: "ssrf_env \<Rightarrow> ip_addr \<Rightarrow> bool \<Rightarrow> ssrf_error + unit" where
  "check_ip e (V4 a b c d) allow_lan = check_ipv4 a b c d allow_lan"
| "check_ip e (V6 ip) allow_lan = check_ipv6 e ip allow_lan"

fun check_addrs :: "ssrf_env \<Rightarrow> ip_addr list \<Rightarrow> bool \<Rightarrow> ssrf_error + unit" where
  "check_addrs e [] allow_lan = Inr ()"
| "check_addrs e (ip # ips) allow_lan =
     (case check_ip e ip allow_lan of Inl x \<Rightarrow> Inl x | Inr _ \<Rightarrow> check_addrs e ips allow_lan)"

definition blocked_hostnames :: "string list" where
  "blocked_hostnames =
     [''metadata.google.internal'', ''metadata.google'', ''metadata'', ''instance-data'']"

definition validate_url_inner :: "ssrf_env \<Rightarrow> string \<Rightarrow> bool \<Rightarrow> ssrf_error + unit" where
  "validate_url_inner e url allow_lan =
     (case se_parse e url of
        Inl x \<Rightarrow> Inl (InvalidUrl x)
      | Inr u \<Rightarrow>
          if url_scheme u \<noteq> ''http'' \<and> url_scheme u \<noteq> ''https'' then Inl (BlockedScheme (url_scheme u))
          else
            (case url_host u of
               None \<Rightarrow> Inl (InvalidUrl ''URL has no host'')
             | Some host \<Rightarrow>
                 if ascii_lower host \<in> set blocked_hostnames
                 then Inl (BlockedHost host ''cloud metadata endpoint'')
                 else
                   (case parse_ip e host of
                      Some ip \<Rightarrow> check_ip e ip allow_lan
                    | None \<Rightarrow>
                        let port = (case url_port u of None \<Rightarrow> 80 | Some p \<Rightarrow> p)
                        in (case se_resolve e (host @ '':'' @ show_word port) of
                              Inl x \<Rightarrow> Inl (DnsResolutionFailed host x)
                            | Inr addrs \<Rightarrow>
                                if addrs = [] then Inl (DnsResolutionFailed host ''no addresses returned'')
                                else check_addrs e addrs allow_lan))))"

definition validate_url :: "ssrf_env \<Rightarrow> string \<Rightarrow> ssrf_error + unit" where
  "validate_url e url = validate_url_inner e url False"

definition validate_url_relaxed :: "ssrf_env \<Rightarrow> string \<Rightarrow> ssrf_error + unit" where
  "validate_url_relaxed e url = validate_url_inner e url True"

subsection \<open>What a request can reach\<close>

text \<open>The addresses a connection to the host may use: the literal one, or those of the resolver.\<close>

definition url_addresses :: "ssrf_env \<Rightarrow> string \<Rightarrow> ip_addr list" where
  "url_addresses e url =
     (case se_parse e url of
        Inr u \<Rightarrow>
          (case url_host u of
             Some host \<Rightarrow>
               (case parse_ip e host of
                  Some ip \<Rightarrow> [ip]
                | None \<Rightarrow>
                    (case se_resolve e (host @ '':'' @ show_word (case url_port u of None \<Rightarrow> 80 | Some p \<Rightarrow> p)) of
                       Inr addrs \<Rightarrow> addrs
                     | Inl _ \<Rightarrow> []))
           | None \<Rightarrow> [])
      | Inl _ \<Rightarrow> [])"

text \<open>
  The reserved ranges, as networks: an address belongs to a network when it agrees with it on the
  first bits. IPv4 addresses are words of 32 bits here.
\<close>

definition ipv4_word :: "u8 \<Rightarrow> u8 \<Rightarrow> u8 \<Rightarrow> u8 \<Rightarrow> u32" where
  "ipv4_word a b c d = word_of_int (((uint a * 256 + uint b) * 256 + uint c) * 256 + uint d)"

definition in_net4 :: "u32 \<Rightarrow> u32 \<Rightarrow> nat \<Rightarrow> bool" where
  "in_net4 ip net len \<longleftrightarrow> drop_bit (32 - len) ip = drop_bit (32 - len) net"

definition in_net6 :: "128 word \<Rightarrow> 128 word \<Rightarrow> nat \<Rightarrow> bool" where
  "in_net6 ip net len \<longleftrightarrow> drop_bit (128 - len) ip = drop_bit (128 - len) net"

definition always_blocked4 :: "u32 \<Rightarrow> bool" where
  "always_blocked4 ip \<longleftrightarrow>
     in_net4 ip (ipv4_word 127 0 0 0) 8 \<or> in_net4 ip (ipv4_word 169 254 0 0) 16 \<or> in_net4 ip (ipv4_word 0 0 0 0) 8"

definition private4 :: "u32 \<Rightarrow> bool" where
  "private4 ip \<longleftrightarrow>
     in_net4 ip (ipv4_word 10 0 0 0) 8 \<or> in_net4 ip (ipv4_word 172 16 0 0) 12 \<or>
     in_net4 ip (ipv4_word 192 168 0 0) 16"

fun blocked_ip :: "ip_addr \<Rightarrow> bool \<Rightarrow> bool" where
  "blocked_ip (V4 a b c d) allow_lan \<longleftrightarrow>
     always_blocked4 (ipv4_word a b c d) \<or> \<not> allow_lan \<and> private4 (ipv4_word a b c d)"
| "blocked_ip (V6 ip) allow_lan \<longleftrightarrow>
     ip = 1 \<or> ip = 0 \<or> in_net6 ip (push_bit 112 0xfe80) 10 \<or>
     \<not> allow_lan \<and> in_net6 ip (push_bit 112 0xfc00) 7 \<or>
     in_net6 ip (push_bit 32 0xffff) 96 \<and>
       (always_blocked4 (ucast ip) \<or> \<not> allow_lan \<and> private4 (ucast ip))"

subsection \<open>The octet tests are the network masks\<close>

lemma u8_range: "0 \<le> uint x \<and> uint x < 256" for x :: u8
  using uint_bounded [of x] by simp

lemma uint_ipv4_word:
  "uint (ipv4_word a b c d) = ((uint a * 256 + uint b) * 256 + uint c) * 256 + uint d"
proof -
  have "((uint a * 256 + uint b) * 256 + uint c) * 256 + uint d < 2 ^ 32"
    using u8_range [of a] u8_range [of b] u8_range [of c] u8_range [of d] by (auto simp: algebra_simps)
  then show ?thesis
    using u8_range [of a] u8_range [of b] u8_range [of c] u8_range [of d]
    unfolding ipv4_word_def uint_word_of_int_eq by (intro take_bit_int_eq_self) auto
qed

lemma ipv4_word_div:
  "uint (ipv4_word a b c d) div 16777216 = uint a"
  "uint (ipv4_word a b c d) div 65536 = uint a * 256 + uint b"
  "uint (ipv4_word a b c d) div 1048576 = uint a * 16 + uint b div 16"
proof -
  note r = u8_range [of b] u8_range [of c] u8_range [of d]
  show "uint (ipv4_word a b c d) div 16777216 = uint a"
    unfolding uint_ipv4_word using r
    by (intro int_div_pos_eq [where r = "(uint b * 256 + uint c) * 256 + uint d"]) auto
  show "uint (ipv4_word a b c d) div 65536 = uint a * 256 + uint b"
    unfolding uint_ipv4_word using r
    by (intro int_div_pos_eq [where r = "uint c * 256 + uint d"]) auto
  have "uint b = 16 * (uint b div 16) + uint b mod 16" "0 \<le> uint b mod 16" "uint b mod 16 < 16" by simp_all
  then have "uint b * 65536 = uint b mod 16 * 65536 + uint b div 16 * 1048576"
    "0 \<le> uint b mod 16" "uint b mod 16 < 16" by linarith+
  then show "uint (ipv4_word a b c d) div 1048576 = uint a * 16 + uint b div 16"
    unfolding uint_ipv4_word using r
    by (intro int_div_pos_eq [where r = "((uint b mod 16) * 256 + uint c) * 256 + uint d"]) (auto simp: algebra_simps)
qed

lemma in_net4_div:
  "in_net4 ip net len \<longleftrightarrow> uint ip div 2 ^ (32 - len) = uint net div 2 ^ (32 - len)"
proof -
  have "uint (drop_bit n w) = uint w div 2 ^ n" for n and w :: u32
    by (simp only: unsigned_drop_bit_eq bintr_uint [OF order_refl] drop_bit_eq_div [of n "uint w"])
  then show ?thesis by (simp only: in_net4_def word_uint_eq_iff)
qed

lemma u8_eq: "a = b \<longleftrightarrow> uint a = uint b" for a b :: u8
  by (simp add: word_uint_eq_iff)

lemma digit_pair:
  fixes x y m n B :: int
  assumes "0 \<le> n" "n < B" "0 \<le> y" "y < B"
  shows "x * B + y = m * B + n \<longleftrightarrow> x = m \<and> y = n"
proof
  assume e: "x * B + y = m * B + n"
  from e have "(x * B + y) div B = (m * B + n) div B" by (rule arg_cong)
  with assms have "x = m" by simp
  with e show "x = m \<and> y = n" by simp
qed auto

lemma always_blocked4_octets:
  "always_blocked4 (ipv4_word a b c d) \<longleftrightarrow> a = 127 \<or> a = 169 \<and> b = 254 \<or> a = 0"
proof -
  have "uint a * 256 + uint b = 43518 \<longleftrightarrow> uint a = 169 \<and> uint b = 254"
    using digit_pair [of 254 256 "uint b" "uint a" 169] u8_range [of b] by simp
  then show ?thesis by (simp add: always_blocked4_def in_net4_div ipv4_word_div u8_eq)
qed

lemma private4_octets:
  "private4 (ipv4_word a b c d) \<longleftrightarrow>
     a = 10 \<or> a = 172 \<and> 16 \<le> b \<and> b \<le> 31 \<or> a = 192 \<and> b = 168"
proof -
  have "uint a * 256 + uint b = 49320 \<longleftrightarrow> uint a = 192 \<and> uint b = 168"
    using digit_pair [of 168 256 "uint b" "uint a" 192] u8_range [of b] by simp
  moreover have "uint b div 16 = 1 \<longleftrightarrow> 16 \<le> uint b \<and> uint b \<le> 31" by linarith
  then have "uint a * 16 + uint b div 16 = 2753 \<longleftrightarrow> uint a = 172 \<and> 16 \<le> uint b \<and> uint b \<le> 31"
    using digit_pair [of 1 16 "uint b div 16" "uint a" 172] u8_range [of b]
    by (simp add: pos_imp_zdiv_nonneg_iff)
  ultimately show ?thesis by (simp add: private4_def in_net4_div ipv4_word_div u8_eq word_le_def)
qed

lemma check_ipv4_iff:
  "check_ipv4 a b c d allow_lan = Inr () \<longleftrightarrow> \<not> blocked_ip (V4 a b c d) allow_lan"
  by (auto simp: check_ipv4_def Let_def always_blocked4_octets private4_octets)

lemma mask_segment:
  fixes s t :: u16
  assumes "n \<le> 16"
  shows "s AND push_bit n (mask (16 - n)) = push_bit n t \<longleftrightarrow> drop_bit n s = drop_bit n (push_bit n t)"
proof -
  have "s AND push_bit n (mask (16 - n)) = push_bit n (drop_bit n s)"
    by (rule bit_eqI) (auto simp: bit_simps)
  moreover have "drop_bit n (push_bit n (drop_bit n s)) = drop_bit n s"
    by (rule bit_eqI) (auto simp: bit_simps dest: bit_imp_le_length)
  moreover have "push_bit n (drop_bit n (push_bit n t)) = push_bit n t"
    by (rule bit_eqI) (auto simp: bit_simps)
  ultimately show ?thesis by metis
qed

lemma segment0_mask:
  assumes "n \<le> 16"
  shows "segment0 ip AND push_bit n (mask (16 - n)) = push_bit n t \<longleftrightarrow>
    in_net6 ip (push_bit 112 (ucast (push_bit n t :: u16))) (16 - n)"
proof -
  have d: "drop_bit (112 + n) w = ucast (drop_bit n (ucast (drop_bit 112 w) :: u16))" for w :: "128 word"
    by (rule bit_eqI) (use assms in \<open>auto simp: bit_simps ac_simps dest: bit_imp_le_length\<close>)
  have p: "ucast (drop_bit 112 (push_bit 112 (ucast v) :: 128 word)) = v" for v :: u16
    by (rule bit_eqI) (auto simp: bit_simps ac_simps)
  have down: "ucast (ucast v :: 128 word) = v" for v :: u16
    by (rule bit_eqI) (auto simp: bit_simps)
  have inj: "ucast v = (ucast v' :: 128 word) \<longleftrightarrow> v = v'" for v v' :: u16
  proof
    assume "ucast v = (ucast v' :: 128 word)"
    then have "ucast (ucast v :: 128 word) = (ucast (ucast v' :: 128 word) :: u16)" by simp
    then show "v = v'" by (simp only: down)
  qed simp
  have n: "128 - (16 - n) = 112 + n" using assms by simp
  show ?thesis
    by (simp only: mask_segment [OF assms] in_net6_def n d p inj segment0_def)
qed

lemma mapped_in_net6: "drop_bit 32 ip = 0xffff \<longleftrightarrow> in_net6 ip (push_bit 32 0xffff) 96"
proof -
  have "drop_bit 32 (push_bit 32 0xffff :: 128 word) = 0xffff" by simp
  then show ?thesis by (simp add: in_net6_def)
qed

lemma mapped_octets:
  "ipv4_word (ucast (drop_bit 24 ip)) (ucast (drop_bit 16 ip)) (ucast (drop_bit 8 ip)) (ucast ip) = ucast ip"
  for ip :: "128 word"
proof -
  define i where "i = uint ip"
  have u: "uint (ucast (drop_bit n ip) :: u8) = i div 2 ^ n mod 256" for n
    by (simp add: i_def unsigned_ucast_eq unsigned_drop_bit_eq bintr_uint take_bit_eq_mod [of 8]
        drop_bit_eq_div [of n "uint ip"])
  have "uint (ucast ip :: u8) = i mod 256" "uint (ucast ip :: u32) = i mod 4294967296"
    by (simp_all add: i_def unsigned_ucast_eq take_bit_eq_mod)
  moreover have "uint (ucast (drop_bit 24 ip) :: u8) = i div 16777216 mod 256"
    "uint (ucast (drop_bit 16 ip) :: u8) = i div 65536 mod 256"
    "uint (ucast (drop_bit 8 ip) :: u8) = i div 256 mod 256"
    using u [of 24] u [of 16] u [of 8] by simp_all
  moreover have "i mod 4294967296 = 256 * (i div 256 mod 16777216) + i mod 256"
    using zmod_zmult2_eq [of 16777216 i 256] by simp
  moreover have "i div 256 mod 16777216 = 256 * (i div 65536 mod 65536) + i div 256 mod 256"
    using zmod_zmult2_eq [of 65536 "i div 256" 256] zdiv_zmult2_eq [of 256 i 256] by simp
  moreover have "i div 65536 mod 65536 = 256 * (i div 16777216 mod 256) + i div 65536 mod 256"
    using zmod_zmult2_eq [of 256 "i div 65536" 256] zdiv_zmult2_eq [of 256 i 65536] by simp
  ultimately show ?thesis
    unfolding word_uint_eq_iff uint_ipv4_word by (simp only: mult.commute [of _ "256 :: int"])
qed

lemma check_ipv6_iff: "check_ipv6 e ip allow_lan = Inr () \<longleftrightarrow> \<not> blocked_ip (V6 ip) allow_lan"
proof -
  have "segment0 ip AND 0xffc0 = 0xfe80 \<longleftrightarrow> in_net6 ip (push_bit 112 0xfe80) 10"
    using segment0_mask [of 6, where t = "0x3fa"] by (simp add: mask_eq_exp_minus_1)
  moreover have "segment0 ip AND 0xfe00 = 0xfc00 \<longleftrightarrow> in_net6 ip (push_bit 112 0xfc00) 7"
    using segment0_mask [of 9, where t = "0x7e"] by (simp add: mask_eq_exp_minus_1)
  ultimately show ?thesis
    unfolding check_ipv6_def blocked_ip.simps mapped_in_net6 [symmetric]
    by (auto simp: to_ipv4_mapped_def check_ipv4_iff mapped_octets)
qed

lemma check_ip_iff: "check_ip e ip allow_lan = Inr () \<longleftrightarrow> \<not> blocked_ip ip allow_lan"
  by (cases ip) (simp_all only: check_ip.simps check_ipv4_iff check_ipv6_iff)

lemma check_addrs_iff: "check_addrs e ips allow_lan = Inr () \<longleftrightarrow> (\<forall>ip \<in> set ips. \<not> blocked_ip ip allow_lan)"
proof (induction ips)
  case (Cons ip ips)
  then show ?case using check_ip_iff [of e ip allow_lan]
    by (auto split: sum.split simp del: check_ip.simps blocked_ip.simps)
qed simp

end
