(* ===== verification/Safety_Props.thy ===== *)
theory Safety_Props
  imports Safety Ssrf "HOL-Library.Multiset"
begin

section \<open>Properties of the safety layer\<close>

text \<open>
  The guard against internal addresses is the network masks it documents; redaction is exact when
  matches are apart and panics when they overlap; a long output is not looked at.
\<close>

subsection \<open>Requests\<close>

text \<open>C21: A URL passes the guard exactly when its scheme is http or https, its host is no metadata name, it has an address, and none of the addresses it can reach lies in a network the guard documents: loopback, link-local, unspecified, the private networks unless the LAN is allowed, and the same behind an IPv4-mapped IPv6 address.\<close>

theorem validate_url_accepts_iff:
  "validate_url_inner e url allow_lan = Inr () \<longleftrightarrow>
     (\<exists>u host. se_parse e url = Inr u \<and> url_scheme u \<in> {''http'', ''https''} \<and> url_host u = Some host \<and>
        ascii_lower host \<notin> set blocked_hostnames) \<and>
     url_addresses e url \<noteq> [] \<and>
     (\<forall>ip \<in> set (url_addresses e url). \<not> blocked_ip ip allow_lan)"
proof (cases "\<exists>u host. se_parse e url = Inr u \<and> url_host u = Some host")
  case True
  then obtain u host where u: "se_parse e url = Inr u" "url_host u = Some host" by blast
  then show ?thesis
    by (cases "parse_ip e host"; cases "se_resolve e (host @ '':'' @ show_word (case url_port u of None \<Rightarrow> 80 | Some p \<Rightarrow> p))")
      (simp_all add: validate_url_inner_def url_addresses_def Let_def check_ip_iff check_addrs_iff
        del: check_ip.simps blocked_ip.simps check_addrs.simps)
next
  case False
  then show ?thesis
    by (auto simp: validate_url_inner_def url_addresses_def split: sum.splits option.splits)
qed

definition public_site :: ssrf_env where
  "public_site =
     \<lparr>se_parse = (\<lambda>_. Inr \<lparr>url_scheme = ''https'', url_host = Some ''example.org'', url_port = Some 443\<rparr>),
      se_parse_ipv6 = (\<lambda>_. None), se_show_ipv6 = (\<lambda>_. ''''),
      se_resolve = (\<lambda>_. Inr [V4 93 184 215 14, V6 (push_bit 32 0xffff OR 0x0a000001)])\<rparr>"

lemma validate_url_accepts_iff_witness:
  "validate_url_relaxed public_site ''https://example.org/'' = Inr () \<and>
   validate_url public_site ''https://example.org/'' \<noteq> Inr ()"
proof -
  have a: "url_addresses public_site ''https://example.org/'' = [V4 93 184 215 14, V6 (push_bit 32 0xffff OR 0x0a000001)]"
  proof -
    have "parse_ipv4 ''example.org'' = None" by code_simp
    then show ?thesis by (simp add: url_addresses_def public_site_def parse_ip_def)
  qed
  have b: "ascii_lower ''example.org'' \<notin> set blocked_hostnames" by code_simp
  have c: "\<not> blocked_ip (V4 93 184 215 14) lan" "blocked_ip (V6 (push_bit 32 0xffff OR 0x0a000001)) False"
    "\<not> blocked_ip (V6 (push_bit 32 0xffff OR 0x0a000001)) True" for lan
    by (simp_all add: always_blocked4_octets private4_octets in_net6_def in_net4_def always_blocked4_def private4_def
        ipv4_word_def)
  show ?thesis
    unfolding validate_url_relaxed_def validate_url_def validate_url_accepts_iff a
    using b c by (simp add: public_site_def del: blocked_ip.simps)
qed

subsection \<open>Redaction\<close>

definition match_range :: "leak_match \<Rightarrow> range" where
  "match_range m = (lm_start m, lm_end m)"

text \<open>Matches in the order of the text, none empty, each ending before the next starts.\<close>

definition apart :: "string \<Rightarrow> leak_match list \<Rightarrow> bool" where
  "apart s ms \<longleftrightarrow>
     sorted_wrt (\<lambda>a b. lm_end a \<le> lm_start b) ms \<and>
     list_all (\<lambda>m. lm_start m < lm_end m \<and> lm_end m \<le> length s \<and>
       is_char_boundary s (lm_start m) \<and> is_char_boundary s (lm_end m)) ms"

lemma apart_Cons:
  "apart s (m # ms) \<longleftrightarrow>
     (\<forall>x \<in> set ms. lm_end m \<le> lm_start x) \<and> lm_start m < lm_end m \<and> lm_end m \<le> length s \<and>
     is_char_boundary s (lm_start m) \<and> is_char_boundary s (lm_end m) \<and> apart s ms"
  by (auto simp: apart_def)

lemma redact_append: "redact rep (xs @ ys) s = Option.bind (redact rep xs s) (redact rep ys)"
  by (induction xs arbitrary: s) (auto simp: bind_eq_None_conv split: bind_split)

lemma is_char_boundary_prefix:
  "n < length t \<Longrightarrow> t ! n = s ! n \<Longrightarrow> n < length s \<Longrightarrow> is_char_boundary s n \<Longrightarrow> is_char_boundary t n"
  by (auto simp: is_char_boundary_def)

text \<open>Replacing from the last match to the first keeps what lies before each match.\<close>

lemma redact_rev:
  assumes "rep \<noteq> [] \<Longrightarrow> is_char_start (hd rep)" and "apart s ms" and "pos \<le> length s"
    and "\<forall>m \<in> set ms. pos \<le> lm_start m" and "is_char_boundary s pos"
  shows "\<exists>t. redact rep (rev ms) s = Some (take pos s @ t) \<and>
    t = replace_from (\<lambda>_. rep) s pos (map match_range ms) \<and> is_char_boundary (take pos s @ t) pos"
  using assms(2-5)
proof (induction ms arbitrary: pos)
  case (Cons m ms)
  let ?a = "lm_start m" and ?b = "lm_end m"
  from Cons.prems have m: "?a < ?b" "?b \<le> length s" "pos \<le> ?a" "is_char_boundary s ?a" "is_char_boundary s ?b"
    and ms: "apart s ms" "\<forall>x \<in> set ms. ?b \<le> lm_start x"
    by (auto simp: apart_Cons)
  obtain t where t: "redact rep (rev ms) s = Some (take ?b s @ t)"
    "t = replace_from (\<lambda>_. rep) s ?b (map match_range ms)" "is_char_boundary (take ?b s @ t) ?b"
    using Cons.IH [OF ms(1) m(2) ms(2) m(5)] by blast
  have "is_char_boundary (take ?b s @ t) ?a"
    by (rule is_char_boundary_prefix [where s = s]) (use m in \<open>auto simp: nth_append\<close>)
  then have "replace_range (?a, ?b) rep (take ?b s @ t) = Some (take ?a s @ rep @ t)"
    using m t(3) by (simp add: replace_range_def min_absorb1 min_absorb2 del: append_take_drop_id)
  then have r: "redact rep (rev (m # ms)) s = Some (take ?a s @ rep @ t)"
    using t(1) by (simp add: redact_append)
  have "take pos s @ text_span s (pos, ?a) = take ?a s"
    using m(3) take_add [of pos "?a - pos" s] by (simp add: text_span_def)
  moreover have "replace_from (\<lambda>_. rep) s pos (map match_range (m # ms)) = text_span s (pos, ?a) @ rep @ t"
    by (simp add: match_range_def t(2))
  moreover have "is_char_boundary (take ?a s @ rep @ t) pos"
  proof (cases "pos = ?a")
    case True
    have "t = [] \<or> is_char_start (hd t)"
      using t(3) m(1,2) by (cases t) (auto simp: is_char_boundary_def nth_append)
    with True assms(1) m show ?thesis
      by (cases rep; cases t) (auto simp: is_char_boundary_def nth_append)
  next
    case False
    then show ?thesis
      by (intro is_char_boundary_prefix [where s = s and n = pos, OF _ _ _ Cons.prems(4)])
        (use m in \<open>auto simp: nth_append\<close>)
  qed
  ultimately show ?case using r by (metis append_assoc)
qed (auto simp: is_char_boundary_def)

lemma apart_distinct_starts: "apart s ms \<Longrightarrow> inj_on lm_start (set ms) \<and> sorted (map lm_start ms)"
proof (induction ms)
  case (Cons m ms)
  then have *: "\<forall>x \<in> set ms. lm_start m < lm_start x" by (auto simp: apart_Cons)
  with Cons show ?case by (auto simp: apart_Cons inj_on_def less_imp_le)
qed simp

text \<open>C22: When scanning a text returns and the secrets it finds do not overlap, cleaning replaces each of
  them by the redaction, which may be any text, even the empty one, and keeps everything between
  them, as a replacement in one pass from left to right does; the number returned is the number of
  secrets. The one exception is a detector in strict mode, its default, that finds more than five:
  then the whole text is refused with an error that states their number.\<close>

theorem clean_redacts_exactly:
  assumes "scan e d s = Some ms" and "apart s (sort_key lm_start ms)"
    and "rep \<noteq> [] \<Longrightarrow> is_char_start (hd rep)"
  shows "scan_and_clean e d s rep =
    (if ld_strict_mode d \<and> 5 < length ms
     then Err (''Too many secrets detected ('' @ show_nat (length ms) @ ''), blocking entire content'')
     else Ok (replace_from (\<lambda>_. rep) s 0 (map match_range (sort_key lm_start ms)), length ms))"
proof (cases "ms = [] \<or> ld_strict_mode d \<and> 5 < length ms")
  case False
  let ?a = "sort_key lm_start ms"
  from apart_distinct_starts [OF assms(2)] have inj: "inj_on lm_start (set ms)" by simp
  have "sort_key (\<lambda>m. - int (lm_start m)) ms = rev ?a"
  proof (rule sort_key_inj_key_eq)
    show "inj_on (\<lambda>m. - int (lm_start m)) (set ms)" using inj by (auto simp: inj_on_def)
    show "sorted (map (\<lambda>m. - int (lm_start m)) (rev ?a))"
      using sorted_sort_key [of lm_start ms] by (simp add: sorted_map sorted_wrt_rev)
  qed simp
  moreover obtain t where "redact rep (rev ?a) s = Some (take 0 s @ t)"
    "t = replace_from (\<lambda>_. rep) s 0 (map match_range ?a)"
    using redact_rev [OF assms(3,2), of 0] by (auto simp: is_char_boundary_def)
  ultimately show ?thesis using assms(1) False by (simp add: scan_and_clean_def)
qed (auto simp: scan_and_clean_def assms(1))

definition two_key_engine :: "string regex_engine" where
  "two_key_engine =
     \<lparr>rx_new = Some, rx_static = (\<lambda>p. p),
      rx_captures = (\<lambda>p s.
        if p = ''key'' then [((0, 20), [])]
        else if p = ''token'' then [((8, 20), [])]
        else if p = ''name'' then [((2, 4), [])] else [])\<rparr>"

definition detector_for :: "string list \<Rightarrow> string leak_detector" where
  "detector_for ps = \<lparr>ld_custom = map (\<lambda>p. (p, p)) ps, ld_strict_mode = True\<rparr>"

lemma no_built_in_matches: "scan_patterns two_key_engine s (all_patterns two_key_engine d) = scan_patterns two_key_engine s (ld_custom d)"
proof -
  have none: "rx_captures two_key_engine (sp_regex p) = (\<lambda>_. [])" if "p \<in> set secret_patterns" for p
  proof -
    have "list_all (\<lambda>p. sp_regex p \<notin> {''key'', ''token'', ''name''}) secret_patterns" by code_simp
    with that show ?thesis by (auto simp: list_all_iff two_key_engine_def fun_eq_iff)
  qed
  have "scan_patterns two_key_engine s (map (\<lambda>(p, r). (sp_name p, r)) (List.map_filter (\<lambda>p. map_option (Pair p) (rx_new two_key_engine (sp_regex p))) ps) @ qs)
      = scan_patterns two_key_engine s qs" if "set ps \<subseteq> set secret_patterns" for ps qs
    using that
  proof (induction ps)
    case (Cons p ps)
    moreover from Cons.prems have "find_iter two_key_engine (sp_regex p) s = []" by (simp add: find_iter_def none)
    ultimately show ?case
      by (simp add: List.map_filter_def two_key_engine_def option.case_eq_if)
  qed (simp add: List.map_filter_def)
  then show ?thesis by (simp add: all_patterns_def compiled_patterns_def)
qed

lemma clean_redacts_exactly_witness:
  "scan_and_clean two_key_engine (detector_for [''token'', ''name'']) ''API_KEY=abcdefghijkl'' ''[X]'' =
     Ok (''AP[X]KEY=[X]'', 2)"
proof -
  let ?s = "''API_KEY=abcdefghijkl''" and ?d = "detector_for [''token'', ''name'']"
  obtain ms where ms: "scan two_key_engine ?d ?s = Some ms" "sort_key lm_start ms = rev ms" "length ms = 2"
    "apart ?s (rev ms)" "map match_range (rev ms) = [(2, 4), (8, 20)]"
    by (simp add: scan_def no_built_in_matches)
      (simp add: detector_for_def two_key_engine_def find_iter_def preview_def slice_to_def text_span_def
        apart_def match_range_def is_char_boundary_def is_char_start_def)
  have "apart ?s (sort_key lm_start ms)" "''[X]'' \<noteq> [] \<Longrightarrow> is_char_start (hd ''[X]'')"
    using ms by (simp_all add: is_char_start_def)
  from clean_redacts_exactly [OF ms(1) this] ms(3) have "scan_and_clean two_key_engine ?d ?s ''[X]'' =
      Ok (replace_from (\<lambda>_. ''[X]'') ?s 0 (map match_range (sort_key lm_start ms)), length ms)"
    by simp
  then show ?thesis by (simp add: ms text_span_def)
qed

text \<open>Two secrets that overlap, like an API key inside the assignment that names it, and end with the text make cleaning panic when the redaction is shorter than the inner one: the outer range no longer fits the text whose inner part has been replaced.\<close>

theorem overlapping_secrets_panic:
  assumes "scan e d s = Some [outer, inner] \<or> scan e d s = Some [inner, outer]"
    and "lm_start outer < lm_start inner" and "lm_start inner \<le> length s"
    and "lm_end outer = length s" and "lm_end inner = length s"
    and "length rep < length s - lm_start inner"
  shows "scan_and_clean e d s rep = Panic"
proof -
  have "redact rep [inner, outer] s = None"
    using assms(2-6) by (auto simp: replace_range_def bind_eq_None_conv)
  then show ?thesis
    using assms(1,2) by (auto simp: scan_and_clean_def)
qed

lemma overlapping_secrets_panic_witness:
  "scan_and_clean two_key_engine (detector_for [''key'', ''token'']) ''API_KEY=abcdefghijkl'' ''[REDACTED]'' = Panic"
proof -
  let ?s = "''API_KEY=abcdefghijkl''" and ?d = "detector_for [''key'', ''token'']"
  have "scan two_key_engine ?d ?s =
      Some [\<lparr>lm_pattern_name = ''key'', lm_start = 0, lm_end = 20, lm_preview = ''API_KEY=ab...''\<rparr>,
            \<lparr>lm_pattern_name = ''token'', lm_start = 8, lm_end = 20, lm_preview = ''abcdefghij...''\<rparr>]"
    by (simp add: scan_def no_built_in_matches)
      (simp add: detector_for_def two_key_engine_def find_iter_def preview_def slice_to_def text_span_def
        is_char_boundary_def is_char_start_def)
  from overlapping_secrets_panic [OF disjI1 [OF this]] show ?thesis by simp
qed

subsection \<open>Long outputs\<close>

lemma boundary_at_most_ge: "is_char_boundary s k \<Longrightarrow> k \<le> n \<Longrightarrow> k \<le> boundary_at_most s n"
  by (induction n) (auto simp: le_Suc_eq)

text \<open>A tool that pads its output past the limit has any text passed on verbatim: the output is cut and returned before the text is searched for secrets, checked against the policy or searched for injections, whatever these would have found.\<close>

theorem padded_output_unchecked:
  assumes "length p \<le> sc_max_output_length (sl_config l)"
    and "sc_max_output_length (sl_config l) < length (p @ q)" and "is_char_boundary (p @ q) (length p)"
  shows "\<exists>r ws. sanitize_tool_output e l (p @ q) = Some \<lparr>so_content = p @ r, so_action = SanTruncated, so_warnings = ws\<rparr>"
proof -
  let ?n = "boundary_at_most (p @ q) (sc_max_output_length (sl_config l))"
  have "floor_char_boundary (p @ q) (sc_max_output_length (sl_config l)) = p @ take (?n - length p) q"
    using boundary_at_most_ge [OF assms(3,1)] assms(2) by (simp add: floor_char_boundary_def)
  then show ?thesis using assms(2) by (simp add: sanitize_tool_output_def Let_def)
qed

lemma padded_output_unchecked_witness:
  "\<exists>r ws. sanitize_tool_output two_key_engine
      (safety_with_config two_key_engine (safety_config_default\<lparr>sc_max_output_length := 10\<rparr>))
      (''key=secret'' @ ''...'') = Some \<lparr>so_content = ''key=secret'' @ r, so_action = SanTruncated, so_warnings = ws\<rparr>"
  by (rule padded_output_unchecked)
    (simp_all add: safety_with_config_def is_char_boundary_def is_char_start_def)

end
