(* ===== verification/Agent_Spec.thy ===== *)
theory Agent_Spec
  imports Agent Egress
begin

section \<open>Specifications of agents\<close>

text \<open>
  Models \<^verbatim>\<open>src/agent/spec.rs\<close>, with the defaults of the fields a file leaves out, and the
  configuration and budget an agent takes from its specification. Reading TOML is left out.
\<close>

record agent_meta =
  am_name :: string
  am_description :: string
  am_version :: string

record model_spec =
  mo_name :: string
  mo_max_tokens :: u32
  mo_temperature :: f64
  mo_system_prompt :: string
  mo_context_window :: "u32 option"

definition model_spec_default :: model_spec where
  "model_spec_default =
     \<lparr>mo_name = ''llama-3.2-3b'', mo_max_tokens = 2048, mo_temperature = f32_lit 7 10,
      mo_system_prompt = [], mo_context_window = None\<rparr>"

record capabilities_spec =
  cs_web_access :: bool
  cs_storage :: bool
  cs_vector_memory :: bool
  cs_tool_building :: bool

record budget_spec =
  bu_per_request :: f64
  bu_per_hour :: f64
  bu_per_day :: f64
  bu_total :: f64

definition budget_spec_default :: budget_spec where
  "budget_spec_default =
     \<lparr>bu_per_request = f_of_int 2, bu_per_hour = f_of_int 20, bu_per_day = f_of_int 100,
      bu_total = f_of_int 1000\<rparr>"

record tools_spec =
  tos_builtin :: "string list"
  tos_allowed_commands :: "string list"

record channels_spec =
  chs_repl :: bool
  chs_websocket :: bool
  chs_webhook :: bool

record memory_spec =
  ms_collection :: string
  ms_embedding_model :: string

record cron_routine =
  crr_schedule :: string
  crr_task :: string

record routines_spec =
  ros_cron :: "cron_routine list"

record agent_spec =
  as_agent :: agent_meta
  as_model :: model_spec
  as_capabilities :: capabilities_spec
  as_budget :: budget_spec
  as_tools :: tools_spec
  as_channels :: channels_spec
  as_memory :: "memory_spec option"
  as_routines :: "routines_spec option"
  as_network_policy :: "network_policy_spec option"

subsection \<open>What an agent takes from it\<close>

definition default_context_window :: u32 where
  "default_context_window = 4096"

text \<open>The identifier has the first 12 characters of a UUID without its hyphens.\<close>

definition config_from_spec :: "string \<Rightarrow> agent_spec \<Rightarrow> agent_config" where
  "config_from_spec uuid s =
     \<lparr>ac_id = ''agent_'' @ take 12 (filter (\<lambda>c. c \<noteq> CHR ''-'') uuid),
      ac_name = am_name (as_agent s), ac_model = mo_name (as_model s),
      ac_max_tokens = mo_max_tokens (as_model s), ac_temperature = mo_temperature (as_model s),
      ac_system_prompt = mo_system_prompt (as_model s), ac_allowed_tools = tos_builtin (as_tools s),
      ac_context_window =
        (case mo_context_window (as_model s) of None \<Rightarrow> default_context_window | Some n \<Rightarrow> n)\<rparr>"

definition budget_from_spec :: "timestamp \<Rightarrow> agent_spec \<Rightarrow> budget_tracker" where
  "budget_from_spec now s =
     budget_new now (bu_per_request (as_budget s)) (bu_per_hour (as_budget s))
       (bu_per_day (as_budget s)) (bu_total (as_budget s))"

end
