(* ===== verification/Prompts.thy ===== *)
theory Prompts
  imports Text
begin

section \<open>Prompt templates\<close>

text \<open>
  Models \<^verbatim>\<open>src/prompts/{mod,bundle}.rs\<close>: the fragments of the prompts, each of which a file of the same
  name replaces, and the substitution of their placeholders. The built-in texts and the files are
  parameters.
\<close>

record prompt_bundle =
  pb_agentic_system_intro :: string
  pb_agentic_mcp_only_intro :: string
  pb_agentic_tools_header :: string
  pb_agentic_mcp_tools_header :: string
  pb_unified_final_turn_suffix :: string
  pb_unified_assistant_turn_marker :: string
  pb_unified_compact_retry_suffix :: string
  pb_unified_url_fetch_nudge :: string
  pb_unified_preamble_nudge :: string
  pb_unified_empty_final_reply :: string
  pb_unified_all_calls_blocked :: string
  pb_unified_repeat_call_warning :: string
  pb_unified_merge_duplicates_notice :: string
  pb_unified_skipped_calls_notice :: string
  pb_unified_tool_results_followup :: string
  pb_unified_all_tools_failed_suffix :: string
  pb_unified_max_iters_error :: string
  pb_unified_conversation_user_label :: string
  pb_unified_tool_results_header :: string
  pb_unified_mcp_only_tool_error :: string
  pb_web_task_unified_body :: string
  pb_web_task_mcp_body :: string
  pb_web_chat_user_thread_header :: string
  pb_web_chat_active_skill_fmt :: string
  pb_web_task_skill_section_fmt :: string
  pb_agent_runtime_prior_conversation_header :: string
  pb_agent_runtime_instructions_fmt :: string
  pb_agent_runtime_task_body_suffix :: string
  pb_crew_agent_system_fmt :: string
  pb_crew_worker_prompt_fmt :: string
  pb_agent_legacy_default_name_fmt :: string
  pb_agent_legacy_tool_block :: string
  pb_agent_recalled_memories_header :: string

text \<open>The pairs are replaced one after the other, so a value may bring in a later key.\<close>

definition subst_prompt :: "string \<Rightarrow> (string \<times> string) list \<Rightarrow> string" where
  "subst_prompt template pairs =
     foldl (\<lambda>s (k, v). replace_all s ([CHR 0x7B] @ k @ [CHR 0x7D]) v) template pairs"

subsection \<open>Files instead of the built-in texts\<close>

definition read_overlay :: "(string \<Rightarrow> string option) \<Rightarrow> string \<Rightarrow> string \<Rightarrow> string" where
  "read_overlay files stem embedded =
     (case files (stem @ ''.txt'') of
        Some s \<Rightarrow> if trim s \<noteq> [] then s else embedded
      | None \<Rightarrow> embedded)"

definition load_prompts :: "prompt_bundle \<Rightarrow> (string \<Rightarrow> string option) option \<Rightarrow> prompt_bundle" where
  "load_prompts e overlay =
     (case overlay of
        None \<Rightarrow> e
      | Some files \<Rightarrow>
          \<lparr>pb_agentic_system_intro = read_overlay files ''agentic_system_intro'' (pb_agentic_system_intro e),
           pb_agentic_mcp_only_intro = read_overlay files ''agentic_mcp_only_intro'' (pb_agentic_mcp_only_intro e),
           pb_agentic_tools_header = read_overlay files ''agentic_tools_header'' (pb_agentic_tools_header e),
           pb_agentic_mcp_tools_header = read_overlay files ''agentic_mcp_tools_header'' (pb_agentic_mcp_tools_header e),
           pb_unified_final_turn_suffix = read_overlay files ''unified_final_turn_suffix'' (pb_unified_final_turn_suffix e),
           pb_unified_assistant_turn_marker = read_overlay files ''unified_assistant_turn_marker'' (pb_unified_assistant_turn_marker e),
           pb_unified_compact_retry_suffix = read_overlay files ''unified_compact_retry_suffix'' (pb_unified_compact_retry_suffix e),
           pb_unified_url_fetch_nudge = read_overlay files ''unified_url_fetch_nudge'' (pb_unified_url_fetch_nudge e),
           pb_unified_preamble_nudge = read_overlay files ''unified_preamble_nudge'' (pb_unified_preamble_nudge e),
           pb_unified_empty_final_reply = read_overlay files ''unified_empty_final_reply'' (pb_unified_empty_final_reply e),
           pb_unified_all_calls_blocked = read_overlay files ''unified_all_calls_blocked'' (pb_unified_all_calls_blocked e),
           pb_unified_repeat_call_warning = read_overlay files ''unified_repeat_call_warning'' (pb_unified_repeat_call_warning e),
           pb_unified_merge_duplicates_notice = read_overlay files ''unified_merge_duplicates_notice'' (pb_unified_merge_duplicates_notice e),
           pb_unified_skipped_calls_notice = read_overlay files ''unified_skipped_calls_notice'' (pb_unified_skipped_calls_notice e),
           pb_unified_tool_results_followup = read_overlay files ''unified_tool_results_followup'' (pb_unified_tool_results_followup e),
           pb_unified_all_tools_failed_suffix = read_overlay files ''unified_all_tools_failed_suffix'' (pb_unified_all_tools_failed_suffix e),
           pb_unified_max_iters_error = read_overlay files ''unified_max_iters_error'' (pb_unified_max_iters_error e),
           pb_unified_conversation_user_label = read_overlay files ''unified_conversation_user_label'' (pb_unified_conversation_user_label e),
           pb_unified_tool_results_header = read_overlay files ''unified_tool_results_header'' (pb_unified_tool_results_header e),
           pb_unified_mcp_only_tool_error = read_overlay files ''unified_mcp_only_tool_error'' (pb_unified_mcp_only_tool_error e),
           pb_web_task_unified_body = read_overlay files ''web_task_unified_body'' (pb_web_task_unified_body e),
           pb_web_task_mcp_body = read_overlay files ''web_task_mcp_body'' (pb_web_task_mcp_body e),
           pb_web_chat_user_thread_header = read_overlay files ''web_chat_user_thread_header'' (pb_web_chat_user_thread_header e),
           pb_web_chat_active_skill_fmt = read_overlay files ''web_chat_active_skill_fmt'' (pb_web_chat_active_skill_fmt e),
           pb_web_task_skill_section_fmt = read_overlay files ''web_task_skill_section_fmt'' (pb_web_task_skill_section_fmt e),
           pb_agent_runtime_prior_conversation_header = read_overlay files ''agent_runtime_prior_conversation_header'' (pb_agent_runtime_prior_conversation_header e),
           pb_agent_runtime_instructions_fmt = read_overlay files ''agent_runtime_instructions_fmt'' (pb_agent_runtime_instructions_fmt e),
           pb_agent_runtime_task_body_suffix = read_overlay files ''agent_runtime_task_body_suffix'' (pb_agent_runtime_task_body_suffix e),
           pb_crew_agent_system_fmt = read_overlay files ''crew_agent_system_fmt'' (pb_crew_agent_system_fmt e),
           pb_crew_worker_prompt_fmt = read_overlay files ''crew_worker_prompt_fmt'' (pb_crew_worker_prompt_fmt e),
           pb_agent_legacy_default_name_fmt = read_overlay files ''agent_legacy_default_name_fmt'' (pb_agent_legacy_default_name_fmt e),
           pb_agent_legacy_tool_block = read_overlay files ''agent_legacy_tool_block'' (pb_agent_legacy_tool_block e),
           pb_agent_recalled_memories_header = read_overlay files ''agent_recalled_memories_header'' (pb_agent_recalled_memories_header e)\<rparr>)"

text \<open>The directory of the files: the configured one, that of the environment, the default.\<close>

definition expand_home :: "string option \<Rightarrow> string \<Rightarrow> string" where
  "expand_home home path =
     (if starts_with path ''~/''
      then (case home of Some h \<Rightarrow> path_join h (drop 2 path) | None \<Rightarrow> path)
      else path)"

definition resolve_prompt_overlay_dir ::
    "(string \<Rightarrow> bool) \<Rightarrow> string option \<Rightarrow> string option \<Rightarrow> string option \<Rightarrow> string \<Rightarrow> string option" where
  "resolve_prompt_overlay_dir is_dir home configured env base =
     find is_dir
       ((case configured of Some p \<Rightarrow> [expand_home home p] | None \<Rightarrow> []) @
        (case env of Some p \<Rightarrow> [trim p] | None \<Rightarrow> []) @ [path_join base ''prompts''])"

subsection \<open>Filled templates\<close>

definition web_task_unified :: "prompt_bundle \<Rightarrow> string \<Rightarrow> string \<Rightarrow> string" where
  "web_task_unified p description skill_block =
     subst_prompt (pb_web_task_unified_body p) [(''description'', description), (''skill_block'', skill_block)]"

definition web_task_mcp :: "prompt_bundle \<Rightarrow> string \<Rightarrow> string \<Rightarrow> string" where
  "web_task_mcp p description skill_block =
     subst_prompt (pb_web_task_mcp_body p) [(''description'', description), (''skill_block'', skill_block)]"

definition web_chat_active_skill :: "prompt_bundle \<Rightarrow> string \<Rightarrow> string \<Rightarrow> string" where
  "web_chat_active_skill p name content =
     subst_prompt (pb_web_chat_active_skill_fmt p) [(''name'', name), (''content'', content)]"

definition web_task_skill_section :: "prompt_bundle \<Rightarrow> string \<Rightarrow> string \<Rightarrow> string \<Rightarrow> string" where
  "web_task_skill_section p skill_name task_type content =
     subst_prompt (pb_web_task_skill_section_fmt p)
       [(''skill_name'', skill_name), (''task_type'', task_type), (''content'', content)]"

definition agent_runtime_instructions_block :: "prompt_bundle \<Rightarrow> string \<Rightarrow> string" where
  "agent_runtime_instructions_block p spec = subst_prompt (pb_agent_runtime_instructions_fmt p) [(''spec'', spec)]"

definition agent_runtime_task_body :: "prompt_bundle \<Rightarrow> string \<Rightarrow> string" where
  "agent_runtime_task_body p user_input =
     subst_prompt (pb_agent_runtime_task_body_suffix p) [(''user_input'', user_input)]"

definition crew_agent_system :: "prompt_bundle \<Rightarrow> string \<Rightarrow> string \<Rightarrow> string \<Rightarrow> string" where
  "crew_agent_system p role goal backstory =
     subst_prompt (pb_crew_agent_system_fmt p) [(''role'', role), (''goal'', goal), (''backstory'', backstory)]"

definition crew_worker_prompt :: "prompt_bundle \<Rightarrow> string \<Rightarrow> string" where
  "crew_worker_prompt p summary = subst_prompt (pb_crew_worker_prompt_fmt p) [(''summary'', summary)]"

definition agent_legacy_default_name :: "prompt_bundle \<Rightarrow> string \<Rightarrow> string" where
  "agent_legacy_default_name p name = subst_prompt (pb_agent_legacy_default_name_fmt p) [(''name'', name)]"

definition unified_repeat_warning :: "prompt_bundle \<Rightarrow> string \<Rightarrow> u32 \<Rightarrow> string" where
  "unified_repeat_warning p name count =
     subst_prompt (pb_unified_repeat_call_warning p) [(''name'', name), (''count'', show_word count)]"

definition unified_merge_duplicates :: "prompt_bundle \<Rightarrow> nat \<Rightarrow> string" where
  "unified_merge_duplicates p n =
     subst_prompt (pb_unified_merge_duplicates_notice p) [(''duplicate_calls_merged'', show_nat n)]"

definition unified_skipped_calls :: "prompt_bundle \<Rightarrow> nat \<Rightarrow> nat \<Rightarrow> string" where
  "unified_skipped_calls p d most =
     subst_prompt (pb_unified_skipped_calls_notice p) [(''d'', show_nat d), (''max'', show_nat most)]"

end
