(* ===== verification/Tools.thy ===== *)
theory Tools
  imports Egress
begin

section \<open>Tools and their registry\<close>

text \<open>
  Models \<^verbatim>\<open>src/tools/{mod,tool,registry}.rs\<close>. A tool is its declared schema and what running it does
  to the world \<open>'w\<close> outside the registry; the built-in tools are parameters. JSON text is a
  parameter, as is the elapsed time the environment measures.
\<close>

subsection \<open>Types\<close>

record tool_context =
  tx_session_id :: string
  tx_job_id :: "string option"
  tx_peer_id :: string
  tx_working_dir :: string
  tx_sandboxed :: bool
  tx_available_secrets :: "string list"
  tx_node_tools :: bool \<comment> \<open>a sender to the running node is present\<close>
  tx_egress_policy :: "egress_policy option"
  tx_agent_depth :: u32

definition context_local :: "string \<Rightarrow> string \<Rightarrow> string \<Rightarrow> tool_context" where
  "context_local session dir peer =
     \<lparr>tx_session_id = session, tx_job_id = None, tx_peer_id = peer, tx_working_dir = dir,
      tx_sandboxed = False, tx_available_secrets = [], tx_node_tools = False,
      tx_egress_policy = None, tx_agent_depth = 0\<rparr>"

definition context_for_job :: "string \<Rightarrow> string \<Rightarrow> string \<Rightarrow> string \<Rightarrow> tool_context" where
  "context_for_job session dir peer job =
     \<lparr>tx_session_id = session, tx_job_id = Some job, tx_peer_id = peer, tx_working_dir = dir,
      tx_sandboxed = False, tx_available_secrets = [], tx_node_tools = False,
      tx_egress_policy = None, tx_agent_depth = 0\<rparr>"

datatype tool_error =
    InvalidParameters string
  | ExecutionFailed string
  | ToolTimeout u64
  | NotAuthorized string
  | RateLimited u64
  | ExternalService string
  | CapabilityDenied string
  | ToolNotFound string
  | ToolInternal string

fun tool_error_text :: "tool_error \<Rightarrow> string" where
  "tool_error_text (InvalidParameters s) = ''Invalid parameters: '' @ s"
| "tool_error_text (ExecutionFailed s) = ''Execution failed: '' @ s"
| "tool_error_text (ToolTimeout n) = ''Timeout after '' @ show_word n @ '' seconds''"
| "tool_error_text (NotAuthorized s) = ''Not authorized: '' @ s"
| "tool_error_text (RateLimited n) = ''Rate limited, retry after '' @ show_word n @ '' seconds''"
| "tool_error_text (ExternalService s) = ''External service error: '' @ s"
| "tool_error_text (CapabilityDenied s) = ''Capability denied: '' @ s"
| "tool_error_text (ToolNotFound s) = ''Tool not found: '' @ s"
| "tool_error_text (ToolInternal s) = ''Internal error: '' @ s"

record tool_output =
  to_success :: bool
  to_data :: json
  to_message :: "string option"
  to_duration_ms :: u64
  to_warnings :: "string list"

definition output_success :: "json \<Rightarrow> u64 \<Rightarrow> tool_output" where
  "output_success data ms =
     \<lparr>to_success = True, to_data = data, to_message = None, to_duration_ms = ms, to_warnings = []\<rparr>"

definition output_text :: "string \<Rightarrow> u64 \<Rightarrow> tool_output" where
  "output_text msg ms =
     \<lparr>to_success = True, to_data = json_object [(''text'', JString msg)], to_message = Some msg,
      to_duration_ms = ms, to_warnings = []\<rparr>"

definition output_failure :: "string \<Rightarrow> u64 \<Rightarrow> tool_output" where
  "output_failure err ms =
     \<lparr>to_success = False, to_data = json_object [(''error'', JString err)], to_message = Some err,
      to_duration_ms = ms, to_warnings = []\<rparr>"

definition with_warning :: "string \<Rightarrow> tool_output \<Rightarrow> tool_output" where
  "with_warning w out = out\<lparr>to_warnings := to_warnings out @ [w]\<rparr>"

datatype approval_requirement = ApprovalNever | UnlessAutoApproved | ApprovalAlways

datatype tool_domain = DomainAny | DomainLocal | DomainRemote

datatype tool_location = LocationLocal | LocationRemote | LocationAuto

record tool_result =
  tres_output :: tool_output
  tres_executed_by :: string
  tres_location :: tool_location
  tres_execution_time_ms :: u64
  tres_tokens_consumed :: "u64 option"

record tool_capabilities =
  tcap_http_access :: bool
  tcap_http_allowlist :: "string list"
  tcap_file_read :: bool
  tcap_file_write :: bool
  tcap_shell_access :: bool
  tcap_secrets_access :: bool
  tcap_tool_invocation :: bool
  tcap_max_execution_time :: "nat option" \<comment> \<open>seconds\<close>
  tcap_max_memory_mb :: "u32 option"

definition capabilities_full :: tool_capabilities where
  "capabilities_full =
     \<lparr>tcap_http_access = True, tcap_http_allowlist = [''*''], tcap_file_read = True,
      tcap_file_write = True, tcap_shell_access = True, tcap_secrets_access = True,
      tcap_tool_invocation = True, tcap_max_execution_time = None, tcap_max_memory_mb = None\<rparr>"

definition capabilities_read_only :: tool_capabilities where
  "capabilities_read_only =
     \<lparr>tcap_http_access = False, tcap_http_allowlist = [], tcap_file_read = True,
      tcap_file_write = False, tcap_shell_access = False, tcap_secrets_access = False,
      tcap_tool_invocation = False, tcap_max_execution_time = Some 30, tcap_max_memory_mb = Some 128\<rparr>"

definition capabilities_network_only :: "string list \<Rightarrow> tool_capabilities" where
  "capabilities_network_only hosts =
     \<lparr>tcap_http_access = True, tcap_http_allowlist = hosts, tcap_file_read = False,
      tcap_file_write = False, tcap_shell_access = False, tcap_secrets_access = False,
      tcap_tool_invocation = False, tcap_max_execution_time = Some 60, tcap_max_memory_mb = Some 64\<rparr>"

record 'w tool =
  tl_name :: string
  tl_description :: string
  tl_schema :: json
  tl_domain :: tool_domain
  tl_execute :: "json \<Rightarrow> tool_context \<Rightarrow> 'w \<Rightarrow> (tool_output, tool_error) outcome \<times> 'w"

subsection \<open>Parameters\<close>

definition require_str :: "json \<Rightarrow> string \<Rightarrow> tool_error + string" where
  "require_str p k =
     (case get_str k p of
        Some s \<Rightarrow> Inr s
      | None \<Rightarrow> Inl (InvalidParameters (''Missing required parameter: '' @ k)))"

definition optional_str :: "json \<Rightarrow> string \<Rightarrow> string option" where
  "optional_str p k = get_str k p"

definition require_i64 :: "json \<Rightarrow> string \<Rightarrow> tool_error + int" where
  "require_i64 p k =
     (case Option.bind (json_get k p) as_i64 of
        Some n \<Rightarrow> Inr n
      | None \<Rightarrow> Inl (InvalidParameters (''Missing required integer: '' @ k)))"

definition optional_i64 :: "json \<Rightarrow> string \<Rightarrow> int \<Rightarrow> int" where
  "optional_i64 p k d = (case Option.bind (json_get k p) as_i64 of Some n \<Rightarrow> n | None \<Rightarrow> d)"

definition require_bool :: "json \<Rightarrow> string \<Rightarrow> tool_error + bool" where
  "require_bool p k =
     (case Option.bind (json_get k p) as_bool of
        Some b \<Rightarrow> Inr b
      | None \<Rightarrow> Inl (InvalidParameters (''Missing required boolean: '' @ k)))"

definition optional_bool :: "json \<Rightarrow> string \<Rightarrow> bool \<Rightarrow> bool" where
  "optional_bool p k d = (case Option.bind (json_get k p) as_bool of Some b \<Rightarrow> b | None \<Rightarrow> d)"

text \<open>The strings of an array under a key; \<open>None\<close> when there is no array.\<close>

definition str_array :: "string \<Rightarrow> json \<Rightarrow> string list option" where
  "str_array k j = map_option (List.map_filter as_str) (Option.bind (json_get k j) as_array)"

definition quoted :: "string \<Rightarrow> string" where
  "quoted s = [CHR 0x60] @ s @ [CHR 0x60]"

definition param_detail :: "json option \<Rightarrow> string \<Rightarrow> string" where
  "param_detail props key =
     (case Option.bind (Option.bind (Option.bind props as_object) (\<lambda>m. map_of m key)) as_object of
        None \<Rightarrow> ''required''
      | Some prop \<Rightarrow>
          let vals = (case str_array ''enum'' (JObject prop) of None \<Rightarrow> [] | Some v \<Rightarrow> v)
          in if vals \<noteq> [] \<and> length vals \<le> 8 then ''one of '' @ join_with ''|'' vals
             else (case get_str ''description'' (JObject prop) of
                     None \<Rightarrow> ''string''
                   | Some d \<Rightarrow> if d = [] then ''string'' else d))"

definition parameter_schema_prompt_hint :: "json \<Rightarrow> string" where
  "parameter_schema_prompt_hint schema =
     (case as_object schema of
        None \<Rightarrow> []
      | Some m \<Rightarrow>
          let required = (case str_array ''required'' schema of None \<Rightarrow> [] | Some r \<Rightarrow> r)
          in if required = [] then ''no required keys ('' @ quoted ''{}'' @ '' is OK)''
             else join_with '', ''
               (map (\<lambda>k. quoted k @ '' ('' @ param_detail (map_of m ''properties'') k @ '')'') required))"

subsection \<open>The registry\<close>

record network_tool_info =
  nt_name :: string
  nt_peer_id :: string
  nt_price_per_call :: u64
  nt_avg_latency_ms :: u32
  nt_reliability :: u8
  nt_last_seen :: timestamp

record tool_stats =
  ts_total_calls :: u64
  ts_successful_calls :: u64
  ts_failed_calls :: u64
  ts_total_time_ms :: u64
  ts_tokens_earned :: u64
  ts_tokens_spent :: u64

definition tool_stats_default :: tool_stats where
  "tool_stats_default =
     \<lparr>ts_total_calls = 0, ts_successful_calls = 0, ts_failed_calls = 0, ts_total_time_ms = 0,
      ts_tokens_earned = 0, ts_tokens_spent = 0\<rparr>"

record wasm_tool_entry =
  wte_name :: string
  wte_description :: string
  wte_schema :: json
  wte_capabilities :: tool_capabilities
  wte_path :: string

record 'w tool_registry =
  tr_local_peer_id :: string
  tr_builtin :: "(string, 'w tool) hmap"
  tr_wasm :: "(string, wasm_tool_entry) hmap"
  tr_network :: "(string, network_tool_info list) hmap"
  tr_stats :: "(string, tool_stats) hmap"

record tool_info =
  ti_name :: string
  ti_description :: string
  ti_domain :: tool_domain
  ti_location :: tool_location
  ti_price :: u64
  ti_peer_id :: "string option"
  ti_required_params :: "string list"

definition register_builtin :: "'w tool \<Rightarrow> 'w tool_registry \<Rightarrow> 'w tool_registry" where
  "register_builtin t r = r\<lparr>tr_builtin := hm_insert (tl_name t) t (tr_builtin r)\<rparr>"

definition registry_new :: "string \<Rightarrow> 'w tool list \<Rightarrow> 'w tool_registry" where
  "registry_new peer builtins =
     foldl (\<lambda>r t. register_builtin t r)
       \<lparr>tr_local_peer_id = peer, tr_builtin = [], tr_wasm = [], tr_network = [], tr_stats = []\<rparr> builtins"

definition get_tool :: "'w tool_registry \<Rightarrow> string \<Rightarrow> 'w tool option" where
  "get_tool r name = hm_get (tr_builtin r) name"

fun required_json_value_missing :: "json option \<Rightarrow> bool" where
  "required_json_value_missing None = True"
| "required_json_value_missing (Some JNull) = True"
| "required_json_value_missing (Some (JString s)) = (trim s = [])"
| "required_json_value_missing (Some (JArray a)) = (a = [])"
| "required_json_value_missing _ = False"

text \<open>The first required key that is missing or empty.\<close>

definition missing_key :: "json list \<Rightarrow> json_map \<Rightarrow> string option" where
  "missing_key req m =
     find (\<lambda>k. required_json_value_missing (map_of m k)) (List.map_filter as_str req)"

definition precheck_local_params ::
    "(json \<Rightarrow> string) \<Rightarrow> 'w tool_registry \<Rightarrow> string \<Rightarrow> json \<Rightarrow> string + unit" where
  "precheck_local_params text r name params =
     (case get_tool r name of
        None \<Rightarrow> Inr ()
      | Some t \<Rightarrow>
          (case Option.bind (json_get ''required'' (tl_schema t)) as_array of
             None \<Rightarrow> Inr ()
           | Some req \<Rightarrow>
               let hint = parameter_schema_prompt_hint (tl_schema t)
               in (case as_object params of
                     None \<Rightarrow>
                       Inl (quoted name @ '' expects a JSON object for '' @ quoted ''args'' @ '', got '' @
                            (if params = JNull then ''null'' else text params) @ ''. Required: '' @ hint)
                   | Some m \<Rightarrow>
                       (case missing_key req m of
                          Some k \<Rightarrow>
                            Inl (''missing or empty required parameter '' @ quoted k @ '' for '' @
                                 quoted name @ ''. Required: '' @ hint)
                        | None \<Rightarrow>
                            if name = ''json'' \<and> get_str ''action'' params = Some ''query'' \<and>
                               required_json_value_missing (map_of m ''query'')
                            then Inl (''missing or empty required parameter '' @ quoted ''query'' @ '' for '' @
                                 quoted ''json'' @ '' when action is '' @ [CHR 0x22] @ ''query'' @ [CHR 0x22] @
                                 ''. Required: '' @ hint)
                            else Inr ()))))"

definition builtin_parameter_hints :: "'w tool_registry \<Rightarrow> (string \<times> string) list" where
  "builtin_parameter_hints r =
     stable_sort (\<lambda>a b. str_less (fst a) (fst b)) (map (\<lambda>(n, t). (n, parameter_schema_prompt_hint (tl_schema t))) (tr_builtin r))"

definition list_tools :: "'w tool_registry \<Rightarrow> tool_info list" where
  "list_tools r =
     map (\<lambda>(n, t).
       \<lparr>ti_name = n, ti_description = tl_description t, ti_domain = tl_domain t,
        ti_location = LocationLocal, ti_price = 0, ti_peer_id = Some (tr_local_peer_id r),
        ti_required_params = (case str_array ''required'' (tl_schema t) of None \<Rightarrow> [] | Some v \<Rightarrow> v)\<rparr>)
       (tr_builtin r) @
     map (\<lambda>(n, w).
       \<lparr>ti_name = n, ti_description = wte_description w, ti_domain = DomainLocal,
        ti_location = LocationLocal, ti_price = 0, ti_peer_id = Some (tr_local_peer_id r),
        ti_required_params = []\<rparr>) (tr_wasm r) @
     List.map_filter (\<lambda>(n, ps).
       case ps of
         [] \<Rightarrow> None
       | p # _ \<Rightarrow>
           Some \<lparr>ti_name = n, ti_description = ''Remote tool from '' @ nt_peer_id p, ti_domain = DomainRemote,
                 ti_location = LocationRemote, ti_price = nt_price_per_call p,
                 ti_peer_id = Some (nt_peer_id p), ti_required_params = []\<rparr>) (tr_network r)"

subsection \<open>Running a tool\<close>

record tool_env =
  te_parse :: url_parser
  te_json_text :: "json \<Rightarrow> string"
  te_elapsed_stats :: u64
  te_elapsed_result :: u64

definition egress_denial ::
    "tool_env \<Rightarrow> string \<Rightarrow> json \<Rightarrow> tool_context \<Rightarrow> egress_denied option" where
  "egress_denial e name params ctx =
     (if is_network_tool name
      then
        (case (tx_egress_policy ctx, get_str ''url'' params) of
           (Some policy, Some url) \<Rightarrow>
             (case check_egress_with_method (te_parse e) policy url name (get_str ''method'' params) of
                Inl d \<Rightarrow> Some d
              | Inr _ \<Rightarrow> None)
         | _ \<Rightarrow> None)
      else None)"

definition record_call :: "string \<Rightarrow> bool \<Rightarrow> u64 \<Rightarrow> 'w tool_registry \<Rightarrow> 'w tool_registry" where
  "record_call name success ms r =
     (let s = hm_get_or tool_stats_default (tr_stats r) name;
          s = s\<lparr>ts_total_calls := ts_total_calls s + 1\<rparr>;
          s = (if success then s\<lparr>ts_successful_calls := ts_successful_calls s + 1\<rparr>
               else s\<lparr>ts_failed_calls := ts_failed_calls s + 1\<rparr>);
          s = s\<lparr>ts_total_time_ms := ts_total_time_ms s + ms\<rparr>
      in r\<lparr>tr_stats := hm_insert name s (tr_stats r)\<rparr>)"

definition execute_local ::
    "tool_env \<Rightarrow> string \<Rightarrow> json \<Rightarrow> tool_context \<Rightarrow> 'w tool_registry \<Rightarrow> 'w \<Rightarrow>
       (tool_result, tool_error) outcome \<times> 'w tool_registry \<times> 'w" where
  "execute_local e name params ctx r w =
     (case precheck_local_params (te_json_text e) r name params of
        Inl x \<Rightarrow> (Err (InvalidParameters x), r, w)
      | Inr _ \<Rightarrow>
          (case egress_denial e name params ctx of
             Some d \<Rightarrow> (Err (NotAuthorized (egress_denied_text d)), r, w)
           | None \<Rightarrow>
               (case get_tool r name of
                  None \<Rightarrow> (Err (ToolNotFound name), r, w)
                | Some t \<Rightarrow>
                    (case tl_execute t params ctx w of
                       (Err x, w) \<Rightarrow> (Err x, r, w)
                     | (Panic, w) \<Rightarrow> (Panic, r, w)
                     | (Ok out, w) \<Rightarrow>
                         (Ok \<lparr>tres_output = out, tres_executed_by = tr_local_peer_id r,
                              tres_location = LocationLocal, tres_execution_time_ms = te_elapsed_result e,
                              tres_tokens_consumed = None\<rparr>,
                          record_call name (to_success out) (te_elapsed_stats e) r, w)))))"

subsection \<open>Tools of other peers\<close>

definition network_score :: "network_tool_info \<Rightarrow> f64" where
  "network_score p =
     f_div (f_of_u64 (nt_price_per_call p)) (f_add (f_of_int (uint (nt_reliability p))) (f_of_int 1))"

definition register_network_tool :: "network_tool_info \<Rightarrow> 'w tool_registry \<Rightarrow> 'w tool_registry" where
  "register_network_tool info r =
     (let ps = hm_get_or [] (tr_network r) (nt_name info);
          ps = (if list_ex (\<lambda>p. nt_peer_id p = nt_peer_id info) ps
                then replace_first (\<lambda>p. nt_peer_id p = nt_peer_id info) info ps
                else ps @ [info])
      in r\<lparr>tr_network := hm_insert (nt_name info) (stable_sort (\<lambda>a b. f_lt (network_score a) (network_score b)) ps) (tr_network r)\<rparr>)"

definition best_provider :: "'w tool_registry \<Rightarrow> string \<Rightarrow> network_tool_info option" where
  "best_provider r name =
     (case hm_get (tr_network r) name of
        Some (p # _) \<Rightarrow> Some p
      | _ \<Rightarrow> None)"

definition get_stats :: "'w tool_registry \<Rightarrow> string \<Rightarrow> tool_stats option" where
  "get_stats r name = hm_get (tr_stats r) name"

definition builtin_names :: "'w tool_registry \<Rightarrow> string list" where
  "builtin_names r = map fst (tr_builtin r)"

definition count_tools :: "'w tool_registry \<Rightarrow> nat" where
  "count_tools r = length (tr_builtin r) + length (tr_wasm r) + length (tr_network r)"

text \<open>Ages are differences of times, in nanoseconds.\<close>

definition cleanup_stale_tools :: "timestamp \<Rightarrow> int \<Rightarrow> 'w tool_registry \<Rightarrow> 'w tool_registry" where
  "cleanup_stale_tools now max_age r =
     r\<lparr>tr_network := hm_retain (\<lambda>_ ps. ps \<noteq> [])
         (map (\<lambda>(n, ps). (n, filter (\<lambda>p. now - nt_last_seen p < max_age) ps)) (tr_network r))\<rparr>"

subsection \<open>Facts\<close>

lemma execute_local_denied:
  "egress_denial e name params ctx = Some d \<Longrightarrow>
     \<exists>x. execute_local e name params ctx r w = (Err x, r, w)"
  by (auto simp: execute_local_def split: sum.split)

lemma execute_local_world:
  assumes "snd (snd (execute_local e name params ctx r w)) \<noteq> w"
  obtains t where "get_tool r name = Some t" and "egress_denial e name params ctx = None"
    and "precheck_local_params (te_json_text e) r name params = Inr ()"
  using assms by (auto simp: execute_local_def split: sum.splits option.splits)

end
