(* ===== verification/Tool_Calls.thy ===== *)
theory Tool_Calls
  imports Json Regex_Engine
begin

section \<open>Tool calls in a model's text\<close>

text \<open>
  Models the parser of \<^verbatim>\<open>src/agent/runtime.rs\<close>: the blocks between \<^verbatim>\<open><tool_call>\<close> tags, the other
  formats models write, and the text that remains as the answer. The parser of JSON text is a
  parameter, the regular expressions are those of the source.
\<close>

record parsed_tool_call =
  pt_name :: string
  pt_args :: json

definition open_tag :: string where
  "open_tag = ''<tool_call>''"

definition close_tag :: string where
  "close_tag = ''</tool_call>''"

subsection \<open>One block\<close>

text \<open>\<open>lines()\<close>: a line break ends a line, a carriage return before it is dropped.\<close>

definition drop_cr :: "string \<Rightarrow> string" where
  "drop_cr s = (if s \<noteq> [] \<and> last s = CHR 0x0D then butlast s else s)"

definition str_lines :: "string \<Rightarrow> string list" where
  "str_lines s =
     (let ls = split_on (\<lambda>c. c = CHR 0x0A) s
      in map drop_cr (butlast ls) @ (if last ls = [] then [] else [last ls]))"

definition strip_prefix :: "string \<Rightarrow> string \<Rightarrow> string option" where
  "strip_prefix pre s = (if starts_with s pre then Some (drop (length pre) s) else None)"

record block_state =
  bs_name :: "string option"
  bs_args :: json
  bs_acc :: "string list"
  bs_in_args :: bool

definition flush_tool_call_arg_buffer :: "(string \<Rightarrow> json option) \<Rightarrow> block_state \<Rightarrow> block_state" where
  "flush_tool_call_arg_buffer parse b =
     (if bs_acc b = [] then b
      else (case parse (join_with [CHR 0x0A] (bs_acc b)) of
              Some v \<Rightarrow> b\<lparr>bs_args := v, bs_acc := []\<rparr>
            | None \<Rightarrow> b))"

definition block_line :: "(string \<Rightarrow> json option) \<Rightarrow> block_state \<Rightarrow> string \<Rightarrow> block_state" where
  "block_line parse b line =
     (let line = trim line;
          flushed = (if bs_in_args b then flush_tool_call_arg_buffer parse b else b)
      in if line = [] then b
         else (case strip_prefix ''name:'' line of
           Some n \<Rightarrow> flushed\<lparr>bs_in_args := False, bs_acc := [], bs_name := Some (trim n)\<rparr>
         | None \<Rightarrow>
             (case strip_prefix ''args:'' line of
                Some rest \<Rightarrow>
                  flush_tool_call_arg_buffer parse
                    (flushed\<lparr>bs_in_args := True, bs_acc := (if trim rest = [] then [] else [trim rest])\<rparr>)
              | None \<Rightarrow>
                  if bs_in_args b
                  then flush_tool_call_arg_buffer parse (b\<lparr>bs_acc := bs_acc b @ [line]\<rparr>) else b)))"

definition parse_tool_call_block :: "(string \<Rightarrow> json option) \<Rightarrow> string \<Rightarrow> parsed_tool_call option" where
  "parse_tool_call_block parse block =
     (let b = foldl (block_line parse)
            \<lparr>bs_name = None, bs_args = JObject [], bs_acc = [], bs_in_args = False\<rparr> (str_lines block);
          b = (if bs_in_args b then flush_tool_call_arg_buffer parse b else b)
      in map_option (\<lambda>n. \<lparr>pt_name = n, pt_args = bs_args b\<rparr>) (bs_name b))"

subsection \<open>The blocks of a text\<close>

function parse_standard_tool_calls :: "(string \<Rightarrow> json option) \<Rightarrow> string \<Rightarrow> parsed_tool_call list" where
  "parse_standard_tool_calls parse text =
     (case str_find text open_tag of
        None \<Rightarrow> []
      | Some start \<Rightarrow>
          let after = drop (start + length open_tag) text
          in (case str_find after close_tag of
                None \<Rightarrow> []
              | Some e \<Rightarrow>
                  (case parse_tool_call_block parse (trim (take e after)) of
                     Some c \<Rightarrow> c # parse_standard_tool_calls parse (drop (e + length close_tag) after)
                   | None \<Rightarrow> parse_standard_tool_calls parse (drop (e + length close_tag) after))))"
  by pat_completeness auto
termination
  by (relation "measure (\<lambda>(parse, text). length text)")
    (auto dest!: str_find_bound simp: open_tag_def close_tag_def)

declare parse_standard_tool_calls.simps [simp del]

subsection \<open>Other formats\<close>

text \<open>
  \<open>find_case_insensitive\<close> on a haystack that is not shorter than the needle; the only call follows a
  match of the attribute \<^verbatim>\<open>action\<close>, which is longer than the needle.
\<close>

fun find_case_insensitive :: "string \<Rightarrow> string \<Rightarrow> nat option" where
  "find_case_insensitive [] pat = (if pat = [] then Some 0 else None)"
| "find_case_insensitive (c # s) pat =
     (if length pat \<le> length (c # s) \<and> eq_ignore_ascii_case (take (length pat) (c # s)) pat then Some 0
      else map_option Suc (find_case_insensitive s pat))"

text \<open>The bytes up to the closing quote, a backslash hiding the next byte.\<close>

fun quoted_end :: "string \<Rightarrow> nat option" where
  "quoted_end [] = None"
| "quoted_end (c # s) =
     (if c = CHR 0x5C then (case s of [] \<Rightarrow> None | _ # t \<Rightarrow> map_option (\<lambda>n. n + 2) (quoted_end t))
      else if c = CHR 0x22 then Some 0
      else map_option Suc (quoted_end s))"

text \<open>The bytes up to the brace that closes the first one.\<close>

fun braces_end :: "string \<Rightarrow> nat \<Rightarrow> nat option" where
  "braces_end [] depth = None"
| "braces_end (c # s) depth =
     (if c = CHR ''{'' then map_option Suc (braces_end s (depth + 1))
      else if c = CHR ''}'' then
        (if depth - 1 = 0 then Some 1 else map_option Suc (braces_end s (depth - 1)))
      else map_option Suc (braces_end s depth))"

definition ascii_space :: "char \<Rightarrow> bool" where
  "ascii_space c \<longleftrightarrow> c \<in> {CHR 0x20, CHR 0x09, CHR 0x0A, CHR 0x0C, CHR 0x0D}"

definition tag_input :: "(string \<Rightarrow> json option) \<Rightarrow> string \<Rightarrow> json option" where
  "tag_input parse s =
     (case dropWhile ascii_space s of
        [] \<Rightarrow> None
      | c # r \<Rightarrow>
          if c = CHR 0x22 then map_option (\<lambda>n. JString (take n r)) (quoted_end r)
          else if c = CHR ''{'' then Option.bind (braces_end (c # r) 0) (\<lambda>n. parse (take n (c # r)))
          else None)"

text \<open>The first group of the first match.\<close>

definition first_group :: "'r regex_engine \<Rightarrow> string \<Rightarrow> string \<Rightarrow> string option" where
  "first_group e pattern s =
     (case rx_captures e (rx_static e (raw pattern)) s of
        [] \<Rightarrow> None
      | c # _ \<Rightarrow> group_text s c 1)"

definition json_tag_attrs_to_tool_args ::
    "'r regex_engine \<Rightarrow> (string \<Rightarrow> json option) \<Rightarrow> string \<Rightarrow> json option" where
  \<open>json_tag_attrs_to_tool_args e parse attrs =
     (case first_group e ''(?i)action~s*=~s*"([^"]*)"'' attrs of
        None \<Rightarrow> None
      | Some action \<Rightarrow>
          if action \<notin> {''parse'', ''format'', ''query'', ''validate''} then None
          else
            (case find_case_insensitive attrs ''input='' of
               None \<Rightarrow> None
             | Some p \<Rightarrow>
                 (case tag_input parse (drop (p + 6) attrs) of
                    None \<Rightarrow> None
                  | Some input \<Rightarrow>
                      let args = [(''action'', JString action), (''input'', input)];
                          query = (if action = ''query''
                                   then first_group e ''(?i)query~s*=~s*"([^"]*)"'' attrs else None)
                      in Some (json_object (case query of
                           None \<Rightarrow> args
                         | Some q \<Rightarrow> if q = [] then args else args @ [(''query'', JString q)])))))\<close>

definition re_web_fetch_block :: "'r regex_engine \<Rightarrow> 'r" where
  \<open>re_web_fetch_block e = rx_static e (raw ''(?is)<web_fetch>~s*(.*?)</web_fetch>'')\<close>

definition re_url_in_loose_inner :: "'r regex_engine \<Rightarrow> 'r" where
  \<open>re_url_in_loose_inner e = rx_static e
     (raw ''(?i)url~s*:~s*"([^"]+)"|url~s*:~s*#([^#]+)#|(https?://[^~s"#<>]+)'')\<close>

definition re_job_status_open :: "'r regex_engine \<Rightarrow> 'r" where
  \<open>re_job_status_open e = rx_static e (raw ''(?is)<job_status~s+[^>]*?job_id~s*=~s*"([^"]+)"[^>]*>'')\<close>

definition re_loose_json_tool_open :: "'r regex_engine \<Rightarrow> 'r" where
  \<open>re_loose_json_tool_open e = rx_static e (raw ''(?is)<json~s+([^>]+)>'')\<close>

definition re_inline_tool_call :: "'r regex_engine \<Rightarrow> 'r" where
  \<open>re_inline_tool_call e = rx_static e
     (raw (''(?m)^(?:~s*name:~s*(~w+)~s*~n~s*args:~s*(~{[^~n]*~}))'' @
           ''|(?:~s*name:~s*(~w+)~s+args:~s*(~{[^~n]*~}))''))\<close>

definition re_bare_tool_call :: "'r regex_engine \<Rightarrow> 'r" where
  \<open>re_bare_tool_call e = rx_static e (raw ''([~w]+(?:[_:][~w]+)+)~s+args:~s*(~{[^~n]*~})'')\<close>

definition parse_loose_json_tool_tags ::
    "'r regex_engine \<Rightarrow> (string \<Rightarrow> json option) \<Rightarrow> string \<Rightarrow> parsed_tool_call list" where
  "parse_loose_json_tool_tags e parse text =
     List.map_filter (\<lambda>c.
       map_option (\<lambda>args. \<lparr>pt_name = ''json'', pt_args = args\<rparr>)
         (Option.bind (group_text text c 1) (json_tag_attrs_to_tool_args e parse)))
       (rx_captures e (re_loose_json_tool_open e) text)"

text \<open>A call from the group of the name and the group of the arguments.\<close>

definition call_from_groups ::
    "(string \<Rightarrow> json option) \<Rightarrow> string option \<Rightarrow> string option \<Rightarrow> parsed_tool_call option" where
  "call_from_groups parse name args =
     (case (name, args) of
        (Some n, Some a) \<Rightarrow> map_option (\<lambda>v. \<lparr>pt_name = n, pt_args = v\<rparr>) (parse a)
      | _ \<Rightarrow> None)"

definition or_else :: "'a option \<Rightarrow> 'a option \<Rightarrow> 'a option" where
  "or_else a b = (case a of None \<Rightarrow> b | Some x \<Rightarrow> Some x)"

definition parse_inline_tool_calls ::
    "'r regex_engine \<Rightarrow> (string \<Rightarrow> json option) \<Rightarrow> string \<Rightarrow> parsed_tool_call list" where
  "parse_inline_tool_calls e parse text =
     (let calls = List.map_filter (\<lambda>c.
            call_from_groups parse (or_else (group_text text c 1) (group_text text c 3))
              (or_else (group_text text c 2) (group_text text c 4)))
            (rx_captures e (re_inline_tool_call e) text)
      in if calls = []
         then List.map_filter (\<lambda>c. call_from_groups parse (group_text text c 1) (group_text text c 2))
                (rx_captures e (re_bare_tool_call e) text)
         else calls)"

definition extract_url_from_loose_fetch_inner :: "'r regex_engine \<Rightarrow> string \<Rightarrow> string option" where
  "extract_url_from_loose_fetch_inner e inner =
     (case rx_captures e (re_url_in_loose_inner e) inner of
        [] \<Rightarrow> None
      | c # _ \<Rightarrow> or_else (group_text inner c 1) (or_else (group_text inner c 2) (group_text inner c 3)))"

definition parse_loose_tool_markup ::
    "'r regex_engine \<Rightarrow> (string \<Rightarrow> json option) \<Rightarrow> string \<Rightarrow> parsed_tool_call list" where
  "parse_loose_tool_markup e parse text =
     (let calls = parse_inline_tool_calls e parse text
      in if calls \<noteq> [] then calls
         else
           parse_loose_json_tool_tags e parse text @
           List.map_filter (\<lambda>c.
             map_option (\<lambda>url. \<lparr>pt_name = ''web_fetch'', pt_args = json_object [(''url'', JString url)]\<rparr>)
               (extract_url_from_loose_fetch_inner e
                 (trim (case group_text text c 1 of None \<Rightarrow> [] | Some s \<Rightarrow> s))))
             (rx_captures e (re_web_fetch_block e) text) @
           List.map_filter (\<lambda>c.
             map_option (\<lambda>j. \<lparr>pt_name = ''job_status'', pt_args = json_object [(''job_id'', JString j)]\<rparr>)
               (group_text text c 1))
             (rx_captures e (re_job_status_open e) text))"

definition parse_tool_calls ::
    "'r regex_engine \<Rightarrow> (string \<Rightarrow> json option) \<Rightarrow> string \<Rightarrow> parsed_tool_call list" where
  "parse_tool_calls e parse text =
     (let standard = parse_standard_tool_calls parse text
      in if standard \<noteq> [] then standard else parse_loose_tool_markup e parse text)"

subsection \<open>The answer\<close>

function strip_tool_call_blocks :: "string \<Rightarrow> string" where
  "strip_tool_call_blocks s =
     (case str_find s open_tag of
        None \<Rightarrow> s
      | Some start \<Rightarrow>
          (case str_find (drop start s) close_tag of
             None \<Rightarrow> s
           | Some e \<Rightarrow> strip_tool_call_blocks (take start s @ drop (start + e + length close_tag) s)))"
  by pat_completeness auto
termination
  by (relation "measure length") (auto dest!: str_find_bound simp: close_tag_def)

declare strip_tool_call_blocks.simps [simp del]

definition strip_patterns :: "string list" where
  \<open>strip_patterns =
     [''(?is)<web_fetch>~s*.*?</web_fetch>'',
      ''(?is)<job_status~s[^>]*(?:/>|>[~s~S]*?</job_status>)'',
      ''(?is)<json~s[^>]+>'',
      ''(?is)(?:<file_list~b[^>]*(?:/>|>[~s~S]*?</file_list~s*>)|<wallet_balance~b[^>]*(?:/>|>[~s~S]*?</wallet_balance~s*>))'']\<close>

definition extract_answer :: "'r regex_engine \<Rightarrow> string \<Rightarrow> string" where
  "extract_answer e text =
     trim (foldl (\<lambda>s r. rx_replace_all e r (\<lambda>_. []) s) (strip_tool_call_blocks text)
       (map (\<lambda>p. rx_static e (raw p)) strip_patterns @ [re_inline_tool_call e, re_bare_tool_call e]))"

end
