(* ===== verification/Compaction.thy ===== *)
theory Compaction
  imports Agent
begin

section \<open>Compaction of conversations\<close>

text \<open>
  Models \<^verbatim>\<open>src/agent/compaction.rs\<close>: how a conversation that grows past the model's window is
  shortened, as a list of messages and as one string. Strings are UTF-8 bytes; a slice that cuts a
  character panics. Sizes are \<open>usize\<close>: additions do not reach \<open>2^64\<close>, a subtraction below 0 wraps.
\<close>

subsection \<open>Slices and sizes\<close>

definition usize_sub :: "nat \<Rightarrow> nat \<Rightarrow> nat" where
  "usize_sub a b = (if b \<le> a then a - b else 2 ^ 64 + a - b)"

text \<open>\<open>rfind\<close> of a character.\<close>

definition rfind_char :: "char \<Rightarrow> string \<Rightarrow> nat option" where
  "rfind_char c s =
     (if c \<in> set s then Some (length s - 1 - length (takeWhile (\<lambda>x. x \<noteq> c) (rev s))) else None)"

definition tool_result_truncate_chars :: nat where
  "tool_result_truncate_chars = 500"

definition keep_recent_turns :: nat where
  "keep_recent_turns = 4"

definition estimate_tokens :: "nat \<Rightarrow> nat" where
  "estimate_tokens chars = chars div 4"

definition conversation_char_size :: "chat_message list \<Rightarrow> nat" where
  "conversation_char_size ms = sum_list (map (\<lambda>m. length (cm_content m) + 20) ms)"

definition needs_compaction :: "chat_message list \<Rightarrow> u32 \<Rightarrow> bool" where
  "needs_compaction ms window \<longleftrightarrow> unat window * 4 * 3 div 4 < conversation_char_size ms"

definition is_tool_result_message :: "chat_message \<Rightarrow> bool" where
  "is_tool_result_message m \<longleftrightarrow>
     cm_role m = RoleUser \<and>
     (starts_with (cm_content m) ''Tool result for '' \<or>
      starts_with (cm_content m) (''Tool '' @ [CHR 0x27]) \<or>
      starts_with (cm_content m) ''Tool error: '')"

text \<open>\<open>None\<close> is the panic of a slice inside a character.\<close>

definition truncate_tool_result :: "string \<Rightarrow> nat \<Rightarrow> string option" where
  "truncate_tool_result content max_chars =
     (if length content \<le> max_chars then Some content
      else if \<not> is_char_boundary content max_chars then None
      else
        let s = take max_chars content;
            break_at = (case rfind_char (CHR 0x0A) s of
              Some i \<Rightarrow> i
            | None \<Rightarrow> (case rfind_char (CHR '' '') s of Some i \<Rightarrow> i | None \<Rightarrow> max_chars))
        in Some (take break_at content @ ''...(truncated, '' @ show_nat (length content - break_at) @
             '' chars omitted)''))"

subsection \<open>Pruning a list of messages\<close>

text \<open>The loop over \<open>(1..len).rev()\<close>: the index of the fourth user message from the end.\<close>

fun boundary_scan :: "chat_message list \<Rightarrow> nat \<Rightarrow> nat \<Rightarrow> nat option" where
  "boundary_scan ms 0 count = None"
| "boundary_scan ms (Suc i) count =
     (if cm_role (ms ! Suc i) = RoleUser \<and> \<not> is_tool_result_message (ms ! Suc i)
      then (if keep_recent_turns \<le> count + 1 then Some (Suc i) else boundary_scan ms i (count + 1))
      else boundary_scan ms i count)"

definition find_protected_boundary :: "chat_message list \<Rightarrow> nat" where
  "find_protected_boundary ms =
     (let boundary = (case boundary_scan ms (length ms - 1) 0 of None \<Rightarrow> length ms | Some i \<Rightarrow> i)
      in max (min boundary (length ms - 1)) 1)"

text \<open>Pass 1, on the messages before the boundary; the size is adjusted by a wrapping subtraction.\<close>

fun truncate_results :: "chat_message list \<Rightarrow> nat \<Rightarrow> (chat_message list \<times> nat) option" where
  "truncate_results [] sz = Some ([], sz)"
| "truncate_results (m # ms) sz =
     (if is_tool_result_message m \<and> tool_result_truncate_chars < length (cm_content m)
      then
        (case truncate_tool_result (cm_content m) tool_result_truncate_chars of
           None \<Rightarrow> None
         | Some content \<Rightarrow>
             map_option (\<lambda>(ms, sz). (m\<lparr>cm_content := content\<rparr> # ms, sz))
               (truncate_results ms (sz - usize_sub (length (cm_content m)) (length content))))
      else map_option (\<lambda>(ms, sz). (m # ms, sz)) (truncate_results ms sz))"

text \<open>Passes 2 to 4 remove messages before the boundary, from the last to the first.\<close>

definition drop_before ::
    "(chat_message \<Rightarrow> bool) \<Rightarrow> nat \<Rightarrow> chat_message list \<Rightarrow> nat \<Rightarrow> chat_message list \<times> nat" where
  "drop_before P b ms sz =
     (let mid = take (b - 1) (drop 1 ms)
      in (take 1 ms @ filter (\<lambda>m. \<not> P m) mid @ drop b ms,
          foldl (\<lambda>sz m. sz - (length (cm_content m) + 20)) sz (rev (filter P mid))))"

text \<open>The last resort shortens the system prompt.\<close>

definition truncate_system :: "chat_message list \<Rightarrow> nat \<Rightarrow> nat \<Rightarrow> chat_message list option" where
  "truncate_system ms sz max_chars =
     (case ms of
        [] \<Rightarrow> Some []
      | m # rest \<Rightarrow>
          if max_chars < sz \<and> cm_role m = RoleSystem \<and> 2000 < length (cm_content m)
          then map_option (\<lambda>c. m\<lparr>cm_content := c\<rparr> # rest) (truncate_tool_result (cm_content m) 2000)
          else Some ms)"

definition prune_conversation :: "chat_message list \<Rightarrow> nat \<Rightarrow> chat_message list option" where
  "prune_conversation ms max_chars =
     (if ms = [] \<or> conversation_char_size ms \<le> max_chars then Some ms
      else
        let b = find_protected_boundary ms
        in case truncate_results (take (b - 1) (drop 1 ms)) (conversation_char_size ms) of
             None \<Rightarrow> None
           | Some (mid, sz) \<Rightarrow>
               let ms = take 1 ms @ mid @ drop b ms
               in if sz \<le> max_chars then Some ms
                  else
                    let (ms, sz) = drop_before is_tool_result_message b ms sz
                    in if sz \<le> max_chars then Some ms
                       else
                         let (ms, sz) = drop_before (\<lambda>m. cm_role m = RoleAssistant)
                               (find_protected_boundary ms) ms sz
                         in if sz \<le> max_chars then Some ms
                            else
                              let (ms, sz) = drop_before (\<lambda>m. cm_role m = RoleUser)
                                    (find_protected_boundary ms) ms sz
                              in truncate_system ms sz max_chars)"

subsection \<open>Summaries\<close>

definition role_label :: "message_role \<Rightarrow> string" where
  "role_label r = (case r of RoleSystem \<Rightarrow> ''System'' | RoleUser \<Rightarrow> ''User'' | RoleAssistant \<Rightarrow> ''Assistant'')"

definition line_break :: string where
  "line_break = [CHR 0x0A]"

definition build_summary_prompt :: "chat_message list \<Rightarrow> string" where
  "build_summary_prompt ms =
     ''Summarize the following conversation history in a concise paragraph. '' @
     ''Focus on: what the user asked, what tools were called and their key results, '' @
     ''and any conclusions reached. Be factual and brief.'' @ line_break @ line_break @ ''---'' @
     line_break @ line_break @
     concat (map (\<lambda>m. role_label (cm_role m) @ '': '' @ cm_content m @ line_break @ line_break) ms) @
     ''---'' @ line_break @ line_break @ ''Concise summary:''"

definition summary_to_system_message :: "string \<Rightarrow> chat_message" where
  "summary_to_system_message summary =
     chat_system (''(Conversation summary from earlier turns: '' @ summary @ '')'')"

subsection \<open>Pruning one string\<close>

text \<open>\<open>split("\<close>\<open>\n\n\<close>\<open>")\<close>: the pieces between the occurrences of two line breaks.\<close>

fun split_blank :: "string \<Rightarrow> string list" where
  "split_blank (a # b # s) =
     (if a = CHR 0x0A \<and> b = CHR 0x0A then [] # split_blank s
      else (case split_blank (b # s) of [] \<Rightarrow> [[a]] | w # ws \<Rightarrow> (a # w) # ws))"
| "split_blank s = [s]"

definition tool_section :: "string \<Rightarrow> bool" where
  "tool_section s \<longleftrightarrow>
     (let t = trim s
      in starts_with t ''Tool result for '' \<or> starts_with t (''Tool '' @ [CHR 0x27]) \<or>
         starts_with t ''Tool error:'')"

text \<open>A section with its index, whether it is a tool result, and whether it is dropped.\<close>

record section_state =
  ss_index :: nat
  ss_tool :: bool
  ss_text :: string
  ss_dropped :: bool

text \<open>The three loops leave when the size fits; the last two act on the sections a test picks.\<close>

fun truncate_sections :: "nat \<Rightarrow> section_state list \<Rightarrow> nat \<Rightarrow> (section_state list \<times> nat) option" where
  "truncate_sections max_chars [] sz = Some ([], sz)"
| "truncate_sections max_chars (s # ss) sz =
     (if sz \<le> max_chars then Some (s # ss, sz)
      else if ss_tool s \<and> tool_result_truncate_chars < length (ss_text s)
      then
        (case truncate_tool_result (ss_text s) tool_result_truncate_chars of
           None \<Rightarrow> None
         | Some t \<Rightarrow>
             map_option (\<lambda>(ss, sz). (s\<lparr>ss_text := t\<rparr> # ss, sz))
               (truncate_sections max_chars ss (sz - usize_sub (length (ss_text s)) (length t))))
      else map_option (\<lambda>(ss, sz). (s # ss, sz)) (truncate_sections max_chars ss sz))"

fun drop_sections ::
    "(section_state \<Rightarrow> bool) \<Rightarrow> nat \<Rightarrow> nat \<Rightarrow> section_state list \<Rightarrow> nat \<Rightarrow> section_state list \<times> nat" where
  "drop_sections P from max_chars [] sz = ([], sz)"
| "drop_sections P from max_chars (s # ss) sz =
     (if sz \<le> max_chars then (s # ss, sz)
      else if P s \<and> ss_index s < from
      then
        (case drop_sections P from max_chars ss (sz - (length (ss_text s) + 2)) of
           (ss, sz) \<Rightarrow> (s\<lparr>ss_dropped := True\<rparr> # ss, sz))
      else (case drop_sections P from max_chars ss sz of (ss, sz) \<Rightarrow> (s # ss, sz)))"

definition join_sections :: "string \<Rightarrow> string \<Rightarrow> section_state list \<Rightarrow> string" where
  "join_sections prefix note ss =
     prefix @ line_break @ line_break @ note @ line_break @ line_break @
     concat (map (\<lambda>s. ss_text s @ line_break @ line_break) (filter (\<lambda>s. \<not> ss_dropped s) ss))"

definition prune_string_conversation :: "string \<Rightarrow> nat \<Rightarrow> nat \<Rightarrow> string option" where
  "prune_string_conversation conversation prefix_len max_chars =
     (if length conversation \<le> max_chars then Some conversation
      else if \<not> is_char_boundary conversation (min prefix_len (length conversation)) then None
      else
        let prefix = take prefix_len conversation;
            sections = split_blank (drop prefix_len conversation);
            ss = map (\<lambda>i. \<lparr>ss_index = i, ss_tool = tool_section (sections ! i), ss_text = sections ! i,
                   ss_dropped = False\<rparr>) [0..<length sections];
            sz = length prefix + sum_list (map (\<lambda>s. length s + 2) sections)
        in case truncate_sections max_chars ss sz of
             None \<Rightarrow> None
           | Some (ss, sz) \<Rightarrow>
               if sz \<le> max_chars then
                 Some (prefix @ join_with (line_break @ line_break) (map ss_text ss))
               else
                 let protect_from = max (length sections - length sections div 4) 1;
                     (ss, sz) = drop_sections ss_tool protect_from max_chars ss sz
                 in if sz \<le> max_chars then
                      Some (join_sections prefix ''(Earlier tool results compacted.)'' ss)
                    else
                      let (ss, sz) = drop_sections (\<lambda>s. \<not> ss_tool s) protect_from max_chars ss sz
                      in Some (join_sections prefix ''(Earlier conversation compacted.)'' ss))"

end
