(* ===== verification/Session.thy ===== *)
theory Session
  imports Json
begin

section \<open>Sessions\<close>

text \<open>
  Models \<^verbatim>\<open>src/agent/session.rs\<close>: the turns of every conversation and the metadata of every session
  in two tables in the order of their keys. A transaction that fails, which is a parameter, changes
  nothing; the encoding of the rows is left out.
\<close>

record session_turn =
  se_role :: string
  se_content :: string
  se_timestamp :: int

record session_meta =
  sm_session_id :: string
  sm_created_at :: int
  sm_updated_at :: int
  sm_turn_count :: u64
  sm_title :: string

type_synonym session_info = session_meta

record session_store =
  ss_turns :: "(string \<times> session_turn) list"
  ss_meta :: "(string \<times> session_meta) list"

definition store_empty :: session_store where
  "store_empty = \<lparr>ss_turns = [], ss_meta = []\<rparr>"

subsection \<open>Keys\<close>

text \<open>A number with at least ten digits.\<close>

definition pad10 :: "u64 \<Rightarrow> string" where
  "pad10 n = (let d = show_word n in replicate (10 - length d) (CHR ''0'') @ d)"

definition turn_key :: "string \<Rightarrow> u64 \<Rightarrow> string" where
  "turn_key sid n = sid @ [CHR 0x00] @ pad10 n"

definition session_prefix :: "string \<Rightarrow> string" where
  "session_prefix sid = sid @ [CHR 0x00]"

definition session_upper_bound :: "string \<Rightarrow> string" where
  "session_upper_bound sid = sid @ [CHR 0x00] @ ''9999999999''"

text \<open>A range scan with both bounds included.\<close>

definition in_range :: "string \<Rightarrow> string \<Rightarrow> string \<Rightarrow> bool" where
  "in_range lo hi k \<longleftrightarrow> \<not> str_less k lo \<and> \<not> str_less hi k"

definition range_scan :: "string \<Rightarrow> string \<Rightarrow> (string \<times> 'v) list \<Rightarrow> (string \<times> 'v) list" where
  "range_scan lo hi t = filter (\<lambda>(k, _). in_range lo hi k) t"

definition table_remove :: "string \<Rightarrow> (string \<times> 'v) list \<Rightarrow> (string \<times> 'v) list" where
  "table_remove k t = filter (\<lambda>(k', _). k' \<noteq> k) t"

subsection \<open>Operations\<close>

text \<open>\<open>None\<close> is a failed transaction.\<close>

definition save_turn ::
    "bool \<Rightarrow> int \<Rightarrow> string \<Rightarrow> string \<Rightarrow> string \<Rightarrow> session_store \<Rightarrow> session_store option" where
  "save_turn commits now sid role content st =
     (if \<not> commits then None
      else
        let m = (case map_of (ss_meta st) sid of
                   Some m \<Rightarrow> m
                 | None \<Rightarrow> \<lparr>sm_session_id = sid, sm_created_at = now, sm_updated_at = now,
                             sm_turn_count = 0, sm_title = []\<rparr>);
            turn = \<lparr>se_role = role, se_content = content, se_timestamp = now\<rparr>;
            turns = obj_insert (turn_key sid (sm_turn_count m)) turn (ss_turns st);
            m = m\<lparr>sm_turn_count := sm_turn_count m + 1, sm_updated_at := now\<rparr>;
            m = (if sm_title m = [] \<and> role = ''user'' then m\<lparr>sm_title := take_chars 120 content\<rparr> else m)
        in Some \<lparr>ss_turns = turns, ss_meta = obj_insert sid m (ss_meta st)\<rparr>)"

definition last_n :: "nat \<Rightarrow> 'a list \<Rightarrow> 'a list" where
  "last_n n xs = drop (length xs - n) xs"

definition load_session :: "string \<Rightarrow> nat \<Rightarrow> session_store \<Rightarrow> session_turn list" where
  "load_session sid max_turns st =
     last_n max_turns (map snd (range_scan (session_prefix sid) (session_upper_bound sid) (ss_turns st)))"

definition clear_session :: "bool \<Rightarrow> string \<Rightarrow> session_store \<Rightarrow> session_store option" where
  "clear_session commits sid st =
     (if \<not> commits then None
      else
        let keys = map fst (range_scan (session_prefix sid) (session_upper_bound sid) (ss_turns st))
        in Some \<lparr>ss_turns = fold table_remove keys (ss_turns st), ss_meta = table_remove sid (ss_meta st)\<rparr>)"

definition list_sessions :: "session_store \<Rightarrow> session_info list" where
  "list_sessions st = stable_sort (\<lambda>a b. sm_updated_at b < sm_updated_at a) (map snd (ss_meta st))"

text \<open>The number of sessions cleared; clearing stops at the first transaction that fails.\<close>

fun clear_all :: "(nat \<Rightarrow> bool) \<Rightarrow> string list \<Rightarrow> session_store \<Rightarrow> bool \<times> session_store" where
  "clear_all commits [] st = (True, st)"
| "clear_all commits (sid # sids) st =
     (case clear_session (commits (length sids)) sid st of
        None \<Rightarrow> (False, st)
      | Some st \<Rightarrow> clear_all commits sids st)"

definition prune_old ::
    "(nat \<Rightarrow> bool) \<Rightarrow> int \<Rightarrow> int \<Rightarrow> session_store \<Rightarrow> u32 option \<times> session_store" where
  "prune_old commits now max_age st =
     (let cutoff = now - max_age;
          ids = map (sm_session_id \<circ> snd) (filter (\<lambda>(_, m). sm_updated_at m \<le> cutoff) (ss_meta st))
      in (case clear_all commits ids st of
            (True, st) \<Rightarrow> (Some (of_nat (length ids)), st)
          | (False, st) \<Rightarrow> (None, st)))"

text \<open>The callers go on when a transaction fails.\<close>

definition save_or_keep :: "session_store option \<Rightarrow> session_store \<Rightarrow> session_store" where
  "save_or_keep r st = (case r of None \<Rightarrow> st | Some st' \<Rightarrow> st')"

end
