(* ===== verification/Agent_Loop.thy ===== *)
theory Agent_Loop
  imports Agent_Spec Prompts Tools Tool_Calls Compaction Session
begin

section \<open>The loop of an agent\<close>

text \<open>
  Models \<open>AgentRuntime\<close> of \<^verbatim>\<open>src/agent/runtime.rs\<close> with its own loop: prompt, budget, compaction, the
  call of the model, the tool calls it asks for, the final answer. The model, the readings of the
  clock and of the stop flag are given per iteration; the prompts, the text of JSON values, the
  regular expressions and the URL parser are fixed parameters; tools act on a world \<open>'w\<close>.
  Vector memory is the list of contents saved.
\<close>

record 'r agent_env =
  ge_rx :: "'r regex_engine"
  ge_parse_json :: "string \<Rightarrow> json option"
  ge_json_text :: "json \<Rightarrow> string"
  ge_json_pretty :: "json \<Rightarrow> string"
  ge_url :: url_parser
  ge_prompts :: prompt_bundle

text \<open>One iteration: \<open>tn_infer\<close> is the executor; the calls of the iteration are numbered from 0.\<close>

record turn_env =
  tn_stop :: bool
  tn_check_time :: timestamp
  tn_spend_time :: timestamp
  tn_infer :: "inference_task \<Rightarrow> string + json task_data"
  tn_stop_before :: "nat \<Rightarrow> bool"
  tn_stats_ms :: "nat \<Rightarrow> u64"
  tn_result_ms :: "nat \<Rightarrow> u64"
  tn_duration_ms :: "nat \<Rightarrow> u64"

record 'w agent_runtime =
  rt_config :: agent_config
  rt_tools :: "'w tool_registry"
  rt_conversation :: "chat_message list"
  rt_budget :: budget_tracker
  rt_context :: tool_context
  rt_log :: "string list"
  rt_sessions :: "session_store option"
  rt_has_vectors :: bool
  rt_memories :: "string list"

definition max_iterations :: nat where
  "max_iterations = 20"

definition cost_per_1k_tokens :: f64 where
  "cost_per_1k_tokens = f_lit 1 2"

definition token_cost :: "u32 \<Rightarrow> f64" where
  "token_cost n = f_mul (f_div (f_of_u32 n) (f_of_int 1000)) cost_per_1k_tokens"

subsection \<open>Construction\<close>

definition runtime_new ::
    "agent_config \<Rightarrow> 'w tool_registry \<Rightarrow> budget_tracker \<Rightarrow> string \<Rightarrow> string \<Rightarrow> bool \<Rightarrow> 'w agent_runtime" where
  "runtime_new config tools budget peer dir node_tools =
     \<lparr>rt_config = config, rt_tools = tools, rt_conversation = [], rt_budget = budget,
      rt_context =
        \<lparr>tx_session_id = ac_id config, tx_job_id = None, tx_peer_id = peer, tx_working_dir = dir,
         tx_sandboxed = False, tx_available_secrets = [], tx_node_tools = node_tools,
         tx_egress_policy = None, tx_agent_depth = 0\<rparr>,
      rt_log = [], rt_sessions = None, rt_has_vectors = False, rt_memories = []\<rparr>"

definition with_vector_store :: "'w agent_runtime \<Rightarrow> 'w agent_runtime" where
  "with_vector_store rt = rt\<lparr>rt_has_vectors := True\<rparr>"

definition with_session_store :: "session_store \<Rightarrow> 'w agent_runtime \<Rightarrow> 'w agent_runtime" where
  "with_session_store st rt = rt\<lparr>rt_sessions := Some st\<rparr>"

definition runtime_from_spec ::
    "string \<Rightarrow> timestamp \<Rightarrow> agent_spec \<Rightarrow> 'w tool_registry \<Rightarrow> string \<Rightarrow> string \<Rightarrow> bool \<Rightarrow> 'w agent_runtime" where
  "runtime_from_spec uuid now s tools peer dir node_tools =
     runtime_new (config_from_spec uuid s) tools (budget_from_spec now s) peer dir node_tools"

subsection \<open>Logs, prompt and memory\<close>

text \<open>An entry of the log, without the time it starts with.\<close>

definition rt_logs :: "string \<Rightarrow> 'w agent_runtime \<Rightarrow> 'w agent_runtime" where
  "rt_logs msg rt = rt\<lparr>rt_log := rt_log rt @ [msg]\<rparr>"

definition push_message :: "chat_message \<Rightarrow> 'w agent_runtime \<Rightarrow> 'w agent_runtime" where
  "push_message m rt = rt\<lparr>rt_conversation := rt_conversation rt @ [m]\<rparr>"

definition nl_end :: "string \<Rightarrow> string" where
  "nl_end s = (if ends_with s line_break then s else s @ line_break)"

definition trim_newlines :: "string \<Rightarrow> string" where
  "trim_newlines s = rev (dropWhile (\<lambda>c. c = CHR 0x0A) (rev s))"

definition memory_lines :: "string list \<Rightarrow> string" where
  "memory_lines ms =
     concat (map (\<lambda>i. show_nat (i + 1) @ ''. '' @ ms ! i @ line_break) [0..<length ms])"

definition tool_line :: "tool_info \<Rightarrow> string" where
  "tool_line t =
     ''- '' @ ti_name t @ '': '' @ take_chars 200 (ti_description t) @
     (if ti_required_params t = [] then [] else '' Params: '' @ join_with '', '' (ti_required_params t)) @
     line_break"

text \<open>\<open>recalled\<close> are the memories found for the input, none without a vector store.\<close>

definition build_system_prompt :: "prompt_bundle \<Rightarrow> string list \<Rightarrow> 'w agent_runtime \<Rightarrow> string" where
  "build_system_prompt p recalled rt =
     (let c = rt_config rt;
          prompt = (if ac_system_prompt c = [] then nl_end (agent_legacy_default_name p (ac_name c))
                    else ac_system_prompt c);
          prompt = (if rt_has_vectors rt \<and> recalled \<noteq> []
                    then prompt @ trim_newlines (pb_agent_recalled_memories_header p) @ line_break @ memory_lines recalled
                    else prompt);
          available = (if ac_allowed_tools c = [] then list_tools (rt_tools rt)
                       else filter (\<lambda>t. ti_name t \<in> set (ac_allowed_tools c)) (list_tools (rt_tools rt)))
      in if available = [] then prompt
         else
           let s = prompt @ pb_agent_legacy_tool_block p
           in (if ends_with (pb_agent_legacy_tool_block p) line_break then s else s @ line_break) @
              concat (map tool_line available))"

text \<open>The stages at which saving a memory may give up; \<open>None\<close> is the panic of the slice.\<close>

definition save_task_memory ::
    "bool \<Rightarrow> bool \<Rightarrow> string \<Rightarrow> string \<Rightarrow> 'w agent_runtime \<Rightarrow> 'w agent_runtime option" where
  "save_task_memory collection stored input answer rt =
     (if \<not> rt_has_vectors rt \<or> \<not> collection then Some rt
      else
        (case (if 500 < length answer then slice_to 500 answer else Some answer) of
           None \<Rightarrow> None
         | Some short \<Rightarrow>
             if stored
             then Some (rt\<lparr>rt_memories := rt_memories rt @
               [''Task: '' @ input @ line_break @ ''Result: '' @ short]\<rparr>)
             else Some rt))"

definition extract_last_text :: "'r regex_engine \<Rightarrow> 'w agent_runtime \<Rightarrow> string" where
  "extract_last_text e rt =
     (case find (\<lambda>m. cm_role m = RoleAssistant) (rev (rt_conversation rt)) of
        None \<Rightarrow> []
      | Some m \<Rightarrow> extract_answer e (cm_content m))"

subsection \<open>The state of a task\<close>

record 'w task_state =
  tk_rt :: "'w agent_runtime"
  tk_world :: 'w
  tk_calls :: "tool_call_record list"
  tk_iterations :: nat
  tk_tokens :: u32

text \<open>How an iteration ends: the loop goes on, the task returns, or the program panics.\<close>

datatype turn_end = GoOn | Return agent_result | TurnPanic

definition task_result_of ::
    "string \<Rightarrow> bool \<Rightarrow> string option \<Rightarrow> 'w task_state \<Rightarrow> agent_result" where
  "task_result_of answer success err st =
     \<lparr>ar_answer = answer, ar_tool_calls = tk_calls st, ar_iterations = of_nat (tk_iterations st),
      ar_total_tokens = tk_tokens st, ar_budget_spent = bt_spent_total (rt_budget (tk_rt st)),
      ar_success = success, ar_error = err\<rparr>"

definition on_rt :: "('w agent_runtime \<Rightarrow> 'w agent_runtime) \<Rightarrow> 'w task_state \<Rightarrow> 'w task_state" where
  "on_rt f st = st\<lparr>tk_rt := f (tk_rt st)\<rparr>"

text \<open>The answers of a task that gives up: the last text of the model.\<close>

definition give_up :: "'r agent_env \<Rightarrow> string \<Rightarrow> string \<Rightarrow> 'w task_state \<Rightarrow> turn_end \<times> 'w task_state" where
  "give_up e logged err st =
     (let st = on_rt (rt_logs logged) st
      in (Return (task_result_of (extract_last_text (ge_rx e) (tk_rt st)) False (Some err) st), st))"

subsection \<open>Tool calls\<close>

text \<open>Equal names and equal texts of the arguments make two calls the same; the first is kept.\<close>

fun dedup_calls :: "(json \<Rightarrow> string) \<Rightarrow> (string \<times> string) list \<Rightarrow> parsed_tool_call list \<Rightarrow> parsed_tool_call list" where
  "dedup_calls text seen [] = []"
| "dedup_calls text seen (c # cs) =
     (let sig = (pt_name c, text (pt_args c))
      in if sig \<in> set seen then dedup_calls text seen cs
         else c # dedup_calls text (sig # seen) cs)"

definition tool_allowed :: "agent_config \<Rightarrow> string \<Rightarrow> bool" where
  "tool_allowed c name \<longleftrightarrow> ac_allowed_tools c = [] \<or> name \<in> set (ac_allowed_tools c)"

definition record_tool_call ::
    "parsed_tool_call \<Rightarrow> string \<Rightarrow> bool \<Rightarrow> u64 \<Rightarrow> 'w task_state \<Rightarrow> 'w task_state" where
  "record_tool_call c result success ms st =
     st\<lparr>tk_calls := tk_calls st @
         [\<lparr>tc_tool_name = pt_name c, tc_args = pt_args c, tc_result = result, tc_success = success,
           tc_duration_ms = ms\<rparr>]\<rparr>"

definition call_tool ::
    "'r agent_env \<Rightarrow> turn_env \<Rightarrow> nat \<Rightarrow> parsed_tool_call \<Rightarrow> 'w task_state \<Rightarrow> (unit, unit) outcome \<times> 'w task_state" where
  "call_tool e t i c st =
     (let name = pt_name c;
          st = on_rt (rt_logs (''Calling tool: '' @ name @ '' with args: '' @ ge_json_text e (pt_args c))) st
      in if \<not> tool_allowed (rt_config (tk_rt st)) name then
           let msg = ''Tool '' @ [CHR 0x27] @ name @ [CHR 0x27] @ '' is not in allowed tools list'';
               st = on_rt (push_message (chat_user (''Tool error: '' @ msg)) \<circ> rt_logs msg) st
           in (Ok (), record_tool_call c msg False 0 st)
         else
           (case execute_local
                  \<lparr>te_parse = ge_url e, te_json_text = ge_json_text e, te_elapsed_stats = tn_stats_ms t i,
                   te_elapsed_result = tn_result_ms t i\<rparr>
                  name (pt_args c) (rt_context (tk_rt st)) (rt_tools (tk_rt st)) (tk_world st) of
              (Panic, r, w) \<Rightarrow> (Panic, st\<lparr>tk_world := w\<rparr>)
            | (Ok res, r, w) \<Rightarrow>
                let st = on_rt (\<lambda>rt. rt\<lparr>rt_tools := r\<rparr>) (st\<lparr>tk_world := w\<rparr>);
                    out = tres_output res;
                    text = (case to_message out of Some m \<Rightarrow> m | None \<Rightarrow> ge_json_pretty e (to_data out));
                    st = on_rt (push_message (chat_user (''Tool result for '' @ name @ '':'' @ line_break @ text)) \<circ>
                           rt_logs (''Tool '' @ [CHR 0x27] @ name @ [CHR 0x27] @ '' succeeded ('' @
                             show_word (tn_duration_ms t i) @ '' ms)'')) st
                in (Ok (), record_tool_call c text True (tn_duration_ms t i) st)
            | (Err x, r, w) \<Rightarrow>
                let st = on_rt (\<lambda>rt. rt\<lparr>rt_tools := r\<rparr>) (st\<lparr>tk_world := w\<rparr>);
                    failed = ''Tool '' @ [CHR 0x27] @ name @ [CHR 0x27] @ '' failed: '' @ tool_error_text x;
                    st = on_rt (push_message (chat_user failed) \<circ> rt_logs failed) st
                in (Ok (), record_tool_call c (''Tool error: '' @ tool_error_text x) False (tn_duration_ms t i) st)))"

fun call_tools ::
    "'r agent_env \<Rightarrow> turn_env \<Rightarrow> nat \<Rightarrow> parsed_tool_call list \<Rightarrow> 'w task_state \<Rightarrow> turn_end \<times> 'w task_state" where
  "call_tools e t i [] st = (GoOn, st)"
| "call_tools e t i (c # cs) st =
     (if tn_stop_before t i then give_up e ''Stopped by user'' ''Stopped by user'' st
      else (case call_tool e t i c st of
              (Panic, st) \<Rightarrow> (TurnPanic, st)
            | (_, st) \<Rightarrow> call_tools e t (Suc i) cs st))"

subsection \<open>One iteration\<close>

definition check_limits ::
    "'r agent_env \<Rightarrow> turn_env \<Rightarrow> 'w task_state \<Rightarrow> turn_end \<times> 'w task_state" where
  "check_limits e t st =
     (if tn_stop t then give_up e ''Stopped by user'' ''Stopped by user'' st
      else if max_iterations < tk_iterations st
      then give_up e ''Max iterations reached, returning partial result'' ''Max iterations reached'' st
      else
        (case can_spend (tn_check_time t) (token_cost (ac_max_tokens (rt_config (tk_rt st)))) (rt_budget (tk_rt st)) of
           (ok, b) \<Rightarrow>
             let st = on_rt (\<lambda>rt. rt\<lparr>rt_budget := b\<rparr>) st
             in if ok then (GoOn, st) else give_up e ''Budget exhausted'' ''Budget exhausted'' st))"

definition compact_context :: "'w agent_runtime \<Rightarrow> 'w agent_runtime option" where
  "compact_context rt =
     (let window = ac_context_window (rt_config rt); old = rt_conversation rt
      in if needs_compaction old window
         then
           let max_chars = unat window * 4 * 3 div 4
           in map_option (\<lambda>conv.
                let rt = rt\<lparr>rt_conversation := conv\<rparr>
                in if length old \<noteq> length conv
                   then rt_logs (''Context compacted: '' @ show_nat (length old) @ [CHR 0x20, CHR 0xE2, CHR 0x86, CHR 0x92, CHR 0x20] @
                          show_nat (length conv) @ '' messages ('' @ show_nat max_chars @ '' chars budget)'') rt
                   else rt) (prune_conversation old max_chars)
         else Some rt)"

definition final_answer :: "'r regex_engine \<Rightarrow> string \<Rightarrow> string" where
  "final_answer e text =
     (let cleaned = extract_answer e text
      in if trim cleaned \<noteq> [] then cleaned
         else if trim text \<noteq> [] then trim text
         else ''(No text in the model'' @ [CHR 0x27] @
              ''s final reply after stripping tool markup. See logs or retry.)'')"

text \<open>What the environment decides when a task ends: the two turns, the memory.\<close>

record finish_env =
  fe_user_commits :: bool
  fe_assistant_commits :: bool
  fe_user_time :: int
  fe_assistant_time :: int
  fe_collection :: bool
  fe_stored :: bool

definition save_turns ::
    "finish_env \<Rightarrow> string option \<Rightarrow> string \<Rightarrow> string \<Rightarrow> 'w agent_runtime \<Rightarrow> 'w agent_runtime" where
  "save_turns f session input answer rt =
     (case (session, rt_sessions rt) of
        (Some sid, Some st) \<Rightarrow>
          let st = save_or_keep (save_turn (fe_user_commits f) (fe_user_time f) sid ''user'' input st) st;
              st = save_or_keep (save_turn (fe_assistant_commits f) (fe_assistant_time f) sid ''assistant'' answer st) st
          in rt\<lparr>rt_sessions := Some st\<rparr>
      | _ \<Rightarrow> rt)"

definition finish_task ::
    "'r agent_env \<Rightarrow> finish_env \<Rightarrow> string option \<Rightarrow> string \<Rightarrow> string \<Rightarrow> 'w task_state \<Rightarrow> turn_end \<times> 'w task_state" where
  "finish_task e f session input text st =
     (let answer = final_answer (ge_rx e) text;
          st = on_rt (save_turns f session input answer \<circ> rt_logs ''Final answer produced'') st
      in (case save_task_memory (fe_collection f) (fe_stored f) input answer (tk_rt st) of
            None \<Rightarrow> (TurnPanic, st)
          | Some rt \<Rightarrow>
              let st = st\<lparr>tk_rt := rt\<rparr> in (Return (task_result_of answer True None st), st)))"

definition inference_task_for :: "'w agent_runtime \<Rightarrow> inference_task" where
  "inference_task_for rt =
     \<lparr>it_model = ac_model (rt_config rt), it_messages = rt_conversation rt,
      it_max_tokens = ac_max_tokens (rt_config rt), it_temperature = ac_temperature (rt_config rt),
      it_stop_sequences = [], it_stream = False\<rparr>"

definition handle_text ::
    "'r agent_env \<Rightarrow> turn_env \<Rightarrow> finish_env \<Rightarrow> string option \<Rightarrow> string \<Rightarrow> string \<Rightarrow> 'w task_state \<Rightarrow>
       turn_end \<times> 'w task_state" where
  "handle_text e t f session input text st =
     (let st = on_rt (push_message (chat_assistant text)) st;
          calls = parse_tool_calls (ge_rx e) (ge_parse_json e) text
      in if calls = [] then finish_task e f session input text st
         else
           let uniq = dedup_calls (ge_json_text e) [] calls;
               merged = length calls - length uniq;
               st = (if 0 < merged
                     then on_rt (push_message (chat_user (''(System: merged '' @ show_nat merged @
                              '' duplicate tool call(s); each unique call runs once.)'')) \<circ>
                            rt_logs (''Merged '' @ show_nat merged @ '' duplicate tool call(s) (identical name+args); '' @
                              show_nat (length uniq) @ '' unique this turn.'')) st
                     else st)
           in call_tools e t 0 uniq st)"

definition agent_turn ::
    "'r agent_env \<Rightarrow> turn_env \<Rightarrow> finish_env \<Rightarrow> string option \<Rightarrow> string \<Rightarrow> 'w task_state \<Rightarrow> turn_end \<times> 'w task_state" where
  "agent_turn e t f session input st =
     (case check_limits e t (st\<lparr>tk_iterations := tk_iterations st + 1\<rparr>) of
        (GoOn, st) \<Rightarrow>
          (case compact_context (tk_rt st) of
             None \<Rightarrow> (TurnPanic, st)
           | Some rt \<Rightarrow>
               let st = st\<lparr>tk_rt := rt_logs (''LLM iteration '' @ show_nat (tk_iterations st) @ '' (model: '' @
                          ac_model (rt_config rt) @ '')'') rt\<rparr>
               in (case tn_infer t (inference_task_for (tk_rt st)) of
                     Inl x \<Rightarrow> (Return (task_result_of [] False (Some (''Executor error: '' @ x)) st), st)
                   | Inr (InferenceD r) \<Rightarrow>
                       let st = st\<lparr>tk_tokens := tk_tokens st + ir_tokens_generated r\<rparr>;
                           st = on_rt (\<lambda>rt. rt\<lparr>rt_budget :=
                                  budget_spend (tn_spend_time t) (token_cost (ir_tokens_generated r)) (rt_budget rt)\<rparr>) st
                       in handle_text e t f session input (ir_text r) st
                   | Inr (ErrorD x) \<Rightarrow> (Return (task_result_of [] False (Some (''Inference error: '' @ x)) st), st)
                   | Inr _ \<Rightarrow> (Return (task_result_of [] False (Some ''Unexpected response type'') st), st)))
      | other \<Rightarrow> other)"

subsection \<open>The loop\<close>

text \<open>\<open>OutOfFuel\<close> stands for a loop that needs more iterations than it was given.\<close>

datatype task_end = TaskReturned agent_result | TaskPanicked | OutOfFuel

fun agent_loop ::
    "'r agent_env \<Rightarrow> (nat \<Rightarrow> turn_env) \<Rightarrow> finish_env \<Rightarrow> string option \<Rightarrow> string \<Rightarrow> nat \<Rightarrow> 'w task_state \<Rightarrow>
       task_end \<times> 'w task_state" where
  "agent_loop e ts f session input 0 st = (OutOfFuel, st)"
| "agent_loop e ts f session input (Suc n) st =
     (case agent_turn e (ts (tk_iterations st)) f session input st of
        (GoOn, st) \<Rightarrow> agent_loop e ts f session input n st
      | (Return r, st) \<Rightarrow> (TaskReturned r, st)
      | (TurnPanic, st) \<Rightarrow> (TaskPanicked, st))"

text \<open>The turns of a session, loaded before the task; \<open>loads\<close> tells whether the read succeeds.\<close>

definition turn_message :: "session_turn \<Rightarrow> chat_message" where
  "turn_message t =
     (if se_role t = ''user'' then chat_user (se_content t)
      else if se_role t = ''assistant'' then chat_assistant (se_content t)
      else chat_user (se_content t))"

definition load_history :: "string + unit \<Rightarrow> string option \<Rightarrow> 'w agent_runtime \<Rightarrow> 'w agent_runtime" where
  "load_history loads session rt =
     (case (session, rt_sessions rt) of
        (Some sid, Some st) \<Rightarrow>
          (case loads of
             Inl x \<Rightarrow> rt_logs (''Failed to load session '' @ [CHR 0x27] @ sid @ [CHR 0x27] @ '': '' @ x) rt
           | Inr _ \<Rightarrow>
               let turns = load_session sid 40 st
               in if turns = [] then rt
                  else foldl (\<lambda>rt t. push_message (turn_message t) rt)
                    (rt_logs (''Loaded '' @ show_nat (length turns) @ '' prior turns from session '' @
                       [CHR 0x27] @ sid @ [CHR 0x27]) rt) turns)
      | _ \<Rightarrow> rt)"

definition start_task ::
    "'r agent_env \<Rightarrow> string list \<Rightarrow> string + unit \<Rightarrow> string option \<Rightarrow> string \<Rightarrow> 'w agent_runtime \<Rightarrow> 'w \<Rightarrow>
       'w task_state" where
  "start_task e recalled loads session input rt w =
     (let rt = rt_logs (''Task received: '' @ input) (rt\<lparr>rt_budget := new_request (rt_budget rt)\<rparr>);
          system = build_system_prompt (ge_prompts e) recalled rt;
          rt = load_history loads session (rt\<lparr>rt_conversation := [chat_system system]\<rparr>);
          rt = push_message (chat_user input) rt
      in \<lparr>tk_rt = rt, tk_world = w, tk_calls = [], tk_iterations = 0, tk_tokens = 0\<rparr>)"

text \<open>
  \<open>run_task_with_session\<close> after its first branch, for an agent without an inference sink; the
  branch, which hands the task to the shared loop, is in \<open>Unified_Loop\<close>. The loop returns within
  one iteration more than the limit.
\<close>

definition run_task_own_loop ::
    "'r agent_env \<Rightarrow> (nat \<Rightarrow> turn_env) \<Rightarrow> finish_env \<Rightarrow> string list \<Rightarrow> string + unit \<Rightarrow> string option \<Rightarrow> string \<Rightarrow>
       'w agent_runtime \<Rightarrow> 'w \<Rightarrow> task_end \<times> 'w task_state" where
  "run_task_own_loop e ts f recalled loads session input rt w =
     agent_loop e ts f session input (max_iterations + 1) (start_task e recalled loads session input rt w)"

end
