(* ===== verification/F64_Mono.thy ===== *)
theory F64_Mono
  imports F64
begin

section \<open>Rounding is monotone\<close>

text \<open>
  Facts on \<open>F64\<close>: \<open>fp_round\<close> rounds the real number its arguments denote to nearest, ties to even, so it
  is monotone, and with it the sum of two numbers.
\<close>

subsection \<open>Normal forms\<close>

lemma f_val_strip2: "\<exists>m' e'. strip2 m e = Fin m' e' \<and> f_val m' e' = f_val m e"
proof (induction m e rule: strip2.induct)
  case (1 m e)
  show ?case
  proof (cases "m \<noteq> 0 \<and> even m")
    case True
    then have "f_val (m div 2) (e + 1) = f_val m e"
      by (auto simp: f_val_def power_int_add elim!: evenE)
    with 1 True show ?thesis by (subst strip2.simps) auto
  next
    case False
    then show ?thesis by (subst strip2.simps) (auto simp: f_val_def)
  qed
qed

lemma strip2_uminus: "strip2 (- m) e = f_neg (strip2 m e)"
proof (induction m e rule: strip2.induct)
  case (1 m e)
  show ?case
  proof (cases "m \<noteq> 0 \<and> even m")
    case True
    then have "(- m) div 2 = - (m div 2)" by (auto elim!: evenE)
    with 1 True show ?thesis by (subst (1 2) strip2.simps) simp
  next
    case False
    then show ?thesis by (subst (1 2) strip2.simps) auto
  qed
qed

lemma bit_length_0 [simp]: "bit_length 0 = 0"
  by (subst bit_length.simps) simp

lemma bit_length_rec: "0 < n \<Longrightarrow> bit_length n = 1 + bit_length (n div 2)"
  by (subst bit_length.simps) simp

lemma bit_length_nonneg: "0 \<le> bit_length n"
proof (induction n rule: bit_length.induct)
  case (1 n)
  then show ?case by (subst bit_length.simps) auto
qed

text \<open>The bounds of a number with a given length.\<close>

lemma bit_length_bounds:
  "0 < n \<Longrightarrow> 2 powi (bit_length n - 1) \<le> (of_int n :: real) \<and> (of_int n :: real) < 2 powi bit_length n"
proof (induction n rule: bit_length.induct)
  case (1 n)
  show ?case
  proof (cases "n = 1")
    case True
    have "bit_length 1 = 1" by (subst bit_length.simps) simp
    with True show ?thesis by simp
  next
    case False
    let ?h = "n div 2" and ?b = "bit_length (n div 2)"
    have h: "0 < ?h" using 1(2) False by simp
    with 1 have ih: "2 powi (?b - 1) \<le> (of_int ?h :: real)" "(of_int ?h :: real) < 2 powi ?b" by auto
    have b: "0 < ?b" using bit_length_rec [OF h] bit_length_nonneg [of "?h div 2"] by simp
    have "2 powi ?b \<le> (of_int n :: real)"
    proof -
      have "2 powi ?b = 2 * (2 :: real) powi (?b - 1)"
        using power_int_add [of "2 :: real" 1 "?b - 1"] by simp
      also have "\<dots> \<le> 2 * (of_int ?h :: real)" using ih(1) by simp
      also have "\<dots> \<le> of_int n" by linarith
      finally show ?thesis by simp
    qed
    moreover have "(of_int n :: real) < 2 powi (?b + 1)"
    proof -
      have "of_int ?h < (of_int (2 ^ nat ?b) :: real)" using ih(2) b by (simp add: power_int_def)
      then have "?h < 2 ^ nat ?b" by (simp only: of_int_less_iff)
      then have "n < 2 * 2 ^ nat ?b" by linarith
      then have "(of_int n :: real) < of_int (2 * 2 ^ nat ?b)" by (simp only: of_int_less_iff)
      then show ?thesis using b by (simp add: power_int_def nat_add_distrib)
    qed
    ultimately show ?thesis using bit_length_rec [OF 1(2)] by (simp add: add.commute)
  qed
qed

subsection \<open>Rounding a real number to an integer, ties to even\<close>

definition rne :: "real \<Rightarrow> int" where
  "rne y = (let f = \<lfloor>y\<rfloor>; r = y - of_int f in if 1 / 2 < r \<or> (r = 1 / 2 \<and> odd f) then f + 1 else f)"

lemma rne_mono: "x \<le> y \<Longrightarrow> rne x \<le> rne y"
proof (cases "\<lfloor>x\<rfloor> = \<lfloor>y\<rfloor>")
  case True
  assume "x \<le> y"
  with True show ?thesis by (auto simp: rne_def Let_def)
next
  case False
  assume "x \<le> y"
  with False have "\<lfloor>x\<rfloor> + 1 \<le> \<lfloor>y\<rfloor>" using floor_mono [of x y] by linarith
  then show ?thesis by (auto simp: rne_def Let_def)
qed

lemma rne_int [simp]: "rne (of_int n) = n"
  by (simp add: rne_def)

lemma rne_div:
  assumes "0 < k"
  shows "rne (of_int a / 2 ^ nat k) =
    (let q = a div two_pow k; r = a mod two_pow k; h = two_pow (k - 1)
     in if h < r \<or> (r = h \<and> odd q) then q + 1 else q)"
proof -
  let ?t = "2 ^ nat k :: int"
  have f: "\<lfloor>of_int a / (2 ^ nat k :: real)\<rfloor> = a div ?t"
    using floor_divide_of_int_eq [of a ?t, where 'a = real] by simp
  have h: "?t = 2 * two_pow (k - 1)"
    using assms by (simp add: two_pow_def flip: power_Suc)
  have "(of_int a :: real) = of_int (a div ?t) * of_int ?t + of_int (a mod ?t)"
    by (metis div_mult_mod_eq of_int_add of_int_mult)
  then have r: "of_int a / 2 ^ nat k - of_int (a div ?t) = (of_int (a mod ?t) / of_int ?t :: real)"
    by (simp add: field_simps)
  have p: "0 < (of_int (two_pow (k - 1)) :: real)" by (simp add: two_pow_def)
  have half: "1 / 2 < (of_int (a mod ?t) / of_int ?t :: real) \<longleftrightarrow> two_pow (k - 1) < a mod ?t"
    "(of_int (a mod ?t) / of_int ?t :: real) = 1 / 2 \<longleftrightarrow> a mod ?t = two_pow (k - 1)"
    using p unfolding h of_int_mult by (auto simp: field_simps)
  show ?thesis
    unfolding rne_def Let_def f r half by (simp add: two_pow_def)
qed


subsection \<open>Rounding a positive real number\<close>

definition mag :: "real \<Rightarrow> int" where
  "mag x = \<lfloor>log 2 x\<rfloor> + 1"

definition rexp :: "int \<Rightarrow> int \<Rightarrow> real \<Rightarrow> int" where
  "rexp p lo x = max (mag x - p) lo"

definition rnd :: "int \<Rightarrow> int \<Rightarrow> real \<Rightarrow> real" where
  "rnd p lo x = of_int (rne (x / 2 powi rexp p lo x)) * 2 powi rexp p lo x"

lemma mag_bounds: "0 < x \<Longrightarrow> 2 powi (mag x - 1) \<le> x \<and> x < 2 powi mag x"
proof -
  assume x: "0 < x"
  have "2 powr real_of_int (mag x - 1) \<le> x" "x < 2 powr real_of_int (mag x)"
    using x by (simp_all add: powr_le_iff less_powr_iff mag_def le_log_iff log_less_iff)
  moreover have "(2 :: real) powr real_of_int n = 2 powi n" for n by (rule powr_real_of_int') simp_all
  ultimately show ?thesis by (simp only:)
qed

lemma mag_gt_iff: "0 < x \<Longrightarrow> n < mag x \<longleftrightarrow> 2 powi n \<le> x"
proof -
  assume "0 < x"
  from mag_bounds [OF this] have b: "2 powi (mag x - 1) \<le> x" "x < 2 powi mag x" by auto
  show "n < mag x \<longleftrightarrow> 2 powi n \<le> x"
  proof
    assume "n < mag x"
    then have "2 powi n \<le> (2 :: real) powi (mag x - 1)" by (intro power_int_increasing) auto
    with b show "2 powi n \<le> x" by linarith
  next
    assume le: "2 powi n \<le> x"
    show "n < mag x"
    proof (rule ccontr)
      assume "\<not> n < mag x"
      then have "(2 :: real) powi mag x \<le> 2 powi n" by (intro power_int_increasing) auto
      with b le show False by linarith
    qed
  qed
qed

lemma mag_mono: "0 < x \<Longrightarrow> x \<le> y \<Longrightarrow> mag x \<le> mag y"
  by (auto simp: mag_def intro!: floor_mono)

lemma mag_unique:
  assumes "2 powi (n - 1) \<le> x" and "x < 2 powi n"
  shows "mag x = n"
proof -
  have x: "0 < x" using assms(1) by (rule less_le_trans [rotated]) simp
  have "2 powi (n - 1) < (2 :: real) powi mag x" "(2 :: real) powi (mag x - 1) < 2 powi n"
    using mag_bounds [OF x] assms by linarith+
  then have "\<not> mag x \<le> n - 1" "\<not> n \<le> mag x - 1"
    using power_int_increasing [of "mag x" "n - 1" "2 :: real"]
      power_int_increasing [of n "mag x - 1" "2 :: real"] by auto
  then show ?thesis by simp
qed

text \<open>A power of two between two numbers stays between their roundings.\<close>

lemma rnd_powi:
  assumes "rexp p lo x \<le> n"
  shows "x \<le> 2 powi n \<Longrightarrow> rnd p lo x \<le> 2 powi n" and "2 powi n \<le> x \<Longrightarrow> 2 powi n \<le> rnd p lo x"
proof -
  let ?E = "rexp p lo x"
  have n: "2 powi n = (of_int (2 ^ nat (n - ?E)) :: real) * 2 powi ?E"
    using assms power_int_add [of "2 :: real" "n - ?E" ?E] by (simp add: power_int_def [of _ "n - ?E"])
  have pos: "(0 :: real) < 2 powi ?E" by simp
  show "rnd p lo x \<le> 2 powi n" if "x \<le> 2 powi n"
  proof -
    have "x / 2 powi ?E \<le> of_int (2 ^ nat (n - ?E))" using that pos unfolding n by (simp add: divide_le_eq)
    from rne_mono [OF this] have "rne (x / 2 powi ?E) \<le> 2 ^ nat (n - ?E)" by (simp only: rne_int)
    then have "(of_int (rne (x / 2 powi ?E)) :: real) \<le> of_int (2 ^ nat (n - ?E))" by (simp only: of_int_le_iff)
    then show ?thesis unfolding rnd_def n by (rule mult_right_mono) simp
  qed
  show "2 powi n \<le> rnd p lo x" if "2 powi n \<le> x"
  proof -
    have "of_int (2 ^ nat (n - ?E)) \<le> x / 2 powi ?E" using that pos unfolding n by (simp add: le_divide_eq)
    from rne_mono [OF this] have "2 ^ nat (n - ?E) \<le> rne (x / 2 powi ?E)" by (simp only: rne_int)
    then have "(of_int (2 ^ nat (n - ?E)) :: real) \<le> of_int (rne (x / 2 powi ?E))" by (simp only: of_int_le_iff)
    then show ?thesis unfolding rnd_def n by (rule mult_right_mono) simp
  qed
qed

lemma rnd_mono:
  assumes "0 < p" and "0 < x" and "x \<le> y"
  shows "rnd p lo x \<le> rnd p lo y"
proof (cases "rexp p lo x = rexp p lo y")
  case True
  have "rne (x / 2 powi rexp p lo x) \<le> rne (y / 2 powi rexp p lo x)"
    using assms(3) by (intro rne_mono divide_right_mono) auto
  then show ?thesis using True by (simp add: rnd_def)
next
  case False
  have m: "mag x \<le> mag y" using assms mag_mono by blast
  with False have lt: "mag x < mag y" "rexp p lo x \<le> mag y - 1" "rexp p lo y \<le> mag y - 1"
    using assms(1) by (auto simp: rexp_def)
  have "x \<le> 2 powi (mag y - 1)"
    using mag_bounds [OF assms(2)] lt(1) power_int_increasing [of "mag x" "mag y - 1" "2 :: real"] by linarith
  moreover have "2 powi (mag y - 1) \<le> y" using mag_bounds [of y] assms by linarith
  ultimately show ?thesis
    using rnd_powi(1) [OF lt(2)] rnd_powi(2) [OF lt(3)] by linarith
qed

subsection \<open>The rounding of the model\<close>

lemma powi_pos_nat: "0 \<le> k \<Longrightarrow> (2 :: real) powi k = 2 ^ nat k"
  by (simp add: power_int_def)

lemma mag_f_val: "0 < a \<Longrightarrow> mag (f_val a e) = bit_length a + e"
proof -
  assume a: "0 < a"
  have "2 powi (bit_length a + e - 1) = (2 :: real) powi (bit_length a - 1) * 2 powi e"
    using power_int_add [of "2 :: real" "bit_length a - 1" e] by (simp add: algebra_simps)
  moreover have "(2 :: real) powi (bit_length a + e) = 2 powi bit_length a * 2 powi e"
    by (simp add: power_int_add)
  ultimately show ?thesis
    using bit_length_bounds [OF a] by (intro mag_unique) (simp_all add: f_val_def)
qed

lemma fp_round_pos:
  assumes "0 < m" and "0 < p" and "lo \<le> hi"
  shows "if 2 powi hi \<le> rnd p lo (f_val m e) then fp_round p lo hi m e = Inf False
    else \<exists>m' e'. fp_round p lo hi m e = Fin m' e' \<and> f_val m' e' = rnd p lo (f_val m e)"
proof -
  let ?x = "f_val m e" and ?k = "max (bit_length m - p) (lo - e)"
  have mag: "mag ?x = bit_length m + e" using mag_f_val [OF assms(1)] .
  have xp: "0 < ?x" using assms(1) by (simp add: f_val_def)
  have E: "rexp p lo ?x = max (bit_length m + e - p) lo" by (simp add: rexp_def mag)
  show ?thesis
  proof (cases "?k \<le> 0")
    case True
    then have "rexp p lo ?x \<le> e" by (simp add: E)
    from f_val_shift [OF this, of m] have
      "?x / 2 powi rexp p lo ?x = of_int (m * two_pow (e - rexp p lo ?x)) * 2 powi rexp p lo ?x / 2 powi rexp p lo ?x"
      by (rule arg_cong)
    also have "\<dots> = of_int (m * two_pow (e - rexp p lo ?x))" by (rule nonzero_mult_div_cancel_right) simp
    finally have "rnd p lo ?x = of_int (m * two_pow (e - rexp p lo ?x)) * 2 powi rexp p lo ?x"
      by (simp only: rnd_def rne_int)
    also have "\<dots> = ?x" by (rule f_val_shift [OF \<open>rexp p lo ?x \<le> e\<close>, symmetric])
    finally have rnd: "rnd p lo ?x = ?x" .
    have over: "hi < bit_length m + e \<longleftrightarrow> 2 powi hi \<le> ?x"
      using mag_gt_iff [OF xp] mag by simp
    show ?thesis
      using True assms(1) f_val_strip2 [of m e] by (auto simp: fp_round_def Let_def rnd simp flip: over)
  next
    case False
    then have k: "0 < ?k" by (simp only: not_le)
    have Ek: "rexp p lo ?x = e + ?k" by (auto simp: E)
    define q where "q = rne (of_int m / 2 ^ nat ?k)"
    have "?x / 2 powi rexp p lo ?x = of_int m / 2 powi ?k"
      unfolding Ek using power_int_add [of "2 :: real" e ?k] by (simp add: f_val_def del: max_def)
    then have rnd: "rnd p lo ?x = f_val q (e + ?k)"
      unfolding rnd_def powi_pos_nat [OF less_imp_le [OF k]] q_def by (simp only: f_val_def [of "rne _"] Ek)
    have fp: "fp_round p lo hi m e =
        (if hi < bit_length q + (e + ?k) then Inf False else strip2 q (e + ?k))"
    proof -
      have "\<bar>m\<bar> = m" "sgn m = 1" "(m = 0) = False" "(m < 0) = False" "(?k \<le> 0) = False"
        using assms(1) False by (simp_all only: sgn_pos abs_of_pos) simp_all
      then show ?thesis
        unfolding q_def rne_div [OF k] fp_round_def Let_def by (simp only: if_False mult_1)
    qed
    have q0: "0 \<le> q" using rne_mono [of 0 "of_int m / 2 ^ nat ?k"] assms(1) rne_int [of 0] by (simp add: q_def)
    have over: "hi < bit_length q + (e + ?k) \<longleftrightarrow> 2 powi hi \<le> f_val q (e + ?k)"
    proof (cases "q = 0")
      case True
      have "\<not> 2 powi (bit_length m + e - 1) \<le> rnd p lo ?x"
        using True rnd by (simp add: f_val_def [of 0] not_le)
      then have "\<not> rexp p lo ?x \<le> bit_length m + e - 1"
        using rnd_powi(2) mag_bounds [OF xp] mag by auto
      then have "e + ?k = lo" using assms(2) unfolding Ek [symmetric] E by simp
      with True assms(3) show ?thesis by (simp add: f_val_def not_le)
    next
      case q: False
      let ?y = "f_val q (e + ?k)"
      have yp: "0 < ?y" and magy: "mag ?y = bit_length q + (e + ?k)"
        using q q0 mag_f_val [of q "e + ?k"] by (simp_all add: f_val_def)
      show ?thesis using mag_gt_iff [OF yp] magy by simp
    qed
    show ?thesis using fp over f_val_strip2 [of q "e + ?k"] by (simp add: rnd)
  qed
qed

lemma fp_round_0 [simp]: "fp_round p lo hi 0 e = Fin 0 0"
  by (simp add: fp_round_def Let_def)

lemma fp_round_uminus: "fp_round p lo hi (- m) e = f_neg (fp_round p lo hi m e)"
proof (cases "m = 0")
  case False
  then have inf: "Inf (- m < 0) = f_neg (Inf (m < 0))" by auto
  have sgn: "strip2 (sgn (- m) * q) k = f_neg (strip2 (sgn m * q) k)" for q k
    using strip2_uminus [of "sgn m * q" k] by (simp add: sgn_minus)
  show ?thesis
    unfolding fp_round_def Let_def abs_minus_cancel sgn strip2_uminus [of m e] inf
    using False by (simp only: neg_equal_0_iff_equal if_False if_distrib [where f = f_neg])
qed simp

lemma f_le_neg: "f_le (f_neg a) (f_neg b) \<longleftrightarrow> f_le b a"
  by (cases a; cases b) (auto simp: f_le_Fin f_le_Inf f_val_def)

lemma f_val_sign: "f_val m e \<le> 0 \<longleftrightarrow> m \<le> 0" "0 \<le> f_val m e \<longleftrightarrow> 0 \<le> m"
proof -
  have "(0 :: real) < 2 powi e" by simp
  then show "f_val m e \<le> 0 \<longleftrightarrow> m \<le> 0" "0 \<le> f_val m e \<longleftrightarrow> 0 \<le> m"
    by (simp_all add: f_val_def mult_le_0_iff zero_le_mult_iff not_le [symmetric] del: zero_less_power_int)
qed

lemma fp_round_sign:
  assumes "0 < p" and "lo \<le> hi" and "0 \<le> m"
  shows "f_le (Fin 0 0) (fp_round p lo hi m e)"
proof (cases "m = 0")
  case False
  then have m: "0 < m" "0 < f_val m e" using assms(3) by (simp_all add: f_val_def)
  have "rne 0 \<le> rne (f_val m e / 2 powi rexp p lo (f_val m e))" using m(2) by (intro rne_mono) simp
  then have "0 \<le> rnd p lo (f_val m e)" using rne_int [of 0] by (simp add: rnd_def)
  with fp_round_pos [OF m(1) assms(1,2), of e] show ?thesis
    by (auto simp: f_le_Inf f_le_Fin f_val_def [of 0] split: if_splits)
qed (simp add: f_le_Fin)

lemma fp_round_mono_pos:
  assumes "0 < p" and "lo \<le> hi" and "0 < m1" and "f_val m1 e1 \<le> f_val m2 e2"
  shows "f_le (fp_round p lo hi m1 e1) (fp_round p lo hi m2 e2)"
proof -
  have x: "0 < f_val m1 e1" using assms(3) by (simp add: f_val_def)
  with assms(4) have "\<not> f_val m2 e2 \<le> 0" by linarith
  then have m2: "0 < m2" by (simp add: f_val_sign)
  have "rnd p lo (f_val m1 e1) \<le> rnd p lo (f_val m2 e2)" using rnd_mono [OF assms(1) x assms(4)] .
  with fp_round_pos [OF assms(3,1,2), of e1] fp_round_pos [OF m2 assms(1,2), of e2] show ?thesis
    by (auto simp: f_le_Inf f_le_Fin split: if_splits)
qed

theorem fp_round_mono:
  assumes "0 < p" and "lo \<le> hi" and "f_val m1 e1 \<le> f_val m2 e2"
  shows "f_le (fp_round p lo hi m1 e1) (fp_round p lo hi m2 e2)"
proof (cases "0 < m1")
  case True
  with assms show ?thesis by (intro fp_round_mono_pos)
next
  case m1: False
  then have low: "f_le (fp_round p lo hi m1 e1) (Fin 0 0)"
    using fp_round_sign [OF assms(1,2), of "- m1" e1] f_le_neg [of "Fin 0 0" "fp_round p lo hi m1 e1"]
    by (simp add: fp_round_uminus)
  show ?thesis
  proof (cases "0 \<le> m2")
    case True
    from f_le_trans [OF low fp_round_sign [OF assms(1,2) this]] show ?thesis .
  next
    case False
    with assms(3) have "f_le (fp_round p lo hi (- m2) e2) (fp_round p lo hi (- m1) e1)"
      by (intro fp_round_mono_pos [OF assms(1,2)]) (simp_all add: f_val_def)
    then show ?thesis by (simp add: fp_round_uminus f_le_neg)
  qed
qed

corollary f_round_mono: "f_val m1 e1 \<le> f_val m2 e2 \<Longrightarrow> f_le (f_round m1 e1) (f_round m2 e2)"
  unfolding f_round_def by (rule fp_round_mono) simp_all

subsection \<open>Addition is monotone\<close>

lemma f_add_Fin:
  obtains m e where "f_add (Fin m1 e1) (Fin m2 e2) = f_round m e" and "f_val m e = f_val m1 e1 + f_val m2 e2"
proof -
  let ?e = "min e1 e2"
  have "f_val (m1 * two_pow (e1 - ?e) + m2 * two_pow (e2 - ?e)) ?e = f_val m1 e1 + f_val m2 e2"
    unfolding f_val_shift [of ?e e1 m1, OF min.cobounded1] f_val_shift [of ?e e2 m2, OF min.cobounded2]
    by (simp add: f_val_def distrib_right)
  then show thesis by (intro that) (simp_all add: Let_def)
qed

lemma f_le_bounds: "f_le (Inf True) x \<longleftrightarrow> x \<noteq> NaN" "f_le x (Inf False) \<longleftrightarrow> x \<noteq> NaN"
  by (cases x; simp add: f_le_Inf)+

lemma f_add_mono:
  assumes "f_le a b" and "f_le c d" and "f_add a c \<noteq> NaN" and "f_add b d \<noteq> NaN"
  shows "f_le (f_add a c) (f_add b d)"
proof (cases "\<exists>m1 e1 m2 e2 m3 e3 m4 e4. a = Fin m1 e1 \<and> b = Fin m2 e2 \<and> c = Fin m3 e3 \<and> d = Fin m4 e4")
  case True
  then obtain m1 e1 m2 e2 m3 e3 m4 e4 where *: "a = Fin m1 e1" "b = Fin m2 e2" "c = Fin m3 e3" "d = Fin m4 e4"
    by blast
  obtain m e where s: "f_add a c = f_round m e" "f_val m e = f_val m1 e1 + f_val m3 e3"
    unfolding * by (rule f_add_Fin)
  obtain m' e' where t: "f_add b d = f_round m' e'" "f_val m' e' = f_val m2 e2 + f_val m4 e4"
    unfolding * by (rule f_add_Fin)
  show ?thesis using assms(1,2) unfolding s t by (intro f_round_mono) (simp add: s t * f_le_Fin)
next
  case False
  with assms show ?thesis
    by (cases a; cases b; cases c; cases d)
      (auto simp: f_le_Inf f_le_bounds split: if_splits simp del: f_add.simps(1))
qed

subsection \<open>Products and quotients are monotone\<close>

lemma f_val_nonneg: "0 \<le> m \<Longrightarrow> 0 \<le> f_val m e"
  by (simp add: f_val_def)

lemma f_mul_mono:
  assumes "f_le (Fin m1 e1) (Fin m2 e2)" and "0 \<le> m"
  shows "f_le (f_mul (Fin m1 e1) (Fin m e)) (f_mul (Fin m2 e2) (Fin m e))"
proof -
  have "f_val (a * m) (k + e) = f_val a k * f_val m e" for a k
    by (simp add: f_val_def power_int_add)
  with assms show ?thesis
    by (auto simp: f_le_Fin intro!: f_round_mono mult_right_mono f_val_nonneg)
qed

text \<open>The sticky bit of a quotient does not change its rounding.\<close>

lemma rne_between:
  assumes "0 < j" and "of_int f / 2 ^ j < x" and "x < (of_int f + 1) / 2 ^ j"
  shows "rne x = (let g = f div 2 ^ j in if 2 ^ (j - 1) \<le> f mod 2 ^ j then g + 1 else g)"
proof -
  define g r h :: int where "g = f div 2 ^ j" and "r = f mod 2 ^ j" and "h = 2 ^ (j - 1)"
  define t :: real where "t = 2 ^ j"
  have "f = g * 2 ^ j + r" by (simp only: g_def r_def div_mult_mod_eq)
  then have f: "(of_int f :: real) = of_int g * t + of_int r" by (simp add: t_def)
  have "(2 :: int) ^ j = 2 * h" using power_minus_mult [OF assms(1), of "2 :: int"] by (simp add: h_def)
  moreover have "0 \<le> r" "r < 2 ^ j" unfolding r_def by (rule pos_mod_sign, simp, rule pos_mod_bound, simp)
  ultimately have r: "0 \<le> r" "r + 1 \<le> 2 * h" by linarith+
  from r(2) have "(of_int (r + 1) :: real) \<le> of_int (2 * h)" by (simp only: of_int_le_iff)
  with r(1) have r': "(of_int r :: real) + 1 \<le> 2 * of_int h" "(0 :: real) \<le> of_int r" by simp_all
  have t: "t = 2 * of_int h" "0 < t" using power_minus_mult [OF assms(1), of "2 :: real"] by (simp_all add: t_def h_def)
  define y where "y = (x - of_int g) * t"
  have y: "of_int r < y" "y < of_int r + 1"
    using assms(2,3) t(2) unfolding y_def f t_def [symmetric] by (simp_all add: field_simps)
  have xy: "x = of_int g + y / t" using t(2) by (simp add: y_def)
  have fl: "\<lfloor>x\<rfloor> = g"
    unfolding xy using y r' t by (intro floor_unique) (simp_all add: field_simps)
  have "h \<le> r \<Longrightarrow> (of_int h :: real) \<le> of_int r" "\<not> h \<le> r \<Longrightarrow> (of_int r :: real) + 1 \<le> of_int h"
    by (simp_all add: not_le int_less_real_le)
  then have "of_int h < y \<longleftrightarrow> h \<le> r" "y \<noteq> of_int h" using y by linarith+
  moreover have "1 / 2 < x - of_int g \<longleftrightarrow> of_int h < y" "x - of_int g = 1 / 2 \<longleftrightarrow> y = of_int h"
    unfolding xy using t by (auto simp: field_simps)
  ultimately show ?thesis
    unfolding rne_def Let_def fl g_def [symmetric] r_def [symmetric] h_def [symmetric] by simp
qed

text \<open>
  Two numbers strictly between the same neighbours of a grid that is finer than the last place round
  alike.
\<close>

lemma rnd_between:
  assumes "0 < p" and "2 ^ (nat p + 1) \<le> f"
    and x: "f_val f c < x" "x < f_val (f + 1) c" and y: "f_val f c < y" "y < f_val (f + 1) c"
  shows "rnd p lo x = rnd p lo y"
proof -
  have f: "0 < f" using assms(2) by (rule less_le_trans [rotated]) simp
  have pos: "0 < x" "0 < y" using f_val_nonneg [of f c] f x(1) y(1) by linarith+
  have le: "2 powi n \<le> z \<longleftrightarrow> 2 powi n \<le> f_val f c" if "f_val f c < z" "z < f_val (f + 1) c" for n z
  proof (cases "n \<le> c")
    case True
    have "(2 :: real) powi n \<le> 2 powi c" using True by (intro power_int_increasing) auto
    also have "\<dots> \<le> f_val f c" using f by (simp add: f_val_def)
    finally show ?thesis using that(1) by simp
  next
    case False
    then have n: "(2 :: real) powi n = of_int (2 ^ nat (n - c)) * 2 powi c"
      using power_int_add [of "2 :: real" "n - c" c] by (simp add: power_int_def [of _ "n - c"])
    have "(0 :: real) < 2 powi c" by simp
    then have k: "f_val k c \<le> 2 powi n \<longleftrightarrow> k \<le> 2 ^ nat (n - c)" "2 powi n \<le> f_val k c \<longleftrightarrow> 2 ^ nat (n - c) \<le> k" for k
      unfolding n f_val_def by (simp_all only: mult_le_cancel_right_pos of_int_le_iff)
    show ?thesis
    proof (cases "2 ^ nat (n - c) \<le> f")
      case True
      with k(2) [of f] that(1) show ?thesis by simp
    next
      case False
      with k(1) [of "f + 1"] k(2) [of f] that(2) show ?thesis by simp
    qed
  qed
  have "mag x = mag y"
    using mag_gt_iff [OF pos(1)] mag_gt_iff [OF pos(2)] le [OF x] le [OF y]
    by (metis less_irrefl linorder_neqE)
  then have E: "rexp p lo x = rexp p lo y" by (simp add: rexp_def)
  define j where "j = nat (rexp p lo x - c)"
  have "2 powi (c + p + 1) \<le> x"
  proof -
    have "nat (p + 1) = nat p + 1" using assms(1) by simp
    then have "(2 :: real) powi (p + 1) = of_int (2 ^ (nat p + 1))"
      using assms(1) powi_pos_nat [of "p + 1"] by simp
    then have "(2 :: real) powi (c + p + 1) = f_val (2 ^ (nat p + 1)) c"
      using power_int_add [of "2 :: real" c "p + 1"] by (simp add: f_val_def add.assoc)
    also have "\<dots> \<le> f_val f c"
      unfolding f_val_def by (intro mult_right_mono) (simp_all only: of_int_le_iff assms(2), simp)
    finally show ?thesis using x(1) by simp
  qed
  then have "c + p + 1 < mag x" using mag_gt_iff [OF pos(1)] by simp
  then have j: "0 < j" "rexp p lo x = c + int j" by (simp_all add: j_def rexp_def)
  have r: "of_int f / 2 ^ j < z / 2 powi rexp p lo x" "z / 2 powi rexp p lo x < (of_int f + 1) / 2 ^ j"
    if "f_val f c < z" "z < f_val (f + 1) c" for z
  proof -
    have "(2 :: real) powi rexp p lo x = 2 powi c * 2 ^ j" using j by (simp add: power_int_add)
    moreover have "(0 :: real) < 2 powi c" by simp
    ultimately show "of_int f / 2 ^ j < z / 2 powi rexp p lo x" "z / 2 powi rexp p lo x < (of_int f + 1) / 2 ^ j"
      using that by (simp_all add: f_val_def field_simps)
  qed
  have "rne (x / 2 powi rexp p lo x) = rne (y / 2 powi rexp p lo x)"
    using rne_between [OF j(1) r [OF x]] rne_between [OF j(1) r [OF y]] by simp
  then show ?thesis by (simp add: rnd_def E)
qed

lemma sticky_rounds:
  assumes "0 < m1" and "0 < m2" and "sticky_quotient m1 m2 = (q, e)"
  shows "0 < q" and "rnd 53 lo (f_val q (k + e)) = rnd 53 lo (of_int m1 / of_int m2 * 2 powi k)"
proof -
  define s where "s = bit_length m2 + 55"
  define n where "n = m1 * two_pow s"
  define f where "f = n div m2"
  have s: "0 \<le> s" using bit_length_nonneg [of m2] by (simp add: s_def)
  have qe: "q = 2 * f + (if n mod m2 = 0 then 0 else 1)" "e = - s - 1"
    using assms by (auto simp: sticky_quotient_def Let_def s_def n_def f_def)
  have "(of_int m2 :: real) * 2 ^ 55 \<le> 2 powi bit_length m2 * 2 ^ 55"
    using bit_length_bounds [OF assms(2)] by simp
  also have "\<dots> = of_int (two_pow s)"
    using s bit_length_nonneg [of m2] power_int_add [of "2 :: real" "bit_length m2" 55]
    by (simp add: two_pow_def s_def power_int_def)
  finally have "m2 * 2 ^ 55 \<le> two_pow s"
    by (metis of_int_le_iff of_int_mult of_int_numeral of_int_power)
  also have "two_pow s \<le> n" using assms(1) by (simp add: n_def two_pow_def)
  finally have "2 ^ 55 * m2 \<le> n" by (simp add: mult.commute)
  from zdiv_mono1 [OF this assms(2)] have "2 ^ 55 \<le> f" using assms(2) by (simp add: f_def)
  then have f: "0 < f" "2 ^ (nat 53 + 1) \<le> f" by simp_all
  then show "0 < q" by (simp add: qe)
  let ?c = "k - s" and ?x = "of_int m1 / of_int m2 * 2 powi k :: real"
  have x: "?x = of_int n / of_int m2 * 2 powi ?c"
    using s power_int_add [of "2 :: real" s ?c] by (simp add: n_def two_pow_def power_int_def [of _ s])
  have y: "f_val q (k + e) = of_int q / 2 * 2 powi ?c"
    using power_int_diff [of "2 :: real" ?c 1] by (simp add: f_val_def qe(2) algebra_simps)
  have n: "n = f * m2 + n mod m2" by (simp add: f_def)
  show "rnd 53 lo (f_val q (k + e)) = rnd 53 lo ?x"
  proof (cases "n mod m2 = 0")
    case True
    with n have "n = f * m2" by simp
    then have "f_val q (k + e) = ?x" unfolding x y using True assms(2) by (simp add: qe(1))
    then show ?thesis by (rule arg_cong)
  next
    case False
    then have "0 < n mod m2" "n mod m2 < m2" using pos_mod_bound [OF assms(2)] pos_mod_sign [OF assms(2), of n] by simp_all
    with n have "f * m2 < n" "n < (f + 1) * m2" by (simp_all add: distrib_right)
    then have "(of_int f * of_int m2 :: real) < of_int n" "(of_int n :: real) < (of_int f + 1) * of_int m2"
      by (metis of_int_less_iff of_int_mult, metis of_int_less_iff of_int_mult of_int_add of_int_1)
    then have "(of_int f :: real) < of_int n / of_int m2" "(of_int n / of_int m2 :: real) < of_int f + 1"
      using assms(2) by (simp_all add: less_divide_eq divide_less_eq)
    then have "f_val f ?c < ?x" "?x < f_val (f + 1) ?c"
      unfolding x f_val_def of_int_add of_int_1 by (intro mult_strict_right_mono; simp)+
    moreover have "f_val f ?c < f_val q (k + e)" "f_val q (k + e) < f_val (f + 1) ?c"
      unfolding y unfolding f_val_def using False by (simp_all add: qe(1) mult_less_cancel_right_pos)
    ultimately show ?thesis by (intro rnd_between [where f = f and c = ?c]) (use f in simp_all)
  qed
qed

lemma f_div_pos:
  assumes "0 < m1" and "0 < m2"
  shows "if 2 powi 1024 \<le> rnd 53 (- 1074) (of_int m1 / of_int m2 * 2 powi (e1 - e2))
    then f_div (Fin m1 e1) (Fin m2 e2) = Inf False
    else \<exists>m' e'. f_div (Fin m1 e1) (Fin m2 e2) = Fin m' e' \<and>
      f_val m' e' = rnd 53 (- 1074) (of_int m1 / of_int m2 * 2 powi (e1 - e2))"
proof -
  obtain q e where qe: "sticky_quotient m1 m2 = (q, e)" by fastforce
  from sticky_rounds [OF assms qe]
  have q: "0 < q" "rnd 53 (- 1074) (f_val q (e1 - e2 + e)) = rnd 53 (- 1074) (of_int m1 / of_int m2 * 2 powi (e1 - e2))"
    by auto
  have fd: "f_div (Fin m1 e1) (Fin m2 e2) = fp_round 53 (- 1074) 1024 q (e1 - e2 + e)"
    using assms qe by (simp add: f_round_def)
  have "if 2 powi 1024 \<le> rnd 53 (- 1074) (f_val q (e1 - e2 + e))
    then fp_round 53 (- 1074) 1024 q (e1 - e2 + e) = Inf False
    else \<exists>m' e'. fp_round 53 (- 1074) 1024 q (e1 - e2 + e) = Fin m' e' \<and>
      f_val m' e' = rnd 53 (- 1074) (f_val q (e1 - e2 + e))"
    by (rule fp_round_pos [OF q(1)]) simp_all
  then show ?thesis unfolding fd q(2) .
qed

lemma f_div_mono:
  assumes "f_le (Fin m1 e1) (Fin m2 e2)" and "0 \<le> m1" and "0 < m"
  shows "f_le (f_div (Fin m1 e1) (Fin m e)) (f_div (Fin m2 e2) (Fin m e))"
proof -
  have val: "of_int a / of_int m * 2 powi (c - e) = f_val a c / f_val m e" for a c
    by (simp add: f_val_def power_int_diff)
  have zero: "f_div (Fin 0 c) (Fin m e) = Fin 0 0" for c
    using assms(3) by (simp add: sticky_quotient_def Let_def f_round_def)
  have nonneg: "f_le (Fin 0 0) (f_div (Fin a c) (Fin m e))" if "0 < a" for a c
  proof -
    have p: "0 < f_val a c / f_val m e" using that assms(3) by (simp add: f_val_def)
    have "rne 0 \<le> rne (f_val a c / f_val m e / 2 powi rexp 53 (- 1074) (f_val a c / f_val m e))"
      by (intro rne_mono divide_nonneg_pos less_imp_le [OF p]) simp
    then have "0 \<le> rnd 53 (- 1074) (f_val a c / f_val m e)" using rne_int [of 0] by (simp add: rnd_def)
    with f_div_pos [OF that assms(3), of c e] show ?thesis
      unfolding val by (auto simp: f_le_Inf f_le_Fin f_val_def [of 0] split: if_splits)
  qed
  have m2: "0 \<le> m2" using assms(1,2) f_val_sign(2) [of m2 e2] f_val_nonneg [of m1 e1] by (simp add: f_le_Fin)
  consider "m1 = 0" "m2 = 0" | "m1 = 0" "0 < m2" | "0 < m1" "0 < m2"
    using assms(1,2) m2 f_val_sign(1) [of m1 e1] by (fastforce simp: f_le_Fin f_val_def)
  then show ?thesis
  proof cases
    case 3
    have "rnd 53 (- 1074) (f_val m1 e1 / f_val m e) \<le> rnd 53 (- 1074) (f_val m2 e2 / f_val m e)"
      using assms 3 by (intro rnd_mono divide_right_mono) (simp_all add: f_le_Fin f_val_def)
    with f_div_pos [OF 3(1) assms(3), of e1 e] f_div_pos [OF 3(2) assms(3), of e2 e] show ?thesis
      unfolding val by (auto simp: f_le_Inf f_le_Fin split: if_splits)
  qed (simp_all only: zero nonneg f_le_refl f64.distinct not_False_eq_True)
qed

end
