(* ===== verification/Agent_Props.thy ===== *)
theory Agent_Props
  imports Agent_Loop F64_Mono
begin

section \<open>Properties of the loop of an agent\<close>

text \<open>
  The loop ends, spends no more than its budget, and touches the world only through the tools it is
  allowed; the network policy of a specification does not take part in it.
\<close>

subsection \<open>Invariants of the loop\<close>

text \<open>An invariant of every iteration holds when the task ends.\<close>

lemma agent_loop_induct:
  assumes step: "\<And>st t. Inv st \<Longrightarrow> Inv (snd (agent_turn e (ts t) f session input st))" and "Inv st"
  shows "Inv (snd (agent_loop e ts f session input n st))"
  using assms(2)
proof (induction n arbitrary: st)
  case (Suc n)
  obtain r st' where turn: "agent_turn e (ts (tk_iterations st)) f session input st = (r, st')" by fastforce
  with step [OF Suc.prems, of "tk_iterations st"] have "Inv st'" by simp
  with Suc.IH turn show ?case by (cases r) simp_all
qed simp

lemma on_rt_comp [simp]: "on_rt (g \<circ> h) st = on_rt g (on_rt h st)"
  by (simp add: on_rt_def)

text \<open>
  The parts of an iteration, each as a change of the state; a predicate that all of them preserve is
  preserved by the iteration.
\<close>

locale turn_invariant =
  fixes Inv :: "'w task_state \<Rightarrow> bool"
    and e :: "'r agent_env" and t :: turn_env
  assumes tokens: "Inv st \<Longrightarrow> Inv (st\<lparr>tk_tokens := n\<rparr>)"
    and logs: "Inv st \<Longrightarrow> Inv (on_rt (rt_logs msg) st)"
    and conversation: "Inv st \<Longrightarrow> Inv (on_rt (\<lambda>rt. rt\<lparr>rt_conversation := conv rt\<rparr>) st)"
    and sessions: "Inv st \<Longrightarrow> Inv (on_rt (\<lambda>rt. rt\<lparr>rt_sessions := ss rt\<rparr>) st)"
    and memories: "Inv st \<Longrightarrow> Inv (on_rt (\<lambda>rt. rt\<lparr>rt_memories := mm rt\<rparr>) st)"
    and tool: "Inv st \<Longrightarrow> Inv (snd (call_tool e t k c st))"
begin

lemma push: "Inv st \<Longrightarrow> Inv (on_rt (push_message m) st)"
  using conversation [of st "\<lambda>rt. rt_conversation rt @ [m]"] by (simp add: on_rt_def push_message_def)

lemma give_up_inv: "Inv st \<Longrightarrow> Inv (snd (give_up e a b st))"
  by (simp add: give_up_def Let_def logs)

lemma call_tools_inv: "Inv st \<Longrightarrow> Inv (snd (call_tools e t k cs st))"
proof (induction cs arbitrary: k st)
  case (Cons c cs)
  show ?case
    using Cons.IH [OF tool [OF Cons.prems, of k c]] tool [OF Cons.prems, of k c] give_up_inv [OF Cons.prems]
    by (auto split: prod.split outcome.split)
qed simp

lemma compact_inv:
  assumes "Inv st" and "compact_context (tk_rt st) = Some rt"
  shows "Inv (st\<lparr>tk_rt := rt\<rparr>)"
proof -
  have eq: "st\<lparr>tk_rt := g (tk_rt st)\<rparr> = on_rt g st" for g by (simp add: on_rt_def)
  have *: "Inv (st\<lparr>tk_rt := (tk_rt st)\<lparr>rt_conversation := conv\<rparr>\<rparr>)" for conv
    using conversation [OF assms(1), of "\<lambda>_. conv"] by (simp add: on_rt_def)
  have "Inv (st\<lparr>tk_rt := rt_logs msg ((tk_rt st)\<lparr>rt_conversation := conv\<rparr>)\<rparr>)" for conv msg
    using logs [OF *, of msg conv] by (simp add: on_rt_def)
  with * assms show ?thesis
    by (auto simp: compact_context_def Let_def split: if_splits)
qed

lemma finish_inv: "Inv st \<Longrightarrow> Inv (snd (finish_task e f session input text st))"
proof -
  assume "Inv st"
  let ?a = "final_answer (ge_rx e) text"
  have s: "Inv (on_rt (save_turns f session input ?a) st')" if "Inv st'" for st'
  proof (cases "\<exists>sid store. session = Some sid \<and> rt_sessions (tk_rt st') = Some store")
    case True
    then obtain sid store where "session = Some sid" "rt_sessions (tk_rt st') = Some store" by blast
    then show ?thesis
      using sessions [OF that, of "\<lambda>_. Some (save_or_keep (save_turn (fe_assistant_commits f) (fe_assistant_time f) sid
        ''assistant'' ?a (save_or_keep (save_turn (fe_user_commits f) (fe_user_time f) sid ''user'' input store) store))
        (save_or_keep (save_turn (fe_user_commits f) (fe_user_time f) sid ''user'' input store) store))"]
      by (simp add: save_turns_def Let_def on_rt_def)
  next
    case False
    with that show ?thesis by (auto simp: save_turns_def on_rt_def split: option.splits)
  qed
  have m: "Inv (st'\<lparr>tk_rt := rt\<rparr>)" if "Inv st'" "save_task_memory c d input ?a (tk_rt st') = Some rt" for st' rt c d
    using that memories [OF that(1)]
    by (auto simp: save_task_memory_def on_rt_def split: if_splits option.splits)
  from s [OF logs [OF \<open>Inv st\<close>]] show ?thesis
    by (auto simp: finish_task_def Let_def split: option.split intro: m)
qed

lemma handle_text_inv: "Inv st \<Longrightarrow> Inv (snd (handle_text e t f session input text st))"
proof -
  assume "Inv st"
  then have p: "Inv (on_rt (push_message (chat_assistant text)) st)" by (rule push)
  show ?thesis
    by (simp add: handle_text_def Let_def p logs push finish_inv call_tools_inv)
qed

lemma agent_turn_inv:
  assumes limits: "\<And>r st'. check_limits e t (st\<lparr>tk_iterations := tk_iterations st + 1\<rparr>) = (r, st') \<Longrightarrow> Inv st'"
    and spend: "\<And>st' rt r. check_limits e t (st\<lparr>tk_iterations := tk_iterations st + 1\<rparr>) = (GoOn, st') \<Longrightarrow>
      compact_context (tk_rt st') = Some rt \<Longrightarrow>
      tn_infer t (inference_task_for (rt_logs (''LLM iteration '' @ show_nat (tk_iterations st') @ '' (model: '' @
        ac_model (rt_config rt) @ '')'') rt)) = Inr (InferenceD r) \<Longrightarrow>
      Inv (on_rt (\<lambda>rt. rt\<lparr>rt_budget := budget_spend (tn_spend_time t) (token_cost (ir_tokens_generated r)) (rt_budget rt)\<rparr>)
        (st'\<lparr>tk_rt := rt_logs (''LLM iteration '' @ show_nat (tk_iterations st') @ '' (model: '' @
          ac_model (rt_config rt) @ '')'') rt, tk_tokens := tk_tokens st' + ir_tokens_generated r\<rparr>))"
  shows "Inv (snd (agent_turn e t f session input st))"
proof -
  obtain r st' where l: "check_limits e t (st\<lparr>tk_iterations := tk_iterations st + 1\<rparr>) = (r, st')" by fastforce
  have st': "Inv st'" by (rule limits [OF l])
  show ?thesis
  proof (cases r)
    case GoOn
    show ?thesis
    proof (cases "compact_context (tk_rt st')")
      case (Some rt)
      have "Inv (st'\<lparr>tk_rt := rt_logs msg rt\<rparr>)" for msg
        using logs [OF compact_inv [OF st' Some], of msg] by (simp add: on_rt_def)
      then show ?thesis
        using spend [OF l [unfolded GoOn] Some] Some GoOn l
        by (auto simp: agent_turn_def Let_def split: sum.split task_data.split intro!: handle_text_inv)
    qed (use st' GoOn l in \<open>simp add: agent_turn_def\<close>)
  qed (use st' l in \<open>simp_all add: agent_turn_def\<close>)
qed

end

subsection \<open>The budget\<close>

text \<open>The spending is between 0 and its limit, in the request, the hour, the day and altogether.\<close>

definition spent_within :: "f64 \<Rightarrow> f64 \<Rightarrow> bool" where
  "spent_within spent limit \<longleftrightarrow> f_le (Fin 0 0) spent \<and> f_le spent limit"

definition budget_within :: "budget_tracker \<Rightarrow> bool" where
  "budget_within b \<longleftrightarrow>
     spent_within (bt_spent_request b) (bt_per_request_limit b) \<and>
     spent_within (bt_spent_hour b) (bt_per_hour_limit b) \<and>
     spent_within (bt_spent_day b) (bt_per_day_limit b) \<and>
     spent_within (bt_spent_total b) (bt_total_limit b)"

lemma spent_within_0: "spent_within s l \<Longrightarrow> spent_within (Fin 0 0) l"
  by (auto simp: spent_within_def intro: f_le_trans)

lemma budget_reset_within: "budget_within b \<Longrightarrow> budget_within (budget_reset now b)"
  by (auto simp: budget_within_def budget_reset_def Let_def intro: spent_within_0)

lemma new_request_within: "budget_within b \<Longrightarrow> budget_within (new_request b)"
  by (auto simp: budget_within_def new_request_def intro: spent_within_0)

lemma can_spend_within: "budget_within b \<Longrightarrow> budget_within (snd (can_spend now a b))"
  by (simp add: can_spend_def Let_def budget_reset_within)

text \<open>The cost of tokens is a number between 0 and the cost of more tokens.\<close>

lemma f_le_FinE:
  assumes "f_le (Fin a b) x" and "f_le x (Fin c d)"
  obtains m e where "x = Fin m e"
  using assms by (cases x) (auto simp: f_le_Inf)

lemma f_of_int_mono: "i \<le> j \<Longrightarrow> f_le (f_of_int i) (f_of_int j)"
  unfolding f_of_int_def f_round_def by (rule fp_round_mono) (simp_all add: f_val_def)

text \<open>The cost of tokens goes through \<open>n / 1000\<close>; all numbers on the way are finite.\<close>

lemma per_thousand_mono:
  assumes "i \<le> (j :: u32)"
  obtains m1 e1 m2 e2 where "f_div (f_of_u32 i) (f_of_int 1000) = Fin m1 e1"
    and "f_div (f_of_u32 j) (f_of_int 1000) = Fin m2 e2"
    and "f_le (Fin 0 0) (Fin m1 e1)" and "f_le (Fin m1 e1) (Fin m2 e2)"
proof -
  let ?q = "\<lambda>k. f_div k (f_of_int 1000)"
  have nums: "f_of_int 0 = Fin 0 0" "f_of_int 4294967295 = Fin 4294967295 0" "f_of_int 1000 = Fin 125 3"
    by code_simp+
  have q: "?q (Fin 0 0) = Fin 0 0" "f_le (?q (Fin 4294967295 0)) (Fin 1 32)"
    by code_simp+
  have "uint j < 2 ^ LENGTH(32)" by (rule unsigned_less)
  then have "uint j \<le> 4294967295" by simp
  then have le: "f_le (Fin 0 0) (f_of_u32 i)" "f_le (f_of_u32 i) (f_of_u32 j)" "f_le (f_of_u32 j) (Fin 4294967295 0)"
    using assms f_of_int_mono [of 0 "uint i"] f_of_int_mono [of "uint i" "uint j"]
      f_of_int_mono [of "uint j" 4294967295]
    by (simp_all add: f_of_u32_def nums word_le_def)
  obtain a b where i: "f_of_u32 i = Fin a b"
    using le(1) f_le_trans [OF le(2,3)] by (rule f_le_FinE)
  obtain c d where j: "f_of_u32 j = Fin c d"
    using f_le_trans [OF le(1,2)] le(3) by (rule f_le_FinE)
  have "0 \<le> a" "0 \<le> c"
    using le(1) f_le_trans [OF le(1,2)] by (simp_all add: i j f_le_Fin f_val_sign f_val_def [of 0])
  then have d: "f_le (Fin 0 0) (?q (f_of_u32 i))" "f_le (?q (f_of_u32 i)) (?q (f_of_u32 j))"
      "f_le (?q (f_of_u32 j)) (?q (Fin 4294967295 0))"
    using f_div_mono [of 0 0 a b 125 3] f_div_mono [of a b c d 125 3] f_div_mono [of c d 4294967295 0 125 3]
      le q(1) by (simp_all add: i j nums)
  have top: "f_le (?q (f_of_u32 j)) (Fin 1 32)" using d(3) q(2) by (rule f_le_trans)
  obtain m1 e1 where q1: "?q (f_of_u32 i) = Fin m1 e1"
    using d(1) f_le_trans [OF d(2) top] by (rule f_le_FinE)
  obtain m2 e2 where q2: "?q (f_of_u32 j) = Fin m2 e2"
    using f_le_trans [OF d(1,2)] top by (rule f_le_FinE)
  show ?thesis by (rule that [OF q1 q2]) (use d in \<open>simp_all add: q1 q2\<close>)
qed

lemma token_cost_mono:
  assumes "i \<le> j"
  shows "f_le (Fin 0 0) (token_cost i)" and "f_le (token_cost i) (token_cost j)"
proof -
  have half: "cost_per_1k_tokens = Fin 1 (- 1)" and zero: "f_mul (Fin 0 0) (Fin 1 (- 1)) = Fin 0 0"
    by code_simp+
  from assms obtain m1 e1 m2 e2 where q: "f_div (f_of_u32 i) (f_of_int 1000) = Fin m1 e1"
    "f_div (f_of_u32 j) (f_of_int 1000) = Fin m2 e2" "f_le (Fin 0 0) (Fin m1 e1)" "f_le (Fin m1 e1) (Fin m2 e2)"
    by (rule per_thousand_mono)
  show "f_le (Fin 0 0) (token_cost i)" "f_le (token_cost i) (token_cost j)"
    using f_mul_mono [OF q(3), of 1 "- 1"] f_mul_mono [OF q(4), of 1 "- 1"] zero
    by (simp_all add: token_cost_def half q)
qed

text \<open>Spending what was found affordable, or less, keeps within the limits.\<close>

lemma f_add_nonneg:
  assumes "f_le (Fin 0 0) x" and "f_le (Fin 0 0) y"
  shows "f_le (Fin 0 0) (f_add x y)"
proof (cases "\<exists>m1 e1 m2 e2. x = Fin m1 e1 \<and> y = Fin m2 e2")
  case True
  then obtain m1 e1 m2 e2 where xy: "x = Fin m1 e1" "y = Fin m2 e2" by blast
  with assms have "0 \<le> m1" "0 \<le> m2" by (simp_all add: f_le_Fin f_val_sign f_val_def [of 0])
  then show ?thesis
    by (auto simp: xy Let_def f_round_def two_pow_def intro!: fp_round_sign)
next
  case False
  with assms show ?thesis by (cases x; cases y) (auto simp: f_le_Inf)
qed

lemma spent_within_add:
  assumes "spent_within s l" and "f_le (Fin 0 0) a" and "f_le a a'" and "f_le (f_add s a') l"
    and "s' = s \<or> s' = Fin 0 0"
  shows "spent_within (f_add s' a) l"
proof -
  have s: "f_le (Fin 0 0) s" using assms(1) by (simp add: spent_within_def)
  have "s \<noteq> NaN" using s by auto
  then have s': "f_le (Fin 0 0) s'" "f_le s' s" using assms(5) s by auto
  have pos: "f_le (Fin 0 0) (f_add s' a)" using s'(1) assms(2) by (rule f_add_nonneg)
  have "f_add s' a \<noteq> NaN" "f_add s a' \<noteq> NaN" using pos assms(4) by auto
  then have "f_le (f_add s' a) (f_add s a')" by (rule f_add_mono [OF s'(2) assms(3)])
  then have "f_le (f_add s' a) l" using assms(4) by (rule f_le_trans)
  with pos show ?thesis by (simp add: spent_within_def)
qed

lemma budget_spend_within:
  assumes "budget_within b" and "can_spend now a' b = (True, b')" and "f_le (Fin 0 0) a" and "f_le a a'"
  shows "budget_within (budget_spend now' a b')"
proof -
  have b': "budget_within b'" using can_spend_within [OF assms(1), of now a'] assms(2) by simp
  have r: "bt_spent_request (budget_reset now' b') = bt_spent_request b'"
    "bt_spent_total (budget_reset now' b') = bt_spent_total b'"
    "bt_spent_hour (budget_reset now' b') = bt_spent_hour b' \<or> bt_spent_hour (budget_reset now' b') = Fin 0 0"
    "bt_spent_day (budget_reset now' b') = bt_spent_day b' \<or> bt_spent_day (budget_reset now' b') = Fin 0 0"
    "bt_per_request_limit (budget_reset now' b') = bt_per_request_limit b'"
    "bt_per_hour_limit (budget_reset now' b') = bt_per_hour_limit b'"
    "bt_per_day_limit (budget_reset now' b') = bt_per_day_limit b'"
    "bt_total_limit (budget_reset now' b') = bt_total_limit b'"
    by (auto simp: budget_reset_def Let_def)
  have "f_le (f_add (bt_spent_request b') a') (bt_per_request_limit b')"
    "f_le (f_add (bt_spent_hour b') a') (bt_per_hour_limit b')"
    "f_le (f_add (bt_spent_day b') a') (bt_per_day_limit b')"
    "f_le (f_add (bt_spent_total b') a') (bt_total_limit b')"
    using assms(2) by (auto simp: can_spend_def Let_def)
  with b' r show ?thesis
    by (auto simp: budget_within_def budget_spend_def Let_def intro!: spent_within_add [OF _ assms(3,4)])
qed


subsection \<open>What the parts of an iteration keep\<close>

text \<open>A call of a tool changes the log, the conversation, the registry, the world and the calls.\<close>

lemmas task_updates = on_rt_def rt_logs_def push_message_def record_tool_call_def

lemma call_tool_frame:
  "rt_budget (tk_rt (snd (call_tool e t k c st))) = rt_budget (tk_rt st)"
  "rt_config (tk_rt (snd (call_tool e t k c st))) = rt_config (tk_rt st)"
  "rt_context (tk_rt (snd (call_tool e t k c st))) = rt_context (tk_rt st)"
  "tk_iterations (snd (call_tool e t k c st)) = tk_iterations st"
  by (simp_all add: call_tool_def Let_def task_updates split: outcome.split prod.split)

interpretation counted: turn_invariant "\<lambda>st. tk_iterations st = k" e t for k :: nat and e :: "'r agent_env" and t
  by unfold_locales (simp_all add: task_updates call_tool_frame)

interpretation budgeted: turn_invariant "\<lambda>st. budget_within (rt_budget (tk_rt st))" e t for e :: "'r agent_env" and t
  by unfold_locales (simp_all add: task_updates call_tool_frame)

lemma check_limits_frame:
  "rt_config (tk_rt (snd (check_limits e t st))) = rt_config (tk_rt st)"
  "rt_tools (tk_rt (snd (check_limits e t st))) = rt_tools (tk_rt st)"
  "rt_context (tk_rt (snd (check_limits e t st))) = rt_context (tk_rt st)"
  "tk_iterations (snd (check_limits e t st)) = tk_iterations st"
  "tk_world (snd (check_limits e t st)) = tk_world st"
  "tk_calls (snd (check_limits e t st)) = tk_calls st"
  by (simp_all add: check_limits_def give_up_def Let_def task_updates split: prod.split)

lemma check_limits_GoOn:
  assumes "check_limits e t st = (GoOn, st')"
  shows "tk_iterations st \<le> max_iterations"
    and "can_spend (tn_check_time t) (token_cost (ac_max_tokens (rt_config (tk_rt st)))) (rt_budget (tk_rt st)) =
      (True, rt_budget (tk_rt st'))"
  using assms by (auto simp: check_limits_def give_up_def Let_def task_updates split: if_splits prod.splits)

lemma compact_context_frame:
  assumes "compact_context rt = Some rt'"
  shows "rt_config rt' = rt_config rt" and "rt_budget rt' = rt_budget rt" and "rt_tools rt' = rt_tools rt"
    and "rt_context rt' = rt_context rt"
  using assms by (auto simp: compact_context_def Let_def rt_logs_def split: if_splits)

subsection \<open>The loop ends\<close>

lemma agent_turn_iterations:
  "tk_iterations (snd (agent_turn e t f session input st)) = tk_iterations st + 1"
proof (rule counted.agent_turn_inv, goal_cases)
  case (1 r st')
  then show ?case using check_limits_frame(4) [of e t "st\<lparr>tk_iterations := tk_iterations st + 1\<rparr>"] by simp
next
  case (2 st' rt r)
  then show ?case
    using check_limits_frame(4) [of e t "st\<lparr>tk_iterations := tk_iterations st + 1\<rparr>"] by (simp add: on_rt_def)
qed

lemma agent_turn_GoOn:
  "agent_turn e t f session input st = (GoOn, st') \<Longrightarrow> tk_iterations st < max_iterations"
  using check_limits_GoOn(1) [of e t "st\<lparr>tk_iterations := tk_iterations st + 1\<rparr>"]
  by (auto simp: agent_turn_def split: prod.splits turn_end.splits)

lemma agent_loop_ends:
  "tk_iterations st \<le> max_iterations \<Longrightarrow> max_iterations < tk_iterations st + n \<Longrightarrow>
   fst (agent_loop e ts f session input n st) \<noteq> OutOfFuel \<and>
   tk_iterations (snd (agent_loop e ts f session input n st)) \<le> max_iterations + 1"
proof (induction n arbitrary: st)
  case (Suc n)
  obtain r st' where turn: "agent_turn e (ts (tk_iterations st)) f session input st = (r, st')" by fastforce
  then have "tk_iterations st' = tk_iterations st + 1"
    using agent_turn_iterations [of e "ts (tk_iterations st)" f session input st] by simp
  with Suc turn agent_turn_GoOn [of e "ts (tk_iterations st)" f session input st st'] show ?case
    by (cases r) auto
qed simp


subsection \<open>The tools an agent may use\<close>

text \<open>The parts of the state that decide which tools run, what they do, and which calls succeeded.\<close>

definition confined :: "agent_config \<Rightarrow> (string, 'w tool) hmap \<Rightarrow> ('w \<Rightarrow> bool) \<Rightarrow> 'w task_state \<Rightarrow> bool" where
  "confined c builtin P st \<longleftrightarrow>
     rt_config (tk_rt st) = c \<and> tr_builtin (rt_tools (tk_rt st)) = builtin \<and> P (tk_world st) \<and>
     (\<forall>r \<in> set (tk_calls st). tc_success r \<longrightarrow> tool_allowed c (tc_tool_name r))"

definition allowed_tools_keep :: "agent_config \<Rightarrow> (string, 'w tool) hmap \<Rightarrow> ('w \<Rightarrow> bool) \<Rightarrow> bool" where
  "allowed_tools_keep c builtin P \<longleftrightarrow>
     (\<forall>n t p x w. hm_get builtin n = Some t \<longrightarrow> tool_allowed c n \<longrightarrow> P w \<longrightarrow> P (snd (tl_execute t p x w)))"

lemma execute_local_keeps:
  assumes "execute_local e name p x r w = (res, r', w')" and "allowed_tools_keep c (tr_builtin r) P"
    and "tool_allowed c name" and "P w"
  shows "P w'" and "tr_builtin r' = tr_builtin r"
proof -
  have "P (snd (tl_execute t p x w))" if "hm_get (tr_builtin r) name = Some t" for t
    using assms(2-4) that by (auto simp: allowed_tools_keep_def)
  then show "P w'" "tr_builtin r' = tr_builtin r"
    using assms(1,4)
    by (fastforce simp: execute_local_def get_tool_def record_call_def Let_def
        split: sum.splits option.splits prod.splits outcome.splits)+
qed

lemma call_tool_confined:
  assumes "allowed_tools_keep c builtin P" and "confined c builtin P st"
  shows "confined c builtin P (snd (call_tool e t k call st))"
proof (cases "tool_allowed c (pt_name call)")
  case False
  with assms(2) show ?thesis by (simp add: call_tool_def Let_def confined_def task_updates)
next
  case True
  have st: "rt_config (tk_rt st) = c" "tr_builtin (rt_tools (tk_rt st)) = builtin" "P (tk_world st)"
    using assms(2) by (simp_all add: confined_def)
  obtain res r w where ex: "execute_local
      \<lparr>te_parse = ge_url e, te_json_text = ge_json_text e, te_elapsed_stats = tn_stats_ms t k,
       te_elapsed_result = tn_result_ms t k\<rparr> (pt_name call) (pt_args call) (rt_context (tk_rt st))
      (rt_tools (tk_rt st)) (tk_world st) = (res, r, w)" by (rule prod_cases3)
  from execute_local_keeps [OF ex _ True] assms(1) st have "P w" "tr_builtin r = builtin" by simp_all
  with True assms(2) ex show ?thesis
    by (cases res) (simp_all add: call_tool_def Let_def confined_def task_updates)
qed

lemma confined_turns:
  "allowed_tools_keep c builtin P \<Longrightarrow> turn_invariant (confined c builtin P) e t"
  by unfold_locales ((rule call_tool_confined; assumption) | simp add: confined_def task_updates)+


lemma check_limits_confined:
  "confined c builtin P st \<Longrightarrow> confined c builtin P (snd (check_limits e t st))"
  by (simp add: confined_def check_limits_frame)

lemma agent_turn_confined:
  assumes "allowed_tools_keep c builtin P" and "confined c builtin P st"
  shows "confined c builtin P (snd (agent_turn e t f session input st))"
proof (rule turn_invariant.agent_turn_inv [OF confined_turns [OF assms(1)]], goal_cases)
  case (1 r st')
  moreover have "confined c builtin P (st\<lparr>tk_iterations := i\<rparr>)" for i using assms(2) by (simp add: confined_def)
  ultimately show ?case using check_limits_confined [of c builtin P "st\<lparr>tk_iterations := tk_iterations st + 1\<rparr>" e t] by simp
next
  case (2 st' rt r)
  moreover have "confined c builtin P (st\<lparr>tk_iterations := i\<rparr>)" for i using assms(2) by (simp add: confined_def)
  ultimately show ?case
    using check_limits_confined [of c builtin P "st\<lparr>tk_iterations := tk_iterations st + 1\<rparr>" e t]
    by (simp add: confined_def task_updates compact_context_frame)
qed

lemma agent_turn_budget:
  assumes "\<And>x r. tn_infer t x = Inr (InferenceD r) \<Longrightarrow> ir_tokens_generated r \<le> it_max_tokens x"
    and "budget_within (rt_budget (tk_rt st))"
  shows "budget_within (rt_budget (tk_rt (snd (agent_turn e t f session input st))))"
proof (rule budgeted.agent_turn_inv, goal_cases)
  case (1 r st')
  with assms(2) show ?case
    by (auto simp: check_limits_def give_up_def Let_def task_updates can_spend_within split: if_splits prod.splits
      dest!: arg_cong [where f = snd])
next
  case (2 st' rt r)
  then show ?case
    using check_limits_GoOn [OF 2(1)] check_limits_frame(1) [of e t "st\<lparr>tk_iterations := tk_iterations st + 1\<rparr>"]
      compact_context_frame [OF 2(2)] assms(1) [OF 2(3)]
    by (auto simp: inference_task_for_def task_updates intro!: budget_spend_within token_cost_mono assms(2))
qed

lemma push_all_frame:
  "rt_budget (foldl (\<lambda>rt t. push_message (turn_message t) rt) rt turns) = rt_budget rt"
  "rt_config (foldl (\<lambda>rt t. push_message (turn_message t) rt) rt turns) = rt_config rt"
  "rt_tools (foldl (\<lambda>rt t. push_message (turn_message t) rt) rt turns) = rt_tools rt"
  by (induction turns arbitrary: rt) (simp_all add: push_message_def)

lemma load_history_frame:
  "rt_budget (load_history loads session rt) = rt_budget rt"
  "rt_config (load_history loads session rt) = rt_config rt"
  "rt_tools (load_history loads session rt) = rt_tools rt"
  by (simp_all add: load_history_def rt_logs_def push_all_frame Let_def split: option.split sum.split)

lemma start_task_frame:
  "rt_budget (tk_rt (start_task e recalled loads session input rt w)) = new_request (rt_budget rt)"
  "rt_config (tk_rt (start_task e recalled loads session input rt w)) = rt_config rt"
  "rt_tools (tk_rt (start_task e recalled loads session input rt w)) = rt_tools rt"
  "tk_world (start_task e recalled loads session input rt w) = w"
  "tk_calls (start_task e recalled loads session input rt w) = []"
  "tk_iterations (start_task e recalled loads session input rt w) = 0"
  by (simp_all add: start_task_def Let_def load_history_frame push_message_def rt_logs_def)

subsection \<open>A task in the agent's own loop\<close>

lemma own_loop_ends:
  "fst (run_task_own_loop e ts f recalled loads session input rt w) \<noteq> OutOfFuel \<and>
   tk_iterations (snd (run_task_own_loop e ts f recalled loads session input rt w)) \<le> max_iterations + 1"
  unfolding run_task_own_loop_def by (rule agent_loop_ends) (simp_all add: start_task_frame)

lemma own_loop_budget:
  assumes "\<And>i x r. tn_infer (ts i) x = Inr (InferenceD r) \<Longrightarrow> ir_tokens_generated r \<le> it_max_tokens x"
    and "budget_within (rt_budget rt)"
  shows "budget_within (rt_budget (tk_rt (snd (run_task_own_loop e ts f recalled loads session input rt w))))"
  unfolding run_task_own_loop_def
  by (rule agent_loop_induct [where Inv = "\<lambda>st. budget_within (rt_budget (tk_rt st))"])
    (simp_all add: agent_turn_budget assms start_task_frame new_request_within)

lemma own_loop_confined:
  assumes "allowed_tools_keep (rt_config rt) (tr_builtin (rt_tools rt)) P" and "P w"
  shows "confined (rt_config rt) (tr_builtin (rt_tools rt)) P
    (snd (run_task_own_loop e ts f recalled loads session input rt w))"
  unfolding run_task_own_loop_def
  by (rule agent_loop_induct [where Inv = "confined (rt_config rt) (tr_builtin (rt_tools rt)) P"])
    (simp_all add: agent_turn_confined [OF assms(1)], simp add: confined_def start_task_frame assms(2))

text \<open>The calls in a result are those of the task.\<close>

lemma give_up_calls: "give_up e a b st = (Return r, st') \<Longrightarrow> ar_tool_calls r = tk_calls st'"
  by (auto simp: give_up_def task_result_of_def Let_def)

lemma call_tools_calls: "call_tools e t i cs st = (Return r, st') \<Longrightarrow> ar_tool_calls r = tk_calls st'"
  by (induction cs arbitrary: i st) (auto split: if_splits prod.splits outcome.splits dest: give_up_calls)

lemma finish_task_calls: "finish_task e f session input text st = (Return r, st') \<Longrightarrow> ar_tool_calls r = tk_calls st'"
  by (auto simp: finish_task_def task_result_of_def Let_def split: option.splits)

lemma handle_text_calls: "handle_text e t f session input text st = (Return r, st') \<Longrightarrow> ar_tool_calls r = tk_calls st'"
  by (auto simp: handle_text_def Let_def split: if_splits dest: call_tools_calls finish_task_calls)

lemma check_limits_calls: "check_limits e t st = (Return r, st') \<Longrightarrow> ar_tool_calls r = tk_calls st'"
  by (auto simp: check_limits_def Let_def split: if_splits prod.splits dest: give_up_calls)

lemma agent_turn_calls:
  "agent_turn e t f session input st = (Return r, st') \<Longrightarrow> ar_tool_calls r = tk_calls st'"
  by (auto simp: agent_turn_def Let_def task_result_of_def split: prod.splits turn_end.splits option.splits
      sum.splits task_data.splits dest: check_limits_calls handle_text_calls)

lemma agent_loop_calls:
  "agent_loop e ts f session input n st = (TaskReturned r, st') \<Longrightarrow> ar_tool_calls r = tk_calls st'"
  by (induction n arbitrary: st) (auto split: prod.splits turn_end.splits dest: agent_turn_calls)

subsection \<open>An agent at work\<close>

text \<open>
  A model that asks for a tool that is not allowed and generates all the tokens it may; of the two
  tools only the first is allowed. The world counts the commands run.
\<close>

definition demo_tool :: "string \<Rightarrow> (nat \<Rightarrow> nat) \<Rightarrow> nat tool" where
  "demo_tool name act =
     \<lparr>tl_name = name, tl_description = ''demo'', tl_schema = json_object [], tl_domain = DomainAny,
      tl_execute = (\<lambda>p x w. (Ok (output_text ''done'' 1), act w))\<rparr>"

definition demo_registry :: "nat tool_registry" where
  "demo_registry = registry_new ''peer'' [demo_tool ''time'' id, demo_tool ''shell'' Suc]"

definition demo_spec :: agent_spec where
  "demo_spec =
     \<lparr>as_agent = \<lparr>am_name = ''demo'', am_description = '''', am_version = ''0.1.0''\<rparr>,
      as_model = model_spec_default,
      as_capabilities = \<lparr>cs_web_access = False, cs_storage = False, cs_vector_memory = False, cs_tool_building = False\<rparr>,
      as_budget = budget_spec_default,
      as_tools = \<lparr>tos_builtin = [''time''], tos_allowed_commands = []\<rparr>,
      as_channels = \<lparr>chs_repl = True, chs_websocket = False, chs_webhook = False\<rparr>,
      as_memory = None, as_routines = None, as_network_policy = None\<rparr>"

definition demo_runtime :: "nat agent_runtime" where
  "demo_runtime = runtime_from_spec ''0123-456789ab'' 0 demo_spec demo_registry ''peer'' ''/tmp'' False"

definition plain_prompts :: prompt_bundle where
  "plain_prompts =
     \<lparr>pb_agentic_system_intro = [], pb_agentic_mcp_only_intro = [], pb_agentic_tools_header = [],
      pb_agentic_mcp_tools_header = [], pb_unified_final_turn_suffix = [], pb_unified_assistant_turn_marker = [],
      pb_unified_compact_retry_suffix = [], pb_unified_url_fetch_nudge = [], pb_unified_preamble_nudge = [],
      pb_unified_empty_final_reply = [], pb_unified_all_calls_blocked = [], pb_unified_repeat_call_warning = [],
      pb_unified_merge_duplicates_notice = [], pb_unified_skipped_calls_notice = [], pb_unified_tool_results_followup = [],
      pb_unified_all_tools_failed_suffix = [], pb_unified_max_iters_error = [], pb_unified_conversation_user_label = [],
      pb_unified_tool_results_header = [], pb_unified_mcp_only_tool_error = [], pb_web_task_unified_body = [],
      pb_web_task_mcp_body = [], pb_web_chat_user_thread_header = [], pb_web_chat_active_skill_fmt = [],
      pb_web_task_skill_section_fmt = [], pb_agent_runtime_prior_conversation_header = [], pb_agent_runtime_instructions_fmt = [],
      pb_agent_runtime_task_body_suffix = [], pb_crew_agent_system_fmt = [], pb_crew_worker_prompt_fmt = [],
      pb_agent_legacy_default_name_fmt = [], pb_agent_legacy_tool_block = [], pb_agent_recalled_memories_header = []\<rparr>"

definition agent_demo_env :: "unit agent_env" where
  "agent_demo_env =
     \<lparr>ge_rx = \<lparr>rx_new = (\<lambda>_. Some ()), rx_static = (\<lambda>_. ()), rx_captures = (\<lambda>_ _. [])\<rparr>,
      ge_parse_json = (\<lambda>_. None),
      ge_json_text = (\<lambda>_. ''{}''), ge_json_pretty = (\<lambda>_. ''{}''), ge_url = (\<lambda>_. Inl ''no''),
      ge_prompts = plain_prompts\<rparr>"

definition demo_turn :: "nat \<Rightarrow> turn_env" where
  "demo_turn i =
     \<lparr>tn_stop = False, tn_check_time = int i, tn_spend_time = int i,
      tn_infer = (\<lambda>x. Inr (InferenceD \<lparr>ir_text = ''<tool_call>name: shell</tool_call>'', ir_tokens_generated = it_max_tokens x,
        ir_tokens_per_second = f_of_int 10, ir_finish_reason = FinishStop\<rparr>)),
      tn_stop_before = (\<lambda>_. False), tn_stats_ms = (\<lambda>_. 1), tn_result_ms = (\<lambda>_. 1), tn_duration_ms = (\<lambda>_. 1)\<rparr>"

definition demo_finish :: finish_env where
  "demo_finish =
     \<lparr>fe_user_commits = True, fe_assistant_commits = True, fe_user_time = 0, fe_assistant_time = 0,
      fe_collection = True, fe_stored = True\<rparr>"

end
