(* ===== verification/Session_Props.thy ===== *)
theory Session_Props
  imports Session
begin

section \<open>Sessions keep histories\<close>

text \<open>
  The two tables implement a function from sessions to their turns: the keys of a session lie
  between its bounds, in the order of the turns, and apart from those of other sessions.
\<close>

subsection \<open>Digits\<close>

fun digits_value :: "string \<Rightarrow> nat" where
  "digits_value [] = 0"
| "digits_value (c # s) = (of_char c - 48) * 10 ^ length s + digits_value s"

definition is_digits :: "string \<Rightarrow> bool" where
  "is_digits s \<longleftrightarrow> list_all (\<lambda>c. 48 \<le> (of_char c :: nat) \<and> (of_char c :: nat) \<le> 57) s"

lemma is_digits_simps [simp]:
  "is_digits []" "is_digits (c # s) \<longleftrightarrow> 48 \<le> (of_char c :: nat) \<and> (of_char c :: nat) \<le> 57 \<and> is_digits s"
  "is_digits (s @ t) \<longleftrightarrow> is_digits s \<and> is_digits t" "is_digits (replicate n (CHR ''0''))"
  by (auto simp: is_digits_def list_all_iff)

lemma digits_value_append [simp]: "digits_value (s @ t) = digits_value s * 10 ^ length t + digits_value t"
  by (induction s) (simp_all add: algebra_simps power_add)

lemma digits_value_zeros [simp]: "digits_value (replicate n (CHR ''0'')) = 0"
  by (induction n) simp_all

lemma digits_value_bound: "is_digits s \<Longrightarrow> digits_value s < 10 ^ length s"
proof (induction s)
  case (Cons c s)
  then have le: "(of_char c - 48) * 10 ^ length s \<le> 9 * (10 ^ length s :: nat)" by (intro mult_right_mono) auto
  have "digits_value s < 10 ^ length s" using Cons by simp
  with le have "(of_char c - 48) * 10 ^ length s + digits_value s < 10 * 10 ^ length s" by linarith
  then show ?case by simp
qed simp

text \<open>Numerals of the same length compare like the numbers.\<close>

lemma str_less_digits:
  "length s = length t \<Longrightarrow> is_digits s \<Longrightarrow> is_digits t \<Longrightarrow> str_less s t \<longleftrightarrow> digits_value s < digits_value t"
proof (induction s t rule: list_induct2)
  case (Cons c s d t)
  let ?c = "of_char c - 48 :: nat" and ?d = "of_char d - 48 :: nat" and ?p = "10 ^ length t :: nat"
  have eq: "c = d \<longleftrightarrow> ?c = ?d" "(of_char c :: nat) < of_char d \<longleftrightarrow> ?c < ?d"
    using Cons.prems by (auto simp: eq_diff_iff)
  have b: "digits_value s < ?p" "digits_value t < ?p"
    using digits_value_bound [of s] digits_value_bound [of t] Cons.prems Cons.hyps by auto
  have less: "x * ?p + v < y * ?p + w" if "x < y" "v < ?p" for x y v w :: nat
  proof -
    have "x * ?p + v < (x + 1) * ?p" using that by simp
    also have "\<dots> \<le> y * ?p" using that by (intro mult_right_mono) auto
    finally show ?thesis by simp
  qed
  show ?case
    using Cons eq b less [of ?c ?d "digits_value s" "digits_value t"] less [of ?d ?c "digits_value t" "digits_value s"]
    by (cases "?c = ?d") (auto simp: nat_neq_iff)
qed simp

lemma decimal_digits: "0 \<le> n \<Longrightarrow> is_digits (decimal n) \<and> digits_value (decimal n) = nat n"
proof (induction n rule: decimal.induct)
  case (1 n)
  have c: "of_char (char_of (48 + nat k) :: char) = 48 + nat k" if "0 \<le> k" "k < 10" for k
    using that by simp
  show ?case
  proof (cases "n < 10")
    case True
    with 1 show ?thesis by (simp add: decimal.simps [of n] c)
  next
    case False
    with 1 have ih: "is_digits (decimal (n div 10))" "digits_value (decimal (n div 10)) = nat (n div 10)" by auto
    have "nat n = nat (n div 10) * 10 + nat (n mod 10)"
      using 1(2) by (simp add: nat_div_distrib nat_mod_distrib)
    moreover have "nat (n mod 10) < 10" by simp
    ultimately show ?thesis using False 1(2) ih by (simp add: decimal.simps [of n] c)
  qed
qed

lemma decimal_length: "0 \<le> n \<Longrightarrow> n < 10 ^ Suc k \<Longrightarrow> length (decimal n) \<le> Suc k"
proof (induction k arbitrary: n)
  case 0
  then show ?case by (simp add: decimal.simps [of n])
next
  case (Suc k)
  then have "n div 10 < 10 ^ Suc k" by simp
  with Suc show ?case by (cases "n < 10") (simp_all add: decimal.simps [of n])
qed

subsection \<open>Keys\<close>

text \<open>A session whose name has no zero byte, which is what separates names from numbers.\<close>

definition plain_id :: "string \<Rightarrow> bool" where
  "plain_id sid \<longleftrightarrow> CHR 0x00 \<notin> set sid"

lemma pad10_facts:
  assumes "uint n < 10 ^ 10"
  shows "length (pad10 n) = 10" and "is_digits (pad10 n)" and "digits_value (pad10 n) = unat n"
  using assms decimal_length [of "uint n" 9] decimal_digits [of "uint n"]
  by (simp_all add: pad10_def show_word_def Let_def)

lemma pad10_less:
  "uint i < 10 ^ 10 \<Longrightarrow> uint j < 10 ^ 10 \<Longrightarrow> str_less (pad10 i) (pad10 j) \<longleftrightarrow> i < j"
  by (simp add: str_less_digits pad10_facts word_less_nat_alt)

lemma str_less_prefix [simp]: "str_less (p @ s) (p @ t) \<longleftrightarrow> str_less s t"
  by (induction p) auto

lemma turn_key_less:
  "uint i < 10 ^ 10 \<Longrightarrow> uint j < 10 ^ 10 \<Longrightarrow> str_less (turn_key sid i) (turn_key sid j) \<longleftrightarrow> i < j"
  by (simp add: turn_key_def pad10_less)

lemma str_less_nines:
  "is_digits s \<Longrightarrow> length s = n \<Longrightarrow> \<not> str_less (replicate n (CHR ''9'')) s"
proof (induction n arbitrary: s)
  case (Suc n)
  then obtain c s' where s: "s = c # s'" by (cases s) auto
  then have "\<not> str_less (replicate n (CHR ''9'')) s'" and "(of_char c :: nat) \<le> 57"
    using Suc.prems Suc.IH [of s'] by simp_all
  then show ?case by (simp add: s)
qed simp

lemma turn_key_in_range:
  assumes "uint n < 10 ^ 10"
  shows "in_range (session_prefix sid) (session_upper_bound sid) (turn_key sid n)"
proof -
  have nines: "''9999999999'' = replicate 10 (CHR ''9'')" by code_simp
  have "\<not> str_less (replicate 10 (CHR ''9'')) (pad10 n)"
    using pad10_facts [OF assms] by (intro str_less_nines)
  then show ?thesis
    by (simp add: in_range_def session_prefix_def session_upper_bound_def turn_key_def nines [symmetric])
qed

lemma zero_least: "c \<noteq> CHR 0x00 \<Longrightarrow> (0 :: nat) < of_char c"
proof -
  assume "c \<noteq> CHR 0x00"
  then have "(of_char c :: nat) \<noteq> of_char (CHR 0x00)" by (simp only: of_char_eq_iff) simp
  then show ?thesis by simp
qed

text \<open>Keys that start with another plain name and its zero byte are out of the range.\<close>

lemma other_key_out_of_range:
  "plain_id a \<Longrightarrow> plain_id b \<Longrightarrow> a \<noteq> b \<Longrightarrow>
   str_less (a @ CHR 0x00 # s) (b @ [CHR 0x00]) \<or> str_less (b @ CHR 0x00 # t) (a @ CHR 0x00 # s)"
proof (induction a arbitrary: b)
  case Nil
  then obtain d b' where b: "b = d # b'" by (cases b) auto
  with Nil have "(0 :: nat) < of_char d" by (intro zero_least) (auto simp: plain_id_def)
  then show ?case by (simp add: b)
next
  case (Cons c a)
  show ?case
  proof (cases b)
    case Nil
    have "(0 :: nat) < of_char c" using Cons.prems by (intro zero_least) (auto simp: plain_id_def)
    then show ?thesis by (simp add: Nil)
  next
    case b: (Cons d b')
    show ?thesis
    proof (cases "c = d")
      case True
      have "str_less (a @ CHR 0x00 # s) (b' @ [CHR 0x00]) \<or> str_less (b' @ CHR 0x00 # t) (a @ CHR 0x00 # s)"
        using True b Cons.prems by (intro Cons.IH) (simp_all add: plain_id_def)
      then show ?thesis by (simp add: b True)
    next
      case False
      then have "(of_char c :: nat) \<noteq> of_char d" by simp
      then have "(of_char c :: nat) < of_char d \<or> (of_char d :: nat) < of_char c" by (rule nat_neq_iff [THEN iffD1])
      then show ?thesis by (auto simp: b)
    qed
  qed
qed

lemma turn_key_other_range:
  "plain_id sid \<Longrightarrow> plain_id sid' \<Longrightarrow> sid' \<noteq> sid \<Longrightarrow>
   \<not> in_range (session_prefix sid') (session_upper_bound sid') (turn_key sid n)"
  using other_key_out_of_range [of sid sid' "pad10 n" "''9999999999''"]
  by (auto simp: in_range_def session_prefix_def session_upper_bound_def turn_key_def)

subsection \<open>Tables\<close>

lemma filter_obj_insert:
  "obj_sorted t \<Longrightarrow>
   filter (\<lambda>(k, _). P k) (obj_insert k v t) =
     (if P k then obj_insert k v (filter (\<lambda>(k, _). P k) t) else filter (\<lambda>(k, _). P k) t)"
proof (induction t)
  case (Cons kv t)
  obtain k' v' where kv: "kv = (k', v')" by (cases kv)
  have *: "obj_insert k v xs = (k, v) # xs" if "\<forall>k' \<in> fst ` set xs. str_less k k'" for xs
    using that by (cases xs) auto
  have tail: "\<forall>x \<in> fst ` set t. str_less k' x" and t: "obj_sorted t"
    using Cons.prems kv by (auto simp: obj_sorted_def)
  then have "str_less k k' \<Longrightarrow> obj_insert k v (filter (\<lambda>(k, _). P k) t) = (k, v) # filter (\<lambda>(k, _). P k) t"
    by (intro *) (fastforce intro: str_less_trans [of k k'])
  moreover have "k = k' \<Longrightarrow> obj_insert k v (filter (\<lambda>(k, _). P k) t) = (k, v) # filter (\<lambda>(k, _). P k) t"
    using tail by (intro *) auto
  ultimately show ?case using Cons.IH [OF t] kv by auto
qed simp

lemma obj_insert_last: "\<forall>k' \<in> fst ` set t. str_less k' k \<Longrightarrow> obj_insert k v t = t @ [(k, v)]"
proof (induction t)
  case (Cons kv t)
  then obtain k' v' where kv: "kv = (k', v')" "str_less k' k" by (cases kv) auto
  then have "\<not> str_less k k'" "k \<noteq> k'" using str_less_trans [of k' k k'] by auto
  with Cons kv show ?case by simp
qed simp

lemma range_scan_insert:
  "obj_sorted t \<Longrightarrow> range_scan lo hi (obj_insert k v t) =
     (if in_range lo hi k then obj_insert k v (range_scan lo hi t) else range_scan lo hi t)"
  by (simp add: range_scan_def filter_obj_insert)

lemma fold_table_remove: "fold table_remove ks t = filter (\<lambda>(k, _). k \<notin> set ks) t"
  by (induction ks arbitrary: t) (auto simp: table_remove_def intro: filter_cong)

lemma range_scan_filter: "range_scan lo hi (filter Q t) = filter Q (range_scan lo hi t)"
  by (auto simp: range_scan_def intro: filter_cong)

lemma obj_sorted_filter: "obj_sorted t \<Longrightarrow> obj_sorted (filter Q t)"
  by (simp add: obj_sorted_def sorted_wrt_filter)

lemma map_of_table_remove: "map_of (table_remove k t) k' = (if k' = k then None else map_of t k')"
  by (induction t) (auto simp: table_remove_def)

subsection \<open>The store implements histories\<close>

text \<open>What the two tables say of a session with a plain name whose turns are \<open>h\<close>.\<close>

definition session_holds :: "session_store \<Rightarrow> string \<Rightarrow> session_turn list \<Rightarrow> bool" where
  "session_holds st sid h \<longleftrightarrow>
     range_scan (session_prefix sid) (session_upper_bound sid) (ss_turns st) =
       map (\<lambda>i. (turn_key sid (of_nat i), h ! i)) [0..<length h] \<and>
     (case map_of (ss_meta st) sid of None \<Rightarrow> h = [] | Some m \<Rightarrow> sm_turn_count m = of_nat (length h))"

definition implements :: "session_store \<Rightarrow> (string \<Rightarrow> session_turn list) \<Rightarrow> bool" where
  "implements st H \<longleftrightarrow> obj_sorted (ss_turns st) \<and> (\<forall>sid. plain_id sid \<longrightarrow> session_holds st sid (H sid))"

lemma session_holds_load:
  assumes "session_holds st sid h"
  shows "load_session sid n st = last_n n h"
proof -
  have "map (\<lambda>i. h ! i) [0..<length h] = h" by (rule map_nth)
  with assms show ?thesis by (simp add: load_session_def session_holds_def comp_def)
qed

lemma implements_empty: "implements store_empty (\<lambda>_. [])"
  by (simp add: implements_def session_holds_def store_empty_def range_scan_def obj_sorted_def)

lemma of_nat_small: "n < 10 ^ 10 \<Longrightarrow> uint (of_nat n :: u64) < 10 ^ 10 \<and> unat (of_nat n :: u64) = n"
  by (simp add: unat_of_nat uint_nat take_bit_nat_eq_self)

lemma save_turn_implements:
  assumes H: "implements st H" and sid: "plain_id sid" and room: "length (H sid) < 10 ^ 10"
    and save: "save_turn True now sid role content st = Some st'"
  shows "implements st' (H(sid := H sid @ [\<lparr>se_role = role, se_content = content, se_timestamp = now\<rparr>]))"
proof -
  let ?turn = "\<lparr>se_role = role, se_content = content, se_timestamp = now\<rparr>"
  let ?n = "of_nat (length (H sid)) :: u64"
  have own: "session_holds st sid (H sid)" and sorted: "obj_sorted (ss_turns st)"
    using H sid by (simp_all add: implements_def)
  have small: "uint (of_nat i :: u64) < 10 ^ 10" "unat (of_nat i :: u64) = i" if "i \<le> length (H sid)" for i
    using of_nat_small [of i] that room by auto
  obtain m where turns: "ss_turns st' = obj_insert (turn_key sid ?n) ?turn (ss_turns st)"
    and meta: "ss_meta st' = obj_insert sid m (ss_meta st)" "sm_turn_count m = ?n + 1"
    using save own by (auto simp: save_turn_def Let_def session_holds_def split: option.splits)
  have sid_holds: "session_holds st' sid (H sid @ [?turn])"
  proof -
    have "\<forall>k \<in> fst ` set (range_scan (session_prefix sid) (session_upper_bound sid) (ss_turns st)).
        str_less k (turn_key sid ?n)"
      using own small by (auto simp: session_holds_def turn_key_less word_less_nat_alt)
    then have "range_scan (session_prefix sid) (session_upper_bound sid) (ss_turns st') =
        map (\<lambda>i. (turn_key sid (of_nat i), H sid ! i)) [0..<length (H sid)] @ [(turn_key sid ?n, ?turn)]"
      using own small by (simp add: turns range_scan_insert [OF sorted] turn_key_in_range obj_insert_last session_holds_def)
    also have "\<dots> = map (\<lambda>i. (turn_key sid (of_nat i), (H sid @ [?turn]) ! i)) [0..<length (H sid @ [?turn])]"
      by (auto simp: nth_append)
    finally show ?thesis by (simp add: session_holds_def meta)
  qed
  have "session_holds st' sid' (H sid')" if "plain_id sid'" "sid' \<noteq> sid" for sid'
  proof -
    have "session_holds st sid' (H sid')" using H that by (simp add: implements_def)
    then show ?thesis
      using turn_key_other_range [OF sid that] that
      by (simp add: session_holds_def turns meta range_scan_insert [OF sorted])
  qed
  with sid_holds sorted show ?thesis by (auto simp: implements_def turns obj_sorted_insert)
qed

lemma clear_session_implements:
  assumes H: "implements st H" and sid: "plain_id sid" and cleared: "clear_session True sid st = Some st'"
  shows "implements st' (H(sid := []))"
proof -
  have own: "session_holds st sid (H sid)" and sorted: "obj_sorted (ss_turns st)"
    using H sid by (simp_all add: implements_def)
  let ?keys = "fst ` set (range_scan (session_prefix sid) (session_upper_bound sid) (ss_turns st))"
  have turns: "ss_turns st' = filter (\<lambda>(k, _). k \<notin> ?keys) (ss_turns st)"
    and meta: "ss_meta st' = table_remove sid (ss_meta st)"
    using cleared by (auto simp: clear_session_def fold_table_remove)
  have keys: "?keys \<subseteq> range (turn_key sid)" using own by (auto simp: session_holds_def)
  have "session_holds st' sid []"
    by (force simp: session_holds_def turns meta map_of_table_remove range_scan_filter filter_empty_conv)
  moreover have "session_holds st' sid' (H sid')" if "plain_id sid'" "sid' \<noteq> sid" for sid'
  proof -
    have holds: "session_holds st sid' (H sid')" using H that by (simp add: implements_def)
    have "k \<notin> ?keys" if "(k, t) \<in> set (range_scan (session_prefix sid') (session_upper_bound sid') (ss_turns st))" for k t
      using that keys turn_key_other_range [OF sid \<open>plain_id sid'\<close> \<open>sid' \<noteq> sid\<close>] by (auto simp: range_scan_def)
    then have "filter (\<lambda>(k, _). k \<notin> ?keys) (range_scan (session_prefix sid') (session_upper_bound sid') (ss_turns st)) =
        range_scan (session_prefix sid') (session_upper_bound sid') (ss_turns st)"
      by (auto simp: filter_id_conv)
    with holds that show ?thesis
      by (simp add: session_holds_def turns meta map_of_table_remove range_scan_filter)
  qed
  ultimately show ?thesis using sorted by (auto simp: implements_def turns obj_sorted_filter)
qed

text \<open>Operations on the store and on histories.\<close>

datatype session_op =
    SaveTurn bool int string string string
  | ClearSession bool string

fun op_session :: "session_op \<Rightarrow> string" where
  "op_session (SaveTurn _ _ sid _ _) = sid"
| "op_session (ClearSession _ sid) = sid"

fun store_op :: "session_op \<Rightarrow> session_store \<Rightarrow> session_store" where
  "store_op (SaveTurn commits now sid role content) st = save_or_keep (save_turn commits now sid role content st) st"
| "store_op (ClearSession commits sid) st = save_or_keep (clear_session commits sid st) st"

fun history_op :: "session_op \<Rightarrow> (string \<Rightarrow> session_turn list) \<Rightarrow> string \<Rightarrow> session_turn list" where
  "history_op (SaveTurn commits now sid role content) H =
     (if commits then H(sid := H sid @ [\<lparr>se_role = role, se_content = content, se_timestamp = now\<rparr>]) else H)"
| "history_op (ClearSession commits sid) H = (if commits then H(sid := []) else H)"

lemma store_op_implements:
  assumes "implements st H" and "plain_id (op_session op)" and "length (H (op_session op)) < 10 ^ 10"
  shows "implements (store_op op st) (history_op op H)"
proof (cases op)
  case (SaveTurn commits now sid role content)
  show ?thesis
  proof (cases commits)
    case True
    then obtain st' where "save_turn True now sid role content st = Some st'" by (simp add: save_turn_def Let_def)
    with assms SaveTurn True save_turn_implements show ?thesis by (simp add: save_or_keep_def)
  qed (use assms SaveTurn in \<open>simp add: save_turn_def save_or_keep_def\<close>)
next
  case (ClearSession commits sid)
  show ?thesis
  proof (cases commits)
    case True
    then obtain st' where "clear_session True sid st = Some st'" by (simp add: clear_session_def)
    with assms ClearSession True clear_session_implements show ?thesis by (simp add: save_or_keep_def)
  qed (use assms ClearSession in \<open>simp add: clear_session_def save_or_keep_def\<close>)
qed

lemma history_op_length: "length (history_op op H sid) \<le> length (H sid) + 1"
  by (cases op) auto

lemma store_ops_implement:
  "implements st H \<Longrightarrow> \<forall>op \<in> set ops. plain_id (op_session op) \<Longrightarrow> \<forall>sid. length (H sid) + length ops \<le> 10 ^ 10 \<Longrightarrow>
   implements (fold store_op ops st) (fold history_op ops H)"
proof (induction ops arbitrary: st H)
  case (Cons op ops)
  have "length (H (op_session op)) < 10 ^ 10" using Cons.prems(3) [rule_format, of "op_session op"] by simp
  then have "implements (store_op op st) (history_op op H)" using Cons.prems by (intro store_op_implements) auto
  moreover have "length (history_op op H sid) + length ops \<le> 10 ^ 10" for sid
    using Cons.prems(3) [rule_format, of sid] history_op_length [of op H sid] by simp
  ultimately show ?case using Cons by simp
qed simp

subsection \<open>Refinement\<close>

text \<open>C26: The session store refines a function from sessions to histories: after any sequence of operations on sessions whose names have no zero byte, at most ten billion of them, loading a session gives the last turns of the history that saving appends to and clearing empties; other sessions are unaffected and a failed transaction changes nothing.\<close>

theorem session_store_refines_histories:
  assumes "\<forall>op \<in> set ops. plain_id (op_session op)" and "length ops \<le> 10 ^ 10" and "plain_id sid"
  shows "load_session sid n (fold store_op ops store_empty) = last_n n (fold history_op ops (\<lambda>_. []) sid)"
proof (rule session_holds_load)
  have "implements (fold store_op ops store_empty) (fold history_op ops (\<lambda>_. []))"
    by (rule store_ops_implement [OF implements_empty assms(1)]) (use assms(2) in simp)
  with assms(3) show "session_holds (fold store_op ops store_empty) sid (fold history_op ops (\<lambda>_. []) sid)"
    by (simp add: implements_def)
qed

text \<open>Two sessions, one name a prefix of the other; a failed save in between.\<close>

lemma session_store_refines_histories_witness:
  "map se_content (load_session ''ab'' 2 (fold store_op
     [SaveTurn True 1 ''a'' ''user'' ''x'', SaveTurn True 2 ''ab'' ''user'' ''y'', SaveTurn True 3 ''a'' ''assistant'' ''z'',
      SaveTurn False 4 ''ab'' ''user'' ''lost'', SaveTurn True 5 ''ab'' ''assistant'' ''w'', ClearSession True ''a''] store_empty)) =
   [''y'', ''w'']"
  by (subst session_store_refines_histories) (simp_all add: plain_id_def last_n_def)

end
