(* ===== verification/Unified_Loop.thy ===== *)
theory Unified_Loop
  imports Agent_Loop
begin

section \<open>The loop shared by chat, tasks and agents\<close>

text \<open>
  Models \<^verbatim>\<open>src/agent/unified_loop.rs\<close> and \<open>AgentRuntime::run_task_via_unified_loop\<close>: a loop over one
  growing string, with local tools and the tools of MCP servers. The model is given per pass; the
  hash of the arguments, the JSON text of results and MCP are parameters. Log lines lack the time
  they start with; \<open>eprint_verbose_tool_io\<close>, which only prints, is left out.
\<close>

definition agentic_max_iters :: nat where
  "agentic_max_iters = 20"

definition agentic_max_tool_calls_per_pass :: nat where
  "agentic_max_tool_calls_per_pass = 4"

definition max_consecutive_fail_passes :: nat where
  "max_consecutive_fail_passes = 2"

definition max_nudges :: nat where
  "max_nudges = 2"

record agentic_turn_outcome =
  ao_text :: string
  ao_tokens_generated :: u32
  ao_tokens_per_second :: f64
  ao_location :: string
  ao_provider_peer_id :: "string option"

record mcp_tool =
  mt_description :: "string option"
  mt_input_schema :: json

text \<open>The tools by identifier, and a call, whose result is the text of its JSON.\<close>

record 'w mcp_manager =
  mm_tool_count :: nat
  mm_tools :: "(string \<times> mcp_tool) list"
  mm_call :: "string \<Rightarrow> json \<Rightarrow> 'w \<Rightarrow> (string + string) \<times> 'w"

datatype progress_event =
    ReactPass nat
  | LogLine string
  | TokensSoFar u32
  | ToolStep string u32
  | ToolEvent string string string string

record ('r, 'w) unified_env =
  ue_rx :: "'r regex_engine"
  ue_parse_json :: "string \<Rightarrow> json option"
  ue_json_text :: "json \<Rightarrow> string"
  ue_output_text :: "tool_output \<Rightarrow> string"
  ue_url :: url_parser
  ue_hash :: "string \<Rightarrow> u64"
  ue_prompts :: prompt_bundle
  ue_mcp :: "'w mcp_manager option"
  ue_allowed :: "string list option"
  ue_model :: string
  ue_max_tokens :: u32
  ue_temperature :: f64
  ue_context :: tool_context
  ue_progress :: bool

record unified_turn =
  ut_cancel :: bool
  ut_infer :: "string \<Rightarrow> string \<Rightarrow> u32 \<Rightarrow> f64 \<Rightarrow> string + agentic_turn_outcome"
  ut_stats_ms :: "nat \<Rightarrow> u64"
  ut_result_ms :: "nat \<Rightarrow> u64"
  ut_duration_ms :: "nat \<Rightarrow> u64"

record 'w unified_state =
  us_conversation :: string
  us_registry :: "'w tool_registry option"
  us_world :: 'w
  us_tool_logs :: "string list"
  us_records :: "tool_call_record list"
  us_tokens :: u32
  us_fail_passes :: nat
  us_history :: "(string \<times> u64) list"
  us_preamble_nudges :: nat
  us_url_nudges :: nat
  us_progress :: "progress_event list"

subsection \<open>The system prefix\<close>

definition local_infos :: "string list option \<Rightarrow> 'w tool_registry \<Rightarrow> tool_info list" where
  "local_infos allowed r =
     (let infos = filter (\<lambda>t. ti_location t = LocationLocal) (list_tools r)
      in (case allowed of
            Some a \<Rightarrow> if a \<noteq> [] then filter (\<lambda>t. ti_name t \<in> set a) infos else infos
          | None \<Rightarrow> infos))"

definition mcp_line :: "string \<times> mcp_tool \<Rightarrow> string" where
  "mcp_line = (\<lambda>(i, t).
     let desc = take_chars 160 (case mt_description t of Some d \<Rightarrow> d | None \<Rightarrow> ''(no description)'');
         params = (case str_array ''required'' (mt_input_schema t) of
                     Some ps \<Rightarrow> join_with '', '' ps | None \<Rightarrow> [])
     in ''- '' @ i @ '': '' @ desc @ (if params = [] then [] else '' Params: '' @ params) @ line_break)"

definition build_agentic_system_prefix ::
    "prompt_bundle \<Rightarrow> 'w tool_registry option \<Rightarrow> 'w mcp_manager option \<Rightarrow> bool \<Rightarrow> string list option \<Rightarrow> string" where
  "build_agentic_system_prefix p registry mcp include_mcp allowed =
     (let s = pb_agentic_system_intro p;
          s = (case registry of
                 Some r \<Rightarrow>
                   nl_end (s @ pb_agentic_tools_header p) @
                   concat (map tool_line (stable_sort (\<lambda>a b. str_less (ti_name a) (ti_name b)) (local_infos allowed r)))
               | None \<Rightarrow> nl_end (s @ pb_agentic_mcp_only_intro p))
      in (case mcp of
            Some m \<Rightarrow>
              if include_mcp \<and> 0 < mm_tool_count m
              then nl_end (s @ pb_agentic_mcp_tools_header p) @
                   concat (map mcp_line (stable_sort (\<lambda>a b. str_less (fst a) (fst b)) (mm_tools m)))
              else s
          | None \<Rightarrow> s))"

definition agentic_action_tools_available ::
    "'w tool_registry option \<Rightarrow> 'w mcp_manager option \<Rightarrow> string list option \<Rightarrow> bool" where
  "agentic_action_tools_available registry mcp allowed \<longleftrightarrow>
     (case mcp of Some m \<Rightarrow> 0 < mm_tool_count m | None \<Rightarrow> False) \<or>
     (case registry of Some r \<Rightarrow> local_infos allowed r \<noteq> [] | None \<Rightarrow> False)"

subsection \<open>Nudges\<close>

text \<open>The number of occurrences that do not overlap.\<close>

function count_matches :: "string \<Rightarrow> string \<Rightarrow> nat" where
  "count_matches pat s =
     (case s of
        [] \<Rightarrow> 0
      | c # r \<Rightarrow>
          if pat \<noteq> [] \<and> starts_with s pat then Suc (count_matches pat (drop (length pat) s))
          else count_matches pat r)"
  by pat_completeness auto
termination
  by (relation "measure (\<lambda>(pat, s). length s)") auto

declare count_matches.simps [simp del]

definition response_looks_like_intent_without_delivery :: "string \<Rightarrow> bool" where
  "response_looks_like_intent_without_delivery response =
     (let t = trim response; n = char_count t
      in if 2800 < n then False
         else if (str_contains t ''(1)'' \<and> str_contains t ''(2)'') \<or> 2 \<le> count_matches ''##'' t then False
         else
           let lower = ascii_lower t;
               i = ''i'' @ [CHR 0x27]
           in list_ex (str_contains lower)
                [i @ ''ll '', ''i will '', ''let me '', i @ ''m going to '', ''i am going to '',
                 ''gathering information'', ''authoritative sources'', i @ ''ll start'', i @ ''ll begin''] \<and>
              n < 1400)"

definition goal_suggests_network_fetch :: "string \<Rightarrow> nat \<Rightarrow> bool" where
  "goal_suggests_network_fetch conversation after_prefix =
     (let tail = (if after_prefix \<le> length conversation \<and> is_char_boundary conversation after_prefix
                  then drop after_prefix conversation else []);
          lower = ascii_lower tail;
          url = list_ex (str_contains lower) [''http://'', ''https://'', ''www.'', ''url:'']
      in url \<or> list_ex (str_contains lower)
                 [''fetch and summarize'', ''fetch this'', ''summarize this url'', ''this page''] \<or>
         (str_contains lower ''summarize'' \<and> url))"

subsection \<open>Progress and small steps\<close>

definition emit :: "('r, 'w) unified_env \<Rightarrow> progress_event list \<Rightarrow> 'w unified_state \<Rightarrow> 'w unified_state" where
  "emit e evs st = (if ue_progress e then st\<lparr>us_progress := us_progress st @ evs\<rparr> else st)"

definition say :: "string \<Rightarrow> 'w unified_state \<Rightarrow> 'w unified_state" where
  "say s st = st\<lparr>us_conversation := us_conversation st @ s\<rparr>"

definition slice_range :: "string \<Rightarrow> nat \<Rightarrow> nat \<Rightarrow> string option" where
  "slice_range s a b =
     (if a \<le> b \<and> b \<le> length s \<and> is_char_boundary s a \<and> is_char_boundary s b
      then Some (take (b - a) (drop a s)) else None)"

definition blank_line :: string where
  "blank_line = line_break @ line_break"

definition ellipsis :: string where
  "ellipsis = [CHR 0xE2, CHR 0x80, CHR 0xA6]"

definition arrow_text :: string where
  "arrow_text = [CHR 0xE2, CHR 0x86, CHR 0x92]"

datatype unified_end = PassDone | Answered agentic_turn_outcome | Failed string | LoopPanic

definition pass_text :: "nat \<Rightarrow> string" where
  "pass_text iter = ''Pass '' @ show_nat iter @ '': ''"

text \<open>The goal found in the conversation is all that stays of it after an error.\<close>

definition compact_to_goal :: "prompt_bundle \<Rightarrow> nat \<Rightarrow> string \<Rightarrow> string option" where
  "compact_to_goal p prefix_len conv =
     (let start = (case or_else (str_find conv ''Goal:'') (or_else (str_find conv ''### Agent goal'')
                     (or_else (str_find conv ''### Task'') (str_find conv ''### User thread''))) of
                     Some i \<Rightarrow> i | None \<Rightarrow> prefix_len)
      in if \<not> is_char_boundary conv start then None
         else
           let stop = (case str_find (drop start conv) (blank_line @ ''Assistant:'') of
                         Some i \<Rightarrow> start + i | None \<Rightarrow> min (length conv) (start + 2000))
           in (case (slice_range conv start stop, slice_to prefix_len conv) of
                 (Some goal, Some prefix) \<Rightarrow>
                   Some (prefix @ blank_line @ goal @ blank_line @ trim (pb_unified_compact_retry_suffix p) @ line_break)
               | _ \<Rightarrow> None))"

text \<open>The answer when the model asks for nothing; \<open>fallback\<close> is what stands in for an empty text.\<close>

definition outcome_text :: "'r regex_engine \<Rightarrow> string \<Rightarrow> string \<Rightarrow> string" where
  "outcome_text rx text fallback =
     (let cleaned = extract_answer rx text
      in if trim cleaned \<noteq> [] then cleaned
         else if trim text \<noteq> [] then trim text
         else fallback)"

definition empty_reply :: "prompt_bundle \<Rightarrow> tool_call_record list \<Rightarrow> string" where
  "empty_reply p records =
     (if records = [] then trim (pb_unified_empty_final_reply p)
      else
        let preview = take_chars 4000 (tc_result (last records))
        in if trim preview = []
           then ''Completed '' @ show_nat (length records) @ '' tool call(s). No additional commentary from model.''
           else preview)"

definition answered :: "agentic_turn_outcome \<Rightarrow> string \<Rightarrow> 'w unified_state \<Rightarrow> unified_end" where
  "answered reply text st =
     Answered (reply\<lparr>ao_text := text, ao_tokens_generated := us_tokens st\<rparr>)"

definition nudge :: "string \<Rightarrow> string \<Rightarrow> 'w unified_state \<Rightarrow> 'w unified_state" where
  "nudge text hint st =
     say (blank_line @ ''Assistant:'' @ line_break @ trim text @ blank_line @ trim hint @ line_break) st"

definition finish_or_nudge ::
    "('r, 'w) unified_env \<Rightarrow> nat \<Rightarrow> nat \<Rightarrow> agentic_turn_outcome \<Rightarrow> 'w unified_state \<Rightarrow> unified_end \<times> 'w unified_state" where
  "finish_or_nudge e prefix_len iter reply st =
     (let text = ao_text reply; p = ue_prompts e;
          tools = agentic_action_tools_available (us_registry st) (ue_mcp e) (ue_allowed e)
      in if us_url_nudges st < max_nudges \<and> iter < agentic_max_iters \<and> us_tool_logs st = [] \<and> us_records st = [] \<and>
            goal_suggests_network_fetch (us_conversation st) prefix_len \<and> tools
         then
           (PassDone, emit e [LogLine (pass_text iter @ ''no tools run yet for URL/fetch-style goal; nudging model to call web_fetch/web_search'' @ ellipsis)]
             (nudge text (pb_unified_url_fetch_nudge p) (st\<lparr>us_url_nudges := us_url_nudges st + 1\<rparr>)))
         else if us_preamble_nudges st < max_nudges \<and> iter < agentic_max_iters \<and> tools \<and>
            response_looks_like_intent_without_delivery text
         then
           (PassDone, emit e [LogLine (pass_text iter @ ''model replied without tools (preamble-style); nudging to continue'' @ ellipsis)]
             (nudge text (pb_unified_preamble_nudge p) (st\<lparr>us_preamble_nudges := us_preamble_nudges st + 1\<rparr>)))
         else (answered reply (outcome_text (ue_rx e) text (empty_reply p (us_records st))) st, st))"

subsection \<open>Repeated calls\<close>

text \<open>
  A call that was made four times is dropped, one that was made twice or three times is made with a
  warning.
\<close>

fun filter_repeats ::
    "('r, 'w) unified_env \<Rightarrow> nat \<Rightarrow> parsed_tool_call list \<Rightarrow> 'w unified_state \<Rightarrow>
       parsed_tool_call list \<times> string list \<times> 'w unified_state" where
  "filter_repeats e iter [] st = ([], [], st)"
| "filter_repeats e iter (c # cs) st =
     (let sig = (pt_name c, ue_hash e (ue_json_text e (pt_args c)));
          repeats = length (filter (\<lambda>s. s = sig) (us_history st))
      in if 4 \<le> repeats then
           filter_repeats e iter cs
             (emit e [LogLine (pass_text iter @ ''BLOCKED repeated call to '' @ [CHR 0x27] @ pt_name c @ [CHR 0x27] @
                '' ('' @ show_nat (repeats + 1) @ '' prior identical calls)'')] st)
         else
           (case filter_repeats e iter cs (st\<lparr>us_history := us_history st @ [sig]\<rparr>) of
              (kept, warnings, st) \<Rightarrow>
                (c # kept,
                 (if 2 \<le> repeats then [unified_repeat_warning (ue_prompts e) (pt_name c) (of_nat (repeats + 1))] else []) @
                 warnings, st)))"

subsection \<open>One tool call\<close>

definition record_unified ::
    "parsed_tool_call \<Rightarrow> string \<Rightarrow> bool \<Rightarrow> u64 \<Rightarrow> 'w unified_state \<Rightarrow> 'w unified_state" where
  "record_unified c result success ms st =
     st\<lparr>us_records := us_records st @
         [\<lparr>tc_tool_name = pt_name c, tc_args = pt_args c, tc_result = result, tc_success = success,
           tc_duration_ms = ms\<rparr>]\<rparr>"

definition tool_step :: "('r, 'w) unified_env \<Rightarrow> string \<Rightarrow> 'w unified_state \<Rightarrow> 'w unified_state" where
  "tool_step e line st =
     emit e [ToolStep line (us_tokens st)] (st\<lparr>us_tool_logs := us_tool_logs st @ [line]\<rparr>)"

definition mcp_not_enabled :: string where
  "mcp_not_enabled = ''ERROR: MCP tool requested but MCP is not enabled or has no connected tools''"

text \<open>What a call gives: its text and whether it succeeded; \<open>Panic\<close> when the tool does.\<close>

definition run_mcp ::
    "('r, 'w) unified_env \<Rightarrow> parsed_tool_call \<Rightarrow> 'w unified_state \<Rightarrow> (string \<times> bool) \<times> 'w unified_state" where
  "run_mcp e c st =
     (case ue_mcp e of
        None \<Rightarrow> ((mcp_not_enabled, False), st)
      | Some m \<Rightarrow>
          (case mm_call m (pt_name c) (pt_args c) (us_world st) of
             (Inr text, w) \<Rightarrow> ((text, True), st\<lparr>us_world := w\<rparr>)
           | (Inl x, w) \<Rightarrow> ((''ERROR: '' @ x, False), st\<lparr>us_world := w\<rparr>)))"

definition run_registry_tool ::
    "('r, 'w) unified_env \<Rightarrow> unified_turn \<Rightarrow> nat \<Rightarrow> parsed_tool_call \<Rightarrow> 'w unified_state \<Rightarrow>
       (string \<times> bool, unit) outcome \<times> 'w unified_state" where
  "run_registry_tool e t i c st =
     (case us_registry st of
        None \<Rightarrow> (Ok (trim (pb_unified_mcp_only_tool_error (ue_prompts e)), False), st)
      | Some r \<Rightarrow>
          (case execute_local
                  \<lparr>te_parse = ue_url e, te_json_text = ue_json_text e, te_elapsed_stats = ut_stats_ms t i,
                   te_elapsed_result = ut_result_ms t i\<rparr>
                  (pt_name c) (pt_args c) (ue_context e) r (us_world st) of
             (Ok res, r, w) \<Rightarrow>
               (Ok (ue_output_text e (tres_output res), True), st\<lparr>us_registry := Some r, us_world := w\<rparr>)
           | (Err x, r, w) \<Rightarrow>
               (Ok (ue_json_text e (json_object [(''error'', JString (tool_error_text x))]), False),
                st\<lparr>us_registry := Some r, us_world := w\<rparr>)
           | (Panic, r, w) \<Rightarrow> (Panic, st\<lparr>us_registry := Some r, us_world := w\<rparr>)))"

definition locally_allowed :: "string list option \<Rightarrow> string \<Rightarrow> bool" where
  "locally_allowed allowed name \<longleftrightarrow>
     (case allowed of None \<Rightarrow> True | Some a \<Rightarrow> a = [] \<or> name \<in> set a)"

definition call_text :: "string \<Rightarrow> string \<Rightarrow> string" where
  "call_text name result = ''Tool: '' @ name @ line_break @ ''Result: '' @ result @ blank_line"

text \<open>After a call has run: record, log, progress and the text the model sees, cut at 3000 bytes.\<close>

definition after_call ::
    "('r, 'w) unified_env \<Rightarrow> unified_turn \<Rightarrow> nat \<Rightarrow> parsed_tool_call \<Rightarrow> string \<Rightarrow> bool \<Rightarrow> 'w unified_state \<Rightarrow>
       (unit, unit) outcome \<times> 'w unified_state" where
  "after_call e t i c summary success st =
     (let st = record_unified c summary success (ut_duration_ms t i) st;
          preview = (if 220 < char_count summary then take_chars 217 summary @ ellipsis else summary);
          st = tool_step e (pt_name c @ '' '' @ arrow_text @ '' '' @ preview) st;
          st = emit e [ToolEvent (pt_name c) ''completed'' (take_chars 500 (ue_json_text e (pt_args c)))
                         (take_chars 500 summary)] st
      in (case (if 3000 < length summary
                then map_option (\<lambda>s. s @ ellipsis @ '' (truncated)'') (slice_to 3000 summary) else Some summary) of
            None \<Rightarrow> (Panic, st)
          | Some shown \<Rightarrow> (Ok (), say (call_text (pt_name c) shown) st)))"

definition finish_call ::
    "('r, 'w) unified_env \<Rightarrow> unified_turn \<Rightarrow> nat \<Rightarrow> parsed_tool_call \<Rightarrow> string \<times> bool \<Rightarrow> 'w unified_state \<Rightarrow>
       (nat, unit) outcome \<times> 'w unified_state" where
  "finish_call e t i c res st =
     (case after_call e t i c (fst res) (snd res) st of
        (Ok _, st) \<Rightarrow> (Ok (if snd res then 0 else 1), st)
      | (_, st) \<Rightarrow> (Panic, st))"

text \<open>One call; the number says whether it failed. A name with a colon is a tool of an MCP server.\<close>

definition deny_call :: "('r, 'w) unified_env \<Rightarrow> parsed_tool_call \<Rightarrow> 'w unified_state \<Rightarrow> 'w unified_state" where
  "deny_call e c st =
     (let msg = ''ERROR: Tool '' @ [CHR 0x27] @ pt_name c @ [CHR 0x27] @ '' is not in the allowed tools list'';
          st = record_unified c msg False 0 st;
          st = tool_step e (pt_name c @ '' '' @ arrow_text @ '' '' @ take_chars 220 msg) st
      in say (call_text (pt_name c) msg) st)"

definition unified_call ::
    "('r, 'w) unified_env \<Rightarrow> unified_turn \<Rightarrow> nat \<Rightarrow> parsed_tool_call \<Rightarrow> 'w unified_state \<Rightarrow>
       (nat, unit) outcome \<times> 'w unified_state" where
  "unified_call e t i c st =
     (let st = emit e [ToolEvent (pt_name c) ''started'' (take_chars 500 (ue_json_text e (pt_args c))) []] st
      in if CHR '':'' \<in> set (pt_name c) then
           (case run_mcp e c st of (r, st) \<Rightarrow> finish_call e t i c r st)
         else if \<not> locally_allowed (ue_allowed e) (pt_name c) then (Ok 1, deny_call e c st)
         else
           (case run_registry_tool e t i c st of
              (Ok r, st) \<Rightarrow> finish_call e t i c r st
            | (_, st) \<Rightarrow> (Panic, st)))"

fun unified_calls ::
    "('r, 'w) unified_env \<Rightarrow> unified_turn \<Rightarrow> nat \<Rightarrow> parsed_tool_call list \<Rightarrow> 'w unified_state \<Rightarrow>
       (nat, unit) outcome \<times> 'w unified_state" where
  "unified_calls e t i [] st = (Ok 0, st)"
| "unified_calls e t i (c # cs) st =
     (case unified_call e t i c st of
        (Ok n, st) \<Rightarrow>
          (case unified_calls e t (Suc i) cs st of
             (Ok m, st) \<Rightarrow> (Ok (n + m), st)
           | (_, st) \<Rightarrow> (Panic, st))
      | (_, st) \<Rightarrow> (Panic, st))"

subsection \<open>One pass\<close>

text \<open>The calls of a reply that run in this pass: repeats out, duplicates merged, four at most.\<close>

definition choose_calls ::
    "('r, 'w) unified_env \<Rightarrow> nat \<Rightarrow> parsed_tool_call list \<Rightarrow> 'w unified_state \<Rightarrow>
       parsed_tool_call list \<times> nat \<times> nat \<times> 'w unified_state" where
  "choose_calls e iter kept st =
     (let uniq = dedup_calls (ue_json_text e) [] kept;
          merged = length kept - length uniq;
          chosen = take agentic_max_tool_calls_per_pass uniq;
          dropped = length uniq - length chosen;
          st = emit e [LogLine (pass_text iter @ show_nat (length kept) @ '' tool call(s)'' @
                 (if 0 < merged
                  then '' '' @ arrow_text @ '' '' @ show_nat (length uniq) @ '' unique (merged '' @ show_nat merged @ '' duplicate(s))''
                  else []))] st;
          st = (if 0 < dropped
                then emit e [LogLine (pass_text iter @ ''executing first '' @ show_nat agentic_max_tool_calls_per_pass @
                       '' of '' @ show_nat (agentic_max_tool_calls_per_pass + dropped) @ '' tool call(s) (max '' @
                       show_nat agentic_max_tool_calls_per_pass @ '' per turn)'')] st
                else st)
      in (chosen, merged, dropped, st))"

definition results_intro :: "prompt_bundle \<Rightarrow> string \<Rightarrow> nat \<Rightarrow> nat \<Rightarrow> string" where
  "results_intro p text merged dropped =
     blank_line @ ''Assistant:'' @ line_break @ text @ pb_unified_conversation_user_label p @
     (if 0 < merged then unified_merge_duplicates p merged @ line_break else []) @
     (if 0 < dropped then unified_skipped_calls p dropped agentic_max_tool_calls_per_pass @ line_break else []) @
     nl_end (pb_unified_tool_results_header p)"

definition close_pass :: "('r, 'w) unified_env \<Rightarrow> nat \<Rightarrow> nat \<Rightarrow> 'w unified_state \<Rightarrow> 'w unified_state" where
  "close_pass e failures calls st =
     (let p = ue_prompts e;
          st = (if failures < calls then say (nl_end (pb_unified_tool_results_followup p)) st else st)
      in if calls \<le> failures then
           let st = st\<lparr>us_fail_passes := us_fail_passes st + 1\<rparr>
           in if max_consecutive_fail_passes \<le> us_fail_passes st
              then emit e [LogLine (show_nat max_consecutive_fail_passes @ '' consecutive all-fail passes '' @
                     [CHR 0xE2, CHR 0x80, CHR 0x94] @ '' forcing answer from knowledge'')]
                   (say (line_break @ trim (pb_unified_all_tools_failed_suffix p) @ line_break) st)
              else st
         else st\<lparr>us_fail_passes := 0\<rparr>)"

definition handle_calls ::
    "('r, 'w) unified_env \<Rightarrow> unified_turn \<Rightarrow> nat \<Rightarrow> agentic_turn_outcome \<Rightarrow> parsed_tool_call list \<Rightarrow> 'w unified_state \<Rightarrow>
       unified_end \<times> 'w unified_state" where
  "handle_calls e t iter reply calls st =
     (let p = ue_prompts e;
          (kept, warnings, st) = filter_repeats e iter calls st;
          st = (if warnings \<noteq> [] then say (line_break @ concat (map (\<lambda>w. w @ line_break) warnings)) st else st)
      in if kept = []
         then (answered reply (outcome_text (ue_rx e) (ao_text reply) (trim (pb_unified_all_calls_blocked p))) st, st)
         else
           let (chosen, merged, dropped, st) = choose_calls e iter kept st
           in (case unified_calls e t 0 chosen (say (results_intro p (ao_text reply) merged dropped) st) of
                 (Ok failures, st) \<Rightarrow> (PassDone, close_pass e failures (length chosen) st)
               | (_, st) \<Rightarrow> (LoopPanic, st)))"

definition is_inference_error :: "agentic_turn_outcome \<Rightarrow> bool" where
  "is_inference_error reply \<longleftrightarrow>
     ao_location reply = ''error'' \<or> starts_with (ao_text reply) ''Error: Inference error:'' \<or>
     starts_with (ao_text reply) ''Error: ''"

definition handle_reply ::
    "('r, 'w) unified_env \<Rightarrow> unified_turn \<Rightarrow> nat \<Rightarrow> nat \<Rightarrow> agentic_turn_outcome \<Rightarrow> 'w unified_state \<Rightarrow>
       unified_end \<times> 'w unified_state" where
  "handle_reply e t prefix_len iter reply st =
     (let st = st\<lparr>us_tokens := sat_add (us_tokens st) (ao_tokens_generated reply)\<rparr>;
          st = emit e [TokensSoFar (us_tokens st)] st
      in if is_inference_error reply then
           let st = emit e [LogLine (''Inference error on pass '' @ show_nat iter @ '': '' @ take_chars 120 (ao_text reply) @
                      '' '' @ [CHR 0xE2, CHR 0x80, CHR 0x94] @ '' compacting and retrying'')] st
           in (case compact_to_goal (ue_prompts e) prefix_len (us_conversation st) of
                 None \<Rightarrow> (LoopPanic, st)
               | Some conv \<Rightarrow> (PassDone, st\<lparr>us_conversation := conv\<rparr>))
         else
           let calls = parse_tool_calls (ue_rx e) (ue_parse_json e) (ao_text reply)
           in if calls = [] then finish_or_nudge e prefix_len iter reply st
              else handle_calls e t iter reply calls st)"

definition unified_pass ::
    "('r, 'w) unified_env \<Rightarrow> unified_turn \<Rightarrow> nat \<Rightarrow> nat \<Rightarrow> nat \<Rightarrow> 'w unified_state \<Rightarrow> unified_end \<times> 'w unified_state" where
  "unified_pass e t prefix_len conv_max iter st =
     (case (if conv_max < length (us_conversation st)
            then prune_string_conversation (us_conversation st) prefix_len conv_max
            else Some (us_conversation st)) of
        None \<Rightarrow> (LoopPanic, st)
      | Some conv \<Rightarrow>
          let p = ue_prompts e;
              st = st\<lparr>us_conversation := conv\<rparr>;
              st = (if iter = agentic_max_iters
                    then say (blank_line @ trim (pb_unified_final_turn_suffix p) @ line_break) st else st)
          in if ut_cancel t then (Failed ''Stopped by user'', st)
             else
               let st = emit e [ReactPass iter,
                          LogLine (''Pass '' @ show_nat iter @ ''/'' @ show_nat agentic_max_iters @ '': requesting model'' @ ellipsis)] st;
                   prompt = us_conversation st @ (if iter = 1 then pb_unified_assistant_turn_marker p else [])
               in (case ut_infer t prompt (ue_model e) (ue_max_tokens e) (ue_temperature e) of
                     Inl x \<Rightarrow> (Failed x, st)
                   | Inr reply \<Rightarrow> handle_reply e t prefix_len iter reply st))"

subsection \<open>The loop\<close>

fun unified_passes ::
    "('r, 'w) unified_env \<Rightarrow> (nat \<Rightarrow> unified_turn) \<Rightarrow> nat \<Rightarrow> nat \<Rightarrow> nat list \<Rightarrow> 'w unified_state \<Rightarrow>
       unified_end \<times> nat \<times> 'w unified_state" where
  "unified_passes e ts prefix_len conv_max [] st =
     (Failed (trim (pb_unified_max_iters_error (ue_prompts e))), 0, st)"
| "unified_passes e ts prefix_len conv_max (iter # iters) st =
     (case unified_pass e (ts iter) prefix_len conv_max iter st of
        (PassDone, st) \<Rightarrow> unified_passes e ts prefix_len conv_max iters st
      | (r, st) \<Rightarrow> (r, iter, st))"

text \<open>\<open>usize\<close> arithmetic: the products stay below \<open>2 ^ 64\<close>.\<close>

definition conversation_budget :: "u32 \<Rightarrow> nat \<Rightarrow> nat" where
  "conversation_budget max_tokens model_ctx_chars = max (model_ctx_chars - (unat max_tokens * 4 + 200)) 2000"

definition run_unified_agentic_loop ::
    "('r, 'w) unified_env \<Rightarrow> (nat \<Rightarrow> unified_turn) \<Rightarrow> bool \<Rightarrow> nat \<Rightarrow> string \<Rightarrow> 'w tool_registry option \<Rightarrow> 'w \<Rightarrow>
       unified_end \<times> nat \<times> 'w unified_state" where
  "run_unified_agentic_loop e ts include_mcp model_ctx_chars body registry w =
     (let e = e\<lparr>ue_max_tokens := min (ue_max_tokens e) 16384\<rparr>;
          prefix = build_agentic_system_prefix (ue_prompts e) registry (ue_mcp e) include_mcp (ue_allowed e)
      in unified_passes e ts (length prefix) (conversation_budget (ue_max_tokens e) model_ctx_chars)
           [1..<agentic_max_iters + 1]
           \<lparr>us_conversation = prefix @ blank_line @ body, us_registry = registry, us_world = w, us_tool_logs = [],
            us_records = [], us_tokens = 0, us_fail_passes = 0, us_history = [], us_preamble_nudges = 0,
            us_url_nudges = 0, us_progress = []\<rparr>)"

subsection \<open>An agent's task in this loop\<close>

text \<open>The log of a task keeps passes, lines and tool steps; the events of the calls are dropped.\<close>

fun task_log_lines :: "progress_event \<Rightarrow> string list" where
  "task_log_lines (ReactPass n) = [''Pass '' @ show_nat n @ ''/'' @ show_nat agentic_max_iters]"
| "task_log_lines (LogLine s) = [s]"
| "task_log_lines (TokensSoFar _) = []"
| "task_log_lines (ToolStep s _) = [s]"
| "task_log_lines (ToolEvent _ _ _ _) = []"

record 'w task_extras =
  te_use_mcp :: bool
  te_mcp :: "'w mcp_manager option"
  te_skill_block :: string
  te_model_ctx_chars :: nat

definition turn_label :: "session_turn \<Rightarrow> string" where
  "turn_label t =
     (if se_role t = ''user'' then ''User'' else if se_role t = ''assistant'' then ''Assistant'' else ''Message'')"

definition history_text :: "prompt_bundle \<Rightarrow> session_turn list \<Rightarrow> string" where
  "history_text p turns =
     trim_newlines (pb_agent_runtime_prior_conversation_header p) @ line_break @
     concat (map (\<lambda>t. turn_label t @ '': '' @ se_content t @ blank_line) turns) @ line_break"

text \<open>The turns of the session; a read that fails is ignored here.\<close>

definition prior_turns :: "bool \<Rightarrow> string option \<Rightarrow> 'w agent_runtime \<Rightarrow> session_turn list" where
  "prior_turns readable session rt =
     (case (session, rt_sessions rt) of
        (Some sid, Some st) \<Rightarrow> if readable then load_session sid 40 st else []
      | _ \<Rightarrow> [])"

definition unified_env_for ::
    "'r agent_env \<Rightarrow> (tool_output \<Rightarrow> string) \<Rightarrow> (string \<Rightarrow> u64) \<Rightarrow> string \<Rightarrow> string \<Rightarrow> 'w task_extras \<Rightarrow> 'w agent_runtime \<Rightarrow>
       ('r, 'w) unified_env" where
  "unified_env_for g out_json hash uuid dir extras rt =
     \<lparr>ue_rx = ge_rx g, ue_parse_json = ge_parse_json g, ue_json_text = ge_json_text g, ue_output_text = out_json,
      ue_url = ge_url g, ue_hash = hash, ue_prompts = ge_prompts g,
      ue_mcp = (if te_use_mcp extras then te_mcp extras else None),
      ue_allowed = (if ac_allowed_tools (rt_config rt) = [] then None else Some (ac_allowed_tools (rt_config rt))),
      ue_model = ac_model (rt_config rt), ue_max_tokens = ac_max_tokens (rt_config rt),
      ue_temperature = ac_temperature (rt_config rt),
      ue_context = (rt_context rt)\<lparr>tx_session_id := uuid, tx_job_id := None, tx_working_dir := dir, tx_sandboxed := False,
        tx_available_secrets := [], tx_egress_policy := None, tx_agent_depth := 0\<rparr>,
      ue_progress = True\<rparr>"

definition unified_body :: "'r agent_env \<Rightarrow> 'w task_extras \<Rightarrow> session_turn list \<Rightarrow> string \<Rightarrow> 'w agent_runtime \<Rightarrow> string" where
  "unified_body g extras turns input rt =
     (let spec = trim (ac_system_prompt (rt_config rt))
      in (if spec = [] then [] else agent_runtime_instructions_block (ge_prompts g) spec) @ te_skill_block extras @
         (if turns = [] then [] else history_text (ge_prompts g) turns) @ agent_runtime_task_body (ge_prompts g) input)"

definition run_task_via_unified_loop ::
    "'r agent_env \<Rightarrow> (tool_output \<Rightarrow> string) \<Rightarrow> (string \<Rightarrow> u64) \<Rightarrow> string \<Rightarrow> string \<Rightarrow> (nat \<Rightarrow> unified_turn) \<Rightarrow> timestamp \<Rightarrow>
       finish_env \<Rightarrow> bool \<Rightarrow> string option \<Rightarrow> 'w task_extras \<Rightarrow> string \<Rightarrow> 'w agent_runtime \<Rightarrow> 'w \<Rightarrow>
       task_end \<times> 'w agent_runtime \<times> 'w" where
  "run_task_via_unified_loop g out_json hash uuid dir ts spend_time f readable session extras input rt w =
     (let rt = rt_logs (''Task received: '' @ input) (rt\<lparr>rt_budget := new_request (rt_budget rt)\<rparr>);
          model_ctx = (if 0 < te_model_ctx_chars extras then te_model_ctx_chars extras else 48000);
          turns = prior_turns readable session rt;
          rt = (if turns = [] then rt
                else rt_logs (''Loaded '' @ show_nat (length turns) @ '' prior turns from session '' @ [CHR 0x27] @
                  (case session of Some sid \<Rightarrow> sid | None \<Rightarrow> []) @ [CHR 0x27]) rt);
          e = unified_env_for g out_json hash uuid dir extras rt;
          include_mcp = (case ue_mcp e of Some m \<Rightarrow> 0 < mm_tool_count m | None \<Rightarrow> False);
          (r, iterations, st) = run_unified_agentic_loop e ts include_mcp model_ctx (unified_body g extras turns input rt)
            (Some (rt_tools rt)) w;
          rt = rt\<lparr>rt_log := rt_log rt @ concat (map task_log_lines (us_progress st)),
                 rt_tools := (case us_registry st of Some x \<Rightarrow> x | None \<Rightarrow> rt_tools rt)\<rparr>;
          failed = (\<lambda>answer x rt.
            (TaskReturned \<lparr>ar_answer = answer, ar_tool_calls = [], ar_iterations = 0, ar_total_tokens = 0,
               ar_budget_spent = bt_spent_total (rt_budget rt), ar_success = False, ar_error = Some x\<rparr>, rt, us_world st))
      in (case r of
            Answered out \<Rightarrow>
              let rt = rt\<lparr>rt_budget := budget_spend spend_time (token_cost (ao_tokens_generated out)) (rt_budget rt)\<rparr>;
                  rt = save_turns f session input (ao_text out) rt
              in (case save_task_memory (fe_collection f) (fe_stored f) input (ao_text out) rt of
                    None \<Rightarrow> (TaskPanicked, rt, us_world st)
                  | Some rt \<Rightarrow>
                      (TaskReturned \<lparr>ar_answer = ao_text out, ar_tool_calls = us_records st, ar_iterations = of_nat iterations,
                         ar_total_tokens = ao_tokens_generated out, ar_budget_spent = bt_spent_total (rt_budget rt),
                         ar_success = True, ar_error = None\<rparr>, rt, us_world st))
          | Failed x \<Rightarrow> failed (if x = ''Stopped by user'' then ''Stopped by user.'' else []) x rt
          | _ \<Rightarrow> (TaskPanicked, rt, us_world st)))"

subsection \<open>The two ways of a task\<close>

text \<open>
  What the shared loop reads of the outside world when an agent with an inference sink runs in it:
  the text of a tool's output and the hash of arguments, the session identifier and the directory
  it makes, the model per pass, the clock when it charges, and whether the session can be read.
\<close>

record inference_sink =
  sk_out_json :: "tool_output \<Rightarrow> string"
  sk_hash :: "string \<Rightarrow> u64"
  sk_uuid :: string
  sk_dir :: string
  sk_turns :: "nat \<Rightarrow> unified_turn"
  sk_spend_time :: timestamp
  sk_readable :: bool

text \<open>An agent with a sink, as every agent of \<^verbatim>\<open>peerclaw serve\<close> has one, never enters its own loop.\<close>

definition run_task_with_session ::
    "'r agent_env \<Rightarrow> inference_sink option \<Rightarrow> (nat \<Rightarrow> turn_env) \<Rightarrow> finish_env \<Rightarrow> string list \<Rightarrow> string + unit \<Rightarrow>
       string option \<Rightarrow> 'w task_extras \<Rightarrow> string \<Rightarrow> 'w agent_runtime \<Rightarrow> 'w \<Rightarrow> task_end \<times> 'w agent_runtime \<times> 'w" where
  "run_task_with_session g sink ts f recalled loads session extras input rt w =
     (case sink of
        Some k \<Rightarrow>
          run_task_via_unified_loop g (sk_out_json k) (sk_hash k) (sk_uuid k) (sk_dir k) (sk_turns k)
            (sk_spend_time k) f (sk_readable k) session extras input rt w
      | None \<Rightarrow>
          (case run_task_own_loop g ts f recalled loads session input rt w of
             (r, st) \<Rightarrow> (r, tk_rt st, tk_world st)))"

definition default_extras :: "'w task_extras" where
  "default_extras = \<lparr>te_use_mcp = False, te_mcp = None, te_skill_block = [], te_model_ctx_chars = 0\<rparr>"

definition agent_run_task ::
    "'r agent_env \<Rightarrow> inference_sink option \<Rightarrow> (nat \<Rightarrow> turn_env) \<Rightarrow> finish_env \<Rightarrow> string list \<Rightarrow> string \<Rightarrow>
       'w agent_runtime \<Rightarrow> 'w \<Rightarrow> task_end \<times> 'w agent_runtime \<times> 'w" where
  "agent_run_task g sink ts f recalled input rt w =
     run_task_with_session g sink ts f recalled (Inr ()) None default_extras input rt w"

end
