(* ===== verification/Unified_Props.thy ===== *)
theory Unified_Props
  imports Unified_Loop Agent_Props
begin

section \<open>Properties of the shared loop\<close>

text \<open>
  The work of the loop is bounded: passes, calls of tools, and calls that repeat. Every call that
  runs is in the history, which holds none more than four times. Local tools are held to the
  allowed list, tools of MCP servers are not. The properties of a whole task, in whichever of the
  two loops it runs, rest on these and on \<open>Agent_Props\<close>.
\<close>

subsection \<open>Frames\<close>

lemma emit_frame [simp]:
  "us_records (emit e evs st) = us_records st" "us_history (emit e evs st) = us_history st"
  "us_world (emit e evs st) = us_world st" "us_registry (emit e evs st) = us_registry st"
  by (simp_all add: emit_def)

lemma say_frame [simp]:
  "us_records (say s st) = us_records st" "us_history (say s st) = us_history st"
  "us_world (say s st) = us_world st" "us_registry (say s st) = us_registry st"
  by (simp_all add: say_def)

lemma tool_step_frame [simp]:
  "us_records (tool_step e l st) = us_records st" "us_history (tool_step e l st) = us_history st"
  by (simp_all add: tool_step_def)

lemma nudge_frame [simp]: "us_records (nudge t h st) = us_records st" "us_history (nudge t h st) = us_history st"
  by (simp_all add: nudge_def)

text \<open>What identifies a call, of a reply and of a record.\<close>

definition call_sig :: "('r, 'w) unified_env \<Rightarrow> parsed_tool_call \<Rightarrow> string \<times> u64" where
  "call_sig e c = (pt_name c, ue_hash e (ue_json_text e (pt_args c)))"

definition record_sig :: "('r, 'w) unified_env \<Rightarrow> tool_call_record \<Rightarrow> string \<times> u64" where
  "record_sig e r = (tc_tool_name r, ue_hash e (ue_json_text e (tc_args r)))"

definition few :: "(string \<times> u64) list \<Rightarrow> bool" where
  "few xs \<longleftrightarrow> (\<forall>s. count_list xs s \<le> 4)"

lemma few_snoc: "few xs \<Longrightarrow> \<not> 4 \<le> count_list xs x \<Longrightarrow> few (xs @ [x])"
  by (auto simp: few_def)

lemma filter_repeats_history:
  "filter_repeats e iter cs st = (kept, warnings, st') \<Longrightarrow> few (us_history st) \<Longrightarrow>
   us_records st' = us_records st \<and> us_history st' = us_history st @ map (call_sig e) kept \<and> few (us_history st')"
proof (induction cs arbitrary: st kept warnings)
  case (Cons c cs)
  let ?sig = "call_sig e c"
  let ?n = "count_list (us_history st) ?sig"
  have n: "length (filter (\<lambda>s. s = (pt_name c, ue_hash e (ue_json_text e (pt_args c)))) (us_history st)) = ?n"
    by (simp add: count_list_eq_length_filter call_sig_def eq_commute [of _ "(pt_name c, _)"])
  show ?case
  proof (cases "4 \<le> ?n")
    case True
    with Cons.prems have "filter_repeats e iter cs (emit e [LogLine (pass_text iter @ ''BLOCKED repeated call to '' @
        [CHR 0x27] @ pt_name c @ [CHR 0x27] @ '' ('' @ show_nat (?n + 1) @ '' prior identical calls)'')] st) =
      (kept, warnings, st')" by (simp add: Let_def n)
    from Cons.IH [OF this, unfolded emit_frame, OF Cons.prems(2)] show ?thesis .
  next
    case False
    then obtain ks ws where ks: "filter_repeats e iter cs (st\<lparr>us_history := us_history st @ [?sig]\<rparr>) = (ks, ws, st')"
      and kept: "kept = c # ks"
      using Cons.prems by (auto simp: Let_def n call_sig_def split: prod.splits)
    have "few (us_history (st\<lparr>us_history := us_history st @ [?sig]\<rparr>))"
      using few_snoc [OF Cons.prems(2) False] by simp
    note IH = Cons.IH [OF ks this]
    have "us_records st' = us_records st" "us_history st' = us_history st @ map (call_sig e) kept"
      using IH by (simp_all add: kept)
    moreover have "few (us_history st')" using IH by blast
    ultimately show ?thesis by blast
  qed
qed simp

lemma dedup_calls_count: "count_list (map f (dedup_calls text seen cs)) s \<le> count_list (map f cs) s"
  by (induction cs arbitrary: seen) (auto simp: Let_def intro: le_SucI)

lemma count_list_take: "count_list (take n xs) s \<le> count_list xs s"
  by (metis append_take_drop_id count_list_append le_add1)

lemma choose_calls_facts:
  assumes "choose_calls e iter kept st = (chosen, merged, dropped, st')"
  shows "length chosen \<le> 4" and "count_list (map (call_sig e) chosen) s \<le> count_list (map (call_sig e) kept) s"
    and "us_records st' = us_records st" and "us_history st' = us_history st"
  using assms le_trans [OF count_list_take dedup_calls_count]
  by (auto simp: choose_calls_def Let_def agentic_max_tool_calls_per_pass_def take_map [symmetric])

text \<open>Calls leave records with their signatures, up to the call that panics.\<close>

definition adds_calls ::
    "('r, 'w) unified_env \<Rightarrow> parsed_tool_call list \<Rightarrow> 'w unified_state \<Rightarrow> 'w unified_state \<Rightarrow> bool" where
  "adds_calls e cs st st' \<longleftrightarrow>
     us_history st' = us_history st \<and>
     (\<exists>n. map (record_sig e) (us_records st') = map (record_sig e) (us_records st) @ take n (map (call_sig e) cs))"

lemma adds_one:
  "us_history st' = us_history st \<Longrightarrow> us_records st' = us_records st @ [r] \<Longrightarrow> record_sig e r = call_sig e c \<Longrightarrow>
   adds_calls e [c] st st'"
  by (auto simp: adds_calls_def intro: exI [of _ 1])

lemma adds_none: "us_history st' = us_history st \<Longrightarrow> us_records st' = us_records st \<Longrightarrow> adds_calls e cs st st'"
  by (auto simp: adds_calls_def intro: exI [of _ 0])

lemma finish_call_records:
  assumes "us_records st1 = us_records st" and "us_history st1 = us_history st"
  shows "adds_calls e [c] st (snd (finish_call e t i c res st1))"
proof -
  have "snd (finish_call e t i c res st1) = snd (after_call e t i c (fst res) (snd res) st1)"
    by (simp add: finish_call_def split: prod.split outcome.split)
  moreover have "us_history (snd (after_call e t i c (fst res) (snd res) st1)) = us_history st"
    "us_records (snd (after_call e t i c (fst res) (snd res) st1)) = us_records st @
      [\<lparr>tc_tool_name = pt_name c, tc_args = pt_args c, tc_result = fst res, tc_success = snd res,
        tc_duration_ms = ut_duration_ms t i\<rparr>]"
    using assms by (simp_all add: after_call_def Let_def record_unified_def split: option.split)
  ultimately show ?thesis by (auto intro!: adds_one simp: record_sig_def call_sig_def)
qed

lemma run_mcp_frame:
  "us_records (snd (run_mcp e c st)) = us_records st" "us_history (snd (run_mcp e c st)) = us_history st"
  by (simp_all add: run_mcp_def split: option.split prod.split sum.split)

lemma run_registry_tool_frame:
  "us_records (snd (run_registry_tool e t i c st)) = us_records st"
  "us_history (snd (run_registry_tool e t i c st)) = us_history st"
  by (simp_all add: run_registry_tool_def split: option.split prod.split outcome.split)

lemma deny_call_records: "adds_calls e [c] st (deny_call e c (emit e evs st))"
  by (auto intro!: adds_one simp: deny_call_def Let_def record_unified_def record_sig_def call_sig_def)

lemma unified_call_records: "adds_calls e [c] st (snd (unified_call e t i c st))"
proof -
  let ?st = "emit e [ToolEvent (pt_name c) ''started'' (take_chars 500 (ue_json_text e (pt_args c))) []] st"
  have mcp: "adds_calls e [c] st (snd (finish_call e t i c (fst (run_mcp e c ?st)) (snd (run_mcp e c ?st))))"
    by (rule finish_call_records) (simp_all add: run_mcp_frame)
  have tool: "us_records (snd (run_registry_tool e t i c ?st)) = us_records st"
    "us_history (snd (run_registry_tool e t i c ?st)) = us_history st" by (simp_all add: run_registry_tool_frame)
  show ?thesis
  proof (cases "CHR '':'' \<in> set (pt_name c)")
    case True
    with mcp show ?thesis by (simp add: unified_call_def Let_def case_prod_beta)
  next
    case False
    with tool deny_call_records [of e c st] finish_call_records [OF tool, of e c t i] adds_none [OF tool(2,1), of e "[c]"]
    show ?thesis
      by (cases "fst (run_registry_tool e t i c ?st)") (simp_all add: unified_call_def Let_def case_prod_beta)
  qed
qed

lemma adds_calls_trans:
  assumes "adds_calls e [c] st st1" and "adds_calls e cs st1 st2" and "length (us_records st1) = length (us_records st) + 1"
  shows "adds_calls e (c # cs) st st2"
proof -
  obtain n m where n: "map (record_sig e) (us_records st1) = map (record_sig e) (us_records st) @ take n [call_sig e c]"
    and m: "map (record_sig e) (us_records st2) = map (record_sig e) (us_records st1) @ take m (map (call_sig e) cs)"
    using assms(1,2) by (auto simp: adds_calls_def)
  have "length (map (record_sig e) (us_records st1)) = length (us_records st) + length (take n [call_sig e c])"
    unfolding n by simp
  with assms(3) have "take n [call_sig e c] = [call_sig e c]" by (cases n) auto
  with n m assms(1,2) show ?thesis by (auto simp: adds_calls_def intro: exI [of _ "Suc m"])
qed

lemma adds_calls_weaken: "adds_calls e [c] st st1 \<Longrightarrow> adds_calls e (c # cs) st st1"
proof -
  assume "adds_calls e [c] st st1"
  then obtain n where "us_history st1 = us_history st"
    "map (record_sig e) (us_records st1) = map (record_sig e) (us_records st) @ take n [call_sig e c]"
    by (auto simp: adds_calls_def)
  then show ?thesis by (cases n) (auto simp: adds_calls_def intro: exI [of _ 0] exI [of _ 1])
qed

lemma unified_call_Ok:
  assumes "unified_call e t i c st = (Ok n, st1)"
  shows "length (us_records st1) = length (us_records st) + 1"
proof -
  let ?st = "emit e [ToolEvent (pt_name c) ''started'' (take_chars 500 (ue_json_text e (pt_args c))) []] st"
  have len: "length (us_records (snd (finish_call e t i c res st'))) = length (us_records st') + 1" for res st'
    by (simp add: finish_call_def after_call_def Let_def record_unified_def split: prod.split outcome.split option.split)
  have deny: "length (us_records (deny_call e c ?st)) = length (us_records st) + 1"
    by (simp add: deny_call_def Let_def record_unified_def)
  show ?thesis
  proof (cases "CHR '':'' \<in> set (pt_name c)")
    case True
    with assms have "snd (finish_call e t i c (fst (run_mcp e c ?st)) (snd (run_mcp e c ?st))) = st1"
      by (simp add: unified_call_def Let_def case_prod_beta)
    with len have "length (us_records st1) = length (us_records (snd (run_mcp e c ?st))) + 1" by metis
    then show ?thesis by (simp add: run_mcp_frame)
  next
    case False
    then consider "st1 = deny_call e c ?st"
      | r where "fst (run_registry_tool e t i c ?st) = Ok r"
          "st1 = snd (finish_call e t i c r (snd (run_registry_tool e t i c ?st)))"
      using assms by (cases "fst (run_registry_tool e t i c ?st)")
        (auto simp: unified_call_def Let_def case_prod_beta split: if_splits)
    then show ?thesis
    proof cases
      case 2
      show ?thesis unfolding 2(2) len by (simp add: run_registry_tool_frame)
    qed (simp add: deny)
  qed
qed

lemma unified_calls_records: "adds_calls e cs st (snd (unified_calls e t i cs st))"
proof (induction cs arbitrary: i st)
  case Nil
  then show ?case by (simp add: adds_none)
next
  case (Cons c cs)
  obtain r st1 where c: "unified_call e t i c st = (r, st1)" by fastforce
  with unified_call_records [of e c st t i] have st1: "adds_calls e [c] st st1" by simp
  show ?case
  proof (cases r)
    case (Ok n)
    from adds_calls_trans [OF st1 Cons.IH [of st1 "Suc i"]] unified_call_Ok [OF c [unfolded Ok]]
    have "adds_calls e (c # cs) st (snd (unified_calls e t (Suc i) cs st1))" by simp
    then show ?thesis using c Ok by (cases "unified_calls e t (Suc i) cs st1"; cases "fst (unified_calls e t (Suc i) cs st1)") auto
  qed (use c adds_calls_weaken [OF st1] in simp_all)
qed

text \<open>Every record is in the history, which holds no call more than four times.\<close>

definition work_bounded :: "('r, 'w) unified_env \<Rightarrow> nat \<Rightarrow> 'w unified_state \<Rightarrow> bool" where
  "work_bounded e k st \<longleftrightarrow>
     length (us_records st) \<le> 4 * k \<and> few (us_history st) \<and>
     (\<forall>s. count_list (map (record_sig e) (us_records st)) s \<le> count_list (us_history st) s)"

lemma work_bounded_cong:
  "us_records st' = us_records st \<Longrightarrow> us_history st' = us_history st \<Longrightarrow> work_bounded e k st' = work_bounded e k st"
  by (simp add: work_bounded_def)

lemma handle_calls_bounded:
  assumes "work_bounded e k st"
  shows "work_bounded e (Suc k) (snd (handle_calls e t iter reply calls st))"
proof -
  obtain kept warnings st1 where f: "filter_repeats e iter calls st = (kept, warnings, st1)" by (rule prod_cases3)
  define st2 where "st2 = (if warnings \<noteq> [] then say (line_break @ concat (map (\<lambda>w. w @ line_break) warnings)) st1 else st1)"
  have st2: "us_records st2 = us_records st" "us_history st2 = us_history st @ map (call_sig e) kept" "few (us_history st2)"
    using filter_repeats_history [OF f] assms by (auto simp: st2_def work_bounded_def)
  obtain chosen merged dropped st3 where c: "choose_calls e iter kept st2 = (chosen, merged, dropped, st3)" by (rule prod_cases4)
  note cf = choose_calls_facts [OF c]
  define st4 where "st4 = say (results_intro (ue_prompts e) (ao_text reply) merged dropped) st3"
  define st5 where "st5 = snd (unified_calls e t 0 chosen st4)"
  obtain n where rec: "us_history st5 = us_history st4"
    "map (record_sig e) (us_records st5) = map (record_sig e) (us_records st4) @ take n (map (call_sig e) chosen)"
    using unified_calls_records [of e chosen st4 t 0] by (auto simp: adds_calls_def st5_def)
  have st4: "us_records st4 = us_records st" "us_history st4 = us_history st @ map (call_sig e) kept"
    by (simp_all add: st4_def cf st2)
  have pass: "work_bounded e (Suc k) st5"
  proof -
    have "length (us_records st5) \<le> length (us_records st) + 4"
      using arg_cong [OF rec(2), of length] cf(1) by (simp add: st4)
    moreover have "count_list (map (record_sig e) (us_records st5)) s \<le> count_list (us_history st5) s" for s
    proof -
      have "count_list (map (record_sig e) (us_records st)) s \<le> count_list (us_history st) s"
        using assms unfolding work_bounded_def by blast
      then show ?thesis
        unfolding rec st4 using cf(2) [of s] count_list_take [of n "map (call_sig e) chosen" s] by simp
    qed
    ultimately show ?thesis using assms st2 by (simp add: work_bounded_def rec st4)
  qed
  have close: "us_records (close_pass e a b st') = us_records st'" "us_history (close_pass e a b st') = us_history st'" for a b st'
    by (simp_all add: close_pass_def Let_def)
  have early: "work_bounded e (Suc k) st2" if "kept = []"
    using assms st2 that by (auto simp: work_bounded_def)
  obtain r where r: "unified_calls e t 0 chosen st4 = (r, st5)" using st5_def by (metis prod.collapse)
  have "snd (handle_calls e t iter reply calls st) = st2 \<and> kept = [] \<or>
      snd (handle_calls e t iter reply calls st) \<in> {st5} \<union> range (\<lambda>n. close_pass e n (length chosen) st5)"
    by (cases r) (simp_all only: handle_calls_def Let_def f prod.case st2_def [symmetric] c st4_def [symmetric] r
      outcome.case if_splits snd_conv, auto)
  then show ?thesis
    using early pass work_bounded_cong [OF close, of e "Suc k"] by auto
qed

lemma work_bounded_Suc: "work_bounded e k st \<Longrightarrow> work_bounded e (Suc k) st"
  by (simp add: work_bounded_def)

lemma unified_pass_bounded:
  assumes "work_bounded e k st"
  shows "work_bounded e (Suc k) (snd (unified_pass e t prefix_len conv_max iter st))"
proof -
  have same: "work_bounded e j (st\<lparr>us_conversation := c\<rparr>) = work_bounded e j st"
    "work_bounded e j (st\<lparr>us_tokens := n\<rparr>) = work_bounded e j st"
    "work_bounded e j (say s st) = work_bounded e j st" "work_bounded e j (emit e evs st) = work_bounded e j st"
    "work_bounded e j (nudge a b st) = work_bounded e j st"
    "work_bounded e j (st\<lparr>us_url_nudges := i\<rparr>) = work_bounded e j st"
    "work_bounded e j (st\<lparr>us_preamble_nudges := i\<rparr>) = work_bounded e j st" for j c n s evs a b i st
    by (rule work_bounded_cong; simp)+
  have reply: "work_bounded e (Suc k) (snd (handle_reply e t prefix_len iter reply st'))" if "work_bounded e k st'" for reply st'
    using that work_bounded_Suc [OF that] handle_calls_bounded [of e k]
    by (simp only: handle_reply_def Let_def finish_or_nudge_def same snd_conv split: option.split if_split) blast
  show ?thesis
    using assms work_bounded_Suc [OF assms] reply
    by (simp only: unified_pass_def Let_def same snd_conv split: option.split sum.split if_split) blast
qed

lemma unified_passes_bounded:
  "work_bounded e k st \<Longrightarrow>
   work_bounded e (k + length iters) (snd (snd (unified_passes e ts prefix_len conv_max iters st)))"
proof (induction iters arbitrary: k st)
  case (Cons iter iters)
  obtain r st' where p: "unified_pass e (ts iter) prefix_len conv_max iter st = (r, st')" by fastforce
  with unified_pass_bounded [OF Cons.prems] have st': "work_bounded e (Suc k) st'" by (metis snd_conv)
  then have "work_bounded e (k + length (iter # iters)) st'" by (auto simp: work_bounded_def)
  with Cons.IH [OF st'] p show ?case by (cases r) simp_all
qed simp

lemma unified_passes_iter: "fst (snd (unified_passes e ts prefix_len conv_max iters st)) \<in> insert 0 (set iters)"
proof (induction iters arbitrary: st)
  case (Cons iter iters)
  obtain r st' where "unified_pass e (ts iter) prefix_len conv_max iter st = (r, st')" by fastforce
  with Cons.IH [of st'] show ?case by (cases r) auto
qed simp

lemma count_list_record_sig:
  "count_list (map (record_sig e) rs) (name, h) =
   length (filter (\<lambda>r. tc_tool_name r = name \<and> ue_hash e (ue_json_text e (tc_args r)) = h) rs)"
  by (induction rs) (simp_all add: record_sig_def)

subsection \<open>The tools the loop may use\<close>

text \<open>
  \<open>reachable_mcp\<close>: the call goes to an MCP server, which is asked whatever the allowed list says.
\<close>

definition reachable_mcp :: "'w mcp_manager option \<Rightarrow> string \<Rightarrow> bool" where
  "reachable_mcp mcp name \<longleftrightarrow> mcp \<noteq> None \<and> CHR '':'' \<in> set name"

definition mcp_keeps :: "'w mcp_manager option \<Rightarrow> ('w \<Rightarrow> bool) \<Rightarrow> bool" where
  "mcp_keeps mcp P \<longleftrightarrow>
     (\<forall>m n p w. mcp = Some m \<longrightarrow> CHR '':'' \<in> set n \<longrightarrow> P w \<longrightarrow> P (snd (mm_call m n p w)))"

definition loop_confined ::
    "agent_config \<Rightarrow> (string, 'w tool) hmap \<Rightarrow> 'w mcp_manager option \<Rightarrow> ('w \<Rightarrow> bool) \<Rightarrow> 'w unified_state \<Rightarrow> bool" where
  "loop_confined c builtin mcp P st \<longleftrightarrow>
     (\<forall>r. us_registry st = Some r \<longrightarrow> tr_builtin r = builtin) \<and> P (us_world st) \<and>
     (\<forall>r \<in> set (us_records st). tc_success r \<longrightarrow>
        tool_allowed c (tc_tool_name r) \<or> reachable_mcp mcp (tc_tool_name r))"

lemma loop_confined_cong:
  "us_registry st' = us_registry st \<Longrightarrow> us_world st' = us_world st \<Longrightarrow> us_records st' = us_records st \<Longrightarrow>
   loop_confined c builtin mcp P st' = loop_confined c builtin mcp P st"
  by (simp add: loop_confined_def)

definition agent_allows :: "('r, 'w) unified_env \<Rightarrow> agent_config \<Rightarrow> bool" where
  "agent_allows e c \<longleftrightarrow>
     ue_allowed e = (if ac_allowed_tools c = [] then None else Some (ac_allowed_tools c))"

lemma locally_allowed_iff: "agent_allows e c \<Longrightarrow> locally_allowed (ue_allowed e) n \<longleftrightarrow> tool_allowed c n"
  by (auto simp: agent_allows_def locally_allowed_def tool_allowed_def)

lemma finish_call_confined:
  assumes "loop_confined c builtin mcp P st"
    and "snd res \<Longrightarrow> tool_allowed c (pt_name call) \<or> reachable_mcp mcp (pt_name call)"
  shows "loop_confined c builtin mcp P (snd (finish_call e t i call res st))"
proof -
  have "snd (finish_call e t i call res st) = snd (after_call e t i call (fst res) (snd res) st)"
    by (simp add: finish_call_def split: prod.split outcome.split)
  moreover have "loop_confined c builtin mcp P (snd (after_call e t i call (fst res) (snd res) st))"
    using assms by (auto simp: after_call_def Let_def record_unified_def tool_step_def loop_confined_def
        emit_def say_def split: option.split)
  ultimately show ?thesis by simp
qed

lemma run_mcp_confined:
  assumes "mcp_keeps (ue_mcp e) P" and "loop_confined c builtin (ue_mcp e) P st"
    and "CHR '':'' \<in> set (pt_name call)"
  shows "loop_confined c builtin (ue_mcp e) P (snd (run_mcp e call st))"
    and "snd (fst (run_mcp e call st)) \<Longrightarrow> reachable_mcp (ue_mcp e) (pt_name call)"
proof -
  have "P (snd (mm_call m (pt_name call) (pt_args call) (us_world st)))" if "ue_mcp e = Some m" for m
    using that assms by (simp add: mcp_keeps_def loop_confined_def)
  with assms(2) show "loop_confined c builtin (ue_mcp e) P (snd (run_mcp e call st))"
    by (fastforce simp: run_mcp_def loop_confined_def split: option.split prod.split sum.split)
  show "snd (fst (run_mcp e call st)) \<Longrightarrow> reachable_mcp (ue_mcp e) (pt_name call)"
    using assms(3) by (auto simp: run_mcp_def reachable_mcp_def split: option.splits)
qed

lemma run_registry_confined:
  assumes "allowed_tools_keep c builtin P" and "loop_confined c builtin mcp P st"
    and "tool_allowed c (pt_name call)"
  shows "loop_confined c builtin mcp P (snd (run_registry_tool e t i call st))"
proof (cases "us_registry st")
  case (Some r)
  with assms(2) have b: "tr_builtin r = builtin" "P (us_world st)" by (simp_all add: loop_confined_def)
  obtain res r' w' where ex: "execute_local
      \<lparr>te_parse = ue_url e, te_json_text = ue_json_text e, te_elapsed_stats = ut_stats_ms t i,
       te_elapsed_result = ut_result_ms t i\<rparr> (pt_name call) (pt_args call) (ue_context e) r (us_world st) =
      (res, r', w')" by (rule prod_cases3)
  from execute_local_keeps [OF ex _ assms(3)] assms(1) b have "P w'" "tr_builtin r' = builtin" by simp_all
  with assms(2) Some ex show ?thesis
    by (cases res) (simp_all add: run_registry_tool_def loop_confined_def)
qed (use assms(2) in \<open>simp add: run_registry_tool_def\<close>)

lemma unified_call_confined:
  assumes a: "agent_allows e c" and k: "allowed_tools_keep c builtin P" and m: "mcp_keeps (ue_mcp e) P"
    and st: "loop_confined c builtin (ue_mcp e) P st"
  shows "loop_confined c builtin (ue_mcp e) P (snd (unified_call e t i call st))"
proof -
  let ?st = "emit e [ToolEvent (pt_name call) ''started'' (take_chars 500 (ue_json_text e (pt_args call))) []] st"
  have s: "loop_confined c builtin (ue_mcp e) P ?st" using st by (simp add: loop_confined_def)
  have deny: "loop_confined c builtin (ue_mcp e) P (deny_call e call ?st)"
    using s by (simp add: deny_call_def Let_def record_unified_def tool_step_def loop_confined_def)
  show ?thesis
  proof (cases "CHR '':'' \<in> set (pt_name call)")
    case True
    from run_mcp_confined [OF m s True] True show ?thesis
      by (simp add: unified_call_def Let_def case_prod_beta finish_call_confined)
  next
    case False
    show ?thesis
    proof (cases "tool_allowed c (pt_name call)")
      case True
      from run_registry_confined [OF k s True, of e t i] True False show ?thesis
        by (cases "fst (run_registry_tool e t i call ?st)")
          (simp_all add: unified_call_def Let_def case_prod_beta locally_allowed_iff [OF a] finish_call_confined)
    next
      case ta: False
      with deny False show ?thesis by (simp add: unified_call_def Let_def locally_allowed_iff [OF a])
    qed
  qed
qed

lemma unified_calls_confined:
  assumes "agent_allows e c" and "allowed_tools_keep c builtin P" and "mcp_keeps (ue_mcp e) P"
    and "loop_confined c builtin (ue_mcp e) P st"
  shows "loop_confined c builtin (ue_mcp e) P (snd (unified_calls e t i cs st))"
  using assms(4)
proof (induction cs arbitrary: i st)
  case (Cons call cs)
  obtain r st1 where c: "unified_call e t i call st = (r, st1)" by fastforce
  with unified_call_confined [OF assms(1-3) Cons.prems, of t i call]
  have "loop_confined c builtin (ue_mcp e) P st1" by simp
  from Cons.IH [OF this, of "Suc i"] this c show ?case
    by (cases r) (auto split: prod.split outcome.split)
qed simp

lemma filter_repeats_frame:
  "us_registry (snd (snd (filter_repeats e iter cs st))) = us_registry st"
  "us_world (snd (snd (filter_repeats e iter cs st))) = us_world st"
  "us_records (snd (snd (filter_repeats e iter cs st))) = us_records st"
  by (induction cs arbitrary: st) (simp_all add: Let_def case_prod_beta)

lemma close_pass_frame:
  "us_registry (close_pass e a b st) = us_registry st" "us_world (close_pass e a b st) = us_world st"
  "us_records (close_pass e a b st) = us_records st"
  by (simp_all add: close_pass_def Let_def)

lemma handle_calls_confined:
  assumes "agent_allows e c" and "allowed_tools_keep c builtin P" and "mcp_keeps (ue_mcp e) P"
    and "loop_confined c builtin (ue_mcp e) P st"
  shows "loop_confined c builtin (ue_mcp e) P (snd (handle_calls e t iter reply calls st))"
proof -
  let ?I = "loop_confined c builtin (ue_mcp e) P"
  obtain kept warnings st1 where f: "filter_repeats e iter calls st = (kept, warnings, st1)" by (rule prod_cases3)
  define st2 where "st2 = (if warnings \<noteq> [] then say (line_break @ concat (map (\<lambda>w. w @ line_break) warnings)) st1 else st1)"
  have st2: "?I st2"
    using filter_repeats_frame [of e iter calls st] f assms(4) by (simp add: st2_def loop_confined_def)
  obtain chosen merged dropped st3 where ch: "choose_calls e iter kept st2 = (chosen, merged, dropped, st3)" by (rule prod_cases4)
  then have "us_registry st3 = us_registry st2" "us_world st3 = us_world st2" "us_records st3 = us_records st2"
    by (auto simp: choose_calls_def Let_def)
  then have st4: "?I (say (results_intro (ue_prompts e) (ao_text reply) merged dropped) st3)"
    using st2 by (simp add: loop_confined_def)
  obtain r st5 where u: "unified_calls e t 0 chosen (say (results_intro (ue_prompts e) (ao_text reply) merged dropped) st3) = (r, st5)"
    by fastforce
  with unified_calls_confined [OF assms(1-3) st4, of t 0 chosen] have "?I st5" by simp
  moreover have "?I (close_pass e n m st5) = ?I st5" for n m
    by (rule loop_confined_cong; simp add: close_pass_frame)
  moreover have "snd (handle_calls e t iter reply calls st) =
      (if kept = [] then st2
       else case r of Ok n \<Rightarrow> close_pass e n (length chosen) st5 | _ \<Rightarrow> st5)"
    by (cases r) (simp_all add: handle_calls_def Let_def f st2_def [symmetric] ch u)
  ultimately show ?thesis using st2 by (cases r) simp_all
qed

lemma unified_pass_confined:
  assumes "agent_allows e c" and "allowed_tools_keep c builtin P" and "mcp_keeps (ue_mcp e) P"
    and "loop_confined c builtin (ue_mcp e) P st"
  shows "loop_confined c builtin (ue_mcp e) P (snd (unified_pass e t prefix_len conv_max iter st))"
proof -
  let ?I = "loop_confined c builtin (ue_mcp e) P"
  have same: "?I (st\<lparr>us_conversation := x\<rparr>) = ?I st" "?I (st\<lparr>us_tokens := n\<rparr>) = ?I st"
    "?I (say s st) = ?I st" "?I (emit e evs st) = ?I st" "?I (nudge a b st) = ?I st"
    "?I (st\<lparr>us_url_nudges := i\<rparr>) = ?I st" "?I (st\<lparr>us_preamble_nudges := i\<rparr>) = ?I st" for x n s evs a b i st
    by (rule loop_confined_cong; simp add: nudge_def)+
  have reply: "?I (snd (handle_reply e t prefix_len iter reply st'))" if "?I st'" for reply st'
    using that handle_calls_confined [OF assms(1-3)]
    by (simp only: handle_reply_def Let_def finish_or_nudge_def same snd_conv split: option.split if_split) blast
  show ?thesis
    using assms(4) reply
    by (simp only: unified_pass_def Let_def same snd_conv split: option.split sum.split if_split) blast
qed

lemma unified_passes_confined:
  assumes "agent_allows e c" and "allowed_tools_keep c builtin P" and "mcp_keeps (ue_mcp e) P"
    and "loop_confined c builtin (ue_mcp e) P st"
  shows "loop_confined c builtin (ue_mcp e) P (snd (snd (unified_passes e ts prefix_len conv_max iters st)))"
  using assms(4)
proof (induction iters arbitrary: st)
  case (Cons iter iters)
  obtain r st' where p: "unified_pass e (ts iter) prefix_len conv_max iter st = (r, st')" by fastforce
  with unified_pass_confined [OF assms(1-3) Cons.prems, of "ts iter" prefix_len conv_max iter]
  have "loop_confined c builtin (ue_mcp e) P st'" by simp
  from Cons.IH [OF this] this p show ?case by (cases r) simp_all
qed simp

lemma shared_loop_confined:
  assumes "agent_allows e c" and "allowed_tools_keep c (tr_builtin reg) P" and "mcp_keeps (ue_mcp e) P" and "P w"
  shows "loop_confined c (tr_builtin reg) (ue_mcp e) P
    (snd (snd (run_unified_agentic_loop e ts include_mcp ctx_chars body (Some reg) w)))"
proof -
  define e' where "e' = e\<lparr>ue_max_tokens := min (ue_max_tokens e) 16384\<rparr>"
  have e': "agent_allows e' c" "mcp_keeps (ue_mcp e') P" "ue_mcp e' = ue_mcp e"
    using assms(1,3) by (simp_all add: agent_allows_def e'_def)
  define prefix where "prefix = build_agentic_system_prefix (ue_prompts e) (Some reg) (ue_mcp e) include_mcp (ue_allowed e)"
  define st0 where "st0 = \<lparr>us_conversation = prefix @ blank_line @ body, us_registry = Some reg, us_world = w,
    us_tool_logs = [], us_records = [], us_tokens = 0, us_fail_passes = 0, us_history = [], us_preamble_nudges = 0,
    us_url_nudges = 0, us_progress = []\<rparr>"
  have "loop_confined c (tr_builtin reg) (ue_mcp e') P st0"
    by (simp add: loop_confined_def st0_def assms(4))
  from unified_passes_confined [OF e'(1) assms(2) e'(2) this] e'(3)
  have "loop_confined c (tr_builtin reg) (ue_mcp e) P
      (snd (snd (unified_passes e' ts (length prefix) (conversation_budget (ue_max_tokens e') ctx_chars)
        [1..<agentic_max_iters + 1] st0)))"
    by simp
  moreover have "run_unified_agentic_loop e ts include_mcp ctx_chars body (Some reg) w =
      unified_passes e' ts (length prefix) (conversation_budget (ue_max_tokens e') ctx_chars)
        [1..<agentic_max_iters + 1] st0"
    by (simp only: run_unified_agentic_loop_def Let_def e'_def prefix_def st0_def) simp
  ultimately show ?thesis by simp
qed

subsection \<open>A task in the shared loop\<close>

text \<open>What a task does besides the loop: the world, the calls and the budget at its end.\<close>

lemma save_memory_frame:
  assumes "save_task_memory a b input answer rt = Some rt'"
  shows "rt_budget rt' = rt_budget rt"
  using assms by (auto simp: save_task_memory_def split: if_splits option.splits)

lemma save_turns_frame: "rt_budget (save_turns f session input answer rt) = rt_budget rt"
  by (simp add: save_turns_def Let_def split: option.split)

lemma via_unified_outcome:
  fixes g :: "'r agent_env" and rt :: "'w agent_runtime"
  assumes "run_task_via_unified_loop g out_json hash uuid dir ts spend_time f readable session extras input rt w = (r, rt', w')"
  shows "\<exists>(e :: ('r, 'w) unified_env) include_mcp ctx body out passes st.
      run_unified_agentic_loop e ts include_mcp ctx body (Some (rt_tools rt)) w = (out, passes, st) \<and>
      agent_allows e (rt_config rt) \<and> ue_mcp e = (if te_use_mcp extras then te_mcp extras else None) \<and>
      w' = us_world st \<and> r \<noteq> OutOfFuel \<and>
      (\<forall>res. r = TaskReturned res \<longrightarrow> ar_tool_calls res = us_records st \<or> ar_tool_calls res = []) \<and>
      (\<forall>res. r = TaskReturned res \<and> ar_success res \<longrightarrow>
         rt_budget rt' = budget_spend spend_time (token_cost (ar_total_tokens res)) (new_request (rt_budget rt)))"
proof -
  define rt1 where "rt1 = rt_logs (''Task received: '' @ input) (rt\<lparr>rt_budget := new_request (rt_budget rt)\<rparr>)"
  define turns where "turns = prior_turns readable session rt1"
  define rt2 where "rt2 = (if turns = [] then rt1
      else rt_logs (''Loaded '' @ show_nat (length turns) @ '' prior turns from session '' @ [CHR 0x27] @
        (case session of Some sid \<Rightarrow> sid | None \<Rightarrow> []) @ [CHR 0x27]) rt1)"
  have rt2: "rt_tools rt2 = rt_tools rt" "rt_config rt2 = rt_config rt" "rt_budget rt2 = new_request (rt_budget rt)"
    by (simp_all add: rt2_def rt1_def rt_logs_def)
  define e where "e = unified_env_for g out_json hash uuid dir extras rt2"
  define incl where "incl = (case ue_mcp e of Some m \<Rightarrow> 0 < mm_tool_count m | None \<Rightarrow> False)"
  define ctx where "ctx = (if 0 < te_model_ctx_chars extras then te_model_ctx_chars extras else 48000)"
  define body where "body = unified_body g extras turns input rt2"
  obtain out passes st where run: "run_unified_agentic_loop e ts incl ctx body (Some (rt_tools rt)) w = (out, passes, st)"
    by (rule prod_cases3)
  define rt3 where "rt3 = rt2\<lparr>rt_log := rt_log rt2 @ concat (map task_log_lines (us_progress st)),
      rt_tools := (case us_registry st of Some x \<Rightarrow> x | None \<Rightarrow> rt_tools rt)\<rparr>"
  have rt3: "rt_budget rt3 = new_request (rt_budget rt)" by (simp add: rt3_def rt2)
  have eq: "run_task_via_unified_loop g out_json hash uuid dir ts spend_time f readable session extras input rt w =
      (case out of
         Answered o' \<Rightarrow>
           (let rt = rt3\<lparr>rt_budget := budget_spend spend_time (token_cost (ao_tokens_generated o')) (rt_budget rt3)\<rparr>;
                rt = save_turns f session input (ao_text o') rt
            in (case save_task_memory (fe_collection f) (fe_stored f) input (ao_text o') rt of
                  None \<Rightarrow> (TaskPanicked, rt, us_world st)
                | Some rt \<Rightarrow>
                    (TaskReturned \<lparr>ar_answer = ao_text o', ar_tool_calls = us_records st, ar_iterations = of_nat passes,
                       ar_total_tokens = ao_tokens_generated o', ar_budget_spent = bt_spent_total (rt_budget rt),
                       ar_success = True, ar_error = None\<rparr>, rt, us_world st)))
       | Failed x \<Rightarrow>
           (TaskReturned \<lparr>ar_answer = (if x = ''Stopped by user'' then ''Stopped by user.'' else []), ar_tool_calls = [],
              ar_iterations = 0, ar_total_tokens = 0, ar_budget_spent = bt_spent_total (rt_budget rt3),
              ar_success = False, ar_error = Some x\<rparr>, rt3, us_world st)
       | _ \<Rightarrow> (TaskPanicked, rt3, us_world st))"
    using run
    by (simp only: run_task_via_unified_loop_def Let_def rt1_def [symmetric] turns_def [symmetric] rt2_def [symmetric]
        e_def [symmetric] incl_def [symmetric] ctx_def [symmetric] body_def [symmetric] rt2(1) prod.case
        rt3_def [symmetric])
  have allows: "agent_allows e (rt_config rt)" "ue_mcp e = (if te_use_mcp extras then te_mcp extras else None)"
    by (simp_all add: e_def agent_allows_def unified_env_for_def rt2)
  have "w' = us_world st \<and> r \<noteq> OutOfFuel \<and>
      (\<forall>res. r = TaskReturned res \<longrightarrow> ar_tool_calls res = us_records st \<or> ar_tool_calls res = []) \<and>
      (\<forall>res. r = TaskReturned res \<and> ar_success res \<longrightarrow>
         rt_budget rt' = budget_spend spend_time (token_cost (ar_total_tokens res)) (new_request (rt_budget rt)))"
    using assms unfolding eq Let_def
    by (auto simp: save_turns_frame rt3 split: unified_end.splits option.splits dest!: save_memory_frame)
  with run allows show ?thesis by blast
qed

subsection \<open>Properties\<close>

text \<open>C25: A task of an agent ends: it returns a result or panics, whatever the model answers and the
  tools do. An agent without an inference sink runs it in its own loop, within 21 iterations; one
  with a sink in the shared loop, whose passes C27 bounds.\<close>

theorem run_task_ends:
  "fst (run_task_with_session g sink ts f recalled loads session extras input rt w) \<noteq> OutOfFuel \<and>
   tk_iterations (snd (run_task_own_loop g ts f recalled loads session input rt w)) \<le> max_iterations + 1"
proof (cases sink)
  case None
  then show ?thesis
    using own_loop_ends [of g ts f recalled loads session input rt w]
    by (simp add: run_task_with_session_def case_prod_beta)
next
  case (Some k)
  obtain r rt' w' where r: "run_task_via_unified_loop g (sk_out_json k) (sk_hash k) (sk_uuid k) (sk_dir k) (sk_turns k)
      (sk_spend_time k) f (sk_readable k) session extras input rt w = (r, rt', w')"
    by (rule prod_cases3)
  from via_unified_outcome [OF r] have "r \<noteq> OutOfFuel" by blast
  with r Some own_loop_ends [of g ts f recalled loads session input rt w] show ?thesis
    by (simp add: run_task_with_session_def)
qed

text \<open>C24: When the model generates no more tokens than it is asked for, the spending of an agent without
  an inference sink stays within its limits per request, hour, day and altogether through a whole
  task: every iteration is checked before the model is asked, for the cost of the tokens it may
  generate. An agent with a sink, as those of \<open>peerclaw serve\<close> are, is not held to its limits: the
  shared loop does not look at them, and a task that succeeds is charged for all the tokens it took,
  once, at its end.\<close>

theorem run_task_within_budget:
  assumes "\<And>i x r. tn_infer (ts i) x = Inr (InferenceD r) \<Longrightarrow> ir_tokens_generated r \<le> it_max_tokens x"
    and "budget_within (rt_budget rt)"
    and "run_task_with_session g sink ts f recalled loads session extras input rt w = (r, rt', w')"
  shows "case sink of
      None \<Rightarrow> budget_within (rt_budget rt')
    | Some k \<Rightarrow> (\<forall>res. r = TaskReturned res \<and> ar_success res \<longrightarrow>
        rt_budget rt' = budget_spend (sk_spend_time k) (token_cost (ar_total_tokens res)) (new_request (rt_budget rt)))"
proof (cases sink)
  case None
  have "budget_within (rt_budget (tk_rt (snd (run_task_own_loop g ts f recalled loads session input rt w))))"
    by (rule own_loop_budget [OF _ assms(2)]) (rule assms(1))
  then show ?thesis
    using assms(3) None by (auto simp: run_task_with_session_def split: prod.splits)
next
  case (Some k)
  with assms(3) have "run_task_via_unified_loop g (sk_out_json k) (sk_hash k) (sk_uuid k) (sk_dir k) (sk_turns k)
      (sk_spend_time k) f (sk_readable k) session extras input rt w = (r, rt', w')"
    by (simp add: run_task_with_session_def)
  from via_unified_outcome [OF this] Some show ?thesis by auto
qed

lemma run_task_within_budget_witness:
  "budget_within (rt_budget (fst (snd (run_task_with_session agent_demo_env None demo_turn demo_finish [] (Inr ()) None
     default_extras ''hello'' demo_runtime 0))))"
proof -
  obtain r rt' w' where run: "run_task_with_session agent_demo_env None demo_turn demo_finish [] (Inr ()) None
     default_extras ''hello'' demo_runtime 0 = (r, rt', w')" by (rule prod_cases3)
  have b: "budget_within (rt_budget demo_runtime)" by code_simp
  have t: "ir_tokens_generated r \<le> it_max_tokens x" if "tn_infer (demo_turn i) x = Inr (InferenceD r)" for i x r
    using that by (auto simp: demo_turn_def)
  from run_task_within_budget [OF t b run] show ?thesis by (simp add: run)
qed

text \<open>C23: An agent acts on the world only through the tools it is allowed and, where its task runs in the
  shared loop with MCP, through the tools of MCP servers, which the list of allowed tools does not
  cover: what all of these keep true is true of the world after a task, whatever calls the model
  asks for, and every call that succeeded is one of an allowed tool or, there, one whose name has a
  colon and went to an MCP server. Without an inference sink, or without MCP, only allowed tools run.
  An empty list of tools allows all local ones.\<close>

theorem run_task_uses_allowed_tools:
  fixes g :: "'r agent_env" and rt :: "'w agent_runtime"
  assumes "\<And>n t p x w. get_tool (rt_tools rt) n = Some t \<Longrightarrow> tool_allowed (rt_config rt) n \<Longrightarrow> P w \<Longrightarrow>
      P (snd (tl_execute t p x w))"
    and "\<And>m n p w. sink \<noteq> None \<Longrightarrow> te_use_mcp extras \<Longrightarrow> te_mcp extras = Some m \<Longrightarrow> CHR '':'' \<in> set n \<Longrightarrow> P w \<Longrightarrow>
      P (snd (mm_call m n p w))"
    and "P w" and "run_task_with_session g sink ts f recalled loads session extras input rt w = (r, rt', w')"
  shows "P w' \<and> (\<forall>res. r = TaskReturned res \<longrightarrow> (\<forall>c \<in> set (ar_tool_calls res). tc_success c \<longrightarrow>
      tool_allowed (rt_config rt) (tc_tool_name c) \<or>
      sink \<noteq> None \<and> te_use_mcp extras \<and> te_mcp extras \<noteq> None \<and> CHR '':'' \<in> set (tc_tool_name c)))"
proof (cases sink)
  case None
  have keep: "allowed_tools_keep (rt_config rt) (tr_builtin (rt_tools rt)) P"
    using assms(1) by (simp add: allowed_tools_keep_def get_tool_def)
  obtain st where own: "run_task_own_loop g ts f recalled loads session input rt w = (r, st)" and "w' = tk_world st"
    using assms(4) None by (auto simp: run_task_with_session_def split: prod.splits)
  moreover have "ar_tool_calls res = tk_calls st" if "r = TaskReturned res" for res
    using agent_loop_calls [OF own [unfolded run_task_own_loop_def that]] .
  ultimately show ?thesis
    using own_loop_confined [OF keep assms(3), of g ts f recalled loads session input]
    by (auto simp: confined_def)
next
  case (Some k)
  let ?mcp = "if te_use_mcp extras then te_mcp extras else None"
  have keep: "allowed_tools_keep (rt_config rt) (tr_builtin (rt_tools rt)) P" "mcp_keeps ?mcp P"
    using assms(1,2) Some by (auto simp: allowed_tools_keep_def get_tool_def mcp_keeps_def)
  from assms(4) Some have "run_task_via_unified_loop g (sk_out_json k) (sk_hash k) (sk_uuid k) (sk_dir k) (sk_turns k)
      (sk_spend_time k) f (sk_readable k) session extras input rt w = (r, rt', w')"
    by (simp add: run_task_with_session_def)
  from via_unified_outcome [OF this] obtain e :: "('r, 'w) unified_env" and include_mcp ctx body out passes st where
    u: "run_unified_agentic_loop e (sk_turns k) include_mcp ctx body (Some (rt_tools rt)) w = (out, passes, st)"
      "agent_allows e (rt_config rt)" "ue_mcp e = ?mcp" "w' = us_world st"
      "\<And>res. r = TaskReturned res \<Longrightarrow> ar_tool_calls res = us_records st \<or> ar_tool_calls res = []"
    by blast
  have "loop_confined (rt_config rt) (tr_builtin (rt_tools rt)) (ue_mcp e) P st"
    using shared_loop_confined [OF u(2) keep(1) _ assms(3), of "sk_turns k" include_mcp ctx body] keep(2) u(1,3)
    by simp
  then show ?thesis
    using u(3-5) Some by (fastforce simp: loop_confined_def reachable_mcp_def split: if_splits)
qed

lemma run_task_uses_allowed_tools_witness:
  "snd (snd (run_task_with_session agent_demo_env None demo_turn demo_finish [] (Inr ()) None default_extras ''hello''
     demo_runtime 0)) = 0"
proof -
  obtain r rt' w' where run: "run_task_with_session agent_demo_env None demo_turn demo_finish [] (Inr ()) None
     default_extras ''hello'' demo_runtime 0 = (r, rt', w')" by (rule prod_cases3)
  have "rt_tools demo_runtime = demo_registry" "ac_allowed_tools (rt_config demo_runtime) = [''time'']"
    by (simp_all add: demo_runtime_def runtime_from_spec_def runtime_new_def config_from_spec_def demo_spec_def)
  moreover have "get_tool demo_registry ''time'' = Some (demo_tool ''time'' id)"
    by (simp add: demo_registry_def registry_new_def register_builtin_def get_tool_def demo_tool_def)
  ultimately have keep: "snd (tl_execute t p x w) = 0"
    if "get_tool (rt_tools demo_runtime) n = Some t" "tool_allowed (rt_config demo_runtime) n" "w = 0" for n t p x w
    using that by (auto simp: tool_allowed_def demo_tool_def)
  have mcp: "snd (mm_call m n p w) = 0" if "None \<noteq> (None :: inference_sink option)" for m n p and w :: nat
    using that by simp
  from run_task_uses_allowed_tools [where P = "\<lambda>w. w = 0", OF keep mcp refl run] show ?thesis by (simp add: run)
qed

text \<open>C27: The loop shared by chat, tasks and agents makes at most 20 passes and 80 calls of tools, and calls no tool more than four times with arguments of the same hash, whatever the model answers.\<close>

theorem unified_work_bounded:
  "case run_unified_agentic_loop e ts include_mcp ctx_chars body registry w of (r, passes, st) \<Rightarrow>
     passes \<le> 20 \<and> length (us_records st) \<le> 80 \<and>
     (\<forall>name h. length (filter (\<lambda>r. tc_tool_name r = name \<and> ue_hash e (ue_json_text e (tc_args r)) = h)
        (us_records st)) \<le> 4)"
proof -
  define e' where "e' = e\<lparr>ue_max_tokens := min (ue_max_tokens e) 16384\<rparr>"
  define prefix where "prefix = build_agentic_system_prefix (ue_prompts e) registry (ue_mcp e) include_mcp (ue_allowed e)"
  define st0 where "st0 = \<lparr>us_conversation = prefix @ blank_line @ body, us_registry = registry, us_world = w,
    us_tool_logs = [], us_records = [], us_tokens = 0, us_fail_passes = 0, us_history = [], us_preamble_nudges = 0,
    us_url_nudges = 0, us_progress = []\<rparr>"
  define conv where "conv = conversation_budget (ue_max_tokens e') ctx_chars"
  obtain r passes st where run: "run_unified_agentic_loop e ts include_mcp ctx_chars body registry w = (r, passes, st)"
    by (rule prod_cases3)
  then have loop: "unified_passes e' ts (length prefix) conv [1..<21] st0 = (r, passes, st)"
    by (simp add: run_unified_agentic_loop_def Let_def e'_def prefix_def st0_def conv_def agentic_max_iters_def)
  have "work_bounded e' 0 st0" by (simp add: work_bounded_def few_def st0_def)
  from unified_passes_bounded [OF this, of "[1..<21]" ts "length prefix" conv]
  have b: "work_bounded e' 20 st" by (simp only: loop snd_conv length_upt) simp
  have "length (filter (\<lambda>r. tc_tool_name r = name \<and> ue_hash e (ue_json_text e (tc_args r)) = h) (us_records st)) \<le> 4"
    for name h
  proof -
    have "count_list (map (record_sig e') (us_records st)) (name, h) \<le> 4"
      using b unfolding work_bounded_def few_def by (meson le_trans)
    then show ?thesis unfolding count_list_record_sig by (simp add: e'_def)
  qed
  moreover have "passes \<le> 20"
    using unified_passes_iter [of e' ts "length prefix" conv "[1..<21]" st0, unfolded loop fst_conv snd_conv] by auto
  ultimately show ?thesis using b by (simp add: run work_bounded_def)
qed

end
