(* ===== verification/Model_Cache_Props.thy ===== *)
theory Model_Cache_Props
  imports Model_Cache
begin

section \<open>Properties of the model cache\<close>

text \<open>
  The cache accounts for the memory of its models, keeps its two limits and never evicts a model in
  use; loading a model by the beginning of its name books its memory again each time.
\<close>

abbreviation model_mb :: "loaded_model \<Rightarrow> nat" where
  "model_mb m \<equiv> unat (estimate_ram_mb (lm_info m))"

definition accounted :: "model_cache \<Rightarrow> bool" where
  "accounted c \<longleftrightarrow> hm_wf (mc_models c) \<and> unat (mc_current_memory_mb c) = hm_sum model_mb (mc_models c)"

definition in_use_kept :: "model_cache \<Rightarrow> model_cache \<Rightarrow> bool" where
  "in_use_kept c c' \<longleftrightarrow>
     (\<forall>i m. hm_get (mc_models c) i = Some m \<longrightarrow> 0 < lm_ref_count m \<longrightarrow> hm_get (mc_models c') i = Some m)"

text \<open>Eviction: what it takes out of the cache, and what it keeps.\<close>

definition shrinks :: "model_cache \<Rightarrow> model_cache \<Rightarrow> bool" where
  "shrinks c c' \<longleftrightarrow>
     accounted c' \<and> in_use_kept c c' \<and> hm_get (mc_models c') \<subseteq>\<^sub>m hm_get (mc_models c) \<and>
     length (mc_models c') \<le> length (mc_models c) \<and> unat (mc_current_memory_mb c') \<le> unat (mc_current_memory_mb c) \<and>
     mc_max_models c' = mc_max_models c \<and> mc_max_memory_mb c' = mc_max_memory_mb c"

lemma shrinks_refl: "accounted c \<Longrightarrow> shrinks c c"
  by (simp add: shrinks_def in_use_kept_def)

lemma shrinks_trans: "shrinks c c' \<Longrightarrow> shrinks c' c'' \<Longrightarrow> shrinks c c''"
  by (auto simp: shrinks_def in_use_kept_def intro: map_le_trans)

lemma least_recent_in: "least_recent ms = Some m \<Longrightarrow> m \<in> set ms"
  by (induction ms arbitrary: m) (auto split: option.splits if_splits)

lemma length_hm_remove: "hm_get m k = Some v \<Longrightarrow> hm_wf m \<Longrightarrow> length (hm_remove k m) + 1 = length m"
  using hm_sum_remove [of m k v "\<lambda>_. 1"] by (simp add: hm_sum_def sum_list_triv comp_def)

lemma evict_lru_shrinks:
  assumes "accounted c" and "evict_lru c = (r, c')"
  shows "shrinks c c'" and "r = None \<Longrightarrow> length (mc_models c') + 1 = length (mc_models c)"
proof -
  have "shrinks c c' \<and> (r = None \<longrightarrow> length (mc_models c') + 1 = length (mc_models c))"
  proof (cases "least_recent (filter (\<lambda>(_, m). lm_ref_count m = 0) (mc_models c))")
    case None
    with assms show ?thesis by (auto simp: evict_lru_def shrinks_refl)
  next
    case (Some im)
    obtain i m where im: "im = (i, m)" by (cases im)
    have wf: "hm_wf (mc_models c)" and sum: "unat (mc_current_memory_mb c) = hm_sum model_mb (mc_models c)"
      using assms(1) by (simp_all add: accounted_def)
    have "(i, m) \<in> set (mc_models c)" and unused: "lm_ref_count m = 0"
      using least_recent_in [OF Some] im by auto
    with wf have get: "hm_get (mc_models c) i = Some m" by (simp add: hm_get_mem)
    have c': "c' = c\<lparr>mc_models := hm_remove i (mc_models c),
        mc_current_memory_mb := sat_sub (mc_current_memory_mb c) (estimate_ram_mb (lm_info m))\<rparr>" and r: "r = None"
      using assms(2) Some im by (auto simp: evict_lru_def)
    have "hm_sum model_mb (hm_remove i (mc_models c)) + model_mb m = hm_sum model_mb (mc_models c)"
      by (rule hm_sum_remove [OF get wf])
    with wf sum have "accounted c'" by (simp add: c' accounted_def)
    with get unused length_hm_remove [OF get wf] show ?thesis
      by (auto simp: c' r shrinks_def in_use_kept_def map_le_def)
  qed
  then show "shrinks c c'" and "r = None \<Longrightarrow> length (mc_models c') + 1 = length (mc_models c)" by auto
qed

lemma evict_until_fits_shrinks:
  "accounted c \<Longrightarrow> length (mc_models c) \<le> fuel \<Longrightarrow>
   unat (mc_current_memory_mb c) + unat needed < 2 ^ 32 \<Longrightarrow> evict_until_fits fuel needed c = (r, c') \<Longrightarrow>
   shrinks c c' \<and> (r = None \<longrightarrow> unat (mc_current_memory_mb c') + unat needed \<le> unat (mc_max_memory_mb c))"
proof (induction fuel arbitrary: c)
  case 0
  then show ?case
    by (auto simp: evict_until_fits.simps [of 0] shrinks_refl word_le_nat_alt unat_word_ariths split: if_splits)
next
  case (Suc fuel)
  show ?case
  proof (cases "mc_current_memory_mb c + needed \<le> mc_max_memory_mb c \<or> mc_models c = []")
    case True
    with Suc.prems show ?thesis
      by (auto simp: evict_until_fits.simps [of "Suc fuel"] shrinks_refl word_le_nat_alt unat_word_ariths split: if_splits)
  next
    case False
    obtain x c1 where ev: "evict_lru c = (x, c1)" by fastforce
    note s = evict_lru_shrinks [OF Suc.prems(1) ev]
    show ?thesis
    proof (cases x)
      case None
      have max: "mc_max_memory_mb c1 = mc_max_memory_mb c" and acc: "accounted c1"
        and le: "unat (mc_current_memory_mb c1) \<le> unat (mc_current_memory_mb c)"
        using s(1) by (simp_all add: shrinks_def)
      have run: "evict_until_fits fuel needed c1 = (r, c')"
        using Suc.prems(4) False ev None by (simp add: evict_until_fits.simps [of "Suc fuel"])
      have "shrinks c1 c' \<and> (r = None \<longrightarrow> unat (mc_current_memory_mb c') + unat needed \<le> unat (mc_max_memory_mb c1))"
        by (rule Suc.IH [OF acc _ _ run]) (use s(2) None Suc.prems(2,3) le in auto)
      with shrinks_trans [OF s(1)] max show ?thesis by simp
    next
      case (Some err)
      with Suc.prems(4) False ev s(1) show ?thesis by (auto simp: evict_until_fits.simps [of "Suc fuel"])
    qed
  qed
qed

lemma ensure_capacity_shrinks:
  assumes "accounted c" and "unat (mc_current_memory_mb c) + unat needed < 2 ^ 32"
    and "length (mc_models c) \<le> mc_max_models c" and "ensure_capacity needed c = (r, c')"
  shows "shrinks c c' \<and> (r = None \<longrightarrow> length (mc_models c') < mc_max_models c \<and>
    unat (mc_current_memory_mb c') + unat needed \<le> unat (mc_max_memory_mb c))"
proof -
  define full where "full \<longleftrightarrow> mc_max_models c \<le> length (mc_models c)"
  obtain x c1 where ev: "(if full then evict_lru c else (None, c)) = (x, c1)" by fastforce
  have s: "shrinks c c1" and room: "x = None \<Longrightarrow> length (mc_models c1) < mc_max_models c"
    using ev assms(1,3) evict_lru_shrinks [OF assms(1), of x c1] by (auto simp: full_def shrinks_refl split: if_splits)
  have max: "mc_max_memory_mb c1 = mc_max_memory_mb c" and acc: "accounted c1"
    and le: "unat (mc_current_memory_mb c1) \<le> unat (mc_current_memory_mb c)"
    using s by (simp_all add: shrinks_def)
  show ?thesis
  proof (cases x)
    case (Some err)
    with assms(4) ev s show ?thesis by (auto simp: ensure_capacity_def Let_def full_def [symmetric])
  next
    case None
    show ?thesis
    proof (cases "mc_max_memory_mb c < mc_current_memory_mb c + needed")
      case True
      with assms(4) ev None max have run: "evict_until_fits (length (mc_models c1)) needed c1 = (r, c')"
        by (simp add: ensure_capacity_def Let_def full_def [symmetric])
      have c': "shrinks c1 c' \<and> (r = None \<longrightarrow> unat (mc_current_memory_mb c') + unat needed \<le> unat (mc_max_memory_mb c1))"
        by (rule evict_until_fits_shrinks [OF acc _ _ run]) (use le assms(2) in auto)
      then have "length (mc_models c') \<le> length (mc_models c1)" by (simp add: shrinks_def)
      with c' shrinks_trans [OF s] max room [OF None] show ?thesis by auto
    next
      case False
      with assms(4) ev None max have "r = None" "c' = c1"
        by (auto simp: ensure_capacity_def Let_def full_def [symmetric])
      moreover have "unat (mc_current_memory_mb c) + unat needed \<le> unat (mc_max_memory_mb c)"
        using False assms(2) by (simp add: not_less word_le_nat_alt unat_word_ariths)
      ultimately show ?thesis using s room [OF None] le by auto
    qed
  qed
qed

lemma length_hm_insert_fresh: "hm_get m k = None \<Longrightarrow> length (hm_insert k v m) = length m + 1"
  by (induction m) (auto split: if_splits)

subsection \<open>Properties\<close>

text \<open>C28: Take a cache in order, whose booked memory is the sum over its models and keeps the limit, and whose number of models keeps its limit, a model that is not in it, and an estimate of that model's memory whose sum with the limit does not overflow 32 bits of megabytes. Inserting the model keeps the cache in order and within both limits; on success the model is in the cache, as it was given; and whatever happens no model in use is evicted or changed.\<close>

theorem cache_insert_keeps_limits:
  assumes "accounted c" and "unat (mc_current_memory_mb c) \<le> unat (mc_max_memory_mb c)"
    and "length (mc_models c) \<le> mc_max_models c"
    and "\<not> is_loaded (mi_id (lm_info m)) c" and "unat (mc_max_memory_mb c) + model_mb m < 2 ^ 32"
    and "cache_insert m c = (r, c')"
  shows "accounted c' \<and> unat (mc_current_memory_mb c') \<le> unat (mc_max_memory_mb c') \<and>
    length (mc_models c') \<le> mc_max_models c' \<and>
    mc_max_memory_mb c' = mc_max_memory_mb c \<and> mc_max_models c' = mc_max_models c \<and> in_use_kept c c' \<and>
    (r = None \<longrightarrow> hm_get (mc_models c') (mi_id (lm_info m)) = Some m)"
proof -
  let ?id = "mi_id (lm_info m)" and ?need = "estimate_ram_mb (lm_info m)"
  obtain x c1 where cap: "ensure_capacity ?need c = (x, c1)" by fastforce
  have e: "shrinks c c1 \<and> (x = None \<longrightarrow> length (mc_models c1) < mc_max_models c \<and>
      unat (mc_current_memory_mb c1) + unat ?need \<le> unat (mc_max_memory_mb c))"
    by (rule ensure_capacity_shrinks [OF assms(1) _ assms(3) cap]) (use assms(2,5) in auto)
  then have s: "shrinks c c1" ..
  show ?thesis
  proof (cases x)
    case (Some err)
    with assms(6) cap have "r = Some err" "c' = c1" by (simp_all add: cache_insert_def)
    with s assms(2,3) show ?thesis by (auto simp: shrinks_def)
  next
    case None
    have fresh: "hm_get (mc_models c1) ?id = None"
      using s assms(4) by (auto simp: shrinks_def is_loaded_def map_le_def dom_def)
    have c': "r = None" "c' = c1\<lparr>mc_models := hm_insert ?id m (mc_models c1),
        mc_current_memory_mb := mc_current_memory_mb c1 + ?need\<rparr>"
      using assms(6) cap None by (simp_all add: cache_insert_def)
    have "unat (mc_current_memory_mb c1 + ?need) = unat (mc_current_memory_mb c1) + unat ?need"
      using e None assms(5) by (intro unat_plus_simple [THEN iffD1]) (simp add: word_le_nat_alt unat_word_ariths)
    with s e None fresh show ?thesis
      by (auto simp: c' accounted_def shrinks_def in_use_kept_def is_loaded_def hm_sum_insert_fresh length_hm_insert_fresh)
  qed
qed

text \<open>Without the bound on the sum the limit is lost: the estimate of a model with a huge number of parameters in its name saturates at 2^32 - 1, the sum wraps, and the model goes into a cache whose booked memory then falls by one.\<close>

theorem huge_model_bypasses_limit:
  assumes "model_mb m = 2 ^ 32 - 1" and "0 < mc_current_memory_mb c" and "mc_current_memory_mb c \<le> mc_max_memory_mb c"
    and "length (mc_models c) < mc_max_models c"
  shows "\<exists>c'. cache_insert m c = (None, c') \<and> hm_get (mc_models c') (mi_id (lm_info m)) = Some m \<and>
    mc_current_memory_mb c' = mc_current_memory_mb c - 1"
proof -
  let ?need = "estimate_ram_mb (lm_info m)"
  have "?need = - 1" using assms(1) by (intro word_unat_eq_iff [THEN iffD2]) (simp add: unsigned_minus_1_eq_mask mask_eq_exp_minus_1)
  moreover have "\<not> mc_max_memory_mb c < mc_current_memory_mb c - 1"
    using assms(2,3) by (simp add: not_less word_le_nat_alt unat_minus_one word_gt_0)
  ultimately show ?thesis
    using assms(4) by (simp add: cache_insert_def ensure_capacity_def Let_def)
qed

text \<open>A model that is loaded by the beginning of its name is booked again every time: the name is not found among the loaded models, the full name is inserted over itself, and the memory grows by the model's although the cache holds the same models.\<close>

theorem loading_by_prefix_books_twice:
  assumes "accounted c" and "registry_get r name = Some info" and "name \<noteq> mi_id info"
    and "is_loaded (mi_id info) c" and "\<not> is_loaded name c" and "length (mc_models c) < mc_max_models c"
    and "unat (mc_current_memory_mb c) + unat (estimate_ram_mb info) \<le> unat (mc_max_memory_mb c)"
  shows "\<exists>c'. load_model now name r c = (None, c') \<and>
    loaded_models c' = loaded_models c \<and> \<not> is_loaded name c' \<and>
    unat (mc_current_memory_mb c') = unat (mc_current_memory_mb c) + unat (estimate_ram_mb info)"
proof -
  let ?m = "\<lparr>lm_info = info, lm_loaded_at = now, lm_last_used = now, lm_ref_count = 0\<rparr>"
  let ?need = "estimate_ram_mb info"
  have "unat (mc_current_memory_mb c) + unat ?need < 2 ^ 32"
    using assms(7) unsigned_less [of "mc_max_memory_mb c", where ?'a = nat] by simp
  then have sum: "unat (mc_current_memory_mb c + ?need) = unat (mc_current_memory_mb c) + unat ?need"
    by (simp add: unat_word_ariths)
  then have "\<not> mc_max_memory_mb c < mc_current_memory_mb c + ?need"
    using assms(7) by (simp add: word_less_nat_alt)
  then have "ensure_capacity ?need c = (None, c)"
    using assms(6) by (simp add: ensure_capacity_def Let_def)
  then have "load_model now name r c = (None, c\<lparr>mc_models := hm_insert (mi_id info) ?m (mc_models c),
      mc_current_memory_mb := mc_current_memory_mb c + ?need\<rparr>)"
    using assms(2,5) by (simp add: load_model_def cache_insert_def)
  moreover have "map fst (hm_insert (mi_id info) ?m (mc_models c)) = map fst (mc_models c)"
    using assms(4) by (simp add: is_loaded_def update_keys hm_get_None_iff image_iff)
  ultimately show ?thesis
    using assms(3,5) sum by (simp add: loaded_models_def is_loaded_def)
qed

subsection \<open>A cache with one model\<close>

definition small_model :: model_info where
  "small_model = model_from_path (Some ''llama-3b-q4_k_m'') ''/models/llama-3b-q4_k_m.gguf'' 2000000000"

definition small_cache :: model_cache where
  "small_cache =
     \<lparr>mc_models = [(''llama-3b-q4_k_m'', \<lparr>lm_info = small_model, lm_loaded_at = 0, lm_last_used = 0, lm_ref_count = 1\<rparr>)],
      mc_max_models = 3, mc_max_memory_mb = 16000, mc_current_memory_mb = 2500\<rparr>"

lemma small_model_facts:
  "mi_id small_model = ''llama-3b-q4_k_m''" "estimate_ram_mb small_model = 2500"
  by code_simp+

text \<open>A file whose name says nine million billion parameters.\<close>

definition huge_model :: model_info where
  "huge_model = model_from_path (Some ''x-9000000b'') ''/models/x-9000000b.gguf'' 2000000000"

lemma huge_model_facts: "mi_id huge_model = ''x-9000000b''" "estimate_ram_mb huge_model = - 1"
  by code_simp+

lemma small_cache_accounted: "accounted small_cache"
  by (simp add: accounted_def small_cache_def hm_wf_def small_model_facts)

lemma cache_insert_keeps_limits_witness:
  "let m = \<lparr>lm_info = small_model\<lparr>mi_id := ''other''\<rparr>, lm_loaded_at = 1, lm_last_used = 1, lm_ref_count = 0\<rparr>
   in case cache_insert m small_cache of
        (r, c') \<Rightarrow> r = None \<and> unat (mc_current_memory_mb c') \<le> 16000 \<and> in_use_kept small_cache c' \<and>
          hm_get (mc_models c') ''other'' = Some m"
proof -
  let ?m = "\<lparr>lm_info = small_model\<lparr>mi_id := ''other''\<rparr>, lm_loaded_at = 1, lm_last_used = 1, lm_ref_count = 0\<rparr>"
  have mb: "estimate_ram_mb (small_model\<lparr>mi_id := ''other''\<rparr>) = 2500"
    using small_model_facts(2) by (simp add: estimate_ram_mb_def)
  obtain r c' where r: "cache_insert ?m small_cache = (r, c')" by fastforce
  moreover from this mb have "r = None"
    by (auto simp: cache_insert_def ensure_capacity_def small_cache_def)
  ultimately show ?thesis
    using cache_insert_keeps_limits [OF small_cache_accounted, of ?m r c'] mb
    by (auto simp: small_cache_def is_loaded_def)
qed

lemma huge_model_bypasses_limit_witness:
  "let m = \<lparr>lm_info = huge_model, lm_loaded_at = 1, lm_last_used = 1, lm_ref_count = 0\<rparr>
   in \<exists>c'. cache_insert m small_cache = (None, c') \<and> hm_get (mc_models c') ''x-9000000b'' = Some m \<and>
        mc_current_memory_mb c' = 2499"
proof -
  let ?m = "\<lparr>lm_info = huge_model, lm_loaded_at = 1, lm_last_used = 1, lm_ref_count = 0\<rparr>"
  have "model_mb ?m = 2 ^ 32 - 1" by (simp add: huge_model_facts unsigned_minus_1_eq_mask mask_eq_exp_minus_1)
  from huge_model_bypasses_limit [OF this, of small_cache] show ?thesis
    by (simp add: small_cache_def huge_model_facts)
qed

lemma loading_by_prefix_books_twice_witness:
  "\<exists>c'. load_model 5 ''llama-3b'' [(''llama-3b-q4_k_m'', small_model)] small_cache = (None, c') \<and>
     loaded_models c' = [''llama-3b-q4_k_m''] \<and> unat (mc_current_memory_mb c') = 5000"
proof -
  have "registry_get [(''llama-3b-q4_k_m'', small_model)] ''llama-3b'' = Some small_model"
    by (simp add: registry_get_def small_model_facts)
  from loading_by_prefix_books_twice [OF small_cache_accounted this, of 5]
  show ?thesis by (auto simp: small_cache_def is_loaded_def small_model_facts loaded_models_def)
qed

end
