(* ===== verification/Wasm_Props.thy ===== *)
theory Wasm_Props
  imports Wasm
begin

section \<open>What the sandbox keeps of the host\<close>

subsection \<open>Fuel\<close>

definition meter_ok :: "fuel_meter \<Rightarrow> bool" where
  "meter_ok m \<longleftrightarrow> fm_consumed m \<le> fm_allocated m"

fun consume_all :: "u64 list \<Rightarrow> fuel_meter \<Rightarrow> nat \<times> fuel_meter" where
  "consume_all [] m = (0, m)"
| "consume_all (a # as) m =
     (let (ok, m) = consume_fuel a m; (n, m) = consume_all as m in ((if ok then unat a else 0) + n, m))"

lemma consume_ok:
  assumes "meter_ok m" "consume_fuel a m = (ok, m')"
  shows "meter_ok m' \<and> fm_allocated m' = fm_allocated m \<and>
    unat (fm_consumed m') = unat (fm_consumed m) + (if ok then unat a else 0)"
proof (cases "a \<le> remaining_fuel m")
  case True
  have "unat (fm_consumed m) + unat a \<le> unat (fm_allocated m)"
    using True assms(1) by (simp add: remaining_fuel_def meter_ok_def word_le_nat_alt)
  moreover from this have "unat (fm_consumed m + a) = unat (fm_consumed m) + unat a"
    using unsigned_less [of "fm_allocated m", where 'a = nat] by (intro unat_add_nowrap) linarith
  ultimately show ?thesis
    using assms(2) True by (auto simp: consume_fuel_def meter_ok_def word_le_nat_alt)
qed (use assms in \<open>auto simp: consume_fuel_def\<close>)

lemma consume_all_ok:
  "meter_ok m \<Longrightarrow> consume_all as m = (n, m') \<Longrightarrow>
    meter_ok m' \<and> fm_allocated m' = fm_allocated m \<and> unat (fm_consumed m') = unat (fm_consumed m) + n"
proof (induction as arbitrary: m n)
  case (Cons a as)
  obtain ok m1 where c: "consume_fuel a m = (ok, m1)" by fastforce
  obtain k m2 where r: "consume_all as m1 = (k, m2)" by fastforce
  show ?case
    using Cons.IH [of m1 k] consume_ok [OF Cons.prems(1) c] Cons.prems(2) c r by (auto simp: Let_def)
qed simp

text \<open>However much fuel is asked for and in whatever portions, a meter grants no more than was allocated; what it has left is the allocation without the portions it granted.\<close>

theorem fuel_never_exceeded:
  "let (granted, m) = consume_all amounts (fuel_meter_new c secs)
   in granted \<le> unat (fuel_for_timeout c secs) \<and>
      unat (remaining_fuel m) = unat (fuel_for_timeout c secs) - granted \<and>
      (fuel_exhausted m \<longleftrightarrow> granted = unat (fuel_for_timeout c secs))"
proof -
  obtain n m where r: "consume_all amounts (fuel_meter_new c secs) = (n, m)" by fastforce
  have ok: "meter_ok (fuel_meter_new c secs)" by (simp add: meter_ok_def fuel_meter_new_def)
  have "unat (fm_consumed m) = n" "fm_allocated m = fuel_for_timeout c secs" "meter_ok m"
    using consume_all_ok [OF ok r] by (simp_all add: fuel_meter_new_def)
  then show ?thesis
    using r by (auto simp: remaining_fuel_def fuel_exhausted_def meter_ok_def word_le_nat_alt
        simp flip: unat_eq_0)
qed

subsection \<open>Ranges of the memory\<close>

lemma unat_usize_nonneg:
  assumes "0 \<le> sint p"
  shows "unat (usize_of_i32 p) = nat (sint p)" "nat (sint p) < 2 ^ 31"
proof -
  have b: "sint p < 2 ^ 31"
    using sint_range_size [of p] by (simp add: word_size)
  then show "nat (sint p) < 2 ^ 31" using assms by simp
  have "usize_of_i32 p = word_of_int (sint p)"
    by (simp add: usize_of_i32_def)
  moreover have "unat (word_of_int k :: u64) = nat k" if "0 \<le> k" "k < 2 ^ 31" for k
    using that by (simp add: unsigned_of_int take_bit_int_eq_self)
  ultimately show "unat (usize_of_i32 p) = nat (sint p)"
    using assms b by metis
qed

text \<open>With a start and a length that are not negative, a range panics never.\<close>

lemma byte_range_nonneg:
  assumes "unat start < 2 ^ 32" "unat n < 2 ^ 32"
  shows "byte_range start n data =
    Ok (if unat start + unat n \<le> length data then Some (unat start, unat start + unat n) else None)"
proof -
  have "unat (start + n) = unat start + unat n" using assms by (simp add: unat_add_nowrap)
  then show ?thesis
    by (simp add: byte_range_def Let_def word_less_nat_alt)
qed

lemma put_bytes_same:
  "a + length bs \<le> length data \<Longrightarrow> length (put_bytes a bs data) = length data"
  by (simp add: put_bytes_def)

lemma put_bytes_outside:
  "a + length bs \<le> length data \<Longrightarrow> i < length data \<Longrightarrow> \<not> (a \<le> i \<and> i < a + length bs) \<Longrightarrow>
     put_bytes a bs data ! i = data ! i"
  by (auto simp: put_bytes_def nth_append min_def)

lemma put_bytes_inside:
  "a + length bs \<le> length data \<Longrightarrow> k < length bs \<Longrightarrow> put_bytes a bs data ! (a + k) = bs ! k"
  by (simp add: put_bytes_def nth_append min_def)

text \<open>The range of the memory a call names.\<close>

fun named_range :: "guest_call \<Rightarrow> int \<times> int" where
  "named_range (CallLog _ ptr len) = (sint ptr, sint ptr + sint len)"
| "named_range (CallRandom ptr len) = (sint ptr, sint ptr + sint len)"
| "named_range (CallInput ptr len) = (sint ptr, sint ptr + sint len)"
| "named_range (CallSetOutput ptr len) = (sint ptr, sint ptr + sint len)"
| "named_range _ = (0, 0)"

fun non_negative :: "guest_call \<Rightarrow> bool" where
  "non_negative (CallLog _ ptr len) = (0 \<le> sint ptr \<and> 0 \<le> sint len)"
| "non_negative (CallRandom ptr len) = (0 \<le> sint ptr \<and> 0 \<le> sint len)"
| "non_negative (CallInput ptr len) = (0 \<le> sint ptr \<and> 0 \<le> sint len)"
| "non_negative (CallSetOutput ptr len) = (0 \<le> sint ptr \<and> 0 \<le> sint len)"
| "non_negative _ = True"

text \<open>What a call may change: the bytes it names, and not the size of the memory.\<close>

definition memory_confined :: "int \<times> int \<Rightarrow> string option \<Rightarrow> string option \<Rightarrow> bool" where
  "memory_confined r before after =
     (case (before, after) of
        (Some d, Some d') \<Rightarrow>
          length d' = length d \<and> (\<forall>i < length d. fst r \<le> int i \<and> int i < snd r \<or> d' ! i = d ! i)
      | (None, None) \<Rightarrow> True
      | _ \<Rightarrow> False)"

lemma memory_confined_refl [simp]: "memory_confined r m m"
  by (simp add: memory_confined_def split: option.splits)

lemma memory_confined_put:
  assumes "a + length bs \<le> length d" "fst r \<le> int a" "int (a + length bs) \<le> snd r"
  shows "memory_confined r (Some d) (Some (put_bytes a bs d))"
proof -
  have "fst r \<le> int i \<and> int i < snd r \<or> put_bytes a bs d ! i = d ! i" if "i < length d" for i
    using put_bytes_outside [OF assms(1) that] assms(2,3) by (cases "a \<le> i \<and> i < a + length bs") auto
  then show ?thesis
    using assms(1) by (simp add: memory_confined_def put_bytes_same)
qed

text \<open>What no call changes.\<close>

definition host_kept :: "host_state \<Rightarrow> host_state \<Rightarrow> bool" where
  "host_kept s s' \<longleftrightarrow>
     hs_capabilities s' = hs_capabilities s \<and> hs_input_json s' = hs_input_json s \<and>
     (\<exists>new. hs_logs s' = hs_logs s @ new \<and> (new = [] \<or> hc_logging (hs_capabilities s)))"

lemma host_kept_refl [simp]: "host_kept s s"
  by (simp add: host_kept_def)

lemma host_kept_log [simp]: "host_kept s (state_log now l m s)"
  by (simp add: host_kept_def state_log_def)

lemma host_kept_output [simp]: "host_kept s (s\<lparr>hs_output_json := x\<rparr>)"
  by (simp add: host_kept_def)

lemma host_kept_trans: "host_kept s t \<Longrightarrow> host_kept t u \<Longrightarrow> host_kept s u"
  by (auto simp: host_kept_def)

text \<open>The good case of every host function, over the range as natural numbers.\<close>

lemma range_of_call:
  assumes "0 \<le> sint ptr" "0 \<le> sint len"
  shows "byte_range (usize_of_i32 ptr) (usize_of_i32 len) data =
    Ok (if nat (sint ptr) + nat (sint len) \<le> length data
        then Some (nat (sint ptr), nat (sint ptr) + nat (sint len)) else None)"
  using unat_usize_nonneg [OF assms(1)] unat_usize_nonneg [OF assms(2)]
  by (subst byte_range_nonneg) auto

lemma range_of_copy:
  assumes "0 \<le> sint ptr" "0 \<le> sint len"
  shows "byte_range (usize_of_i32 ptr) (word_of_nat (min (unat (usize_of_i32 len)) k)) data =
    Ok (if nat (sint ptr) + min (nat (sint len)) k \<le> length data
        then Some (nat (sint ptr), nat (sint ptr) + min (nat (sint len)) k) else None)"
proof -
  have "unat (word_of_nat (min (nat (sint len)) k) :: u64) = min (nat (sint len)) k"
    using unat_usize_nonneg(2) [OF assms(2)] by (simp add: unsigned_of_nat take_bit_nat_eq_self)
  then show ?thesis
    using unat_usize_nonneg [OF assms(1)] unat_usize_nonneg [OF assms(2)]
    by (subst byte_range_nonneg) (auto simp: min_def)
qed

lemma host_call_keeps:
  assumes "non_negative call"
  shows "\<exists>v w'. host_call e call w = Ok (v, w') \<and>
    memory_confined (named_range call) (hw_memory w) (hw_memory w') \<and>
    host_kept (hw_state w) (hw_state w') \<and>
    ((\<exists>p n. call = CallRandom p n) \<and> hw_memory w' \<noteq> hw_memory w \<longrightarrow>
       hc_random_access (hs_capabilities (hw_state w)))"
proof (cases call)
  case (CallLog level ptr len)
  then show ?thesis
    using assms range_of_call [of ptr len]
    by (auto simp: host_log_def Let_def split: option.splits if_splits)
next
  case CallTimeNow
  then show ?thesis by simp
next
  case (CallRandom ptr len)
  then show ?thesis
    using assms range_of_call [of ptr len]
    by (auto simp: host_random_def split: option.splits if_splits intro!: memory_confined_put)
next
  case CallInputLen
  then show ?thesis by simp
next
  case (CallInput ptr len)
  then show ?thesis
    using assms range_of_copy [of ptr len] unat_usize_nonneg [of len]
    by (auto simp: host_get_input_def Let_def split: option.splits if_splits intro!: memory_confined_put)
next
  case (CallSetOutput ptr len)
  then show ?thesis
    using assms range_of_call [of ptr len]
    by (auto simp: host_set_output_def Let_def split: option.splits if_splits)
qed

text \<open>C30: A host function called with a pointer and a length that are not negative returns (it neither panics nor fails), changes no byte of the module's memory outside the range it was given, nor the size of the memory, and leaves the capabilities and the input as they are; the log grows only where logging is granted, and random bytes are written only where they are.\<close>

theorem host_call_confined:
  assumes "non_negative call"
  shows "\<exists>v w'. host_call e call w = Ok (v, w') \<and>
    memory_confined (named_range call) (hw_memory w) (hw_memory w') \<and>
    host_kept (hw_state w) (hw_state w') \<and>
    ((\<exists>p n. call = CallRandom p n) \<and> hw_memory w' \<noteq> hw_memory w \<longrightarrow>
       hc_random_access (hs_capabilities (hw_state w)))"
  by (rule host_call_keeps [OF assms])

definition demo_host :: host_env where
  "demo_host = \<lparr>he_now = 5, he_random = (\<lambda>_. CHR ''x'')\<rparr>"

definition demo_world :: "host_capabilities \<Rightarrow> host_world" where
  "demo_world caps = \<lparr>hw_state = host_state_new caps, hw_memory = Some ''abcdef''\<rparr>"

theorem host_call_confined_witness:
  "host_call demo_host (CallRandom 2 3) (demo_world host_capabilities_minimal) =
     Ok (I32 0, (demo_world host_capabilities_minimal)\<lparr>hw_memory := Some ''abxxxf''\<rparr>) \<and>
   memory_confined (2, 5) (Some ''abcdef'') (Some ''abxxxf'')"
proof -
  have r: "host_call demo_host (CallRandom 2 3) (demo_world host_capabilities_minimal) =
     Ok (I32 0, (demo_world host_capabilities_minimal)\<lparr>hw_memory := Some ''abxxxf''\<rparr>)"
    by code_simp
  have "non_negative (CallRandom 2 3)" by simp
  from host_call_confined [OF this, of demo_host "demo_world host_capabilities_minimal"] r
  show ?thesis by (auto simp: demo_world_def)
qed

subsection \<open>Negative pointers\<close>

lemma byte_range_minus_one:
  "byte_range (usize_of_i32 (- 1)) (usize_of_i32 1) data = Panic"
proof -
  have "usize_of_i32 (- 1) = - 1" "usize_of_i32 1 = 1" by (simp_all add: usize_of_i32_def)
  then show ?thesis by (simp add: byte_range_def word_less_nat_alt unsigned_minus_1_eq_mask mask_eq_exp_minus_1)
qed

text \<open>A module that passes the pointer -1 and the length 1 to the host's log, to its output or, with random access, to its random generator makes the host panic, and with it the task that runs the module, whatever the capabilities and however large the module's memory: the end of the range wraps to 0, inside the memory, and the slice starts behind it.\<close>

theorem negative_pointer_panics:
  assumes "cm_link_error m = None" "cm_function m f = Some 0" "cm_memory m = Some data"
    and "cm_run m f (jc_text j params) = HostCall e call # rest"
    and "call \<in> {CallLog level (- 1) 1, CallSetOutput (- 1) 1} \<or>
      call = CallRandom (- 1) 1 \<and> hc_random_access caps"
  shows "sandbox_execute j cfg m f params caps = Panic"
proof -
  have "host_call e call \<lparr>hw_state = (host_state_new caps)\<lparr>hs_input_json := Some (jc_text j params)\<rparr>,
      hw_memory = Some data\<rparr> = Panic"
    using assms(5) byte_range_minus_one
    by (auto simp: host_log_def host_set_output_def host_random_def host_state_new_def)
  then show ?thesis
    using assms(1-4) by (simp add: sandbox_execute_def Let_def)
qed

definition demo_module :: "guest_op list \<Rightarrow> compiled_module" where
  "demo_module ops =
     \<lparr>cm_link_error = None, cm_memory = Some ''abcdef'', cm_function = (\<lambda>f. if f = ''run'' then Some 0 else None),
      cm_run = (\<lambda>_ _. ops), cm_end = (\<lambda>_ _. Inr (Some 42)), cm_fuel_left = (\<lambda>_ _ n. n - 7)\<rparr>"

definition demo_json :: json_codec where
  "demo_json = \<lparr>jc_text = (\<lambda>_. ''{}''), jc_parse = (\<lambda>_. None)\<rparr>"

theorem negative_pointer_panics_witness:
  "sandbox_execute demo_json sandbox_config_default (demo_module [HostCall demo_host (CallSetOutput (- 1) 1)])
     ''run'' JNull host_capabilities_default = Panic"
  by (rule negative_pointer_panics [where data = "''abcdef''" and e = demo_host and rest = "[]"
        and call = "CallSetOutput (- 1) 1"])
    (simp_all add: demo_module_def)

subsection \<open>Whole runs\<close>

fun op_non_negative :: "guest_op \<Rightarrow> bool" where
  "op_non_negative (HostCall _ c) = non_negative c"
| "op_non_negative (GuestWork _) = True"

lemma run_guest_contained:
  "list_all op_non_negative ops \<Longrightarrow> \<exists>w'. run_guest ops w = Ok w' \<and> host_kept (hw_state w) (hw_state w')"
proof (induction ops w rule: run_guest.induct)
  case (2 e c ops w)
  obtain v w1 where "host_call e c w = Ok (v, w1)" "host_kept (hw_state w) (hw_state w1)"
    using host_call_keeps [of c e w] 2(2) by auto
  then show ?case
    using 2(1) [of "(v, w1)" v w1] 2(2) by (auto intro: host_kept_trans)
qed auto

text \<open>The bytes of a memory that a pointer and a length name, when they lie inside it.\<close>

definition bytes_named :: "i32 \<Rightarrow> i32 \<Rightarrow> string \<Rightarrow> string option" where
  "bytes_named ptr len data =
     (if sint ptr + sint len \<le> int (length data)
      then Some (map (\<lambda>i. data ! (nat (sint ptr) + i)) [0..<nat (sint len)]) else None)"

text \<open>Nothing that sets the output.\<close>

fun no_output :: "guest_op \<Rightarrow> bool" where
  "no_output (HostCall _ (CallSetOutput _ _)) = False"
| "no_output _ = True"

lemma run_guest_append:
  "run_guest (xs @ ys) w = (case run_guest xs w of Ok w \<Rightarrow> run_guest ys w | Err x \<Rightarrow> Err x | Panic \<Rightarrow> Panic)"
  by (induction xs w rule: run_guest.induct) (auto split: outcome.splits)

lemma host_call_output:
  "host_call e c w = Ok (v, w') \<Longrightarrow> no_output (HostCall e c) \<Longrightarrow>
     hs_output_json (hw_state w') = hs_output_json (hw_state w)"
  by (cases c)
    (auto simp: host_log_def host_random_def host_get_input_def state_log_def Let_def
      split: option.splits outcome.splits if_splits)

lemma host_call_has_memory:
  "host_call e c w = Ok (v, w') \<Longrightarrow> hw_memory w' = None \<longleftrightarrow> hw_memory w = None"
  by (cases c)
    (auto simp: host_log_def host_random_def host_get_input_def host_set_output_def Let_def
      split: option.splits outcome.splits if_splits)

lemma run_guest_no_output:
  "run_guest ops w = Ok w' \<Longrightarrow> list_all no_output ops \<Longrightarrow> hs_output_json (hw_state w') = hs_output_json (hw_state w)"
proof (induction ops w rule: run_guest.induct)
  case (2 e c ops w)
  then show ?case by (auto split: outcome.splits dest: host_call_output)
qed auto

lemma run_guest_has_memory: "run_guest ops w = Ok w' \<Longrightarrow> hw_memory w' = None \<longleftrightarrow> hw_memory w = None"
proof (induction ops w rule: run_guest.induct)
  case (2 e c ops w)
  then show ?case by (auto split: outcome.splits simp: host_call_has_memory)
qed auto

lemma bytes_at_named:
  assumes "0 \<le> sint ptr" "0 \<le> sint len" "nat (sint ptr) + nat (sint len) \<le> length data"
  shows "bytes_named ptr len data = Some (bytes_at (nat (sint ptr), nat (sint ptr) + nat (sint len)) data)"
proof -
  have "sint ptr + sint len \<le> int (length data)" using assms by linarith
  then show ?thesis
    using assms by (auto simp: bytes_named_def bytes_at_def intro!: nth_equalityI)
qed

lemma set_output_named:
  assumes "0 \<le> sint ptr" "0 \<le> sint len" "hw_memory w = Some data" "bytes_named ptr len data = Some text" "utf8_valid text"
  shows "host_call e (CallSetOutput ptr len) w = Ok (NoValue, w\<lparr>hw_state := (hw_state w)\<lparr>hs_output_json := Some text\<rparr>\<rparr>)"
proof -
  have in': "nat (sint ptr) + nat (sint len) \<le> length data"
    using assms(1,2,4) by (auto simp: bytes_named_def split: if_splits)
  then have "text = bytes_at (nat (sint ptr), nat (sint ptr) + nat (sint len)) data"
    using bytes_at_named [OF assms(1,2) in'] assms(4) by simp
  then show ?thesis
    using assms(3,5) in' range_of_call [OF assms(1,2)] by (simp add: host_set_output_def)
qed

text \<open>The input a module asks for with room for all of it is what it then finds in its memory.\<close>

lemma get_input_named:
  assumes "0 \<le> sint ptr" "hw_memory w = Some data" "hs_input_json (hw_state w) = Some input"
    and "sint len = int (length input)" "sint ptr + sint len \<le> int (length data)"
  shows "\<exists>v data'. host_call e (CallInput ptr len) w = Ok (v, w\<lparr>hw_memory := Some data'\<rparr>) \<and>
    bytes_named ptr len data' = Some input"
proof -
  have n: "nat (sint len) = length input" "0 \<le> sint len" using assms(4) by simp_all
  have fits: "nat (sint ptr) + length input \<le> length data" using assms(1,4,5) by linarith
  let ?d = "put_bytes (nat (sint ptr)) input data"
  have "host_call e (CallInput ptr len) w = Ok (I32 (word_of_nat (length input)), w\<lparr>hw_memory := Some ?d\<rparr>)"
    using assms(2,3) fits n range_of_copy [OF assms(1) n(2), of "length input" data] unat_usize_nonneg [OF n(2)]
    by (simp add: host_get_input_def)
  moreover have "bytes_named ptr len ?d = Some input"
    using assms(5) fits by (auto simp: bytes_named_def put_bytes_same n(1) put_bytes_inside intro!: nth_equalityI)
  ultimately show ?thesis by blast
qed

lemma sandbox_execute_runs:
  assumes "cm_link_error m = None" "cm_function m f = Some 0" "cm_end m f (jc_text j params) = Inr ret"
    and "run_guest (cm_run m f (jc_text j params))
      \<lparr>hw_state = (host_state_new caps)\<lparr>hs_input_json := Some (jc_text j params)\<rparr>, hw_memory = cm_memory m\<rparr> = Ok w"
  shows "\<exists>r. sandbox_execute j cfg m f params caps = Ok r \<and> wr_value r = wasm_value j (hs_output_json (hw_state w)) ret"
  using assms by (simp add: sandbox_execute_def)

text \<open>C31: A module that links, exports the function without parameters and a memory, names no negative pointer or length in its calls of the host and ends without a trap is answered with its output. Whatever else it does: when the last of its calls that pass an output names a piece of the memory as it has just written it, which lies inside and is UTF-8 text, the value is what those bytes say as JSON, or the text itself when they are no JSON; when it makes no such call, the value is its return code (0 if it has none). And its input reaches it unchanged: a module that asks for its input with room for all of it and then passes the same piece of memory as its last output answers with the text of its parameters, read as JSON or as it stands.\<close>

theorem sandbox_run_contained:
  assumes "cm_link_error m = None" and "cm_function m f = Some 0" and "cm_memory m \<noteq> None"
    and "cm_run m f (jc_text j params) = ops" and "list_all op_non_negative ops"
    and "cm_end m f (jc_text j params) = Inr ret"
  shows "(\<forall>before data e ptr len after text.
      ops = before @ [GuestWork data, HostCall e (CallSetOutput ptr len)] @ after \<and> list_all no_output after \<and>
      bytes_named ptr len data = Some text \<and> utf8_valid text \<longrightarrow>
      (\<exists>r. sandbox_execute j cfg m f params caps = Ok r \<and>
        (case jc_parse j text of Some v \<Rightarrow> wr_value r = v | None \<Rightarrow> wr_value r = JString text))) \<and>
    (list_all no_output ops \<longrightarrow>
      (\<exists>r. sandbox_execute j cfg m f params caps = Ok r \<and>
        wr_value r = json_object [(''return_code'', JInt (case ret of Some n \<Rightarrow> sint n | None \<Rightarrow> 0))])) \<and>
    (\<forall>before data e e' ptr len after.
      ops = before @ [GuestWork data, HostCall e (CallInput ptr len), HostCall e' (CallSetOutput ptr len)] @ after \<and>
      list_all no_output after \<and> sint len = int (length (jc_text j params)) \<and>
      sint ptr + sint len \<le> int (length data) \<and> utf8_valid (jc_text j params) \<longrightarrow>
      (\<exists>r. sandbox_execute j cfg m f params caps = Ok r \<and>
        (case jc_parse j (jc_text j params) of Some v \<Rightarrow> wr_value r = v | None \<Rightarrow> wr_value r = JString (jc_text j params))))"
proof -
  let ?input = "jc_text j params"
  let ?w0 = "\<lparr>hw_state = (host_state_new caps)\<lparr>hs_input_json := Some ?input\<rparr>, hw_memory = cm_memory m\<rparr>"
  have prefix: "\<exists>w. run_guest xs ?w0 = Ok w \<and> hs_input_json (hw_state w) = Some ?input \<and> hw_memory w \<noteq> None"
    if nn: "list_all op_non_negative xs" for xs
  proof -
    obtain w where w: "run_guest xs ?w0 = Ok w" "host_kept (hw_state ?w0) (hw_state w)"
      using run_guest_contained [OF nn, of ?w0] by blast
    then show ?thesis
      using run_guest_has_memory [OF w(1)] assms(3) by (simp add: host_kept_def)
  qed
  note answer = sandbox_execute_runs [OF assms(1,2,6), where caps = caps and cfg = cfg, unfolded assms(4)]
  have said: "\<exists>r. sandbox_execute j cfg m f params caps = Ok r \<and>
      (case jc_parse j text of Some v \<Rightarrow> wr_value r = v | None \<Rightarrow> wr_value r = JString text)"
    if s: "run_guest ops ?w0 = Ok w" "hs_output_json (hw_state w) = Some text" for w "text"
    using answer [OF s(1)] s(2) by (auto simp: wasm_value_def split: option.split)
  have tail: "\<exists>w'. run_guest (HostCall e (CallSetOutput ptr len) # after) w = Ok w' \<and> hs_output_json (hw_state w') = Some text"
    if t: "list_all op_non_negative (HostCall e (CallSetOutput ptr len) # after)" "list_all no_output after"
      "hw_memory w = Some data" "bytes_named ptr len data = Some text" "utf8_valid text" for e ptr len "after" w data "text"
  proof -
    let ?w1 = "w\<lparr>hw_state := (hw_state w)\<lparr>hs_output_json := Some text\<rparr>\<rparr>"
    have "host_call e (CallSetOutput ptr len) w = Ok (NoValue, ?w1)"
      using t by (intro set_output_named [where data = data]) auto
    moreover obtain w' where "run_guest after ?w1 = Ok w'"
      using run_guest_contained [of "after" ?w1] t(1) by auto
    ultimately show ?thesis using run_guest_no_output [OF _ t(2)] by fastforce
  qed
  have one: "\<exists>r. sandbox_execute j cfg m f params caps = Ok r \<and>
      (case jc_parse j text of Some v \<Rightarrow> wr_value r = v | None \<Rightarrow> wr_value r = JString text)"
    if o: "ops = before @ [GuestWork data, HostCall e (CallSetOutput ptr len)] @ after" "list_all no_output after"
      "bytes_named ptr len data = Some text" "utf8_valid text" for before data e ptr len "after" "text"
  proof -
    obtain w where w: "run_guest before ?w0 = Ok w" "hw_memory w \<noteq> None" using prefix [of before] assms(5) o(1) by auto
    then have "hw_memory (w\<lparr>hw_memory := map_option (\<lambda>_. data) (hw_memory w)\<rparr>) = Some data" by auto
    from tail [OF _ o(2) this o(3,4), of e] assms(5) o(1) w(1) said show ?thesis
      by (auto simp: run_guest_append)
  qed
  have two: "\<exists>r. sandbox_execute j cfg m f params caps = Ok r \<and>
        wr_value r = json_object [(''return_code'', JInt (case ret of Some n \<Rightarrow> sint n | None \<Rightarrow> 0))]"
    if none: "list_all no_output ops"
  proof -
    obtain w where w: "run_guest ops ?w0 = Ok w" using prefix [OF assms(5)] by blast
    have "hs_output_json (hw_state w) = None"
      using run_guest_no_output [OF w none] by (simp add: host_state_new_def)
    with answer [OF w] show ?thesis by (simp add: wasm_value_def)
  qed
  have three: "\<exists>r. sandbox_execute j cfg m f params caps = Ok r \<and>
        (case jc_parse j ?input of Some v \<Rightarrow> wr_value r = v | None \<Rightarrow> wr_value r = JString ?input)"
    if o: "ops = before @ [GuestWork data, HostCall e (CallInput ptr len), HostCall e' (CallSetOutput ptr len)] @ after"
      "list_all no_output after" "sint len = int (length ?input)" "sint ptr + sint len \<le> int (length data)"
      "utf8_valid ?input" for before data e e' ptr len "after"
  proof -
    obtain w where w: "run_guest before ?w0 = Ok w" "hs_input_json (hw_state w) = Some ?input" "hw_memory w \<noteq> None"
      using prefix [of before] assms(5) o(1) by auto
    let ?w = "w\<lparr>hw_memory := map_option (\<lambda>_. data) (hw_memory w)\<rparr>"
    have d: "hw_memory ?w = Some data" "hs_input_json (hw_state ?w) = Some ?input" using w by auto
    have "0 \<le> sint ptr" using assms(5) o(1) by simp
    from get_input_named [OF this d o(3,4)] obtain v data' where
      g: "host_call e (CallInput ptr len) ?w = Ok (v, ?w\<lparr>hw_memory := Some data'\<rparr>)" "bytes_named ptr len data' = Some ?input"
      by blast
    have "hw_memory (?w\<lparr>hw_memory := Some data'\<rparr>) = Some data'" by simp
    from tail [OF _ o(2) this g(2) o(5), of e'] assms(5) o(1) w(1) g(1) said show ?thesis
      by (auto simp: run_guest_append)
  qed
  show ?thesis using one two three by blast
qed

text \<open>A module that writes, reads its two bytes of input back and passes them on, after an output it revokes.\<close>

definition echo_ops :: "guest_op list" where
  "echo_ops =
     [HostCall demo_host (CallSetOutput 3 2), GuestWork ''uvwxyz'', HostCall demo_host (CallInput 1 2),
      HostCall demo_host (CallSetOutput 1 2)]"

theorem sandbox_run_contained_witness:
  "\<exists>r. sandbox_execute demo_json sandbox_config_default (demo_module echo_ops) ''run'' JNull host_capabilities_default = Ok r \<and>
     wr_value r = JString ''{}''"
proof -
  let ?m = "demo_module echo_ops"
  have m: "cm_link_error ?m = None" "cm_function ?m ''run'' = Some 0" "cm_memory ?m \<noteq> None"
    "cm_run ?m ''run'' (jc_text demo_json JNull) = echo_ops"
    "cm_end ?m ''run'' (jc_text demo_json JNull) = Inr (Some 42)"
    by (simp_all add: demo_module_def)
  have ok: "list_all op_non_negative echo_ops" by (simp add: echo_ops_def)
  have "echo_ops = [HostCall demo_host (CallSetOutput 3 2)] @
      [GuestWork ''uvwxyz'', HostCall demo_host (CallInput 1 2), HostCall demo_host (CallSetOutput 1 2)] @ []"
    by (simp add: echo_ops_def)
  moreover have "utf8_valid (jc_text demo_json JNull)" "sint (2 :: i32) = int (length (jc_text demo_json JNull))"
    "sint (1 :: i32) + sint (2 :: i32) \<le> int (length ''uvwxyz'')"
    by code_simp+
  moreover note sandbox_run_contained [OF m(1-4) ok m(5), THEN conjunct2, THEN conjunct2, rule_format,
      of "[HostCall demo_host (CallSetOutput 3 2)]" "''uvwxyz''" demo_host 1 2 demo_host "[]" sandbox_config_default
      host_capabilities_default]
  ultimately show ?thesis by (simp add: demo_json_def)
qed

end
