(* ===== verification/Proxy.thy ===== *)
theory Proxy
  imports Pricing Text
begin

section \<open>The HTTP 402 proxy\<close>

text \<open>
  Models \<^verbatim>\<open>src/proxy/{pricing,payment,mod}.rs\<close>: the price of a request, the payment a request
  carries and its check, the free tier and the rate limit, and the handler that puts them together, section by section, and the
  server that runs many handlers at once.
  The web framework is left out: a request is its method, its path and its headers, a header being
  \<open>None\<close> when its value is not visible ASCII text. Money as text with six decimals is a parameter.
\<close>

subsection \<open>Prices\<close>

record endpoint_pricing =
  ep_pattern :: string
  ep_method :: string
  ep_price :: u64
  ep_description :: string

definition path_segments :: "string \<Rightarrow> string list" where
  "path_segments s = filter (\<lambda>w. w \<noteq> []) (split_on (\<lambda>c. c = CHR ''/'') s)"

fun match_segments :: "string list \<Rightarrow> string list \<Rightarrow> bool" where
  "match_segments [] xs = (xs = [])"
| "match_segments (p # ps) [] = False"
| "match_segments (p # ps) (x # xs) =
     (if p = ''**'' then
        (case ps of
           [] \<Rightarrow> True
         | q # _ \<Rightarrow> match_segments ps (dropWhile (\<lambda>y. \<not> (q = ''*'' \<or> q = y)) (x # xs)))
      else if p = ''*'' then match_segments ps xs
      else if p = x then match_segments ps xs
      else False)"

definition pattern_matches :: "endpoint_pricing \<Rightarrow> string \<Rightarrow> bool" where
  "pattern_matches e path \<longleftrightarrow>
     ep_pattern e = path \<or> ep_pattern e = ''**'' \<or>
     match_segments (path_segments (ep_pattern e)) (path_segments path)"

text \<open>The names of HTTP methods are ASCII.\<close>

definition endpoint_matches :: "endpoint_pricing \<Rightarrow> string \<Rightarrow> string \<Rightarrow> bool" where
  "endpoint_matches e path method' \<longleftrightarrow>
     (if ep_method e \<noteq> ''*'' \<and> ascii_upper (ep_method e) \<noteq> ascii_upper method' then False
      else pattern_matches e path)"

record proxy_pricing =
  pp_default_price :: u64
  pp_endpoints :: "endpoint_pricing list"
  pp_hourly_multipliers :: "(u8, f64) hmap"

definition proxy_pricing_default :: proxy_pricing where
  "proxy_pricing_default =
     \<lparr>pp_default_price = to_micro (f_lit 1 100),
      pp_endpoints =
        [\<lparr>ep_pattern = ''/api/v1/chat/**'', ep_method = ''POST'', ep_price = to_micro (f_lit 1 10),
          ep_description = ''Chat completion endpoint''\<rparr>,
         \<lparr>ep_pattern = ''/api/v1/completions'', ep_method = ''POST'', ep_price = to_micro (f_lit 1 10),
          ep_description = ''Text completion endpoint''\<rparr>,
         \<lparr>ep_pattern = ''/v1/chat/completions'', ep_method = ''POST'', ep_price = to_micro (f_lit 1 10),
          ep_description = ''OpenAI-compatible chat''\<rparr>,
         \<lparr>ep_pattern = ''/api/v1/embeddings'', ep_method = ''POST'', ep_price = to_micro (f_lit 2 100),
          ep_description = ''Embedding generation''\<rparr>,
         \<lparr>ep_pattern = ''/v1/embeddings'', ep_method = ''POST'', ep_price = to_micro (f_lit 2 100),
          ep_description = ''OpenAI-compatible embeddings''\<rparr>,
         \<lparr>ep_pattern = ''/api/v1/images/**'', ep_method = ''POST'', ep_price = to_micro (f_lit 5 10),
          ep_description = ''Image generation''\<rparr>,
         \<lparr>ep_pattern = ''/api/v1/models'', ep_method = ''GET'', ep_price = 0,
          ep_description = ''List available models''\<rparr>,
         \<lparr>ep_pattern = ''/v1/models'', ep_method = ''GET'', ep_price = 0,
          ep_description = ''OpenAI-compatible model list''\<rparr>,
         \<lparr>ep_pattern = ''/health'', ep_method = ''*'', ep_price = 0, ep_description = ''Health check''\<rparr>,
         \<lparr>ep_pattern = ''/'', ep_method = ''GET'', ep_price = 0, ep_description = ''Index page''\<rparr>],
      pp_hourly_multipliers = []\<rparr>"

text \<open>Times of the proxy are seconds since the epoch.\<close>

definition hourly_multiplier :: "int \<Rightarrow> proxy_pricing \<Rightarrow> f64" where
  "hourly_multiplier now p =
     (if pp_hourly_multipliers p = [] then f_of_int 1
      else hm_get_or (f_of_int 1) (pp_hourly_multipliers p) (word_of_int (now div 3600 mod 24)))"

definition pricing_price :: "int \<Rightarrow> proxy_pricing \<Rightarrow> string \<Rightarrow> string \<Rightarrow> u64" where
  "pricing_price now p path method' =
     (case find (\<lambda>e. endpoint_matches e path method') (pp_endpoints p) of
        Some e \<Rightarrow> f_to_u64 (f_mul (f_of_u64 (ep_price e)) (hourly_multiplier now p))
      | None \<Rightarrow> pp_default_price p)"

definition add_endpoint :: "endpoint_pricing \<Rightarrow> proxy_pricing \<Rightarrow> proxy_pricing" where
  "add_endpoint e p = p\<lparr>pp_endpoints := e # pp_endpoints p\<rparr>"

definition set_hourly_multiplier :: "u8 \<Rightarrow> f64 \<Rightarrow> proxy_pricing \<Rightarrow> proxy_pricing" where
  "set_hourly_multiplier h m p = p\<lparr>pp_hourly_multipliers := hm_insert h m (pp_hourly_multipliers p)\<rparr>"

subsection \<open>Payments\<close>

datatype payment_method =
    Direct string u64 string \<comment> \<open>proof id, amount, signature\<close>
  | ChannelPayment string u64 u64 string \<comment> \<open>channel id, nonce, amount, signature\<close>
  | Prepaid string string \<comment> \<open>account id, API key\<close>

record payment_proof =
  pf_method :: payment_method
  pf_timestamp :: u64

definition colon_parts :: "string \<Rightarrow> string list" where
  "colon_parts s = split_on (\<lambda>c. c = CHR '':'') s"

definition parse_proof :: "int \<Rightarrow> string \<Rightarrow> payment_proof option" where
  "parse_proof now s =
     (case colon_parts s of
        kind # proof_id # amount # signature # _ \<Rightarrow>
          if kind \<noteq> ''direct'' then None
          else
            (case parse_uint amount of
               None \<Rightarrow> None
             | Some a \<Rightarrow> Some \<lparr>pf_method = Direct proof_id a signature, pf_timestamp = word_of_int now\<rparr>)
      | _ \<Rightarrow> None)"

definition parse_channel_payment :: "int \<Rightarrow> string \<Rightarrow> payment_proof option" where
  "parse_channel_payment now s =
     (case colon_parts s of
        channel_id # nonce # amount # signature # _ \<Rightarrow>
          (case (parse_uint nonce, parse_uint amount) of
             (Some n, Some a) \<Rightarrow>
               Some \<lparr>pf_method = ChannelPayment channel_id n a signature, pf_timestamp = word_of_int now\<rparr>
           | _ \<Rightarrow> None)
      | _ \<Rightarrow> None)"

text \<open>\<open>trim_start_matches\<close> takes the prefix away as often as it is there.\<close>

fun trim_bearer :: "nat \<Rightarrow> string \<Rightarrow> string" where
  "trim_bearer 0 s = s"
| "trim_bearer (Suc n) s = (if starts_with s ''Bearer '' then trim_bearer n (drop 7 s) else s)"

type_synonym headers = "(string \<times> string option) list"

definition header :: "string \<Rightarrow> headers \<Rightarrow> string option" where
  "header name hs = Option.bind (map_of hs name) (\<lambda>v. v)"

definition proof_from_headers :: "int \<Rightarrow> headers \<Rightarrow> payment_proof option" where
  "proof_from_headers now hs =
     (case header ''x-payment-proof'' hs of
        Some s \<Rightarrow> parse_proof now s
      | None \<Rightarrow>
          (case header ''x-channel-payment'' hs of
             Some s \<Rightarrow> parse_channel_payment now s
           | None \<Rightarrow>
               (case header ''authorization'' hs of
                  Some s \<Rightarrow>
                    if starts_with s ''Bearer ''
                    then Some \<lparr>pf_method = Prepaid [] (trim_bearer (length s) s), pf_timestamp = word_of_int now\<rparr>
                    else None
                | None \<Rightarrow> None)))"

definition verify_payment :: "u64 \<Rightarrow> payment_method \<Rightarrow> string + bool" where
  "verify_payment required m =
     (case m of
        Direct proof_id amount signature \<Rightarrow>
          if amount < required then Inr False
          else if signature = [] then Inl ''Empty signature''
          else if proof_id = [] then Inl ''Empty proof ID''
          else Inr True
      | ChannelPayment channel_id nonce amount signature \<Rightarrow>
          if amount < required then Inr False
          else if signature = [] \<or> channel_id = [] then Inl ''Invalid channel payment''
          else Inr True
      | Prepaid _ api_key \<Rightarrow> if api_key = [] then Inl ''Empty API key'' else Inr True)"

definition claimed_amount :: "payment_method \<Rightarrow> u64" where
  "claimed_amount m =
     (case m of Direct _ a _ \<Rightarrow> a | ChannelPayment _ _ a _ \<Rightarrow> a | Prepaid _ _ \<Rightarrow> - 1)"

subsection \<open>The proxy\<close>

datatype proxy_error =
    PaymentRequired string
  | InvalidPayment string
  | InsufficientPayment u64 u64
  | EndpointNotFound string
  | UpstreamError string
  | RateLimited
  | InternalError string

text \<open>The status and the body of an error response; \<open>money\<close> prints an amount with six decimals.\<close>

fun error_response :: "(f64 \<Rightarrow> string) \<Rightarrow> proxy_error \<Rightarrow> nat \<times> string" where
  "error_response money (PaymentRequired msg) = (402, msg)"
| "error_response money (InvalidPayment msg) = (401, msg)"
| "error_response money (InsufficientPayment required provided) =
     (402, ''Insufficient payment: need '' @ money (from_micro required) @ '' PCLAW, got '' @
           money (from_micro provided) @ '' PCLAW'')"
| "error_response money (EndpointNotFound path) = (404, ''Endpoint not found: '' @ path)"
| "error_response money (UpstreamError msg) = (502, msg)"
| "error_response money RateLimited = (429, ''Rate limit exceeded'')"
| "error_response money (InternalError msg) = (500, msg)"

record proxy_config =
  px_base_price_per_request :: u64
  px_enable_channels :: bool
  px_min_channel_capacity :: u64
  px_rate_limit_per_minute :: u32
  px_free_tier_enabled :: bool
  px_free_tier_requests_per_hour :: u32

definition proxy_config_default :: proxy_config where
  "proxy_config_default =
     \<lparr>px_base_price_per_request = to_micro (f_lit 1 100), px_enable_channels = True,
      px_min_channel_capacity = to_micro (f_of_int 10), px_rate_limit_per_minute = 100,
      px_free_tier_enabled = True, px_free_tier_requests_per_hour = 10\<rparr>"

text \<open>The two tables hold, for a client, a period (an hour, a minute) and a count of requests in it.\<close>

type_synonym usage_table = "(string, u64 \<times> u32) hmap"

record proxy_state =
  ps_pricing :: proxy_pricing
  ps_config :: proxy_config
  ps_free_tier_usage :: usage_table
  ps_rate_limits :: usage_table

definition proxy_new :: "proxy_config \<Rightarrow> proxy_state" where
  "proxy_new c =
     \<lparr>ps_pricing = proxy_pricing_default, ps_config = c, ps_free_tier_usage = [], ps_rate_limits = []\<rparr>"

definition within_limit :: "u64 \<Rightarrow> u32 \<Rightarrow> string \<Rightarrow> usage_table \<Rightarrow> bool" where
  "within_limit period limit client t \<longleftrightarrow>
     (case hm_get t client of
        Some (p, count) \<Rightarrow> if p = period then count < limit else True
      | None \<Rightarrow> True)"

definition count_request :: "u64 \<Rightarrow> string \<Rightarrow> usage_table \<Rightarrow> usage_table" where
  "count_request period client t =
     (let (p, count) = hm_get_or (period, 0) t client;
          (p, count) = (if p \<noteq> period then (period, 0) else (p, count))
      in hm_insert client (p, count + 1) t)"

definition hour_of :: "int \<Rightarrow> u64" where
  "hour_of now = word_of_int now div 3600"

definition minute_of :: "int \<Rightarrow> u64" where
  "minute_of now = word_of_int now div 60"

definition check_free_tier :: "int \<Rightarrow> string \<Rightarrow> proxy_state \<Rightarrow> bool" where
  "check_free_tier now client s \<longleftrightarrow>
     (if \<not> px_free_tier_enabled (ps_config s) then False
      else within_limit (hour_of now) (px_free_tier_requests_per_hour (ps_config s)) client (ps_free_tier_usage s))"

definition use_free_tier :: "int \<Rightarrow> string \<Rightarrow> proxy_state \<Rightarrow> proxy_state" where
  "use_free_tier now client s = s\<lparr>ps_free_tier_usage := count_request (hour_of now) client (ps_free_tier_usage s)\<rparr>"

definition check_rate_limit :: "int \<Rightarrow> string \<Rightarrow> proxy_state \<Rightarrow> bool" where
  "check_rate_limit now client s =
     within_limit (minute_of now) (px_rate_limit_per_minute (ps_config s)) client (ps_rate_limits s)"

definition record_request :: "int \<Rightarrow> string \<Rightarrow> proxy_state \<Rightarrow> proxy_state" where
  "record_request now client s = s\<lparr>ps_rate_limits := count_request (minute_of now) client (ps_rate_limits s)\<rparr>"

record http_request =
  hr_path :: string
  hr_method :: string
  hr_headers :: headers

definition client_of :: "http_request \<Rightarrow> string" where
  "client_of r = (case header ''x-client-id'' (hr_headers r) of Some c \<Rightarrow> c | None \<Rightarrow> ''anonymous'')"

text \<open>
  How far the handling of a request has come. The server handles requests concurrently, and the handler
  takes the lock of a table anew for every check and every count: between two sections others run. A
  response is the value of \<^verbatim>\<open>X-Payment-Received\<close> and the body.
\<close>

datatype proxy_stage =
    Arrived
  | RatePassed
  | Unpaid u64 \<comment> \<open>the price, no payment in the headers\<close>
  | FreePassed u64
  | Paid u64
  | Answered "proxy_error + string \<times> string"

text \<open>
  One section, from one lock to the next, with the reading of the clock that the check or count at its
  end makes before it waits for the lock. The price and the payment need no lock.
\<close>

definition proxy_handler ::
    "(f64 \<Rightarrow> string) \<Rightarrow> int \<Rightarrow> http_request \<Rightarrow> proxy_stage \<Rightarrow> proxy_state \<Rightarrow> proxy_stage \<times> proxy_state" where
  "proxy_handler money now r stage s =
     (let client = client_of r
      in case stage of
           Arrived \<Rightarrow> (if check_rate_limit now client s then RatePassed else Answered (Inl RateLimited), s)
         | RatePassed \<Rightarrow>
             let price = pricing_price now (ps_pricing s) (hr_path r) (hr_method r)
             in (case proof_from_headers now (hr_headers r) of
                   Some proof \<Rightarrow>
                     (case verify_payment price (pf_method proof) of
                        Inl x \<Rightarrow> Answered (Inl (InvalidPayment x))
                      | Inr paid \<Rightarrow>
                          if paid then Paid price
                          else Answered (Inl (PaymentRequired ''Payment verification failed'')))
                 | None \<Rightarrow> Unpaid price, s)
         | Unpaid price \<Rightarrow>
             (if check_free_tier now client s then FreePassed price
              else Answered (Inl (PaymentRequired (''Payment required: '' @ money (from_micro price) @
                     '' PCLAW. Include X-Payment-Proof header.''))), s)
         | FreePassed price \<Rightarrow> (Paid price, use_free_tier now client s)
         | Paid price \<Rightarrow>
             (Answered (Inr (money (from_micro price) @ '' PCLAW'',
                             ''Request processed (upstream forwarding not yet implemented)'')),
              record_request now client s)
         | Answered a \<Rightarrow> (Answered a, s))"

text \<open>The server: the state all handlers share, and the requests it has received.\<close>

record proxy_server =
  sv_state :: proxy_state
  sv_calls :: "(http_request \<times> proxy_stage) list"

definition proxy_server_new :: "proxy_config \<Rightarrow> proxy_server" where
  "proxy_server_new c = \<lparr>sv_state = proxy_new c, sv_calls = []\<rparr>"

text \<open>A request arrives, or the handling of the request of that number goes on.\<close>

datatype proxy_event = Arrive http_request | Proceed nat

definition proxy_serve :: "(f64 \<Rightarrow> string) \<Rightarrow> int \<Rightarrow> proxy_event \<Rightarrow> proxy_server \<Rightarrow> proxy_server" where
  "proxy_serve money now ev sv =
     (case ev of
        Arrive r \<Rightarrow> sv\<lparr>sv_calls := sv_calls sv @ [(r, Arrived)]\<rparr>
      | Proceed i \<Rightarrow>
          if i < length (sv_calls sv)
          then (case sv_calls sv ! i of
                  (r, stage) \<Rightarrow>
                    (case proxy_handler money now r stage (sv_state sv) of
                       (stage, s) \<Rightarrow> sv\<lparr>sv_state := s, sv_calls := (sv_calls sv)[i := (r, stage)]\<rparr>))
          else sv)"

end
