(* ===== verification/Proxy_Props.thy ===== *)
theory Proxy_Props
  imports Proxy
begin

section \<open>Properties of the proxy\<close>

subsection \<open>Path patterns\<close>

text \<open>
  What the two wildcards mean: \<open>*\<close> one segment, \<open>**\<close> any number of them, none included.
\<close>

fun glob :: "string list \<Rightarrow> string list \<Rightarrow> bool" where
  "glob [] xs = (xs = [])"
| "glob (p # ps) xs =
     (if p = ''**'' then list_ex (\<lambda>n. glob ps (drop n xs)) [0..<Suc (length xs)]
      else (case xs of [] \<Rightarrow> False | x # xs \<Rightarrow> (p = ''*'' \<or> p = x) \<and> glob ps xs))"

definition wild :: "string \<Rightarrow> string \<Rightarrow> bool" where
  "wild p x \<longleftrightarrow> p = ''*'' \<or> p = x"

lemma match_segments_sound: "match_segments ps xs \<Longrightarrow> glob ps xs"
proof (induction ps xs rule: match_segments.induct)
  case (3 p ps x xs)
  show ?case
  proof (cases "p = ''**''")
    case True
    show ?thesis
    proof (cases ps)
      case Nil
      have "glob [] (drop (length (x # xs)) (x # xs))" by simp
      then show ?thesis using True Nil by (auto simp: list_ex_iff simp del: upt_Suc)
    next
      case (Cons q qs)
      let ?r = "dropWhile (\<lambda>y. \<not> (q = ''*'' \<or> q = y)) (x # xs)"
      let ?n = "length (takeWhile (\<lambda>y. \<not> (q = ''*'' \<or> q = y)) (x # xs))"
      have "?r = drop ?n (x # xs)" by (rule dropWhile_eq_drop)
      moreover have "glob ps ?r" using 3 True Cons by simp
      moreover have "?n \<in> set [0..<Suc (length (x # xs))]"
        unfolding set_upt atLeastLessThan_iff
        using length_takeWhile_le [of "\<lambda>y. \<not> (q = ''*'' \<or> q = y)" "x # xs"] by linarith
      ultimately have "list_ex (\<lambda>n. glob ps (drop n (x # xs))) [0..<Suc (length (x # xs))]"
        unfolding list_ex_iff by (intro bexI [of _ ?n]) (simp only:, assumption)
      then show ?thesis
        unfolding glob.simps if_P [OF True] .
    qed
  next
    case False
    then show ?thesis using 3 by (auto split: if_splits)
  qed
qed simp_all

lemma match_segments_plain:
  "''**'' \<notin> set ps \<Longrightarrow> match_segments ps xs \<longleftrightarrow> list_all2 wild ps xs"
  by (induction ps xs rule: match_segments.induct) (auto simp: wild_def)

lemma match_segments_rest:
  "''**'' \<notin> set ps \<Longrightarrow>
     match_segments (ps @ [''**'']) xs \<longleftrightarrow> length ps < length xs \<and> list_all2 wild ps (take (length ps) xs)"
proof (induction ps arbitrary: xs)
  case (Cons p ps)
  then show ?case by (cases xs) (auto simp: wild_def)
next
  case Nil
  show ?case by (cases xs) simp_all
qed

text \<open>A price rule matches a path only where its wildcards allow it (one segment for *, any number for **); for a pattern with ** as its last segment, if at all, it matches exactly the paths whose segments fit the pattern's one by one, and with ** at least one more.\<close>

theorem price_rule_matches:
  assumes "''**'' \<notin> set (butlast (path_segments (ep_pattern e)))"
    and "ep_pattern e \<noteq> path" "ep_pattern e \<noteq> ''**''"
  shows "(pattern_matches e path \<longrightarrow> glob (path_segments (ep_pattern e)) (path_segments path)) \<and>
    (pattern_matches e path \<longleftrightarrow>
      (let ps = path_segments (ep_pattern e); xs = path_segments path
       in if ps \<noteq> [] \<and> last ps = ''**''
          then length ps \<le> length xs \<and> list_all2 wild (butlast ps) (take (length ps - 1) xs)
          else list_all2 wild ps xs))"
proof -
  let ?ps = "path_segments (ep_pattern e)" and ?xs = "path_segments path"
  have m: "pattern_matches e path \<longleftrightarrow> match_segments ?ps ?xs"
    using assms(2,3) by (simp add: pattern_matches_def)
  have g: "pattern_matches e path \<longrightarrow> glob ?ps ?xs"
    using m match_segments_sound by blast
  have "pattern_matches e path \<longleftrightarrow>
      (let ps = ?ps; xs = ?xs
       in if ps \<noteq> [] \<and> last ps = ''**''
          then length ps \<le> length xs \<and> list_all2 wild (butlast ps) (take (length ps - 1) xs)
          else list_all2 wild ps xs)"
  proof (cases "?ps \<noteq> [] \<and> last ?ps = ''**''")
    case True
    then have ps: "?ps = butlast ?ps @ [''**'']" by (metis append_butlast_last_id)
    have "match_segments ?ps ?xs \<longleftrightarrow>
        length (butlast ?ps) < length ?xs \<and> list_all2 wild (butlast ?ps) (take (length (butlast ?ps)) ?xs)"
      using match_segments_rest [OF assms(1), of ?xs] ps by metis
    then show ?thesis
      using True m by (auto simp: Let_def)
  next
    case False
    then have "''**'' \<notin> set ?ps"
      using assms(1) by (cases ?ps rule: rev_cases) auto
    then show ?thesis using False m match_segments_plain by (auto simp: Let_def)
  qed
  with g show ?thesis by blast
qed

theorem price_rule_matches_witness:
  "\<not> pattern_matches \<lparr>ep_pattern = ''/api/**'', ep_method = ''*'', ep_price = 5, ep_description = []\<rparr> ''/api'' \<and>
   pattern_matches \<lparr>ep_pattern = ''/api/**'', ep_method = ''*'', ep_price = 5, ep_description = []\<rparr> ''/api/v1/x''"
proof -
  let ?e = "\<lparr>ep_pattern = ''/api/**'', ep_method = ''*'', ep_price = 5, ep_description = []\<rparr>"
  have p: "path_segments ''/api/**'' = [''api'', ''**'']" "path_segments ''/api'' = [''api'']"
    "path_segments ''/api/v1/x'' = [''api'', ''v1'', ''x'']" by code_simp+
  show ?thesis
    using price_rule_matches [of ?e "''/api''"] price_rule_matches [of ?e "''/api/v1/x''"] p
    by (simp add: wild_def)
qed

subsection \<open>Limits\<close>

text \<open>
  What the table's entry of a client knows of the periods of the uses that were counted for it, in the
  order of the counts: the last period, and how many of the uses were in it.
\<close>

definition tracks :: "int list \<Rightarrow> (u64 \<times> u32) option \<Rightarrow> bool" where
  "tracks us entry \<longleftrightarrow>
     (case entry of
        None \<Rightarrow> us = []
      | Some (p, n) \<Rightarrow> us \<noteq> [] \<and> p = word_of_int (last us) \<and> unat n = count_list us (last us))"

definition in_range :: "int \<Rightarrow> bool" where
  "in_range q \<longleftrightarrow> 0 \<le> q \<and> q < 2 ^ 64"

lemma word_of_int_period: "in_range p \<Longrightarrow> in_range q \<Longrightarrow> (word_of_int p :: u64) = word_of_int q \<longleftrightarrow> p = q"
  by (auto simp: in_range_def word_uint_eq_iff uint_word_of_int take_bit_int_eq_self)

lemma in_range_div: "in_range now \<Longrightarrow> 0 < k \<Longrightarrow> in_range (now div k)"
  by (auto simp: in_range_def pos_imp_zdiv_nonneg_iff intro: le_less_trans [OF zdiv_mono2 [of now 1 k, simplified]])

lemma count_after_last: "\<forall>u \<in> set us. u \<le> q \<Longrightarrow> q \<notin> set us \<or> us = [] \<or> sorted us \<longrightarrow> last us = q \<or> count_list us q = 0"
  by (induction us rule: rev_induct) (auto simp: sorted_append count_list_0_iff)

lemma tracks_check:
  assumes "tracks us (hm_get t c)" "sorted us" "\<forall>u \<in> set us. in_range u \<and> u \<le> q" "in_range q"
    and "within_limit (word_of_int q) l c t"
  shows "count_list us q < max 1 (unat l)"
proof (cases "hm_get t c")
  case None
  with assms(1) show ?thesis by (simp add: tracks_def)
next
  case (Some e)
  then obtain p n where e: "hm_get t c = Some (p, n)" by (cases e) auto
  with assms(1) have us: "us \<noteq> []" "p = word_of_int (last us)" "unat n = count_list us (last us)"
    by (simp_all add: tracks_def)
  show ?thesis
  proof (cases "last us = q")
    case True
    with assms(5) e us show ?thesis by (simp add: within_limit_def word_less_nat_alt)
  next
    case False
    with count_after_last [of us q] assms(2,3) show ?thesis by auto
  qed
qed

lemma tracks_count:
  assumes "tracks us (hm_get t c)" "sorted us" "\<forall>u \<in> set us. in_range u \<and> u \<le> q" "in_range q"
    and "count_list us q + 1 < 2 ^ 32"
  shows "tracks (us @ [q]) (hm_get (count_request (word_of_int q) c t) c)"
proof (cases "hm_get t c")
  case None
  with assms(1) show ?thesis by (simp add: tracks_def count_request_def hm_get_or_def)
next
  case (Some e)
  then obtain p n where e: "hm_get t c = Some (p, n)" by (cases e) auto
  with assms(1) have us: "us \<noteq> []" "p = word_of_int (last us)" "unat n = count_list us (last us)"
    by (simp_all add: tracks_def)
  then have "in_range (last us)" using assms(3) by simp
  show ?thesis
  proof (cases "last us = q")
    case True
    with us assms(5) have "unat (n + 1) = unat n + 1" by (simp add: unat_add_nowrap)
    with True us e show ?thesis by (simp add: tracks_def count_request_def hm_get_or_def)
  next
    case False
    moreover from this have "p \<noteq> word_of_int q"
      using us(2) word_of_int_period [OF \<open>in_range (last us)\<close> assms(4)] by simp
    moreover have "count_list us q = 0"
      using count_after_last [of us q] assms(2,3) us(1) False by auto
    ultimately show ?thesis using e by (simp add: tracks_def count_request_def hm_get_or_def)
  qed
qed

lemma count_request_other: "d \<noteq> c \<Longrightarrow> hm_get (count_request p c t) d = hm_get t d"
  by (simp add: count_request_def Let_def split_def)

subsection \<open>Requests handled at once\<close>

text \<open>Events with the readings of the clock, and the requests whose handling came, in one of them, to
  a section of the given kind.\<close>

fun proxy_run :: "(f64 \<Rightarrow> string) \<Rightarrow> (int \<times> proxy_event) list \<Rightarrow> proxy_server \<Rightarrow> proxy_server" where
  "proxy_run money [] sv = sv"
| "proxy_run money ((now, ev) # evs) sv = proxy_run money evs (proxy_serve money now ev sv)"

definition section_of :: "(proxy_stage \<Rightarrow> bool) \<Rightarrow> int \<Rightarrow> proxy_event \<Rightarrow> proxy_server \<Rightarrow> (int \<times> http_request) list" where
  "section_of P now ev sv =
     (case ev of
        Arrive _ \<Rightarrow> []
      | Proceed i \<Rightarrow>
          if i < length (sv_calls sv) \<and> P (snd (sv_calls sv ! i)) then [(now, fst (sv_calls sv ! i))] else [])"

fun sections ::
    "(f64 \<Rightarrow> string) \<Rightarrow> (proxy_stage \<Rightarrow> bool) \<Rightarrow> (int \<times> proxy_event) list \<Rightarrow> proxy_server \<Rightarrow> (int \<times> http_request) list" where
  "sections money P [] sv = []"
| "sections money P ((now, ev) # evs) sv =
     section_of P now ev sv @ sections money P evs (proxy_serve money now ev sv)"

fun is_paid :: "proxy_stage \<Rightarrow> bool" where
  "is_paid (Paid _) = True"
| "is_paid _ = False"

fun is_free :: "proxy_stage \<Rightarrow> bool" where
  "is_free (FreePassed _) = True"
| "is_free _ = False"

text \<open>Past the check of the rate limit, and not answered.\<close>

fun is_handled :: "proxy_stage \<Rightarrow> bool" where
  "is_handled Arrived = False"
| "is_handled (Answered _) = False"
| "is_handled _ = True"

definition handled :: "(proxy_stage \<Rightarrow> bool) \<Rightarrow> string \<Rightarrow> proxy_server \<Rightarrow> nat" where
  "handled P c sv = length (filter (\<lambda>(r, stage). client_of r = c \<and> P stage) (sv_calls sv))"

text \<open>The requests that are answered with success, and those that use the free tier.\<close>

abbreviation served :: "(f64 \<Rightarrow> string) \<Rightarrow> (int \<times> proxy_event) list \<Rightarrow> proxy_server \<Rightarrow> (int \<times> http_request) list" where
  "served money \<equiv> sections money is_paid"

abbreviation served_free :: "(f64 \<Rightarrow> string) \<Rightarrow> (int \<times> proxy_event) list \<Rightarrow> proxy_server \<Rightarrow> (int \<times> http_request) list" where
  "served_free money \<equiv> sections money is_free"

text \<open>The periods of the sections of a client.\<close>

definition periods_of :: "int \<Rightarrow> string \<Rightarrow> (int \<times> http_request) list \<Rightarrow> int list" where
  "periods_of k c rs = map (\<lambda>(now, r). now div k) (filter (\<lambda>(now, r). client_of r = c) rs)"

lemma count_periods:
  "count_list (periods_of k c rs) m = length (filter (\<lambda>(now, r). client_of r = c \<and> now div k = m) rs)"
  by (induction rs) (auto simp: periods_of_def)

lemma proxy_run_snoc: "proxy_run money (evs @ [(now, ev)]) sv = proxy_serve money now ev (proxy_run money evs sv)"
  by (induction money evs sv rule: proxy_run.induct) auto

lemma sections_snoc:
  "sections money P (evs @ [(now, ev)]) sv = sections money P evs sv @ section_of P now ev (proxy_run money evs sv)"
  by (induction money P evs sv rule: sections.induct) auto

lemma length_filter_update:
  "i < length xs \<Longrightarrow>
     length (filter P (xs[i := y])) + (if P (xs ! i) then 1 else 0) = length (filter P xs) + (if P y then 1 else 0)"
proof (induction xs arbitrary: i)
  case (Cons x xs)
  then show ?case
  proof (cases i)
    case (Suc j)
    with Cons.IH [of j] Cons.prems show ?thesis by (cases "P x") simp_all
  qed (auto split: if_splits)
qed simp

text \<open>
  A limit on a table: between the check and the count of a request others pass. The bound is the limit
  and the requests that may be between the two at once; it holds of the counted uses of a period, and
  together with those still to be counted as long as the period is not over.
\<close>

definition limit_inv :: "int \<Rightarrow> nat \<Rightarrow> int list \<Rightarrow> nat \<Rightarrow> int \<Rightarrow> bool" where
  "limit_inv k most us waiting now \<longleftrightarrow>
     sorted us \<and> (\<forall>u \<in> set us. in_range u \<and> u \<le> now div k) \<and> (\<forall>m. count_list us m \<le> most) \<and>
     (\<forall>m. now div k \<le> m \<longrightarrow> count_list us m + waiting \<le> most)"

lemma limit_inv_later:
  "limit_inv k most us waiting now \<Longrightarrow> now \<le> now' \<Longrightarrow> 0 < k \<Longrightarrow> waiting' \<le> waiting \<Longrightarrow> limit_inv k most us waiting' now'"
proof -
  assume "now \<le> now'" "0 < k"
  then have "now div k \<le> now' div k" by (rule zdiv_mono1)
  then show "limit_inv k most us waiting now \<Longrightarrow> waiting' \<le> waiting \<Longrightarrow> limit_inv k most us waiting' now'"
    unfolding limit_inv_def by (meson add_le_mono order.trans order_refl)
qed

lemma limit_inv_enter:
  assumes "limit_inv k (l - 1 + many) us waiting now" "count_list us (now div k) < l" "Suc waiting \<le> many"
  shows "limit_inv k (l - 1 + many) us (Suc waiting) now"
proof -
  have "count_list us m + Suc waiting \<le> l - 1 + many" if "now div k \<le> m" for m
  proof (cases "m = now div k")
    case True
    then show ?thesis using assms(2,3) by simp
  next
    case False
    then have "m \<notin> set us" using assms(1) that by (force simp: limit_inv_def)
    then show ?thesis using assms(3) by (simp add: count_list_0_iff)
  qed
  then show ?thesis using assms(1) by (simp add: limit_inv_def)
qed

lemma limit_inv_count:
  assumes "limit_inv k most us (Suc waiting) now" "in_range (now div k)"
  shows "limit_inv k most (us @ [now div k]) waiting now"
proof -
  have "count_list (us @ [now div k]) m \<le> most" for m
    using assms(1) unfolding limit_inv_def by (cases "m = now div k") (fastforce simp: count_list_append)+
  moreover have "count_list (us @ [now div k]) m + waiting \<le> most" if "now div k \<le> m" for m
    using assms(1) that unfolding limit_inv_def by (fastforce simp: count_list_append)
  ultimately show ?thesis
    using assms unfolding limit_inv_def by (auto simp: sorted_append)
qed

locale usage_limit =
  fixes between counts :: "proxy_stage \<Rightarrow> bool"
    and table :: "proxy_state \<Rightarrow> usage_table"
    and limit :: "proxy_config \<Rightarrow> u32"
    and k :: int
  assumes start: "\<not> between Arrived" "table (proxy_new c) = []" "0 < k"
    and counts_between: "counts stage \<Longrightarrow> between stage"
    and step: "proxy_handler money now r stage s = (stage', s') \<Longrightarrow> in_range now \<Longrightarrow>
      ps_config s' = ps_config s \<and>
      (if counts stage
       then \<not> between stage' \<and> table s' = count_request (word_of_int (now div k)) (client_of r) (table s)
       else table s' = table s \<and>
         (between stage' \<and> \<not> between stage \<longrightarrow>
            within_limit (word_of_int (now div k)) (limit (ps_config s)) (client_of r) (table s)))"
begin

definition client_ok :: "proxy_config \<Rightarrow> nat \<Rightarrow> string \<Rightarrow> int list \<Rightarrow> int \<Rightarrow> proxy_server \<Rightarrow> bool" where
  "client_ok c many client us now sv \<longleftrightarrow>
     ps_config (sv_state sv) = c \<and> tracks us (hm_get (table (sv_state sv)) client) \<and>
     limit_inv k (max 1 (unat (limit c)) - 1 + many) us (handled between client sv) now"

lemma client_ok_later: "client_ok c many client us now sv \<Longrightarrow> now \<le> now' \<Longrightarrow> client_ok c many client us now' sv"
  unfolding client_ok_def using limit_inv_later start(3) by blast

lemma client_ok_serve:
  assumes ok: "client_ok c many client us now sv" and rng: "in_range now"
    and few: "handled between client (proxy_serve money now ev sv) \<le> many"
    and fits: "unat (limit c) + many < 2 ^ 32"
  shows "client_ok c many client (us @ periods_of k client (section_of counts now ev sv)) now (proxy_serve money now ev sv)"
proof (cases ev)
  case (Arrive r)
  have "handled between client (proxy_serve money now ev sv) = handled between client sv"
    by (simp add: Arrive proxy_serve_def handled_def start(1))
  with ok show ?thesis
    by (simp add: client_ok_def Arrive proxy_serve_def section_of_def periods_of_def)
next
  case (Proceed i)
  show ?thesis
  proof (cases "i < length (sv_calls sv)")
    case False
    with ok show ?thesis by (simp add: Proceed proxy_serve_def section_of_def periods_of_def)
  next
    case True
    obtain r stage where call: "sv_calls sv ! i = (r, stage)" by fastforce
    obtain stage' s' where h: "proxy_handler money now r stage (sv_state sv) = (stage', s')" by fastforce
    let ?sv = "sv\<lparr>sv_state := s', sv_calls := (sv_calls sv)[i := (r, stage')]\<rparr>"
    let ?most = "max 1 (unat (limit c)) - 1 + many"
    have sv: "proxy_serve money now ev sv = ?sv" by (simp add: Proceed True call h proxy_serve_def)
    have us: "periods_of k client (section_of counts now ev sv) = (if counts stage \<and> client_of r = client then [now div k] else [])"
      by (simp add: Proceed True call section_of_def periods_of_def)
    note st = step [OF h rng]
    have conf: "ps_config s' = c" and inv: "limit_inv k ?most us (handled between client sv) now"
      and tr: "tracks us (hm_get (table (sv_state sv)) client)" and conf0: "ps_config (sv_state sv) = c"
      using ok st by (simp_all add: client_ok_def)
    have q: "in_range (now div k)" using in_range_div [OF rng start(3)] .
    have us_ok: "sorted us" "\<forall>u \<in> set us. in_range u \<and> u \<le> now div k" using inv by (simp_all add: limit_inv_def)
    have change: "handled between client ?sv + (if client_of r = client \<and> between stage then 1 else 0) =
        handled between client sv + (if client_of r = client \<and> between stage' then 1 else 0)"
      using length_filter_update [OF True, of "\<lambda>(r, stage). client_of r = client \<and> between stage" "(r, stage')"] call
      by (simp add: handled_def)
    show ?thesis
    proof (cases "counts stage")
      case count: True
      note st' = st [unfolded if_P [OF count]]
      show ?thesis
      proof (cases "client_of r = client")
        case True
        have w: "handled between client sv = Suc (handled between client ?sv)"
          using change True counts_between [OF count] st' by simp
        have "count_list us (now div k) + Suc (handled between client ?sv) \<le> ?most"
          using inv w by (auto simp: limit_inv_def)
        then have "count_list us (now div k) + 1 < 2 ^ 32" using fits by (auto simp: max_def split: if_splits)
        from tracks_count [OF tr us_ok q this] have "tracks (us @ [now div k]) (hm_get (table s') client)"
          using st' True by simp
        moreover have "limit_inv k ?most (us @ [now div k]) (handled between client ?sv) now"
          using limit_inv_count [of k ?most us _ now] inv w q by simp
        ultimately show ?thesis using conf count True by (simp add: client_ok_def sv us)
      next
        case False
        with change st' tr inv conf show ?thesis by (simp add: client_ok_def sv us count_request_other)
      qed
    next
      case no: False
      note st' = st [unfolded if_not_P [OF no]]
      have tr': "tracks us (hm_get (table s') client)" using tr st' by simp
      show ?thesis
      proof (cases "client_of r = client \<and> between stage' \<and> \<not> between stage")
        case True
        then have "within_limit (word_of_int (now div k)) (limit c) client (table (sv_state sv))"
          using st' conf0 by simp
        from tracks_check [OF tr us_ok q this]
        have "limit_inv k ?most us (Suc (handled between client sv)) now"
          using limit_inv_enter inv few change True sv by simp
        with tr' conf change True no show ?thesis by (simp add: client_ok_def sv us)
      next
        case False
        then have "handled between client ?sv \<le> handled between client sv" using change by (auto split: if_splits)
        with limit_inv_later [OF inv order_refl start(3)] tr' conf no show ?thesis by (simp add: client_ok_def sv us)
      qed
    qed
  qed
qed

lemma client_ok_run:
  assumes "sorted (map fst evs)" "\<forall>(now, ev) \<in> set evs. in_range now" "unat (limit c) + many < 2 ^ 32"
    and "\<forall>n \<le> length evs. handled between client (proxy_run money (take n evs) (proxy_server_new c)) \<le> many"
    and "\<forall>(now, ev) \<in> set evs. now \<le> latest"
  shows "client_ok c many client (periods_of k client (sections money counts evs (proxy_server_new c))) latest
    (proxy_run money evs (proxy_server_new c))"
  using assms
proof (induction evs arbitrary: latest rule: rev_induct)
  case Nil
  then show ?case
    by (simp add: client_ok_def proxy_server_new_def start tracks_def limit_inv_def handled_def periods_of_def)
      (simp add: proxy_new_def)
next
  case (snoc x evs)
  obtain now ev where x: "x = (now, ev)" by (cases x)
  let ?sv = "proxy_run money evs (proxy_server_new c)"
  have "client_ok c many client (periods_of k client (sections money counts evs (proxy_server_new c))) now ?sv"
  proof (rule snoc.IH)
    show "\<forall>n \<le> length evs. handled between client (proxy_run money (take n evs) (proxy_server_new c)) \<le> many"
      using snoc.prems(4) by (metis append_eq_append_conv2 butlast_snoc le_SucI length_append_singleton take_butlast take_append diff_is_0_eq take_0 append_Nil2)
  qed (use snoc.prems x in \<open>auto simp: sorted_append\<close>)
  moreover have "handled between client (proxy_serve money now ev ?sv) \<le> many"
    using snoc.prems(4) [rule_format, of "length (evs @ [x])"] by (simp add: x proxy_run_snoc)
  ultimately have "client_ok c many client (periods_of k client (sections money counts (evs @ [x]) (proxy_server_new c))) now
      (proxy_run money (evs @ [x]) (proxy_server_new c))"
    using client_ok_serve snoc.prems(2,3) by (simp add: x proxy_run_snoc sections_snoc periods_of_def)
  then show ?case using client_ok_later snoc.prems(5) x by auto
qed

lemma uses_bounded:
  assumes "sorted (map fst evs)" "\<forall>(now, ev) \<in> set evs. in_range now" "unat (limit c) + many < 2 ^ 32"
    and "\<forall>n \<le> length evs. handled between client (proxy_run money (take n evs) (proxy_server_new c)) \<le> many"
  shows "length (filter (\<lambda>(now, r). client_of r = client \<and> now div k = m) (sections money counts evs (proxy_server_new c)))
    \<le> max 1 (unat (limit c)) - 1 + many"
proof -
  have "\<forall>(now, ev) \<in> set evs. now \<le> 2 ^ 64" using assms(2) by (auto simp: in_range_def)
  from client_ok_run [OF assms this] show ?thesis
    unfolding client_ok_def limit_inv_def count_periods [symmetric] by blast
qed

end

lemma period_word:
  assumes "in_range now" "0 < k" "k < 2 ^ 64"
  shows "(word_of_int now :: u64) div word_of_int k = word_of_int (now div k)"
  using in_range_div [OF assms(1,2)] assms
  by (simp add: in_range_def word_uint_eq_iff uint_div_distrib uint_word_of_int take_bit_int_eq_self)

lemma minute_of_word: "in_range now \<Longrightarrow> minute_of now = word_of_int (now div 60)"
  using period_word [of now 60] by (simp add: minute_of_def)

lemma hour_of_word: "in_range now \<Longrightarrow> hour_of now = word_of_int (now div 3600)"
  using period_word [of now 3600] by (simp add: hour_of_def)

interpretation rate: usage_limit is_handled is_paid ps_rate_limits px_rate_limit_per_minute 60
proof
  fix stage assume "is_paid stage"
  then show "is_handled stage" by (cases stage) auto
next
  fix money now r stage s stage' s'
  assume "proxy_handler money now r stage s = (stage', s')" "in_range now"
  then show "ps_config s' = ps_config s \<and>
      (if is_paid stage
       then \<not> is_handled stage' \<and> ps_rate_limits s' = count_request (word_of_int (now div 60)) (client_of r) (ps_rate_limits s)
       else ps_rate_limits s' = ps_rate_limits s \<and>
         (is_handled stage' \<and> \<not> is_handled stage \<longrightarrow>
            within_limit (word_of_int (now div 60)) (px_rate_limit_per_minute (ps_config s)) (client_of r) (ps_rate_limits s)))"
    by (cases stage)
      (auto simp: proxy_handler_def Let_def check_rate_limit_def record_request_def use_free_tier_def minute_of_word
        split: if_splits option.splits sum.splits)
qed (simp_all add: proxy_new_def)

interpretation free: usage_limit is_free is_free ps_free_tier_usage px_free_tier_requests_per_hour 3600
proof
  fix money now r stage s stage' s'
  assume "proxy_handler money now r stage s = (stage', s')" "in_range now"
  then show "ps_config s' = ps_config s \<and>
      (if is_free stage
       then \<not> is_free stage' \<and> ps_free_tier_usage s' = count_request (word_of_int (now div 3600)) (client_of r) (ps_free_tier_usage s)
       else ps_free_tier_usage s' = ps_free_tier_usage s \<and>
         (is_free stage' \<and> \<not> is_free stage \<longrightarrow>
            within_limit (word_of_int (now div 3600)) (px_free_tier_requests_per_hour (ps_config s)) (client_of r)
              (ps_free_tier_usage s)))"
    by (cases stage)
      (auto simp: proxy_handler_def Let_def check_free_tier_def record_request_def use_free_tier_def hour_of_word
        split: if_splits option.splits sum.splits)
qed (simp_all add: proxy_new_def)

text \<open>A request that uses the free tier is past the check of the rate limit.\<close>

lemma handled_free: "handled is_free client sv \<le> handled is_handled client sv"
proof -
  have "length (filter (\<lambda>(r, stage). client_of r = client \<and> is_free stage) cs) \<le>
      length (filter (\<lambda>(r, stage). client_of r = client \<and> is_handled stage) cs)" for cs
    by (induction cs) (auto elim: is_free.elims)
  then show ?thesis by (simp add: handled_def)
qed

lemma free_tier_off:
  assumes "\<not> px_free_tier_enabled c"
  shows "served_free money evs (proxy_server_new c) = [] \<and>
    ps_config (sv_state (proxy_run money evs (proxy_server_new c))) = c \<and>
    (\<forall>(r, stage) \<in> set (sv_calls (proxy_run money evs (proxy_server_new c))). \<not> is_free stage)"
proof (induction evs rule: rev_induct)
  case (snoc x evs)
  obtain now ev where x: "x = (now, ev)" by (cases x)
  let ?sv = "proxy_run money evs (proxy_server_new c)"
  have "section_of is_free now ev ?sv = []"
    using snoc by (auto simp: section_of_def split: proxy_event.split dest!: nth_mem)
  moreover have "ps_config (sv_state (proxy_serve money now ev ?sv)) = c \<and>
      (\<forall>(r, stage) \<in> set (sv_calls (proxy_serve money now ev ?sv)). \<not> is_free stage)"
  proof (cases ev)
    case (Arrive r)
    with snoc show ?thesis by (auto simp: proxy_serve_def)
  next
    case (Proceed i)
    have "ps_config s' = ps_config (sv_state ?sv) \<and> \<not> is_free stage'"
      if "proxy_handler money now r stage (sv_state ?sv) = (stage', s')" for r stage stage' s'
      using that snoc assms
      by (cases stage) (auto simp: proxy_handler_def Let_def check_free_tier_def record_request_def use_free_tier_def
        split: if_splits option.splits sum.splits)
    with snoc show ?thesis
      by (auto simp: Proceed proxy_serve_def split: prod.split dest!: set_update_subset_insert [THEN subsetD])
  qed
  ultimately show ?case using snoc by (simp add: x sections_snoc proxy_run_snoc)
qed (simp add: proxy_server_new_def proxy_new_def)

text \<open>C32: The handlers of many requests run at once, and each checks and counts under locks of its own. While the readings of the clock come in the order of these sections, and at most K requests of a client are at any time past the check of the rate limit and not answered, the proxy serves, per client and minute, at most K - 1 requests more than the rate limit says (which counts as 1 at least); and with the free tier, per client and hour, at most K - 1 more than that grants (1 at least), and none when it is off. So the limits hold as they are for a client that waits for each answer; the witness shows three requests handled at once and served against a limit of one.\<close>

theorem rate_limit_enforced:
  assumes "sorted (map fst evs)" and "\<forall>(now, ev) \<in> set evs. 0 \<le> now \<and> now < 2 ^ 64"
    and "\<forall>n \<le> length evs. handled is_handled client (proxy_run money (take n evs) (proxy_server_new c)) \<le> K"
    and "unat (px_rate_limit_per_minute c) + K < 2 ^ 32" and "unat (px_free_tier_requests_per_hour c) + K < 2 ^ 32"
  shows "length (filter (\<lambda>(now, r). client_of r = client \<and> now div 60 = minute) (served money evs (proxy_server_new c))) \<le>
      max 1 (unat (px_rate_limit_per_minute c)) - 1 + K \<and>
    length (filter (\<lambda>(now, r). client_of r = client \<and> now div 3600 = hour) (served_free money evs (proxy_server_new c))) \<le>
      (if px_free_tier_enabled c then max 1 (unat (px_free_tier_requests_per_hour c)) - 1 + K else 0)"
proof -
  have rng: "\<forall>(now, ev) \<in> set evs. in_range now" using assms(2) by (auto simp: in_range_def)
  have "\<forall>n \<le> length evs. handled is_free client (proxy_run money (take n evs) (proxy_server_new c)) \<le> K"
    using assms(3) handled_free order.trans by blast
  with rate.uses_bounded [OF assms(1) rng assms(4,3)] free.uses_bounded [OF assms(1) rng assms(5)]
    free_tier_off [of c money evs]
  show ?thesis by simp
qed

text \<open>Three requests at once against a limit of one: all pass the check before the first is counted.\<close>

definition strict_config :: proxy_config where
  "strict_config = proxy_config_default\<lparr>px_rate_limit_per_minute := 1\<rparr>"

definition paid_request :: http_request where
  "paid_request = \<lparr>hr_path = ''/x'', hr_method = ''GET'', hr_headers = [(''authorization'', Some ''Bearer k'')]\<rparr>"

definition three_at_once :: "(int \<times> proxy_event) list" where
  "three_at_once =
     [(60, Arrive paid_request), (60, Arrive paid_request), (60, Arrive paid_request),
      (61, Proceed 0), (61, Proceed 1), (61, Proceed 2), (62, Proceed 0), (62, Proceed 1), (62, Proceed 2),
      (63, Proceed 0), (63, Proceed 1), (63, Proceed 2)]"

theorem rate_limit_enforced_witness:
  "let n = length (filter (\<lambda>(now, r). client_of r = ''anonymous'' \<and> now div 60 = 1)
             (served (\<lambda>_. []) three_at_once (proxy_server_new strict_config)))
   in n = 3 \<and> n \<le> max 1 (unat (px_rate_limit_per_minute strict_config)) - 1 + 3"
proof -
  have "list_all (\<lambda>n. handled is_handled ''anonymous'' (proxy_run (\<lambda>_. []) (take n three_at_once) (proxy_server_new strict_config)) \<le> 3)
      [0..<13]"
    by code_simp
  moreover have "length three_at_once = 12" by (simp add: three_at_once_def)
  ultimately have few: "\<forall>n \<le> length three_at_once.
      handled is_handled ''anonymous'' (proxy_run (\<lambda>_. []) (take n three_at_once) (proxy_server_new strict_config)) \<le> 3"
    unfolding list_all_iff set_upt by auto
  have "length (filter (\<lambda>(now, r). client_of r = ''anonymous'' \<and> now div 60 = 1)
      (served (\<lambda>_. []) three_at_once (proxy_server_new strict_config))) = 3"
    by code_simp
  with rate_limit_enforced [OF _ _ few, of 1] show ?thesis
    by (simp add: three_at_once_def strict_config_def proxy_config_default_def)
qed

subsection \<open>Payment headers\<close>

text \<open>The headers a paying client sends.\<close>

fun payment_header :: "payment_method \<Rightarrow> string \<times> string" where
  "payment_header (Direct proof_id amount signature) =
     (''x-payment-proof'', ''direct:'' @ proof_id @ '':'' @ show_word amount @ '':'' @ signature)"
| "payment_header (ChannelPayment channel_id nonce amount signature) =
     (''x-channel-payment'', channel_id @ '':'' @ show_word nonce @ '':'' @ show_word amount @ '':'' @ signature)"
| "payment_header (Prepaid _ api_key) = (''authorization'', ''Bearer '' @ api_key)"

fun printable :: "payment_method \<Rightarrow> bool" where
  "printable (Direct proof_id _ signature) = (CHR '':'' \<notin> set proof_id \<and> CHR '':'' \<notin> set signature)"
| "printable (ChannelPayment channel_id _ _ signature) = (CHR '':'' \<notin> set channel_id \<and> CHR '':'' \<notin> set signature)"
| "printable (Prepaid account api_key) = (account = [] \<and> \<not> starts_with api_key ''Bearer '')"

lemma colon_parts_Cons: "CHR '':'' \<notin> set a \<Longrightarrow> colon_parts (a @ CHR '':'' # s) = a # colon_parts s"
  by (simp add: colon_parts_def split_on_join list_ex_iff)

lemma colon_parts_one: "CHR '':'' \<notin> set a \<Longrightarrow> colon_parts a = [a]"
  unfolding colon_parts_def by (rule split_on_one) (auto simp: list_ex_iff)

lemma show_word_no_colon: "CHR '':'' \<notin> set (show_word w)"
proof -
  have "list_all is_digit (show_word w)"
    using decimal_parses [of "uint w"] by (simp add: show_word_def)
  then show ?thesis by (auto simp: list_all_iff is_digit_def)
qed

lemma trim_bearer_once:
  assumes "\<not> starts_with k ''Bearer ''"
  shows "trim_bearer (Suc n) (''Bearer '' @ k) = k"
proof -
  have "trim_bearer n k = k" using assms by (cases n) simp_all
  then show ?thesis by simp
qed

text \<open>The payment a client writes into the header of its kind is the payment the proxy reads back, with the time of the request, as long as ids and signatures contain no colon (and an API key does not itself start with Bearer).\<close>

theorem payment_header_roundtrip:
  assumes "printable m" and "payment_header m = (name, text)"
  shows "proof_from_headers now [(name, Some text)] = Some \<lparr>pf_method = m, pf_timestamp = word_of_int now\<rparr>"
proof (cases m)
  case (Direct p a g)
  have "colon_parts text = [''direct'', p, show_word a, g]"
    using assms Direct colon_parts_Cons [of "''direct''"]
    by (auto simp: colon_parts_Cons colon_parts_one show_word_no_colon)
  then show ?thesis
    using assms Direct by (auto simp: proof_from_headers_def header_def parse_proof_def)
next
  case (ChannelPayment i n a g)
  have "colon_parts text = [i, show_word n, show_word a, g]"
    using assms ChannelPayment
    by (auto simp: colon_parts_Cons colon_parts_one show_word_no_colon)
  then show ?thesis
    using assms ChannelPayment by (auto simp: proof_from_headers_def header_def parse_channel_payment_def)
next
  case (Prepaid a k)
  then have t: "name = ''authorization''" "text = ''Bearer '' @ k" "a = []" "\<not> starts_with k ''Bearer ''"
    using assms by auto
  then have "trim_bearer (length text) text = k"
    using trim_bearer_once [of k "length k + 6"] by simp
  moreover have "starts_with text ''Bearer ''" using t(2) by simp
  ultimately show ?thesis
    using t(1,3) Prepaid by (simp add: proof_from_headers_def header_def)
qed

theorem payment_header_roundtrip_witness:
  "proof_from_headers 9 [(''x-channel-payment'', Some (''chan_123:'' @ show_word (5 :: u64) @ '':'' @ show_word (500000 :: u64) @ '':sig789''))] =
     Some \<lparr>pf_method = ChannelPayment ''chan_123'' 5 500000 ''sig789'', pf_timestamp = 9\<rparr>"
  using payment_header_roundtrip [of "ChannelPayment ''chan_123'' 5 500000 ''sig789''" _ _ 9] by simp

end
