(* ===== verification/Skills.thy ===== *)
theory Skills
  imports F64 Text
begin

section \<open>Skills\<close>

text \<open>
  Models \<^verbatim>\<open>src/skills/{mod,parser,selector,registry}.rs\<close>: skill files and their parsing, the
  selection of skills for an input, and the registry of local and announced skills. YAML, BLAKE3,
  the regex engine, Unicode's lower case, MessagePack and what the machine offers are a record of
  parameters. The directory of skills is part of the state.
\<close>

definition max_skill_size :: nat where
  "max_skill_size = 64 * 1024"

text \<open>The pattern of the names: a letter or digit, then up to 63 letters, digits, dots, underscores or dashes.\<close>

definition is_alnum :: "char \<Rightarrow> bool" where
  "is_alnum c \<longleftrightarrow>
     (let n = (of_char c :: nat) in 48 \<le> n \<and> n \<le> 57 \<or> 65 \<le> n \<and> n \<le> 90 \<or> 97 \<le> n \<and> n \<le> 122)"

definition validate_skill_name :: "string \<Rightarrow> bool" where
  "validate_skill_name name \<longleftrightarrow>
     (case name of
        [] \<Rightarrow> False
      | c # r \<Rightarrow> is_alnum c \<and> length r \<le> 63 \<and>
                list_all (\<lambda>d. is_alnum d \<or> d = CHR ''.'' \<or> d = CHR ''_'' \<or> d = CHR ''-'') r)"

datatype skill_trust = NetworkTrust | InstalledTrust | LocalTrust

fun skill_trust_text :: "skill_trust \<Rightarrow> string" where
  "skill_trust_text NetworkTrust = ''network''"
| "skill_trust_text InstalledTrust = ''installed''"
| "skill_trust_text LocalTrust = ''local''"

datatype skill_source = LocalSource string | WorkspaceSource string | NetworkSource string string | BundledSource string

record activation_criteria =
  ac_keywords :: "string list"
  ac_exclude_keywords :: "string list"
  ac_patterns :: "string list"
  ac_tags :: "string list"
  ac_max_context_tokens :: nat

record skill_requirements =
  sr_bins :: "string list"
  sr_env :: "string list"
  sr_tools :: "string list"
  sr_models :: "string list"

record skill_sharing =
  sh_enabled :: bool
  sh_price :: u64
  sh_rate_limit :: "u32 option"

record skill_manifest =
  sm_name :: string
  sm_version :: string
  sm_description :: string
  sm_author :: "string option"
  sm_activation :: activation_criteria
  sm_requires :: skill_requirements
  sm_sharing :: skill_sharing

record loaded_skill =
  sk_manifest :: skill_manifest
  sk_prompt_content :: string
  sk_trust :: skill_trust
  sk_source :: skill_source
  sk_hash :: string
  sk_requirements_met :: bool

record skill_announcement =
  sa_name :: string
  sa_version :: string
  sa_description :: string
  sa_hash :: string
  sa_price :: u64
  sa_provider :: string
  sa_keywords :: "string list"
  sa_tags :: "string list"

text \<open>The libraries: \<open>kx_hash\<close> is BLAKE3 in bytes, \<open>kx_hex\<close> its hexadecimal text.\<close>

record skill_env =
  kx_yaml :: "string \<Rightarrow> string + skill_manifest"
  kx_hash :: "string \<Rightarrow> string"
  kx_hex :: "string \<Rightarrow> string"
  kx_regex :: "string \<Rightarrow> (string \<Rightarrow> bool) option"
  kx_lower :: "string \<Rightarrow> string"
  kx_binary :: "string \<Rightarrow> bool"
  kx_variable :: "string \<Rightarrow> bool"
  kx_msgpack :: "skill_announcement list \<Rightarrow> string option"

definition calculate_skill_hash :: "skill_env \<Rightarrow> string \<Rightarrow> string" where
  "calculate_skill_hash e content = take 16 (kx_hex e content)"

subsection \<open>Parsing\<close>

datatype skill_parse_error =
    FileTooLarge nat nat
  | MissingFrontmatter
  | InvalidYaml string
  | InvalidName string
  | SkillIo string

definition front_delimiter :: string where
  "front_delimiter = CHR 0x0A # ''---''"

definition split_frontmatter :: "skill_env \<Rightarrow> string \<Rightarrow> skill_parse_error + skill_manifest \<times> string" where
  "split_frontmatter e content =
     (let content = trim content
      in if \<not> starts_with content ''---'' then Inl MissingFrontmatter
         else
           let rest = drop 3 content
           in case str_find rest front_delimiter of
                None \<Rightarrow> Inl MissingFrontmatter
              | Some n \<Rightarrow>
                  (case kx_yaml e (trim (take n rest)) of
                     Inl x \<Rightarrow> Inl (InvalidYaml x)
                   | Inr m \<Rightarrow> Inr (m, trim (drop (n + 4) rest))))"

definition check_requirements :: "skill_env \<Rightarrow> skill_requirements \<Rightarrow> bool" where
  "check_requirements e r \<longleftrightarrow>
     list_all (kx_binary e) (sr_bins r) \<and> list_all (kx_variable e) (sr_env r) \<and>
     list_all (\<lambda>t. trim t \<noteq> []) (sr_tools r) \<and> list_all (\<lambda>m. trim m \<noteq> []) (sr_models r)"

definition parse_skill_content ::
    "skill_env \<Rightarrow> string \<Rightarrow> skill_source \<Rightarrow> skill_trust \<Rightarrow> skill_parse_error + loaded_skill" where
  "parse_skill_content e content source trust =
     (case split_frontmatter e content of
        Inl x \<Rightarrow> Inl x
      | Inr (m, prompt) \<Rightarrow>
          if \<not> validate_skill_name (sm_name m) then Inl (InvalidName (sm_name m))
          else Inr \<lparr>sk_manifest = m, sk_prompt_content = prompt, sk_trust = trust, sk_source = source,
                    sk_hash = calculate_skill_hash e content,
                    sk_requirements_met = check_requirements e (sm_requires m)\<rparr>)"

text \<open>A file is its bytes; \<open>invalid\<close> is the error of reading bytes that are no text.\<close>

definition parse_skill :: "skill_env \<Rightarrow> string \<Rightarrow> string \<Rightarrow> string \<Rightarrow> skill_trust \<Rightarrow> skill_parse_error + loaded_skill" where
  "parse_skill e invalid path bytes trust =
     (if max_skill_size < length bytes then Inl (FileTooLarge (length bytes) max_skill_size)
      else if \<not> utf8_valid bytes then Inl (SkillIo invalid)
      else parse_skill_content e bytes
             (case trust of
                LocalTrust \<Rightarrow> LocalSource path
              | InstalledTrust \<Rightarrow> WorkspaceSource path
              | NetworkTrust \<Rightarrow> BundledSource path) trust)"

subsection \<open>Selection\<close>

record skill_score =
  ss_skill :: loaded_skill
  ss_score :: f64
  ss_keyword_matches :: nat
  ss_pattern_matches :: nat
  ss_tag_matches :: nat
  ss_trust_bonus :: f64

definition skill_score_new :: "loaded_skill \<Rightarrow> skill_score" where
  "skill_score_new s =
     \<lparr>ss_skill = s, ss_score = Fin 0 0, ss_keyword_matches = 0, ss_pattern_matches = 0, ss_tag_matches = 0,
      ss_trust_bonus = Fin 0 0\<rparr>"

definition f32_of_nat :: "nat \<Rightarrow> f64" where
  "f32_of_nat n = f32_round (int n) 0"

fun trust_bonus_of :: "skill_trust \<Rightarrow> f64" where
  "trust_bonus_of LocalTrust = f32_lit 2 10"
| "trust_bonus_of InstalledTrust = f32_lit 1 10"
| "trust_bonus_of NetworkTrust = Fin 0 0"

definition score_calculate :: "skill_score \<Rightarrow> skill_score" where
  "score_calculate s =
     (let keyword = f32_mul (f32_of_nat (ss_keyword_matches s)) (f32_lit 3 10);
          pattern = f32_mul (f32_of_nat (ss_pattern_matches s)) (f32_lit 4 10);
          tag = f32_mul (f32_of_nat (ss_tag_matches s)) (f32_lit 2 10);
          bonus = trust_bonus_of (sk_trust (ss_skill s))
      in s\<lparr>ss_trust_bonus := bonus,
           ss_score := f_min (f32_add (f32_add (f32_add keyword pattern) tag) bonus) (f_of_int 1)\<rparr>)"

definition keyword_matches :: "skill_env \<Rightarrow> string \<Rightarrow> string list \<Rightarrow> nat" where
  "keyword_matches e input ks =
     (let words = split_whitespace input
      in sum_list (map (\<lambda>k. let k = kx_lower e k
                            in (if str_contains input k then 1 else 0) + length (filter (\<lambda>w. w = k) words)) ks))"

definition score_skill :: "skill_env \<Rightarrow> loaded_skill \<Rightarrow> string \<Rightarrow> string list \<Rightarrow> skill_score" where
  "score_skill e s input tags =
     (let input = kx_lower e input;
          act = sm_activation (sk_manifest s);
          sc = (skill_score_new s)\<lparr>ss_keyword_matches := keyword_matches e input (ac_keywords act)\<rparr>
      in if list_ex (\<lambda>x. str_contains input (kx_lower e x)) (ac_exclude_keywords act) then sc
         else score_calculate
           (sc\<lparr>ss_pattern_matches :=
                 length (filter (\<lambda>p. case kx_regex e p of Some matches \<Rightarrow> matches input | None \<Rightarrow> False)
                           (ac_patterns act)),
               ss_tag_matches :=
                 sum_list (map (\<lambda>t. length (filter (\<lambda>g. kx_lower e g = kx_lower e t) tags)) (ac_tags act))\<rparr>))"

definition better_score :: "skill_score \<Rightarrow> skill_score \<Rightarrow> bool" where
  "better_score a b = f_lt (ss_score b) (ss_score a)"

definition select_skills ::
    "skill_env \<Rightarrow> loaded_skill list \<Rightarrow> string \<Rightarrow> string list \<Rightarrow> nat \<Rightarrow> f64 \<Rightarrow> skill_score list" where
  "select_skills e skills input tags max_skills min_score =
     take max_skills
       (stable_sort better_score
          (filter (\<lambda>s. f_le min_score (ss_score s))
             (map (\<lambda>s. score_skill e s input tags) (filter sk_requirements_met skills))))"

fun skill_prompt_from :: "nat \<Rightarrow> nat \<Rightarrow> string \<Rightarrow> skill_score list \<Rightarrow> string" where
  "skill_prompt_from max_tokens used prompt [] = prompt"
| "skill_prompt_from max_tokens used prompt (s # ss) =
     (let p = sk_prompt_content (ss_skill s); n = length p div 4
      in if max_tokens < used + n then prompt
         else skill_prompt_from max_tokens (used + n)
                (prompt @ (if prompt = [] then [] else CHR 0x0A # CHR 0x0A # ''---'' @ [CHR 0x0A, CHR 0x0A]) @
                 ''## Skill: '' @ sm_name (sk_manifest (ss_skill s)) @ [CHR 0x0A, CHR 0x0A] @ p) ss)"

definition build_skill_prompt :: "skill_score list \<Rightarrow> nat \<Rightarrow> string" where
  "build_skill_prompt ss max_tokens = skill_prompt_from max_tokens 0 [] ss"

subsection \<open>Announcements\<close>

record skill_batch =
  sb_peer_id :: string
  sb_skills :: "skill_announcement list"
  sb_timestamp :: u64
  sb_signature :: string

definition le_bytes64 :: "u64 \<Rightarrow> string" where
  "le_bytes64 w = map (\<lambda>i. char_of (unat (drop_bit (8 * i) w) mod 256)) [0..<8]"

definition batch_signing_bytes :: "skill_env \<Rightarrow> skill_batch \<Rightarrow> string" where
  "batch_signing_bytes e b =
     sb_peer_id b @ le_bytes64 (sb_timestamp b) @
     kx_hash e (case kx_msgpack e (sb_skills b) of Some s \<Rightarrow> s | None \<Rightarrow> [])"

text \<open>\<open>now\<close> in seconds.\<close>

definition batch_is_expired :: "u64 \<Rightarrow> u64 \<Rightarrow> skill_batch \<Rightarrow> bool" where
  "batch_is_expired now max_age b \<longleftrightarrow> max_age < sat_sub now (sb_timestamp b)"

subsection \<open>The registry\<close>

text \<open>An entry of the directory: a file that ends in \<^verbatim>\<open>.md\<close>, a directory and its \<^verbatim>\<open>SKILL.md\<close>, or anything else.\<close>

datatype skill_entry = MarkdownFile string | SkillDirectory "string option" | OtherEntry

record skill_registry =
  kr_local_peer_id :: string
  kr_skills_dir :: string
  kr_local_skills :: "(string, loaded_skill) hmap"
  kr_network_skills :: "(string, skill_announcement list) hmap"
  kr_disabled_skills :: "string list"
  kr_entries :: "(string, skill_entry) hmap"

record skill_info =
  si_name :: string
  si_version :: string
  si_description :: string
  si_trust :: skill_trust
  si_available :: bool
  si_provider :: string
  si_price :: u64
  si_keywords :: "string list"
  si_tags :: "string list"
  si_enabled :: bool

definition skill_registry_new :: "string \<Rightarrow> string \<Rightarrow> (string, skill_entry) hmap \<Rightarrow> skill_registry" where
  "skill_registry_new dir peer entries =
     \<lparr>kr_local_peer_id = peer, kr_skills_dir = dir, kr_local_skills = [], kr_network_skills = [],
      kr_disabled_skills = [], kr_entries = entries\<rparr>"

definition toggle_skill :: "string \<Rightarrow> skill_registry \<Rightarrow> bool option \<times> skill_registry" where
  "toggle_skill name r =
     (if hm_get (kr_local_skills r) name = None \<and> hm_get (kr_network_skills r) name = None then (None, r)
      else if List.member (kr_disabled_skills r) name
      then (Some True, r\<lparr>kr_disabled_skills := filter (\<lambda>n. n \<noteq> name) (kr_disabled_skills r)\<rparr>)
      else (Some False, r\<lparr>kr_disabled_skills := name # kr_disabled_skills r\<rparr>))"

definition skill_is_enabled :: "skill_registry \<Rightarrow> string \<Rightarrow> bool" where
  "skill_is_enabled r name \<longleftrightarrow> \<not> List.member (kr_disabled_skills r) name"

fun entry_file :: "string \<Rightarrow> string \<Rightarrow> skill_entry \<Rightarrow> (string \<times> string) option" where
  "entry_file dir name (MarkdownFile bytes) = Some (path_join dir name, bytes)"
| "entry_file dir name (SkillDirectory (Some bytes)) = Some (path_join (path_join dir name) ''SKILL.md'', bytes)"
| "entry_file dir name (SkillDirectory None) = None"
| "entry_file dir name OtherEntry = None"

fun scan_entries ::
    "skill_env \<Rightarrow> string \<Rightarrow> string \<Rightarrow> (string \<times> skill_entry) list \<Rightarrow> nat \<times> (string, loaded_skill) hmap \<Rightarrow>
       nat \<times> (string, loaded_skill) hmap" where
  "scan_entries e invalid dir [] acc = acc"
| "scan_entries e invalid dir ((name, x) # xs) acc =
     scan_entries e invalid dir xs
       (case entry_file dir name x of
          None \<Rightarrow> acc
        | Some (path, bytes) \<Rightarrow>
            (case parse_skill e invalid path bytes LocalTrust of
               Inl _ \<Rightarrow> acc
             | Inr s \<Rightarrow> (fst acc + 1, hm_insert (sm_name (sk_manifest s)) s (snd acc))))"

text \<open>\<open>unreadable\<close> is the error of reading the directory.\<close>

definition scan_skills :: "skill_env \<Rightarrow> string \<Rightarrow> string option \<Rightarrow> skill_registry \<Rightarrow> (string + nat) \<times> skill_registry" where
  "scan_skills e invalid unreadable r =
     (case unreadable of
        Some x \<Rightarrow> (Inl x, r\<lparr>kr_local_skills := []\<rparr>)
      | None \<Rightarrow>
          (case scan_entries e invalid (kr_skills_dir r) (kr_entries r) (0, []) of
             (n, ss) \<Rightarrow> (Inr n, r\<lparr>kr_local_skills := ss\<rparr>)))"

definition select_best_skill :: "skill_env \<Rightarrow> skill_registry \<Rightarrow> string \<Rightarrow> loaded_skill option" where
  "select_best_skill e r input =
     (case select_skills e (map snd (kr_local_skills r)) input [] 1 (f32_lit 3 10) of
        s # _ \<Rightarrow> Some (ss_skill s) | [] \<Rightarrow> None)"

definition list_all_skills :: "skill_registry \<Rightarrow> skill_info list" where
  "list_all_skills r =
     map (\<lambda>(_, s). let m = sk_manifest s in
            \<lparr>si_name = sm_name m, si_version = sm_version m, si_description = sm_description m,
             si_trust = sk_trust s, si_available = sk_requirements_met s, si_provider = kr_local_peer_id r,
             si_price = sh_price (sm_sharing m), si_keywords = ac_keywords (sm_activation m),
             si_tags = ac_tags (sm_activation m), si_enabled = skill_is_enabled r (sm_name m)\<rparr>)
       (kr_local_skills r) @
     List.map_filter (\<lambda>(name, as). case as of
          [] \<Rightarrow> None
        | a # _ \<Rightarrow> Some
            \<lparr>si_name = name, si_version = sa_version a, si_description = sa_description a, si_trust = NetworkTrust,
             si_available = True, si_provider = sa_provider a, si_price = sa_price a, si_keywords = sa_keywords a,
             si_tags = sa_tags a, si_enabled = skill_is_enabled r name\<rparr>)
       (kr_network_skills r)"

definition put_announcement :: "skill_announcement \<Rightarrow> skill_announcement list \<Rightarrow> skill_announcement list" where
  "put_announcement a as =
     stable_sort (\<lambda>x y. sa_price x < sa_price y)
       (if list_ex (\<lambda>b. sa_provider b = sa_provider a) as
        then replace_first (\<lambda>b. sa_provider b = sa_provider a) a as else as @ [a])"

definition register_network_skill :: "skill_announcement \<Rightarrow> skill_registry \<Rightarrow> skill_registry" where
  "register_network_skill a r =
     r\<lparr>kr_network_skills :=
         hm_insert (sa_name a) (put_announcement a (hm_get_or [] (kr_network_skills r) (sa_name a)))
           (kr_network_skills r)\<rparr>"

definition get_announcements :: "skill_registry \<Rightarrow> skill_announcement list" where
  "get_announcements r =
     map (\<lambda>(_, s). let m = sk_manifest s in
            \<lparr>sa_name = sm_name m, sa_version = sm_version m, sa_description = sm_description m, sa_hash = sk_hash s,
             sa_price = sh_price (sm_sharing m), sa_provider = kr_local_peer_id r,
             sa_keywords = ac_keywords (sm_activation m), sa_tags = ac_tags (sm_activation m)\<rparr>)
       (filter (\<lambda>(_, s). sh_enabled (sm_sharing (sk_manifest s))) (kr_local_skills r))"

definition install_skill ::
    "skill_env \<Rightarrow> string option \<Rightarrow> string \<Rightarrow> skill_trust \<Rightarrow> skill_registry \<Rightarrow>
       (skill_parse_error + loaded_skill) \<times> skill_registry" where
  "install_skill e write_error content trust r =
     (case parse_skill_content e content (WorkspaceSource (kr_skills_dir r)) trust of
        Inl x \<Rightarrow> (Inl x, r)
      | Inr s \<Rightarrow>
          (case write_error of
             Some x \<Rightarrow> (Inl (SkillIo x), r)
           | None \<Rightarrow>
               (Inr s, r\<lparr>kr_entries := hm_insert (sm_name (sk_manifest s) @ ''.md'') (MarkdownFile content) (kr_entries r),
                         kr_local_skills := hm_insert (sm_name (sk_manifest s)) s (kr_local_skills r)\<rparr>)))"

definition remove_skill :: "string \<Rightarrow> skill_registry \<Rightarrow> bool \<times> skill_registry" where
  "remove_skill name r =
     (if hm_get (kr_local_skills r) name = None then (False, r)
      else (True, r\<lparr>kr_local_skills := hm_remove name (kr_local_skills r),
                    kr_entries :=
                      (case hm_get (kr_entries r) (name @ ''.md'') of
                         Some (SkillDirectory _) \<Rightarrow> kr_entries r
                       | _ \<Rightarrow> hm_remove (name @ ''.md'') (kr_entries r))\<rparr>))"

definition build_announcement_batch ::
    "skill_env \<Rightarrow> (string \<Rightarrow> string) \<Rightarrow> u64 \<Rightarrow> skill_registry \<Rightarrow> skill_batch option" where
  "build_announcement_batch e signer now r =
     (let as = get_announcements r
      in if as = [] then None
         else
           let b = \<lparr>sb_peer_id = kr_local_peer_id r, sb_skills = as, sb_timestamp = now, sb_signature = []\<rparr>
           in Some (b\<lparr>sb_signature := signer (batch_signing_bytes e b)\<rparr>))"

definition handle_announcement_batch ::
    "skill_env \<Rightarrow> (string \<Rightarrow> string \<Rightarrow> string \<Rightarrow> bool) \<Rightarrow> u64 \<Rightarrow> skill_batch \<Rightarrow> skill_registry \<Rightarrow> skill_registry" where
  "handle_announcement_batch e verifier now b r =
     (if sb_peer_id b = kr_local_peer_id r then r
      else if batch_is_expired now 600 b then r
      else if \<not> verifier (sb_peer_id b) (batch_signing_bytes e b) (sb_signature b) then r
      else foldl (\<lambda>r a. register_network_skill a r) r (sb_skills b))"

subsection \<open>Batches from the network\<close>

text \<open>
  What the program takes for verification: the sender the transport reports, if any, is the peer the
  batch names, and the signature has 64 bytes. The signed bytes are not looked at.
\<close>

definition verify_skill_source :: "string option \<Rightarrow> string \<Rightarrow> string \<Rightarrow> string \<Rightarrow> bool" where
  "verify_skill_source source claimed msg sig \<longleftrightarrow>
     (case source of
        None \<Rightarrow> False
      | Some src \<Rightarrow>
          if src \<noteq> claimed then False
          else if length sig \<noteq> 64 then False
          else True)"

text \<open>A message of the skills topic: its sender, and what MessagePack makes of its bytes.\<close>

definition receive_skill_message ::
    "skill_env \<Rightarrow> string option \<Rightarrow> u64 \<Rightarrow> skill_batch option \<Rightarrow> skill_registry \<Rightarrow> skill_registry" where
  "receive_skill_message e source now decoded r =
     (case decoded of
        None \<Rightarrow> r
      | Some b \<Rightarrow> handle_announcement_batch e (verify_skill_source source) now b r)"

end
