(* ===== verification/Skills_Props.thy ===== *)
theory Skills_Props
  imports Skills
begin

section \<open>Selection and announcement of skills\<close>

subsection \<open>Selection\<close>

lemma in_take_or_later:
  "sorted_wrt r xs \<Longrightarrow> x \<in> set xs \<Longrightarrow> x \<in> set (take k xs) \<or> length (take k xs) = k \<and> (\<forall>y \<in> set (take k xs). r y x)"
proof (induction xs arbitrary: k)
  case (Cons z xs)
  then show ?case by (cases k) auto
qed simp

lemma selection_sorted:
  assumes "\<forall>s \<in> set xs. ss_score s \<noteq> NaN"
  shows "sorted_wrt (\<lambda>s t. f_le (ss_score t) (ss_score s)) (stable_sort better_score xs)"
proof -
  have "sorted_wrt (\<lambda>x y. \<not> better_score y x) (stable_sort better_score xs)"
  proof (rule sorted_stable_sort_on [where A = "set xs"])
    fix x y z assume "x \<in> set xs" "y \<in> set xs" "z \<in> set xs" "\<not> better_score y x" "\<not> better_score z y"
    then show "\<not> better_score z x"
      using assms by (simp add: better_score_def f_not_lt) (blast intro: f_le_trans)
  next
    fix x y assume "x \<in> set xs" "y \<in> set xs" "better_score x y"
    then show "\<not> better_score y x"
      using assms by (simp add: better_score_def f_not_lt f_lt_imp_le)
  qed simp
  then show ?thesis
    using assms by (elim sorted_wrt_mono_rel [rotated]) (auto simp: better_score_def f_not_lt)
qed

text \<open>C34: The skills chosen for an input are scored skills that are available and reach the least score, at most as many as asked for and the best first; a skill that qualifies is left out only if as many were chosen, none of them with a lower score.\<close>

theorem selected_skills_best:
  "let r = select_skills e skills input tags k least
    in length r \<le> k \<and>
       sorted_wrt (\<lambda>s t. f_le (ss_score t) (ss_score s)) r \<and>
       (\<forall>s \<in> set r. \<exists>sk \<in> set skills. sk_requirements_met sk \<and> s = score_skill e sk input tags \<and> f_le least (ss_score s)) \<and>
       (\<forall>sk \<in> set skills. sk_requirements_met sk \<and> f_le least (ss_score (score_skill e sk input tags)) \<longrightarrow>
          score_skill e sk input tags \<in> set r \<or>
          length r = k \<and> (\<forall>s \<in> set r. f_le (ss_score (score_skill e sk input tags)) (ss_score s)))"
proof -
  let ?q = "filter (\<lambda>s. f_le least (ss_score s)) (map (\<lambda>sk. score_skill e sk input tags) (filter sk_requirements_met skills))"
  let ?s = "stable_sort better_score ?q"
  have nan: "\<forall>s \<in> set ?q. ss_score s \<noteq> NaN" by auto
  have srt: "sorted_wrt (\<lambda>s t. f_le (ss_score t) (ss_score s)) ?s" by (rule selection_sorted [OF nan])
  have sel: "select_skills e skills input tags k least = take k ?s"
    by (simp add: select_skills_def)
  have "score_skill e sk input tags \<in> set (take k ?s) \<or>
      length (take k ?s) = k \<and> (\<forall>s \<in> set (take k ?s). f_le (ss_score (score_skill e sk input tags)) (ss_score s))"
    if "sk \<in> set skills" "sk_requirements_met sk" "f_le least (ss_score (score_skill e sk input tags))" for sk
    using in_take_or_later [OF srt] that by simp
  moreover have "\<exists>sk \<in> set skills. sk_requirements_met sk \<and> s = score_skill e sk input tags \<and> f_le least (ss_score s)"
    if "s \<in> set (take k ?s)" for s
  proof -
    have "s \<in> set ?q" using in_set_takeD [OF that] by simp
    then show ?thesis by auto
  qed
  moreover have "length (take k ?s) \<le> k" by simp
  ultimately show ?thesis
    unfolding sel Let_def using sorted_wrt_take [OF srt] by blast
qed

definition demo_skill_env :: skill_env where
  "demo_skill_env =
     \<lparr>kx_yaml = (\<lambda>_. Inl []), kx_hash = (\<lambda>_. []), kx_hex = (\<lambda>_. []), kx_regex = (\<lambda>_. None), kx_lower = ascii_lower,
      kx_binary = (\<lambda>_. True), kx_variable = (\<lambda>_. True), kx_msgpack = (\<lambda>_. None)\<rparr>"

definition demo_skill :: "string \<Rightarrow> string list \<Rightarrow> loaded_skill" where
  "demo_skill name keywords =
     \<lparr>sk_manifest = \<lparr>sm_name = name, sm_version = ''1'', sm_description = [], sm_author = None,
        sm_activation = \<lparr>ac_keywords = keywords, ac_exclude_keywords = [], ac_patterns = [], ac_tags = [],
          ac_max_context_tokens = 2000\<rparr>,
        sm_requires = \<lparr>sr_bins = [], sr_env = [], sr_tools = [], sr_models = []\<rparr>,
        sm_sharing = \<lparr>sh_enabled = False, sh_price = 0, sh_rate_limit = None\<rparr>\<rparr>,
      sk_prompt_content = ''text'', sk_trust = LocalTrust, sk_source = BundledSource [], sk_hash = [],
      sk_requirements_met = True\<rparr>"

theorem selected_skills_best_witness:
  "let skills = [demo_skill ''a'' [''review''], demo_skill ''b'' [''review'', ''code'']];
       r = select_skills demo_skill_env skills ''Review my code'' [] 1 (f32_lit 3 10)
   in length r \<le> 1 \<and>
      (score_skill demo_skill_env (demo_skill ''a'' [''review'']) ''Review my code'' [] \<in> set r \<or> length r = 1)"
proof -
  let ?a = "demo_skill ''a'' [''review'']"
  have "sk_requirements_met ?a" by (simp add: demo_skill_def)
  moreover have "f_le (f32_lit 3 10) (ss_score (score_skill demo_skill_env ?a ''Review my code'' []))"
    by code_simp
  ultimately show ?thesis
    using selected_skills_best [where e = demo_skill_env and k = 1 and least = "f32_lit 3 10" and tags = "[]"
        and input = "''Review my code''" and skills = "[?a, demo_skill ''b'' [''review'', ''code'']]"]
    unfolding Let_def by (meson list.set_intros(1))
qed

subsection \<open>Skills of other peers\<close>

text \<open>The announcement of a skill by a provider, the last one counts.\<close>

definition announced :: "skill_registry \<Rightarrow> string \<Rightarrow> string \<Rightarrow> skill_announcement option" where
  "announced r name provider =
     find (\<lambda>a. sa_provider a = provider) (hm_get_or [] (kr_network_skills r) name)"

fun last_announcement :: "skill_announcement list \<Rightarrow> string \<Rightarrow> string \<Rightarrow> skill_announcement option" where
  "last_announcement as name provider = find (\<lambda>a. sa_name a = name \<and> sa_provider a = provider) (rev as)"

text \<open>What holds of the announcements of one skill: no provider twice, cheapest first.\<close>

definition offers_ok :: "skill_announcement list \<Rightarrow> bool" where
  "offers_ok as \<longleftrightarrow> distinct (map sa_provider as) \<and> sorted (map sa_price as)"

lemma distinct_card_iff: "distinct ys \<longleftrightarrow> card (set ys) = length ys"
  by (metis card_distinct distinct_card)

lemma distinct_map_stable_sort: "distinct (map f (stable_sort lt xs)) \<longleftrightarrow> distinct (map f xs)"
  unfolding distinct_card_iff by simp

lemma option_ext: "(\<And>b. x = Some b \<longleftrightarrow> y = Some b) \<Longrightarrow> x = y"
  by (cases x; cases y) auto

lemma offers_sorted: "sorted (map sa_price (put_announcement a as))"
proof -
  have "sorted_wrt (\<lambda>x y. \<not> sa_price y < sa_price x) (put_announcement a as)"
    unfolding put_announcement_def by (rule sorted_stable_sort) auto
  then show ?thesis by (simp add: sorted_wrt_map not_less)
qed

lemma replace_first_other:
  "distinct (map f as) \<Longrightarrow> \<exists>b \<in> set as. f b = f a \<Longrightarrow>
     distinct (map f (replace_first (\<lambda>b. f b = f a) a as)) \<and>
     set (replace_first (\<lambda>b. f b = f a) a as) = insert a {b \<in> set as. f b \<noteq> f a}"
proof (induction as)
  case (Cons b as)
  show ?case
  proof (cases "f b = f a")
    case True
    then have "{c \<in> set as. f c \<noteq> f a} = set as" using Cons.prems(1) by (auto simp: rev_image_eqI)
    then show ?thesis using True Cons.prems(1) by auto
  next
    case False
    then show ?thesis using Cons by (auto simp: image_iff)
  qed
qed simp

lemma put_announcement_ok:
  assumes "offers_ok as"
  shows "offers_ok (put_announcement a as)"
    "set (put_announcement a as) = insert a {b \<in> set as. sa_provider b \<noteq> sa_provider a}"
proof -
  have d: "distinct (map sa_provider as)" using assms by (simp add: offers_ok_def)
  show "set (put_announcement a as) = insert a {b \<in> set as. sa_provider b \<noteq> sa_provider a}"
    using replace_first_other [OF d, of a] by (auto simp: put_announcement_def list_ex_iff)
  have "distinct (map sa_provider (put_announcement a as))"
    using replace_first_other [OF d, of a] d
    by (auto simp: put_announcement_def list_ex_iff distinct_map_stable_sort)
  then show "offers_ok (put_announcement a as)"
    using offers_sorted by (simp add: offers_ok_def)
qed

lemma find_distinct:
  "distinct (map f as) \<Longrightarrow> find (\<lambda>a. f a = x) as = Some a \<longleftrightarrow> a \<in> set as \<and> f a = x"
  by (induction as) (auto simp: rev_image_eqI)

lemma find_put:
  assumes "offers_ok as"
  shows "find (\<lambda>b. sa_provider b = p) (put_announcement a as) =
    (if p = sa_provider a then Some a else find (\<lambda>b. sa_provider b = p) as)"
proof -
  let ?l = "find (\<lambda>b. sa_provider b = p) (put_announcement a as)"
  let ?o = "find (\<lambda>b. sa_provider b = p) as"
  have d: "distinct (map sa_provider (put_announcement a as))" "distinct (map sa_provider as)"
    using put_announcement_ok(1) [OF assms] assms by (simp_all add: offers_ok_def)
  have l: "?l = Some b \<longleftrightarrow> b = a \<and> sa_provider a = p \<or> b \<in> set as \<and> sa_provider b \<noteq> sa_provider a \<and> sa_provider b = p" for b
    using find_distinct [OF d(1)] put_announcement_ok(2) [OF assms, of a] by auto
  have o: "?o = Some b \<longleftrightarrow> b \<in> set as \<and> sa_provider b = p" for b
    using find_distinct [OF d(2)] by simp
  show ?thesis
  proof (cases "p = sa_provider a")
    case True
    then show ?thesis using l [of a] by simp
  next
    case False
    then have "?l = Some b \<longleftrightarrow> ?o = Some b" for b using l [of b] o [of b] by auto
    then have "?l = ?o" by (rule option_ext)
    then show ?thesis using False by simp
  qed
qed

text \<open>The registry as the map of the last announcements.\<close>

definition network_ok :: "skill_registry \<Rightarrow> bool" where
  "network_ok r \<longleftrightarrow> (\<forall>name. offers_ok (hm_get_or [] (kr_network_skills r) name))"

lemma register_step:
  assumes "network_ok r"
  shows "network_ok (register_network_skill a r)"
    "announced (register_network_skill a r) n p =
       (if n = sa_name a \<and> p = sa_provider a then Some a else announced r n p)"
proof -
  have old: "offers_ok (hm_get_or [] (kr_network_skills r) m)" for m
    using assms by (simp add: network_ok_def)
  have new: "hm_get_or [] (kr_network_skills (register_network_skill a r)) m =
      (if m = sa_name a then put_announcement a (hm_get_or [] (kr_network_skills r) (sa_name a))
       else hm_get_or [] (kr_network_skills r) m)" for m
    by (simp add: register_network_skill_def)
  show "network_ok (register_network_skill a r)"
    unfolding network_ok_def new using old put_announcement_ok(1) [OF old] by simp
  show "announced (register_network_skill a r) n p =
       (if n = sa_name a \<and> p = sa_provider a then Some a else announced r n p)"
    unfolding announced_def new using find_put [OF old] by simp
qed

lemma register_all:
  assumes "network_ok r"
  shows "network_ok (foldl (\<lambda>r a. register_network_skill a r) r as) \<and>
    announced (foldl (\<lambda>r a. register_network_skill a r) r as) n p =
      (case last_announcement as n p of Some a \<Rightarrow> Some a | None \<Rightarrow> announced r n p)"
proof (induction as rule: rev_induct)
  case (snoc a as)
  then show ?case using register_step by auto
qed (simp add: assms)

text \<open>Messages received one after the other, each with its sender and time.\<close>

type_synonym skill_message = "string option \<times> u64 \<times> skill_batch option"

definition receive_messages :: "skill_env \<Rightarrow> skill_message list \<Rightarrow> skill_registry \<Rightarrow> skill_registry" where
  "receive_messages e ms r = foldl (\<lambda>r (source, now, b). receive_skill_message e source now b r) r ms"

text \<open>The announcements a message brings: all those of a batch that another peer sent itself, at most ten
  minutes ago by its own account, with anything of 64 bytes for a signature.\<close>

definition brings :: "string \<Rightarrow> skill_message \<Rightarrow> skill_announcement list" where
  "brings me m =
     (case m of
        (Some sender, now, Some b) \<Rightarrow>
          if sender = sb_peer_id b \<and> sender \<noteq> me \<and> unat now \<le> unat (sb_timestamp b) + 600 \<and> length (sb_signature b) = 64
          then sb_skills b else []
      | _ \<Rightarrow> [])"

lemma register_keeps_peer [simp]:
  "kr_local_peer_id (foldl (\<lambda>r a. register_network_skill a r) r as) = kr_local_peer_id r"
  by (induction as rule: rev_induct) (simp_all add: register_network_skill_def)

lemma fresh_batch: "\<not> batch_is_expired now 600 b \<longleftrightarrow> unat now \<le> unat (sb_timestamp b) + 600"
  by (auto simp: batch_is_expired_def word_less_nat_alt)

lemma receive_message_brings:
  "receive_skill_message e source now b r =
     foldl (\<lambda>r a. register_network_skill a r) r (brings (kr_local_peer_id r) (source, now, b))"
  by (auto simp: receive_skill_message_def handle_announcement_batch_def verify_skill_source_def brings_def
      simp flip: fresh_batch split: option.split)

lemma receive_messages_foldl:
  "receive_messages e ms r =
     foldl (\<lambda>r a. register_network_skill a r) r (concat (map (brings (kr_local_peer_id r)) ms))"
proof (induction ms rule: rev_induct)
  case (snoc m ms)
  obtain source now b where m: "m = (source, now, b)" by (cases m)
  have "kr_local_peer_id (receive_messages e ms r) = kr_local_peer_id r" using snoc by simp
  then have "receive_messages e (ms @ [m]) r =
      foldl (\<lambda>r a. register_network_skill a r) (receive_messages e ms r) (brings (kr_local_peer_id r) m)"
    by (simp add: receive_messages_def m receive_message_brings)
  then show ?case using snoc by simp
qed (simp add: receive_messages_def)

text \<open>C33: After any messages on the skills topic the registry's table of other peers' skills holds, for each name and provider, the last announcement of that pair in the batches that were taken over, and nothing else; each skill's offers have one entry per provider and are sorted by price, the cheapest first. A batch is taken over when the message decodes, its sender as the transport reports it is the peer the batch names and not this one, the batch is at most ten minutes older than the clock, and its signature has 64 bytes; the signature is not verified, and the providers its announcements name may be any.\<close>

theorem announcements_refine_table:
  "let r = receive_messages e ms (skill_registry_new dir me entries)
    in announced r name provider = last_announcement (concat (map (brings me) ms)) name provider \<and>
       distinct (map sa_provider (hm_get_or [] (kr_network_skills r) name)) \<and>
       sorted (map sa_price (hm_get_or [] (kr_network_skills r) name))"
proof -
  have ok: "network_ok (skill_registry_new dir me entries)"
    by (simp add: network_ok_def skill_registry_new_def hm_get_or_def offers_ok_def)
  have "announced (skill_registry_new dir me entries) name provider = None"
    by (simp add: announced_def skill_registry_new_def hm_get_or_def)
  then show ?thesis
    using register_all [OF ok, of "concat (map (brings me) ms)" name provider]
    by (auto simp: receive_messages_foldl skill_registry_new_def Let_def network_ok_def offers_ok_def
        split: option.splits)
qed

text \<open>Any peer can put an announcement in another's name, with any 64 bytes for a signature.\<close>

theorem forged_offer_taken_over:
  assumes "sb_peer_id b \<noteq> me" and "length (sb_signature b) = 64" and "sb_timestamp b = now" and "sb_skills b = [a]"
  shows "announced (receive_skill_message e (Some (sb_peer_id b)) now (Some b) (skill_registry_new dir me entries))
    (sa_name a) (sa_provider a) = Some a"
proof -
  have ok: "network_ok (skill_registry_new dir me entries)"
    by (simp add: network_ok_def skill_registry_new_def hm_get_or_def offers_ok_def)
  have "brings me (Some (sb_peer_id b), now, Some b) = [a]"
    using assms by (simp add: brings_def)
  then show ?thesis
    using register_step(2) [OF ok, of a] by (simp add: receive_message_brings skill_registry_new_def)
qed

definition forged_offer :: skill_announcement where
  "forged_offer =
     \<lparr>sa_name = ''review'', sa_version = ''1'', sa_description = [], sa_hash = [], sa_price = 0, sa_provider = ''victim'',
      sa_keywords = [], sa_tags = []\<rparr>"

theorem forged_offer_taken_over_witness:
  "announced (receive_skill_message demo_skill_env (Some ''mallory'') 5
       (Some \<lparr>sb_peer_id = ''mallory'', sb_skills = [forged_offer], sb_timestamp = 5, sb_signature = replicate 64 (CHR ''0'')\<rparr>)
       (skill_registry_new ''skills'' ''me'' []))
     ''review'' ''victim'' = Some forged_offer"
  using forged_offer_taken_over [of "\<lparr>sb_peer_id = ''mallory'', sb_skills = [forged_offer], sb_timestamp = 5,
      sb_signature = replicate 64 (CHR ''0'')\<rparr>" "''me''" 5 forged_offer demo_skill_env "''skills''" "[]"]
  by (simp add: forged_offer_def)

end
