(* ===== verification/Distribution.thy ===== *)
theory Distribution
  imports F64 Text
begin

section \<open>Distribution of models between peers\<close>

text \<open>
  Models \<^verbatim>\<open>src/inference/distribution.rs\<close>: metadata of a model file, the state of a download, and
  the distributor that serves chunks and assembles received ones. The disk is a map from paths to
  contents; its errors, the hash (BLAKE3, in hexadecimal digits) and the clock are parameters.
\<close>

definition chunk_size :: nat where
  "chunk_size = 256 * 1024"

fun chunks_fuel :: "nat \<Rightarrow> nat \<Rightarrow> string \<Rightarrow> string list" where
  "chunks_fuel 0 n s = []"
| "chunks_fuel (Suc k) n s = (if s = [] then [] else take n s # chunks_fuel k n (drop n s))"

text \<open>The slice method \<open>chunks\<close>; there are at most as many chunks as bytes.\<close>

definition chunks_of :: "nat \<Rightarrow> string \<Rightarrow> string list" where
  "chunks_of n s = chunks_fuel (length s) n s"

record model_metadata =
  md_id :: string
  md_size_bytes :: u64
  md_chunk_count :: u32
  md_file_hash :: string
  md_chunk_hashes :: "string list"
  md_filename :: string

text \<open>The file has a name, or the id with an ending.\<close>

definition metadata_from_file :: "(string \<Rightarrow> string) \<Rightarrow> string \<Rightarrow> string option \<Rightarrow> string \<Rightarrow> model_metadata" where
  "metadata_from_file hash model_id filename contents =
     \<lparr>md_id = model_id, md_size_bytes = word_of_nat (length contents),
      md_chunk_count = word_of_nat ((length contents + chunk_size - 1) div chunk_size),
      md_file_hash = hash contents, md_chunk_hashes = map hash (chunks_of chunk_size contents),
      md_filename = (case filename of Some n \<Rightarrow> n | None \<Rightarrow> model_id @ ''.gguf'')\<rparr>"

definition verify_chunk :: "(string \<Rightarrow> string) \<Rightarrow> model_metadata \<Rightarrow> u32 \<Rightarrow> string \<Rightarrow> bool" where
  "verify_chunk hash m i data \<longleftrightarrow>
     (if unat i < length (md_chunk_hashes m) then hash data = md_chunk_hashes m ! unat i else False)"

subsection \<open>A download\<close>

record download_state =
  dl_metadata :: model_metadata
  dl_received_chunks :: "bool list"
  dl_temp_path :: string
  dl_source_peer :: string
  dl_started_at :: timestamp
  dl_bytes_received :: u64

definition download_state_new :: "model_metadata \<Rightarrow> string \<Rightarrow> string \<Rightarrow> timestamp \<Rightarrow> download_state" where
  "download_state_new m temp_dir peer now =
     \<lparr>dl_metadata = m, dl_received_chunks = replicate (unat (md_chunk_count m)) False,
      dl_temp_path = path_join temp_dir (md_id m @ ''.partial''), dl_source_peer = peer, dl_started_at = now,
      dl_bytes_received = 0\<rparr>"

definition mark_received :: "u32 \<Rightarrow> nat \<Rightarrow> download_state \<Rightarrow> download_state" where
  "mark_received i size' d =
     (if unat i < length (dl_received_chunks d) \<and> \<not> dl_received_chunks d ! unat i
      then d\<lparr>dl_received_chunks := (dl_received_chunks d)[unat i := True],
             dl_bytes_received := dl_bytes_received d + word_of_nat size'\<rparr>
      else d)"

definition download_is_complete :: "download_state \<Rightarrow> bool" where
  "download_is_complete d \<longleftrightarrow> list_all (\<lambda>r. r) (dl_received_chunks d)"

definition download_fraction :: "download_state \<Rightarrow> f64" where
  "download_fraction d =
     f_div (f_of_int (int (length (filter (\<lambda>r. r) (dl_received_chunks d))))) (f_of_u32 (md_chunk_count (dl_metadata d)))"

fun next_missing :: "nat \<Rightarrow> bool list \<Rightarrow> nat option" where
  "next_missing i [] = None"
| "next_missing i (r # rs) = (if r then next_missing (Suc i) rs else Some i)"

definition next_missing_chunk :: "download_state \<Rightarrow> u32 option" where
  "next_missing_chunk d = map_option word_of_nat (next_missing 0 (dl_received_chunks d))"

text \<open>\<open>elapsed\<close> in seconds.\<close>

definition download_speed :: "f64 \<Rightarrow> download_state \<Rightarrow> f64" where
  "download_speed elapsed d =
     (if f_lt (Fin 0 0) elapsed then f_div (f_of_u64 (dl_bytes_received d)) elapsed else Fin 0 0)"

subsection \<open>The distributor\<close>

datatype distribution_error =
    ModelExists string
  | AlreadyDownloading string
  | NotDownloading string
  | DownloadIncomplete string
  | ChunkVerificationFailed string u32
  | FileVerificationFailed string string string
  | DistributionIo string
  | NoProviders string
  | DistributionNetwork string

text \<open>
  The disk: the error of a missing file, and those of creating the directory of partial files, of creating, opening and reading
  a file, of setting its length and of renaming it; a failed write leaves some contents behind.
\<close>

record distribution_env =
  dx_hash :: "string \<Rightarrow> string"
  dx_now :: timestamp
  dx_missing :: string
  dx_directory :: "string \<Rightarrow> string option"
  dx_create :: "string \<Rightarrow> string option"
  dx_set_length :: "string \<Rightarrow> string option"
  dx_open :: "string \<Rightarrow> string option"
  dx_write :: "string \<Rightarrow> nat \<Rightarrow> string \<Rightarrow> (string \<times> string) option"
  dx_read :: "string \<Rightarrow> string option"
  dx_rename :: "string \<Rightarrow> string \<Rightarrow> string option"

record distributor =
  di_models_dir :: string
  di_available_models :: "(string, model_metadata) hmap"
  di_pending_downloads :: "(string, download_state) hmap"
  di_providers :: "(string, string list) hmap"
  di_files :: "(string, string) hmap"

definition distributor_new :: "string \<Rightarrow> (string, string) hmap \<Rightarrow> distributor" where
  "distributor_new dir files =
     \<lparr>di_models_dir = dir, di_available_models = [], di_pending_downloads = [], di_providers = [], di_files = files\<rparr>"

text \<open>The GGUF files of the directory, by stem and name, and whether they can be read.\<close>

definition scan_available ::
    "distribution_env \<Rightarrow> (string \<times> string) list \<Rightarrow> distributor \<Rightarrow> distributor" where
  "scan_available e entries d =
     d\<lparr>di_available_models :=
         foldl (\<lambda>m (stem, name).
                  case hm_get (di_files d) (path_join (di_models_dir d) name) of
                    None \<Rightarrow> m
                  | Some contents \<Rightarrow>
                      if dx_read e (path_join (di_models_dir d) name) \<noteq> None then m
                      else hm_insert stem (metadata_from_file (dx_hash e) stem (Some name) contents) m)
               [] entries\<rparr>"

definition distributor_has_model :: "distributor \<Rightarrow> string \<Rightarrow> bool" where
  "distributor_has_model d model_id \<longleftrightarrow> hm_get (di_available_models d) model_id \<noteq> None"

definition read_chunk :: "distribution_env \<Rightarrow> distributor \<Rightarrow> string \<Rightarrow> u32 \<Rightarrow> string option" where
  "read_chunk e d model_id i =
     (case hm_get (di_available_models d) model_id of
        None \<Rightarrow> None
      | Some m \<Rightarrow>
          let path = path_join (di_models_dir d) (md_filename m);
              offset = unat i * chunk_size;
              n = min (unat (md_size_bytes m) - offset) chunk_size
          in (case hm_get (di_files d) path of
                None \<Rightarrow> None
              | Some contents \<Rightarrow>
                  if dx_open e path \<noteq> None then None
                  else if n = 0 then None
                  else if dx_read e path \<noteq> None \<or> length contents < offset + n then None
                  else Some (take n (drop offset contents))))"

definition register_model_provider :: "string \<Rightarrow> string \<Rightarrow> distributor \<Rightarrow> distributor" where
  "register_model_provider model_id peer d =
     d\<lparr>di_providers := hm_insert model_id (hm_get_or [] (di_providers d) model_id @ [peer]) (di_providers d)\<rparr>"

definition model_providers :: "distributor \<Rightarrow> string \<Rightarrow> string list" where
  "model_providers d model_id = hm_get_or [] (di_providers d) model_id"

definition start_download ::
    "distribution_env \<Rightarrow> model_metadata \<Rightarrow> string \<Rightarrow> distributor \<Rightarrow> distribution_error option \<times> distributor" where
  "start_download e m peer d =
     (let model_id = md_id m;
          temp_dir = path_join (di_models_dir d) ''partial'';
          st = download_state_new m temp_dir peer (dx_now e);
          path = dl_temp_path st
      in if distributor_has_model d model_id then (Some (ModelExists model_id), d)
         else if hm_get (di_pending_downloads d) model_id \<noteq> None then (Some (AlreadyDownloading model_id), d)
         else
           (case dx_directory e temp_dir of
              Some x \<Rightarrow> (Some (DistributionIo x), d)
            | None \<Rightarrow>
           (case dx_create e path of
              Some x \<Rightarrow> (Some (DistributionIo x), d)
            | None \<Rightarrow>
           (case dx_set_length e path of
              Some x \<Rightarrow> (Some (DistributionIo x), d\<lparr>di_files := hm_insert path [] (di_files d)\<rparr>)
            | None \<Rightarrow>
                (None,
                 d\<lparr>di_files := hm_insert path (replicate (unat (md_size_bytes m)) (CHR 0x00)) (di_files d),
                   di_pending_downloads := hm_insert model_id st (di_pending_downloads d)\<rparr>)))))"

text \<open>Writing behind the end leaves zeros between.\<close>

definition write_at :: "nat \<Rightarrow> string \<Rightarrow> string \<Rightarrow> string" where
  "write_at offset data contents =
     take offset (contents @ replicate (offset - length contents) (CHR 0x00)) @ data @
     drop (offset + length data) contents"

definition write_chunk ::
    "distribution_env \<Rightarrow> string \<Rightarrow> u32 \<Rightarrow> string \<Rightarrow> distributor \<Rightarrow> (distribution_error + bool) \<times> distributor" where
  "write_chunk e model_id i data d =
     (case hm_get (di_pending_downloads d) model_id of
        None \<Rightarrow> (Inl (NotDownloading model_id), d)
      | Some st \<Rightarrow>
          if \<not> verify_chunk (dx_hash e) (dl_metadata st) i data
          then (Inl (ChunkVerificationFailed model_id i), d)
          else
            let path = dl_temp_path st; offset = unat i * chunk_size
            in (case dx_open e path of
                  Some x \<Rightarrow> (Inl (DistributionIo x), d)
                | None \<Rightarrow>
               (case hm_get (di_files d) path of
                  None \<Rightarrow> (Inl (DistributionIo (dx_missing e)), d)
                | Some contents \<Rightarrow>
               (case dx_write e path offset data of
                  Some (x, rest) \<Rightarrow> (Inl (DistributionIo x), d\<lparr>di_files := hm_insert path rest (di_files d)\<rparr>)
                | None \<Rightarrow>
                    let st = mark_received i (length data) st
                    in (Inr (download_is_complete st),
                        d\<lparr>di_files := hm_insert path (write_at offset data contents) (di_files d),
                          di_pending_downloads := hm_insert model_id st (di_pending_downloads d)\<rparr>)))))"

definition complete_download ::
    "distribution_env \<Rightarrow> string \<Rightarrow> distributor \<Rightarrow> (distribution_error + string) \<times> distributor" where
  "complete_download e model_id d =
     (case hm_get (di_pending_downloads d) model_id of
        None \<Rightarrow> (Inl (NotDownloading model_id), d)
      | Some st \<Rightarrow>
          let d = d\<lparr>di_pending_downloads := hm_remove model_id (di_pending_downloads d)\<rparr>;
              path = dl_temp_path st; m = dl_metadata st;
              final_path = path_join (di_models_dir d) (md_filename m)
          in if \<not> download_is_complete st then (Inl (DownloadIncomplete model_id), d)
             else
               (case dx_read e path of
                  Some x \<Rightarrow> (Inl (DistributionIo x), d)
                | None \<Rightarrow>
               (case hm_get (di_files d) path of
                  None \<Rightarrow> (Inl (DistributionIo (dx_missing e)), d)
                | Some contents \<Rightarrow>
                    if dx_hash e contents \<noteq> md_file_hash m
                    then (Inl (FileVerificationFailed model_id (md_file_hash m) (dx_hash e contents)),
                          d\<lparr>di_files := hm_remove path (di_files d)\<rparr>)
                    else
                      (case dx_rename e path final_path of
                         Some x \<Rightarrow> (Inl (DistributionIo x), d)
                       | None \<Rightarrow>
                           (Inr final_path,
                            d\<lparr>di_files := hm_insert final_path contents (hm_remove path (di_files d)),
                              di_available_models := hm_insert model_id m (di_available_models d)\<rparr>)))))"

definition cancel_download :: "string \<Rightarrow> distributor \<Rightarrow> bool \<times> distributor" where
  "cancel_download model_id d =
     (case hm_get (di_pending_downloads d) model_id of
        None \<Rightarrow> (False, d)
      | Some st \<Rightarrow>
          (True, d\<lparr>di_pending_downloads := hm_remove model_id (di_pending_downloads d),
                   di_files := hm_remove (dl_temp_path st) (di_files d)\<rparr>))"

record download_progress =
  dp_model_id :: string
  dp_progress :: f64
  dp_bytes_received :: u64
  dp_total_bytes :: u64
  dp_speed_bps :: f64
  dp_source_peer :: string

definition progress_of_download :: "f64 \<Rightarrow> string \<Rightarrow> distributor \<Rightarrow> download_progress option" where
  "progress_of_download elapsed model_id d =
     map_option (\<lambda>st. \<lparr>dp_model_id = model_id, dp_progress = download_fraction st,
         dp_bytes_received = dl_bytes_received st, dp_total_bytes = md_size_bytes (dl_metadata st),
         dp_speed_bps = download_speed elapsed st, dp_source_peer = dl_source_peer st\<rparr>)
       (hm_get (di_pending_downloads d) model_id)"

definition eta_secs :: "download_progress \<Rightarrow> f64 option" where
  "eta_secs p =
     (if f_lt (Fin 0 0) (dp_speed_bps p)
      then Some (f_div (f_of_u64 (dp_total_bytes p - dp_bytes_received p)) (dp_speed_bps p)) else None)"

record model_announcement =
  ma_model_id :: string
  ma_size_bytes :: u64
  ma_file_hash :: string
  ma_provider_peer_id :: string
  ma_bandwidth_mbps :: "u32 option"

definition model_announcements :: "distributor \<Rightarrow> string \<Rightarrow> model_announcement list" where
  "model_announcements d peer =
     map (\<lambda>(_, m). \<lparr>ma_model_id = md_id m, ma_size_bytes = md_size_bytes m, ma_file_hash = md_file_hash m,
            ma_provider_peer_id = peer, ma_bandwidth_mbps = None\<rparr>) (di_available_models d)"

end
