(* ===== verification/Distribution_Props.thy ===== *)
theory Distribution_Props
  imports Distribution
begin

section \<open>A download delivers the file\<close>

subsection \<open>Chunks\<close>

definition chunk_at :: "nat \<Rightarrow> string \<Rightarrow> string" where
  "chunk_at i c = take chunk_size (drop (i * chunk_size) c)"

definition chunk_total :: "string \<Rightarrow> nat" where
  "chunk_total c = (length c + chunk_size - 1) div chunk_size"

lemma chunk_size_pos [simp]: "0 < chunk_size"
  by (simp add: chunk_size_def)

lemma chunks_fuel_nth:
  "0 < n \<Longrightarrow> length s \<le> k \<Longrightarrow>
     length (chunks_fuel k n s) = (length s + n - 1) div n \<and>
     (\<forall>i < length (chunks_fuel k n s). chunks_fuel k n s ! i = take n (drop (i * n) s))"
proof (induction k arbitrary: s)
  case (Suc k)
  show ?case
  proof (cases "s = []")
    case False
    have le: "length (drop n s) \<le> k" using Suc.prems False by (cases s) auto
    have len: "(length s + n - 1) div n = Suc ((length (drop n s) + n - 1) div n)"
    proof (cases "length s \<le> n")
      case True
      have "(length s + n - 1) div n = 1"
        using True False Suc.prems(1) by (cases s) (auto intro!: div_nat_eqI)
      then show ?thesis using True Suc.prems(1) by simp
    next
      case False
      have "length s + n - 1 = (length s - n + n - 1) + n" using False Suc.prems(1) by simp
      then have "(length s + n - 1) div n = Suc ((length s - n + n - 1) div n)"
        using Suc.prems(1) by (metis div_add_self2 Suc_eq_plus1 neq0_conv)
      then show ?thesis by simp
    qed
    have "chunks_fuel (Suc k) n s ! i = take n (drop (i * n) s)" if "i < length (chunks_fuel (Suc k) n s)" for i
      using that False Suc.IH [OF Suc.prems(1) le] by (cases i) (auto simp: add.commute)
    then show ?thesis
      using False len Suc.IH [OF Suc.prems(1) le] by simp
  qed (use Suc.prems in simp)
qed (use div_less in auto)

lemma chunks_of_nth:
  "length (chunks_of chunk_size c) = chunk_total c"
  "i < chunk_total c \<Longrightarrow> chunks_of chunk_size c ! i = chunk_at i c"
  using chunks_fuel_nth [of chunk_size c "length c"] by (auto simp: chunks_of_def chunk_total_def chunk_at_def)

lemma chunk_index: "k < length c \<Longrightarrow> k div chunk_size < chunk_total c"
proof -
  assume "k < length c"
  then have "k div chunk_size \<le> (length c - 1) div chunk_size" by (intro div_le_mono) simp
  also have "\<dots> < (length c - 1) div chunk_size + 1" by simp
  also have "\<dots> = (length c - 1 + chunk_size) div chunk_size" by simp
  also have "length c - 1 + chunk_size = length c + chunk_size - 1" using \<open>k < length c\<close> by simp
  finally show ?thesis by (simp add: chunk_total_def)
qed

lemma chunk_start: "i < chunk_total c \<Longrightarrow> i * chunk_size < length c"
proof -
  assume i: "i < chunk_total c"
  have "Suc i * chunk_size \<le> chunk_total c * chunk_size" using i by (intro mult_le_mono1) simp
  also have "\<dots> \<le> length c + chunk_size - 1" by (simp add: chunk_total_def)
  finally show ?thesis by (simp add: chunk_size_def)
qed

text \<open>Writing a chunk of \<open>c\<close> into a file of the same length.\<close>

lemma write_chunk_length:
  assumes "length f = length c" "i < chunk_total c"
  shows "length (write_at (i * chunk_size) (chunk_at i c) f) = length c"
  using assms chunk_start [OF assms(2)] by (auto simp: write_at_def chunk_at_def min_def)

lemma write_chunk_nth:
  assumes "length f = length c" "i < chunk_total c" "k < length c"
  shows "write_at (i * chunk_size) (chunk_at i c) f ! k = (if k div chunk_size = i then c ! k else f ! k)"
proof -
  have st: "i * chunk_size < length c" by (rule chunk_start [OF assms(2)])
  have split: "k div chunk_size = i \<longleftrightarrow> i * chunk_size \<le> k \<and> k < i * chunk_size + chunk_size"
    by (metis chunk_size_pos div_nat_eqI dividend_less_div_times mult.commute mult_Suc
        less_mult_imp_div_less add.commute div_times_less_eq_dividend mult_Suc_right)
  show ?thesis
    using assms(1,3) st unfolding split
    by (auto simp: write_at_def chunk_at_def nth_append min_def)
qed

subsection \<open>Receiving chunks\<close>

text \<open>A disk without faults.\<close>

definition faultless :: "distribution_env \<Rightarrow> bool" where
  "faultless e \<longleftrightarrow>
     (\<forall>p. dx_directory e p = None \<and> dx_create e p = None \<and> dx_set_length e p = None \<and> dx_open e p = None \<and>
        dx_read e p = None) \<and>
     (\<forall>p q. dx_rename e p q = None) \<and> (\<forall>p n s. dx_write e p n s = None)"

text \<open>Chunks as they come in, from whomever.\<close>

fun write_chunks ::
    "distribution_env \<Rightarrow> string \<Rightarrow> (u32 \<times> string) list \<Rightarrow> distributor \<Rightarrow> distributor" where
  "write_chunks e model_id [] d = d"
| "write_chunks e model_id ((i, data) # ms) d = write_chunks e model_id ms (snd (write_chunk e model_id i data d))"

text \<open>
  The download of \<open>c\<close> after the chunks \<open>got\<close>: the others are the zeros the file was made of, or
  anything else.
\<close>

definition downloading :: "string \<Rightarrow> model_metadata \<Rightarrow> string \<Rightarrow> nat set \<Rightarrow> string \<Rightarrow> distributor \<Rightarrow> bool" where
  "downloading c m path got model_id d \<longleftrightarrow>
     (\<exists>st f. hm_get (di_pending_downloads d) model_id = Some st \<and> dl_metadata st = m \<and> dl_temp_path st = path \<and>
        dl_received_chunks st = map (\<lambda>i. i \<in> got) [0..<chunk_total c] \<and>
        hm_get (di_files d) path = Some f \<and> length f = length c \<and>
        (\<forall>k < length c. k div chunk_size \<in> got \<longrightarrow> f ! k = c ! k))"

text \<open>The hash of a chunk of \<open>c\<close> is the hash of no other bytes.\<close>

definition hash_identifies :: "(string \<Rightarrow> string) \<Rightarrow> string \<Rightarrow> bool" where
  "hash_identifies hash c \<longleftrightarrow> (\<forall>i data. hash data = hash (chunk_at i c) \<longrightarrow> data = chunk_at i c)"

lemma verify_genuine:
  assumes "m = metadata_from_file hash model_id name c" "hash_identifies hash c"
  shows "verify_chunk hash m i data \<longleftrightarrow> unat i < chunk_total c \<and> data = chunk_at (unat i) c"
  using assms by (auto simp: verify_chunk_def metadata_from_file_def chunks_of_nth hash_identifies_def)

lemma marks_step:
  assumes "dl_received_chunks st = map (\<lambda>j. j \<in> got) [0..<n]" "unat i < n"
  shows "dl_received_chunks (mark_received i k st) = map (\<lambda>j. j \<in> insert (unat i) got) [0..<n]"
proof (cases "unat i \<in> got")
  case True
  then show ?thesis using assms by (auto simp: mark_received_def)
next
  case False
  then show ?thesis
    using assms by (auto simp: mark_received_def nth_list_update intro!: nth_equalityI split: if_splits)
qed

lemma mark_received_keeps [simp]:
  "dl_metadata (mark_received i k st) = dl_metadata st" "dl_temp_path (mark_received i k st) = dl_temp_path st"
  by (simp_all add: mark_received_def)

lemma write_chunk_step:
  assumes d: "downloading c m path got model_id d" and e: "faultless e"
    and m: "m = metadata_from_file (dx_hash e) id' name c" and h: "hash_identifies (dx_hash e) c"
  shows "downloading c m path (if unat i < chunk_total c \<and> data = chunk_at (unat i) c then insert (unat i) got else got)
      model_id (snd (write_chunk e model_id i data d)) \<and>
    di_models_dir (snd (write_chunk e model_id i data d)) = di_models_dir d"
proof -
  obtain st f where st: "hm_get (di_pending_downloads d) model_id = Some st" "dl_metadata st = m"
    "dl_temp_path st = path" "dl_received_chunks st = map (\<lambda>i. i \<in> got) [0..<chunk_total c]"
    and f: "hm_get (di_files d) path = Some f" "length f = length c"
      "\<forall>k < length c. k div chunk_size \<in> got \<longrightarrow> f ! k = c ! k"
    using d unfolding downloading_def by blast
  show ?thesis
  proof (cases "unat i < chunk_total c \<and> data = chunk_at (unat i) c")
    case True
    let ?f = "write_at (unat i * chunk_size) data f"
    have "snd (write_chunk e model_id i data d) =
        d\<lparr>di_files := hm_insert path ?f (di_files d),
          di_pending_downloads := hm_insert model_id (mark_received i (length data) st) (di_pending_downloads d)\<rparr>"
      using st f e True verify_genuine [OF m h, of i data]
      by (simp add: write_chunk_def faultless_def Let_def)
    moreover have "length ?f = length c" using write_chunk_length [OF f(2)] True by simp
    moreover have "\<forall>k < length c. k div chunk_size \<in> insert (unat i) got \<longrightarrow> ?f ! k = c ! k"
      using write_chunk_nth [OF f(2)] f(3) True by auto
    ultimately show ?thesis
      using True st(2,3) marks_step [OF st(4), of i] by (auto simp: downloading_def)
  next
    case False
    then have "snd (write_chunk e model_id i data d) = d"
      using st verify_genuine [OF m h, of i data] by (auto simp: write_chunk_def)
    then show ?thesis using False d by auto
  qed
qed

definition genuine :: "string \<Rightarrow> (u32 \<times> string) list \<Rightarrow> nat set" where
  "genuine c ms = {unat i |i data. (i, data) \<in> set ms \<and> unat i < chunk_total c \<and> data = chunk_at (unat i) c}"

lemma write_chunks_state:
  assumes e: "faultless e" and m: "m = metadata_from_file (dx_hash e) id' name c" and h: "hash_identifies (dx_hash e) c"
  shows "downloading c m path got model_id d \<Longrightarrow>
    downloading c m path (got \<union> genuine c ms) model_id (write_chunks e model_id ms d) \<and>
    di_models_dir (write_chunks e model_id ms d) = di_models_dir d"
proof (induction ms arbitrary: d got)
  case Nil
  then show ?case by (simp add: genuine_def)
next
  case (Cons im ms)
  obtain i data where im: "im = (i, data)" by (cases im)
  let ?got = "if unat i < chunk_total c \<and> data = chunk_at (unat i) c then insert (unat i) got else got"
  have "got \<union> genuine c (im # ms) = ?got \<union> genuine c ms"
    by (auto simp: genuine_def im)
  moreover have "downloading c m path ?got model_id (snd (write_chunk e model_id i data d))"
    "di_models_dir (snd (write_chunk e model_id i data d)) = di_models_dir d"
    using write_chunk_step [OF Cons.prems e m h, of i data] by blast+
  ultimately show ?case
    using Cons.IH [of ?got "snd (write_chunk e model_id i data d)"] im by (simp del: Un_iff)
qed

lemma downloaded_file:
  assumes "downloading c m path got model_id d" "{..<chunk_total c} \<subseteq> got"
  shows "hm_get (di_files d) path = Some c"
proof -
  obtain f where f: "hm_get (di_files d) path = Some f" "length f = length c"
      "\<forall>k < length c. k div chunk_size \<in> got \<longrightarrow> f ! k = c ! k"
    using assms(1) unfolding downloading_def by blast
  have "f ! k = c ! k" if "k < length c" for k
    using f(3) that chunk_index [OF that] assms(2) by auto
  then have "f = c" using f(2) by (intro nth_equalityI) auto
  then show ?thesis using f(1) by simp
qed

lemma start_download_state:
  assumes "faultless e" "hm_get (di_available_models d) (md_id m) = None" "hm_get (di_pending_downloads d) (md_id m) = None"
    and m: "m = metadata_from_file (dx_hash e) model_id name c" and small: "chunk_total c < 2 ^ 32" "length c < 2 ^ 64"
  shows "fst (start_download e m peer d) = None \<and>
    downloading c m (path_join (path_join (di_models_dir d) ''partial'') (md_id m @ ''.partial'')) {} (md_id m)
      (snd (start_download e m peer d)) \<and>
    di_models_dir (snd (start_download e m peer d)) = di_models_dir d"
proof -
  have "unat (md_chunk_count m) = chunk_total c" "unat (md_size_bytes m) = length c"
    using small m by (simp_all add: metadata_from_file_def chunk_total_def unsigned_of_nat take_bit_nat_eq_self)
  then show ?thesis
    using assms(1-3)
    by (simp add: start_download_def faultless_def distributor_has_model_def download_state_new_def Let_def
        downloading_def map_replicate_const)
qed

text \<open>C39: When a node downloads a model whose metadata describe the file c, on a disk without faults and with a hash that tells the chunks of c from all other bytes, then whatever chunks it receives, in whatever order, forged and repeated ones among them, completing the download puts exactly c at the final path and offers the model if every chunk of c was among them, and reports an incomplete download otherwise.\<close>

theorem download_delivers_file:
  assumes "faultless e" "hash_identifies (dx_hash e) c"
    and "m = metadata_from_file (dx_hash e) model_id name c"
    and "hm_get (di_available_models d) model_id = None" "hm_get (di_pending_downloads d) model_id = None"
    and "chunk_total c < 2 ^ 32" "length c < 2 ^ 64"
  shows "case complete_download e model_id (write_chunks e model_id ms (snd (start_download e m peer d))) of
      (r, d') \<Rightarrow>
        if genuine c ms = {..<chunk_total c}
        then r = Inr (path_join (di_models_dir d) (md_filename m)) \<and>
          hm_get (di_files d') (path_join (di_models_dir d) (md_filename m)) = Some c \<and>
          hm_get (di_available_models d') model_id = Some m
        else r = Inl (DownloadIncomplete model_id)"
proof -
  let ?path = "path_join (path_join (di_models_dir d) ''partial'') (md_id m @ ''.partial'')"
  let ?d = "write_chunks e model_id ms (snd (start_download e m peer d))"
  have i: "md_id m = model_id" "md_file_hash m = dx_hash e c"
    using assms(3) by (simp_all add: metadata_from_file_def)
  have s: "downloading c m ?path {} model_id (snd (start_download e m peer d))"
    "di_models_dir (snd (start_download e m peer d)) = di_models_dir d"
    using start_download_state [OF assms(1) _ _ assms(3,6,7), of d peer] assms(4,5) i by simp_all
  have dl: "downloading c m ?path (genuine c ms) model_id ?d" and dir: "di_models_dir ?d = di_models_dir d"
    using write_chunks_state [OF assms(1,3,2) s(1), of ms] s(2) by simp_all
  obtain st where st: "hm_get (di_pending_downloads ?d) model_id = Some st" "dl_metadata st = m"
    "dl_temp_path st = ?path" "dl_received_chunks st = map (\<lambda>i. i \<in> genuine c ms) [0..<chunk_total c]"
    using dl unfolding downloading_def by blast
  have sub: "genuine c ms \<subseteq> {..<chunk_total c}" by (auto simp: genuine_def)
  then have comp: "download_is_complete st \<longleftrightarrow> genuine c ms = {..<chunk_total c}"
    by (auto simp: download_is_complete_def st(4) list_all_iff)
  show ?thesis
  proof (cases "genuine c ms = {..<chunk_total c}")
    case True
    then have "hm_get (di_files ?d) ?path = Some c" using downloaded_file [OF dl] by simp
    then show ?thesis
      using True comp st assms(1) dir i by (simp add: complete_download_def faultless_def Let_def)
  next
    case False
    then show ?thesis using comp st by (simp add: complete_download_def Let_def)
  qed
qed

text \<open>A file of one chunk, with the identity for a hash, after a forged and a genuine chunk.\<close>

definition demo_distribution_env :: distribution_env where
  "demo_distribution_env =
     \<lparr>dx_hash = (\<lambda>s. s), dx_now = 0, dx_missing = [], dx_directory = (\<lambda>_. None), dx_create = (\<lambda>_. None),
      dx_set_length = (\<lambda>_. None), dx_open = (\<lambda>_. None), dx_write = (\<lambda>_ _ _. None), dx_read = (\<lambda>_. None),
      dx_rename = (\<lambda>_ _. None)\<rparr>"

theorem download_delivers_file_witness:
  "\<exists>d'. complete_download demo_distribution_env ''m'' (write_chunks demo_distribution_env ''m'' [(0, ''xyz''), (0, ''abc'')]
       (snd (start_download demo_distribution_env (metadata_from_file (\<lambda>s. s) ''m'' None ''abc'') ''p''
          (distributor_new ''/models'' [])))) = (Inr ''/models/m.gguf'', d') \<and>
     hm_get (di_files d') ''/models/m.gguf'' = Some ''abc''"
proof -
  let ?m = "metadata_from_file (\<lambda>s. s) ''m'' None ''abc''" and ?ms = "[(0 :: u32, ''xyz''), (0, ''abc'')]"
  have n: "chunk_total ''abc'' = 1" "chunk_at 0 ''abc'' = ''abc''"
    by (simp_all add: chunk_total_def chunk_at_def chunk_size_def)
  have g: "genuine ''abc'' ?ms = {..<chunk_total ''abc''}"
  proof
    show "genuine ''abc'' ?ms \<subseteq> {..<chunk_total ''abc''}" unfolding genuine_def by blast
    have "0 \<in> genuine ''abc'' ?ms"
      unfolding genuine_def by (rule CollectI, rule exI [of _ "0 :: u32"], rule exI [of _ "''abc''"]) (simp add: n)
    then show "{..<chunk_total ''abc''} \<subseteq> genuine ''abc'' ?ms" by (simp add: n lessThan_Suc)
  qed
  have p: "path_join (di_models_dir (distributor_new ''/models'' [])) (md_filename ?m) = ''/models/m.gguf''"
    by (simp add: distributor_new_def metadata_from_file_def path_join_def ends_with_def)
  have e: "faultless demo_distribution_env" "hash_identifies (dx_hash demo_distribution_env) ''abc''"
    "?m = metadata_from_file (dx_hash demo_distribution_env) ''m'' None ''abc''"
    by (simp_all add: faultless_def hash_identifies_def demo_distribution_env_def)
  have f: "hm_get (di_available_models (distributor_new ''/models'' [])) ''m'' = None"
    "hm_get (di_pending_downloads (distributor_new ''/models'' [])) ''m'' = None"
    by (simp_all add: distributor_new_def)
  have "chunk_total ''abc'' < 2 ^ 32" "length ''abc'' < 2 ^ 64" by (simp_all add: n)
  from download_delivers_file [OF e f this, of ?ms "''p''"]
  show ?thesis
    unfolding if_P [OF g] p by auto
qed

end
