(* ===== verification/Batch.thy ===== *)
theory Batch
  imports Failover
begin

section \<open>Batches of inference requests\<close>

text \<open>
  Models \<^verbatim>\<open>src/inference/batch.rs\<close>: how a batch is collected from the queue, grouped by model and
  run, and how the results reach the waiting callers. The inference function, the clock and the
  times are parameters; a request's channel is its id in the list of answers.
\<close>

record batch_config =
  bf_batch_window_ms :: u64
  bf_max_batch_size :: nat
  bf_min_batch_size :: nat
  bf_adaptive :: bool
  bf_max_queue_depth :: nat

definition batch_config_default :: batch_config where
  "batch_config_default =
     \<lparr>bf_batch_window_ms = 50, bf_max_batch_size = 8, bf_min_batch_size = 4, bf_adaptive = True,
      bf_max_queue_depth = 100\<rparr>"

record batch_request =
  br_id :: string
  br_source :: string
  br_model :: string
  br_prompt :: string
  br_max_tokens :: u32
  br_temperature :: f64
  br_submitted_at :: timestamp

record batch_response =
  bp_request_id :: string
  bp_text :: string
  bp_tokens_generated :: u32
  bp_tokens_per_second :: f64
  bp_queue_time_ms :: u64
  bp_inference_time_ms :: u64
  bp_batch_size :: nat

datatype batch_error =
    QueueFull
  | BatchTimeout
  | BatchInferenceFailed string
  | BatchModelNotFound string
  | BatchShutdown

fun batch_error_text :: "batch_error \<Rightarrow> string" where
  "batch_error_text QueueFull = ''Batch queue is full''"
| "batch_error_text BatchTimeout = ''Request timed out''"
| "batch_error_text (BatchInferenceFailed x) = ''Inference failed: '' @ x"
| "batch_error_text (BatchModelNotFound m) = ''Model not found: '' @ m"
| "batch_error_text BatchShutdown = ''Batch aggregator is shutting down''"

record batch_stats =
  bs_total_requests :: u64
  bs_total_batches :: u64
  bs_avg_batch_size :: f64
  bs_avg_queue_time_ms :: f64
  bs_avg_inference_time_ms :: f64
  bs_queue_depth :: nat
  bs_batches_by_model :: "(string, u64) hmap"

definition batch_stats_default :: batch_stats where
  "batch_stats_default =
     \<lparr>bs_total_requests = 0, bs_total_batches = 0, bs_avg_batch_size = Fin 0 0, bs_avg_queue_time_ms = Fin 0 0,
      bs_avg_inference_time_ms = Fin 0 0, bs_queue_depth = 0, bs_batches_by_model = []\<rparr>"

subsection \<open>Collecting\<close>

text \<open>
  What the queue offers after the first request: at each turn of the loop the time since the batch
  was begun, and the request that arrives before the window is over, if one does.
\<close>

fun collect_batch ::
    "batch_config \<Rightarrow> (u64 \<times> batch_request option) list \<Rightarrow> batch_request list \<Rightarrow> batch_request list" where
  "collect_batch c [] batch = batch"
| "collect_batch c ((elapsed, arrival) # rest) batch =
     (if bf_max_batch_size c \<le> length batch then batch
      else if sat_sub (bf_batch_window_ms c) elapsed = 0 then batch
      else if bf_min_batch_size c \<le> length batch then batch
      else (case arrival of
              Some r \<Rightarrow> collect_batch c rest (batch @ [r])
            | None \<Rightarrow> batch))"

definition group_by_model :: "batch_request list \<Rightarrow> (string, batch_request list) hmap" where
  "group_by_model batch =
     foldl (\<lambda>m r. hm_insert (br_model r) (hm_get_or [] m (br_model r) @ [r]) m) [] batch"

subsection \<open>Running a group\<close>

type_synonym batch_input = "string \<times> string \<times> u32 \<times> f64"

text \<open>\<open>bn_queue_ms\<close> of a request is the time since it was submitted, \<open>bn_inference_ms\<close> that of the group.\<close>

record batch_env =
  bn_infer :: "string \<Rightarrow> batch_input list \<Rightarrow> (string \<times> (string + generate_response)) list"
  bn_queue_ms :: "batch_request \<Rightarrow> u64"
  bn_inference_ms :: "string \<Rightarrow> u64"

definition answer_of ::
    "batch_env \<Rightarrow> nat \<Rightarrow> string \<Rightarrow> batch_request \<Rightarrow> string + generate_response \<Rightarrow> batch_error + batch_response" where
  "answer_of e size' model r result =
     (case result of
        Inr g \<Rightarrow>
          Inr \<lparr>bp_request_id = br_id r, bp_text = gr_text g, bp_tokens_generated = gr_tokens_generated g,
              bp_tokens_per_second = gr_tokens_per_second g, bp_queue_time_ms = bn_queue_ms e r,
              bp_inference_time_ms = bn_inference_ms e model, bp_batch_size = size'\<rparr>
      | Inl x \<Rightarrow> Inl (BatchInferenceFailed x))"

definition no_result :: "string \<Rightarrow> batch_error" where
  "no_result i = BatchInferenceFailed (''No result returned for request '' @ i)"

text \<open>\<open>waiting\<close> holds the requests of the group that have no answer yet, by id.\<close>

fun distribute ::
    "batch_env \<Rightarrow> nat \<Rightarrow> string \<Rightarrow> (string \<times> (string + generate_response)) list \<Rightarrow>
       (string, batch_request) hmap \<Rightarrow> (string \<times> (batch_error + batch_response)) list" where
  "distribute e n model [] waiting = map (\<lambda>(i, _). (i, Inl (no_result i))) waiting"
| "distribute e n model ((i, result) # rs) waiting =
     (case hm_get waiting i of
        None \<Rightarrow> distribute e n model rs waiting
      | Some r \<Rightarrow> (i, answer_of e n model r result) # distribute e n model rs (hm_remove i waiting))"

definition process_group ::
    "batch_env \<Rightarrow> string \<times> batch_request list \<Rightarrow> (string \<times> (batch_error + batch_response)) list" where
  "process_group e g =
     (let (model, requests) = g;
          input = map (\<lambda>r. (br_id r, br_prompt r, br_max_tokens r, br_temperature r)) requests;
          waiting = foldl (\<lambda>m r. hm_insert (br_id r) r m) [] requests
      in distribute e (length requests) model (bn_infer e model input) waiting)"

definition running_average :: "f64 \<Rightarrow> f64 \<Rightarrow> f64 \<Rightarrow> f64" where
  "running_average n avg x = f32_div (f32_add (f32_mul avg (to_f32 (f_sub n (f_of_int 1)))) x) n"

definition record_batch :: "batch_env \<Rightarrow> string \<times> batch_request list \<Rightarrow> batch_stats \<Rightarrow> batch_stats" where
  "record_batch e g s =
     (let (model, requests) = g;
          batches = bs_total_batches s + 1;
          n = f32_round (uint batches) 0
      in s\<lparr>bs_total_batches := batches,
           bs_total_requests := bs_total_requests s + word_of_nat (length requests),
           bs_avg_batch_size := running_average n (bs_avg_batch_size s) (f32_round (int (length requests)) 0),
           bs_avg_inference_time_ms :=
             running_average n (bs_avg_inference_time_ms s) (f32_round (uint (bn_inference_ms e model)) 0),
           bs_batches_by_model := hm_insert model (hm_get_or 0 (bs_batches_by_model s) model + 1) (bs_batches_by_model s)\<rparr>)"

definition process_batch ::
    "batch_env \<Rightarrow> batch_request list \<Rightarrow> batch_stats \<Rightarrow> (string \<times> (batch_error + batch_response)) list \<times> batch_stats" where
  "process_batch e batch s =
     (let s = s\<lparr>bs_queue_depth := bs_queue_depth s - length batch\<rparr>;
          groups = group_by_model batch
      in (concat (map (process_group e) groups), foldl (\<lambda>s g. record_batch e g s) s groups))"

text \<open>
  One turn of the loop of the processor: at shutdown the queue is drained with errors; otherwise
  \<open>first\<close> is what the queue gives within 100 milliseconds: nothing, the end of a closed channel, or
  a request.
\<close>

datatype queue_poll = PollTimeout | PollClosed | PollRequest batch_request

datatype batch_turn =
    Stopped "(string \<times> (batch_error + batch_response)) list"
  | Again
  | Ran "(string \<times> (batch_error + batch_response)) list"

definition batch_step ::
    "batch_config \<Rightarrow> batch_env \<Rightarrow> bool \<Rightarrow> batch_request list \<Rightarrow> queue_poll \<Rightarrow>
       (u64 \<times> batch_request option) list \<Rightarrow> batch_stats \<Rightarrow> batch_turn \<times> batch_stats" where
  "batch_step c e stopping queued first arrivals s =
     (if stopping then (Stopped (map (\<lambda>r. (br_id r, Inl BatchShutdown)) queued), s)
      else (case first of
              PollTimeout \<Rightarrow> (Again, s)
            | PollClosed \<Rightarrow> (Stopped [], s)
            | PollRequest r \<Rightarrow>
                (case process_batch e (collect_batch c arrivals [r]) s of (out, s) \<Rightarrow> (Ran out, s))))"

subsection \<open>Submitting\<close>

text \<open>A caller: \<open>gone\<close> when the processor is gone, \<open>answer\<close> what comes back over its channel.\<close>

definition submit_batch ::
    "bool \<Rightarrow> bool \<Rightarrow> (batch_error + batch_response) option \<Rightarrow> batch_stats \<Rightarrow> (batch_error + batch_response) \<times> batch_stats" where
  "submit_batch stopping gone answer s =
     (if stopping then (Inl BatchShutdown, s)
      else if gone then (Inl QueueFull, s)
      else (case answer of Some a \<Rightarrow> a | None \<Rightarrow> Inl BatchShutdown, s\<lparr>bs_queue_depth := bs_queue_depth s + 1\<rparr>))"

end
