(* ===== verification/Batch_Props.thy ===== *)
theory Batch_Props
  imports Batch
begin

section \<open>Every request of a batch is answered once\<close>

lemma collect_batch_bound:
  "length (collect_batch c arrivals batch) \<le> max (length batch) (min (bf_min_batch_size c) (bf_max_batch_size c))"
  by (induction c arrivals batch rule: collect_batch.induct) (auto split: option.splits)

lemma collect_batch_prefix: "\<exists>more. collect_batch c arrivals batch = batch @ more"
  by (induction c arrivals batch rule: collect_batch.induct) (auto split: option.splits)

text \<open>The groups: one per model, with the requests of that model in their order.\<close>

lemma group_snoc:
  "group_by_model (batch @ [r]) =
     hm_insert (br_model r) (hm_get_or [] (group_by_model batch) (br_model r) @ [r]) (group_by_model batch)"
  by (simp add: group_by_model_def)

lemma group_wf: "hm_wf (group_by_model batch)"
  by (induction batch rule: rev_induct) (simp_all add: group_snoc group_by_model_def)

lemma group_or: "hm_get_or [] (group_by_model batch) m = filter (\<lambda>r. br_model r = m) batch"
proof (induction batch arbitrary: m rule: rev_induct)
  case Nil
  then show ?case by (simp add: group_by_model_def hm_get_or_def)
next
  case (snoc r batch)
  then show ?case by (simp add: group_snoc)
qed

lemma group_None: "hm_get (group_by_model batch) m = None \<longleftrightarrow> filter (\<lambda>r. br_model r = m) batch = []"
proof (induction batch rule: rev_induct)
  case Nil
  then show ?case by (simp add: group_by_model_def)
next
  case (snoc r batch)
  then show ?case by (simp add: group_snoc)
qed

lemma group_mem:
  "(m, rs) \<in> set (group_by_model batch) \<longleftrightarrow> rs = filter (\<lambda>r. br_model r = m) batch \<and> rs \<noteq> []"
proof -
  have "(m, rs) \<in> set (group_by_model batch) \<longleftrightarrow> hm_get (group_by_model batch) m = Some rs"
    using group_wf [of batch] by (auto simp: hm_wf_def)
  then show ?thesis using group_or [of batch m] group_None [of batch m] by (auto simp: hm_get_or_def split: option.splits)
qed

text \<open>The callers of a group, by id.\<close>

lemma hm_insert_fresh: "k \<notin> fst ` set m \<Longrightarrow> hm_insert k v m = m @ [(k, v)]"
  by (induction m) auto

lemma waiting_map:
  "distinct (map br_id rs) \<Longrightarrow> foldl (\<lambda>m r. hm_insert (br_id r) r m) [] rs = map (\<lambda>r. (br_id r, r)) rs"
proof (induction rs rule: rev_induct)
  case (snoc r rs)
  have "br_id r \<notin> fst ` set (map (\<lambda>r. (br_id r, r)) rs)"
    using snoc.prems by (auto simp: image_iff)
  from hm_insert_fresh [OF this, of r] show ?case using snoc by simp
qed simp

lemma leftovers:
  "map fst (map (\<lambda>(i, _). (i, f i)) w) = map fst w"
  "hm_get (map (\<lambda>(i, _). (i, f i)) w) i = map_option (\<lambda>_. f i) (hm_get w i)"
  by (induction w) auto

lemma distribute_answers:
  "hm_wf waiting \<Longrightarrow>
     distinct (map fst (distribute e n model results waiting)) \<and>
     fst ` set (distribute e n model results waiting) = fst ` set waiting \<and>
     (\<forall>i r. hm_get waiting i = Some r \<longrightarrow>
        hm_get (distribute e n model results waiting) i =
          Some (case hm_get results i of Some x \<Rightarrow> answer_of e n model r x | None \<Rightarrow> Inl (no_result i)))"
proof (induction e n model results waiting rule: distribute.induct)
  case (1 e n model waiting)
  let ?l = "map (\<lambda>(i, _). (i, Inl (no_result i) :: batch_error + batch_response)) waiting"
  have "distinct (map fst ?l)" unfolding leftovers(1) using 1 by (simp add: hm_wf_def)
  moreover have "fst ` set ?l = fst ` set waiting"
    using arg_cong [OF leftovers(1) [of "\<lambda>i. Inl (no_result i) :: batch_error + batch_response" waiting], of set] by (simp only: set_map)
  moreover have "hm_get ?l i = Some (Inl (no_result i))" if "hm_get waiting i = Some r" for i r
    unfolding leftovers(2) that by simp
  ultimately show ?case by simp
next
  case (2 e n model i result rs waiting)
  show ?case
  proof (cases "hm_get waiting i")
    case None
    then show ?thesis using 2(1) 2(3) by auto
  next
    case (Some r)
    have keys: "fst ` set (hm_remove i waiting) = fst ` set waiting - {i}"
      by (metis delete_keys set_map set_removeAll)
    have i: "i \<in> fst ` set waiting" using hm_get_SomeD [OF Some] by force
    show ?thesis
      using 2(2) [OF Some] 2(3) Some keys i by (auto simp: insert_absorb)
  qed
qed

text \<open>What a request of the batch is due: the first result for its id among those of its model.\<close>

definition same_model :: "batch_request \<Rightarrow> batch_request list \<Rightarrow> batch_request list" where
  "same_model r batch = filter (\<lambda>q. br_model q = br_model r) batch"

definition due_answer :: "batch_env \<Rightarrow> batch_request list \<Rightarrow> batch_request \<Rightarrow> batch_error + batch_response" where
  "due_answer e batch r =
     (case map_of (bn_infer e (br_model r)
             (map (\<lambda>q. (br_id q, br_prompt q, br_max_tokens q, br_temperature q)) (same_model r batch))) (br_id r) of
        Some x \<Rightarrow> answer_of e (length (same_model r batch)) (br_model r) r x
      | None \<Rightarrow> Inl (no_result (br_id r)))"

lemma process_group_answers:
  assumes "distinct (map br_id rs)"
  shows "distinct (map fst (process_group e (m, rs)))"
    "fst ` set (process_group e (m, rs)) = br_id ` set rs"
    "r \<in> set rs \<Longrightarrow> rs = filter (\<lambda>q. br_model q = m) batch \<Longrightarrow>
       hm_get (process_group e (m, rs)) (br_id r) = Some (due_answer e batch r)"
proof -
  let ?w = "map (\<lambda>r. (br_id r, r)) rs"
  let ?in = "map (\<lambda>r. (br_id r, br_prompt r, br_max_tokens r, br_temperature r)) rs"
  have p: "process_group e (m, rs) = distribute e (length rs) m (bn_infer e m ?in) ?w"
    by (simp add: process_group_def Let_def waiting_map [OF assms])
  have wf: "hm_wf ?w" using assms by (simp add: hm_wf_def comp_def)
  have k: "fst ` set ?w = br_id ` set rs" by force
  note d = distribute_answers [OF wf, of e "length rs" m "bn_infer e m ?in"]
  show "distinct (map fst (process_group e (m, rs)))" "fst ` set (process_group e (m, rs)) = br_id ` set rs"
    using d k by (simp_all add: p)
  show "hm_get (process_group e (m, rs)) (br_id r) = Some (due_answer e batch r)"
    if r: "r \<in> set rs" and rs: "rs = filter (\<lambda>q. br_model q = m) batch"
  proof -
    have "hm_get ?w (br_id r) = Some r" using wf r by (intro hm_get_mem) auto
    moreover have "br_model r = m" using r rs by auto
    moreover from this have "same_model r batch = rs" using rs by (simp add: same_model_def)
    ultimately show ?thesis
      using d by (simp add: p due_answer_def split: option.splits)
  qed
qed

lemma distinct_filter_ids: "distinct (map br_id batch) \<Longrightarrow> distinct (map br_id (filter P batch))"
  by (simp add: distinct_map_filter)

lemma concat_groups:
  assumes d: "distinct (map br_id batch)" and "set gs \<subseteq> set (group_by_model batch)" "distinct (map fst gs)"
  shows "distinct (map fst (concat (map (process_group e) gs))) \<and>
    fst ` set (concat (map (process_group e) gs)) = br_id ` {r \<in> set batch. br_model r \<in> fst ` set gs} \<and>
    (\<forall>r \<in> set batch. br_model r \<in> fst ` set gs \<longrightarrow>
       hm_get (concat (map (process_group e) gs)) (br_id r) = Some (due_answer e batch r))"
  using assms(2,3)
proof (induction gs)
  case (Cons g gs)
  obtain m where g: "g = (m, filter (\<lambda>r. br_model r = m) batch)"
    using Cons.prems(1) group_mem [of "fst g" "snd g" batch] by (cases g) auto
  let ?rs = "filter (\<lambda>r. br_model r = m) batch"
  let ?rest = "concat (map (process_group e) gs)"
  have dr: "distinct (map br_id ?rs)" using distinct_filter_ids [OF d] .
  note pg = process_group_answers [OF dr, where e = e and m = m]
  note ih = Cons.IH [THEN conjunct1] Cons.IH [THEN conjunct2, THEN conjunct1] Cons.IH [THEN conjunct2, THEN conjunct2]
  have sub: "set gs \<subseteq> set (group_by_model batch)" "distinct (map fst gs)" and new: "m \<notin> fst ` set gs"
    using Cons.prems g by auto
  have inj: "r = q" if "r \<in> set batch" "q \<in> set batch" "br_id r = br_id q" for r q
    using d that by (auto simp: distinct_map inj_on_def)
  have disj: "br_id ` set ?rs \<inter> fst ` set ?rest = {}"
    using ih(2) [OF sub] new inj by (auto dest: inj)
  have got: "hm_get (process_group e g @ ?rest) (br_id r) = Some (due_answer e batch r)"
    if r: "r \<in> set batch" "br_model r \<in> fst ` set (g # gs)" for r
  proof (cases "br_model r = m")
    case True
    then have "hm_get (process_group e g) (br_id r) = Some (due_answer e batch r)"
      using pg(3) [of r batch] r g by simp
    then show ?thesis by (simp add: map_add_def)
  next
    case False
    then have "br_id r \<notin> fst ` set (process_group e g)" using pg(2) g inj r by auto
    then have "hm_get (process_group e g) (br_id r) = None" by (simp add: hm_get_None_iff)
    moreover have "hm_get ?rest (br_id r) = Some (due_answer e batch r)"
      using ih(3) [OF sub] False r g by auto
    ultimately show ?thesis by (simp add: map_add_def)
  qed
  show ?case
    using pg(1,2) ih(1,2) [OF sub] disj g got by (auto simp: image_Un)
qed simp

lemma process_batch_answers:
  assumes "distinct (map br_id batch)"
  shows "distinct (map fst (fst (process_batch e batch s))) \<and>
    fst ` set (fst (process_batch e batch s)) = br_id ` set batch \<and>
    (\<forall>q \<in> set batch. map_of (fst (process_batch e batch s)) (br_id q) = Some (due_answer e batch q))"
proof -
  let ?gs = "group_by_model batch"
  have gs: "br_model q \<in> fst ` set ?gs" if q: "q \<in> set batch" for q
  proof -
    have "q \<in> set (filter (\<lambda>x. br_model x = br_model q) batch)" using q by simp
    then have "filter (\<lambda>x. br_model x = br_model q) batch \<noteq> []" by (metis empty_iff empty_set)
    then have "(br_model q, filter (\<lambda>x. br_model x = br_model q) batch) \<in> set ?gs" by (simp only: group_mem simp_thms)
    then show ?thesis by (rule image_eqI [rotated]) simp
  qed
  have all: "{q \<in> set batch. br_model q \<in> fst ` set ?gs} = set batch" using gs by blast
  have dg: "distinct (map fst ?gs)" using group_wf by (simp only: hm_wf_def)
  note cg = concat_groups [OF assms subset_refl dg, of e, unfolded all]
  have out: "fst (process_batch e batch s) = concat (map (process_group e) ?gs)"
    by (simp add: process_batch_def Let_def)
  show ?thesis unfolding out using cg gs by (simp only: HOL.simp_thms) blast
qed

text \<open>C40: A batch whose requests have different ids answers every one of them and nothing else, each once: with the first result the inference returned for its id among the requests of its model, with that result's error, or with an error that there was no result; and a batch is collected with at most as many requests as the smaller of the two configured sizes (one at least).\<close>

theorem batch_answers_once:
  assumes "distinct (map br_id (collect_batch c arrivals [r]))"
  shows "let batch = collect_batch c arrivals [r]; out = fst (process_batch e batch s)
    in length batch \<le> max 1 (min (bf_min_batch_size c) (bf_max_batch_size c)) \<and>
       r \<in> set batch \<and> distinct (map fst out) \<and> fst ` set out = br_id ` set batch \<and>
       (\<forall>q \<in> set batch. map_of out (br_id q) = Some (due_answer e batch q))"
proof -
  let ?batch = "collect_batch c arrivals [r]"
  have "r \<in> set ?batch" 
  proof -
    obtain more where "?batch = [r] @ more" using collect_batch_prefix by blast
    then show ?thesis by (simp only: append_Cons append_Nil list.set_intros(1))
  qed
  moreover have "length ?batch \<le> max 1 (min (bf_min_batch_size c) (bf_max_batch_size c))"
    using collect_batch_bound [of c arrivals "[r]"] by (simp only: length_Cons list.size One_nat_def)
  moreover note process_batch_answers [OF assms, of e s]
  ultimately show ?thesis unfolding Let_def by (intro conjI) (erule conjE | assumption)+
qed

definition demo_request :: "string \<Rightarrow> string \<Rightarrow> batch_request" where
  "demo_request i model =
     \<lparr>br_id = i, br_source = ''api'', br_model = model, br_prompt = ''p'', br_max_tokens = 10, br_temperature = Fin 0 0,
      br_submitted_at = 0\<rparr>"

text \<open>An inference that answers only the first request of a group.\<close>

definition demo_batch_env :: batch_env where
  "demo_batch_env =
     \<lparr>bn_infer = (\<lambda>m input. case input of (i, _) # _ \<Rightarrow> [(i, Inl ''busy'')] | [] \<Rightarrow> []), bn_queue_ms = (\<lambda>_. 1),
      bn_inference_ms = (\<lambda>_. 2)\<rparr>"

theorem batch_answers_once_witness:
  "let out = fst (process_batch demo_batch_env
       (collect_batch batch_config_default [(0, Some (demo_request ''b'' ''y'')), (1, Some (demo_request ''c'' ''x''))]
          [demo_request ''a'' ''x'']) batch_stats_default)
   in map_of out ''a'' = Some (Inl (BatchInferenceFailed ''busy'')) \<and> map_of out ''c'' = Some (Inl (no_result ''c'')) \<and>
      distinct (map fst out)"
proof -
  let ?batch = "collect_batch batch_config_default [(0, Some (demo_request ''b'' ''y'')), (1, Some (demo_request ''c'' ''x''))]
      [demo_request ''a'' ''x'']"
  have b: "?batch = [demo_request ''a'' ''x'', demo_request ''b'' ''y'', demo_request ''c'' ''x'']"
    by (simp add: batch_config_default_def sat_sub_def)
  have i: "br_id (demo_request i m) = i" for i m by (simp add: demo_request_def)
  have d: "distinct (map br_id ?batch)" unfolding b by (simp add: i)
  have a: "due_answer demo_batch_env ?batch (demo_request ''a'' ''x'') = Inl (BatchInferenceFailed ''busy'')"
    "due_answer demo_batch_env ?batch (demo_request ''c'' ''x'') = Inl (no_result ''c'')"
    unfolding b by (simp_all add: due_answer_def same_model_def demo_request_def demo_batch_env_def answer_of_def)
  show ?thesis
    using batch_answers_once [OF d, of demo_batch_env batch_stats_default] a
    unfolding Let_def b by (auto simp: i)
qed

end
