(* ===== verification/Providers.thy ===== *)
theory Providers
  imports Model_Cache Channel
begin

section \<open>Advertisements of peers\<close>

text \<open>
  Models \<^verbatim>\<open>src/p2p/{provider,provider_tracker,resource}.rs\<close>, the sharing settings of
  \<^verbatim>\<open>src/config/mod.rs\<close> and the parts of \<^verbatim>\<open>src/runtime.rs\<close> that send and receive these
  advertisements. MessagePack, lower case and signing are parameters; a time is a number of seconds.
\<close>

subsection \<open>Providers of models\<close>

datatype provider_backend = BackendOllama | BackendGguf | BackendOpenAiCompatible

fun provider_backend_text :: "provider_backend \<Rightarrow> string" where
  "provider_backend_text BackendOllama = ''ollama''"
| "provider_backend_text BackendGguf = ''gguf''"
| "provider_backend_text BackendOpenAiCompatible = ''openai-compatible''"

record model_offering =
  mo_model_name :: string
  mo_context_size :: u32
  mo_price_per_1k_tokens :: u64
  mo_max_tokens_per_request :: u32
  mo_quantization :: "string option"
  mo_backend :: provider_backend

record provider_rate_limits =
  rl_max_requests_per_hour :: u32
  rl_max_tokens_per_day :: u64
  rl_max_concurrent_requests :: u32

definition provider_rate_limits_default :: provider_rate_limits where
  "provider_rate_limits_default =
     \<lparr>rl_max_requests_per_hour = 60, rl_max_tokens_per_day = 100000, rl_max_concurrent_requests = 2\<rparr>"

record provider_sharing_config =
  ps_enabled :: bool
  ps_advertise_models :: bool
  ps_max_requests_per_hour :: u32
  ps_max_tokens_per_day :: u64
  ps_max_concurrent_requests :: u32
  ps_price_multiplier :: f64

definition provider_sharing_default :: provider_sharing_config where
  "provider_sharing_default =
     \<lparr>ps_enabled = False, ps_advertise_models = True, ps_max_requests_per_hour = 60,
      ps_max_tokens_per_day = 100000, ps_max_concurrent_requests = 2, ps_price_multiplier = f_of_int 1\<rparr>"

record provider_manifest =
  pm_peer_id :: string
  pm_models :: "model_offering list"
  pm_rate_limits :: provider_rate_limits
  pm_timestamp :: u64
  pm_signature :: "u8 list"

definition manifest_new ::
    "u64 \<Rightarrow> string \<Rightarrow> model_offering list \<Rightarrow> provider_rate_limits \<Rightarrow> provider_manifest" where
  "manifest_new now peer models limits =
     \<lparr>pm_peer_id = peer, pm_models = models, pm_rate_limits = limits, pm_timestamp = now, pm_signature = []\<rparr>"

definition manifest_expired :: "u64 \<Rightarrow> u64 \<Rightarrow> provider_manifest \<Rightarrow> bool" where
  "manifest_expired now max_age m \<longleftrightarrow> max_age < sat_sub now (pm_timestamp m)"

text \<open>What MessagePack makes of the parts; a part it cannot encode becomes the empty string of bytes.\<close>

record pack_env =
  pk_models :: "model_offering list \<Rightarrow> u8 list option"
  pk_limits :: "provider_rate_limits \<Rightarrow> u8 list option"

definition or_empty :: "u8 list option \<Rightarrow> u8 list" where
  "or_empty x = (case x of Some b \<Rightarrow> b | None \<Rightarrow> [])"

definition manifest_signing_bytes :: "pack_env \<Rightarrow> provider_manifest \<Rightarrow> u8 list" where
  "manifest_signing_bytes e m =
     str_bytes (pm_peer_id m) @ le_bytes (pm_timestamp m) @ or_empty (pk_models e (pm_models m)) @
     or_empty (pk_limits e (pm_rate_limits m))"

definition manifest_sign :: "pack_env \<Rightarrow> (u8 list \<Rightarrow> u8 list) \<Rightarrow> provider_manifest \<Rightarrow> provider_manifest" where
  "manifest_sign e signer m = m\<lparr>pm_signature := signer (manifest_signing_bytes e m)\<rparr>"

definition offers_name :: "(string \<Rightarrow> string) \<Rightarrow> string \<Rightarrow> model_offering \<Rightarrow> bool" where
  "offers_name lower needle o' \<longleftrightarrow>
     (let name = lower (mo_model_name o')
      in name = needle \<or> str_contains name needle \<or> str_contains needle name)"

definition manifest_has_model :: "(string \<Rightarrow> string) \<Rightarrow> provider_manifest \<Rightarrow> string \<Rightarrow> bool" where
  "manifest_has_model lower m model = list_ex (offers_name lower (lower model)) (pm_models m)"

definition manifest_find_model :: "(string \<Rightarrow> string) \<Rightarrow> provider_manifest \<Rightarrow> string \<Rightarrow> model_offering option" where
  "manifest_find_model lower m model = List.find (offers_name lower (lower model)) (pm_models m)"

subsection \<open>The tracker\<close>

definition manifest_max_age_secs :: u64 where
  "manifest_max_age_secs = 600"

record usage_counter =
  uc_requests_this_hour :: u32
  uc_tokens_this_day :: u64
  uc_hour_start :: u64
  uc_day_start :: u64

definition usage_counter_default :: usage_counter where
  "usage_counter_default =
     \<lparr>uc_requests_this_hour = 0, uc_tokens_this_day = 0, uc_hour_start = 0, uc_day_start = 0\<rparr>"

definition reset_if_needed :: "u64 \<Rightarrow> usage_counter \<Rightarrow> usage_counter" where
  "reset_if_needed now c =
     (let c = (if 3600 \<le> now - uc_hour_start c
               then c\<lparr>uc_requests_this_hour := 0, uc_hour_start := now\<rparr> else c)
      in if 86400 \<le> now - uc_day_start c then c\<lparr>uc_tokens_this_day := 0, uc_day_start := now\<rparr> else c)"

record provider_tracker =
  pt_providers :: "(string, provider_manifest) hmap"
  pt_local_config :: provider_sharing_config
  pt_usage_counts :: "(string, usage_counter) hmap"

definition tracker_new :: "provider_sharing_config \<Rightarrow> provider_tracker" where
  "tracker_new c = \<lparr>pt_providers = [], pt_local_config = c, pt_usage_counts = []\<rparr>"

definition update_provider :: "u64 \<Rightarrow> provider_manifest \<Rightarrow> provider_tracker \<Rightarrow> provider_tracker" where
  "update_provider now m t =
     (if manifest_expired now manifest_max_age_secs m then t
      else t\<lparr>pt_providers := hm_insert (pm_peer_id m) m (pt_providers t)\<rparr>)"

definition prune_stale :: "u64 \<Rightarrow> provider_tracker \<Rightarrow> provider_tracker" where
  "prune_stale now t =
     t\<lparr>pt_providers := hm_retain (\<lambda>_ m. \<not> manifest_expired now manifest_max_age_secs m) (pt_providers t)\<rparr>"

definition offer_entry :: "(string \<Rightarrow> string) \<Rightarrow> string \<Rightarrow> string \<times> provider_manifest \<Rightarrow> (string \<times> model_offering) option" where
  "offer_entry lower model x = map_option (Pair (pm_peer_id (snd x))) (manifest_find_model lower (snd x) model)"

definition cheaper :: "string \<times> model_offering \<Rightarrow> string \<times> model_offering \<Rightarrow> bool" where
  "cheaper a b \<longleftrightarrow> mo_price_per_1k_tokens (snd a) < mo_price_per_1k_tokens (snd b)"

definition find_providers ::
    "(string \<Rightarrow> string) \<Rightarrow> string \<Rightarrow> provider_tracker \<Rightarrow> (string \<times> model_offering) list" where
  "find_providers lower model t = stable_sort cheaper (List.map_filter (offer_entry lower model) (pt_providers t))"

definition all_providers :: "provider_tracker \<Rightarrow> provider_manifest list" where
  "all_providers t = map snd (pt_providers t)"

definition tracked_usage :: "u64 \<Rightarrow> string \<Rightarrow> provider_tracker \<Rightarrow> usage_counter" where
  "tracked_usage now peer t = reset_if_needed now (hm_get_or usage_counter_default (pt_usage_counts t) peer)"

definition can_request :: "u64 \<Rightarrow> string \<Rightarrow> provider_tracker \<Rightarrow> bool \<times> provider_tracker" where
  "can_request now peer t =
     (case hm_get (pt_providers t) peer of
        None \<Rightarrow> (False, t)
      | Some m \<Rightarrow>
          let c = tracked_usage now peer t
          in (uc_requests_this_hour c < rl_max_requests_per_hour (pm_rate_limits m) \<and>
              uc_tokens_this_day c < rl_max_tokens_per_day (pm_rate_limits m),
              t\<lparr>pt_usage_counts := hm_insert peer c (pt_usage_counts t)\<rparr>))"

definition record_usage :: "u64 \<Rightarrow> string \<Rightarrow> u32 \<Rightarrow> provider_tracker \<Rightarrow> provider_tracker" where
  "record_usage now peer tokens t =
     (let c = tracked_usage now peer t;
          c = c\<lparr>uc_requests_this_hour := uc_requests_this_hour c + 1,
                uc_tokens_this_day := uc_tokens_this_day c + ucast tokens\<rparr>
      in t\<lparr>pt_usage_counts := hm_insert peer c (pt_usage_counts t)\<rparr>)"

definition set_local_config :: "provider_sharing_config \<Rightarrow> provider_tracker \<Rightarrow> provider_tracker" where
  "set_local_config c t = t\<lparr>pt_local_config := c\<rparr>"

subsection \<open>Sending and receiving\<close>

text \<open>\<open>base\<close> is the price per 1000 tokens of the economy; \<open>quant\<close> the Debug text of a quantization.\<close>

definition offering_of ::
    "(quantization \<Rightarrow> string) \<Rightarrow> u64 \<Rightarrow> bool \<Rightarrow> provider_sharing_config \<Rightarrow> model_info \<Rightarrow> model_offering" where
  "offering_of quant base use_ollama c i =
     \<lparr>mo_model_name = mi_name i, mo_context_size = mi_context_length i,
      mo_price_per_1k_tokens = f_to_u64 (f_mul (f_of_u64 base) (ps_price_multiplier c)),
      mo_max_tokens_per_request = mi_context_length i, mo_quantization = Some (quant (mi_quantization i)),
      mo_backend = (if use_ollama then BackendOllama else BackendGguf)\<rparr>"

text \<open>The manifest that is published, if one is.\<close>

definition advertise_provider ::
    "pack_env \<Rightarrow> (u8 list \<Rightarrow> u8 list) \<Rightarrow> (quantization \<Rightarrow> string) \<Rightarrow> u64 \<Rightarrow> u64 \<Rightarrow> bool \<Rightarrow> provider_sharing_config \<Rightarrow>
       string \<Rightarrow> model_registry \<Rightarrow> provider_manifest option" where
  "advertise_provider e signer quant now base use_ollama c me registry =
     (if \<not> ps_enabled c then None
      else
        let offerings = map (offering_of quant base use_ollama c) (map snd registry);
            limits = \<lparr>rl_max_requests_per_hour = ps_max_requests_per_hour c,
                      rl_max_tokens_per_day = ps_max_tokens_per_day c,
                      rl_max_concurrent_requests = ps_max_concurrent_requests c\<rparr>
        in if offerings = [] then None
           else Some (manifest_sign e signer (manifest_new now me offerings limits)))"

text \<open>A received manifest; its signature is not looked at.\<close>

definition receive_manifest :: "u64 \<Rightarrow> string \<Rightarrow> provider_manifest \<Rightarrow> provider_tracker \<Rightarrow> provider_tracker" where
  "receive_manifest now me m t = (if pm_peer_id m = me then t else update_provider now m t)"

subsection \<open>Resources\<close>

datatype gpu_vendor = Nvidia | Amd | Apple | Intel | OtherVendor

record gpu_info =
  gi_vendor :: gpu_vendor
  gi_vram_mb :: u32
  gi_compute_capability :: string
  gi_model_name :: string

datatype capability = CapWasmSandbox | CapInference | CapStorage | CapRelay | CapWebProxy | CapLlmProvider

fun capability_text :: "capability \<Rightarrow> string" where
  "capability_text CapWasmSandbox = ''wasm''"
| "capability_text CapInference = ''inference''"
| "capability_text CapStorage = ''storage''"
| "capability_text CapRelay = ''relay''"
| "capability_text CapWebProxy = ''web-proxy''"
| "capability_text CapLlmProvider = ''llm-provider''"

record resources =
  re_cpu_cores :: u16
  re_cpu_available_mhz :: u32
  re_gpu :: "gpu_info option"
  re_storage_available_bytes :: u64
  re_bandwidth_mbps :: u32
  re_ram_available_mb :: u32

definition resources_default :: "nat \<Rightarrow> resources" where
  "resources_default cores =
     \<lparr>re_cpu_cores = word_of_nat cores, re_cpu_available_mhz = 0, re_gpu = None, re_storage_available_bytes = 0,
      re_bandwidth_mbps = 0, re_ram_available_mb = 0\<rparr>"

record resource_manifest =
  rn_peer_id :: string
  rn_timestamp :: u64
  rn_signature :: "u8 list"
  rn_resources :: resources
  rn_capabilities :: "capability list"
  rn_supported_models :: "string list"
  rn_uptime_hours :: u64

definition resource_manifest_new :: "u64 \<Rightarrow> string \<Rightarrow> resources \<Rightarrow> capability list \<Rightarrow> resource_manifest" where
  "resource_manifest_new now peer r caps =
     \<lparr>rn_peer_id = peer, rn_timestamp = now, rn_signature = [], rn_resources = r, rn_capabilities = caps,
      rn_supported_models = [], rn_uptime_hours = 0\<rparr>"

definition resource_signing_bytes ::
    "(resources \<Rightarrow> u8 list option) \<Rightarrow> (capability list \<Rightarrow> u8 list option) \<Rightarrow> resource_manifest \<Rightarrow> u8 list" where
  "resource_signing_bytes pack_r pack_c m =
     str_bytes (rn_peer_id m) @ le_bytes (rn_timestamp m) @ or_empty (pack_r (rn_resources m)) @
     or_empty (pack_c (rn_capabilities m))"

definition resource_sign ::
    "(resources \<Rightarrow> u8 list option) \<Rightarrow> (capability list \<Rightarrow> u8 list option) \<Rightarrow> (u8 list \<Rightarrow> u8 list) \<Rightarrow>
       resource_manifest \<Rightarrow> resource_manifest" where
  "resource_sign pack_r pack_c signer m = m\<lparr>rn_signature := signer (resource_signing_bytes pack_r pack_c m)\<rparr>"

definition resource_verify ::
    "(resources \<Rightarrow> u8 list option) \<Rightarrow> (capability list \<Rightarrow> u8 list option) \<Rightarrow> (u8 list \<Rightarrow> u8 list \<Rightarrow> bool) \<Rightarrow>
       resource_manifest \<Rightarrow> bool" where
  "resource_verify pack_r pack_c verifier m = verifier (resource_signing_bytes pack_r pack_c m) (rn_signature m)"

definition gossip_resource_manifest ::
    "(resources \<Rightarrow> u8 list option) \<Rightarrow> (capability list \<Rightarrow> u8 list option) \<Rightarrow> (u8 list \<Rightarrow> u8 list) \<Rightarrow> u64 \<Rightarrow> nat \<Rightarrow>
       string \<Rightarrow> model_registry \<Rightarrow> resource_manifest" where
  "gossip_resource_manifest pack_r pack_c signer now cores me registry =
     resource_sign pack_r pack_c signer
       ((resource_manifest_new now me (resources_default cores) [CapInference])
          \<lparr>rn_supported_models := map (mi_name \<circ> snd) registry\<rparr>)"

end
