(* ===== verification/Providers_Props.thy ===== *)
theory Providers_Props
  imports Providers
begin

section \<open>The providers that are found\<close>

text \<open>What the tracker sees: manifests that arrive and the times at which stale ones are pruned.\<close>

datatype tracker_event = Received u64 provider_manifest | Pruned u64

fun tracker_event_step :: "string \<Rightarrow> tracker_event \<Rightarrow> provider_tracker \<Rightarrow> provider_tracker" where
  "tracker_event_step me (Received now m) t = receive_manifest now me m t"
| "tracker_event_step me (Pruned now) t = prune_stale now t"

definition run_tracker :: "string \<Rightarrow> tracker_event list \<Rightarrow> provider_tracker \<Rightarrow> provider_tracker" where
  "run_tracker me es t = foldl (\<lambda>t x. tracker_event_step me x t) t es"

text \<open>The manifest a peer is known by: the last that was fresh when it came, unless it was pruned since.\<close>

fun known_step :: "string \<Rightarrow> string \<Rightarrow> tracker_event \<Rightarrow> provider_manifest option \<Rightarrow> provider_manifest option" where
  "known_step me p (Received now m) known =
     (if pm_peer_id m = p \<and> p \<noteq> me \<and> \<not> manifest_expired now manifest_max_age_secs m then Some m else known)"
| "known_step me p (Pruned now) known =
     (case known of
        Some m \<Rightarrow> if manifest_expired now manifest_max_age_secs m then None else Some m
      | None \<Rightarrow> None)"

definition known_manifest :: "string \<Rightarrow> tracker_event list \<Rightarrow> string \<Rightarrow> provider_manifest option" where
  "known_manifest me es p = foldl (\<lambda>k x. known_step me p x k) None es"

definition tracker_ok :: "provider_tracker \<Rightarrow> bool" where
  "tracker_ok t \<longleftrightarrow> hm_wf (pt_providers t) \<and> (\<forall>(p, m) \<in> set (pt_providers t). p = pm_peer_id m)"

lemma set_retain: "set (hm_retain P m) = {(k, v) \<in> set m. P k v}"
  by (auto simp: hm_retain_def)

lemma set_insert_hm: "set (hm_insert k v m) \<subseteq> insert (k, v) (set m)"
  by (induction m) auto

lemma get_retain:
  "hm_wf m \<Longrightarrow> hm_get (hm_retain P m) k = (case hm_get m k of Some v \<Rightarrow> if P k v then Some v else None | None \<Rightarrow> None)"
  by (induction m) (auto simp: hm_retain_def hm_wf_def hm_get_None_iff split: option.splits)

lemma tracker_step:
  assumes "tracker_ok t"
  shows "tracker_ok (tracker_event_step me x t)"
    "hm_get (pt_providers (tracker_event_step me x t)) p = known_step me p x (hm_get (pt_providers t) p)"
  using assms set_insert_hm [of _ _ "pt_providers t"]
  by (cases x; auto simp: tracker_ok_def receive_manifest_def update_provider_def prune_stale_def set_retain get_retain
      split: option.splits dest!: subsetD)+

lemma run_tracker_known:
  "tracker_ok t \<Longrightarrow> tracker_ok (run_tracker me es t) \<and>
     hm_get (pt_providers (run_tracker me es t)) p =
       foldl (\<lambda>k x. known_step me p x k) (hm_get (pt_providers t) p) es"
  by (induction es arbitrary: t) (simp_all add: run_tracker_def tracker_step)

lemma in_map_filter: "y \<in> set (List.map_filter f xs) \<longleftrightarrow> (\<exists>x \<in> set xs. f x = Some y)"
  by (induction xs) (auto simp: map_filter_simps split: option.splits)

lemma offer_entry_fst: "offer_entry lower model x = Some y \<Longrightarrow> fst y = pm_peer_id (snd x)"
  by (auto simp: offer_entry_def)

lemma found_peers_distinct:
  assumes "hm_wf ps" "\<forall>(p, m) \<in> set ps. p = pm_peer_id m"
  shows "distinct (map fst (List.map_filter (offer_entry lower model) ps))"
  using assms
proof (induction ps)
  case (Cons x ps)
  then have d: "distinct (map fst (List.map_filter (offer_entry lower model) ps))"
    by (simp add: hm_wf_def)
  have "pm_peer_id (snd x) \<notin> fst ` set (List.map_filter (offer_entry lower model) ps)"
    using Cons.prems by (force simp: in_map_filter hm_wf_def offer_entry_def)
  then show ?case using d using offer_entry_fst [of lower model x] by (cases "offer_entry lower model x") (auto simp: map_filter_simps)
qed (simp add: map_filter_simps)

lemma distinct_keys_insert_by:
  "distinct (map f (insert_by lt x ys)) \<longleftrightarrow> f x \<notin> f ` set ys \<and> distinct (map f ys)"
  by (induction ys) auto

lemma distinct_keys_stable_sort: "distinct (map f (stable_sort lt xs)) = distinct (map f xs)"
proof -
  have "distinct (map f (foldr (insert_by lt) xs [])) = distinct (map f xs) \<and> set (foldr (insert_by lt) xs []) = set xs"
    by (induction xs) (auto simp: distinct_keys_insert_by)
  then show ?thesis by (simp add: stable_sort_def)
qed

text \<open>C35: The providers found for a model are exactly the peers whose known manifest offers a model of a matching name, each once with the first offering that matches, the cheapest first; a peer's known manifest is the last one that was fresh when it arrived and was not pruned since, and the node never finds itself.\<close>

theorem found_providers_exact:
  "let found = find_providers lower model (run_tracker me es (tracker_new c))
   in sorted (map (mo_price_per_1k_tokens \<circ> snd) found) \<and> distinct (map fst found) \<and> me \<notin> fst ` set found \<and>
      (\<forall>p o'. (p, o') \<in> set found \<longleftrightarrow>
         (\<exists>m. known_manifest me es p = Some m \<and> manifest_find_model lower m model = Some o'))"
proof -
  let ?t = "run_tracker me es (tracker_new c)"
  let ?f = "\<lambda>m. manifest_find_model lower m model"
  let ?found = "find_providers lower model ?t"
  have k: "tracker_ok ?t" "hm_get (pt_providers ?t) p = known_manifest me es p" for p
    using run_tracker_known [of "tracker_new c" me es p]
    by (simp_all add: tracker_ok_def tracker_new_def known_manifest_def)
  have mem: "(p, m) \<in> set (pt_providers ?t) \<longleftrightarrow> known_manifest me es p = Some m" for p m
    using k hm_get_mem hm_get_SomeD unfolding tracker_ok_def by metis
  have id: "pm_peer_id m = p" if "known_manifest me es p = Some m" for p m
    using that mem [of p m] k(1) by (auto simp: tracker_ok_def)
  have "sorted_wrt (\<lambda>x y. \<not> cheaper y x) ?found"
    unfolding find_providers_def by (rule sorted_stable_sort) (auto simp: cheaper_def)
  then have "sorted (map (mo_price_per_1k_tokens \<circ> snd) ?found)"
    by (simp add: sorted_map cheaper_def linorder_not_less)
  moreover have "distinct (map fst ?found)"
    using found_peers_distinct [of "pt_providers ?t"] k(1)
    by (simp add: find_providers_def distinct_keys_stable_sort tracker_ok_def)
  moreover have ex: "(p, o') \<in> set ?found \<longleftrightarrow> (\<exists>m. known_manifest me es p = Some m \<and> ?f m = Some o')" for p o'
  proof -
    have "(p, o') \<in> set ?found \<longleftrightarrow>
        (\<exists>q m. (q, m) \<in> set (pt_providers ?t) \<and> ?f m = Some o' \<and> pm_peer_id m = p)"
      by (force simp: find_providers_def in_map_filter offer_entry_def)
    then show ?thesis using mem id by blast
  qed
  have "known_manifest me es me = None"
  proof -
    have "foldl (\<lambda>k x. known_step me me x k) None es = None"
    proof (induction es)
      case (Cons x es)
      then show ?case by (cases x) simp_all
    qed simp
    then show ?thesis by (simp add: known_manifest_def)
  qed
  moreover have "me \<notin> fst ` set ?found"
  proof
    assume "me \<in> fst ` set ?found"
    then obtain o' where "(me, o') \<in> set ?found" by force
    then show False unfolding ex using \<open>known_manifest me es me = None\<close> by simp
  qed
  ultimately show ?thesis unfolding Let_def using ex by blast
qed

end
