(* ===== verification/Swarm.thy ===== *)
theory Swarm
  imports Providers Json
begin

section \<open>The swarm of agents\<close>

text \<open>
  Models \<^verbatim>\<open>src/swarm/{agent,profile,event,manager}.rs\<close>: the agents a node knows, its own and those of
  its peers, what they do, and the events that are broadcast about it. Identifiers and the clock are
  arguments; the events are the list of what was sent. A call that waits for a lock its own thread
  holds never returns: \<open>None\<close>.
\<close>

subsection \<open>Profiles\<close>

datatype agent_capability =
    AcInference
  | AcGpuAcceleration
  | AcWasmSandbox
  | AcStorage
  | AcRelay
  | AcWebAccess
  | AcVectorMemory
  | AcToolBuilding
  | AcMcpServer
  | AcModel string
  | AcCustom string

fun agent_capability_text :: "agent_capability \<Rightarrow> string" where
  "agent_capability_text AcInference = ''Inference''"
| "agent_capability_text AcGpuAcceleration = ''GPU''"
| "agent_capability_text AcWasmSandbox = ''WASM''"
| "agent_capability_text AcStorage = ''Storage''"
| "agent_capability_text AcRelay = ''Relay''"
| "agent_capability_text AcWebAccess = ''Web''"
| "agent_capability_text AcVectorMemory = ''Memory''"
| "agent_capability_text AcToolBuilding = ''Tools''"
| "agent_capability_text AcMcpServer = ''MCP''"
| "agent_capability_text (AcModel name) = ''Model:'' @ name"
| "agent_capability_text (AcCustom name) = name"

fun capability_of_peer :: "capability \<Rightarrow> agent_capability" where
  "capability_of_peer CapWasmSandbox = AcWasmSandbox"
| "capability_of_peer CapInference = AcInference"
| "capability_of_peer CapStorage = AcStorage"
| "capability_of_peer CapRelay = AcRelay"
| "capability_of_peer CapWebProxy = AcWebAccess"
| "capability_of_peer CapLlmProvider = AcInference"

record personality_traits =
  pe_creativity :: f64
  pe_collaboration :: f64
  pe_thoroughness :: f64
  pe_speed_vs_quality :: f64
  pe_risk_tolerance :: f64
  pe_verbosity :: f64

text \<open>The traits in hundredths, each rounded to \<open>f32\<close>.\<close>

definition traits :: "int \<Rightarrow> int \<Rightarrow> int \<Rightarrow> int \<Rightarrow> int \<Rightarrow> int \<Rightarrow> personality_traits" where
  "traits a b c d e f =
     \<lparr>pe_creativity = f32_lit a 100, pe_collaboration = f32_lit b 100, pe_thoroughness = f32_lit c 100,
      pe_speed_vs_quality = f32_lit d 100, pe_risk_tolerance = f32_lit e 100, pe_verbosity = f32_lit f 100\<rparr>"

definition traits_default :: personality_traits where
  "traits_default = traits 50 70 60 50 30 50"

definition traits_creative :: personality_traits where
  "traits_creative = traits 90 60 40 60 70 60"

definition traits_analytical :: personality_traits where
  "traits_analytical = traits 30 50 90 20 20 70"

definition traits_collaborative :: personality_traits where
  "traits_collaborative = traits 50 95 50 50 40 60"

definition traits_fast :: personality_traits where
  "traits_fast = traits 40 60 30 90 50 30"

record agent_profile =
  ap_display_name :: "string option"
  ap_avatar_seed :: string
  ap_bio :: string
  ap_personality :: personality_traits
  ap_capabilities :: "agent_capability list"
  ap_model :: "string option"
  ap_metadata :: "(string, string) hmap"
  ap_tags :: "string list"

text \<open>\<open>seed\<close> is a fresh identifier.\<close>

definition profile_default :: "string \<Rightarrow> agent_profile" where
  "profile_default seed =
     \<lparr>ap_display_name = None, ap_avatar_seed = seed, ap_bio = [], ap_personality = traits_default,
      ap_capabilities = [], ap_model = None, ap_metadata = [], ap_tags = []\<rparr>"

definition profile_new :: "string \<Rightarrow> agent_profile" where
  "profile_new name = (profile_default [])\<lparr>ap_display_name := Some name, ap_avatar_seed := name\<rparr>"

definition profile_from_capabilities :: "string \<Rightarrow> agent_capability list \<Rightarrow> agent_profile" where
  "profile_from_capabilities seed caps = (profile_default seed)\<lparr>ap_capabilities := caps\<rparr>"

definition with_capability :: "agent_capability \<Rightarrow> agent_profile \<Rightarrow> agent_profile" where
  "with_capability c p = p\<lparr>ap_capabilities := ap_capabilities p @ [c]\<rparr>"

definition has_capability :: "agent_profile \<Rightarrow> agent_capability \<Rightarrow> bool" where
  "has_capability p c = List.member (ap_capabilities p) c"

definition capability_score :: "agent_profile \<Rightarrow> f64" where
  "capability_score p = f_min (f_div (f_of_int (int (length (ap_capabilities p)))) (f_of_int 10)) (f_of_int 1)"

subsection \<open>Agents\<close>

datatype swarm_agent_state =
    SwIdle
  | SwThinking
  | SwWorking string
  | SwWaiting string
  | SwError string
  | SwOffline

fun state_display :: "swarm_agent_state \<Rightarrow> string" where
  "state_display SwIdle = ''idle''"
| "state_display SwThinking = ''thinking''"
| "state_display (SwWorking _) = ''working''"
| "state_display (SwWaiting _) = ''waiting''"
| "state_display (SwError _) = ''error''"
| "state_display SwOffline = ''offline''"

record swarm_agent =
  sw_id :: string
  sw_peer_id :: "string option"
  sw_name :: string
  sw_profile :: agent_profile
  sw_state :: swarm_agent_state
  sw_current_task :: "string option"
  sw_action_count :: u64
  sw_jobs_completed :: u64
  sw_jobs_failed :: u64
  sw_created_at :: timestamp
  sw_last_active_at :: timestamp
  sw_is_local :: bool

definition agent_new_local :: "string \<Rightarrow> timestamp \<Rightarrow> string \<Rightarrow> agent_profile \<Rightarrow> swarm_agent" where
  "agent_new_local i now name profile =
     \<lparr>sw_id = i, sw_peer_id = None, sw_name = name, sw_profile = profile, sw_state = SwIdle,
      sw_current_task = None, sw_action_count = 0, sw_jobs_completed = 0, sw_jobs_failed = 0,
      sw_created_at = now, sw_last_active_at = now, sw_is_local = True\<rparr>"

text \<open>A peer identifier is base 58, so its first eight bytes are characters.\<close>

definition agent_from_peer :: "string \<Rightarrow> timestamp \<Rightarrow> string \<Rightarrow> string option \<Rightarrow> agent_profile \<Rightarrow> swarm_agent" where
  "agent_from_peer i now peer name profile =
     \<lparr>sw_id = i, sw_peer_id = Some peer,
      sw_name = (case name of Some n \<Rightarrow> n | None \<Rightarrow> ''Peer-'' @ take 8 peer), sw_profile = profile,
      sw_state = SwIdle, sw_current_task = None, sw_action_count = 0, sw_jobs_completed = 0,
      sw_jobs_failed = 0, sw_created_at = now, sw_last_active_at = now, sw_is_local = False\<rparr>"

definition agent_set_state :: "timestamp \<Rightarrow> swarm_agent_state \<Rightarrow> swarm_agent \<Rightarrow> swarm_agent" where
  "agent_set_state now st a = a\<lparr>sw_state := st, sw_last_active_at := now\<rparr>"

definition agent_record_action :: "timestamp \<Rightarrow> swarm_agent \<Rightarrow> swarm_agent" where
  "agent_record_action now a = a\<lparr>sw_action_count := sw_action_count a + 1, sw_last_active_at := now\<rparr>"

definition agent_record_job_result :: "timestamp \<Rightarrow> bool \<Rightarrow> swarm_agent \<Rightarrow> swarm_agent" where
  "agent_record_job_result now success a =
     (if success then a\<lparr>sw_jobs_completed := sw_jobs_completed a + 1, sw_last_active_at := now\<rparr>
      else a\<lparr>sw_jobs_failed := sw_jobs_failed a + 1, sw_last_active_at := now\<rparr>)"

definition agent_success_rate :: "swarm_agent \<Rightarrow> f64" where
  "agent_success_rate a =
     (let n = sw_jobs_completed a + sw_jobs_failed a
      in if n = 0 then f_of_int 1 else f_div (f_of_u64 (sw_jobs_completed a)) (f_of_u64 n))"

fun is_busy_state :: "swarm_agent_state \<Rightarrow> bool" where
  "is_busy_state SwThinking = True"
| "is_busy_state (SwWorking _) = True"
| "is_busy_state _ = False"

definition agent_is_busy :: "swarm_agent \<Rightarrow> bool" where
  "agent_is_busy a = is_busy_state (sw_state a)"

subsection \<open>Events\<close>

datatype action_type =
    ActInference | ActThinking | ActResponse
  | ActToolCall | ActToolResult
  | ActJobRequest | ActJobBid | ActJobAccepted | ActJobStarted | ActJobCompleted | ActJobFailed
  | ActCrewTaskOffer | ActCrewTaskClaim | ActCrewTaskComplete
  | ActPeerConnect | ActPeerDisconnect | ActMessageSent | ActMessageReceived
  | ActMemoryStore | ActMemoryRetrieve
  | ActStartup | ActShutdown | ActError
  | ActCustom string

record agent_action =
  aa_id :: string
  aa_agent_id :: string
  aa_agent_name :: string
  aa_action_type :: action_type
  aa_description :: string
  aa_details :: "json option"
  aa_success :: bool
  aa_duration_ms :: "u64 option"
  aa_timestamp :: timestamp

definition action_new :: "string \<Rightarrow> timestamp \<Rightarrow> string \<Rightarrow> string \<Rightarrow> action_type \<Rightarrow> string \<Rightarrow> agent_action" where
  "action_new i now agent name k description =
     \<lparr>aa_id = i, aa_agent_id = agent, aa_agent_name = name, aa_action_type = k, aa_description = description,
      aa_details = None, aa_success = True, aa_duration_ms = None, aa_timestamp = now\<rparr>"

datatype connection_type = ConnP2P | ConnJobDelegation | ConnMessaging | ConnResourceSharing

record agent_summary =
  su_id :: string
  su_name :: string
  su_peer_id :: "string option"
  su_state :: string
  su_is_local :: bool
  su_action_count :: u64
  su_success_rate :: f64

record agent_connection =
  cn_from :: string
  cn_to :: string
  cn_type :: connection_type
  cn_strength :: f64

datatype swarm_event =
    AgentJoined string string "string option" agent_profile bool timestamp
  | AgentLeft string string string timestamp
  | AgentStateChanged string string swarm_agent_state swarm_agent_state timestamp
  | AgentActed agent_action
  | AgentConnected string string connection_type timestamp
  | TopologyUpdate "agent_summary list" "agent_connection list" timestamp
  | StatsUpdate nat nat u64 u64 timestamp

fun event_timestamp :: "swarm_event \<Rightarrow> timestamp" where
  "event_timestamp (AgentJoined _ _ _ _ _ t) = t"
| "event_timestamp (AgentLeft _ _ _ t) = t"
| "event_timestamp (AgentStateChanged _ _ _ _ t) = t"
| "event_timestamp (AgentActed a) = aa_timestamp a"
| "event_timestamp (AgentConnected _ _ _ t) = t"
| "event_timestamp (TopologyUpdate _ _ t) = t"
| "event_timestamp (StatsUpdate _ _ _ _ t) = t"

fun event_name :: "swarm_event \<Rightarrow> string" where
  "event_name (AgentJoined _ _ _ _ _ _) = ''swarm_agent_joined''"
| "event_name (AgentLeft _ _ _ _) = ''swarm_agent_left''"
| "event_name (AgentStateChanged _ _ _ _ _) = ''swarm_agent_state''"
| "event_name (AgentActed _) = ''swarm_action''"
| "event_name (AgentConnected _ _ _ _) = ''swarm_connection''"
| "event_name (TopologyUpdate _ _ _) = ''swarm_topology''"
| "event_name (StatsUpdate _ _ _ _ _) = ''swarm_stats''"

subsection \<open>The manager\<close>

text \<open>
  \<open>sm_events\<close> is everything the broadcast channel was given; a subscriber that lags behind by more than
  \<open>sg_event_buffer_size\<close> events loses the oldest of them.
\<close>

record swarm_config =
  sg_event_buffer_size :: nat
  sg_max_action_history :: nat
  sg_track_remote_peers :: bool

definition swarm_config_default :: swarm_config where
  "swarm_config_default =
     \<lparr>sg_event_buffer_size = 256, sg_max_action_history = 1000, sg_track_remote_peers = True\<rparr>"

record swarm_manager =
  sm_config :: swarm_config
  sm_agents :: "(string, swarm_agent) hmap"
  sm_peer_to_agent :: "(string, string) hmap"
  sm_events :: "swarm_event list"
  sm_action_history :: "agent_action list"
  sm_connections :: "agent_connection list"
  sm_total_actions :: u64
  sm_total_jobs :: u64

definition swarm_new :: "swarm_config \<Rightarrow> swarm_manager" where
  "swarm_new c =
     \<lparr>sm_config = c, sm_agents = [], sm_peer_to_agent = [], sm_events = [], sm_action_history = [],
      sm_connections = [], sm_total_actions = 0, sm_total_jobs = 0\<rparr>"

definition send_event :: "swarm_event \<Rightarrow> swarm_manager \<Rightarrow> swarm_manager" where
  "send_event x s = s\<lparr>sm_events := sm_events s @ [x]\<rparr>"

definition any_local_agent_id :: "swarm_manager \<Rightarrow> string option" where
  "any_local_agent_id s = map_option sw_id (List.find sw_is_local (map snd (sm_agents s)))"

text \<open>What a call takes from outside: fresh identifiers and the time.\<close>

record swarm_env =
  sv_now :: timestamp
  sv_id :: string
  sv_seed :: string

definition register_local_agent :: "swarm_env \<Rightarrow> string \<Rightarrow> agent_profile \<Rightarrow> swarm_manager \<Rightarrow> string \<times> swarm_manager" where
  "register_local_agent e name profile s =
     (let a = agent_new_local (sv_id e) (sv_now e) name profile;
          s = s\<lparr>sm_agents := hm_insert (sw_id a) a (sm_agents s)\<rparr>
      in (sw_id a, send_event (AgentJoined (sw_id a) name None profile True (sv_now e)) s))"

definition register_peer_agent ::
    "swarm_env \<Rightarrow> string \<Rightarrow> resource_manifest option \<Rightarrow> swarm_manager \<Rightarrow> string \<times> swarm_manager" where
  "register_peer_agent e peer manifest s =
     (case hm_get (sm_peer_to_agent s) peer of
        Some i \<Rightarrow> (i, s)
      | None \<Rightarrow>
          let profile = (case manifest of
                           Some m \<Rightarrow> profile_from_capabilities (sv_seed e) (map capability_of_peer (rn_capabilities m))
                         | None \<Rightarrow> profile_default (sv_seed e));
              a = agent_from_peer (sv_id e) (sv_now e) peer None profile;
              s = s\<lparr>sm_agents := hm_insert (sw_id a) a (sm_agents s),
                    sm_peer_to_agent := hm_insert peer (sw_id a) (sm_peer_to_agent s)\<rparr>
          in (sw_id a, send_event (AgentJoined (sw_id a) (sw_name a) (Some peer) profile False (sv_now e)) s))"

definition remove_agent :: "swarm_env \<Rightarrow> string \<Rightarrow> string \<Rightarrow> swarm_manager \<Rightarrow> swarm_manager" where
  "remove_agent e i reason s =
     (case hm_get (sm_agents s) i of
        None \<Rightarrow> s
      | Some a \<Rightarrow>
          let s = s\<lparr>sm_agents := hm_remove i (sm_agents s)\<rparr>;
              s = (case sw_peer_id a of
                     Some p \<Rightarrow> s\<lparr>sm_peer_to_agent := hm_remove p (sm_peer_to_agent s)\<rparr> | None \<Rightarrow> s);
              s = s\<lparr>sm_connections := filter (\<lambda>c. cn_from c \<noteq> i \<and> cn_to c \<noteq> i) (sm_connections s)\<rparr>
          in send_event (AgentLeft i (sw_name a) reason (sv_now e)) s)"

definition update_agent_state :: "swarm_env \<Rightarrow> string \<Rightarrow> swarm_agent_state \<Rightarrow> swarm_manager \<Rightarrow> swarm_manager" where
  "update_agent_state e i st s =
     (case hm_get (sm_agents s) i of
        None \<Rightarrow> s
      | Some a \<Rightarrow>
          send_event (AgentStateChanged i (sw_name a) (sw_state a) st (sv_now e))
            (s\<lparr>sm_agents := hm_insert i (agent_set_state (sv_now e) st a) (sm_agents s)\<rparr>))"

text \<open>\<open>get_mut\<close> with a function.\<close>

definition on_agent :: "string \<Rightarrow> (swarm_agent \<Rightarrow> swarm_agent) \<Rightarrow> swarm_manager \<Rightarrow> swarm_manager" where
  "on_agent i f s =
     (case hm_get (sm_agents s) i of
        None \<Rightarrow> s | Some a \<Rightarrow> s\<lparr>sm_agents := hm_insert i (f a) (sm_agents s)\<rparr>)"

definition push_action :: "nat \<Rightarrow> agent_action \<Rightarrow> agent_action list \<Rightarrow> agent_action list" where
  "push_action most x h = (let h = h @ [x] in if most < length h then tl h else h)"

definition record_action :: "swarm_env \<Rightarrow> agent_action \<Rightarrow> swarm_manager \<Rightarrow> swarm_manager" where
  "record_action e x s =
     (let s = on_agent (aa_agent_id x) (agent_record_action (sv_now e)) s;
          s = s\<lparr>sm_total_actions := sm_total_actions s + 1,
                sm_action_history := push_action (sg_max_action_history (sm_config s)) x (sm_action_history s)\<rparr>
      in send_event (AgentActed x) s)"

definition record_job_action ::
    "swarm_env \<Rightarrow> string \<Rightarrow> action_type \<Rightarrow> string \<Rightarrow> bool \<Rightarrow> swarm_manager \<Rightarrow> swarm_manager" where
  "record_job_action e i k description success s =
     (let name = (case hm_get (sm_agents s) i of Some a \<Rightarrow> sw_name a | None \<Rightarrow> ''Unknown'');
          x = action_new (sv_id e) (sv_now e) i name k description;
          x = (if success then x else x\<lparr>aa_success := False\<rparr>);
          s = (if k = ActJobCompleted \<or> k = ActJobFailed
               then on_agent i (agent_record_job_result (sv_now e) success) (s\<lparr>sm_total_jobs := sm_total_jobs s + 1\<rparr>)
               else s)
      in record_action e x s)"

definition add_connection :: "swarm_env \<Rightarrow> string \<Rightarrow> string \<Rightarrow> connection_type \<Rightarrow> swarm_manager \<Rightarrow> swarm_manager" where
  "add_connection e a b k s =
     send_event (AgentConnected a b k (sv_now e))
       (s\<lparr>sm_connections := sm_connections s @ [\<lparr>cn_from = a, cn_to = b, cn_type = k, cn_strength = f_of_int 1\<rparr>]\<rparr>)"

datatype network_event =
    PeerDiscovered string "string list"
  | PeerConnected string
  | PeerDisconnected string
  | GossipMessage string "u8 list" "string option"
  | RequestReceived string string "u8 list"
  | A2aRpcInbound string string
  | ResourceAdvertised string resource_manifest

fun network_event_text :: "network_event \<Rightarrow> string" where
  "network_event_text (PeerDiscovered p addrs) =
     ''PeerDiscovered('' @ p @ '', '' @ show_nat (length addrs) @ '' addrs)''"
| "network_event_text (PeerConnected p) = ''PeerConnected('' @ p @ '')''"
| "network_event_text (PeerDisconnected p) = ''PeerDisconnected('' @ p @ '')''"
| "network_event_text (GossipMessage t d _) = ''GossipMessage('' @ t @ '', '' @ show_nat (length d) @ '' bytes)''"
| "network_event_text (RequestReceived _ p d) =
     ''RequestReceived('' @ p @ '', '' @ show_nat (length d) @ '' bytes)''"
| "network_event_text (A2aRpcInbound p m) = ''A2aRpcInbound('' @ p @ '', '' @ m @ '')''"
| "network_event_text (ResourceAdvertised p _) = ''ResourceAdvertised('' @ p @ '')''"

text \<open>
  The guard of the index lives to the end of the \<^verbatim>\<open>if let\<close>, so registering the peer of an
  advertisement in its \<^verbatim>\<open>else\<close> waits for a lock that is held.
\<close>

definition swarm_network_event :: "swarm_env \<Rightarrow> network_event \<Rightarrow> swarm_manager \<Rightarrow> swarm_manager option" where
  "swarm_network_event e x s =
     (if \<not> sg_track_remote_peers (sm_config s) then Some s
      else
        (case x of
           PeerConnected peer \<Rightarrow> Some (snd (register_peer_agent e peer None s))
         | PeerDisconnected peer \<Rightarrow>
             Some (case hm_get (sm_peer_to_agent s) peer of
                     Some i \<Rightarrow> update_agent_state e i SwOffline s | None \<Rightarrow> s)
         | ResourceAdvertised peer m \<Rightarrow>
             (case hm_get (sm_peer_to_agent s) peer of
                None \<Rightarrow> None
              | Some i \<Rightarrow>
                  Some (on_agent i
                    (\<lambda>a. a\<lparr>sw_profile := (sw_profile a)\<lparr>ap_capabilities := map capability_of_peer (rn_capabilities m)\<rparr>,
                          sw_last_active_at := sv_now e\<rparr>) s))
         | _ \<Rightarrow> Some s))"

definition get_agent_by_peer :: "swarm_manager \<Rightarrow> string \<Rightarrow> swarm_agent option" where
  "get_agent_by_peer s peer =
     (case hm_get (sm_peer_to_agent s) peer of Some i \<Rightarrow> hm_get (sm_agents s) i | None \<Rightarrow> None)"

text \<open>\<open>None\<close>: the sum wraps and the slice starts after its end.\<close>

definition get_actions :: "u64 \<Rightarrow> u64 \<Rightarrow> swarm_manager \<Rightarrow> agent_action list option" where
  "get_actions limit offset s =
     (let n = length (sm_action_history s)
      in if n \<le> unat offset then Some []
         else
           let start = n - unat (offset + limit); stop = n - unat offset
           in if stop < start then None else Some (take (stop - start) (drop start (sm_action_history s))))"

definition summary_of :: "swarm_agent \<Rightarrow> agent_summary" where
  "summary_of a =
     \<lparr>su_id = sw_id a, su_name = sw_name a, su_peer_id = sw_peer_id a, su_state = state_display (sw_state a),
      su_is_local = sw_is_local a, su_action_count = sw_action_count a, su_success_rate = agent_success_rate a\<rparr>"

definition get_topology :: "timestamp \<Rightarrow> swarm_manager \<Rightarrow> swarm_event" where
  "get_topology now s = TopologyUpdate (map (summary_of \<circ> snd) (sm_agents s)) (sm_connections s) now"

definition swarm_stats_event :: "timestamp \<Rightarrow> swarm_manager \<Rightarrow> swarm_event" where
  "swarm_stats_event now s =
     StatsUpdate (length (sm_agents s)) (length (filter (agent_is_busy \<circ> snd) (sm_agents s)))
       (sm_total_actions s) (sm_total_jobs s) now"

end
