(* ===== verification/Swarm_Props.thy ===== *)
theory Swarm_Props
  imports Swarm
begin

section \<open>The events of a swarm tell its state\<close>

text \<open>The operations of a manager; identifiers of new agents are fresh.\<close>

inductive swarm_step :: "swarm_manager \<Rightarrow> swarm_manager \<Rightarrow> bool" where
  sw_local: "hm_get (sm_agents s) (sv_id e) = None \<Longrightarrow> swarm_step s (snd (register_local_agent e name profile s))"
| sw_peer: "hm_get (sm_agents s) (sv_id e) = None \<Longrightarrow> swarm_step s (snd (register_peer_agent e peer manifest s))"
| sw_remove: "swarm_step s (remove_agent e i reason s)"
| sw_state: "swarm_step s (update_agent_state e i st s)"
| sw_action: "swarm_step s (record_action e x s)"
| sw_job: "swarm_step s (record_job_action e i k description success s)"
| sw_connect: "swarm_step s (add_connection e a b t s)"
| sw_network: "hm_get (sm_agents s) (sv_id e) = None \<Longrightarrow> swarm_network_event e ev s = Some s' \<Longrightarrow> swarm_step s s'"

text \<open>What a subscriber knows of an agent: its name, peer, whether it is local, and its state.\<close>

type_synonym agent_view = "string \<times> string option \<times> bool \<times> swarm_agent_state"

definition view_of :: "swarm_agent \<Rightarrow> agent_view" where
  "view_of a = (sw_name a, sw_peer_id a, sw_is_local a, sw_state a)"

fun replay_event :: "swarm_event \<Rightarrow> (string \<rightharpoonup> agent_view) \<Rightarrow> (string \<rightharpoonup> agent_view)" where
  "replay_event (AgentJoined i name peer _ local _) v = v(i \<mapsto> (name, peer, local, SwIdle))"
| "replay_event (AgentLeft i _ _ _) v = v(i := None)"
| "replay_event (AgentStateChanged i _ _ st _) v =
     v(i := map_option (\<lambda>(name, peer, local, _). (name, peer, local, st)) (v i))"
| "replay_event _ v = v"

definition replay :: "swarm_event list \<Rightarrow> (string \<rightharpoonup> agent_view)" where
  "replay xs = foldl (\<lambda>v x. replay_event x v) Map.empty xs"

fun action_of :: "swarm_event \<Rightarrow> agent_action option" where
  "action_of (AgentActed x) = Some x"
| "action_of _ = None"

definition actions_of :: "swarm_event list \<Rightarrow> agent_action list" where
  "actions_of xs = List.map_filter action_of xs"

lemma replay_snoc [simp]: "replay (xs @ [x]) = replay_event x (replay xs)"
  by (simp add: replay_def)

lemma actions_snoc [simp]:
  "actions_of (xs @ [x]) = actions_of xs @ (case action_of x of Some a \<Rightarrow> [a] | None \<Rightarrow> [])"
  by (simp add: actions_of_def List.map_filter_def split: option.splits)

subsection \<open>The invariant\<close>

definition index_ok :: "(string, swarm_agent) hmap \<Rightarrow> (string, string) hmap \<Rightarrow> bool" where
  "index_ok agents idx \<longleftrightarrow>
     (\<forall>p i. hm_get idx p = Some i \<longleftrightarrow> (\<exists>a. hm_get agents i = Some a \<and> sw_peer_id a = Some p))"

definition swarm_inv :: "swarm_manager \<Rightarrow> bool" where
  "swarm_inv s \<longleftrightarrow>
     replay (sm_events s) = (\<lambda>i. map_option view_of (hm_get (sm_agents s) i)) \<and>
     index_ok (sm_agents s) (sm_peer_to_agent s) \<and>
     (\<forall>i a. hm_get (sm_agents s) i = Some a \<longrightarrow> sw_id a = i) \<and>
     sm_action_history s = keep_last (sg_max_action_history (sm_config s)) (actions_of (sm_events s)) \<and>
     sm_total_actions s = word_of_nat (length (actions_of (sm_events s)))"

lemma swarm_invD:
  assumes "swarm_inv s"
  shows "replay (sm_events s) = (\<lambda>i. map_option view_of (hm_get (sm_agents s) i))"
    "index_ok (sm_agents s) (sm_peer_to_agent s)"
    "hm_get (sm_agents s) i = Some a \<Longrightarrow> sw_id a = i"
    "sm_action_history s = keep_last (sg_max_action_history (sm_config s)) (actions_of (sm_events s))"
    "sm_total_actions s = word_of_nat (length (actions_of (sm_events s)))"
  using assms by (simp_all add: swarm_inv_def)

lemma push_action_keep_last: "push_action n x (keep_last n xs) = keep_last n (xs @ [x])"
proof -
  have d: "keep_last n xs @ [x] = drop (length xs - n) (xs @ [x])" by (simp add: keep_last_def)
  have t: "tl (drop k ys) = drop (Suc k) ys" for k and ys :: "agent_action list" by (simp add: drop_Suc tl_drop)
  show ?thesis
    unfolding push_action_def d t Let_def by (auto simp: keep_last_def Suc_diff_le not_less simp del: drop_append)
qed

text \<open>Replacing an agent by one of the same id, name, peer and kind.\<close>

lemma index_ok_insert:
  assumes "index_ok agents idx" "hm_get agents i = Some a" "sw_peer_id b = sw_peer_id a"
  shows "index_ok (hm_insert i b agents) idx"
  using assms unfolding index_ok_def by auto

lemma index_ok_fresh:
  assumes "index_ok agents idx" "hm_get agents i = None" "hm_get idx p = None" "sw_peer_id a = Some p"
  shows "index_ok (hm_insert i a agents) (hm_insert p i idx)"
  using assms unfolding index_ok_def by (auto split: if_splits) (metis option.distinct(1))+

lemma index_ok_fresh_local:
  assumes "index_ok agents idx" "hm_get agents i = None" "sw_peer_id a = None"
  shows "index_ok (hm_insert i a agents) idx"
  using assms unfolding index_ok_def by auto

lemma index_ok_remove:
  assumes "index_ok agents idx" "hm_get agents i = Some a"
  shows "index_ok (hm_remove i agents) (case sw_peer_id a of Some p \<Rightarrow> hm_remove p idx | None \<Rightarrow> idx)"
  using assms unfolding index_ok_def by (auto split: option.splits) (metis option.inject)+

lemma swarm_inv_on_agent:
  assumes s: "swarm_inv s" and f: "\<And>a. view_of (f a) = view_of a" "\<And>a. sw_id (f a) = sw_id a"
  shows "swarm_inv (on_agent i f s)"
proof (cases "hm_get (sm_agents s) i")
  case None
  then show ?thesis using s by (simp add: on_agent_def)
next
  case (Some a)
  have p: "sw_peer_id (f a) = sw_peer_id a" using f(1) [of a] by (simp add: view_of_def)
  have r: "replay (sm_events s) = (\<lambda>j. map_option view_of (hm_get (hm_insert i (f a) (sm_agents s)) j))"
    using swarm_invD(1) [OF s] Some f(1) by (auto simp: fun_eq_iff)
  show ?thesis
    using swarm_invD(3) [OF s] swarm_invD(4,5) [OF s] r f(2) index_ok_insert [OF swarm_invD(2) [OF s] Some p] Some
    by (simp add: swarm_inv_def on_agent_def)
qed

subsection \<open>The operations keep it\<close>

lemma inv_register_local:
  assumes s: "swarm_inv s" and new: "hm_get (sm_agents s) (sv_id e) = None"
  shows "swarm_inv (snd (register_local_agent e name profile s))"
proof -
  let ?a = "agent_new_local (sv_id e) (sv_now e) name profile"
  have a: "sw_id ?a = sv_id e" "sw_peer_id ?a = None" "view_of ?a = (name, None, True, SwIdle)"
    by (simp_all add: agent_new_local_def view_of_def)
  show ?thesis
    using swarm_invD [OF s] a index_ok_fresh_local [OF swarm_invD(2) [OF s] new a(2)]
    by (auto simp: swarm_inv_def register_local_agent_def send_event_def Let_def fun_eq_iff)
qed

lemma inv_register_peer:
  assumes s: "swarm_inv s" and new: "hm_get (sm_agents s) (sv_id e) = None"
  shows "swarm_inv (snd (register_peer_agent e peer manifest s))"
proof (cases "hm_get (sm_peer_to_agent s) peer")
  case None
  define a where "a = agent_from_peer (sv_id e) (sv_now e) peer None
    (case manifest of
       Some m \<Rightarrow> profile_from_capabilities (sv_seed e) (map capability_of_peer (rn_capabilities m))
     | None \<Rightarrow> profile_default (sv_seed e))"
  have a: "sw_id a = sv_id e" "sw_peer_id a = Some peer" "view_of a = (sw_name a, Some peer, False, SwIdle)"
    by (simp_all add: a_def agent_from_peer_def view_of_def)
  show ?thesis
    using swarm_invD [OF s] a index_ok_fresh [OF swarm_invD(2) [OF s] new None a(2)] None
    by (auto simp: swarm_inv_def register_peer_agent_def send_event_def Let_def fun_eq_iff a_def [symmetric])
qed (simp add: register_peer_agent_def s)

lemma inv_remove:
  assumes s: "swarm_inv s"
  shows "swarm_inv (remove_agent e i reason s)"
proof (cases "hm_get (sm_agents s) i")
  case (Some a)
  show ?thesis
    using swarm_invD [OF s] index_ok_remove [OF swarm_invD(2) [OF s] Some] Some
    by (cases "sw_peer_id a") (auto simp: swarm_inv_def remove_agent_def send_event_def Let_def fun_eq_iff)
qed (simp add: remove_agent_def s)

lemma inv_update_state:
  assumes s: "swarm_inv s"
  shows "swarm_inv (update_agent_state e i st s)"
proof (cases "hm_get (sm_agents s) i")
  case (Some a)
  let ?b = "agent_set_state (sv_now e) st a"
  have b: "sw_id ?b = sw_id a" "sw_peer_id ?b = sw_peer_id a"
    "view_of ?b = (case view_of a of (n, p, l, _) \<Rightarrow> (n, p, l, st))"
    by (simp_all add: agent_set_state_def view_of_def)
  show ?thesis
    using swarm_invD [OF s] index_ok_insert [OF swarm_invD(2) [OF s] Some b(2)] b(1,3) Some
    by (auto simp: swarm_inv_def update_agent_state_def send_event_def fun_eq_iff)
qed (simp add: update_agent_state_def s)

lemma inv_record_action:
  assumes s: "swarm_inv s"
  shows "swarm_inv (record_action e x s)"
proof -
  let ?s = "on_agent (aa_agent_id x) (agent_record_action (sv_now e)) s"
  have "swarm_inv ?s"
    using s by (rule swarm_inv_on_agent) (simp_all add: agent_record_action_def view_of_def)
  note i = swarm_invD [OF this]
  show ?thesis
    using i(1-3) i(4,5) push_action_keep_last
    by (simp add: swarm_inv_def record_action_def send_event_def Let_def)
qed

lemma inv_total_jobs: "swarm_inv s \<Longrightarrow> swarm_inv (s\<lparr>sm_total_jobs := n\<rparr>)"
  by (simp add: swarm_inv_def)

lemma inv_record_job_action: "swarm_inv s \<Longrightarrow> swarm_inv (record_job_action e i k description success s)"
  unfolding record_job_action_def Let_def
  by (intro inv_record_action)
    (auto intro!: swarm_inv_on_agent inv_total_jobs simp: agent_record_job_result_def view_of_def)

lemma inv_add_connection: "swarm_inv s \<Longrightarrow> swarm_inv (add_connection e a b t s)"
  by (simp add: swarm_inv_def add_connection_def send_event_def)

lemma inv_network:
  assumes "swarm_inv s" "hm_get (sm_agents s) (sv_id e) = None" "swarm_network_event e ev s = Some s'"
  shows "swarm_inv s'"
  using assms(3) inv_register_peer [OF assms(1,2)] inv_update_state [OF assms(1)] assms(1)
  by (cases ev)
    (auto simp: swarm_network_event_def view_of_def intro!: swarm_inv_on_agent split: if_splits option.splits)

lemma swarm_step_inv: "swarm_step s s' \<Longrightarrow> swarm_inv s \<Longrightarrow> swarm_inv s'"
  by (induction rule: swarm_step.induct)
    (simp_all add: inv_register_local inv_register_peer inv_remove inv_update_state inv_record_action
      inv_record_job_action inv_add_connection inv_network)

lemma swarm_steps_inv: "swarm_step\<^sup>*\<^sup>* (swarm_new c) s \<Longrightarrow> swarm_inv s"
proof (induction rule: rtranclp_induct)
  case base
  show ?case
    by (simp add: swarm_inv_def swarm_new_def index_ok_def replay_def actions_of_def List.map_filter_def
        keep_last_def fun_eq_iff)
qed (rule swarm_step_inv)

text \<open>C36: After any sequence of operations that return, with fresh identifiers, the broadcast events tell the whole state of the swarm: replaying them gives the name, peer, locality and state of every agent and of no other; the history is the last of the actions they report, as many as it may hold, and their number is the count of actions; and a peer's entry in the index is the one agent of that peer.\<close>

theorem swarm_events_tell_state:
  assumes "swarm_step\<^sup>*\<^sup>* (swarm_new c) s"
  shows "replay (sm_events s) i = map_option view_of (hm_get (sm_agents s) i) \<and>
    sm_action_history s = keep_last (sg_max_action_history (sm_config s)) (actions_of (sm_events s)) \<and>
    sm_total_actions s = word_of_nat (length (actions_of (sm_events s))) \<and>
    (hm_get (sm_peer_to_agent s) p = Some i \<longleftrightarrow> (\<exists>a. hm_get (sm_agents s) i = Some a \<and> sw_peer_id a = Some p))"
  using swarm_steps_inv [OF assms] by (simp add: swarm_inv_def index_ok_def)

text \<open>An advertisement of a peer that is not yet known never returns.\<close>

lemma unknown_advertisement_hangs:
  "sg_track_remote_peers (sm_config s) \<Longrightarrow> hm_get (sm_peer_to_agent s) peer = None \<Longrightarrow>
     swarm_network_event e (ResourceAdvertised peer m) s = None"
  by (simp add: swarm_network_event_def)

definition demo_swarm_env :: "string \<Rightarrow> swarm_env" where
  "demo_swarm_env i = \<lparr>sv_now = 5, sv_id = i, sv_seed = ''seed''\<rparr>"

text \<open>A peer connects and goes; the swarm keeps it, offline.\<close>

theorem swarm_events_tell_state_witness:
  "\<exists>s. swarm_step\<^sup>*\<^sup>* (swarm_new swarm_config_default) s \<and>
     replay (sm_events s) ''a1'' = Some (''Peer-12D3KooW'', Some ''12D3KooWabc'', False, SwOffline)"
proof -
  let ?e = "demo_swarm_env ''a1''"
  let ?s0 = "swarm_new swarm_config_default"
  let ?s1 = "snd (register_peer_agent ?e ''12D3KooWabc'' None ?s0)"
  let ?s2 = "update_agent_state ?e ''a1'' SwOffline ?s1"
  have s: "swarm_step\<^sup>*\<^sup>* ?s0 ?s2"
    by (rule converse_rtranclp_into_rtranclp [OF sw_peer r_into_rtranclp [where r = swarm_step, OF sw_state]])
      (simp add: swarm_new_def)
  have "map_option view_of (hm_get (sm_agents ?s2) ''a1'') = Some (''Peer-12D3KooW'', Some ''12D3KooWabc'', False, SwOffline)"
    by (simp add: update_agent_state_def register_peer_agent_def demo_swarm_env_def swarm_new_def send_event_def
        agent_from_peer_def agent_set_state_def view_of_def Let_def)
  then show ?thesis using swarm_events_tell_state [OF s, where i = "''a1''"] s by metis
qed

end
