(* ===== verification/Crew_Market.thy ===== *)
theory Crew_Market
  imports Executor Swarm Prompts
begin

section \<open>Crew tasks on the network\<close>

text \<open>
  Models \<^verbatim>\<open>src/crew/p2p.rs\<close> and the crew worker of \<^verbatim>\<open>src/runtime.rs\<close>: a node that receives the
  offer of a crew's task checks it, claims it, runs it on its own executor and publishes the result.
  Keys, JSON text and the transport are parameters.
\<close>

subsection \<open>Messages\<close>

record crew_task_offer =
  co_run_id :: string
  co_task_id :: string
  co_pod_id :: string
  co_orchestrator_peer :: string
  co_model_hint :: string
  co_summary :: string
  co_expires_at_ms :: u64
  co_signature :: "u8 list"

record crew_task_claim =
  cc_offer_run_id :: string
  cc_offer_task_id :: string
  cc_worker_peer :: string
  cc_signature :: "u8 list"

record crew_task_result =
  ct_run_id :: string
  ct_task_id :: string
  ct_worker_peer :: string
  ct_output_summary :: string
  ct_success :: bool
  ct_signature :: "u8 list"

definition offer_new :: "u64 \<Rightarrow> string \<Rightarrow> string \<Rightarrow> string \<Rightarrow> string \<Rightarrow> u64 \<Rightarrow> crew_task_offer" where
  "offer_new now run task orchestrator summary ttl =
     \<lparr>co_run_id = run, co_task_id = task, co_pod_id = [], co_orchestrator_peer = orchestrator,
      co_model_hint = [], co_summary = summary, co_expires_at_ms = sat_add now ttl, co_signature = []\<rparr>"

definition world_topic :: "string \<Rightarrow> string" where
  "world_topic campaign = ''peerclaw/world/'' @ campaign @ ''/v1''"

definition crew_task_topic :: string where
  "crew_task_topic = ''peerclaw/crew/v1''"

text \<open>A field with the zero byte behind it.\<close>

definition zero_ended :: "string \<Rightarrow> u8 list" where
  "zero_ended s = str_bytes s @ [0]"

definition offer_signable :: "crew_task_offer \<Rightarrow> u8 list" where
  "offer_signable m =
     str_bytes ''peerclaw:crew_offer:v1:'' @ zero_ended (co_run_id m) @ zero_ended (co_task_id m) @
     zero_ended (co_pod_id m) @ zero_ended (co_orchestrator_peer m) @ zero_ended (co_model_hint m) @
     zero_ended (co_summary m) @ str_bytes (show_word (co_expires_at_ms m))"

definition claim_signable :: "crew_task_claim \<Rightarrow> u8 list" where
  "claim_signable m =
     str_bytes ''peerclaw:crew_claim:v1:'' @ zero_ended (cc_offer_run_id m) @ zero_ended (cc_offer_task_id m) @
     str_bytes (cc_worker_peer m)"

definition result_signable :: "crew_task_result \<Rightarrow> u8 list" where
  "result_signable m =
     str_bytes ''peerclaw:crew_result:v1:'' @ zero_ended (ct_run_id m) @ zero_ended (ct_task_id m) @
     zero_ended (ct_worker_peer m) @ zero_ended (ct_output_summary m) @
     str_bytes (if ct_success m then ''1'' else ''0'')"

definition sign_claim :: "(u8 list \<Rightarrow> u8 list) \<Rightarrow> crew_task_claim \<Rightarrow> crew_task_claim" where
  "sign_claim sign m = m\<lparr>cc_signature := sign (claim_signable m)\<rparr>"

definition sign_result :: "(u8 list \<Rightarrow> u8 list) \<Rightarrow> crew_task_result \<Rightarrow> crew_task_result" where
  "sign_result sign m = m\<lparr>ct_signature := sign (result_signable m)\<rparr>"

definition sign_offer :: "(u8 list \<Rightarrow> u8 list) \<Rightarrow> crew_task_offer \<Rightarrow> crew_task_offer" where
  "sign_offer sign m = m\<lparr>co_signature := sign (offer_signable m)\<rparr>"

text \<open>
  What a peer identifier says about its key: it is a hash of it, or it holds a key that does not
  decode, or one that verifies.
\<close>

datatype peer_key = KeyHashed | KeyBroken | KeyOf "u8 list \<Rightarrow> u8 list \<Rightarrow> bool"

definition verify_bound :: "(string \<Rightarrow> peer_key) \<Rightarrow> string \<Rightarrow> string \<Rightarrow> u8 list \<Rightarrow> u8 list \<Rightarrow> bool" where
  "verify_bound keys claimed source bytes signature =
     (if claimed \<noteq> source then False
      else if signature = [] then True
      else (case keys source of KeyHashed \<Rightarrow> True | KeyBroken \<Rightarrow> False | KeyOf verify \<Rightarrow> verify bytes signature))"

definition verify_source :: "(string \<Rightarrow> peer_key) \<Rightarrow> string \<Rightarrow> crew_task_offer \<Rightarrow> bool" where
  "verify_source keys source m = verify_bound keys (co_orchestrator_peer m) source (offer_signable m) (co_signature m)"

definition verify_claim_worker :: "(string \<Rightarrow> peer_key) \<Rightarrow> string \<Rightarrow> crew_task_claim \<Rightarrow> bool" where
  "verify_claim_worker keys source m = verify_bound keys (cc_worker_peer m) source (claim_signable m) (cc_signature m)"

definition verify_result_worker :: "(string \<Rightarrow> peer_key) \<Rightarrow> string \<Rightarrow> crew_task_result \<Rightarrow> bool" where
  "verify_result_worker keys source m = verify_bound keys (ct_worker_peer m) source (result_signable m) (ct_signature m)"

subsection \<open>The worker\<close>

record market_env =
  mk_me :: string
  mk_now_ms :: u64
  mk_keys :: "string \<Rightarrow> peer_key"
  mk_sign :: "u8 list \<Rightarrow> u8 list"
  mk_claim_json :: "crew_task_claim \<Rightarrow> string + u8 list"
  mk_result_json :: "crew_task_result \<Rightarrow> string + u8 list"
  mk_publish_error :: "u8 list \<Rightarrow> string option"
  mk_prompts :: prompt_bundle
  mk_models :: "model_info list"
  mk_executor :: executor_env
  mk_swarm :: "action_type \<Rightarrow> swarm_env"

text \<open>What was published, the swarm when there is one, and the executor.\<close>

record market_node =
  mn_published :: "(string \<times> u8 list) list"
  mn_swarm :: "swarm_manager option"
  mn_executor :: executor_state

definition note_action :: "market_env \<Rightarrow> action_type \<Rightarrow> string \<Rightarrow> bool \<Rightarrow> market_node \<Rightarrow> market_node" where
  "note_action e k text ok n =
     (case mn_swarm n of
        None \<Rightarrow> n
      | Some s \<Rightarrow>
          (case any_local_agent_id s of
             None \<Rightarrow> n
           | Some i \<Rightarrow> n\<lparr>mn_swarm := Some (record_job_action (mk_swarm e k) i k text ok s)\<rparr>))"

definition publish_crew ::
    "market_env \<Rightarrow> string \<Rightarrow> string + u8 list \<Rightarrow> market_node \<Rightarrow> (unit, string) outcome \<times> market_node" where
  "publish_crew e failed data n =
     (case data of
        Inl x \<Rightarrow> (Err (failed @ x), n)
      | Inr b \<Rightarrow>
          (case mk_publish_error e b of
             Some x \<Rightarrow> (Err x, n)
           | None \<Rightarrow> (Ok (), n\<lparr>mn_published := mn_published n @ [(crew_task_topic, b)]\<rparr>)))"

definition worker_claim :: "market_env \<Rightarrow> crew_task_offer \<Rightarrow> crew_task_claim" where
  "worker_claim e m =
     sign_claim (mk_sign e)
       \<lparr>cc_offer_run_id = co_run_id m, cc_offer_task_id = co_task_id m, cc_worker_peer = mk_me e, cc_signature = []\<rparr>"

definition worker_result :: "market_env \<Rightarrow> crew_task_offer \<Rightarrow> string \<Rightarrow> bool \<Rightarrow> crew_task_result" where
  "worker_result e m text ok =
     sign_result (mk_sign e)
       \<lparr>ct_run_id = co_run_id m, ct_task_id = co_task_id m, ct_worker_peer = mk_me e,
        ct_output_summary = take_chars 2000 text, ct_success = ok, ct_signature = []\<rparr>"

definition worker_task :: "market_env \<Rightarrow> string \<Rightarrow> crew_task_offer \<Rightarrow> json execution_task" where
  "worker_task e first_model m =
     (let hint = trim (co_model_hint m);
          model = (if hint = [] then first_model else hint)
      in InferenceT (with_max_tokens 256
           (inference_task_new model (crew_worker_prompt (mk_prompts e) (trim (co_summary m))))))"

fun worker_answer :: "json task_data \<Rightarrow> string \<times> bool" where
  "worker_answer (InferenceD r) = (ir_text r, True)"
| "worker_answer (ErrorD x) = (x, False)"
| "worker_answer _ = (''unexpected executor output'', False)"

definition offer_name :: "crew_task_offer \<Rightarrow> string" where
  "offer_name m = co_run_id m @ '' / '' @ co_task_id m"

definition run_claimed :: "market_env \<Rightarrow> crew_task_offer \<Rightarrow> market_node \<Rightarrow> (unit, string) outcome \<times> market_node" where
  "run_claimed e m n =
     (case mk_models e of
        [] \<Rightarrow> (Err ''no local models for crew worker'', n)
      | i # _ \<Rightarrow>
          (case execute_task (mk_executor e) (worker_task e (mi_name i) m) (mn_executor n) of
             (Panic, x) \<Rightarrow> (Panic, n\<lparr>mn_executor := x\<rparr>)
           | (Err y, x) \<Rightarrow> (Err (executor_error_text y), n\<lparr>mn_executor := x\<rparr>)
           | (Ok r, x) \<Rightarrow>
               (case worker_answer (tr_data r) of
                  (text, ok) \<Rightarrow>
                    (case publish_crew e [] (mk_result_json e (worker_result e m text ok)) (n\<lparr>mn_executor := x\<rparr>) of
                       (Ok _, n) \<Rightarrow>
                         (Ok (), note_action e ActCrewTaskComplete
                            (''result '' @ offer_name m @ '' ok='' @ show_bool ok) ok n)
                     | (y, n) \<Rightarrow> (y, n)))))"

definition process_crew_worker_offer ::
    "market_env \<Rightarrow> crew_task_offer \<Rightarrow> string \<Rightarrow> market_node \<Rightarrow> (unit, string) outcome \<times> market_node" where
  "process_crew_worker_offer e m src n =
     (if src = mk_me e then (Ok (), n)
      else if co_expires_at_ms m < mk_now_ms e then (Err ''offer expired'', n)
      else if \<not> verify_source (mk_keys e) src m then (Err ''offer verification failed'', n)
      else
        let n = note_action e ActCrewTaskOffer (''offer '' @ offer_name m) True n
        in (case publish_crew e ''claim json: '' (mk_claim_json e (worker_claim e m)) n of
              (Ok _, n) \<Rightarrow> run_claimed e m (note_action e ActCrewTaskClaim (''claim '' @ offer_name m) True n)
            | (y, n) \<Rightarrow> (y, n)))"

text \<open>
  A message on the crew topic: what reads as a result or a claim is only logged, an offer is worked
  on by a node that is a worker and knows who sent it; its error is logged too.
\<close>

record crew_decoder =
  cd_result :: "u8 list \<Rightarrow> crew_task_result option"
  cd_claim :: "u8 list \<Rightarrow> crew_task_claim option"
  cd_offer :: "u8 list \<Rightarrow> crew_task_offer option"

definition receive_crew_message ::
    "market_env \<Rightarrow> crew_decoder \<Rightarrow> bool \<Rightarrow> u8 list \<Rightarrow> string option \<Rightarrow> market_node \<Rightarrow> market_node" where
  "receive_crew_message e d worker data src n =
     (case cd_result d data of
        Some _ \<Rightarrow> n
      | None \<Rightarrow>
          (case cd_claim d data of
             Some _ \<Rightarrow> n
           | None \<Rightarrow>
               (case cd_offer d data of
                  None \<Rightarrow> n
                | Some m \<Rightarrow>
                    if \<not> worker then n
                    else (case src of None \<Rightarrow> n | Some s \<Rightarrow> snd (process_crew_worker_offer e m s n)))))"

end
