(* ===== verification/Crew_Market_Props.thy ===== *)
theory Crew_Market_Props
  imports Crew_Market Channel_Correct
begin

section \<open>What is signed on the crew market\<close>

definition zero_free :: "string \<Rightarrow> bool" where
  "zero_free s \<longleftrightarrow> CHR 0x00 \<notin> set s"

definition plain_offer :: "crew_task_offer \<Rightarrow> bool" where
  "plain_offer m \<longleftrightarrow>
     list_all zero_free [co_run_id m, co_task_id m, co_pod_id m, co_orchestrator_peer m, co_model_hint m]"

definition plain_claim :: "crew_task_claim \<Rightarrow> bool" where
  "plain_claim m \<longleftrightarrow> list_all zero_free [cc_offer_run_id m, cc_offer_task_id m]"

definition plain_result :: "crew_task_result \<Rightarrow> bool" where
  "plain_result m \<longleftrightarrow> list_all zero_free [ct_run_id m, ct_task_id m, ct_worker_peer m]"

text \<open>A zero byte that ends a field is the first one behind its beginning.\<close>

lemma zero_bytes: "zero_free s \<Longrightarrow> (0 :: u8) \<notin> set (str_bytes s)"
proof
  assume z: "zero_free s" and "(0 :: u8) \<in> set (str_bytes s)"
  then obtain c where c: "c \<in> set s" "of_char c = (0 :: u8)" by (auto simp: str_bytes_def)
  then have "str_bytes [c] = str_bytes [CHR 0x00]" by (simp add: str_bytes_def)
  then have "c = CHR 0x00" by (simp only: str_bytes_inj list.inject)
  then show False using z c by (simp add: zero_free_def)
qed

lemma split_first_zero:
  "(0 :: u8) \<notin> set a \<Longrightarrow> 0 \<notin> set b \<Longrightarrow> a @ 0 # x = b @ 0 # y \<longleftrightarrow> a = b \<and> x = y"
  by (induction a arbitrary: b) (case_tac b; auto)+

lemma zero_ended_eq:
  "zero_free s \<Longrightarrow> zero_free t \<Longrightarrow> zero_ended s @ x = zero_ended t @ y \<longleftrightarrow> s = t \<and> x = y"
  by (simp add: zero_ended_def split_first_zero zero_bytes str_bytes_inj)

text \<open>A field of any bytes ends at the last zero byte when what is behind it has none.\<close>

lemma zero_ended_last_eq:
  assumes "zero_free d" "zero_free d'"
  shows "zero_ended s @ str_bytes d = zero_ended t @ str_bytes d' \<longleftrightarrow> s = t \<and> d = d'"
proof
  assume "zero_ended s @ str_bytes d = zero_ended t @ str_bytes d'"
  then have "rev (str_bytes d) @ 0 # rev (str_bytes s) = rev (str_bytes d') @ 0 # rev (str_bytes t)"
    by (metis zero_ended_def append.assoc append_Cons append_Nil rev_append rev_singleton_conv rev.simps(2))
  then show "s = t \<and> d = d'"
    using zero_bytes [OF assms(1)] zero_bytes [OF assms(2)] by (simp add: split_first_zero str_bytes_inj)
qed simp

lemma show_word_zero_free: "zero_free (show_word (w :: 'a::len word))"
proof -
  have "list_all is_digit (show_word w)" using decimal_parses [of "uint w"] by (simp add: show_word_def)
  moreover have "\<not> is_digit (CHR 0x00)" by (simp add: is_digit_def)
  ultimately show ?thesis by (auto simp: zero_free_def list_all_iff)
qed

lemma show_word_inj: "show_word (v :: 'a::len word) = show_word w \<longleftrightarrow> v = w"
proof
  have u: "digits_val (show_word x) = uint x" for x :: "'a word"
    using decimal_parses [of "uint x"] by (simp add: show_word_def)
  assume "show_word v = show_word w"
  then have "uint v = uint w" by (simp only: u [symmetric])
  then show "v = w" by (simp only: word_uint_eq_iff)
qed simp

lemma prefix_kinds:
  "str_bytes ''peerclaw:crew_offer:v1:'' @ x \<noteq> str_bytes ''peerclaw:crew_claim:v1:'' @ y"
  "str_bytes ''peerclaw:crew_offer:v1:'' @ x \<noteq> str_bytes ''peerclaw:crew_result:v1:'' @ y"
  "str_bytes ''peerclaw:crew_claim:v1:'' @ x \<noteq> str_bytes ''peerclaw:crew_result:v1:'' @ y"
  by (simp_all add: str_bytes_def)

text \<open>C37: An offer, a claim or a result of a crew's task is determined by the bytes that are signed, up to the signature, as long as its identifiers, peers and model hint hold no zero byte (the summaries may), and no offer has the bytes of a claim or a result, nor a claim those of a result: a signature made for one message is not a signature for another.\<close>

theorem crew_bytes_determine_message:
  assumes "plain_offer a" "plain_offer a'" "plain_claim c" "plain_claim c'" "plain_result r" "plain_result r'"
  shows "(offer_signable a = offer_signable a' \<longleftrightarrow> a\<lparr>co_signature := []\<rparr> = a'\<lparr>co_signature := []\<rparr>) \<and>
    (claim_signable c = claim_signable c' \<longleftrightarrow> c\<lparr>cc_signature := []\<rparr> = c'\<lparr>cc_signature := []\<rparr>) \<and>
    (result_signable r = result_signable r' \<longleftrightarrow> r\<lparr>ct_signature := []\<rparr> = r'\<lparr>ct_signature := []\<rparr>) \<and>
    offer_signable a \<noteq> claim_signable c \<and> offer_signable a \<noteq> result_signable r \<and>
    claim_signable c \<noteq> result_signable r"
proof -
  have b: "zero_free (if x then ''1'' else ''0'')" for x by (simp add: zero_free_def)
  have "offer_signable a = offer_signable a' \<longleftrightarrow> a\<lparr>co_signature := []\<rparr> = a'\<lparr>co_signature := []\<rparr>"
    using assms(1,2) by (cases a; cases a')
      (auto simp: offer_signable_def plain_offer_def zero_ended_eq zero_ended_last_eq show_word_zero_free show_word_inj)
  moreover have "claim_signable c = claim_signable c' \<longleftrightarrow> c\<lparr>cc_signature := []\<rparr> = c'\<lparr>cc_signature := []\<rparr>"
    using assms(3,4) by (cases c; cases c') (auto simp: claim_signable_def plain_claim_def zero_ended_eq str_bytes_inj)
  moreover have "result_signable r = result_signable r' \<longleftrightarrow> r\<lparr>ct_signature := []\<rparr> = r'\<lparr>ct_signature := []\<rparr>"
    using assms(5,6) zero_ended_last_eq [OF b b] by (cases r; cases r')
      (auto simp: result_signable_def plain_result_def zero_ended_eq split: if_splits)
  ultimately show ?thesis
    by (simp add: prefix_kinds offer_signable_def claim_signable_def result_signable_def)
qed

theorem crew_bytes_determine_message_witness:
  "offer_signable (offer_new 5 ''r1'' ''t1'' ''p'' ''do it'' 9) \<noteq> offer_signable (offer_new 5 ''r1'' ''t1'' ''p'' ''do it'' 8)"
proof -
  let ?a = "offer_new 5 ''r1'' ''t1'' ''p'' ''do it'' 9" and ?b = "offer_new 5 ''r1'' ''t1'' ''p'' ''do it'' 8"
  let ?c = "\<lparr>cc_offer_run_id = [], cc_offer_task_id = [], cc_worker_peer = [], cc_signature = []\<rparr>"
  let ?r = "\<lparr>ct_run_id = [], ct_task_id = [], ct_worker_peer = [], ct_output_summary = [], ct_success = True, ct_signature = []\<rparr>"
  have p: "plain_offer ?a" "plain_offer ?b" "plain_claim ?c" "plain_result ?r"
    by (simp_all add: plain_offer_def plain_claim_def plain_result_def offer_new_def zero_free_def)
  have "?a\<lparr>co_signature := []\<rparr> \<noteq> ?b\<lparr>co_signature := []\<rparr>"
    by (simp add: offer_new_def sat_add_def)
  then show ?thesis using crew_bytes_determine_message [OF p(1,2,3,3,4,4)] by blast
qed

subsection \<open>The worker\<close>

lemma publish_crew_Ok:
  "publish_crew e failed data n = (Ok (), n') \<longleftrightarrow>
     (\<exists>b. data = Inr b \<and> mk_publish_error e b = None \<and>
          n' = n\<lparr>mn_published := mn_published n @ [(crew_task_topic, b)]\<rparr>)"
  by (auto simp: publish_crew_def split: sum.split option.split)

lemma note_action_published [simp]: "mn_published (note_action e k text ok n) = mn_published n"
  by (simp add: note_action_def split: option.split)

text \<open>
  A worker that answers an offer has checked that it is not expired and comes from the peer it names,
  and has published its claim and a result, both signed.
\<close>

lemma worker_answers:
  assumes "process_crew_worker_offer e m src n = (Ok (), n')" "src \<noteq> mk_me e"
  shows "mk_now_ms e \<le> co_expires_at_ms m \<and> co_orchestrator_peer m = src \<and>
    (\<exists>claim result text ok. mk_claim_json e (worker_claim e m) = Inr claim \<and>
       mk_result_json e (worker_result e m text ok) = Inr result \<and>
       mn_published n' = mn_published n @ [(crew_task_topic, claim), (crew_task_topic, result)])"
proof -
  let ?n = "note_action e ActCrewTaskOffer (''offer '' @ offer_name m) True n"
  have guards: "mk_now_ms e \<le> co_expires_at_ms m" "verify_source (mk_keys e) src m"
    using assms by (auto simp: process_crew_worker_offer_def split: if_splits)
  obtain n1 where c: "publish_crew e ''claim json: '' (mk_claim_json e (worker_claim e m)) ?n = (Ok (), n1)"
    and r: "run_claimed e m (note_action e ActCrewTaskClaim (''claim '' @ offer_name m) True n1) = (Ok (), n')"
    using assms guards by (auto simp: process_crew_worker_offer_def Let_def split: prod.splits outcome.splits if_splits)
  obtain body ok x n2 n3 where
    "publish_crew e [] (mk_result_json e (worker_result e m body ok)) (n2\<lparr>mn_executor := x\<rparr>) = (Ok (), n3)"
    and "n2 = note_action e ActCrewTaskClaim (''claim '' @ offer_name m) True n1" "mn_published n' = mn_published n3"
    using r by (auto simp: run_claimed_def split: list.splits prod.splits outcome.splits)
  then show ?thesis
    using c guards by (auto simp: publish_crew_Ok verify_source_def verify_bound_def split: if_splits)
qed

end
