(* ===== verification/A2a.thy ===== *)
theory A2a
  imports Json
begin

section \<open>The agent-to-agent protocol\<close>

text \<open>
  Models \<^verbatim>\<open>src/a2a/{agent_card,state,jsonrpc}.rs\<close> and the announcements of agent cards in
  \<^verbatim>\<open>src/runtime.rs\<close>: the tasks and cards a node keeps and the JSON-RPC calls on them. Fresh
  identifiers and the text of a parse error are parameters.
\<close>

subsection \<open>Agent cards\<close>

record agent_transport =
  at_type :: string
  at_url :: string

record agent_skill =
  ak_id :: string
  ak_name :: string
  ak_description :: string

record agent_card =
  ac_protocol_version :: string
  ac_name :: string
  ac_description :: string
  ac_url :: string
  ac_skills :: "agent_skill list"
  ac_preferred_transport :: "agent_transport option"
  ac_peer_id :: "string option"
  ac_models :: "string list"

definition trim_slashes :: "string \<Rightarrow> string" where
  "trim_slashes s = rev (dropWhile (\<lambda>c. c = CHR ''/'') (rev s))"

definition card_default :: "string \<Rightarrow> string \<Rightarrow> string \<Rightarrow> string \<Rightarrow> string list \<Rightarrow> agent_card" where
  "card_default name description url peer models =
     \<lparr>ac_protocol_version = ''0.1'', ac_name = name, ac_description = description, ac_url = url,
      ac_skills =
        [\<lparr>ak_id = ''peerclaw.inference'', ak_name = ''Local inference'',
          ak_description = ''Execute inference via node executor''\<rparr>,
         \<lparr>ak_id = ''peerclaw.tasks'', ak_name = ''A2A tasks'',
          ak_description = ''Create and query A2A task lifecycle''\<rparr>],
      ac_preferred_transport = Some \<lparr>at_type = ''http'', at_url = trim_slashes url @ ''/a2a''\<rparr>,
      ac_peer_id = Some peer, ac_models = models\<rparr>"

definition skill_json :: "agent_skill \<Rightarrow> json" where
  "skill_json k =
     json_object [(''id'', JString (ak_id k)), (''name'', JString (ak_name k)), (''description'', JString (ak_description k))]"

definition transport_json :: "agent_transport \<Rightarrow> json" where
  "transport_json t = json_object [(''type'', JString (at_type t)), (''url'', JString (at_url t))]"

definition card_json :: "agent_card \<Rightarrow> json" where
  "card_json c =
     json_object
       ([(''protocolVersion'', JString (ac_protocol_version c)), (''name'', JString (ac_name c)),
         (''description'', JString (ac_description c)), (''url'', JString (ac_url c))] @
        (if ac_skills c = [] then [] else [(''skills'', JArray (map skill_json (ac_skills c)))]) @
        (case ac_preferred_transport c of Some t \<Rightarrow> [(''preferred_transport'', transport_json t)] | None \<Rightarrow> []) @
        (case ac_peer_id c of Some p \<Rightarrow> [(''peer_id'', JString p)] | None \<Rightarrow> []) @
        (if ac_models c = [] then [] else [(''models'', JArray (map JString (ac_models c)))]))"

record card_announcement =
  an_peer_id :: string
  an_epoch_ms :: u64
  an_card :: agent_card

subsection \<open>Tasks\<close>

datatype a2a_status = A2aWorking | A2aCompleted | A2aFailed | A2aCanceled

fun a2a_status_text :: "a2a_status \<Rightarrow> string" where
  "a2a_status_text A2aWorking = ''working''"
| "a2a_status_text A2aCompleted = ''completed''"
| "a2a_status_text A2aFailed = ''failed''"
| "a2a_status_text A2aCanceled = ''canceled''"

record a2a_task =
  tk_id :: string
  tk_status :: a2a_status
  tk_message :: string
  tk_artifact :: "json option"

definition task_json :: "a2a_task \<Rightarrow> json" where
  "task_json t =
     json_object
       ([(''id'', JString (tk_id t)), (''status'', JString (a2a_status_text (tk_status t))),
         (''message'', JString (tk_message t))] @
        (case tk_artifact t of Some a \<Rightarrow> [(''artifact'', a)] | None \<Rightarrow> []))"

record a2a_state =
  aq_tasks :: "(string, a2a_task) hmap"
  aq_peer_cards :: "(string, agent_card) hmap"
  aq_announce_epoch :: u64

definition a2a_new :: a2a_state where
  "a2a_new = \<lparr>aq_tasks = [], aq_peer_cards = [], aq_announce_epoch = 0\<rparr>"

definition next_epoch :: "a2a_state \<Rightarrow> u64 \<times> a2a_state" where
  "next_epoch s = (aq_announce_epoch s + 1, s\<lparr>aq_announce_epoch := aq_announce_epoch s + 1\<rparr>)"

definition upsert_peer_card :: "string \<Rightarrow> agent_card \<Rightarrow> a2a_state \<Rightarrow> a2a_state" where
  "upsert_peer_card p c s = s\<lparr>aq_peer_cards := hm_insert p c (aq_peer_cards s)\<rparr>"

definition receive_card :: "string \<Rightarrow> card_announcement \<Rightarrow> a2a_state \<Rightarrow> a2a_state" where
  "receive_card me a s = (if an_peer_id a = me then s else upsert_peer_card (an_peer_id a) (an_card a) s)"

definition create_task :: "string \<Rightarrow> string \<Rightarrow> a2a_state \<Rightarrow> a2a_task \<times> a2a_state" where
  "create_task i message s =
     (let t = \<lparr>tk_id = i, tk_status = A2aWorking, tk_message = message, tk_artifact = None\<rparr>
      in (t, s\<lparr>aq_tasks := hm_insert i t (aq_tasks s)\<rparr>))"

definition get_task :: "a2a_state \<Rightarrow> string \<Rightarrow> a2a_task option" where
  "get_task s i = hm_get (aq_tasks s) i"

definition on_task :: "string \<Rightarrow> (a2a_task \<Rightarrow> a2a_task) \<Rightarrow> a2a_state \<Rightarrow> bool \<times> a2a_state" where
  "on_task i f s =
     (case hm_get (aq_tasks s) i of
        None \<Rightarrow> (False, s)
      | Some t \<Rightarrow> (True, s\<lparr>aq_tasks := hm_insert i (f t) (aq_tasks s)\<rparr>))"

definition complete_task :: "string \<Rightarrow> json option \<Rightarrow> a2a_state \<Rightarrow> bool \<times> a2a_state" where
  "complete_task i artifact = on_task i (\<lambda>t. t\<lparr>tk_status := A2aCompleted, tk_artifact := artifact\<rparr>)"

definition fail_task :: "string \<Rightarrow> string \<Rightarrow> a2a_state \<Rightarrow> bool \<times> a2a_state" where
  "fail_task i err = on_task i (\<lambda>t. t\<lparr>tk_status := A2aFailed, tk_message := err\<rparr>)"

definition cancel_task :: "string \<Rightarrow> a2a_state \<Rightarrow> bool \<times> a2a_state" where
  "cancel_task i = on_task i (\<lambda>t. t\<lparr>tk_status := A2aCanceled\<rparr>)"

subsection \<open>JSON-RPC\<close>

record rpc_request =
  rq_jsonrpc :: string
  rq_method :: string
  rq_params :: "json option"
  rq_rpc_id :: "json option"

fun json_option :: "json option \<Rightarrow> json option" where
  "json_option (Some JNull) = None"
| "json_option x = x"

text \<open>
  A request is an object, whose parameters and id may be missing, or an array of its four fields.
\<close>

definition rpc_fields :: "json option \<Rightarrow> json option \<Rightarrow> json option \<Rightarrow> json option \<Rightarrow> rpc_request option" where
  "rpc_fields v m p i =
     (case (Option.bind v as_str, Option.bind m as_str) of
        (Some v, Some m) \<Rightarrow>
          Some \<lparr>rq_jsonrpc = v, rq_method = m, rq_params = json_option p, rq_rpc_id = json_option i\<rparr>
      | _ \<Rightarrow> None)"

fun parse_rpc :: "json \<Rightarrow> rpc_request option" where
  "parse_rpc (JObject kvs) =
     (let b = JObject kvs
      in rpc_fields (json_get ''jsonrpc'' b) (json_get ''method'' b) (json_get ''params'' b) (json_get ''id'' b))"
| "parse_rpc (JArray [v, m, p, i]) = rpc_fields (Some v) (Some m) (Some p) (Some i)"
| "parse_rpc _ = None"

text \<open>The two forms of a response; an absent id is written as null.\<close>

definition rpc_id_json :: "json option \<Rightarrow> json" where
  "rpc_id_json i = (case i of Some x \<Rightarrow> x | None \<Rightarrow> JNull)"

definition rpc_ok :: "json option \<Rightarrow> json \<Rightarrow> json" where
  "rpc_ok i result = json_object [(''jsonrpc'', JString ''2.0''), (''result'', result), (''id'', rpc_id_json i)]"

definition rpc_err :: "json option \<Rightarrow> int \<Rightarrow> string \<Rightarrow> json" where
  "rpc_err i code message =
     json_object [(''jsonrpc'', JString ''2.0''),
       (''error'', json_object [(''code'', JInt code), (''message'', JString message)]), (''id'', rpc_id_json i)]"

text \<open>The text under the first of two keys that is there, if it is a string.\<close>

definition param_or :: "json option \<Rightarrow> string \<Rightarrow> string \<Rightarrow> string option" where
  "param_or params a b =
     (case params of
        None \<Rightarrow> None
      | Some p \<Rightarrow>
          Option.bind (case json_get a p of Some v \<Rightarrow> Some v | None \<Rightarrow> json_get b p) as_str)"

definition card_entry :: "string \<times> agent_card \<Rightarrow> json" where
  "card_entry x = json_object [(''peer_id'', JString (fst x)), (''card'', card_json (snd x))]"

definition with_task_id ::
    "rpc_request \<Rightarrow> a2a_state \<Rightarrow> (string \<Rightarrow> json \<times> a2a_state) \<Rightarrow> json \<times> a2a_state" where
  "with_task_id q s f =
     (case param_or (rq_params q) ''id'' ''taskId'' of
        Some i \<Rightarrow> f i
      | None \<Rightarrow> (rpc_err (rq_rpc_id q) (- 32602) ''missing params.id'', s))"

definition a2a_call :: "string \<Rightarrow> rpc_request \<Rightarrow> a2a_state \<Rightarrow> json \<times> a2a_state" where
  "a2a_call fresh q s =
     (let m = rq_method q; i = rq_rpc_id q
      in if m = ''tasks/create'' \<or> m = ''a2a.tasks.create'' then
           (case create_task fresh
                   (case Option.bind (rq_params q) (get_str ''message'') of Some h \<Rightarrow> h | None \<Rightarrow> ''task'') s of
              (t, s) \<Rightarrow> (rpc_ok i (task_json t), s))
         else if m = ''tasks/get'' \<or> m = ''tasks/getState'' \<or> m = ''a2a.tasks.get'' then
           with_task_id q s (\<lambda>k. case get_task s k of
              Some t \<Rightarrow> (rpc_ok i (task_json t), s)
            | None \<Rightarrow> (rpc_err i (- 32001) ''task not found'', s))
         else if m = ''tasks/cancel'' \<or> m = ''a2a.tasks.cancel'' then
           with_task_id q s (\<lambda>k. case cancel_task k s of
              (True, s) \<Rightarrow> (rpc_ok i (json_object [(''ok'', JBool True)]), s)
            | (False, s) \<Rightarrow> (rpc_err i (- 32001) ''task not found'', s))
         else if m = ''message/send'' \<or> m = ''a2a.message.send'' then
           (let text = (case param_or (rq_params q) ''text'' ''content'' of Some t \<Rightarrow> t | None \<Rightarrow> []);
                (t, s) = create_task fresh ''message'' s;
                s = snd (complete_task (tk_id t)
                      (Some (json_object [(''role'', JString ''agent''), (''content'', JString (''echo: '' @ text))])) s)
            in (rpc_ok i (case get_task s (tk_id t) of Some t \<Rightarrow> task_json t | None \<Rightarrow> json_object []), s))
         else if m = ''agent/cards'' \<or> m = ''peerclaw.agent.cards'' then
           (rpc_ok i (json_object [(''cards'', JArray (map card_entry (aq_peer_cards s)))]), s)
         else (rpc_err i (- 32601) (''Method not found: '' @ m), s))"

definition handle_jsonrpc_body :: "(json \<Rightarrow> string) \<Rightarrow> string \<Rightarrow> json \<Rightarrow> a2a_state \<Rightarrow> json \<times> a2a_state" where
  "handle_jsonrpc_body parse_error fresh body s =
     (case parse_rpc body of
        None \<Rightarrow> (rpc_err None (- 32700) (''Parse error: '' @ parse_error body), s)
      | Some q \<Rightarrow>
          if rq_jsonrpc q \<noteq> ''2.0''
          then (rpc_err (rq_rpc_id q) (- 32600) ''Invalid Request: jsonrpc must be 2.0'', s)
          else a2a_call fresh q s)"

end
