(* ===== verification/A2a_Props.thy ===== *)
theory A2a_Props
  imports A2a
begin

section \<open>Responses and tasks of the protocol\<close>

text \<open>A well-formed response carries the version, the id of its request, and either a result or an error.\<close>

definition is_response :: "json option \<Rightarrow> json \<Rightarrow> bool" where
  "is_response i r \<longleftrightarrow>
     json_get ''jsonrpc'' r = Some (JString ''2.0'') \<and> json_get ''id'' r = Some (rpc_id_json i) \<and>
     (json_get ''result'' r = None) \<noteq> (json_get ''error'' r = None)"

definition is_error :: "json \<Rightarrow> bool" where
  "is_error r \<longleftrightarrow> json_get ''error'' r \<noteq> None"

lemma response_forms [simp]:
  "is_response i (rpc_ok i x)" "is_response i (rpc_err i c m)" "\<not> is_error (rpc_ok i x)" "is_error (rpc_err i c m)"
  by (simp_all add: is_response_def is_error_def rpc_ok_def rpc_err_def)

text \<open>The status a task has, and the steps it may take.\<close>

definition status_of :: "a2a_state \<Rightarrow> string \<Rightarrow> a2a_status option" where
  "status_of s i = map_option tk_status (get_task s i)"

lemma on_task_False: "\<not> fst (on_task i f s) \<Longrightarrow> snd (on_task i f s) = s"
  by (simp add: on_task_def split: option.splits)

text \<open>The outcomes of a call: an error, an answer without a change, a new task, a cancelled one, an echo.\<close>

lemma task_id_cases:
  assumes "with_task_id q s f = (r, s')"
  obtains (missing) c m where "r = rpc_err (rq_rpc_id q) c m" "s' = s" | (found) k where "f k = (r, s')"
  using assms by (auto simp: with_task_id_def split: option.splits)

lemma a2a_call_cases:
  assumes "a2a_call fresh q s = (r, s')"
  obtains (error) c m where "r = rpc_err (rq_rpc_id q) c m" "s' = s"
  | (answer) x where "r = rpc_ok (rq_rpc_id q) x" "s' = s"
  | (created) x h where "r = rpc_ok (rq_rpc_id q) x" "s' = snd (create_task fresh h s)"
  | (cancelled) x k where "r = rpc_ok (rq_rpc_id q) x" "s' = snd (cancel_task k s)"
  | (echoed) x h a where "r = rpc_ok (rq_rpc_id q) x" "s' = snd (complete_task fresh a (snd (create_task fresh h s)))"
proof -
  let ?m = "rq_method q"
  consider (c1) "?m = ''tasks/create'' \<or> ?m = ''a2a.tasks.create''"
    | (c2) "\<not> (?m = ''tasks/create'' \<or> ?m = ''a2a.tasks.create'')"
      "?m = ''tasks/get'' \<or> ?m = ''tasks/getState'' \<or> ?m = ''a2a.tasks.get''"
    | (c3) "\<not> (?m = ''tasks/create'' \<or> ?m = ''a2a.tasks.create'')"
      "\<not> (?m = ''tasks/get'' \<or> ?m = ''tasks/getState'' \<or> ?m = ''a2a.tasks.get'')"
      "?m = ''tasks/cancel'' \<or> ?m = ''a2a.tasks.cancel''"
    | (c4) "\<not> (?m = ''tasks/create'' \<or> ?m = ''a2a.tasks.create'')"
      "\<not> (?m = ''tasks/get'' \<or> ?m = ''tasks/getState'' \<or> ?m = ''a2a.tasks.get'')"
      "\<not> (?m = ''tasks/cancel'' \<or> ?m = ''a2a.tasks.cancel'')"
    by blast
  then show thesis
  proof cases
    case c1
    have "(rpc_ok (rq_rpc_id q) (task_json (fst (create_task fresh h s))), snd (create_task fresh h s)) = (r, s')"
      if "h = (case Option.bind (rq_params q) (get_str ''message'') of Some h \<Rightarrow> h | None \<Rightarrow> ''task'')" for h
      using assms unfolding that by (simp only: a2a_call_def Let_def c1 if_True split_beta)
    then show thesis using created by auto
  next
    case c2
    have "with_task_id q s (\<lambda>k. case get_task s k of
        Some t \<Rightarrow> (rpc_ok (rq_rpc_id q) (task_json t), s)
      | None \<Rightarrow> (rpc_err (rq_rpc_id q) (- 32001) ''task not found'', s)) = (r, s')"
      using assms by (simp only: a2a_call_def Let_def c2 if_True if_False)
    then show thesis
      using error answer by (cases rule: task_id_cases) (auto split: option.splits)
  next
    case c3
    have "with_task_id q s (\<lambda>k. case cancel_task k s of
        (True, s) \<Rightarrow> (rpc_ok (rq_rpc_id q) (json_object [(''ok'', JBool True)]), s)
      | (False, s) \<Rightarrow> (rpc_err (rq_rpc_id q) (- 32001) ''task not found'', s)) = (r, s')"
      using assms by (simp only: a2a_call_def Let_def c3 if_True if_False)
    then show thesis
    proof (cases rule: task_id_cases)
      case (found k)
      obtain b s1 where c: "cancel_task k s = (b, s1)" by fastforce
      then have "\<not> b \<Longrightarrow> s1 = s" using on_task_False [of k "\<lambda>t. t\<lparr>tk_status := A2aCanceled\<rparr>" s] by (simp add: cancel_task_def)
      then show thesis using found c error cancelled [of _ k] by (cases b) auto
    qed (rule error)
  next
    case c4
    then show thesis
      using assms error answer echoed
      by (simp only: a2a_call_def Let_def if_False split_beta) (auto simp: create_task_def Let_def split: if_split_asm)
  qed
qed

lemmas call_cases = a2a_call_cases [of fresh q s "fst (a2a_call fresh q s)" "snd (a2a_call fresh q s)" for fresh q s,
  OF prod.collapse [symmetric]]

lemmas task_operations = cancel_task_def complete_task_def create_task_def on_task_def

lemma call_response: "is_response (rq_rpc_id q) (fst (a2a_call fresh q s))"
  by (rule call_cases [of fresh q s]) simp_all

lemma call_error_keeps: "is_error (fst (a2a_call fresh q s)) \<Longrightarrow> snd (a2a_call fresh q s) = s"
  by (rule call_cases [of fresh q s]) simp_all

lemma call_other_tasks:
  assumes "get_task s i = Some t" "i \<noteq> fresh"
  shows "get_task (snd (a2a_call fresh q s)) i = Some t \<or>
    get_task (snd (a2a_call fresh q s)) i = Some (t\<lparr>tk_status := A2aCanceled\<rparr>)"
  by (rule call_cases [of fresh q s]) (use assms in \<open>auto simp: task_operations get_task_def Let_def split: option.split\<close>)

lemma call_cards: "aq_peer_cards (snd (a2a_call fresh q s)) = aq_peer_cards s"
  by (rule call_cases [of fresh q s]) (simp_all add: task_operations Let_def split: option.split)

text \<open>C38: Every body gets a JSON-RPC 2.0 response with the id of its request (null when there is none or the body is no request) and either a result or an error; an error changes nothing, and whatever the call, the cards stay and a task under another identifier than the fresh one is kept as it was or cancelled.\<close>

theorem rpc_total_and_safe:
  "let (r, s') = handle_jsonrpc_body parse_error fresh body s;
       i = Option.bind (parse_rpc body) rq_rpc_id
   in is_response i r \<and> (is_error r \<longrightarrow> s' = s) \<and> aq_peer_cards s' = aq_peer_cards s \<and>
      (\<forall>k t. get_task s k = Some t \<longrightarrow> k = fresh \<or> get_task s' k \<in> {Some t, Some (t\<lparr>tk_status := A2aCanceled\<rparr>)})"
proof (cases "parse_rpc body")
  case None
  then show ?thesis by (simp add: handle_jsonrpc_body_def)
next
  case (Some q)
  show ?thesis
  proof (cases "rq_jsonrpc q = ''2.0''")
    case True
    then have h: "handle_jsonrpc_body parse_error fresh body s = a2a_call fresh q s"
      using Some by (simp add: handle_jsonrpc_body_def)
    show ?thesis
      using call_response [of q fresh s] call_error_keeps [of fresh q s] call_cards [of fresh q s]
        call_other_tasks [of s _ _ fresh q] Some
      unfolding h Let_def split_beta by auto
  qed (simp add: handle_jsonrpc_body_def Some)
qed

theorem rpc_total_and_safe_witness:
  "let s = snd (create_task ''t1'' ''work'' a2a_new);
       body = json_object [(''jsonrpc'', JString ''2.0''), (''method'', JString ''nope''), (''id'', JInt 2)]
   in is_error (fst (handle_jsonrpc_body (\<lambda>_. []) ''t2'' body s)) \<and>
      snd (handle_jsonrpc_body (\<lambda>_. []) ''t2'' body s) = s \<and> get_task s ''t1'' \<noteq> None"
proof -
  let ?s = "snd (create_task ''t1'' ''work'' a2a_new)"
  let ?body = "json_object [(''jsonrpc'', JString ''2.0''), (''method'', JString ''nope''), (''id'', JInt 2)]"
  have "parse_rpc ?body = Some \<lparr>rq_jsonrpc = ''2.0'', rq_method = ''nope'', rq_params = None, rq_rpc_id = Some (JInt 2)\<rparr>"
    by (simp add: json_object_def obj_of_def rpc_fields_def)
  then have e: "is_error (fst (handle_jsonrpc_body (\<lambda>_. []) ''t2'' ?body ?s))"
    by (simp add: handle_jsonrpc_body_def a2a_call_def Let_def)
  moreover have "get_task ?s ''t1'' \<noteq> None" by (simp add: create_task_def get_task_def a2a_new_def Let_def)
  ultimately show ?thesis
    using rpc_total_and_safe [of "\<lambda>_. []" "''t2''" ?body ?s] by (auto simp: Let_def split_beta)
qed

text \<open>A task that was completed can be cancelled afterwards.\<close>

lemma completed_task_cancelled:
  assumes "get_task s i = Some t" "tk_status t = A2aCompleted"
  shows "status_of (snd (cancel_task i s)) i = Some A2aCanceled"
  using assms by (simp add: status_of_def cancel_task_def on_task_def get_task_def)

end
