(* ===== verification/Spec2Isabelle.thy ===== *)
theory Spec2Isabelle
  imports Wallet_Props Channel_Props Job_Props Job_Life_Props Job_Network_Props Executor_Props Router_Props Flow_Props Crew_Props
    Safety_Props Agent_Props Session_Props Unified_Props Model_Cache_Props Failover Wasm_Props Proxy_Props Skills_Props
    Distribution_Props Batch_Props Providers_Props Swarm_Props
    Crew_Market_Props A2a_Props
begin

text \<open>
  \<^bold>\<open>PeerClaw: tokens and work between peers, agents and what guards them.\<close>

  PeerClaw is a peer-to-peer network of agents written in Rust. A node earns and spends tokens,
  buys inference, web and tool runs from other nodes as jobs and sells its own; it runs agents,
  crews of agents and workflows, whose model calls go through inference back-ends and whose tool
  calls through a registry, a sandbox and a safety layer. This library models these parts, from the
  sources under \<^verbatim>\<open>src/\<close> of the crate:

  \<^item> the \<^bold>\<open>wallet\<close> (\<^verbatim>\<open>wallet\<close>) keeps balances, escrows, a ledger and spending limits;
  \<^item> the \<^bold>\<open>payment channels\<close> (\<^verbatim>\<open>channel\<close>) move tokens between two nodes by signed updates; opening
    one locks funds in an escrow of the wallet;
  \<^item> the \<^bold>\<open>job market\<close> (\<^verbatim>\<open>job\<close>) turns a request and a bid into a job whose price is locked in an
    escrow and released or refunded when the job is settled;
  \<^item> the \<^bold>\<open>executor\<close> (\<^verbatim>\<open>executor\<close>) estimates what a task needs, decides whether it runs here or is
    offered to the network, and drives a job for it; received messages reach the job manager
    through \<^verbatim>\<open>runtime.rs\<close>;
  \<^item> \<^bold>\<open>workflows\<close> (\<^verbatim>\<open>flow\<close>) and \<^bold>\<open>crews\<close> (\<^verbatim>\<open>crew\<close>) run agents along a graph of nodes or a list of tasks;
  \<^item> an \<^bold>\<open>agent\<close> (\<^verbatim>\<open>agent\<close>) talks to a model in a loop, within a budget, and calls \<^bold>\<open>tools\<close> (\<^verbatim>\<open>tools\<close>) it finds
    in the model's text; its conversations are kept as sessions and compacted;
  \<^item> the \<^bold>\<open>safety layer\<close> (\<^verbatim>\<open>safety\<close>) checks the addresses a request may reach, the inputs of tools and
    the secrets and injections in their outputs; the \<^bold>\<open>sandbox\<close> (\<^verbatim>\<open>wasm\<close>) confines WASM tools;
  \<^item> \<^bold>\<open>inference\<close> (\<^verbatim>\<open>inference\<close>) keeps loaded models in a cache, collects requests in batches, fails over
    between back-ends and fetches model files from peers;
  \<^item> the node tracks the \<^bold>\<open>providers\<close> peers announce (\<^verbatim>\<open>p2p\<close>) and the \<^bold>\<open>swarm\<close> of agents (\<^verbatim>\<open>swarm\<close>);
  \<^item> \<^bold>\<open>skills\<close> (\<^verbatim>\<open>skills\<close>) are prompts chosen for an input and announced to peers, the \<^bold>\<open>proxy\<close> (\<^verbatim>\<open>proxy\<close>)
    sells web requests by HTTP 402, the \<^bold>\<open>crew market\<close> and \<^bold>\<open>agent-to-agent protocol\<close> answer
    other nodes (\<^verbatim>\<open>crew/p2p.rs\<close>, \<^verbatim>\<open>a2a\<close>), and \<^bold>\<open>prompts\<close> (\<^verbatim>\<open>prompts\<close>) holds the templates all of them use.

  \<^bold>\<open>Foundations.\<close>
  \<^item> \<open>Prelude\<close>: words, outcomes, hash maps as association lists with their laws, sorting by a key,
    trimmed logs. \<open>Text\<close>: Rust's string operations on UTF-8 bytes. \<open>Json\<close>: the values of serde\_json.
    \<open>Regex_Engine\<close>: regular expressions as a parameter.
  \<^item> \<open>F64\<close>, \<open>F64_Mono\<close>: executable IEEE binary64 and binary32, and the monotonicity of their rounding
    and of addition, multiplication and division, on which the agents' budget rests.
  \<^item> \<open>Escrow_Interface\<close>: the contract between the wallet and its clients as two locales,
    \<open>escrow_provider\<close> (create, release, refund) and \<open>paying_provider\<close>, which adds credits. Both are
    interpreted on the wallet, as \<open>wallet_escrow\<close> in \<open>Wallet_Props\<close> and \<open>wallet_pay\<close> in \<open>Job_Correct\<close>;
    the channel and job properties use only these laws and the invariant of the wallet. The locale
    \<open>turn_invariant\<close> of \<open>Agent_Props\<close> is the contract of one turn of an agent's loop, interpreted for
    the count of turns and for the budget; \<open>usage_limit\<close> of \<open>Proxy_Props\<close> that of a limit which is
    checked and counted under locks of their own, interpreted for the rate limit and the free tier.

  \<^bold>\<open>Components.\<close> For each the theory of its definitions, then those of its lemmas and properties.
  \<^item> \<open>Wallet\<close>, \<open>Wallet_Correct\<close>, \<open>Wallet_Runs\<close>, \<open>Wallet_Props\<close>: \<^verbatim>\<open>wallet/{mod,escrow,transaction,balance}.rs\<close>. The
    state is \<open>wallet_state\<close>; an operation is a function of the environment \<open>call_env\<close> and the wallet.
    A \<open>wallet_op\<close> of \<open>Wallet_Runs\<close> is one critical section under the wallet's lock, whatever its
    outcome, and \<open>wallet_run\<close> a list of them: \<open>debit\<close> and \<open>create_escrow\<close> are two sections each, because
    the code gives the lock up after checking the limits.
  \<^item> \<open>Channel\<close>, \<open>Channel_Correct\<close>, \<open>Channel_Props\<close>: \<^verbatim>\<open>channel/{mod,state}.rs\<close>; \<open>channel_step\<close> and
    \<open>manager_step\<close> are the operations of \<open>ChannelManager\<close>.
  \<^item> \<open>Pricing\<close> (\<^verbatim>\<open>job/pricing.rs\<close>), \<open>Bid\<close> (\<^verbatim>\<open>job/{request,bid}.rs\<close>), \<open>Job\<close>
    (\<^verbatim>\<open>job/{execution,network}.rs\<close>), \<open>Job_Manager\<close> (\<^verbatim>\<open>job/mod.rs\<close>), with the proofs in
    \<open>Job_Correct\<close>, \<open>Job_Props\<close> (bids and prices) and \<open>Job_Life_Props\<close> (acceptance to settlement); \<open>job_run\<close> is
    any list of the manager's operations and of those of the wallet's other users, the sweep included.
  \<^item> \<open>Task\<close> (\<^verbatim>\<open>executor/task.rs\<close>), \<open>Router\<close> (\<^verbatim>\<open>executor/{resource,router}.rs\<close>), \<open>Router_Props\<close>;
    \<open>Job_Network\<close>, \<open>Job_Network_Props\<close>: \<^verbatim>\<open>executor/remote.rs\<close> and the job topics of
    \<open>Runtime::handle_gossip_message\<close> in \<^verbatim>\<open>runtime.rs\<close>. \<open>Executor\<close>, \<open>Executor_Props\<close>: \<^verbatim>\<open>executor/mod.rs\<close>,
    which composes router, inference engine, sandbox and remote jobs.
  \<^item> \<open>Flow\<close>, \<open>Flow_Graph\<close>: \<^verbatim>\<open>flow/mod.rs\<close> and the checks of \<^verbatim>\<open>flow/interpreter.rs\<close>, with the proofs on
    the topological order and on reachability; \<open>Flow_Interpreter\<close>, \<open>Flow_Correct\<close>, \<open>Flow_Props\<close>: the
    interpreter and the queued run of \<^verbatim>\<open>cli/serve.rs\<close>. \<open>Run_Store\<close>: the runs of flows and crews.
    \<open>Crew\<close>, \<open>Crew_Props\<close>: \<^verbatim>\<open>crew/{spec,orchestrator,store}.rs\<close>.
  \<^item> \<open>Agent\<close>, \<open>Agent_Spec\<close>, \<open>Compaction\<close>, \<open>Prompts\<close>, \<open>Tool_Calls\<close>, \<open>Agent_Loop\<close>, \<open>Agent_Props\<close>:
    \<^verbatim>\<open>agent/{budget,spec,compaction,runtime}.rs\<close> and \<^verbatim>\<open>prompts\<close>; \<open>Unified_Loop\<close>, \<open>Unified_Props\<close>:
    \<^verbatim>\<open>agent/unified_loop.rs\<close> and \<open>run_task_with_session\<close>, which takes the agent's own loop or, when it
    has an inference sink as under \<^verbatim>\<open>peerclaw serve\<close>, the shared one; \<open>Session\<close>, \<open>Session_Props\<close>: \<^verbatim>\<open>agent/session.rs\<close>, whose two database
    tables refine a map from sessions to histories. \<open>Tools\<close>: \<^verbatim>\<open>tools/{mod,tool,registry}.rs\<close>.
  \<^item> \<open>Egress\<close>, \<open>Ssrf\<close>, \<open>Validator\<close>, \<open>Regex_Engine\<close>, \<open>Leak_Detector\<close>, \<open>Content_Policy\<close>, \<open>Sanitizer\<close>, \<open>Safety\<close>,
    \<open>Safety_Props\<close>: the files of \<^verbatim>\<open>safety\<close> one by one.
  \<^item> \<open>Wasm\<close>, \<open>Wasm_Props\<close>: \<^verbatim>\<open>wasm/{fuel,host,sandbox,mod}.rs\<close>, the memory of a module as a list of bytes.
  \<^item> \<open>Model_Cache\<close>, \<open>Model_Cache_Props\<close>, \<open>Failover\<close>, \<open>Distribution\<close>, \<open>Distribution_Props\<close>, \<open>Batch\<close>,
    \<open>Batch_Props\<close>: \<^verbatim>\<open>inference/{model,cache,mod,failover,live_settings,distribution,batch}.rs\<close>.
  \<^item> \<open>Proxy\<close>, \<open>Proxy_Props\<close>: \<^verbatim>\<open>proxy/{pricing,payment,mod}.rs\<close>, the handler in sections between which
    other handlers run. \<open>Skills\<close>, \<open>Skills_Props\<close>: \<^verbatim>\<open>skills/{mod,parser,selector,registry}.rs\<close> and the
    topic of skills in \<^verbatim>\<open>runtime.rs\<close>.
  \<^item> \<open>Providers\<close>, \<open>Providers_Props\<close>: \<^verbatim>\<open>p2p/{provider,provider_tracker,resource}.rs\<close>. \<open>Swarm\<close>, \<open>Swarm_Props\<close>:
    \<^verbatim>\<open>swarm/{agent,profile,event,manager}.rs\<close>, with \<open>swarm_step\<close> the operations of the manager.
    \<open>Crew_Market\<close>, \<open>Crew_Market_Props\<close>: \<^verbatim>\<open>crew/p2p.rs\<close> and the worker of \<^verbatim>\<open>runtime.rs\<close>, which runs an
    offered task on the executor. \<open>A2a\<close>, \<open>A2a_Props\<close>: \<^verbatim>\<open>a2a/{agent_card,state,jsonrpc}.rs\<close>.

  \<^bold>\<open>What is shown.\<close> As long as all credits fit in 64 bits and identifiers are not drawn twice, the
  wallet never loses or invents tokens: escrows are backed and the ledger explains the balances, both
  up to what a panic of the clock's addition leaves behind; no escrow is paid twice, the sweep refunds
  exactly the expired ones, and the limits hold for debits one after the other. Channels conserve
  their capacity, payments keep both ends in step, an update is applied exactly when the peer signed
  it for this channel with the next number, and a refused one changes nothing; the signed bytes
  determine a message but for the requester of a close and the fraction of its second. The escrow of
  every active job holds its price until the sweep refunds it after its expiry, a settlement gives the
  tokens back to the requester's own wallet, the best bid is what it claims to be, and where a task
  runs, is offered or is refused follows from the state it was routed in, in every case; a task run
  here is accounted for, and one that is offloaded runs here all the same. A validated flow does not
  get stuck on its graph, its order is topological, its validation is reachability, its loops are
  bounded; a valid crew completes, delegating ones with a manager alone included. An agent's task
  ends; in the agent's own loop it stays within its budget and acts only through allowed tools, and
  in the shared loop, which asks no budget, through allowed tools and those of MCP servers; the shared
  loop is bounded; the session tables refine histories. The guard against internal addresses is the
  masks it documents, and redaction is exact where matches are apart, strict mode refusing more than
  five. A sandboxed module reaches only the range it names, gets its input unchanged and is answered
  with the last output it set, and the cases in which it panics the host are characterised. The cache
  keeps its limits and the models in use while its 32-bit sums do not overflow; a failover answers
  with the first success and cools down the failed back-ends in three tiers; a download delivers
  exactly the announced file, a batch answers every request once. The proxy's limits are exceeded by
  no more than the requests of a client handled at once; the signed bytes of the crew market determine
  their message, and every agent-to-agent call gets one well-formed response; the providers found for
  a model are exactly those known to offer it; the events of the swarm tell its state; the table of
  skills is the last announcements in the fresh batches their senders named themselves in, and the
  skills chosen are the best. Other properties and lemmas state what the code does where it does not
  do what it means to: overlapping debits exceed the limit, a failed write keeps the credit, a channel
  is never settled, a peer's update can take the whole balance, a result from anybody settles a job,
  the remote executor never sees its result, a job whose escrow has expired is lost, a task between
  two thresholds is refused, a model whose size is known never runs locally, overlapping secrets panic
  the redaction, a long output is not scanned, a negative pointer panics the host, a huge model
  bypasses the cache's limit, and a peer can announce skills in another's name.

  \<^bold>\<open>Conventions.\<close> Integers have the width of the source and wrap, as in the release profile. \<open>f64\<close> is
  computed exactly. Strings are UTF-8 byte strings. \<open>HashMap\<close> is an association list, whose order
  stands for the unspecified order of iteration. A time is a number of nanoseconds. Errors and
  panics are values of \<open>outcome\<close> or of a sum. The clock, random identifiers, the result of a database
  write and chrono's addition are fields of the environment; Ed25519, BLAKE3, hex, MessagePack, URL,
  YAML and regex parsing, name resolution and peer ids are parameters.

  \<^bold>\<open>Bounds and fuel.\<close> The wait for a job's result may not end; its number of readings is the argument
  \<open>polls\<close>, and the theorem about it holds for every number. The interpreter counts its steps up to the
  source's \<open>MAX_STEPS\<close> of 10000. An agent's loop ends within 21 turns (20 iterations and the one that
  gives up) and the shared loop makes 20 passes, the source's own bounds, proved sufficient in
  \<open>run_task_ends\<close> and \<open>unified_work_bounded\<close>. Eviction from the cache recurses as often as there are
  models, and cutting a file in chunks as often as it has bytes; each step removes at least one.

  \<^bold>\<open>Not modelled.\<close> The back-ends \<^verbatim>\<open>inference/{gguf,ollama,remote_openai}.rs\<close>, which drive llama.cpp and
  HTTP services; the built-in tools, the chat platforms, the schedule of routines, MCP, the web
  server and the command line, which are input and output; the libp2p transport; the vector store
  and the workspace; the start-up with its configuration, database and identity, which the modelled
  parts see through their environment. The JSON text of answers, \<open>Display\<close> with rounded decimals,
  and logging are left out.
\<close>

end
